(* ===== verification/Prelude.thy ===== *)
theory Prelude
  imports Main "HOL-Library.Word" "HOL-Library.Signed_Division"
begin

text \<open>
  Shared vocabulary of the development: the C integer types and conversions, errno values,
  the combinators that stand for C statement sequences, counted loops, search loops and the
  idiom \<open>err = f(); if (err < 0) return err;\<close>, the log logic that says which I/O an
  operation may emit, and the law of masked register fields.
\<close>

unbundle bit_operations_syntax

named_theorems emits_intro \<open>rules that show which log entries an operation may emit\<close>

subsection \<open>C integers\<close>

type_synonym u8 = "8 word"
type_synonym u16 = "16 word"
type_synonym u32 = "32 word"

text \<open>
  Signed C integers are HOL integers; \<open>s32\<close>, \<open>s16\<close> and \<open>s64\<close> are the two's complement
  wrap-around to their width (the kernel is built with wrapping signed arithmetic).
\<close>

definition s16 :: "int \<Rightarrow> int" where
  "s16 x = (x + 2 ^ 15) mod 2 ^ 16 - 2 ^ 15"

definition s32 :: "int \<Rightarrow> int" where
  "s32 x = (x + 2 ^ 31) mod 2 ^ 32 - 2 ^ 31"

definition s64 :: "int \<Rightarrow> int" where
  "s64 x = (x + 2 ^ 63) mod 2 ^ 64 - 2 ^ 63"

lemma s32_id: "- (2 ^ 31) \<le> x \<Longrightarrow> x < 2 ^ 31 \<Longrightarrow> s32 x = x"
  by (simp add: s32_def)

lemma s64_id: "- (2 ^ 63) \<le> x \<Longrightarrow> x < 2 ^ 63 \<Longrightarrow> s64 x = x"
  by (simp add: s64_def)

lemma s16_id: "- (2 ^ 15) \<le> x \<Longrightarrow> x < 2 ^ 15 \<Longrightarrow> s16 x = x"
  by (simp add: s16_def)

lemma s32_range: "- (2 ^ 31) \<le> s32 x \<and> s32 x < 2 ^ 31"
  using pos_mod_bound [of "2 ^ 32" "x + 2 ^ 31"] pos_mod_sign [of "2 ^ 32" "x + 2 ^ 31"]
  by (simp add: s32_def)

text \<open>C division truncates towards zero: \<open>sdiv\<close> of the library.\<close>

lemma sdiv_nonneg: "0 \<le> a \<Longrightarrow> 0 \<le> b \<Longrightarrow> (a::int) sdiv b = a div b"
  by (cases "a = 0"; cases "b = 0") (auto simp: signed_divide_int_def sgn_if)

abbreviation (input) EINVAL :: int where "EINVAL \<equiv> 22"
abbreviation (input) ENODEV :: int where "ENODEV \<equiv> 19"
abbreviation (input) EBUSY :: int where "EBUSY \<equiv> 16"

subsection \<open>Statement sequences and loops\<close>

text \<open>\<open>seq [f, g, h]\<close> is the C block \<open>f(); g(); h();\<close> over an explicit state.\<close>

fun seq :: "('s \<Rightarrow> 's) list \<Rightarrow> 's \<Rightarrow> 's" where
  "seq [] s = s"
| "seq (f # fs) s = seq fs (f s)"

text \<open>\<open>for (i = lo; i <= hi; i++) body\<close> and \<open>for (i = hi; i >= lo; i--) body\<close>.\<close>

definition for_up :: "int \<Rightarrow> int \<Rightarrow> (int \<Rightarrow> 's \<Rightarrow> 's) \<Rightarrow> 's \<Rightarrow> 's" where
  "for_up lo hi body = fold body [lo..hi]"

definition for_down :: "int \<Rightarrow> int \<Rightarrow> (int \<Rightarrow> 's \<Rightarrow> 's) \<Rightarrow> 's \<Rightarrow> 's" where
  "for_down hi lo body = fold body (rev [lo..hi])"

lemma upto_numeral_0 [simp]: "[0..numeral n] = (0::int) # [1..numeral n]"
  by (simp add: upto_rec1)

lemma upto_numeral_1 [simp]:
  "[1..numeral n] = (1::int) # [2..numeral n]" "[0..1] = [0::int, 1]"
  by (simp_all add: upto_rec1)

lemma seq_append: "seq (fs @ gs) s = seq gs (seq fs s)"
  by (induction fs arbitrary: s) auto

text \<open>
  \<open>for (i = 0; i < n; i++) if (P(a[i])) break;\<close> leaves the index of the first hit, or
  \<open>n\<close> when there is none.
\<close>

fun find_idx :: "('a \<Rightarrow> bool) \<Rightarrow> 'a list \<Rightarrow> nat" where
  "find_idx P [] = 0"
| "find_idx P (x # xs) = (if P x then 0 else Suc (find_idx P xs))"

lemma find_idx_le: "find_idx P xs \<le> length xs"
  by (induction xs) auto

lemma find_idx_less_iff: "find_idx P xs < length xs \<longleftrightarrow> (\<exists>x\<in>set xs. P x)"
  by (induction xs) auto

lemma find_idx_eq_length: "find_idx P xs = length xs \<longleftrightarrow> (\<forall>x\<in>set xs. \<not> P x)"
  by (induction xs) auto

lemma find_idx_hit: "find_idx P xs < length xs \<Longrightarrow> P (xs ! find_idx P xs)"
  by (induction xs) auto

lemma find_idx_before: "j < find_idx P xs \<Longrightarrow> \<not> P (xs ! j)"
  by (induction xs arbitrary: j) (auto simp: nth_Cons' split: if_splits)

subsection \<open>Results: a fault is None, an error code is an int\<close>

text \<open>
  A kernel function that may fault (division by zero, a wild pointer, a blocked mutex)
  returns \<open>None\<close> when it does; otherwise its C return code and the new state.
  \<open>chk r k\<close> is \<open>err = r; if (err < 0) return err; k\<close> and \<open>andthen r k\<close> runs
  \<open>k\<close> with the code whatever it is.
\<close>

type_synonym 's res = "(int \<times> 's) option"

definition chk :: "'s res \<Rightarrow> ('s \<Rightarrow> 's res) \<Rightarrow> 's res" where
  "chk r k = (case r of None \<Rightarrow> None
     | Some (err, s) \<Rightarrow> if err < 0 then Some (err, s) else k s)"

definition andthen :: "'s res \<Rightarrow> (int \<Rightarrow> 's \<Rightarrow> 's res) \<Rightarrow> 's res" where
  "andthen r k = (case r of None \<Rightarrow> None | Some (err, s) \<Rightarrow> k err s)"

lemma chk_Some [simp]: "chk (Some (err, s)) k = (if err < 0 then Some (err, s) else k s)"
  by (simp add: chk_def)

lemma chk_None [simp]: "chk None k = None"
  by (simp add: chk_def)

lemma andthen_Some [simp]: "andthen (Some (err, s)) k = k err s"
  by (simp add: andthen_def)

lemma andthen_None [simp]: "andthen None k = None"
  by (simp add: andthen_def)

lemma chk_okE:
  assumes "chk r k = Some (err, t)" and "0 \<le> err"
  obtains e s where "r = Some (e, s)" and "0 \<le> e" and "k s = Some (err, t)"
  using assms by (auto simp: chk_def split: option.splits if_splits)

subsection \<open>Log logic\<close>

text \<open>
  Operations only add entries to the log of their state (newest first). \<open>emits log P f\<close>
  says that every entry \<open>f\<close> adds satisfies \<open>P\<close>, and that the old log is its tail.
\<close>

definition emits :: "('s \<Rightarrow> 'e list) \<Rightarrow> ('e \<Rightarrow> bool) \<Rightarrow> ('s \<Rightarrow> 's) \<Rightarrow> bool" where
  "emits log P f \<longleftrightarrow> (\<forall>s. \<exists>xs. log (f s) = xs @ log s \<and> list_all P xs)"

lemma emits_skip [emits_intro]: "emits log P (\<lambda>s. s)"
  by (simp add: emits_def)

lemma emits_comp:
  assumes "emits log P f" and "emits log P g"
  shows "emits log P (\<lambda>s. g (f s))"
  unfolding emits_def
proof
  fix s
  from assms(1) obtain xs where "log (f s) = xs @ log s" "list_all P xs"
    unfolding emits_def by blast
  moreover from assms(2) obtain ys where "log (g (f s)) = ys @ log (f s)" "list_all P ys"
    unfolding emits_def by blast
  ultimately have "log (g (f s)) = (ys @ xs) @ log s \<and> list_all P (ys @ xs)" by simp
  then show "\<exists>zs. log (g (f s)) = zs @ log s \<and> list_all P zs" by blast
qed

lemma emits_dep:
  "(\<And>x. emits log P (f x)) \<Longrightarrow> emits log P (\<lambda>s. f (h s) s)"
  by (simp add: emits_def)

lemma emits_if [emits_intro]:
  "(c \<Longrightarrow> emits log P f) \<Longrightarrow> (\<not> c \<Longrightarrow> emits log P g) \<Longrightarrow>
   emits log P (if c then f else g)"
  by simp

lemma emits_if_state [emits_intro]:
  "emits log P f \<Longrightarrow> emits log P g \<Longrightarrow> emits log P (\<lambda>s. if c s then f s else g s)"
  by (simp add: emits_def)

lemma emits_fold:
  assumes "\<And>i. i \<in> set xs \<Longrightarrow> emits log P (body i)"
  shows "emits log P (fold body xs)"
  using assms
proof (induction xs)
  case Nil
  show ?case using emits_skip [of log P] by (simp add: id_def)
next
  case (Cons x xs)
  have "emits log P (body x)" and "emits log P (fold body xs)"
    using Cons by simp_all
  from emits_comp [OF this] show ?case by (simp add: comp_def)
qed

lemma emits_for_up [emits_intro]:
  "(\<And>i. lo \<le> i \<Longrightarrow> i \<le> hi \<Longrightarrow> emits log P (body i)) \<Longrightarrow> emits log P (for_up lo hi body)"
  unfolding for_up_def by (rule emits_fold) simp

lemma emits_for_down [emits_intro]:
  "(\<And>i. lo \<le> i \<Longrightarrow> i \<le> hi \<Longrightarrow> emits log P (body i)) \<Longrightarrow> emits log P (for_down hi lo body)"
  unfolding for_down_def by (rule emits_fold) simp

lemma emits_seq_Nil [emits_intro]: "emits log P (seq [])"
  by (simp add: emits_def)

lemma emits_seq_Cons [emits_intro]:
  "emits log P f \<Longrightarrow> emits log P (seq fs) \<Longrightarrow> emits log P (seq (f # fs))"
  using emits_comp [of log P f "seq fs"] by (simp add: emits_def)

lemma emits_mono:
  assumes "emits log P f" and "\<And>x. P x \<Longrightarrow> Q x"
  shows "emits log Q f"
  using assms unfolding emits_def by (metis (mono_tags) list.pred_mono_strong)

lemma emitsE:
  assumes "emits log P f"
  obtains xs where "log (f s) = xs @ log s" and "list_all P xs"
  using assms unfolding emits_def by blast

subsection \<open>Keeping a predicate\<close>

definition keeps :: "('s \<Rightarrow> bool) \<Rightarrow> ('s \<Rightarrow> 's) \<Rightarrow> bool" where
  "keeps I f \<longleftrightarrow> (\<forall>s. I s \<longrightarrow> I (f s))"

named_theorems keeps_intro \<open>operations that keep an invariant\<close>

lemma keepsD: "keeps I f \<Longrightarrow> I s \<Longrightarrow> I (f s)"
  by (simp add: keeps_def)

lemma keeps_seq_Nil [keeps_intro]: "keeps I (seq [])"
  by (simp add: keeps_def)

lemma keeps_seq_Cons [keeps_intro]: "keeps I f \<Longrightarrow> keeps I (seq fs) \<Longrightarrow> keeps I (seq (f # fs))"
  by (simp add: keeps_def)

lemma keeps_fold: "(\<And>i. i \<in> set xs \<Longrightarrow> keeps I (body i)) \<Longrightarrow> keeps I (fold body xs)"
  by (induction xs) (auto simp: keeps_def)

lemma keeps_for_up [keeps_intro]:
  "(\<And>i. lo \<le> i \<Longrightarrow> i \<le> hi \<Longrightarrow> keeps I (body i)) \<Longrightarrow> keeps I (for_up lo hi body)"
  unfolding for_up_def by (rule keeps_fold) simp

lemma keeps_for_down [keeps_intro]:
  "(\<And>i. lo \<le> i \<Longrightarrow> i \<le> hi \<Longrightarrow> keeps I (body i)) \<Longrightarrow> keeps I (for_down hi lo body)"
  unfolding for_down_def by (rule keeps_fold) simp

lemma keeps_if [keeps_intro]:
  "(c \<Longrightarrow> keeps I f) \<Longrightarrow> (\<not> c \<Longrightarrow> keeps I g) \<Longrightarrow> keeps I (if c then f else g)"
  by simp

lemma keeps_if_state [keeps_intro]:
  "keeps I f \<Longrightarrow> keeps I g \<Longrightarrow> keeps I (\<lambda>s. if c s then f s else g s)"
  by (simp add: keeps_def)

lemma keeps_skip [keeps_intro]: "keeps I (\<lambda>s. s)"
  by (simp add: keeps_def)

lemma keeps_comp: "keeps I f \<Longrightarrow> keeps I g \<Longrightarrow> keeps I (\<lambda>s. g (f s))"
  by (simp add: keeps_def)

subsection \<open>Masked register fields\<close>

text \<open>
  A read-modify-write of the bits of \<open>m\<close>: \<open>(old & ~m) | (val & m)\<close>. The locale says
  that a mask is one contiguous field of \<open>w\<close> bits at bit \<open>sh\<close>, as \<open>GENMASK\<close> and
  \<open>BIT\<close> build them; every mask of the register maps is interpreted below as such a field.
\<close>

definition mask_put :: "'a::len word \<Rightarrow> 'a word \<Rightarrow> 'a word \<Rightarrow> 'a word" where
  "mask_put m val old = (old AND NOT m) OR (val AND m)"

lemma mask_put_in: "mask_put m val old AND m = val AND m"
  by (intro bit_word_eqI) (auto simp: mask_put_def bit_simps)

lemma mask_put_out: "m AND m' = 0 \<Longrightarrow> mask_put m val old AND m' = old AND m'"
proof (intro bit_word_eqI)
  fix n
  assume "m AND m' = 0" and "n < LENGTH('a)"
  then have "\<not> (bit m n \<and> bit m' n)" by (metis bit_and_iff bit_0_eq bot_apply bot_bool_def)
  then show "bit (mask_put m val old AND m') n = bit (old AND m') n"
    using \<open>n < LENGTH('a)\<close> by (auto simp: mask_put_def bit_simps)
qed

lemma unat_u8_u32: "unat (ucast (x :: u8) :: u32) = unat x"
proof -
  have "uint (ucast x :: u32) = uint x" by (simp add: uint_up_ucast is_up)
  then show ?thesis by (simp only: unat_eq_nat_uint)
qed

locale bit_field =
  fixes m :: "'a::len word" and sh :: nat and w :: nat
  assumes mask_is: "m = push_bit sh (mask w)"
    and fits: "sh + w \<le> LENGTH('a)"
begin

lemma bit_m: "bit m n \<longleftrightarrow> sh \<le> n \<and> n < sh + w"
  using fits by (auto simp: mask_is bit_simps)

lemma get_put: "drop_bit sh (mask_put m (push_bit sh v) old AND m) = take_bit w v"
proof (intro bit_word_eqI)
  fix n
  assume "n < LENGTH('a)"
  have "bit (drop_bit sh (mask_put m (push_bit sh v) old AND m)) n \<longleftrightarrow>
        n < w \<and> bit v n"
    using fits by (auto simp: mask_put_in bit_m bit_simps)
  then show "bit (drop_bit sh (mask_put m (push_bit sh v) old AND m)) n = bit (take_bit w v) n"
    by (simp add: bit_simps)
qed

lemma get_zero: "drop_bit sh (x AND m) = 0 \<longleftrightarrow> x AND m = 0"
proof
  assume z: "drop_bit sh (x AND m) = 0"
  show "x AND m = 0"
  proof (intro bit_word_eqI)
    fix n
    have "\<not> bit (x AND m) n" if "sh \<le> n"
      using arg_cong [OF z, of "\<lambda>y. bit y (n - sh)"] that by (simp only: bit_drop_bit_eq) simp
    moreover have "\<not> bit (x AND m) n" if "\<not> sh \<le> n"
      using that by (simp add: bit_and_iff bit_m)
    ultimately show "bit (x AND m) n = bit 0 n" by auto
  qed
qed simp

lemma get_bound: "unat (drop_bit sh (x AND m)) < 2 ^ w"
proof -
  have "drop_bit sh (x AND m) = take_bit w (drop_bit sh (x AND m))"
    using fits by (intro bit_word_eqI) (auto simp: bit_m bit_simps)
  then have "unat (drop_bit sh (x AND m)) = take_bit w (unat (drop_bit sh (x AND m)))"
    by (metis unsigned_take_bit_eq)
  then show ?thesis by (metis take_bit_nat_less_exp)
qed

end

subsection \<open>Work items that reschedule themselves\<close>

text \<open>
  A work function that counts its runs and schedules itself again while runs are left. The
  laws are those of one execution; the client's fact is the exact number of executions.
\<close>

locale counted_work =
  fixes work :: "'s \<Rightarrow> 's" and pending :: "'s \<Rightarrow> bool" and left :: "'s \<Rightarrow> nat"
    and inv :: "'s \<Rightarrow> bool"
  assumes inv_work: "inv s \<Longrightarrow> inv (work s)"
    and again: "inv s \<Longrightarrow> pending (work s) \<longleftrightarrow> 0 < left s"
    and count_down: "inv s \<Longrightarrow> 0 < left s \<Longrightarrow> left (work s) = left s - 1"
begin

lemma run_inv: "inv s \<Longrightarrow> inv ((work ^^ n) s)"
  by (induction n) (simp_all add: inv_work)

lemma run_left: "inv s \<Longrightarrow> n \<le> left s \<Longrightarrow> left ((work ^^ n) s) = left s - n"
  by (induction n) (simp_all add: count_down run_inv)

lemma runs_exactly:
  assumes "inv s"
  shows "(\<forall>n. 0 < n \<and> n \<le> left s \<longrightarrow> pending ((work ^^ n) s)) \<and>
    \<not> pending ((work ^^ Suc (left s)) s)"
proof (intro conjI allI impI)
  fix n
  assume n: "0 < n \<and> n \<le> left s"
  then obtain k where k: "n = Suc k" by (cases n) auto
  then have "left ((work ^^ k) s) = left s - k" using n assms by (simp add: run_left)
  then show "pending ((work ^^ n) s)" using n k assms by (simp add: again run_inv)
next
  have "left ((work ^^ left s) s) = 0" using assms by (simp add: run_left)
  then show "\<not> pending ((work ^^ Suc (left s)) s)" using assms by (simp add: again run_inv)
qed

end

subsection \<open>Number printing\<close>

text \<open>\<open>%u\<close> and \<open>%x\<close> of the kernel's \<open>sprintf\<close>, and the newline character.\<close>

fun show_dec :: "nat \<Rightarrow> string" where
  "show_dec n = (if n < 10 then [char_of (48 + n)]
     else show_dec (n div 10) @ [char_of (48 + n mod 10)])"

fun show_hex :: "nat \<Rightarrow> string" where
  "show_hex n = (if n < 16 then [''0123456789abcdef'' ! n]
     else show_hex (n div 16) @ [''0123456789abcdef'' ! (n mod 16)])"

declare show_dec.simps [simp del] show_hex.simps [simp del]

abbreviation (input) nl :: string where "nl \<equiv> [CHR 0x0A]"

end
