(* ===== verification/Ktd_Device.thy ===== *)
theory Ktd_Device
  imports Prelude
begin

text \<open>
  The KTD2058 LED ring driver, \<open>led/MKD2061/led_src/leds-ktd2061.c\<close>, first part: the
  state of \<open>struct ktd2058_chip\<close>, register access over SMBus, the colour, select and mode
  primitives. The SMBus adapter, the random source and uninitialised stack bytes are the
  kernel's: \<open>ktd_env\<close> holds them as functions of the I/O done so far (newest first).
\<close>

subsection \<open>State\<close>

datatype ktd_io = I2cWrite u8 u8 | I2cRead u8 | Msleep int | RandomBytes

record ktd_env =
  smbus_write_byte_data :: "ktd_io list \<Rightarrow> u8 \<Rightarrow> u8 \<Rightarrow> int"
  smbus_read_byte_data :: "ktd_io list \<Rightarrow> u8 \<Rightarrow> int"
  random_u8 :: "ktd_io list \<Rightarrow> u8"
  stack_u8 :: "ktd_io list \<Rightarrow> u8"

abbreviation (input) REG_ID :: int where "REG_ID \<equiv> 0x00"
abbreviation (input) REG_CONTROL :: int where "REG_CONTROL \<equiv> 0x02"
abbreviation (input) REG_IRED0 :: int where "REG_IRED0 \<equiv> 0x03"
abbreviation (input) REG_IGRN0 :: int where "REG_IGRN0 \<equiv> 0x04"
abbreviation (input) REG_IBLU0 :: int where "REG_IBLU0 \<equiv> 0x05"
abbreviation (input) REG_IRED1 :: int where "REG_IRED1 \<equiv> 0x06"
abbreviation (input) REG_IGRN1 :: int where "REG_IGRN1 \<equiv> 0x07"
abbreviation (input) REG_IBLU1 :: int where "REG_IBLU1 \<equiv> 0x08"

text \<open>\<open>enum ktd2058_mode\<close>: the functions take it as an \<open>int\<close> and have a default case.\<close>

abbreviation (input) GLOBAL_OFF :: int where "GLOBAL_OFF \<equiv> 0x00"
abbreviation (input) NIGHT_MODE :: int where "NIGHT_MODE \<equiv> 0x01"
abbreviation (input) NORMAL_MODE :: int where "NORMAL_MODE \<equiv> 0x02"
abbreviation (input) DEFAULT :: int where "DEFAULT \<equiv> 0x03"

datatype ktd2058_br_level = BR_OFF | BR_NORMAL | BR_2COLORS | BR_LOGSCALE | BR_DEMO
  | BR_FLOWERS | BR_LOGSCALE_DEMO | BR_White | STOP

text \<open>
  \<open>enum ktd2058_chase_level\<close> stays an integer: the \<open>chase\<close> attribute stores any value
  below 20 in it, more than the thirteen names.
\<close>

abbreviation (input) CHASE_OFF :: int where "CHASE_OFF \<equiv> 0"
abbreviation (input) CHASEUP_1 :: int where "CHASEUP_1 \<equiv> 1"
abbreviation (input) CHASEDOWN_1 :: int where "CHASEDOWN_1 \<equiv> 2"
abbreviation (input) CHASEUP_2 :: int where "CHASEUP_2 \<equiv> 3"
abbreviation (input) CHASEDOWN_2 :: int where "CHASEDOWN_2 \<equiv> 4"
abbreviation (input) CHASEUP_3 :: int where "CHASEUP_3 \<equiv> 5"
abbreviation (input) CHASEDOWN_3 :: int where "CHASEDOWN_3 \<equiv> 6"
abbreviation (input) CHASEUP_4 :: int where "CHASEUP_4 \<equiv> 7"
abbreviation (input) CHASEDOWN_4 :: int where "CHASEDOWN_4 \<equiv> 8"
abbreviation (input) CHASE_2COLORS_UP :: int where "CHASE_2COLORS_UP \<equiv> 9"
abbreviation (input) CHASE_2COLORS_DOWN :: int where "CHASE_2COLORS_DOWN \<equiv> 10"
abbreviation (input) CHASE_DEMO :: int where "CHASE_DEMO \<equiv> 11"
abbreviation (input) CHASE_AMZ :: int where "CHASE_AMZ \<equiv> 12"

record ktd2058_platform_data =
  brightextend :: u32
  ce_temp :: u32
  fade_rate :: u32
  en_mode :: u32

record ktd2058_breath_ops =
  br_level :: ktd2058_br_level
  br_fade_on :: u8
  br_fade_off :: u8
  br_time_on :: int
  br_time_off :: int
  br_en :: int
  br_cnt :: int
  br_max_cnt :: int

record ktd2058_chase_ops =
  ch_level :: int
  ch_fade :: u8
  ch_delay :: int
  ch_cnt :: int
  ch_max_cnt :: int

text \<open>
  \<open>work_chase\<close> and \<open>work_breathing\<close> are the pending bits of the two work items:
  \<open>schedule_work\<close> sets one, \<open>cancel_work_sync\<close> clears it. \<open>kio\<close> is the I/O log.
\<close>

record ktd2058_chip =
  client :: ktd_env
  pdata :: ktd2058_platform_data
  br_ops :: ktd2058_breath_ops
  chase_ops :: ktd2058_chase_ops
  work_chase :: bool
  work_breathing :: bool
  kio :: "ktd_io list"

subsection \<open>Register access\<close>

definition ktd2058_write_reg :: "int \<Rightarrow> u8 \<Rightarrow> ktd2058_chip \<Rightarrow> int \<times> ktd2058_chip" where
  "ktd2058_write_reg reg value s =
     (smbus_write_byte_data (client s) (kio s) (word_of_int reg) value,
      s\<lparr>kio := I2cWrite (word_of_int reg) value # kio s\<rparr>)"

text \<open>The byte is only stored through \<open>val\<close> when the transfer succeeds.\<close>

definition ktd2058_read_reg :: "int \<Rightarrow> ktd2058_chip \<Rightarrow> int \<times> u8 option \<times> ktd2058_chip" where
  "ktd2058_read_reg reg s =
     (let ret = smbus_read_byte_data (client s) (kio s) (word_of_int reg);
          s' = s\<lparr>kio := I2cRead (word_of_int reg) # kio s\<rparr>
      in if ret < 0 then (ret, None, s') else (ret, Some (word_of_int ret), s'))"

definition ktd2058_masked_write :: "int \<Rightarrow> u8 \<Rightarrow> u8 \<Rightarrow> ktd2058_chip \<Rightarrow> int \<times> ktd2058_chip" where
  "ktd2058_masked_write reg msk val s =
     (case ktd2058_read_reg reg s of (rc, temp, s1) \<Rightarrow>
        (case (case temp of None \<Rightarrow> (rc, s1)
               | Some t \<Rightarrow> ktd2058_write_reg reg ((t AND NOT msk) OR (val AND msk)) s1)
         of (rc', s2) \<Rightarrow> (case ktd2058_read_reg reg s2 of (_, _, s3) \<Rightarrow> (rc', s3))))"

text \<open>A call whose return code is ignored, and \<open>msleep\<close>.\<close>

definition ktd_write :: "int \<Rightarrow> u8 \<Rightarrow> ktd2058_chip \<Rightarrow> ktd2058_chip" where
  "ktd_write reg value s = snd (ktd2058_write_reg reg value s)"

definition msleep :: "int \<Rightarrow> ktd2058_chip \<Rightarrow> ktd2058_chip" where
  "msleep ms s = s\<lparr>kio := Msleep ms # kio s\<rparr>"

definition ktd_pow :: "int \<Rightarrow> int \<Rightarrow> int" where
  "ktd_pow a b = fold (\<lambda>_ c. s32 (c * a)) [1..b - 1] a"

definition DIV_ROUND_UP :: "int \<Rightarrow> int \<Rightarrow> int" where
  "DIV_ROUND_UP n d = (n + d - 1) sdiv d"

subsection \<open>Colours, selection, mode\<close>

definition ktd2058_set_color0 :: "u8 \<Rightarrow> u8 \<Rightarrow> u8 \<Rightarrow> ktd2058_chip \<Rightarrow> ktd2058_chip" where
  "ktd2058_set_color0 ired igreen iblue = seq
     [ktd_write REG_IRED0 ired, ktd_write REG_IGRN0 igreen, ktd_write REG_IBLU0 iblue]"

definition ktd2058_set_color1 :: "u8 \<Rightarrow> u8 \<Rightarrow> u8 \<Rightarrow> ktd2058_chip \<Rightarrow> ktd2058_chip" where
  "ktd2058_set_color1 ired igreen iblue = seq
     [ktd_write REG_IRED1 ired, ktd_write REG_IGRN1 igreen, ktd_write REG_IBLU1 iblue]"

definition ktd2058_select_all_colors ::
    "u8 \<Rightarrow> u8 \<Rightarrow> u8 \<Rightarrow> u8 \<Rightarrow> u8 \<Rightarrow> u8 \<Rightarrow> int \<Rightarrow> ktd2058_chip \<Rightarrow> ktd2058_chip" where
  "ktd2058_select_all_colors isela12 isela34 iselb12 iselb34 iselc12 iselc34 delay = seq
     [ktd_write 0x09 isela12, ktd_write 0x0A isela34, ktd_write 0x0B iselb12,
      ktd_write 0x0C iselb34, ktd_write 0x0D iselc12, ktd_write 0x0E iselc34, msleep delay]"

text \<open>\<open>isel\<close> is not initialised for any other \<open>color\<close>: it is then a stack byte.\<close>

definition ktd2058_select_color :: "int \<Rightarrow> u8 \<Rightarrow> ktd2058_chip \<Rightarrow> ktd2058_chip" where
  "ktd2058_select_color color sel s =
     (let isel = (if color = 0 then 0x88 else if color = 1 then 0xFF
                  else if color = 3 then 0x00 else if color = 4 then sel
                  else stack_u8 (client s) (kio s))
      in for_up 0x09 0x0F (\<lambda>i. ktd_write i isel) s)"

definition ktd2058_set_random_palette :: "u8 \<Rightarrow> ktd2058_chip \<Rightarrow> ktd2058_chip" where
  "ktd2058_set_random_palette imax = for_up 0x03 0x08 (\<lambda>i s.
     (let rnd = random_u8 (client s) (kio s) mod 5;
          iset = DIV_ROUND_UP (uint imax sdiv (2 * 2 ^ unat rnd)) 1
      in ktd_write i (word_of_int iset) (s\<lparr>kio := RandomBytes # kio s\<rparr>)))"

definition ktd2058_select_one :: "u8 \<Rightarrow> u8 \<Rightarrow> int \<Rightarrow> ktd2058_chip \<Rightarrow> ktd2058_chip" where
  "ktd2058_select_one reg data delay = seq [ktd_write (uint reg) data, msleep delay]"

definition ktd2058_mode_change :: "int \<Rightarrow> u8 \<Rightarrow> ktd2058_chip \<Rightarrow> ktd2058_chip" where
  "ktd2058_mode_change mode fade s =
     (let value = (ucast (push_bit 5 (brightextend (pdata s)) OR push_bit 3 (ce_temp (pdata s))
                     OR ucast fade) :: u8);
          s1 = s\<lparr>pdata := (pdata s)\<lparr>fade_rate := ucast fade\<rparr>\<rparr>
      in if mode = GLOBAL_OFF then ktd_write REG_CONTROL value s1
         else if mode = NIGHT_MODE then ktd_write REG_CONTROL (0x40 OR value) s1
         else if mode = NORMAL_MODE then ktd_write REG_CONTROL (0x80 OR value) s1
         else if mode = DEFAULT then
           (let s2 = ktd_write REG_CONTROL (0x07 OR value) s1
            in s2\<lparr>pdata := (pdata s2)\<lparr>fade_rate := 0x07\<rparr>\<rparr>)
         else s1)"

definition ktd2058_util_color_palette :: "u8 \<Rightarrow> int \<Rightarrow> ktd2058_chip \<Rightarrow> ktd2058_chip" where
  "ktd2058_util_color_palette fade delay = seq
     [ktd2058_mode_change DEFAULT 0x00,
      ktd2058_set_color0 0x00 0x00 0x00,
      ktd2058_set_color1 0x80 0x80 0x80,
      ktd2058_select_all_colors 0x88 0x89 0xAB 0xCD 0xEF 0xFF 0,
      ktd2058_mode_change NORMAL_MODE fade,
      msleep delay]"

text \<open>
  \<open>ktd_parse_dt\<close>: three optional device-tree properties into a zeroed \<open>pdata\<close>;
  \<open>of_property_read_u32\<close> is the argument \<open>prop\<close>, and a failed allocation is \<open>None\<close>.
\<close>

definition dt_field :: "(string \<Rightarrow> int \<times> u32) \<Rightarrow> string \<Rightarrow> u32 \<Rightarrow> u32" where
  "dt_field prop nm old = (case prop nm of (rc, temp) \<Rightarrow> if rc \<noteq> 0 then old else temp)"

definition ktd_parse_dt :: "(string \<Rightarrow> int \<times> u32) \<Rightarrow> bool \<Rightarrow> ktd2058_platform_data option" where
  "ktd_parse_dt prop alloc_ok =
     (if \<not> alloc_ok then None
      else Some \<lparr>brightextend = dt_field prop ''brightextend'' 0,
                 ce_temp = dt_field prop ''ce-temp'' 0,
                 fade_rate = dt_field prop ''fade-rate'' 0, en_mode = 0\<rparr>)"

end
