(* ===== verification/Ktd_Chase.thy ===== *)
theory Ktd_Chase
  imports Ktd_Device
begin

text \<open>
  The chasing, racing and flowing sequences of \<open>leds-ktd2061.c\<close> and the work function
  \<open>ktd2058_chase_ctrl_work\<close>. A sequence is the list of its calls; a C \<open>for\<close> over the
  select registers is \<open>for_up\<close> or \<open>for_down\<close> with the bounds of the source.
\<close>

text \<open>\<open>enum chase_state\<close>, and the conversion of an \<open>int\<close> register number to \<open>u8\<close>.\<close>

abbreviation (input) UP :: int where "UP \<equiv> 0x00"
abbreviation (input) DOWN :: int where "DOWN \<equiv> 1"

definition select_int :: "int \<Rightarrow> u8 \<Rightarrow> int \<Rightarrow> ktd2058_chip \<Rightarrow> ktd2058_chip" where
  "select_int i data delay = ktd2058_select_one (word_of_int i) data delay"

subsection \<open>Chases\<close>

definition ktd2058_chase_one :: "int \<Rightarrow> u8 \<Rightarrow> int \<Rightarrow> ktd2058_chip \<Rightarrow> ktd2058_chip" where
  "ktd2058_chase_one state fade delay = seq
     [ktd2058_mode_change NORMAL_MODE fade,
      if state = UP then
        for_up 0x09 0x0F (\<lambda>i. seq
          [select_int i 0x80 delay, select_int i 0xF8 delay, select_int i 0xFF 0])
      else if state = DOWN then
        for_down 0x0E 0x09 (\<lambda>i. seq
          [select_int i 0x08 delay, select_int i 0x8F delay, select_int i 0xFF 0])
      else (\<lambda>s. s)]"

definition ktd2058_chase_two :: "int \<Rightarrow> u8 \<Rightarrow> int \<Rightarrow> ktd2058_chip \<Rightarrow> ktd2058_chip" where
  "ktd2058_chase_two state fade delay = seq
     [ktd2058_mode_change NORMAL_MODE fade,
      if state = UP then
        for_up 0x09 0x0B (\<lambda>i. seq
          [select_int i 0x80 0, select_int (i + 3) 0x80 delay,
           select_int i 0xF8 0, select_int (i + 3) 0xF8 delay,
           select_int i 0xFF 0, select_int (i + 3) 0xFF 0])
      else if state = DOWN then
        for_down 0x0E 0x0C (\<lambda>i. seq
          [select_int i 0x08 0, select_int (i - 3) 0x08 delay,
           select_int i 0x8F 0, select_int (i - 3) 0x8F delay,
           select_int i 0xFF 0, select_int (i - 3) 0xFF 0])
      else (\<lambda>s. s)]"

definition ktd2058_chase_three :: "int \<Rightarrow> u8 \<Rightarrow> int \<Rightarrow> ktd2058_chip \<Rightarrow> ktd2058_chip" where
  "ktd2058_chase_three state fade delay = seq
     [ktd2058_mode_change NORMAL_MODE fade,
      if state = UP then
        for_up 0x09 0x0A (\<lambda>i. seq
          [select_int i 0x80 0, select_int (i + 2) 0x80 0, select_int (i + 4) 0x80 delay,
           select_int i 0xF8 0, select_int (i + 2) 0xF8 0, select_int (i + 4) 0xF8 delay,
           select_int i 0xFF 0, select_int (i + 2) 0xFF 0, select_int (i + 4) 0xFF 0])
      else if state = DOWN then
        for_down 0x0E 0x0D (\<lambda>i. seq
          [select_int i 0x08 0, select_int (i - 2) 0x08 0, select_int (i - 4) 0x08 delay,
           select_int i 0x8F 0, select_int (i - 2) 0x8F 0, select_int (i - 4) 0x8F delay,
           select_int i 0xFF 0, select_int (i - 2) 0xFF 0, select_int (i - 4) 0xFF 0])
      else (\<lambda>s. s)]"

definition ktd2058_chase_four :: "int \<Rightarrow> u8 \<Rightarrow> int \<Rightarrow> ktd2058_chip \<Rightarrow> ktd2058_chip" where
  "ktd2058_chase_four state fade delay = seq
     [ktd2058_mode_change NORMAL_MODE fade,
      if state = UP then seq
        [ktd2058_select_all_colors 0x8F 0xF8 0xFF 0x8F 0xF8 0xFF delay,
         ktd2058_select_all_colors 0xF8 0xFF 0x8F 0xF8 0xFF 0x8F delay,
         ktd2058_select_all_colors 0xFF 0x8F 0xF8 0xFF 0x8F 0xF8 delay]
      else if state = DOWN then seq
        [ktd2058_select_all_colors 0xFF 0x8F 0xF8 0xFF 0x8F 0xF8 delay,
         ktd2058_select_all_colors 0xF8 0xFF 0x8F 0xF8 0xFF 0x8F delay,
         ktd2058_select_all_colors 0x8F 0xF8 0xFF 0x8F 0xF8 0xFF delay]
      else (\<lambda>s. s)]"

definition ktd2058_chase_2colors :: "int \<Rightarrow> u8 \<Rightarrow> int \<Rightarrow> ktd2058_chip \<Rightarrow> ktd2058_chip" where
  "ktd2058_chase_2colors state fade delay = seq
     [ktd2058_mode_change NORMAL_MODE fade,
      if state = UP then seq
        [for_up 0x09 0x0B (\<lambda>i. seq
           [select_int i 0x80 0, select_int (i + 3) 0xF0 delay,
            select_int i 0x08 0, select_int (i + 3) 0x0F delay,
            select_int i 0x00 0, select_int (i + 3) 0x00 0]),
         for_up 0x0C 0x0E (\<lambda>i. seq
           [select_int i 0x80 0, select_int (i - 3) 0xF0 delay,
            select_int i 0x08 0, select_int (i - 3) 0x0F delay,
            select_int i 0x00 0, select_int (i - 3) 0x00 0])]
      else if state = DOWN then seq
        [for_down 0x0E 0x0C (\<lambda>i. seq
           [select_int i 0x08 0, select_int (i - 3) 0x0F delay,
            select_int i 0x80 0, select_int (i - 3) 0xF0 delay,
            select_int i 0x00 0, select_int (i - 3) 0x00 0]),
         for_down 0x0B 0x09 (\<lambda>i. seq
           [select_int i 0x08 0, select_int (i + 3) 0x0F delay,
            select_int i 0x80 0, select_int (i + 3) 0xF0 delay,
            select_int i 0x00 0, select_int (i + 3) 0x00 0])]
      else (\<lambda>s. s)]"

subsection \<open>Demos\<close>

definition ktd2058_chasing_demo :: "ktd2058_chip \<Rightarrow> ktd2058_chip" where
  "ktd2058_chasing_demo = seq
     [ktd2058_select_color 3 0,
      ktd2058_set_color0 0xC0 0xC0 0xC0,
      ktd2058_set_color1 0x00 0x00 0x00,
      for_down 7 1 (\<lambda>fade. ktd2058_chase_one UP (word_of_int fade) 83),
      ktd2058_select_color 3 0,
      ktd2058_set_color1 0x20 0x00 0x00,
      ktd2058_chase_one UP 1 83, ktd2058_chase_one UP 1 83, ktd2058_chase_one UP 1 83,
      ktd2058_chase_one DOWN 1 83, ktd2058_chase_one DOWN 1 83, ktd2058_chase_one DOWN 1 83,
      ktd2058_chase_two DOWN 1 83, ktd2058_chase_two DOWN 1 83, ktd2058_chase_two DOWN 1 83,
      ktd2058_set_color0 0xC0 0x00 0x00,
      ktd2058_set_color1 0x00 0x00 0x10,
      ktd2058_chase_two DOWN 1 83, ktd2058_chase_two DOWN 1 83, ktd2058_chase_two DOWN 1 83,
      ktd2058_select_color 3 0,
      ktd2058_set_color1 0x00 0x00 0xC0,
      for_up 0 7 (\<lambda>i. ktd2058_chase_2colors DOWN 2 83),
      ktd2058_select_color 3 0,
      ktd2058_set_color0 0xC0 0xC0 0x00,
      ktd2058_set_color1 0x00 0x00 0x10,
      ktd2058_chase_two DOWN 1 83, ktd2058_chase_two DOWN 1 83, ktd2058_chase_two DOWN 1 83,
      ktd2058_chase_three DOWN 1 83, ktd2058_chase_three DOWN 1 83,
      ktd2058_chase_three DOWN 1 83,
      for_up 0 2 (\<lambda>fade. ktd2058_chase_four DOWN (word_of_int fade) 83),
      for_down 2 0 (\<lambda>fade. ktd2058_chase_four UP (word_of_int fade) 83),
      ktd2058_chase_three UP 0 83, ktd2058_chase_three UP 0 83, ktd2058_chase_three UP 0 83,
      ktd2058_chase_two UP 1 83, ktd2058_chase_two UP 1 83, ktd2058_chase_two UP 1 83,
      for_up 1 7 (\<lambda>fade. ktd2058_chase_one UP (word_of_int fade) 83),
      ktd2058_select_color 3 0]"

definition ktd2058_chase_amz_demo :: "ktd2058_chip \<Rightarrow> ktd2058_chip" where
  "ktd2058_chase_amz_demo = seq
     [msleep 1700,
      ktd2058_set_color0 0x04 0xC0 0xC0,
      ktd2058_set_color1 0x00 0x00 0x20,
      ktd2058_select_color 1 0,
      ktd2058_mode_change NORMAL_MODE 7,
      msleep 3000,
      ktd2058_chase_one UP 3 110,
      ktd2058_mode_change DEFAULT 0,
      ktd2058_set_color0 0xC0 0x48 0x00,
      ktd2058_set_color1 0x00 0x00 0x00,
      ktd2058_chase_one UP 3 110,
      ktd2058_mode_change GLOBAL_OFF 3,
      msleep 30]"

subsection \<open>Races and flows\<close>

definition ktd2058_race_two :: "int \<Rightarrow> u8 \<Rightarrow> int \<Rightarrow> ktd2058_chip \<Rightarrow> ktd2058_chip" where
  "ktd2058_race_two state fade delay = seq
     [ktd2058_mode_change NORMAL_MODE fade,
      if state = UP then
        for_up 0 2 (\<lambda>j. seq
          [select_int (0x09 + j) 0x80 0, select_int (0x0E - j) 0x08 delay,
           select_int (0x09 + j) 0xF8 0, select_int (0x0E - j) 0x8F delay,
           select_int (0x09 + j) 0xFF 0, select_int (0x0E - j) 0xFF 0])
      else if state = DOWN then
        for_down 0x0E 0x09 (\<lambda>j. seq
          [select_int (0x0B - j) 0x08 0, select_int (0x0C + j) 0x80 delay,
           select_int (0x0B - j) 0x8F 0, select_int (0x0C + j) 0xF8 delay,
           select_int (0x0B - j) 0xFF 0, select_int (0x0C + j) 0xFF 0])
      else (\<lambda>s. s)]"

text \<open>
  \<open>sel_data\<close> is not initialised when \<open>color\<close> is neither 0 nor 1. The products
  \<open>sel_data*16\<close> and \<open>sel_data*17\<close> are computed as \<open>int\<close> and cut to \<open>u8\<close>.
\<close>

definition flow_sel :: "u8 \<Rightarrow> ktd2058_chip \<Rightarrow> u8" where
  "flow_sel color s = (if color = 0 then 0x08 else if color = 1 then 0x0F
     else stack_u8 (client s) (kio s))"

definition ktd2058_flow_one :: "int \<Rightarrow> u8 \<Rightarrow> int \<Rightarrow> u8 \<Rightarrow> ktd2058_chip \<Rightarrow> ktd2058_chip" where
  "ktd2058_flow_one state fade delay color s =
     (let sel_data = flow_sel color s in seq
     [ktd2058_mode_change NORMAL_MODE fade,
      if state = UP then
        for_up 0x09 0x0E (\<lambda>i. seq
          [select_int i (sel_data * 16) delay, select_int i (sel_data * 17) delay])
      else if state = DOWN then
        for_down 0x0E 0x09 (\<lambda>i. seq
          [select_int i sel_data delay, select_int i (sel_data * 17) delay])
      else (\<lambda>s. s)] s)"

definition ktd2058_flow_two :: "int \<Rightarrow> u8 \<Rightarrow> int \<Rightarrow> u8 \<Rightarrow> ktd2058_chip \<Rightarrow> ktd2058_chip" where
  "ktd2058_flow_two state fade delay color s =
     (let sel_data = flow_sel color s in seq
     [ktd2058_mode_change NORMAL_MODE fade,
      if state = UP then
        for_up 0 2 (\<lambda>j. seq
          [select_int (0x09 + j) (sel_data * 16) 0, select_int (0x0E - j) sel_data delay,
           select_int (0x09 + j) (sel_data * 17) 0,
           select_int (0x0E - j) (sel_data * 17) delay])
      else if state = DOWN then
        for_down 0x0E 0x09 (\<lambda>j. seq
          [select_int (0x0B - j) sel_data 0, select_int (0x0C + j) (sel_data * 16) delay,
           select_int (0x0B - j) (sel_data * 17) 0,
           select_int (0x0C + j) (sel_data * 17) delay])
      else (\<lambda>s. s)] s)"

text \<open>A delay of \<open>0.1\<close> in the source converts to the \<open>int\<close> 0.\<close>

definition ktd2058_racing_demo :: "ktd2058_chip \<Rightarrow> ktd2058_chip" where
  "ktd2058_racing_demo = seq
     [ktd2058_select_color 3 0,
      ktd2058_set_color0 0x00 0xC0 0x00,
      ktd2058_set_color1 0x00 0x00 0x00,
      for_down 7 1 (\<lambda>i. ktd2058_race_two UP (word_of_int i) 100),
      ktd2058_race_two UP 1 100, ktd2058_race_two UP 1 100, ktd2058_race_two UP 1 100,
      for_up 0 2 (\<lambda>i. seq [ktd2058_race_two UP 1 83, ktd2058_race_two DOWN 1 83]),
      ktd2058_select_color 3 0,
      ktd2058_set_color1 0x08 0x04 0x00,
      for_up 0 2 (\<lambda>i. seq [ktd2058_race_two UP 1 83, ktd2058_race_two DOWN 1 83]),
      ktd2058_set_color0 0x00 0x30 0xC0,
      for_up 0 2 (\<lambda>i. seq [ktd2058_race_two UP 1 83, ktd2058_race_two DOWN 1 83]),
      ktd2058_race_two DOWN 1 100, ktd2058_race_two DOWN 1 100, ktd2058_race_two DOWN 1 100,
      for_up 1 4 (\<lambda>i. ktd2058_race_two DOWN (word_of_int i) 0),
      ktd2058_select_color 3 0,
      msleep 2000]"

definition ktd2058_flowing_demo :: "ktd2058_chip \<Rightarrow> ktd2058_chip" where
  "ktd2058_flowing_demo = seq
     [ktd2058_mode_change DEFAULT 0,
      ktd2058_select_color 3 0,
      ktd2058_set_color0 0xC0 0x00 0xC0,
      ktd2058_set_color1 0x00 0x00 0x00,
      for_up 0 1 (\<lambda>i. seq
        [ktd2058_flow_one UP 4 83 0, msleep 100,
         ktd2058_flow_one DOWN 2 100 1, ktd2058_flow_one DOWN 4 83 0, msleep 100,
         ktd2058_flow_one UP 2 100 1, ktd2058_set_color0 0xC0 0x09 0x30]),
      msleep 500,
      ktd2058_select_color 3 0,
      ktd2058_set_color0 0xC0 0xC0 0x00,
      ktd2058_set_color1 0x00 0x00 0xC0,
      for_up 0 2 (\<lambda>i. seq
        [ktd2058_flow_two UP 4 100 0, ktd2058_flow_two DOWN 2 0 1, msleep 100,
         ktd2058_flow_two DOWN 2 0 0, ktd2058_flow_two UP 2 0 1, msleep 100]),
      ktd2058_mode_change GLOBAL_OFF 3,
      msleep 2000]"

subsection \<open>The chase work item\<close>

definition schedule_chase :: "ktd2058_chip \<Rightarrow> ktd2058_chip" where
  "schedule_chase s = s\<lparr>work_chase := True\<rparr>"

definition schedule_breathing :: "ktd2058_chip \<Rightarrow> ktd2058_chip" where
  "schedule_breathing s = s\<lparr>work_breathing := True\<rparr>"

definition cancel_chase :: "ktd2058_chip \<Rightarrow> ktd2058_chip" where
  "cancel_chase s = s\<lparr>work_chase := False\<rparr>"

definition cancel_breathing :: "ktd2058_chip \<Rightarrow> ktd2058_chip" where
  "cancel_breathing s = s\<lparr>work_breathing := False\<rparr>"

definition chase_switch :: "int \<Rightarrow> ktd2058_chip \<Rightarrow> ktd2058_chip" where
  "chase_switch level =
     (if level = CHASEUP_1 then ktd2058_chase_one UP 3 1500
      else if level = CHASEDOWN_1 then ktd2058_chase_one DOWN 3 1500
      else if level = CHASEUP_2 then ktd2058_chase_two UP 3 1500
      else if level = CHASEDOWN_2 then ktd2058_chase_two DOWN 3 1500
      else if level = CHASEUP_3 then ktd2058_chase_three UP 3 1500
      else if level = CHASEDOWN_3 then ktd2058_chase_three DOWN 3 1500
      else if level = CHASEUP_4 then ktd2058_chase_four UP 3 1500
      else if level = CHASEDOWN_4 then ktd2058_chase_four DOWN 3 1500
      else if level = CHASE_2COLORS_UP then ktd2058_chase_2colors UP 3 1500
      else if level = CHASE_2COLORS_DOWN then ktd2058_chase_2colors DOWN 3 1500
      else if level = CHASE_DEMO then ktd2058_chasing_demo
      else if level = CHASE_AMZ then ktd2058_chase_amz_demo
      else (\<lambda>s. s))"

definition ktd2058_chase_ctrl_work :: "ktd2058_chip \<Rightarrow> ktd2058_chip" where
  "ktd2058_chase_ctrl_work s0 =
     (let s1 = cancel_breathing s0;
          s = chase_switch (ch_level (chase_ops s1)) s1
      in if ch_cnt (chase_ops s) < ch_max_cnt (chase_ops s)
         then schedule_chase
                (s\<lparr>chase_ops := (chase_ops s)\<lparr>ch_cnt := ch_cnt (chase_ops s) + 1\<rparr>\<rparr>)
         else ktd2058_mode_change DEFAULT 0
                (s\<lparr>chase_ops := (chase_ops s)\<lparr>ch_cnt := 0, ch_level := CHASE_OFF\<rparr>\<rparr>))"

end
