(* ===== verification/Ktd_Sysfs.thy ===== *)
theory Ktd_Sysfs
  imports Ktd_Chase
begin

text \<open>
  The breathing sequences of \<open>leds-ktd2061.c\<close>, the work function
  \<open>ktd2058_breathing_ctrl_work\<close>, and the sysfs attributes: every \<open>_store\<close> and
  \<open>_show\<close> function, and the chip part of \<open>ktd2058_probe\<close>.
\<close>

subsection \<open>Breathing\<close>

definition ktd2058_breath :: "u8 \<Rightarrow> u8 \<Rightarrow> int \<Rightarrow> int \<Rightarrow> ktd2058_chip \<Rightarrow> ktd2058_chip" where
  "ktd2058_breath fade_on fade_off timeon timeoff = seq
     [ktd2058_mode_change NORMAL_MODE fade_on, msleep timeon,
      ktd2058_mode_change GLOBAL_OFF fade_off, msleep timeoff]"

definition ktd2058_breath_2colors ::
    "u8 \<Rightarrow> u8 \<Rightarrow> int \<Rightarrow> int \<Rightarrow> ktd2058_chip \<Rightarrow> ktd2058_chip" where
  "ktd2058_breath_2colors fade_on fade_off timeon timeoff = seq
     [ktd2058_select_color 0 0,
      ktd2058_mode_change NORMAL_MODE fade_on, msleep timeon,
      ktd2058_mode_change GLOBAL_OFF fade_off, msleep timeoff,
      ktd2058_select_color 1 0,
      ktd2058_mode_change NORMAL_MODE fade_on, msleep timeon,
      ktd2058_mode_change GLOBAL_OFF fade_off, msleep timeoff]"

definition breath_ops_breath :: "ktd2058_chip \<Rightarrow> ktd2058_chip" where
  "breath_ops_breath s = ktd2058_breath (br_fade_on (br_ops s)) (br_fade_off (br_ops s))
     (br_time_on (br_ops s)) (br_time_off (br_ops s)) s"

definition palette_list :: "u8 list" where
  "palette_list = [0x99, 0xAA, 0xBB, 0xCC, 0xDD, 0xEE, 0xFF]"

definition ktd2058_breath_demo :: "ktd2058_chip \<Rightarrow> ktd2058_chip" where
  "ktd2058_breath_demo = seq
     [(\<lambda>s. s\<lparr>br_ops := (br_ops s)\<lparr>br_fade_on := 0x07, br_fade_off := 3,
                                   br_time_on := 1500, br_time_off := 1500\<rparr>\<rparr>),
      ktd2058_set_color0 0x00 0x00 0x00,
      ktd2058_set_color1 0xC0 0xC0 0xC0,
      for_up 0 6 (\<lambda>i. seq
        [ktd2058_select_color 4 (palette_list ! nat i), breath_ops_breath])]"

definition gamma_table :: "u8 list" where
  "gamma_table = [4, 5, 7, 10, 16, 24, 36, 52, 72, 97, 124, 176]"

definition ktd2058_breath_white :: "ktd2058_chip \<Rightarrow> ktd2058_chip" where
  "ktd2058_breath_white = seq
     [ktd2058_mode_change NORMAL_MODE 0x01,
      ktd2058_select_color 0 0,
      for_up 0 11 (\<lambda>i. let brightness = gamma_table ! nat i in seq
        [ktd2058_set_color0 brightness brightness brightness, msleep 160]),
      msleep 1000,
      ktd2058_mode_change NORMAL_MODE 0x04,
      ktd2058_set_color0 0x04 0x04 0x04,
      msleep 2000]"

definition logscale_level :: "u8 \<Rightarrow> int \<Rightarrow> u8" where
  "logscale_level c i = word_of_int (DIV_ROUND_UP (uint c) (ktd_pow 2 (7 - i)))"

definition ktd2058_breath_logscale ::
    "u8 \<Rightarrow> u8 \<Rightarrow> u8 \<Rightarrow> u8 \<Rightarrow> ktd2058_chip \<Rightarrow> ktd2058_chip" where
  "ktd2058_breath_logscale fade ired igrn iblu = seq
     [ktd2058_mode_change DEFAULT 0,
      ktd2058_set_color0 0x00 0x00 0x00,
      ktd2058_select_color 0 0,
      ktd2058_mode_change NORMAL_MODE fade,
      for_up 0 7 (\<lambda>i. seq
        [ktd2058_set_color0 (logscale_level ired i) (logscale_level igrn i)
           (logscale_level iblu i),
         msleep 900]),
      msleep (900 * 3),
      ktd2058_set_color0 0x00 0x00 0x00,
      msleep 900]"

definition ktd2058_br_flower_demo :: "ktd2058_chip \<Rightarrow> ktd2058_chip" where
  "ktd2058_br_flower_demo = seq
     [ktd2058_set_random_palette 0xFF,
      ktd2058_select_all_colors 0x80 0xF0 0x80 0xF0 0x80 0xF0 0,
      ktd2058_breath 0x07 0x03 1500 1000,
      ktd2058_set_random_palette 0xFF,
      ktd2058_select_all_colors 0x0F 0x08 0x0F 0x08 0x0F 0x08 0,
      ktd2058_breath 0x07 0x03 1500 1000]"

definition set_br_cnt :: "int \<Rightarrow> ktd2058_chip \<Rightarrow> ktd2058_chip" where
  "set_br_cnt n s = s\<lparr>br_ops := (br_ops s)\<lparr>br_cnt := n\<rparr>\<rparr>"

fun breathing_switch :: "ktd2058_br_level \<Rightarrow> ktd2058_chip \<Rightarrow> ktd2058_chip" where
  "breathing_switch BR_NORMAL = ktd2058_breath 0x07 0x03 1500 1500"
| "breathing_switch BR_2COLORS = ktd2058_breath_2colors 0x07 0x03 1500 1500"
| "breathing_switch BR_LOGSCALE = ktd2058_breath_logscale 0x07 0xC0 0xC0 0x00"
| "breathing_switch BR_DEMO = ktd2058_breath_demo"
| "breathing_switch BR_White = seq [set_br_cnt 6, ktd2058_breath_white]"
| "breathing_switch BR_FLOWERS = ktd2058_br_flower_demo"
| "breathing_switch BR_LOGSCALE_DEMO = ktd2058_breath_logscale 2 0xC0 0xC0 0x00"
| "breathing_switch BR_OFF = ktd2058_breath_logscale 6 0xC0 0x09 0x30"
| "breathing_switch STOP = ktd2058_mode_change GLOBAL_OFF 0x02"

definition ktd2058_breathing_ctrl_work :: "ktd2058_chip \<Rightarrow> ktd2058_chip" where
  "ktd2058_breathing_ctrl_work s0 =
     (let s1 = set_br_cnt (br_cnt (br_ops s0) + 1) s0;
          s = breathing_switch (br_level (br_ops s1)) s1
      in if br_cnt (br_ops s) < br_max_cnt (br_ops s) \<or> br_en (br_ops s) \<ge> 1
         then schedule_breathing s
         else s\<lparr>br_ops := (br_ops s)\<lparr>br_cnt := 0, br_max_cnt := 0, br_en := 0,
                                       br_level := BR_OFF\<rparr>\<rparr>)"

subsection \<open>Store functions\<close>

text \<open>
  A store function gets what \<open>kstrtouint(buf, 10, \<dots>)\<close> makes of the written text,
  \<open>Inl ret\<close> for its error or \<open>Inr value\<close>, and the size of the write; it returns an
  \<open>ssize_t\<close> and the new chip.
\<close>

type_synonym parsed = "int + u32"

type_synonym ktd_store = "parsed \<Rightarrow> int \<Rightarrow> ktd2058_chip \<Rightarrow> int \<times> ktd2058_chip"

definition ktd2058_br_logscale_demo_store :: ktd_store where
  "ktd2058_br_logscale_demo_store p sz s = (case p of Inl ret \<Rightarrow> (ret, s) | Inr value \<Rightarrow>
     (sz, seq
       [cancel_chase, cancel_breathing, msleep 10, ktd2058_mode_change DEFAULT 0, msleep 4000,
        if 0 < value \<and> value < 100 then seq
          [(\<lambda>s. s\<lparr>br_ops := (br_ops s)\<lparr>br_level := BR_LOGSCALE_DEMO,
                                         br_max_cnt := uint value\<rparr>\<rparr>),
           schedule_breathing]
        else (\<lambda>s. s)] s))"

definition ktd2058_br_demo_store :: ktd_store where
  "ktd2058_br_demo_store p sz s = (case p of Inl ret \<Rightarrow> (ret, s) | Inr value \<Rightarrow>
     (sz, seq
       [cancel_chase, cancel_breathing, msleep 10, ktd2058_mode_change DEFAULT 0, msleep 4000,
        if 0 < value \<and> value < 100 then seq
          [(\<lambda>s. s\<lparr>br_ops := (br_ops s)\<lparr>br_level := BR_DEMO,
                                         br_max_cnt := uint value\<rparr>\<rparr>),
           schedule_breathing]
        else (\<lambda>s. s)] s))"

text \<open>\<open>value < 0\<close> is never true of an \<open>unsigned int\<close>.\<close>

definition clamp_u32 :: "u32 \<Rightarrow> u32 \<Rightarrow> u32" where
  "clamp_u32 hi value = (if value > hi then hi else value)"

definition ktd2058_brightextend_store :: ktd_store where
  "ktd2058_brightextend_store p sz s = (case p of Inl ret \<Rightarrow> (ret, s) | Inr v \<Rightarrow>
     (let value = clamp_u32 0x01 v in
     (sz, seq
       [cancel_chase, cancel_breathing,
        (\<lambda>s. s\<lparr>pdata := (pdata s)\<lparr>brightextend := value\<rparr>\<rparr>),
        (\<lambda>s. snd (ktd2058_masked_write REG_CONTROL 0x02 (ucast (push_bit 5 value)) s))] s)))"

definition ktd2058_fade_rate_store :: ktd_store where
  "ktd2058_fade_rate_store p sz s = (case p of Inl ret \<Rightarrow> (ret, s) | Inr v \<Rightarrow>
     (let value = clamp_u32 0x07 v in
     (sz, seq
       [cancel_chase, cancel_breathing,
        (\<lambda>s. s\<lparr>pdata := (pdata s)\<lparr>fade_rate := value\<rparr>\<rparr>),
        (\<lambda>s. snd (ktd2058_masked_write REG_CONTROL 0x07 (ucast value) s))] s)))"

text \<open>This one cancels the work items before it parses.\<close>

definition ktd2058_ce_temp_store :: ktd_store where
  "ktd2058_ce_temp_store p sz s0 = (let s = cancel_breathing (cancel_chase s0) in
     (case p of Inl ret \<Rightarrow> (ret, s) | Inr v \<Rightarrow>
       (let value = clamp_u32 0x03 v in
       (sz, seq
         [(\<lambda>s. s\<lparr>pdata := (pdata s)\<lparr>ce_temp := value\<rparr>\<rparr>),
          (\<lambda>s. snd (ktd2058_masked_write REG_CONTROL 0x18 (ucast (push_bit 3 value)) s))] s))))"

definition ktd2058_breathing_store :: ktd_store where
  "ktd2058_breathing_store p sz s = (case p of Inl ret \<Rightarrow> (ret, s) | Inr value \<Rightarrow>
     (sz, seq
       [cancel_chase, cancel_breathing, msleep 10,
        if 0 < value \<and> value < 100 then seq
          [ktd2058_set_color0 0x00 0x00 0x00,
           ktd2058_set_color1 0x80 0x80 0x80,
           ktd2058_select_all_colors 0x88 0x89 0xAB 0xCD 0xEF 0xFF 0,
           (\<lambda>s. s\<lparr>br_ops := (br_ops s)\<lparr>br_cnt := 0, br_en := 0, br_max_cnt := uint value,
                                         br_level := BR_NORMAL\<rparr>\<rparr>),
           schedule_breathing]
        else if value = 100 then seq
          [cancel_breathing, msleep 10, ktd2058_util_color_palette 7 1000]
        else (\<lambda>s. s)] s))"

definition ktd2058_br_white_store :: ktd_store where
  "ktd2058_br_white_store p sz s = (case p of Inl ret \<Rightarrow> (ret, s) | Inr value \<Rightarrow>
     (sz, seq
       [cancel_chase, cancel_breathing, msleep 10,
        (\<lambda>s. s\<lparr>br_ops := (br_ops s)\<lparr>br_cnt := 6, br_max_cnt := 5\<rparr>\<rparr>),
        if value \<le> 0
        then (\<lambda>s. s\<lparr>br_ops := (br_ops s)\<lparr>br_en := 0, br_level := STOP\<rparr>\<rparr>)
        else (\<lambda>s. s\<lparr>br_ops := (br_ops s)\<lparr>br_en := 1, br_level := BR_White\<rparr>\<rparr>),
        schedule_breathing] s))"

definition ktd2058_br2colors_store :: ktd_store where
  "ktd2058_br2colors_store p sz s = (case p of Inl ret \<Rightarrow> (ret, s) | Inr value \<Rightarrow>
     (sz, seq
       [cancel_chase, cancel_breathing, msleep 10,
        if 0 < value \<and> value < 100 then seq
          [(\<lambda>s. s\<lparr>br_ops := (br_ops s)\<lparr>br_cnt := 0, br_en := 0, br_max_cnt := uint value,
                                         br_level := BR_2COLORS\<rparr>\<rparr>),
           ktd2058_mode_change DEFAULT 0, msleep 4000,
           ktd2058_set_color0 0xC0 0x40 0x00,
           ktd2058_set_color1 0x08 0x00 0x00,
           schedule_breathing]
        else (\<lambda>s. s)] s))"

definition ktd2058_br_logscale_store :: ktd_store where
  "ktd2058_br_logscale_store p sz s = (case p of Inl ret \<Rightarrow> (ret, s) | Inr value \<Rightarrow>
     (sz, seq
       [cancel_chase, cancel_breathing, msleep 10,
        if 0 < value \<and> value < 8 then seq
          [ktd2058_set_color0 0xFF 0xFF 0xFF,
           (\<lambda>s. s\<lparr>br_ops := (br_ops s)\<lparr>br_cnt := 0, br_en := 0, br_max_cnt := uint value,
                                         br_level := BR_LOGSCALE\<rparr>\<rparr>),
           ktd2058_mode_change DEFAULT 0, msleep 4000,
           (\<lambda>s. ktd2058_mode_change NORMAL_MODE (br_fade_on (br_ops s)) s),
           schedule_breathing]
        else (\<lambda>s. s)] s))"

definition scale_max_cnt :: "int \<Rightarrow> ktd2058_chip \<Rightarrow> ktd2058_chip" where
  "scale_max_cnt k s =
     s\<lparr>chase_ops := (chase_ops s)\<lparr>ch_max_cnt := ch_max_cnt (chase_ops s) * k\<rparr>\<rparr>"

definition ktd2058_chase_store :: ktd_store where
  "ktd2058_chase_store p sz s = (case p of Inl ret \<Rightarrow> (ret, s) | Inr v \<Rightarrow>
     (let value = uint v in
     (sz, seq
       [cancel_breathing, cancel_chase,
        if 0 \<le> value \<and> value < 20 then seq
          [(\<lambda>s. s\<lparr>chase_ops := (chase_ops s)\<lparr>ch_level := value, ch_fade := 0, ch_cnt := 0,
                                               ch_max_cnt := 1, ch_delay := 2000\<rparr>\<rparr>),
           if value = CHASE_2COLORS_UP \<or> value = CHASE_2COLORS_DOWN then seq
             [(\<lambda>s. s\<lparr>chase_ops := (chase_ops s)\<lparr>ch_max_cnt := 5\<rparr>\<rparr>),
              ktd2058_mode_change DEFAULT 0, msleep 4000, ktd2058_select_color 3 0]
           else if value = CHASEUP_1 \<or> value = CHASEDOWN_2 then scale_max_cnt 2
           else if value = CHASEUP_3 \<or> value = CHASEDOWN_3 then scale_max_cnt 3
           else if value = CHASEUP_4 \<or> value = CHASEDOWN_4 then scale_max_cnt 4
           else (\<lambda>s. s),
           (\<lambda>s. ktd2058_mode_change NORMAL_MODE (ch_fade (chase_ops s)) s),
           schedule_chase]
        else (\<lambda>s. s)] s)))"

definition ktd2058_modechange_store :: ktd_store where
  "ktd2058_modechange_store p sz s = (case p of Inl ret \<Rightarrow> (ret, s) | Inr value \<Rightarrow>
     (sz, (if value = 0 then ktd2058_mode_change GLOBAL_OFF 7
             else if value = 1 then ktd2058_mode_change NIGHT_MODE 7
             else if value = 2 then ktd2058_mode_change NORMAL_MODE 7
             else if value = 3 then ktd2058_mode_change DEFAULT 7
             else (\<lambda>s. s)) s))"

definition ktd2058_br_flower_store :: ktd_store where
  "ktd2058_br_flower_store p sz s = (case p of Inl ret \<Rightarrow> (ret, s) | Inr value \<Rightarrow>
     (sz, (if 0 < value \<and> value < 100 then seq
          [(\<lambda>s. s\<lparr>br_ops := (br_ops s)\<lparr>br_cnt := 0, br_en := 0, br_max_cnt := uint value,
                                         br_level := BR_FLOWERS\<rparr>\<rparr>),
           ktd2058_mode_change DEFAULT 0, msleep 4000,
           schedule_breathing]
        else (\<lambda>s. s)) s))"

definition ktd2058_chasing_demo_store :: ktd_store where
  "ktd2058_chasing_demo_store p sz s = (case p of Inl ret \<Rightarrow> (ret, s) | Inr value \<Rightarrow>
     (sz, (if 0 < value \<and> value < 100 then seq
          [ktd2058_mode_change DEFAULT 0, msleep 4000,
           (\<lambda>s. s\<lparr>chase_ops := (chase_ops s)\<lparr>ch_level := CHASE_DEMO\<rparr>\<rparr>),
           schedule_chase]
        else (\<lambda>s. s)) s))"

definition ktd2058_racing_demo_store :: ktd_store where
  "ktd2058_racing_demo_store p sz s = (case p of Inl ret \<Rightarrow> (ret, s) | Inr value \<Rightarrow>
     (sz, (if value = 1 then seq
          [ktd2058_mode_change DEFAULT 0, msleep 4000, ktd2058_racing_demo]
        else if value = 2 then seq
          [ktd2058_mode_change DEFAULT 0, msleep 4000, ktd2058_flowing_demo]
        else (\<lambda>s. s)) s))"

definition ktd2058_debug_store :: ktd_store where
  "ktd2058_debug_store p sz s = (case p of Inl ret \<Rightarrow> (ret, s) | Inr value \<Rightarrow> (sz, s))"

subsection \<open>Show functions\<close>

text \<open>A show function returns the text it prints; a failed read leaves the initial 0.\<close>

type_synonym ktd_show = "ktd2058_chip \<Rightarrow> string \<times> ktd2058_chip"

definition show_u8 :: "u8 \<Rightarrow> string" where
  "show_u8 v = ''0x'' @ show_hex (unat v)"

definition read_control :: "ktd2058_chip \<Rightarrow> u8 \<times> ktd2058_chip" where
  "read_control s = (case ktd2058_read_reg REG_CONTROL s of (_, t, s') \<Rightarrow>
     (case t of None \<Rightarrow> 0 | Some v \<Rightarrow> v, s'))"

definition ktd2058_brightextend_show :: ktd_show where
  "ktd2058_brightextend_show s = (case read_control s of (v, s1) \<Rightarrow>
     (let reg_val = drop_bit 5 (v AND 0x20) in
      (show_u8 reg_val @ nl,
       if ucast reg_val \<noteq> brightextend (pdata s1)
       then s1\<lparr>pdata := (pdata s1)\<lparr>brightextend := ucast reg_val\<rparr>\<rparr> else s1)))"

definition ktd2058_fade_rate_show :: ktd_show where
  "ktd2058_fade_rate_show s = (case read_control s of (v, s1) \<Rightarrow>
     (let reg_val = v AND 0x07 in
      (show_u8 reg_val @ nl,
       if ucast reg_val \<noteq> fade_rate (pdata s1)
       then s1\<lparr>pdata := (pdata s1)\<lparr>fade_rate := ucast reg_val\<rparr>\<rparr> else s1)))"

definition ktd2058_ce_temp_show :: ktd_show where
  "ktd2058_ce_temp_show s = (case read_control s of (v, s1) \<Rightarrow>
     (let reg_val = drop_bit 3 (v AND 0x18) in
      (show_u8 reg_val @ nl,
       if ucast reg_val \<noteq> ce_temp (pdata s1)
       then s1\<lparr>pdata := (pdata s1)\<lparr>ce_temp := ucast reg_val\<rparr>\<rparr> else s1)))"

definition ktd2058_br_white_show :: ktd_show where
  "ktd2058_br_white_show s =
     (''RingLED Status:'' @ nl @
      (if br_en (br_ops s) \<noteq> 0 then ''RingLED Enable'' @ nl else ''RingLED Disable'' @ nl), s)"

fun read_regs :: "int list \<Rightarrow> ktd2058_chip \<Rightarrow> u8 list \<times> ktd2058_chip" where
  "read_regs [] s = ([], s)"
| "read_regs (i # is) s = (case ktd2058_read_reg i s of (_, t, s1) \<Rightarrow>
     (case read_regs is s1 of (vs, s2) \<Rightarrow> ((case t of None \<Rightarrow> 0 | Some v \<Rightarrow> v) # vs, s2)))"

fun join_commas :: "string list \<Rightarrow> string" where
  "join_commas [] = ''''"
| "join_commas [x] = x"
| "join_commas (x # xs) = x @ '','' @ join_commas xs"

definition ktd2058_device_info :: ktd_show where
  "ktd2058_device_info s = (case read_regs [REG_ID..REG_IBLU1] s of (vs, s') \<Rightarrow>
     (join_commas (map show_u8 vs) @ nl, s'))"

definition ktd2058_device_version :: ktd_show where
  "ktd2058_device_version s = (''0.01'' @ nl, s)"

subsection \<open>Initialisation\<close>

definition ktd2058_chip_init :: "ktd2058_chip \<Rightarrow> ktd2058_chip" where
  "ktd2058_chip_init s =
     (let p = pdata s;
          value = (ucast (push_bit 5 (brightextend p) OR push_bit 3 (ce_temp p) OR fade_rate p) :: u8);
          s1 = ktd_write REG_CONTROL value s
      in s1\<lparr>br_ops := (br_ops s1)\<lparr>br_level := BR_OFF\<rparr>,
            chase_ops := (chase_ops s1)\<lparr>ch_level := CHASE_OFF\<rparr>\<rparr>)"

text \<open>The zeroed chip of \<open>devm_kzalloc\<close> with its \<open>client\<close> and \<open>pdata\<close> set.\<close>

definition ktd_zero_chip :: "ktd_env \<Rightarrow> ktd2058_platform_data \<Rightarrow> ktd2058_chip" where
  "ktd_zero_chip env p =
     \<lparr>client = env, pdata = p,
      br_ops = \<lparr>br_level = BR_OFF, br_fade_on = 0, br_fade_off = 0, br_time_on = 0,
                br_time_off = 0, br_en = 0, br_cnt = 0, br_max_cnt = 0\<rparr>,
      chase_ops = \<lparr>ch_level = CHASE_OFF, ch_fade = 0, ch_delay = 0, ch_cnt = 0, ch_max_cnt = 0\<rparr>,
      work_chase = False, work_breathing = False, kio = []\<rparr>"

definition ktd2058_probe_chip :: "ktd_env \<Rightarrow> ktd2058_platform_data \<Rightarrow> ktd2058_chip" where
  "ktd2058_probe_chip env p =
     ktd2058_mode_change GLOBAL_OFF 0 (ktd2058_chip_init (ktd_zero_chip env p))"

end
