(* ===== verification/Ktd_Lemmas.thy ===== *)
theory Ktd_Lemmas
  imports Ktd_Sysfs
begin

text \<open>
  Component lemmas of the LED driver: what each operation adds to the I/O log
  (\<open>emits\<close>), what it leaves alone (\<open>keeps\<close>), the value of a register after a log, and
  the time a log sleeps.
\<close>

subsection \<open>Primitive effects\<close>

lemma ktd_write_eq: "ktd_write reg value s = s\<lparr>kio := I2cWrite (word_of_int reg) value # kio s\<rparr>"
  by (simp add: ktd_write_def ktd2058_write_reg_def)

text \<open>The state the sequences never touch: everything but \<open>pdata\<close> and the log.\<close>

definition ktd_ctl ::
    "ktd2058_chip \<Rightarrow> ktd_env \<times> ktd2058_breath_ops \<times> ktd2058_chase_ops \<times> bool \<times> bool" where
  "ktd_ctl s = (client s, br_ops s, chase_ops s, work_chase s, work_breathing s)"

text \<open>Registers of the map that hold colours, selections and the mode: 0x02 to 0x0F.\<close>

definition led_io :: "u8 \<Rightarrow> ktd_io \<Rightarrow> bool" where
  "led_io hi e = (case e of I2cWrite r v \<Rightarrow> 2 \<le> r \<and> r \<le> hi | I2cRead r \<Rightarrow> False
     | Msleep ms \<Rightarrow> True | RandomBytes \<Rightarrow> True)"

lemma emits_write [emits_intro]:
  assumes "2 \<le> reg" and "reg \<le> uint hi"
  shows "emits kio (led_io hi) (ktd_write reg v)"
proof -
  have "uint (word_of_int reg :: u8) = reg"
    using assms uint_bounded [of hi] by (simp add: uint_word_of_int)
  with assms show ?thesis by (simp add: emits_def ktd_write_eq led_io_def word_le_def)
qed

lemma emits_msleep [emits_intro]: "emits kio (led_io hi) (msleep ms)"
  by (simp add: emits_def msleep_def led_io_def)

lemma emits_mode_change [emits_intro]:
  "2 \<le> uint hi \<Longrightarrow> emits kio (led_io hi) (ktd2058_mode_change mode fade)"
  by (simp add: emits_def ktd2058_mode_change_def ktd_write_eq led_io_def Let_def word_le_def)

lemma emits_select_int [emits_intro]:
  assumes "2 \<le> i" and "i \<le> uint hi"
  shows "emits kio (led_io hi) (select_int i v delay)"
proof -
  have "uint (word_of_int i :: u8) = i"
    using assms uint_bounded [of hi] by (simp add: uint_word_of_int)
  with assms show ?thesis
    unfolding select_int_def ktd2058_select_one_def by (intro emits_intro) simp_all
qed

lemma emits_color0 [emits_intro]:
  "8 \<le> uint hi \<Longrightarrow> emits kio (led_io hi) (ktd2058_set_color0 r g b)"
  unfolding ktd2058_set_color0_def by (intro emits_intro) simp_all

lemma emits_color1 [emits_intro]:
  "8 \<le> uint hi \<Longrightarrow> emits kio (led_io hi) (ktd2058_set_color1 r g b)"
  unfolding ktd2058_set_color1_def by (intro emits_intro) simp_all

lemma emits_select_all [emits_intro]:
  "14 \<le> uint hi \<Longrightarrow>
   emits kio (led_io hi) (ktd2058_select_all_colors a b c d e f delay)"
  unfolding ktd2058_select_all_colors_def by (intro emits_intro) simp_all

lemma emits_select_color [emits_intro]:
  assumes "15 \<le> uint hi"
  shows "emits kio (led_io hi) (ktd2058_select_color color sel)"
proof -
  have "emits kio (led_io hi) (for_up 9 15 (\<lambda>i. ktd_write i isel))" for isel
    using assms by (intro emits_intro) simp_all
  then show ?thesis unfolding ktd2058_select_color_def Let_def emits_def by blast
qed

subsection \<open>What the sequences emit\<close>

lemma emits_chase_one [emits_intro]:
  "emits kio (led_io 15) (ktd2058_chase_one state fade delay)"
  unfolding ktd2058_chase_one_def by (intro emits_intro) simp_all

lemma emits_chase_two [emits_intro]:
  "emits kio (led_io 15) (ktd2058_chase_two state fade delay)"
  unfolding ktd2058_chase_two_def by (intro emits_intro) simp_all

lemma emits_chase_three [emits_intro]:
  "emits kio (led_io 15) (ktd2058_chase_three state fade delay)"
  unfolding ktd2058_chase_three_def by (intro emits_intro) simp_all

lemma emits_chase_four [emits_intro]:
  "emits kio (led_io 15) (ktd2058_chase_four state fade delay)"
  unfolding ktd2058_chase_four_def by (intro emits_intro) simp_all

lemma emits_chase_2colors [emits_intro]:
  "emits kio (led_io 15) (ktd2058_chase_2colors state fade delay)"
  unfolding ktd2058_chase_2colors_def by (intro emits_intro) simp_all

lemma emits_chasing_demo [emits_intro]: "emits kio (led_io 15) ktd2058_chasing_demo"
  unfolding ktd2058_chasing_demo_def by (intro emits_intro) simp_all

lemma emits_amz_demo [emits_intro]: "emits kio (led_io 15) ktd2058_chase_amz_demo"
  unfolding ktd2058_chase_amz_demo_def by (intro emits_intro) simp_all

lemma emits_chase_switch [emits_intro]: "emits kio (led_io 15) (chase_switch level)"
  unfolding chase_switch_def by (intro emits_intro)

lemma emits_breath [emits_intro]:
  "emits kio (led_io 15) (ktd2058_breath a b t1 t2)"
  unfolding ktd2058_breath_def by (intro emits_intro) simp_all

lemma emits_breath_2colors [emits_intro]:
  "emits kio (led_io 15) (ktd2058_breath_2colors a b t1 t2)"
  unfolding ktd2058_breath_2colors_def by (intro emits_intro) simp_all

lemma emits_breath_white [emits_intro]: "emits kio (led_io 15) ktd2058_breath_white"
  unfolding ktd2058_breath_white_def Let_def by (intro emits_intro) simp_all

lemma emits_breath_logscale [emits_intro]:
  "emits kio (led_io 15) (ktd2058_breath_logscale fade r g b)"
  unfolding ktd2058_breath_logscale_def by (intro emits_intro) simp_all

lemma emits_random_palette [emits_intro]: "emits kio (led_io 15) (ktd2058_set_random_palette imax)"
  unfolding ktd2058_set_random_palette_def
  by (rule emits_for_up)
    (simp add: emits_def ktd_write_eq led_io_def Let_def word_le_def uint_word_of_int)

lemma emits_flower_demo [emits_intro]: "emits kio (led_io 15) ktd2058_br_flower_demo"
  unfolding ktd2058_br_flower_demo_def by (intro emits_intro) simp_all

lemma emits_same_log [emits_intro]: "(\<And>s. kio (f s) = kio s) \<Longrightarrow> emits kio P f"
  by (simp add: emits_def)

lemma emits_ops_breath: "emits kio (led_io 15) breath_ops_breath"
  using emits_breath by (simp add: emits_def breath_ops_breath_def)

lemma emits_breath_demo [emits_intro]: "emits kio (led_io 15) ktd2058_breath_demo"
  unfolding ktd2058_breath_demo_def
proof (intro emits_seq_Cons emits_seq_Nil emits_for_up emits_color0 emits_color1 emits_ops_breath
    emits_select_color)
qed (simp_all add: emits_def)

lemma emits_breathing_switch [emits_intro]: "emits kio (led_io 15) (breathing_switch level)"
proof (cases level)
  case BR_White
  have "emits kio (led_io 15) (set_br_cnt 6)"
    by (simp add: emits_def set_br_cnt_def)
  with BR_White show ?thesis
    by (simp only: breathing_switch.simps) (intro emits_seq_Cons emits_seq_Nil emits_breath_white)
qed (simp_all add: emits_intro)

subsection \<open>What the operations leave alone\<close>

text \<open>\<open>ktd_ctl\<close>: client, both op blocks and both pending bits.\<close>

lemma ctl_write [keeps_intro]: "keeps (\<lambda>s. ktd_ctl s = x) (ktd_write reg v)"
  by (simp add: keeps_def ktd_ctl_def ktd_write_eq)

lemma ctl_msleep [keeps_intro]: "keeps (\<lambda>s. ktd_ctl s = x) (msleep ms)"
  by (simp add: keeps_def ktd_ctl_def msleep_def)

lemma ctl_mode_change [keeps_intro]: "keeps (\<lambda>s. ktd_ctl s = x) (ktd2058_mode_change mode fade)"
  by (simp add: keeps_def ktd_ctl_def ktd2058_mode_change_def ktd_write_eq Let_def)

lemma ctl_select_int [keeps_intro]: "keeps (\<lambda>s. ktd_ctl s = x) (select_int i v delay)"
  unfolding select_int_def ktd2058_select_one_def by (intro keeps_intro)

lemma ctl_color0 [keeps_intro]: "keeps (\<lambda>s. ktd_ctl s = x) (ktd2058_set_color0 r g b)"
  unfolding ktd2058_set_color0_def by (intro keeps_intro)

lemma ctl_color1 [keeps_intro]: "keeps (\<lambda>s. ktd_ctl s = x) (ktd2058_set_color1 r g b)"
  unfolding ktd2058_set_color1_def by (intro keeps_intro)

lemma ctl_select_all [keeps_intro]:
  "keeps (\<lambda>s. ktd_ctl s = x) (ktd2058_select_all_colors a b c d e f delay)"
  unfolding ktd2058_select_all_colors_def by (intro keeps_intro)

lemma ctl_select_color [keeps_intro]: "keeps (\<lambda>s. ktd_ctl s = x) (ktd2058_select_color color sel)"
proof -
  have "keeps (\<lambda>s. ktd_ctl s = x) (for_up 9 15 (\<lambda>i. ktd_write i isel))" for isel
    by (intro keeps_intro)
  then show ?thesis unfolding ktd2058_select_color_def Let_def keeps_def by blast
qed

lemma ctl_random_palette [keeps_intro]:
  "keeps (\<lambda>s. ktd_ctl s = x) (ktd2058_set_random_palette imax)"
  unfolding ktd2058_set_random_palette_def
  by (rule keeps_for_up) (simp add: keeps_def ktd_ctl_def ktd_write_eq Let_def)

lemma ctl_chase_switch [keeps_intro]: "keeps (\<lambda>s. ktd_ctl s = x) (chase_switch level)"
  unfolding chase_switch_def ktd2058_chase_one_def ktd2058_chase_two_def ktd2058_chase_three_def
    ktd2058_chase_four_def ktd2058_chase_2colors_def ktd2058_chasing_demo_def
    ktd2058_chase_amz_demo_def
  by (intro keeps_intro)

lemma ctl_breath [keeps_intro]: "keeps (\<lambda>s. ktd_ctl s = x) (ktd2058_breath a b t1 t2)"
  unfolding ktd2058_breath_def by (intro keeps_intro)

lemma ctl_breath_2colors [keeps_intro]:
  "keeps (\<lambda>s. ktd_ctl s = x) (ktd2058_breath_2colors a b t1 t2)"
  unfolding ktd2058_breath_2colors_def by (intro keeps_intro)

lemma ctl_breath_white [keeps_intro]: "keeps (\<lambda>s. ktd_ctl s = x) ktd2058_breath_white"
  unfolding ktd2058_breath_white_def Let_def by (intro keeps_intro)

lemma ctl_breath_logscale [keeps_intro]:
  "keeps (\<lambda>s. ktd_ctl s = x) (ktd2058_breath_logscale fade r g b)"
  unfolding ktd2058_breath_logscale_def by (intro keeps_intro)

lemma ctl_flower_demo [keeps_intro]: "keeps (\<lambda>s. ktd_ctl s = x) ktd2058_br_flower_demo"
  unfolding ktd2058_br_flower_demo_def by (intro keeps_intro)

lemma ctl_palette [keeps_intro]: "keeps (\<lambda>s. ktd_ctl s = x) (ktd2058_util_color_palette f d)"
  unfolding ktd2058_util_color_palette_def by (intro keeps_intro)

lemma ctl_race_two [keeps_intro]: "keeps (\<lambda>s. ktd_ctl s = x) (ktd2058_race_two st f d)"
  unfolding ktd2058_race_two_def by (intro keeps_intro)

lemma ctl_racing_demo [keeps_intro]: "keeps (\<lambda>s. ktd_ctl s = x) ktd2058_racing_demo"
  unfolding ktd2058_racing_demo_def by (intro keeps_intro)

lemma ktd_ctlD:
  assumes "ktd_ctl s = ktd_ctl t"
  shows "client s = client t" "br_ops s = br_ops t" "chase_ops s = chase_ops t"
    "work_chase s = work_chase t" "work_breathing s = work_breathing t"
  using assms by (simp_all add: ktd_ctl_def)

lemma ctl_keep: "(\<And>x. keeps (\<lambda>s. ktd_ctl s = x) f) \<Longrightarrow> ktd_ctl (f s) = ktd_ctl s"
  by (simp add: keeps_def)

subsection \<open>Register contents\<close>

text \<open>The fields of the control register: temperature, fade and brightness extension.\<close>

interpretation be_field: bit_field "0x20 :: u8" 5 1
  by unfold_locales (simp_all add: mask_eq_exp_minus_1)

interpretation fade_field: bit_field "0x07 :: u8" 0 3
  by unfold_locales (simp_all add: mask_eq_exp_minus_1)

interpretation ce_field: bit_field "0x18 :: u8" 3 2
  by unfold_locales (simp_all add: mask_eq_exp_minus_1)

text \<open>
  The contents of a register after a log: the last value written, else the power-on value
  \<open>r0\<close>. \<open>reads_back\<close> is the documented behaviour of the chip's registers that the
  properties about read-modify-write assume of the adapter: a read succeeds and returns it.
\<close>

fun ktd_reg :: "(u8 \<Rightarrow> u8) \<Rightarrow> ktd_io list \<Rightarrow> u8 \<Rightarrow> u8" where
  "ktd_reg r0 [] r = r0 r"
| "ktd_reg r0 (I2cWrite r' v # h) r = (if r' = r then v else ktd_reg r0 h r)"
| "ktd_reg r0 (e # h) r = ktd_reg r0 h r"

definition reads_back :: "ktd_env \<Rightarrow> (u8 \<Rightarrow> u8) \<Rightarrow> bool" where
  "reads_back env r0 \<longleftrightarrow> (\<forall>h r. smbus_read_byte_data env h r = uint (ktd_reg r0 h r))"

definition regs_of :: "(u8 \<Rightarrow> u8) \<Rightarrow> ktd2058_chip \<Rightarrow> u8 \<Rightarrow> u8" where
  "regs_of r0 s = ktd_reg r0 (kio s)"

lemma read_reg_back:
  "reads_back (client s) r0 \<Longrightarrow> ktd2058_read_reg reg s =
    (uint (regs_of r0 s (word_of_int reg)), Some (regs_of r0 s (word_of_int reg)),
     s\<lparr>kio := I2cRead (word_of_int reg) # kio s\<rparr>)"
  by (simp add: ktd2058_read_reg_def reads_back_def regs_of_def Let_def not_less)

lemma masked_write_back:
  assumes "reads_back (client s) r0"
  shows "regs_of r0 (snd (ktd2058_masked_write reg m v s)) =
    (regs_of r0 s)(word_of_int reg := mask_put m v (regs_of r0 s (word_of_int reg)))"
proof -
  show ?thesis
    by (rule ext) (simp add: ktd2058_masked_write_def read_reg_back [of _ r0] assms
        ktd2058_write_reg_def regs_of_def mask_put_def)
qed

lemma masked_write_error:
  assumes "smbus_read_byte_data (client s) (kio s) (word_of_int reg) < 0"
  shows "fst (ktd2058_masked_write reg m v s) < 0 \<and>
    (\<forall>r v'. I2cWrite r v' \<in> set (kio (snd (ktd2058_masked_write reg m v s))) \<longrightarrow>
      I2cWrite r v' \<in> set (kio s))"
  using assms
  by (auto simp: ktd2058_masked_write_def ktd2058_read_reg_def Let_def split: prod.split)

subsection \<open>Sleeping time\<close>

fun sleep_total :: "ktd_io list \<Rightarrow> int" where
  "sleep_total [] = 0"
| "sleep_total (Msleep ms # h) = ms + sleep_total h"
| "sleep_total (e # h) = sleep_total h"

definition takes :: "int \<Rightarrow> (ktd2058_chip \<Rightarrow> ktd2058_chip) \<Rightarrow> bool" where
  "takes t f \<longleftrightarrow> (\<forall>s. sleep_total (kio (f s)) = sleep_total (kio s) + t)"

named_theorems takes_intro \<open>sleeping time of the LED sequences\<close>

lemma takes_eq: "takes t f \<Longrightarrow> t = t' \<Longrightarrow> takes t' f"
  by simp

lemma takes_seq_Nil [takes_intro]: "takes 0 (seq [])"
  by (simp add: takes_def)

lemma takes_seq_Cons [takes_intro]: "takes a f \<Longrightarrow> takes b (seq fs) \<Longrightarrow> takes (a + b) (seq (f # fs))"
  by (simp add: takes_def)

lemma takes_fold: "(\<And>i. takes t (body i)) \<Longrightarrow> takes (int (length xs) * t) (fold body xs)"
  by (induction xs) (simp_all add: takes_def algebra_simps)

lemma takes_for_up [takes_intro]:
  "(\<And>i. takes t (body i)) \<Longrightarrow> takes (int (nat (hi - lo + 1)) * t) (for_up lo hi body)"
  using takes_fold [of t body "[lo..hi]"] by (simp add: for_up_def)

lemma takes_for_down [takes_intro]:
  "(\<And>i. takes t (body i)) \<Longrightarrow> takes (int (nat (hi - lo + 1)) * t) (for_down hi lo body)"
  using takes_fold [of t body "rev [lo..hi]"] by (simp add: for_down_def)

lemma takes_write [takes_intro]: "takes 0 (ktd_write reg v)"
  by (simp add: takes_def ktd_write_eq)

lemma takes_msleep [takes_intro]: "takes ms (msleep ms)"
  by (simp add: takes_def msleep_def)

lemma takes_mode_change [takes_intro]: "takes 0 (ktd2058_mode_change mode fade)"
  by (simp add: takes_def ktd2058_mode_change_def ktd_write_eq Let_def)

lemma takes_select_int [takes_intro]: "takes delay (select_int i v delay)"
  unfolding select_int_def ktd2058_select_one_def
  by (rule takes_eq, (rule takes_intro)+) simp

lemma takes_color0 [takes_intro]: "takes 0 (ktd2058_set_color0 r g b)"
  unfolding ktd2058_set_color0_def by (rule takes_eq, (rule takes_intro)+) simp

lemma takes_color1 [takes_intro]: "takes 0 (ktd2058_set_color1 r g b)"
  unfolding ktd2058_set_color1_def by (rule takes_eq, (rule takes_intro)+) simp

lemma takes_select_all [takes_intro]: "takes delay (ktd2058_select_all_colors a b c d e f delay)"
  unfolding ktd2058_select_all_colors_def by (rule takes_eq, (rule takes_intro)+) simp

lemma takes_select_color [takes_intro]: "takes 0 (ktd2058_select_color color sel)"
proof -
  have "takes (int (nat (15 - 9 + 1)) * 0) (for_up 9 15 (\<lambda>i. ktd_write i isel))" for isel
    by (rule takes_intro)+
  then show ?thesis by (simp add: takes_def ktd2058_select_color_def Let_def)
qed

text \<open>Passes per call: the upward single chase also visits register 0x0F.\<close>

lemma takes_chase_up [takes_intro]:
  "takes (14 * d) (ktd2058_chase_one UP fade d)"
  "takes (6 * d) (ktd2058_chase_two UP fade d)"
  "takes (4 * d) (ktd2058_chase_three UP fade d)"
  "takes (3 * d) (ktd2058_chase_four UP fade d)"
  "takes (12 * d) (ktd2058_chase_2colors UP fade d)"
  unfolding ktd2058_chase_one_def ktd2058_chase_two_def ktd2058_chase_three_def
    ktd2058_chase_four_def ktd2058_chase_2colors_def
  by (simp_all only: simp_thms if_True, (rule takes_eq, (rule takes_intro)+, simp)+)

lemma takes_chase_down [takes_intro]:
  "takes (12 * d) (ktd2058_chase_one DOWN fade d)"
  "takes (6 * d) (ktd2058_chase_two DOWN fade d)"
  "takes (4 * d) (ktd2058_chase_three DOWN fade d)"
  "takes (3 * d) (ktd2058_chase_four DOWN fade d)"
  "takes (12 * d) (ktd2058_chase_2colors DOWN fade d)"
  unfolding ktd2058_chase_one_def ktd2058_chase_two_def ktd2058_chase_three_def
    ktd2058_chase_four_def ktd2058_chase_2colors_def
  by (simp_all only: simp_thms one_neq_zero if_True if_False, (rule takes_eq, (rule takes_intro)+, simp)+)

lemma takes_chasing_demo [takes_intro]: "takes (484 * 83) ktd2058_chasing_demo"
  unfolding ktd2058_chasing_demo_def by (rule takes_eq, (rule takes_intro)+) simp

lemma takes_amz_demo [takes_intro]: "takes 7810 ktd2058_chase_amz_demo"
  unfolding ktd2058_chase_amz_demo_def by (rule takes_eq, (rule takes_intro)+) simp

fun chase_duration :: "int \<Rightarrow> int" where
  "chase_duration level =
     (if level = CHASEUP_1 then 14 * 1500 else if level = CHASEDOWN_1 then 12 * 1500
      else if level = CHASEUP_2 \<or> level = CHASEDOWN_2 then 6 * 1500
      else if level = CHASEUP_3 \<or> level = CHASEDOWN_3 then 4 * 1500
      else if level = CHASEUP_4 \<or> level = CHASEDOWN_4 then 3 * 1500
      else if level = CHASE_2COLORS_UP \<or> level = CHASE_2COLORS_DOWN then 12 * 1500
      else if level = CHASE_DEMO then 484 * 83 else if level = CHASE_AMZ then 7810 else 0)"

lemma takes_chase_switch: "takes (chase_duration level) (chase_switch level)"
proof -
  note d = takes_chase_up [of 1500 3] takes_chase_down [of 1500 3] takes_chasing_demo
    takes_amz_demo
  show ?thesis
    using d by (auto simp: chase_switch_def takes_def)
qed

end
