(* ===== verification/Ktd_Work.thy ===== *)
theory Ktd_Work
  imports Ktd_Lemmas
begin

text \<open>
  The two work items of the LED driver as the workqueue runs them: one execution clears the
  pending bit and calls the work function. Both are interpretations of \<open>counted_work\<close>,
  which gives the number of executions until they fall idle.
\<close>

definition chase_run :: "ktd2058_chip \<Rightarrow> ktd2058_chip" where
  "chase_run s = ktd2058_chase_ctrl_work (s\<lparr>work_chase := False\<rparr>)"

definition breathing_run :: "ktd2058_chip \<Rightarrow> ktd2058_chip" where
  "breathing_run s = ktd2058_breathing_ctrl_work (s\<lparr>work_breathing := False\<rparr>)"

lemma chase_run_ctl:
  "chase_ops (chase_run s) =
     (if ch_cnt (chase_ops s) < ch_max_cnt (chase_ops s)
      then (chase_ops s)\<lparr>ch_cnt := ch_cnt (chase_ops s) + 1\<rparr>
      else (chase_ops s)\<lparr>ch_cnt := 0, ch_level := CHASE_OFF\<rparr>)"
  "work_chase (chase_run s) = (ch_cnt (chase_ops s) < ch_max_cnt (chase_ops s))"
proof -
  let ?s1 = "cancel_breathing (s\<lparr>work_chase := False\<rparr>)"
  let ?s = "chase_switch (ch_level (chase_ops ?s1)) ?s1"
  have c: "ktd_ctl ?s = ktd_ctl ?s1" by (rule ctl_keep) (rule ctl_chase_switch)
  note f = ktd_ctlD [OF c]
  have m: "ktd_ctl (ktd2058_mode_change DEFAULT 0 t) = ktd_ctl t" for t
    by (rule ctl_keep) (rule ctl_mode_change)
  note g = ktd_ctlD [OF m]
  show "chase_ops (chase_run s) =
     (if ch_cnt (chase_ops s) < ch_max_cnt (chase_ops s)
      then (chase_ops s)\<lparr>ch_cnt := ch_cnt (chase_ops s) + 1\<rparr>
      else (chase_ops s)\<lparr>ch_cnt := 0, ch_level := CHASE_OFF\<rparr>)"
    and "work_chase (chase_run s) = (ch_cnt (chase_ops s) < ch_max_cnt (chase_ops s))"
    using f by (simp_all add: chase_run_def ktd2058_chase_ctrl_work_def Let_def schedule_chase_def
        cancel_breathing_def g)
qed

interpretation chase: counted_work chase_run work_chase
  "\<lambda>s. nat (ch_max_cnt (chase_ops s) - ch_cnt (chase_ops s))" "\<lambda>s. True"
  by unfold_locales (simp_all add: chase_run_ctl)

text \<open>The breathing switch keeps what decides whether the work runs again.\<close>

definition br_ctl :: "ktd2058_chip \<Rightarrow> ktd2058_br_level \<times> int \<times> int \<times> int \<times> bool \<times> ktd2058_chase_ops \<times> bool" where
  "br_ctl s = (br_level (br_ops s), br_en (br_ops s), br_cnt (br_ops s), br_max_cnt (br_ops s),
     work_breathing s, chase_ops s, work_chase s)"

lemma br_ctl_of_ctl: "ktd_ctl s = ktd_ctl t \<Longrightarrow> br_ctl s = br_ctl t"
  by (simp add: ktd_ctl_def br_ctl_def)

lemma br_ctl_keeps: "(\<And>x. keeps (\<lambda>s. ktd_ctl s = x) f) \<Longrightarrow> keeps (\<lambda>s. br_ctl s = x) f"
  using ctl_keep br_ctl_of_ctl unfolding keeps_def by metis

lemma br_ctl_demo: "keeps (\<lambda>s. br_ctl s = x) ktd2058_breath_demo"
proof -
  have "keeps (\<lambda>s. br_ctl s = x) breath_ops_breath"
    using br_ctl_keeps [OF ctl_breath] by (simp add: keeps_def breath_ops_breath_def)
  then show ?thesis
    unfolding ktd2058_breath_demo_def
    by (intro keeps_seq_Cons keeps_seq_Nil keeps_for_up br_ctl_keeps [OF ctl_color0]
        br_ctl_keeps [OF ctl_color1] br_ctl_keeps [OF ctl_select_color])
      (simp_all add: keeps_def br_ctl_def)
qed

lemma br_ctl_switch: "level \<noteq> BR_White \<Longrightarrow> br_ctl (breathing_switch level s) = br_ctl s"
proof (cases level)
  case BR_DEMO
  then show ?thesis using br_ctl_demo [of "br_ctl s"] by (simp add: keeps_def)
qed (auto intro!: br_ctl_of_ctl ctl_keep intro: keeps_intro)

lemma white_run:
  "br_level (br_ops (breathing_switch BR_White s)) = br_level (br_ops s)"
  "br_en (br_ops (breathing_switch BR_White s)) = br_en (br_ops s)"
proof -
  have "ktd_ctl (ktd2058_breath_white t) = ktd_ctl t" for t
    by (rule ctl_keep) (rule ctl_breath_white)
  note f = ktd_ctlD [OF this]
  show "br_level (br_ops (breathing_switch BR_White s)) = br_level (br_ops s)"
    "br_en (br_ops (breathing_switch BR_White s)) = br_en (br_ops s)"
    by (simp_all add: f set_br_cnt_def)
qed

lemma breathing_run_ctl:
  assumes "br_level (br_ops s) \<noteq> BR_White"
  shows "br_ctl (breathing_run s) =
    (if br_cnt (br_ops s) + 1 < br_max_cnt (br_ops s) \<or> br_en (br_ops s) \<ge> 1
     then (br_level (br_ops s), br_en (br_ops s), br_cnt (br_ops s) + 1, br_max_cnt (br_ops s),
           True, chase_ops s, work_chase s)
     else (BR_OFF, 0, 0, 0, False, chase_ops s, work_chase s))"
proof -
  let ?s1 = "set_br_cnt (br_cnt (br_ops s) + 1) (s\<lparr>work_breathing := False\<rparr>)"
  have "br_ctl (breathing_switch (br_level (br_ops s)) ?s1) = br_ctl ?s1"
    by (rule br_ctl_switch) (rule assms)
  then show ?thesis
    by (auto simp: breathing_run_def ktd2058_breathing_ctrl_work_def Let_def br_ctl_def
        set_br_cnt_def schedule_breathing_def)
qed

interpretation breathing: counted_work breathing_run work_breathing
  "\<lambda>s. nat (br_max_cnt (br_ops s) - (br_cnt (br_ops s) + 1))"
  "\<lambda>s. br_level (br_ops s) \<noteq> BR_White \<and> br_en (br_ops s) \<le> 0"
proof
  fix s :: ktd2058_chip
  assume I: "br_level (br_ops s) \<noteq> BR_White \<and> br_en (br_ops s) \<le> 0"
  note r = breathing_run_ctl [OF conjunct1 [OF I]]
  show "br_level (br_ops (breathing_run s)) \<noteq> BR_White \<and> br_en (br_ops (breathing_run s)) \<le> 0"
    using r I by (auto simp: br_ctl_def split: if_splits)
  show "work_breathing (breathing_run s) =
    (0 < nat (br_max_cnt (br_ops s) - (br_cnt (br_ops s) + 1)))"
    using r I by (auto simp: br_ctl_def split: if_splits)
  assume "0 < nat (br_max_cnt (br_ops s) - (br_cnt (br_ops s) + 1))"
  then show "nat (br_max_cnt (br_ops (breathing_run s)) - (br_cnt (br_ops (breathing_run s)) + 1)) =
    nat (br_max_cnt (br_ops s) - (br_cnt (br_ops s) + 1)) - 1"
    using r I by (auto simp: br_ctl_def split: if_splits)
qed

end
