(* ===== verification/Ktd_Invariant.thy ===== *)
theory Ktd_Invariant
  imports Ktd_Work
begin

text \<open>
  The control fields stay inside their registers: an invariant of \<open>pdata\<close> and of the
  stored fade values, kept by every sequence, both work functions and every attribute, and
  so of every state a probed chip can reach. \<open>ktd2058_flash_attrs\<close> is the attribute table.
\<close>

definition fields_ok :: "ktd2058_chip \<Rightarrow> bool" where
  "fields_ok s \<longleftrightarrow> brightextend (pdata s) \<le> 1 \<and> ce_temp (pdata s) \<le> 3 \<and> fade_rate (pdata s) \<le> 7 \<and>
     br_fade_on (br_ops s) \<le> 7 \<and> br_fade_off (br_ops s) \<le> 7 \<and> ch_fade (chase_ops s) \<le> 7"

lemma fade_byte: "0 \<le> i \<Longrightarrow> i \<le> 7 \<Longrightarrow> (word_of_int i :: u8) \<le> 7"
  by (simp add: word_le_def uint_word_of_int)

lemma ucast_le_7: "(f::u8) \<le> 7 \<Longrightarrow> (ucast f :: u32) \<le> 7"
  by (simp add: word_le_def uint_up_ucast is_up)

subsection \<open>Primitives and sequences\<close>

lemma ok_write [keeps_intro]: "keeps fields_ok (ktd_write reg v)"
  by (simp add: keeps_def fields_ok_def ktd_write_eq)

lemma ok_msleep [keeps_intro]: "keeps fields_ok (msleep ms)"
  by (simp add: keeps_def fields_ok_def msleep_def)

lemma ok_mode_change [keeps_intro]: "fade \<le> 7 \<Longrightarrow> keeps fields_ok (ktd2058_mode_change mode fade)"
  by (simp add: keeps_def fields_ok_def ktd2058_mode_change_def ktd_write_eq Let_def ucast_le_7)

lemma ok_select_int [keeps_intro]: "keeps fields_ok (select_int i v delay)"
  unfolding select_int_def ktd2058_select_one_def by (intro keeps_intro)

lemma ok_colors [keeps_intro]:
  "keeps fields_ok (ktd2058_set_color0 r g b)" "keeps fields_ok (ktd2058_set_color1 r g b)"
  unfolding ktd2058_set_color0_def ktd2058_set_color1_def by (intro keeps_intro)+

lemma ok_select_all [keeps_intro]:
  "keeps fields_ok (ktd2058_select_all_colors a b c d e f delay)"
  unfolding ktd2058_select_all_colors_def by (intro keeps_intro)

lemma ok_select_color [keeps_intro]: "keeps fields_ok (ktd2058_select_color color sel)"
proof -
  have "keeps fields_ok (for_up 9 15 (\<lambda>i. ktd_write i isel))" for isel
    by (intro keeps_intro)
  then show ?thesis unfolding ktd2058_select_color_def Let_def keeps_def by blast
qed

lemma ok_random_palette [keeps_intro]: "keeps fields_ok (ktd2058_set_random_palette imax)"
  unfolding ktd2058_set_random_palette_def
  by (rule keeps_for_up) (simp add: keeps_def fields_ok_def ktd_write_eq Let_def)

lemma ok_chases [keeps_intro]:
  "fade \<le> 7 \<Longrightarrow> keeps fields_ok (ktd2058_chase_one st fade d)"
  "fade \<le> 7 \<Longrightarrow> keeps fields_ok (ktd2058_chase_two st fade d)"
  "fade \<le> 7 \<Longrightarrow> keeps fields_ok (ktd2058_chase_three st fade d)"
  "fade \<le> 7 \<Longrightarrow> keeps fields_ok (ktd2058_chase_four st fade d)"
  "fade \<le> 7 \<Longrightarrow> keeps fields_ok (ktd2058_chase_2colors st fade d)"
  "fade \<le> 7 \<Longrightarrow> keeps fields_ok (ktd2058_race_two st fade d)"
  unfolding ktd2058_chase_one_def ktd2058_chase_two_def ktd2058_chase_three_def
    ktd2058_chase_four_def ktd2058_chase_2colors_def ktd2058_race_two_def
  by (intro keeps_intro, assumption)+

lemma ok_flows [keeps_intro]:
  assumes "fade \<le> 7"
  shows "keeps fields_ok (ktd2058_flow_one st fade d color)"
    and "keeps fields_ok (ktd2058_flow_two st fade d color)"
proof -
  have "keeps fields_ok (seq
     [ktd2058_mode_change NORMAL_MODE fade,
      if st = UP then
        for_up 0x09 0x0E (\<lambda>i. seq [select_int i (v * 16) d, select_int i (v * 17) d])
      else if st = DOWN then
        for_down 0x0E 0x09 (\<lambda>i. seq [select_int i v d, select_int i (v * 17) d])
      else (\<lambda>s. s)])" for v
    using assms by (intro keeps_intro)
  then show "keeps fields_ok (ktd2058_flow_one st fade d color)"
    unfolding keeps_def ktd2058_flow_one_def Let_def by blast
  have "keeps fields_ok (seq
     [ktd2058_mode_change NORMAL_MODE fade,
      if st = UP then
        for_up 0 2 (\<lambda>j. seq
          [select_int (0x09 + j) (v * 16) 0, select_int (0x0E - j) v d,
           select_int (0x09 + j) (v * 17) 0, select_int (0x0E - j) (v * 17) d])
      else if st = DOWN then
        for_down 0x0E 0x09 (\<lambda>j. seq
          [select_int (0x0B - j) v 0, select_int (0x0C + j) (v * 16) d,
           select_int (0x0B - j) (v * 17) 0, select_int (0x0C + j) (v * 17) d])
      else (\<lambda>s. s)])" for v
    using assms by (intro keeps_intro)
  then show "keeps fields_ok (ktd2058_flow_two st fade d color)"
    unfolding keeps_def ktd2058_flow_two_def Let_def by blast
qed

lemma ok_demos [keeps_intro]:
  "keeps fields_ok ktd2058_chasing_demo" "keeps fields_ok ktd2058_chase_amz_demo"
  "keeps fields_ok ktd2058_racing_demo" "keeps fields_ok ktd2058_flowing_demo"
  unfolding ktd2058_chasing_demo_def ktd2058_chase_amz_demo_def ktd2058_racing_demo_def
    ktd2058_flowing_demo_def
  by ((intro keeps_intro; (rule fade_byte; simp)?), simp_all?)+

lemma ok_breath [keeps_intro]:
  "a \<le> 7 \<Longrightarrow> b \<le> 7 \<Longrightarrow> keeps fields_ok (ktd2058_breath a b t1 t2)"
  "a \<le> 7 \<Longrightarrow> b \<le> 7 \<Longrightarrow> keeps fields_ok (ktd2058_breath_2colors a b t1 t2)"
  unfolding ktd2058_breath_def ktd2058_breath_2colors_def by (intro keeps_intro, assumption+)+

lemma ok_breath_logscale [keeps_intro]:
  "f \<le> 7 \<Longrightarrow> keeps fields_ok (ktd2058_breath_logscale f r g b)"
  unfolding ktd2058_breath_logscale_def by (intro keeps_intro) simp_all

lemma ok_palette [keeps_intro]: "f \<le> 7 \<Longrightarrow> keeps fields_ok (ktd2058_util_color_palette f d)"
  unfolding ktd2058_util_color_palette_def by (intro keeps_intro) simp_all

lemma ok_set_br_cnt [keeps_intro]: "keeps fields_ok (set_br_cnt n)"
  by (simp add: keeps_def fields_ok_def set_br_cnt_def)

lemma ok_breath_demo [keeps_intro]: "keeps fields_ok ktd2058_breath_demo"
proof -
  have "keeps fields_ok breath_ops_breath"
    using ok_breath(1) by (simp add: keeps_def breath_ops_breath_def fields_ok_def)
  moreover have "keeps fields_ok (\<lambda>s. s\<lparr>br_ops := (br_ops s)\<lparr>br_fade_on := 7, br_fade_off := 3,
      br_time_on := 1500, br_time_off := 1500\<rparr>\<rparr>)"
    by (simp add: keeps_def fields_ok_def)
  ultimately show ?thesis unfolding ktd2058_breath_demo_def by (intro keeps_intro)
qed

subsection \<open>Work functions\<close>

lemma ok_chase_switch [keeps_intro]: "keeps fields_ok (chase_switch level)"
  unfolding chase_switch_def by (intro keeps_intro) simp_all

lemma ok_breathing_switch [keeps_intro]: "keeps fields_ok (breathing_switch level)"
  by (cases level)
    (auto simp only: breathing_switch.simps ktd2058_breath_white_def
      ktd2058_br_flower_demo_def Let_def intro!: keeps_intro, simp_all)

lemma ok_flags [simp]:
  "fields_ok (s\<lparr>work_chase := w\<rparr>) = fields_ok s"
  "fields_ok (s\<lparr>work_breathing := w\<rparr>) = fields_ok s"
  by (simp_all add: fields_ok_def)

lemma ok_queue [keeps_intro]:
  "keeps fields_ok schedule_chase" "keeps fields_ok schedule_breathing"
  "keeps fields_ok cancel_chase" "keeps fields_ok cancel_breathing"
  by (simp_all add: keeps_def schedule_chase_def schedule_breathing_def cancel_chase_def
      cancel_breathing_def)

lemma ok_chase_run: "keeps fields_ok chase_run"
proof -
  have sw: "fields_ok s \<Longrightarrow> fields_ok (chase_switch l s)" for l s
    using ok_chase_switch by (simp add: keeps_def)
  have md: "fields_ok s \<Longrightarrow> fields_ok (ktd2058_mode_change DEFAULT 0 s)" for s
    using ok_mode_change [of 0 DEFAULT] by (simp add: keeps_def)
  have up: "fields_ok (s\<lparr>chase_ops := (chase_ops s)\<lparr>ch_cnt := n\<rparr>\<rparr>) = fields_ok s"
    "fields_ok (s\<lparr>chase_ops := (chase_ops s)\<lparr>ch_cnt := n, ch_level := l\<rparr>\<rparr>) = fields_ok s" for s n l
    by (simp_all add: fields_ok_def)
  show ?thesis
    by (simp add: keeps_def chase_run_def ktd2058_chase_ctrl_work_def Let_def schedule_chase_def
        up sw md cancel_breathing_def)
qed

lemma ok_breathing_run: "keeps fields_ok breathing_run"
proof -
  have sw: "fields_ok s \<Longrightarrow> fields_ok (breathing_switch l s)" for l s
    using ok_breathing_switch by (simp add: keeps_def)
  have cn: "fields_ok (set_br_cnt n s) = fields_ok s" for n s
    by (simp add: fields_ok_def set_br_cnt_def)
  have up: "fields_ok (s\<lparr>br_ops := (br_ops s)\<lparr>br_cnt := a, br_max_cnt := b, br_en := c,
      br_level := l\<rparr>\<rparr>) = fields_ok s" for s a b c l
    by (simp add: fields_ok_def)
  show ?thesis
    by (simp add: keeps_def breathing_run_def ktd2058_breathing_ctrl_work_def Let_def
        schedule_breathing_def up sw cn)
qed

subsection \<open>Attributes\<close>

text \<open>The writable and the readable attributes, in the order of \<open>ktd2058_flash_attrs\<close>.\<close>

definition ktd2058_flash_attrs_store :: "ktd_store list" where
  "ktd2058_flash_attrs_store =
     [ktd2058_modechange_store, ktd2058_brightextend_store, ktd2058_fade_rate_store,
      ktd2058_ce_temp_store, ktd2058_breathing_store, ktd2058_br2colors_store,
      ktd2058_br_logscale_store, ktd2058_br_demo_store, ktd2058_br_white_store,
      ktd2058_br_logscale_demo_store, ktd2058_br_flower_store, ktd2058_chase_store,
      ktd2058_chasing_demo_store, ktd2058_racing_demo_store, ktd2058_debug_store]"

definition ktd2058_flash_attrs_show :: "ktd_show list" where
  "ktd2058_flash_attrs_show =
     [ktd2058_brightextend_show, ktd2058_fade_rate_show, ktd2058_ce_temp_show,
      ktd2058_br_white_show, ktd2058_device_info, ktd2058_device_version]"

lemma ok_read_reg: "fields_ok s \<Longrightarrow> ktd2058_read_reg reg s = (rc, t, s') \<Longrightarrow> fields_ok s'"
  by (auto simp: ktd2058_read_reg_def Let_def fields_ok_def split: if_splits)

lemma ok_masked_write [keeps_intro]:
  "keeps fields_ok (\<lambda>s. snd (ktd2058_masked_write reg m v s))"
  by (simp add: keeps_def ktd2058_masked_write_def ktd2058_read_reg_def ktd2058_write_reg_def
      fields_ok_def Let_def)

lemma clamp_le: "clamp_u32 hi v \<le> hi"
  by (simp add: clamp_u32_def not_less)

lemma ok_updates [keeps_intro]:
  "keeps fields_ok (\<lambda>s. s\<lparr>pdata := (pdata s)\<lparr>brightextend := clamp_u32 1 v\<rparr>\<rparr>)"
  "keeps fields_ok (\<lambda>s. s\<lparr>pdata := (pdata s)\<lparr>fade_rate := clamp_u32 7 v\<rparr>\<rparr>)"
  "keeps fields_ok (\<lambda>s. s\<lparr>pdata := (pdata s)\<lparr>ce_temp := clamp_u32 3 v\<rparr>\<rparr>)"
  "keeps fields_ok (\<lambda>s. s\<lparr>br_ops := (br_ops s)\<lparr>br_level := l, br_max_cnt := n\<rparr>\<rparr>)"
  "keeps fields_ok (\<lambda>s. s\<lparr>br_ops := (br_ops s)\<lparr>br_cnt := n, br_en := e, br_max_cnt := m,
     br_level := l\<rparr>\<rparr>)"
  "keeps fields_ok (\<lambda>s. s\<lparr>br_ops := (br_ops s)\<lparr>br_cnt := n, br_max_cnt := m\<rparr>\<rparr>)"
  "keeps fields_ok (\<lambda>s. s\<lparr>br_ops := (br_ops s)\<lparr>br_en := e, br_level := l\<rparr>\<rparr>)"
  "keeps fields_ok (\<lambda>s. s\<lparr>chase_ops := (chase_ops s)\<lparr>ch_level := cl, ch_fade := 0, ch_cnt := n,
     ch_max_cnt := m, ch_delay := d\<rparr>\<rparr>)"
  "keeps fields_ok (\<lambda>s. s\<lparr>chase_ops := (chase_ops s)\<lparr>ch_max_cnt := m\<rparr>\<rparr>)"
  "keeps fields_ok (\<lambda>s. s\<lparr>chase_ops := (chase_ops s)\<lparr>ch_level := cl\<rparr>\<rparr>)"
  "keeps fields_ok (scale_max_cnt k)"
  using clamp_le [of 1 v] clamp_le [of 7 v] clamp_le [of 3 v]
  by (simp_all add: keeps_def fields_ok_def scale_max_cnt_def)

lemma ok_stored_fades [keeps_intro]:
  "keeps fields_ok (\<lambda>s. ktd2058_mode_change mode (br_fade_on (br_ops s)) s)"
  "keeps fields_ok (\<lambda>s. ktd2058_mode_change mode (ch_fade (chase_ops s)) s)"
  using ok_mode_change [of _ mode] by (auto simp: keeps_def fields_ok_def)

lemma keeps_storeI:
  assumes "\<And>v. keeps I (\<lambda>s. snd (f (Inr v) n s))" and "\<And>r. keeps I (\<lambda>s. snd (f (Inl r) n s))"
  shows "keeps I (\<lambda>s. snd (f p n s))"
  using assms by (cases p) auto

text \<open>One lemma per writable attribute; \<open>ok_stores\<close> collects them.\<close>

lemma ok_modechange_store: "keeps fields_ok (\<lambda>s. snd (ktd2058_modechange_store p n s))"
  by (rule keeps_storeI; simp only: ktd2058_modechange_store_def sum.case snd_conv Let_def;
    intro keeps_intro; simp)

lemma ok_brightextend_store: "keeps fields_ok (\<lambda>s. snd (ktd2058_brightextend_store p n s))"
  by (rule keeps_storeI; simp only: ktd2058_brightextend_store_def sum.case snd_conv Let_def;
    intro keeps_intro; simp)

lemma ok_fade_rate_store: "keeps fields_ok (\<lambda>s. snd (ktd2058_fade_rate_store p n s))"
  by (rule keeps_storeI; simp only: ktd2058_fade_rate_store_def sum.case snd_conv Let_def;
    intro keeps_intro; simp)

lemma ok_ce_temp_store: "keeps fields_ok (\<lambda>s. snd (ktd2058_ce_temp_store p n s))"
proof -
  note cancel = keeps_comp [OF ok_queue(3) ok_queue(4)]
  show ?thesis
  proof (rule keeps_storeI; simp only: ktd2058_ce_temp_store_def sum.case snd_conv Let_def)
    show "keeps fields_ok (\<lambda>s. cancel_breathing (cancel_chase s))" by (rule cancel)
    fix v
    show "keeps fields_ok (\<lambda>s. seq [\<lambda>s. s\<lparr>pdata := (pdata s)\<lparr>ce_temp := clamp_u32 3 v\<rparr>\<rparr>,
        \<lambda>s. snd (ktd2058_masked_write REG_CONTROL 0x18 (ucast (push_bit 3 (clamp_u32 3 v))) s)]
        (cancel_breathing (cancel_chase s)))"
      by (rule keeps_comp [OF cancel]) (intro keeps_intro)
  qed
qed

lemma ok_breathing_store: "keeps fields_ok (\<lambda>s. snd (ktd2058_breathing_store p n s))"
  by (rule keeps_storeI; simp only: ktd2058_breathing_store_def sum.case snd_conv Let_def;
    intro keeps_intro; simp)

lemma ok_br2colors_store: "keeps fields_ok (\<lambda>s. snd (ktd2058_br2colors_store p n s))"
  by (rule keeps_storeI; simp only: ktd2058_br2colors_store_def sum.case snd_conv Let_def;
    intro keeps_intro; simp)

lemma ok_br_logscale_store: "keeps fields_ok (\<lambda>s. snd (ktd2058_br_logscale_store p n s))"
  by (rule keeps_storeI; simp only: ktd2058_br_logscale_store_def sum.case snd_conv Let_def;
    intro keeps_intro; simp)

lemma ok_br_demo_store: "keeps fields_ok (\<lambda>s. snd (ktd2058_br_demo_store p n s))"
  by (rule keeps_storeI; simp only: ktd2058_br_demo_store_def sum.case snd_conv Let_def;
    intro keeps_intro; simp)

lemma ok_br_white_store: "keeps fields_ok (\<lambda>s. snd (ktd2058_br_white_store p n s))"
  by (rule keeps_storeI; simp only: ktd2058_br_white_store_def sum.case snd_conv Let_def;
    intro keeps_intro; simp)

lemma ok_br_logscale_demo_store: "keeps fields_ok (\<lambda>s. snd (ktd2058_br_logscale_demo_store p n s))"
  by (rule keeps_storeI; simp only: ktd2058_br_logscale_demo_store_def sum.case snd_conv Let_def;
    intro keeps_intro; simp)

lemma ok_br_flower_store: "keeps fields_ok (\<lambda>s. snd (ktd2058_br_flower_store p n s))"
  by (rule keeps_storeI; simp only: ktd2058_br_flower_store_def sum.case snd_conv Let_def;
    intro keeps_intro; simp)

lemma ok_chase_store: "keeps fields_ok (\<lambda>s. snd (ktd2058_chase_store p n s))"
  by (rule keeps_storeI; simp only: ktd2058_chase_store_def sum.case snd_conv Let_def;
    intro keeps_intro; simp)

lemma ok_chasing_demo_store: "keeps fields_ok (\<lambda>s. snd (ktd2058_chasing_demo_store p n s))"
  by (rule keeps_storeI; simp only: ktd2058_chasing_demo_store_def sum.case snd_conv Let_def;
    intro keeps_intro; simp)

lemma ok_racing_demo_store: "keeps fields_ok (\<lambda>s. snd (ktd2058_racing_demo_store p n s))"
  by (rule keeps_storeI; simp only: ktd2058_racing_demo_store_def sum.case snd_conv Let_def;
    intro keeps_intro; simp)

lemma ok_debug_store: "keeps fields_ok (\<lambda>s. snd (ktd2058_debug_store p n s))"
  by (rule keeps_storeI; simp only: ktd2058_debug_store_def sum.case snd_conv Let_def;
    intro keeps_intro; simp)

lemma ok_stores:
  assumes "f \<in> set ktd2058_flash_attrs_store"
  shows "keeps fields_ok (\<lambda>s. snd (f p n s))"
  using assms
  by (auto simp only: ktd2058_flash_attrs_store_def list.set insert_iff empty_iff
      intro: ok_modechange_store ok_brightextend_store ok_fade_rate_store ok_ce_temp_store
        ok_breathing_store ok_br2colors_store ok_br_logscale_store ok_br_demo_store
        ok_br_white_store ok_br_logscale_demo_store ok_br_flower_store ok_chase_store
        ok_chasing_demo_store ok_racing_demo_store ok_debug_store)

text \<open>A show function stores back a field it masked out of the register.\<close>

lemma masked_fields:
  "(ucast (drop_bit 5 (v AND 0x20) :: u8) :: u32) \<le> 1"
  "(ucast (v AND 0x07 :: u8) :: u32) \<le> 7"
  "(ucast (drop_bit 3 (v AND 0x18) :: u8) :: u32) \<le> 3"
  using be_field.get_bound [of v] fade_field.get_bound [of v] ce_field.get_bound [of v]
  by (simp_all add: word_le_nat_alt unat_u8_u32)

lemma read_control_pdata: "pdata (snd (read_control s)) = pdata s"
  "br_ops (snd (read_control s)) = br_ops s" "chase_ops (snd (read_control s)) = chase_ops s"
  by (simp_all add: read_control_def ktd2058_read_reg_def Let_def)

lemma read_regs_pdata: "pdata (snd (read_regs is s)) = pdata s \<and>
  br_ops (snd (read_regs is s)) = br_ops s \<and> chase_ops (snd (read_regs is s)) = chase_ops s"
  by (induction "is" arbitrary: s)
    (simp_all add: ktd2058_read_reg_def Let_def case_prod_beta)

lemma ok_field_shows:
  "keeps fields_ok (\<lambda>s. snd (ktd2058_brightextend_show s))"
  "keeps fields_ok (\<lambda>s. snd (ktd2058_fade_rate_show s))"
  "keeps fields_ok (\<lambda>s. snd (ktd2058_ce_temp_show s))"
  using masked_fields
  by (simp_all del: drop_bit_and take_bit_eq_mask
      add: keeps_def fields_ok_def Let_def case_prod_beta read_control_pdata
        ktd2058_brightextend_show_def ktd2058_fade_rate_show_def ktd2058_ce_temp_show_def)

lemma ok_text_shows:
  "keeps fields_ok (\<lambda>s. snd (ktd2058_br_white_show s))"
  "keeps fields_ok (\<lambda>s. snd (ktd2058_device_version s))"
  by (simp_all add: keeps_def ktd2058_br_white_show_def ktd2058_device_version_def)

lemma ok_device_info: "keeps fields_ok (\<lambda>s. snd (ktd2058_device_info s))"
proof -
  have "snd (ktd2058_device_info s) = snd (read_regs [0..8] s)" for s
    unfolding ktd2058_device_info_def by (rule prod.case_distrib [of snd, THEN trans]) (simp only: snd_conv prod.case_eq_if)
  then show ?thesis
    by (simp only: keeps_def fields_ok_def read_regs_pdata simp_thms)
qed

lemma ok_shows:
  assumes "f \<in> set ktd2058_flash_attrs_show"
  shows "keeps fields_ok (\<lambda>s. snd (f s))"
  using assms
  by (auto simp only: ktd2058_flash_attrs_show_def list.set insert_iff empty_iff
      intro: ok_field_shows ok_text_shows ok_device_info)

subsection \<open>Reachable chips\<close>

text \<open>
  A step is a write or a read of an attribute by user space, or an execution of a pending
  work item by the workqueue, in any order.
\<close>

inductive ktd_step :: "ktd2058_chip \<Rightarrow> ktd2058_chip \<Rightarrow> bool" where
  write_attr: "f \<in> set ktd2058_flash_attrs_store \<Longrightarrow> ktd_step s (snd (f p n s))"
| read_attr: "f \<in> set ktd2058_flash_attrs_show \<Longrightarrow> ktd_step s (snd (f s))"
| run_chase: "work_chase s \<Longrightarrow> ktd_step s (chase_run s)"
| run_breathing: "work_breathing s \<Longrightarrow> ktd_step s (breathing_run s)"

inductive ktd_reachable :: "ktd_env \<Rightarrow> ktd2058_platform_data \<Rightarrow> ktd2058_chip \<Rightarrow> bool"
  for env p where
  probed: "ktd_reachable env p (ktd2058_probe_chip env p)"
| step: "ktd_reachable env p s \<Longrightarrow> ktd_step s t \<Longrightarrow> ktd_reachable env p t"

inductive_cases ktd_stepE: "ktd_step s t"

lemma step_fields_ok: "ktd_step s t \<Longrightarrow> fields_ok s \<Longrightarrow> fields_ok t"
  by (induction rule: ktd_step.induct)
    (blast intro: keepsD [OF ok_stores] keepsD [OF ok_shows] keepsD [OF ok_chase_run]
      keepsD [OF ok_breathing_run])+

lemma probe_fields_ok:
  assumes "brightextend p \<le> 1" "ce_temp p \<le> 3" "fade_rate p \<le> 7"
  shows "fields_ok (ktd2058_probe_chip env p)"
proof -
  have "fields_ok (ktd2058_chip_init (ktd_zero_chip env p))"
    using assms
    by (simp add: ktd2058_chip_init_def ktd_zero_chip_def ktd_write_eq fields_ok_def Let_def)
  then show ?thesis
    unfolding ktd2058_probe_chip_def by (rule keepsD [OF ok_mode_change, rotated]) simp
qed

lemma reachable_fields_ok:
  assumes "ktd_reachable env p s"
    and "brightextend p \<le> 1" "ce_temp p \<le> 3" "fade_rate p \<le> 7"
  shows "fields_ok s"
  using assms
  by (induction rule: ktd_reachable.induct) (auto intro: probe_fields_ok step_fields_ok)

end
