(* ===== verification/Ktd_Props.thy ===== *)
theory Ktd_Props
  imports Ktd_Invariant
begin

text \<open>
  The properties of the LED driver: the encoding of the control register, which registers the
  sequences write, the attributes' effect on the hardware, and how often and how long the
  work items run.
\<close>

subsection \<open>Auxiliary facts\<close>

lemma u32_le_7: "(x::u32) \<le> 7 \<Longrightarrow> x = 0 \<or> x = 1 \<or> x = 2 \<or> x = 3 \<or> x = 4 \<or> x = 5 \<or> x = 6 \<or> x = 7"
  by unat_arith

lemma u32_le_3: "(x::u32) \<le> 3 \<Longrightarrow> x = 0 \<or> x = 1 \<or> x = 2 \<or> x = 3"
  by unat_arith

lemma u32_le_1: "(x::u32) \<le> 1 \<Longrightarrow> x = 0 \<or> x = 1"
  by unat_arith

lemma u8_le_7: "(x::u8) \<le> 7 \<Longrightarrow> x = 0 \<or> x = 1 \<or> x = 2 \<or> x = 3 \<or> x = 4 \<or> x = 5 \<or> x = 6 \<or> x = 7"
  by unat_arith

lemma control_fields:
  assumes "b \<le> 1" "c \<le> 3" "f \<le> 7" and "mode \<in> {0, 1, 2}"
  defines "v \<equiv> word_of_int (64 * mode) OR
    (ucast (push_bit 5 (b::u32) OR push_bit 3 (c::u32) OR ucast (f::u8)) :: u8)"
  shows "uint (drop_bit 6 v) = mode \<and> ucast (drop_bit 5 v AND 1) = b \<and>
    ucast (drop_bit 3 v AND 3) = c \<and> v AND 7 = f"
  using u32_le_1 [OF assms(1)] u32_le_3 [OF assms(2)] u8_le_7 [OF assms(3)] assms(4)
  unfolding v_def by (elim disjE insertE emptyE) simp_all

lemma mode_byte:
  assumes "mode \<in> {0, 1, 2}"
  shows "kio (ktd2058_mode_change mode fade s) = I2cWrite 2 (word_of_int (64 * mode) OR
    ucast (push_bit 5 (brightextend (pdata s)) OR push_bit 3 (ce_temp (pdata s)) OR ucast fade)) # kio s"
  using assms by (auto simp: ktd2058_mode_change_def ktd_write_eq Let_def)

lemma reads_back_cancel:
  "client (cancel_breathing (cancel_chase s)) = client s"
  "kio (cancel_breathing (cancel_chase s)) = kio s"
  "pdata (cancel_breathing (cancel_chase s)) = pdata s"
  by (simp_all add: cancel_breathing_def cancel_chase_def)

text \<open>Executions of a pending work item: the chain of runs the workqueue makes.\<close>

definition runs_for :: "('s \<Rightarrow> 's) \<Rightarrow> ('s \<Rightarrow> bool) \<Rightarrow> 's \<Rightarrow> nat \<Rightarrow> bool" where
  "runs_for run pending s n \<longleftrightarrow>
     (\<forall>k. k < n \<longrightarrow> pending ((run ^^ k) s)) \<and> \<not> pending ((run ^^ n) s)"

lemma runs_forI:
  assumes "pending s" and "(\<forall>n. 0 < n \<and> n \<le> m \<longrightarrow> pending ((run ^^ n) s)) \<and>
    \<not> pending ((run ^^ Suc m) s)"
  shows "runs_for run pending s (Suc m)"
  unfolding runs_for_def
proof (intro conjI allI impI)
  fix k assume "k < Suc m"
  then show "pending ((run ^^ k) s)" using assms by (cases "k = 0") auto
qed (use assms in blast)

fun chase_rounds :: "int \<Rightarrow> int" where
  "chase_rounds level =
     (if level = CHASE_2COLORS_UP \<or> level = CHASE_2COLORS_DOWN then 5
      else if level = CHASEUP_1 \<or> level = CHASEDOWN_2 then 2
      else if level = CHASEUP_3 \<or> level = CHASEDOWN_3 then 3
      else if level = CHASEUP_4 \<or> level = CHASEDOWN_4 then 4 else 1)"

lemma chase_store_ops:
  assumes "v < 20"
  shows "chase_ops (snd (ktd2058_chase_store (Inr v) n s)) =
      \<lparr>ch_level = uint v, ch_fade = 0, ch_delay = 2000, ch_cnt = 0, ch_max_cnt = chase_rounds (uint v)\<rparr>"
    and "work_chase (snd (ktd2058_chase_store (Inr v) n s))"
proof -
  have v: "uint v < 20" using assms by (simp add: word_less_def)
  have f: "chase_ops (ktd2058_mode_change m x t) = chase_ops t"
    "chase_ops (ktd2058_select_color c x t) = chase_ops t" "chase_ops (msleep d t) = chase_ops t" for m x t c d
    using ctl_mode_change ctl_select_color ctl_msleep
    by (auto intro!: ktd_ctlD ctl_keep)
  show "chase_ops (snd (ktd2058_chase_store (Inr v) n s)) =
      \<lparr>ch_level = uint v, ch_fade = 0, ch_delay = 2000, ch_cnt = 0, ch_max_cnt = chase_rounds (uint v)\<rparr>"
    "work_chase (snd (ktd2058_chase_store (Inr v) n s))"
    using v by (simp_all add: ktd2058_chase_store_def Let_def f schedule_chase_def scale_max_cnt_def
        cancel_chase_def cancel_breathing_def)
qed

lemma breathing_store_ops:
  assumes "0 < v" and "v < 100"
  shows "br_level (br_ops (snd (ktd2058_breathing_store (Inr v) n s))) = BR_NORMAL"
    and "br_en (br_ops (snd (ktd2058_breathing_store (Inr v) n s))) = 0"
    and "br_cnt (br_ops (snd (ktd2058_breathing_store (Inr v) n s))) = 0"
    and "br_max_cnt (br_ops (snd (ktd2058_breathing_store (Inr v) n s))) = uint v"
    and "work_breathing (snd (ktd2058_breathing_store (Inr v) n s))"
  using assms by (simp_all add: ktd2058_breathing_store_def schedule_breathing_def)

lemma emits_chase_ctrl_work: "emits kio (led_io 15) ktd2058_chase_ctrl_work"
  unfolding emits_def
proof
  fix s
  let ?s = "chase_switch (ch_level (chase_ops (cancel_breathing s))) (cancel_breathing s)"
  obtain xs where xs: "kio ?s = xs @ kio (cancel_breathing s)" "list_all (led_io 15) xs"
    by (rule emitsE [OF emits_chase_switch])
  have k: "kio (cancel_breathing s) = kio s" by (simp add: cancel_breathing_def)
  have m: "\<exists>v. kio (ktd2058_mode_change DEFAULT 0 t) = I2cWrite 2 v # kio t" for t
    by (simp add: ktd2058_mode_change_def ktd_write_eq Let_def)
  have "kio (ktd2058_chase_ctrl_work s) = kio ?s \<or>
      (\<exists>v. kio (ktd2058_chase_ctrl_work s) = I2cWrite 2 v # kio ?s)"
  proof (cases "ch_cnt (chase_ops ?s) < ch_max_cnt (chase_ops ?s)")
    case True
    then show ?thesis by (simp add: ktd2058_chase_ctrl_work_def Let_def schedule_chase_def)
  next
    case False
    then show ?thesis
      using m [of "?s\<lparr>chase_ops := (chase_ops ?s)\<lparr>ch_cnt := 0, ch_level := 0\<rparr>\<rparr>"]
      by (simp add: ktd2058_chase_ctrl_work_def Let_def)
  qed
  then show "\<exists>zs. kio (ktd2058_chase_ctrl_work s) = zs @ kio s \<and> list_all (led_io 15) zs"
  proof (elim disjE exE)
    fix v
    assume "kio (ktd2058_chase_ctrl_work s) = I2cWrite 2 v # kio ?s"
    then have "kio (ktd2058_chase_ctrl_work s) = (I2cWrite 2 v # xs) @ kio s"
      using xs k by simp
    moreover have "list_all (led_io 15) (I2cWrite 2 v # xs)"
      using xs by (simp add: led_io_def)
    ultimately show ?thesis by blast
  qed (use xs k in auto)
qed

lemma fade_bits: "unat ((ucast (clamp_u32 7 v) :: u8) AND 7) = unat (clamp_u32 7 v)"
  using u32_le_7 [OF clamp_le [of 7 v]] by (elim disjE) simp_all

lemma temp_bits: "unat (drop_bit 3 ((ucast (push_bit 3 (clamp_u32 3 v)) :: u8) AND 0x18)) =
  unat (clamp_u32 3 v)"
  using u32_le_3 [OF clamp_le [of 3 v]] by (elim disjE) simp_all

lemma masked_then_read:
  assumes "reads_back (client s) r0"
  shows "fst (read_control (snd (ktd2058_masked_write REG_CONTROL m v s))) =
    mask_put m v (regs_of r0 s 2)"
proof -
  let ?t = "snd (ktd2058_masked_write REG_CONTROL m v s)"
  have "client ?t = client s"
    by (simp add: ktd2058_masked_write_def ktd2058_read_reg_def ktd2058_write_reg_def Let_def)
  then have "fst (read_control ?t) = regs_of r0 ?t 2"
    using read_reg_back [of ?t r0 2] assms by (simp add: read_control_def)
  then show ?thesis by (simp add: masked_write_back [OF assms])
qed

text \<open>One execution sleeps the duration of its level, and leaves level and limit alone.\<close>

lemma chase_run_sleeps:
  "sleep_total (kio (chase_run s)) = sleep_total (kio s) + chase_duration (ch_level (chase_ops s))"
proof -
  have m: "sleep_total (kio (ktd2058_mode_change DEFAULT 0 t)) = sleep_total (kio t)" for t
    by (simp add: ktd2058_mode_change_def ktd_write_eq Let_def)
  have c: "sleep_total (kio (chase_switch l t)) = sleep_total (kio t) + chase_duration l" for l t
    using takes_chase_switch by (simp add: takes_def)
  show ?thesis
    by (simp del: chase_duration.simps add: chase_run_def ktd2058_chase_ctrl_work_def Let_def
        schedule_chase_def cancel_breathing_def m c)
qed

lemma chase_runs_sleep:
  assumes "0 \<le> ch_cnt (chase_ops s)" and "int k \<le> ch_max_cnt (chase_ops s) - ch_cnt (chase_ops s) + 1"
  shows "sleep_total (kio ((chase_run ^^ k) s)) =
      sleep_total (kio s) + int k * chase_duration (ch_level (chase_ops s))"
  using assms(2)
proof (induction k)
  case (Suc k)
  have ops: "j \<le> k \<Longrightarrow> chase_ops ((chase_run ^^ j) s) = (chase_ops s)\<lparr>ch_cnt := ch_cnt (chase_ops s) + int j\<rparr>" for j
  proof (induction j)
    case (Suc j)
    then show ?case using \<open>int (Suc k) \<le> _\<close> by (simp add: chase_run_ctl)
  qed simp
  show ?case using Suc ops [of k] by (simp del: chase_duration.simps add: chase_run_sleeps algebra_simps)
qed simp

lemma logscale_uint:
  assumes "0 \<le> i" "i \<le> 7"
  shows "uint (logscale_level c i) = (uint c + ktd_pow 2 (7 - i) - 1) div ktd_pow 2 (7 - i)"
proof -
  have "i = 0 \<or> i = 1 \<or> i = 2 \<or> i = 3 \<or> i = 4 \<or> i = 5 \<or> i = 6 \<or> i = 7" using assms by auto
  moreover obtain x where "uint c = x" "0 \<le> x" "x < 256" using uint_bounded [of c] by auto
  ultimately show ?thesis
    by (elim disjE) (simp_all add: logscale_level_def DIV_ROUND_UP_def sdiv_nonneg uint_word_of_int
        ktd_pow_def s32_def)
qed

lemma palette_level:
  assumes "n < 5"
  shows "uint imax div 32 \<le> uint (word_of_int (DIV_ROUND_UP (uint imax sdiv (2 * 2 ^ n)) 1) :: u8) \<and>
   uint (word_of_int (DIV_ROUND_UP (uint imax sdiv (2 * 2 ^ n)) 1) :: u8) \<le> uint (imax :: u8) div 2"
proof -
  have "n = 0 \<or> n = 1 \<or> n = 2 \<or> n = 3 \<or> n = 4" using assms by auto
  moreover obtain x where "uint imax = x" "0 \<le> x" "x < 256" using uint_bounded [of imax] by auto
  ultimately show ?thesis
    by (elim disjE) (simp_all add: DIV_ROUND_UP_def sdiv_nonneg uint_word_of_int, arith+)
qed

lemma unat_mod5: "unat ((r::u8) mod 5) < 5"
proof -
  have "r mod 5 < 5" by (simp add: word_mod_less_divisor)
  then show ?thesis by (simp only: word_less_nat_alt) simp
qed

lemmas palette_byte = palette_level [OF unat_mod5]

text \<open>A chip that behaves: writes succeed, reads return the registers, all 0 at power-on.\<close>

definition ktd_plain_env :: ktd_env where
  "ktd_plain_env = \<lparr>smbus_write_byte_data = (\<lambda>h r v. 0),
     smbus_read_byte_data = (\<lambda>h r. uint (ktd_reg (\<lambda>r. 0) h r)),
     random_u8 = (\<lambda>h. 0), stack_u8 = (\<lambda>h. 0)\<rparr>"

definition ktd_plain_chip :: ktd2058_chip where
  "ktd_plain_chip = ktd2058_probe_chip ktd_plain_env
     \<lparr>brightextend = 1, ce_temp = 2, fade_rate = 3, en_mode = 0\<rparr>"

lemma plain_reads_back: "reads_back (client ktd_plain_chip) (\<lambda>r. 0)"
proof -
  have "client ktd_plain_chip = ktd_plain_env"
    by (simp add: ktd_plain_chip_def ktd2058_probe_chip_def ktd2058_chip_init_def
        ktd_zero_chip_def ktd2058_mode_change_def ktd_write_eq Let_def)
  then show ?thesis by (simp add: reads_back_def ktd_plain_env_def)
qed

subsection \<open>Properties\<close>

text \<open>
  C10: In every state that the driver can reach from a probe whose device-tree
  values are in range (any interleaving of attribute writes, attribute reads and work item
  executions), \<open>ktd2058_mode_change\<close> writes one byte to the control register, and that byte
  decodes to exactly the mode, the brightness extension, the colour temperature and the fade
  rate: no field spills into another.
\<close>

theorem control_register_decodes:
  assumes "ktd_reachable env p s" and "brightextend p \<le> 1" and "ce_temp p \<le> 3" and "fade_rate p \<le> 7"
    and "mode = GLOBAL_OFF \<or> mode = NIGHT_MODE \<or> mode = NORMAL_MODE" and "fade \<le> 7"
  shows "\<exists>v. kio (ktd2058_mode_change mode fade s) = I2cWrite 2 v # kio s \<and>
    uint (drop_bit 6 v) = mode \<and> ucast (drop_bit 5 v AND 1) = brightextend (pdata s) \<and>
    ucast (drop_bit 3 v AND 3) = ce_temp (pdata s) \<and> v AND 7 = fade"
proof -
  have ok: "brightextend (pdata s) \<le> 1" "ce_temp (pdata s) \<le> 3"
    using reachable_fields_ok [OF assms(1-4)] by (simp_all add: fields_ok_def)
  have m: "mode \<in> {0, 1, 2}" using assms(5) by auto
  show ?thesis
    unfolding mode_byte [OF m] using control_fields [OF ok assms(6) m] by blast
qed

theorem control_register_decodes_witness:
  "\<exists>v. kio (ktd2058_mode_change 2 5 ktd_plain_chip) = I2cWrite 2 v # kio ktd_plain_chip \<and>
    uint (drop_bit 6 v) = 2 \<and> ucast (drop_bit 5 v AND 1) = brightextend (pdata ktd_plain_chip) \<and>
    ucast (drop_bit 3 v AND 3) = ce_temp (pdata ktd_plain_chip) \<and> v AND 7 = 5"
  by (rule control_register_decodes [of ktd_plain_env
        "\<lparr>brightextend = 1, ce_temp = 2, fade_rate = 3, en_mode = 0\<rparr>"])
    (simp_all add: ktd_plain_chip_def ktd_reachable.probed)

text \<open>
  One execution of the chase work item, at any level, only sleeps and writes
  registers 0x02 to 0x0F, and reads nothing: no chase, demo or mode change it runs can reset
  or reprobe the chip.
\<close>

theorem chase_work_confined:
  "\<exists>xs. kio (ktd2058_chase_ctrl_work s) = xs @ kio s \<and> list_all (led_io 15) xs"
  using emits_chase_ctrl_work by (simp add: emits_def)

text \<open>
  C31: Writing \<open>v\<close> below 20 to the chase attribute makes the chase work item run
  exactly one time more than the rounds of its level before it falls idle: 6 for the two-colour
  chases, 5 and 4 for the four- and three-dot chases, 3 for CHASEUP_1 and CHASEDOWN_2, and 2
  for every other value, CHASEUP_2 and the values above the enum included.
\<close>

theorem chase_store_runs:
  assumes "v < 20"
  shows "runs_for chase_run work_chase (snd (ktd2058_chase_store (Inr v) n s))
    (Suc (nat (chase_rounds (uint v))))"
proof (rule runs_forI)
  let ?s = "snd (ktd2058_chase_store (Inr v) n s)"
  show "work_chase ?s" by (rule chase_store_ops) (rule assms)
  show "(\<forall>k. 0 < k \<and> k \<le> nat (chase_rounds (uint v)) \<longrightarrow> work_chase ((chase_run ^^ k) ?s)) \<and>
    \<not> work_chase ((chase_run ^^ Suc (nat (chase_rounds (uint v)))) ?s)"
    using chase.runs_exactly [of ?s] unfolding chase_store_ops [OF assms] by simp
qed

theorem chase_store_runs_witness:
  "runs_for chase_run work_chase (snd (ktd2058_chase_store (Inr 9) 2 ktd_plain_chip)) 6 \<and>
   runs_for chase_run work_chase (snd (ktd2058_chase_store (Inr 3) 2 ktd_plain_chip)) 2"
  using chase_store_runs [of 9 2 ktd_plain_chip] chase_store_runs [of 3 2 ktd_plain_chip]
  by (simp flip: numeral_2_eq_2)

text \<open>
  The runs that a write to the chase attribute starts sleep, in total, the
  rounds plus one times the duration of one pass of the level, in milliseconds. An upward
  single chase takes 14 delays a pass and a downward one 12, as the upward loop runs to
  register 0x0F.
\<close>

theorem chase_store_total_time:
  assumes "v < 20"
  shows "sleep_total (kio ((chase_run ^^ Suc (nat (chase_rounds (uint v))))
      (snd (ktd2058_chase_store (Inr v) n s)))) =
    sleep_total (kio (snd (ktd2058_chase_store (Inr v) n s))) +
    (chase_rounds (uint v) + 1) * chase_duration (uint v)"
proof -
  have r: "0 \<le> chase_rounds (uint v)" by simp
  then show ?thesis
    using chase_runs_sleep [of "snd (ktd2058_chase_store (Inr v) n s)" "Suc (nat (chase_rounds (uint v)))"]
    by (simp del: chase_duration.simps chase_rounds.simps add: chase_store_ops [OF assms])
qed

theorem chase_store_total_time_witness:
  "sleep_total (kio ((chase_run ^^ 3) (snd (ktd2058_chase_store (Inr 1) 2 ktd_plain_chip)))) =
     sleep_total (kio (snd (ktd2058_chase_store (Inr 1) 2 ktd_plain_chip))) + 63000"
  using chase_store_total_time [of 1 2 ktd_plain_chip] by (simp add: numeral_3_eq_3)

text \<open>
  Writing \<open>v\<close> between 1 and 99 to the breathing attribute makes the breathing
  work item run exactly \<open>v\<close> times and then fall idle.
\<close>

theorem breathing_store_runs:
  assumes "0 < v" and "v < 100"
  shows "runs_for breathing_run work_breathing (snd (ktd2058_breathing_store (Inr v) n s)) (unat v)"
proof -
  let ?s = "snd (ktd2058_breathing_store (Inr v) n s)"
  have "0 < unat v" using assms(1) by unat_arith
  then obtain m where m: "unat v = Suc m" using gr0_implies_Suc by blast
  then have "nat (uint v - 1) = m" by (simp only: unat_eq_nat_uint)
  then show ?thesis
    unfolding m using breathing.runs_exactly [of ?s] breathing_store_ops [OF assms, of n s]
    by (intro runs_forI) simp_all
qed

theorem breathing_store_runs_witness:
  "runs_for breathing_run work_breathing (snd (ktd2058_breathing_store (Inr 3) 1 ktd_plain_chip)) 3"
  using breathing_store_runs [of 3 1 ktd_plain_chip] by simp

text \<open>
  Writing a non-zero value to the white attribute keeps the breathing work
  item pending after every number of executions: it reschedules itself without end until
  another write stops it.
\<close>

theorem white_runs_until_stopped:
  assumes "v \<noteq> 0"
  shows "work_breathing ((breathing_run ^^ k) (snd (ktd2058_br_white_store (Inr v) n s)))"
proof -
  let ?s = "snd (ktd2058_br_white_store (Inr v) n s)"
  have "br_en (br_ops ((breathing_run ^^ k) ?s)) = 1 \<and> br_level (br_ops ((breathing_run ^^ k) ?s)) = BR_White
     \<and> work_breathing ((breathing_run ^^ k) ?s)"
  proof (induction k)
    case 0
    then show ?case using assms by (simp add: ktd2058_br_white_store_def schedule_breathing_def word_le_0_iff)
  next
    case (Suc k)
    then show ?case
      using white_run
      by (simp del: breathing_switch.simps
         add: breathing_run_def ktd2058_breathing_ctrl_work_def Let_def set_br_cnt_def schedule_breathing_def)
  qed
  then show ?thesis by simp
qed

theorem white_runs_until_stopped_witness:
  "work_breathing ((breathing_run ^^ 1000) (snd (ktd2058_br_white_store (Inr 1) 1 ktd_plain_chip)))"
  by (rule white_runs_until_stopped) simp

text \<open>
  On a chip whose registers read back, \<open>ktd2058_masked_write\<close> changes the
  bits of the mask in one register to those of the value, and nothing else.
\<close>

theorem masked_write_rmw:
  assumes "reads_back (client s) r0"
  shows "regs_of r0 (snd (ktd2058_masked_write reg m v s)) =
      (regs_of r0 s)(word_of_int reg := mask_put m v (regs_of r0 s (word_of_int reg))) \<and>
    regs_of r0 (snd (ktd2058_masked_write reg m v s)) (word_of_int reg) AND m = v AND m"
  by (simp add: masked_write_back [OF assms] mask_put_in)

theorem masked_write_rmw_witness:
  "regs_of (\<lambda>r. 0) (snd (ktd2058_masked_write 2 7 5 ktd_plain_chip)) 2 AND 7 = 5"
  using conjunct2 [OF masked_write_rmw [OF plain_reads_back, of 2 7 5]] by simp

text \<open>
  On a chip whose registers read back, what is written to the fade rate or the
  colour temperature attribute is what the attribute then shows, clamped to 7 and to 3.
\<close>

theorem fade_and_temp_read_back:
  assumes "reads_back (client s) r0"
  shows "fst (ktd2058_fade_rate_show (snd (ktd2058_fade_rate_store (Inr v) n s))) =
      ''0x'' @ show_hex (unat (clamp_u32 7 v)) @ nl \<and>
    fst (ktd2058_ce_temp_show (snd (ktd2058_ce_temp_store (Inr v) n s))) =
      ''0x'' @ show_hex (unat (clamp_u32 3 v)) @ nl"
proof -
  let ?c = "cancel_breathing (cancel_chase s)"
  have c: "reads_back (client (?c\<lparr>pdata := p\<rparr>)) r0" for p
    using assms by (simp add: reads_back_cancel)
  show ?thesis
    using masked_then_read [OF c] fade_bits [of v] temp_bits [of v]
    by (simp del: drop_bit_and add: ktd2058_fade_rate_show_def ktd2058_ce_temp_show_def
        ktd2058_fade_rate_store_def ktd2058_ce_temp_store_def Let_def case_prod_beta
        show_u8_def mask_put_in)
qed

theorem fade_and_temp_read_back_witness:
  "fst (ktd2058_fade_rate_show (snd (ktd2058_fade_rate_store (Inr 5) 1 ktd_plain_chip))) =
     ''0x'' @ show_hex 5 @ nl"
  using fade_and_temp_read_back [OF plain_reads_back, of 5 1] by (simp add: clamp_u32_def)

text \<open>
  The brightness extension attribute never changes the brightness extension
  bit 5 of the control register: its mask is 0x02, so the write clears bit 1, which belongs to
  the fade rate, and leaves every other bit and register as it was.
\<close>

theorem brightextend_store_misses_bit:
  assumes "reads_back (client s) r0"
  shows "regs_of r0 (snd (ktd2058_brightextend_store (Inr v) n s)) =
    (regs_of r0 s)(2 := regs_of r0 s 2 AND NOT 2)"
proof -
  let ?v1 = "clamp_u32 1 v"
  have "?v1 = 0 \<or> ?v1 = 1" unfolding clamp_u32_def by (simp; unat_arith)
  then have z: "(ucast (push_bit 5 ?v1) :: u8) AND 2 = 0" by (elim disjE) simp_all
  let ?t = "(cancel_breathing (cancel_chase s))\<lparr>pdata := (pdata s)\<lparr>brightextend := ?v1\<rparr>\<rparr>"
  have "reads_back (client ?t) r0" using assms by (simp add: reads_back_cancel)
  from masked_write_back [OF this, of REG_CONTROL 2 "ucast (push_bit 5 ?v1)"]
  show ?thesis
    using z by (simp add: ktd2058_brightextend_store_def Let_def regs_of_def cancel_breathing_def
        cancel_chase_def mask_put_def)
qed

theorem brightextend_store_misses_bit_witness:
  "regs_of (\<lambda>r. 0) (snd (ktd2058_brightextend_store (Inr 1) 2 ktd_plain_chip)) =
     (regs_of (\<lambda>r. 0) ktd_plain_chip)(2 := regs_of (\<lambda>r. 0) ktd_plain_chip 2 AND NOT 2)"
  by (rule brightextend_store_misses_bit) (rule plain_reads_back)

text \<open>
  The downward race leaves the six select registers 0x09 to 0x0E as they were and
  writes 0xFF over the control register: its loop counts down from 0x0E to 0x09 but its
  register numbers are those of a loop from 2 to 0.
\<close>

theorem race_down_clobbers_control:
  "regs_of r0 (ktd2058_race_two DOWN fade delay s) 2 = 0xFF \<and>
   (9 \<le> r \<and> r \<le> 14 \<longrightarrow> regs_of r0 (ktd2058_race_two DOWN fade delay s) r = regs_of r0 s r)"
proof -
  have "r = 9 \<or> r = 10 \<or> r = 11 \<or> r = 12 \<or> r = 13 \<or> r = 14" if "9 \<le> r \<and> r \<le> 14"
    using that by unat_arith
  moreover have "regs_of r0 (ktd2058_race_two DOWN fade delay s) r = regs_of r0 s r"
    if "r = 9 \<or> r = 10 \<or> r = 11 \<or> r = 12 \<or> r = 13 \<or> r = 14"
    using that
    by (elim disjE) (simp_all add: ktd2058_race_two_def for_down_def select_int_def
      ktd2058_select_one_def ktd_write_eq msleep_def regs_of_def ktd2058_mode_change_def Let_def)
  moreover have "regs_of r0 (ktd2058_race_two DOWN fade delay s) 2 = 0xFF"
    by (simp add: ktd2058_race_two_def for_down_def select_int_def
      ktd2058_select_one_def ktd_write_eq msleep_def regs_of_def)
  ultimately show ?thesis by blast
qed

theorem race_down_clobbers_control_witness:
  "regs_of (\<lambda>r. 0) (ktd2058_race_two 1 1 83 ktd_plain_chip) 2 = 0xFF \<and>
   regs_of (\<lambda>r. 0) (ktd2058_race_two 1 1 83 ktd_plain_chip) 9 = regs_of (\<lambda>r. 0) ktd_plain_chip 9"
  using race_down_clobbers_control [of "\<lambda>r. 0" 1 83 ktd_plain_chip 9] by simp

text \<open>
  The log-scale ramp never falls, and stays at or below half of the colour
  rounded up; its last two steps are equal. \<open>ktd_pow(2, 0)\<close> is 2, so the last step divides
  by 2 where full brightness divides by 1.
\<close>

theorem logscale_ramp:
  assumes "0 \<le> i" and "i \<le> j" and "j \<le> 7"
  shows "uint (logscale_level c i) \<le> uint (logscale_level c j) \<and>
    uint (logscale_level c j) \<le> (uint c + 1) div 2 \<and>
    logscale_level c 7 = logscale_level c 6"
proof -
  have i: "uint (logscale_level c i) = (uint c + ktd_pow 2 (7 - i) - 1) div ktd_pow 2 (7 - i)"
    using assms by (intro logscale_uint) auto
  have j: "uint (logscale_level c j) = (uint c + ktd_pow 2 (7 - j) - 1) div ktd_pow 2 (7 - j)"
    using assms by (intro logscale_uint) auto
  obtain x where x: "uint c = x" "0 \<le> x" "x < 256" using uint_bounded [of c] by auto
  have up1: "(x + ktd_pow 2 (7 - k) - 1) div ktd_pow 2 (7 - k) \<le>
      (x + ktd_pow 2 (7 - (k+1)) - 1) div ktd_pow 2 (7 - (k+1))" if "0 \<le> k" "k < 7" for k
  proof -
    have "k = 0 \<or> k = 1 \<or> k = 2 \<or> k = 3 \<or> k = 4 \<or> k = 5 \<or> k = 6" using that by auto
    then show ?thesis using x by (elim disjE) (auto simp: ktd_pow_def s32_def)
  qed
  have mono: "(x + ktd_pow 2 (7 - i) - 1) div ktd_pow 2 (7 - i) \<le>
      (x + ktd_pow 2 (7 - j) - 1) div ktd_pow 2 (7 - j)"
    using assms(2) assms(3)
  proof (induction j rule: int_ge_induct)
    case (step j)
    then show ?case using up1 [of j] assms(1) by simp
  qed simp
  have "(x + ktd_pow 2 (7 - j) - 1) div ktd_pow 2 (7 - j) \<le> (x + 1) div 2"
  proof -
    have "j = 0 \<or> j = 1 \<or> j = 2 \<or> j = 3 \<or> j = 4 \<or> j = 5 \<or> j = 6 \<or> j = 7"
      using assms by auto
    then show ?thesis using x by (elim disjE) (auto simp: ktd_pow_def s32_def)
  qed
  moreover have "logscale_level c 7 = logscale_level c 6"
    by (simp add: logscale_level_def ktd_pow_def)
  ultimately show ?thesis using mono i j x by simp
qed

theorem logscale_ramp_witness:
  "uint (logscale_level 0xC0 0) \<le> uint (logscale_level 0xC0 5) \<and>
   uint (logscale_level 0xC0 5) \<le> 96"
  using logscale_ramp [of 0 5 "0xC0"] by simp

text \<open>
  A write that \<open>kstrtouint\<close> rejects returns its error from every attribute, does no
  I/O and leaves the settings and both operation blocks as they were.
\<close>

theorem parse_errors_inert:
  assumes "f \<in> set ktd2058_flash_attrs_store"
  shows "fst (f (Inl ret) n s) = ret \<and> kio (snd (f (Inl ret) n s)) = kio s \<and>
    pdata (snd (f (Inl ret) n s)) = pdata s \<and> br_ops (snd (f (Inl ret) n s)) = br_ops s \<and>
    chase_ops (snd (f (Inl ret) n s)) = chase_ops s"
proof -
  have "fst (f (Inl ret) n s) = ret \<and> (snd (f (Inl ret) n s) = s \<or>
      snd (f (Inl ret) n s) = cancel_breathing (cancel_chase s))"
    using assms unfolding ktd2058_flash_attrs_store_def
    by (auto simp: ktd2058_modechange_store_def ktd2058_brightextend_store_def
      ktd2058_fade_rate_store_def ktd2058_ce_temp_store_def ktd2058_breathing_store_def
      ktd2058_br2colors_store_def ktd2058_br_logscale_store_def ktd2058_br_demo_store_def
      ktd2058_br_white_store_def ktd2058_br_logscale_demo_store_def ktd2058_br_flower_store_def
      ktd2058_chase_store_def ktd2058_chasing_demo_store_def ktd2058_racing_demo_store_def
      ktd2058_debug_store_def Let_def)
  then show ?thesis by (auto simp: cancel_breathing_def cancel_chase_def)
qed

theorem parse_errors_inert_witness:
  "fst (ktd2058_ce_temp_store (Inl (-22)) 3 ktd_plain_chip) = -22 \<and>
   kio (snd (ktd2058_ce_temp_store (Inl (-22)) 3 ktd_plain_chip)) = kio ktd_plain_chip"
  using parse_errors_inert [of ktd2058_ce_temp_store "-22" 3 ktd_plain_chip]
  by (simp only: ktd2058_flash_attrs_store_def list.set insert_iff simp_thms)

text \<open>
  Whatever the random bytes, the random palette sets each of the six colour
  registers to at least a 32nd and at most half of the maximum.
\<close>

theorem random_palette_bounds:
  assumes "3 \<le> r" and "r \<le> 8"
  shows "uint imax div 32 \<le> uint (regs_of r0 (ktd2058_set_random_palette imax s) r) \<and>
    uint (regs_of r0 (ktd2058_set_random_palette imax s) r) \<le> uint imax div 2"
proof -
  have "r = 3 \<or> r = 4 \<or> r = 5 \<or> r = 6 \<or> r = 7 \<or> r = 8" using assms by unat_arith
  then show ?thesis
    by (elim disjE) (simp_all only: ktd2058_set_random_palette_def for_up_def regs_of_def Let_def ktd_write_eq, simp_all add: palette_byte)
qed

theorem random_palette_bounds_witness:
  "uint (regs_of (\<lambda>r. 0) (ktd2058_set_random_palette 0xFF ktd_plain_chip) 5) \<le> 127"
  using random_palette_bounds [of 5 "0xFF" "\<lambda>r. 0" ktd_plain_chip] by simp

end
