(* ===== verification/Awd_Driver.thy ===== *)
theory Awd_Driver
  imports Prelude
begin

text \<open>
  The AWD8833 stepper motor driver, \<open>motor/src/pega_motor_awd8833.c\<close>, with the pins of
  \<open>pega_gpio.c\<close>: the driver's static variables, the pin writes and sleeps as a log
  (newest first), and every function of the file. A pin's level is what the log says.
\<close>

subsection \<open>Pins, log and state\<close>

datatype awd_pin = IO_O_nFAULT_PAN | IO_O_nFAULT_RISING | IO_O_RISING_MOTOR_nSLEEP
  | IO_O_PAN_MOTOR_nSLEEP | IO_O_MOTO_PWM0 | IO_O_MOTO_PWM1 | IO_O_MOTO_PWM2 | IO_O_MOTO_PWM3

datatype awd_io = Gpiod_get_out_low awd_pin | Gpiod_set_value awd_pin bool
  | Usleep_range u32 u32

record awd =
  g_full_step_state :: u8
  g_half_step_state :: u8
  g_full_step_delay :: u32
  g_half_step_delay :: u32
  mio :: "awd_io list"

text \<open>The enums of \<open>pega_motor_awd8833.h\<close>.\<close>

abbreviation (input) AW_PAN_MOTOR :: u8 where "AW_PAN_MOTOR \<equiv> 0"
abbreviation (input) AW_RISING_MOTOR :: u8 where "AW_RISING_MOTOR \<equiv> 1"
abbreviation (input) AW_REVERSE :: u8 where "AW_REVERSE \<equiv> 0"
abbreviation (input) AW_FORWARD :: u8 where "AW_FORWARD \<equiv> 1"
abbreviation (input) AW_FULL_STEP :: u8 where "AW_FULL_STEP \<equiv> 0"
abbreviation (input) AW_HALF_STEP :: u8 where "AW_HALF_STEP \<equiv> 1"
abbreviation (input) AW_SPEED_HIGH :: u8 where "AW_SPEED_HIGH \<equiv> 2"
abbreviation (input) AW_FULL_STEP_DELAY :: u32 where "AW_FULL_STEP_DELAY \<equiv> 5000"
abbreviation (input) AW_HALF_STEP_DELAY :: u32 where "AW_HALF_STEP_DELAY \<equiv> 2500"

definition awd_initial :: awd where
  "awd_initial = \<lparr>g_full_step_state = 0, g_half_step_state = 0,
     g_full_step_delay = AW_FULL_STEP_DELAY, g_half_step_delay = AW_HALF_STEP_DELAY, mio = []\<rparr>"

fun level :: "awd_io list \<Rightarrow> awd_pin \<Rightarrow> bool" where
  "level [] p = False"
| "level (Gpiod_get_out_low q # h) p = (if q = p then False else level h p)"
| "level (Gpiod_set_value q v # h) p = (if q = p then v else level h p)"
| "level (Usleep_range a b # h) p = level h p"

definition gpiod_set_value :: "awd_pin \<Rightarrow> bool \<Rightarrow> awd \<Rightarrow> awd" where
  "gpiod_set_value p v s = s\<lparr>mio := Gpiod_set_value p v # mio s\<rparr>"

definition IO_AWD8833C_AIN1_PIN :: "bool \<Rightarrow> awd \<Rightarrow> awd" where
  "IO_AWD8833C_AIN1_PIN = gpiod_set_value IO_O_MOTO_PWM0"

definition IO_AWD8833C_AIN2_PIN :: "bool \<Rightarrow> awd \<Rightarrow> awd" where
  "IO_AWD8833C_AIN2_PIN = gpiod_set_value IO_O_MOTO_PWM1"

definition IO_AWD8833C_BIN1_PIN :: "bool \<Rightarrow> awd \<Rightarrow> awd" where
  "IO_AWD8833C_BIN1_PIN = gpiod_set_value IO_O_MOTO_PWM2"

definition IO_AWD8833C_BIN2_PIN :: "bool \<Rightarrow> awd \<Rightarrow> awd" where
  "IO_AWD8833C_BIN2_PIN = gpiod_set_value IO_O_MOTO_PWM3"

definition IO_AWD8833C_PAN_MOTOR :: "bool \<Rightarrow> awd \<Rightarrow> awd" where
  "IO_AWD8833C_PAN_MOTOR = gpiod_set_value IO_O_PAN_MOTOR_nSLEEP"

definition IO_AWD8833C_RISING_MOTOR :: "bool \<Rightarrow> awd \<Rightarrow> awd" where
  "IO_AWD8833C_RISING_MOTOR = gpiod_set_value IO_O_RISING_MOTOR_nSLEEP"

text \<open>
  \<open>Motor_gpio_init\<close>: \<open>get\<close> is what \<open>devm_gpiod_get\<close> answers for a line name, 0 or a
  negative error. The first error ends it.
\<close>

definition motor_gpio_table :: "(awd_pin \<times> string) list" where
  "motor_gpio_table =
     [(IO_O_nFAULT_PAN, ''IO_I_MOTOR_nFAULT_PAN''),
      (IO_O_nFAULT_RISING, ''IO_I_MOTOR_nFAULT_RISING''),
      (IO_O_RISING_MOTOR_nSLEEP, ''IO_O_RISING_MOTOR_nSLEEP''),
      (IO_O_PAN_MOTOR_nSLEEP, ''IO_O_PAN_MOTOR_nSLEEP''),
      (IO_O_MOTO_PWM0, ''IO_O_MOTO_PWM0''), (IO_O_MOTO_PWM1, ''IO_O_MOTO_PWM1''),
      (IO_O_MOTO_PWM2, ''IO_O_MOTO_PWM2''), (IO_O_MOTO_PWM3, ''IO_O_MOTO_PWM3'')]"

fun CHECK_GPIO :: "(string \<Rightarrow> int) \<Rightarrow> (awd_pin \<times> string) list \<Rightarrow> awd \<Rightarrow> int \<times> awd" where
  "CHECK_GPIO get [] s = (0, s)"
| "CHECK_GPIO get ((p, nm) # ps) s =
     (if get nm < 0 then (get nm, s)
      else CHECK_GPIO get ps (s\<lparr>mio := Gpiod_get_out_low p # mio s\<rparr>))"

definition Motor_gpio_init :: "(string \<Rightarrow> int) \<Rightarrow> awd \<Rightarrow> int \<times> awd" where
  "Motor_gpio_init get s = CHECK_GPIO get motor_gpio_table s"

subsection \<open>Driver functions\<close>

definition awd8833c_gpio_init :: "awd \<Rightarrow> awd" where
  "awd8833c_gpio_init = seq
     [IO_AWD8833C_AIN1_PIN False, IO_AWD8833C_AIN2_PIN False,
      IO_AWD8833C_BIN1_PIN False, IO_AWD8833C_BIN2_PIN False,
      IO_AWD8833C_PAN_MOTOR False, IO_AWD8833C_RISING_MOTOR False]"

text \<open>\<open>usleep_range(us, us + 1000)\<close>, the sum in 32 bits.\<close>

definition awd8833c_delay_us :: "u32 \<Rightarrow> awd \<Rightarrow> awd" where
  "awd8833c_delay_us us s = s\<lparr>mio := Usleep_range us (us + 1000) # mio s\<rparr>"

definition awd8833c_set_enable :: "u8 \<Rightarrow> u8 \<Rightarrow> awd \<Rightarrow> awd" where
  "awd8833c_set_enable en_select bIsRisingMotor =
     (if en_select \<noteq> 0
      then (if bIsRisingMotor > 0 then IO_AWD8833C_RISING_MOTOR True else IO_AWD8833C_PAN_MOTOR True)
      else (if bIsRisingMotor > 0 then IO_AWD8833C_RISING_MOTOR False else IO_AWD8833C_PAN_MOTOR False))"

definition awd8833c_set_motor_speed :: "u8 \<Rightarrow> awd \<Rightarrow> u32 \<times> awd" where
  "awd8833c_set_motor_speed speed s =
     (let speed = (if speed = 0 then 1 else if speed > 10 then 10 else speed) - 1;
          d = 18000 - 1800 * ucast speed
      in (d, s\<lparr>g_full_step_delay := d, g_half_step_delay := d div 2\<rparr>))"

definition set_full :: "u8 \<Rightarrow> awd \<Rightarrow> awd" where
  "set_full st s = s\<lparr>g_full_step_state := st\<rparr>"

definition set_half :: "u8 \<Rightarrow> awd \<Rightarrow> awd" where
  "set_half st s = s\<lparr>g_half_step_state := st\<rparr>"

definition awd8833c_full_step_forward_function :: "awd \<Rightarrow> awd" where
  "awd8833c_full_step_forward_function s0 =
     (let s = (if g_full_step_state s0 = 0 then seq
                 [IO_AWD8833C_AIN1_PIN True, IO_AWD8833C_AIN2_PIN False, set_full 1]
               else if g_full_step_state s0 = 1 then seq
                 [IO_AWD8833C_BIN2_PIN True, IO_AWD8833C_BIN1_PIN False, set_full 2]
               else if g_full_step_state s0 = 2 then seq
                 [IO_AWD8833C_AIN2_PIN True, IO_AWD8833C_AIN1_PIN False, set_full 3]
               else if g_full_step_state s0 = 3 then seq
                 [IO_AWD8833C_BIN1_PIN True, IO_AWD8833C_BIN2_PIN False, set_full 0]
               else (\<lambda>s. s)) s0
      in awd8833c_delay_us (g_full_step_delay s) s)"

definition awd8833c_full_step_reverse_function :: "awd \<Rightarrow> awd" where
  "awd8833c_full_step_reverse_function s0 =
     (let s = (if g_full_step_state s0 = 0 then seq
                 [IO_AWD8833C_BIN1_PIN False, IO_AWD8833C_BIN2_PIN True, set_full 1]
               else if g_full_step_state s0 = 1 then seq
                 [IO_AWD8833C_AIN2_PIN False, IO_AWD8833C_AIN1_PIN True, set_full 2]
               else if g_full_step_state s0 = 2 then seq
                 [IO_AWD8833C_BIN2_PIN False, IO_AWD8833C_BIN1_PIN True, set_full 3]
               else if g_full_step_state s0 = 3 then seq
                 [IO_AWD8833C_AIN1_PIN False, IO_AWD8833C_AIN2_PIN True, set_full 0]
               else (\<lambda>s. s)) s0
      in awd8833c_delay_us (g_full_step_delay s) s)"

definition awd8833c_half_step_forward_function :: "awd \<Rightarrow> awd" where
  "awd8833c_half_step_forward_function s0 =
     (let st = g_half_step_state s0;
          s = (if st = 0 then seq [IO_AWD8833C_AIN1_PIN True, set_half 1]
               else if st = 1 then seq [IO_AWD8833C_AIN2_PIN False, set_half 2]
               else if st = 2 then seq [IO_AWD8833C_BIN2_PIN True, set_half 3]
               else if st = 3 then seq [IO_AWD8833C_BIN1_PIN False, set_half 4]
               else if st = 4 then seq [IO_AWD8833C_AIN2_PIN True, set_half 5]
               else if st = 5 then seq [IO_AWD8833C_AIN1_PIN False, set_half 6]
               else if st = 6 then seq [IO_AWD8833C_BIN1_PIN True, set_half 7]
               else if st = 7 then seq [IO_AWD8833C_BIN2_PIN False, set_half 0]
               else (\<lambda>s. s)) s0
      in awd8833c_delay_us (g_half_step_delay s) s)"

definition awd8833c_half_step_reverse_function :: "awd \<Rightarrow> awd" where
  "awd8833c_half_step_reverse_function s0 =
     (let st = g_half_step_state s0;
          s = (if st = 0 then seq [IO_AWD8833C_BIN2_PIN True, set_half 1]
               else if st = 1 then seq [IO_AWD8833C_BIN1_PIN False, set_half 2]
               else if st = 2 then seq [IO_AWD8833C_AIN1_PIN True, set_half 3]
               else if st = 3 then seq [IO_AWD8833C_AIN2_PIN False, set_half 4]
               else if st = 4 then seq [IO_AWD8833C_BIN1_PIN True, set_half 5]
               else if st = 5 then seq [IO_AWD8833C_BIN2_PIN False, set_half 6]
               else if st = 6 then seq [IO_AWD8833C_AIN2_PIN True, set_half 7]
               else if st = 7 then seq [IO_AWD8833C_AIN1_PIN False, set_half 0]
               else (\<lambda>s. s)) s0
      in awd8833c_delay_us (g_half_step_delay s) s)"

text \<open>A counted \<open>for\<close> over an unsigned counter runs its body \<open>unat cycle_count\<close> times.\<close>

definition awd8833c_step_function :: "u8 \<Rightarrow> u8 \<Rightarrow> u32 \<Rightarrow> awd \<Rightarrow> awd" where
  "awd8833c_step_function direction mode_select cycle_count =
     (if direction = AW_FORWARD then
        (if mode_select = AW_FULL_STEP then awd8833c_full_step_forward_function ^^ unat cycle_count
         else if mode_select = AW_HALF_STEP then awd8833c_half_step_forward_function ^^ unat cycle_count
         else (\<lambda>s. s))
      else if direction = AW_REVERSE then
        (if mode_select = AW_FULL_STEP then awd8833c_full_step_reverse_function ^^ unat cycle_count
         else if mode_select = AW_HALF_STEP then awd8833c_half_step_reverse_function ^^ unat cycle_count
         else (\<lambda>s. s))
      else (\<lambda>s. s))"

text \<open>Both divisions are by a variable: \<open>None\<close> is the fault of a division by zero.\<close>

definition awd8833c_set_rotate_speed :: "u32 \<Rightarrow> u8 \<Rightarrow> awd \<Rightarrow> awd option" where
  "awd8833c_set_rotate_speed angle_s step_angle s =
     (if step_angle = 0 then None
      else (let n_step = angle_s * 10 div ucast step_angle in
        if n_step = 0 then None
        else (let n_us = 1000000 div n_step in
          Some (s\<lparr>g_full_step_delay := n_us, g_half_step_delay := n_us div 2\<rparr>))))"

definition awd8833c_stop :: "awd \<Rightarrow> awd" where
  "awd8833c_stop = seq
     [IO_AWD8833C_AIN1_PIN False, IO_AWD8833C_AIN2_PIN False,
      IO_AWD8833C_BIN1_PIN False, IO_AWD8833C_BIN2_PIN False]"

definition awd8833c_test :: "u8 \<Rightarrow> awd \<Rightarrow> awd option" where
  "awd8833c_test bIsRisingMotor s =
     (case awd8833c_set_rotate_speed 360 9 (seq
        [awd8833c_gpio_init, awd8833c_set_enable 1 bIsRisingMotor,
         (\<lambda>s. snd (awd8833c_set_motor_speed AW_SPEED_HIGH s)),
         awd8833c_step_function AW_FORWARD AW_FULL_STEP 400] s)
      of None \<Rightarrow> None
       | Some t \<Rightarrow> Some (seq [awd8833c_step_function AW_REVERSE AW_HALF_STEP 800,
                           awd8833c_set_enable 0 bIsRisingMotor] t))"

text \<open>\<open>while (1) f();\<close> returns nothing: its value is \<open>None\<close> when it does not return.\<close>

partial_function (option) forever :: "('s \<Rightarrow> 's) \<Rightarrow> 's \<Rightarrow> 's option" where
  "forever f s = forever f (f s)"

definition awd8833c_second_function_action :: "u8 \<Rightarrow> u8 \<Rightarrow> awd \<Rightarrow> awd option" where
  "awd8833c_second_function_action direction mode_select =
     (if direction = AW_FORWARD then
        (if mode_select = AW_FULL_STEP then forever awd8833c_full_step_forward_function
         else if mode_select = AW_HALF_STEP then forever awd8833c_half_step_forward_function
         else Some)
      else if direction = AW_REVERSE then
        (if mode_select = AW_FULL_STEP then forever awd8833c_full_step_reverse_function
         else if mode_select = AW_HALF_STEP then forever awd8833c_half_step_reverse_function
         else Some)
      else Some)"

end
