(* ===== verification/Awd_Steps.thy ===== *)
theory Awd_Steps
  imports Awd_Driver
begin

text \<open>
  What the step functions do to the motor: the abstract specification is the electrical
  position of the two coils, and the four step functions are interpretations of
  \<open>cyclic_stepper\<close> that move it by one half step or one full step (two half steps).
\<close>

subsection \<open>Pins and coils\<close>

named_theorems pin_defs \<open>the pin macros\<close>

lemmas [pin_defs] = IO_AWD8833C_AIN1_PIN_def IO_AWD8833C_AIN2_PIN_def IO_AWD8833C_BIN1_PIN_def
  IO_AWD8833C_BIN2_PIN_def IO_AWD8833C_PAN_MOTOR_def IO_AWD8833C_RISING_MOTOR_def
  gpiod_set_value_def set_full_def set_half_def awd8833c_delay_us_def

text \<open>The bridge states of the comment at the head of the file.\<close>

datatype coil = Forward | Reverse | Brake | Coast

fun coil_of :: "bool \<Rightarrow> bool \<Rightarrow> coil" where
  "coil_of True False = Forward"
| "coil_of False True = Reverse"
| "coil_of True True = Brake"
| "coil_of False False = Coast"

definition coil_a :: "awd \<Rightarrow> coil" where
  "coil_a s = coil_of (level (mio s) IO_O_MOTO_PWM0) (level (mio s) IO_O_MOTO_PWM1)"

definition coil_b :: "awd \<Rightarrow> coil" where
  "coil_b s = coil_of (level (mio s) IO_O_MOTO_PWM2) (level (mio s) IO_O_MOTO_PWM3)"

text \<open>Electrical position in half steps; a coasting coil has none (8).\<close>

fun position :: "coil \<Rightarrow> coil \<Rightarrow> int" where
  "position Forward Forward = 0"
| "position Forward Brake = 1"
| "position Forward Reverse = 2"
| "position Brake Reverse = 3"
| "position Reverse Reverse = 4"
| "position Reverse Brake = 5"
| "position Reverse Forward = 6"
| "position Brake Forward = 7"
| "position _ _ = 8"

definition awd_position :: "awd \<Rightarrow> int" where
  "awd_position s = position (coil_a s) (coil_b s)"

subsection \<open>The stepper interface\<close>

locale cyclic_stepper =
  fixes step :: "'s \<Rightarrow> 's" and sync :: "'s \<Rightarrow> bool" and pos :: "'s \<Rightarrow> int"
    and d :: int and n :: int
  assumes sync_step: "sync s \<Longrightarrow> sync (step s)"
    and pos_step: "sync s \<Longrightarrow> pos (step s) = (pos s + d) mod n"
    and pos_range: "sync s \<Longrightarrow> pos s mod n = pos s"
begin

lemma sync_run: "sync s \<Longrightarrow> sync ((step ^^ k) s)"
  by (induction k) (simp_all add: sync_step)

lemma pos_run: "sync s \<Longrightarrow> pos ((step ^^ k) s) = (pos s + int k * d) mod n"
proof (induction k)
  case (Suc k)
  then have "pos ((step ^^ Suc k) s) = ((pos s + int k * d) mod n + d) mod n"
    by (simp add: pos_step sync_run)
  then show ?case by (simp add: mod_simps algebra_simps)
qed (simp add: pos_range)

lemma full_turn: "sync s \<Longrightarrow> n dvd int k * d \<Longrightarrow> pos ((step ^^ k) s) = pos s"
  by (simp add: pos_run pos_range mod_add_right_eq [symmetric] mod_eq_0_iff_dvd [symmetric]
      del: mod_add_right_eq) 

end

subsection \<open>The four step functions\<close>

text \<open>
  A drive is in step when the coils are where the sequence that owns the state variable
  leaves them: the tables say which position belongs to which value of the variable.
\<close>

definition full_forward_sync :: "awd \<Rightarrow> bool" where
  "full_forward_sync s \<longleftrightarrow> g_full_step_state s < 4 \<and>
     awd_position s = 2 * ((uint (g_full_step_state s) + 3) mod 4)"

definition full_reverse_sync :: "awd \<Rightarrow> bool" where
  "full_reverse_sync s \<longleftrightarrow> g_full_step_state s < 4 \<and>
     awd_position s = 2 * ((3 - uint (g_full_step_state s)) mod 4)"

definition half_forward_sync :: "awd \<Rightarrow> bool" where
  "half_forward_sync s \<longleftrightarrow> g_half_step_state s < 8 \<and>
     awd_position s = (uint (g_half_step_state s) + 6) mod 8"

definition half_reverse_sync :: "awd \<Rightarrow> bool" where
  "half_reverse_sync s \<longleftrightarrow> g_half_step_state s < 8 \<and>
     awd_position s = (6 - uint (g_half_step_state s)) mod 8"

lemma u8_less_4: "(x::u8) < 4 \<Longrightarrow> x = 0 \<or> x = 1 \<or> x = 2 \<or> x = 3"
  by unat_arith

lemma u8_less_8: "(x::u8) < 8 \<Longrightarrow> x = 0 \<or> x = 1 \<or> x = 2 \<or> x = 3 \<or> x = 4 \<or> x = 5 \<or> x = 6 \<or> x = 7"
  by unat_arith

text \<open>The coil states from a position, used backwards.\<close>

lemma position_cases:
  "position a b = 0 \<Longrightarrow> a = Forward \<and> b = Forward"
  "position a b = 1 \<Longrightarrow> a = Forward \<and> b = Brake"
  "position a b = 2 \<Longrightarrow> a = Forward \<and> b = Reverse"
  "position a b = 3 \<Longrightarrow> a = Brake \<and> b = Reverse"
  "position a b = 4 \<Longrightarrow> a = Reverse \<and> b = Reverse"
  "position a b = 5 \<Longrightarrow> a = Reverse \<and> b = Brake"
  "position a b = 6 \<Longrightarrow> a = Reverse \<and> b = Forward"
  "position a b = 7 \<Longrightarrow> a = Brake \<and> b = Forward"
  by (cases a; cases b; simp)+

lemma coil_levels:
  "coil_of x y = Forward \<longleftrightarrow> x \<and> \<not> y" "coil_of x y = Reverse \<longleftrightarrow> \<not> x \<and> y"
  "coil_of x y = Brake \<longleftrightarrow> x \<and> y" "coil_of x y = Coast \<longleftrightarrow> \<not> x \<and> \<not> y"
  by (cases x; cases y; simp)+

lemma full_forward_law:
  assumes "full_forward_sync s"
  shows "full_forward_sync (awd8833c_full_step_forward_function s) \<and>
    awd_position (awd8833c_full_step_forward_function s) = (awd_position s + 2) mod 8"
proof -
  have "g_full_step_state s < 4" using assms by (simp add: full_forward_sync_def)
  from u8_less_4 [OF this] show ?thesis
    using assms unfolding full_forward_sync_def awd_position_def
    by (elim disjE) (auto dest!: position_cases simp: coil_a_def coil_b_def coil_levels
        awd8833c_full_step_forward_function_def pin_defs Let_def)
qed

lemma full_reverse_law:
  assumes "full_reverse_sync s"
  shows "full_reverse_sync (awd8833c_full_step_reverse_function s) \<and>
    awd_position (awd8833c_full_step_reverse_function s) = (awd_position s - 2) mod 8"
proof -
  have "g_full_step_state s < 4" using assms by (simp add: full_reverse_sync_def)
  from u8_less_4 [OF this] show ?thesis
    using assms unfolding full_reverse_sync_def awd_position_def
    by (elim disjE) (auto dest!: position_cases simp: coil_a_def coil_b_def coil_levels
        awd8833c_full_step_reverse_function_def pin_defs Let_def)
qed

lemma half_forward_law:
  assumes "half_forward_sync s"
  shows "half_forward_sync (awd8833c_half_step_forward_function s) \<and>
    awd_position (awd8833c_half_step_forward_function s) = (awd_position s + 1) mod 8"
proof -
  have "g_half_step_state s < 8" using assms by (simp add: half_forward_sync_def)
  from u8_less_8 [OF this] show ?thesis
    using assms unfolding half_forward_sync_def awd_position_def
    by (elim disjE) (auto dest!: position_cases simp: coil_a_def coil_b_def coil_levels
        awd8833c_half_step_forward_function_def pin_defs Let_def)
qed

lemma half_reverse_law:
  assumes "half_reverse_sync s"
  shows "half_reverse_sync (awd8833c_half_step_reverse_function s) \<and>
    awd_position (awd8833c_half_step_reverse_function s) = (awd_position s - 1) mod 8"
proof -
  have "g_half_step_state s < 8" using assms by (simp add: half_reverse_sync_def)
  from u8_less_8 [OF this] show ?thesis
    using assms unfolding half_reverse_sync_def awd_position_def
    by (elim disjE) (auto dest!: position_cases simp: coil_a_def coil_b_def coil_levels
        awd8833c_half_step_reverse_function_def pin_defs Let_def)
qed

interpretation full_fwd: cyclic_stepper awd8833c_full_step_forward_function full_forward_sync
  awd_position 2 8
  by unfold_locales (simp_all add: full_forward_law, auto simp: full_forward_sync_def)

interpretation full_rev: cyclic_stepper awd8833c_full_step_reverse_function full_reverse_sync
  awd_position "-2" 8
  by unfold_locales (simp_all add: full_reverse_law, auto simp: full_reverse_sync_def)

interpretation half_fwd: cyclic_stepper awd8833c_half_step_forward_function half_forward_sync
  awd_position 1 8
  by unfold_locales (simp_all add: half_forward_law, auto simp: half_forward_sync_def)

interpretation half_rev: cyclic_stepper awd8833c_half_step_reverse_function half_reverse_sync
  awd_position "-1" 8
  by unfold_locales (simp_all add: half_reverse_law, auto simp: half_reverse_sync_def)

end
