(* ===== verification/Motor_Sysfs.thy ===== *)
theory Motor_Sysfs
  imports Awd_Driver
begin

text \<open>
  The motor platform driver, \<open>motor/src/motor.c\<close>: the control block, the sysfs
  attributes, the work function and the probe. Every attribute takes the chip's mutex; an
  operation that has to wait for a mutex nobody will release is \<open>None\<close>.
\<close>

record motor_control =
  motor :: u8
  mode :: u8
  en :: bool
  dir :: u8
  cycle :: u32
  degree :: u32
  delay :: u32
  sp :: u8

text \<open>
  \<open>lock\<close> is true while the mutex is held, \<open>work_motor\<close> while the work item is pending;
  \<open>awd\<close> is the state of the linked driver file.
\<close>

record motor_chip =
  mot :: motor_control
  work_motor :: bool
  lock :: bool
  drv :: awd

definition mutex_lock :: "motor_chip \<Rightarrow> motor_chip option" where
  "mutex_lock c = (if lock c then None else Some (c\<lparr>lock := True\<rparr>))"

definition mutex_unlock :: "motor_chip \<Rightarrow> motor_chip" where
  "mutex_unlock c = c\<lparr>lock := False\<rparr>"

definition upd_mot :: "(motor_control \<Rightarrow> motor_control) \<Rightarrow> motor_chip \<Rightarrow> motor_chip" where
  "upd_mot f c = c\<lparr>mot := f (mot c)\<rparr>"

subsection \<open>Store functions\<close>

text \<open>
  The argument \<open>p\<close> is what \<open>kstrtouint(buf, 10, \<dots>)\<close> makes of the text, and \<open>sz\<close> the
  size of the write. The error path returns without unlocking.
\<close>

type_synonym motor_store = "int + u32 \<Rightarrow> int \<Rightarrow> motor_chip \<Rightarrow> (int \<times> motor_chip) option"

definition motor_attr_store :: motor_store where
  "motor_attr_store p sz c0 = (case mutex_lock c0 of None \<Rightarrow> None | Some c \<Rightarrow>
     (case p of Inl ret \<Rightarrow> Some (ret, c)
      | Inr val \<Rightarrow> Some (sz, mutex_unlock
          (upd_mot (motor_update (\<lambda>_. if val \<noteq> 0 then AW_PAN_MOTOR else AW_RISING_MOTOR)) c))))"

definition mode_store :: motor_store where
  "mode_store p sz c0 = (case mutex_lock c0 of None \<Rightarrow> None | Some c \<Rightarrow>
     (case p of Inl ret \<Rightarrow> Some (ret, c)
      | Inr val \<Rightarrow> Some (sz, mutex_unlock
          (upd_mot (mode_update (\<lambda>_. if val \<noteq> 0 then 1 else 0)) c))))"

definition dir_store :: motor_store where
  "dir_store p sz c0 = (case mutex_lock c0 of None \<Rightarrow> None | Some c \<Rightarrow>
     (case p of Inl ret \<Rightarrow> Some (ret, c)
      | Inr val \<Rightarrow> Some (sz, mutex_unlock
          (upd_mot (dir_update (\<lambda>_. if val \<noteq> 0 then 1 else 0)) c))))"

definition en_store :: motor_store where
  "en_store p sz c0 = (case mutex_lock c0 of None \<Rightarrow> None | Some c \<Rightarrow>
     (case p of Inl ret \<Rightarrow> Some (ret, c)
      | Inr val \<Rightarrow> Some (sz, mutex_unlock (upd_mot (en_update (\<lambda>_. val \<noteq> 0)) c))))"

definition cycle_store :: motor_store where
  "cycle_store p sz c0 = (case mutex_lock c0 of None \<Rightarrow> None | Some c \<Rightarrow>
     (case p of Inl ret \<Rightarrow> Some (ret, c)
      | Inr val \<Rightarrow> Some (sz, mutex_unlock
          (upd_mot (cycle_update (\<lambda>_. if val < 1000 then val else 0)) c))))"

definition sp_store :: motor_store where
  "sp_store p sz c0 = (case mutex_lock c0 of None \<Rightarrow> None | Some c \<Rightarrow>
     (case p of Inl ret \<Rightarrow> Some (ret, c)
      | Inr val \<Rightarrow>
         (let c1 = upd_mot (sp_update (\<lambda>_. if val < 10 then ucast val else 0)) c;
              (d, s) = awd8833c_set_motor_speed (sp (mot c1)) (drv c1)
          in Some (sz, mutex_unlock (upd_mot (delay_update (\<lambda>_. d)) (c1\<lparr>drv := s\<rparr>))))))"

definition step_on_store :: motor_store where
  "step_on_store p sz c0 = (case mutex_lock c0 of None \<Rightarrow> None | Some c \<Rightarrow>
     (case p of Inl ret \<Rightarrow> Some (ret, c)
      | Inr val \<Rightarrow> Some (sz, mutex_unlock (c\<lparr>work_motor := True\<rparr>))))"

subsection \<open>Show functions\<close>

type_synonym motor_show = "motor_chip \<Rightarrow> (string \<times> motor_chip) option"

definition motor_version :: motor_show where
  "motor_version c = Some (''v0.0.0.2'', c)"

definition motor_attr_show :: motor_show where
  "motor_attr_show c0 = (case mutex_lock c0 of None \<Rightarrow> None | Some c \<Rightarrow>
     (let val = (if motor (mot c) \<noteq> 0 then ''Motor: Rising'' @ nl else ''Motor: Pan'' @ nl)
      in Some (val, mutex_unlock c)))"

definition mode_show :: motor_show where
  "mode_show c0 = (case mutex_lock c0 of None \<Rightarrow> None | Some c \<Rightarrow>
     (let val = (if mode (mot c) \<noteq> 0 then ''Mode: Step'' @ nl else ''Mode: Degree'' @ nl)
      in Some (val, mutex_unlock c)))"

definition dir_show :: motor_show where
  "dir_show c0 = (case mutex_lock c0 of None \<Rightarrow> None | Some c \<Rightarrow>
     (let val = (if dir (mot c) \<noteq> 0 then ''Dir: Forward'' @ nl else ''Dir: Reverse'' @ nl)
      in Some (val, mutex_unlock c)))"

definition en_show :: motor_show where
  "en_show c0 = (case mutex_lock c0 of None \<Rightarrow> None | Some c \<Rightarrow>
     (let val = (if en (mot c) then ''Motor: Enable'' @ nl else ''Motor: Disable'' @ nl)
      in Some (val, mutex_unlock c)))"

definition cycle_show :: motor_show where
  "cycle_show c0 = (case mutex_lock c0 of None \<Rightarrow> None | Some c \<Rightarrow>
     Some (''cycle count: '' @ show_dec (unat (cycle (mot c))) @ nl, mutex_unlock c))"

definition delay_show :: motor_show where
  "delay_show c0 = (case mutex_lock c0 of None \<Rightarrow> None | Some c \<Rightarrow>
     Some (''Delay: '' @ show_dec (unat (delay (mot c))) @ nl, mutex_unlock c))"

definition sp_show :: motor_show where
  "sp_show c0 = (case mutex_lock c0 of None \<Rightarrow> None | Some c \<Rightarrow>
     Some (''Speed: '' @ show_dec (unat (sp (mot c))) @ nl, mutex_unlock c))"

definition motor_info :: motor_show where
  "motor_info c0 = (case mutex_lock c0 of None \<Rightarrow> None | Some c \<Rightarrow>
     (let m = mot c;
          rule = ''==================================='' @ nl
      in Some (rule @ ''Motor Attr:'' @ nl @
           ''Motor: '' @ (if motor m \<noteq> 0 then ''Rising'' else ''Pan'') @ nl @
           ''Mode:'' @ (if mode m \<noteq> 0 then ''Step'' else ''Degree'') @
           ''Enable: '' @ (if en m then ''Enable'' else ''Disable'') @ nl @
           ''Direction: '' @ (if dir m \<noteq> 0 then ''Forward'' else ''Reverse'') @ nl @
           ''Cycle count: '' @ show_dec (unat (cycle m)) @ nl @
           ''Delay: '' @ show_dec (unat (delay m)) @ nl @
           ''Speed: '' @ show_dec (unat (sp m)) @ nl @ rule,
           mutex_unlock c)))"

subsection \<open>Work and probe\<close>

text \<open>The work function takes no lock.\<close>

definition motorctrl_work :: "motor_chip \<Rightarrow> motor_chip" where
  "motorctrl_work c = c\<lparr>drv := seq
     [awd8833c_gpio_init,
      awd8833c_set_enable (of_bool (en (mot c))) (motor (mot c)),
      (\<lambda>s. snd (awd8833c_set_motor_speed (sp (mot c)) s)),
      awd8833c_step_function (dir (mot c)) AW_FULL_STEP (cycle (mot c)),
      awd8833c_set_enable 0 0, awd8833c_set_enable 0 1] (drv c)\<rparr>"

text \<open>
  \<open>motor_probe\<close>: \<open>get\<close> answers for the GPIO lines, \<open>alloc_ok\<close> for \<open>devm_kzalloc\<close> and
  \<open>grp\<close> is the result of \<open>sysfs_create_group\<close>. The chip exists when the result is 0.
\<close>

definition motor_probe ::
    "(string \<Rightarrow> int) \<Rightarrow> bool \<Rightarrow> int \<Rightarrow> awd \<Rightarrow> int \<times> motor_chip option" where
  "motor_probe get alloc_ok grp s =
     (case Motor_gpio_init get s of (r, s1) \<Rightarrow>
        if r \<noteq> 0 then (1, None)
        else if \<not> alloc_ok then (-12, None)
        else if grp \<noteq> 0 then (grp, None)
        else (0, Some \<lparr>mot = \<lparr>motor = 0, mode = 0, en = False, dir = 0, cycle = 0, degree = 0,
                             delay = 0, sp = 0\<rparr>,
                      work_motor = False, lock = False, drv = s1\<rparr>))"

text \<open>The attribute table: each attribute with its name and its two functions, where it has them.\<close>

definition motor_attrs :: "(string \<times> motor_show option \<times> motor_store option) list" where
  "motor_attrs =
     [(''version'', Some motor_version, None),
      (''info'', Some motor_info, None),
      (''motor'', Some motor_attr_show, Some motor_attr_store),
      (''mode'', Some mode_show, Some mode_store),
      (''enable'', Some en_show, Some en_store),
      (''dir'', Some dir_show, Some dir_store),
      (''cycle'', Some cycle_show, Some cycle_store),
      (''delay'', Some delay_show, None),
      (''speed'', Some sp_show, Some sp_store),
      (''step_work'', None, Some step_on_store)]"

end
