(* ===== verification/Motor_Lemmas.thy ===== *)
theory Motor_Lemmas
  imports Awd_Steps Motor_Sysfs
begin

text \<open>
  Component lemmas of the motor: sleeping time, which pins each operation writes, the locked
  attribute interface, and the reachable states of the platform driver.
\<close>

subsection \<open>Sleeping time\<close>

text \<open>Least and greatest number of microseconds that a log sleeps.\<close>

fun sleep_min :: "awd_io list \<Rightarrow> nat" where
  "sleep_min [] = 0"
| "sleep_min (Usleep_range a b # h) = unat a + sleep_min h"
| "sleep_min (e # h) = sleep_min h"

fun sleep_max :: "awd_io list \<Rightarrow> nat" where
  "sleep_max [] = 0"
| "sleep_max (Usleep_range a b # h) = unat b + sleep_max h"
| "sleep_max (e # h) = sleep_max h"

text \<open>Static variables other than the log, and the time one full step sleeps.\<close>

lemma full_step_time:
  "sleep_min (mio (awd8833c_full_step_forward_function s)) = sleep_min (mio s) + unat (g_full_step_delay s)"
  "sleep_max (mio (awd8833c_full_step_forward_function s)) = sleep_max (mio s) + unat (g_full_step_delay s + 1000)"
  "g_full_step_delay (awd8833c_full_step_forward_function s) = g_full_step_delay s"
  "sleep_min (mio (awd8833c_full_step_reverse_function s)) = sleep_min (mio s) + unat (g_full_step_delay s)"
  "sleep_max (mio (awd8833c_full_step_reverse_function s)) = sleep_max (mio s) + unat (g_full_step_delay s + 1000)"
  "g_full_step_delay (awd8833c_full_step_reverse_function s) = g_full_step_delay s"
  by (simp_all add: awd8833c_full_step_forward_function_def awd8833c_full_step_reverse_function_def
      pin_defs Let_def)

lemma full_steps_time:
  fixes s :: awd
  assumes "f = awd8833c_full_step_forward_function \<or> f = awd8833c_full_step_reverse_function"
  shows "sleep_min (mio ((f ^^ n) s)) = sleep_min (mio s) + n * unat (g_full_step_delay s)"
    and "sleep_max (mio ((f ^^ n) s)) = sleep_max (mio s) + n * unat (g_full_step_delay s + 1000)"
    and "g_full_step_delay ((f ^^ n) s) = g_full_step_delay s"
proof -
  have "sleep_min (mio ((f ^^ n) s)) = sleep_min (mio s) + n * unat (g_full_step_delay s) \<and>
    sleep_max (mio ((f ^^ n) s)) = sleep_max (mio s) + n * unat (g_full_step_delay s + 1000) \<and>
    g_full_step_delay ((f ^^ n) s) = g_full_step_delay s"
    using assms by (induction n) (auto simp: full_step_time)
  then show "sleep_min (mio ((f ^^ n) s)) = sleep_min (mio s) + n * unat (g_full_step_delay s)"
    "sleep_max (mio ((f ^^ n) s)) = sleep_max (mio s) + n * unat (g_full_step_delay s + 1000)"
    "g_full_step_delay ((f ^^ n) s) = g_full_step_delay s" by auto
qed

subsection \<open>Speed\<close>

definition speed_delay :: "u8 \<Rightarrow> nat" where
  "speed_delay v = 18000 - 1800 * (max 1 (min 10 (unat v)) - 1)"

lemma speed_words:
  "speed_delay v \<le> 18000" "1800 \<le> speed_delay v"
  by (auto simp: speed_delay_def)

lemma set_motor_speed_eq:
  "unat (fst (awd8833c_set_motor_speed v s)) = speed_delay v \<and>
   unat (g_full_step_delay (snd (awd8833c_set_motor_speed v s))) = speed_delay v \<and>
   unat (g_half_step_delay (snd (awd8833c_set_motor_speed v s))) = speed_delay v div 2"
proof -
  have "v = 0 \<or> v = 1 \<or> v = 2 \<or> v = 3 \<or> v = 4 \<or> v = 5 \<or> v = 6 \<or> v = 7 \<or> v = 8 \<or> v = 9 \<or>
    v = 10 \<or> 10 < v" by unat_arith
  moreover have "max 1 (min 10 (unat v)) = (10 :: nat)" if "10 < v"
  proof -
    have "10 < unat v" using that by (simp add: word_less_nat_alt)
    then show ?thesis by simp
  qed
  moreover have "v \<noteq> 0" if "10 < v" using that by unat_arith
  ultimately show ?thesis
    by (elim disjE) (simp_all add: awd8833c_set_motor_speed_def speed_delay_def Let_def)
qed

subsection \<open>Motors awake\<close>

text \<open>No prefix of the log leaves both motors out of sleep.\<close>

fun one_awake :: "awd_io list \<Rightarrow> bool" where
  "one_awake [] = True"
| "one_awake (e # h) = (one_awake h \<and>
     \<not> (level (e # h) IO_O_PAN_MOTOR_nSLEEP \<and> level (e # h) IO_O_RISING_MOTOR_nSLEEP))"

definition both_asleep :: "awd \<Rightarrow> bool" where
  "both_asleep s \<longleftrightarrow> \<not> level (mio s) IO_O_PAN_MOTOR_nSLEEP \<and> \<not> level (mio s) IO_O_RISING_MOTOR_nSLEEP"

text \<open>An operation that leaves the sleep pins alone keeps the property of the log.\<close>

definition sleep_pins_kept :: "(awd \<Rightarrow> awd) \<Rightarrow> bool" where
  "sleep_pins_kept f \<longleftrightarrow> (\<forall>s. (\<forall>p. p = IO_O_PAN_MOTOR_nSLEEP \<or> p = IO_O_RISING_MOTOR_nSLEEP \<longrightarrow>
      level (mio (f s)) p = level (mio s) p) \<and>
     (one_awake (mio s) \<and> \<not> (level (mio s) IO_O_PAN_MOTOR_nSLEEP \<and> level (mio s) IO_O_RISING_MOTOR_nSLEEP)
        \<longrightarrow> one_awake (mio (f s))))"

lemma full_steps_sleep_pins:
  "sleep_pins_kept awd8833c_full_step_forward_function"
  "sleep_pins_kept awd8833c_full_step_reverse_function"
  by (auto simp: sleep_pins_kept_def awd8833c_full_step_forward_function_def
      awd8833c_full_step_reverse_function_def pin_defs Let_def)

lemma sleep_pins_funpow: "sleep_pins_kept f \<Longrightarrow> sleep_pins_kept (f ^^ n)"
proof (induction n)
  case 0
  then show ?case by (simp add: sleep_pins_kept_def)
next
  case (Suc n)
  then show ?case unfolding sleep_pins_kept_def by simp
qed

lemma step_function_sleep_pins: "sleep_pins_kept (awd8833c_step_function d AW_FULL_STEP n)"
proof -
  have "sleep_pins_kept (\<lambda>s. s)" by (simp add: sleep_pins_kept_def)
  then show ?thesis
    using sleep_pins_funpow full_steps_sleep_pins by (simp add: awd8833c_step_function_def)
qed

text \<open>The driver state between the two ends of the work function.\<close>

lemma work_awake:
  assumes "one_awake (mio (drv c))"
  shows "one_awake (mio (drv (motorctrl_work c))) \<and> both_asleep (drv (motorctrl_work c))"
proof -
  let ?e = "awd8833c_set_enable (of_bool (en (mot c))) (motor (mot c)) (awd8833c_gpio_init (drv c))"
  let ?v = "snd (awd8833c_set_motor_speed (sp (mot c)) ?e)"
  let ?t = "awd8833c_step_function (dir (mot c)) AW_FULL_STEP (cycle (mot c)) ?v"
  have i: "one_awake (mio (awd8833c_gpio_init s)) \<and> both_asleep (awd8833c_gpio_init s)"
    if "one_awake (mio s)" "\<not> (level (mio s) IO_O_PAN_MOTOR_nSLEEP \<and> level (mio s) IO_O_RISING_MOTOR_nSLEEP)"
    for s using that by (auto simp: awd8833c_gpio_init_def both_asleep_def pin_defs)
  have n: "\<not> (level (mio (drv c)) IO_O_PAN_MOTOR_nSLEEP \<and> level (mio (drv c)) IO_O_RISING_MOTOR_nSLEEP)"
    using assms by (cases "mio (drv c)") auto
  have e: "one_awake (mio ?e) \<and> \<not> (level (mio ?e) IO_O_PAN_MOTOR_nSLEEP \<and> level (mio ?e) IO_O_RISING_MOTOR_nSLEEP)"
    using i [OF assms n] by (auto simp: awd8833c_set_enable_def both_asleep_def pin_defs)
  have v: "mio ?v = mio ?e" by (simp add: awd8833c_set_motor_speed_def Let_def)
  have t: "one_awake (mio ?t) \<and> \<not> (level (mio ?t) IO_O_PAN_MOTOR_nSLEEP \<and> level (mio ?t) IO_O_RISING_MOTOR_nSLEEP)"
    using step_function_sleep_pins e v unfolding sleep_pins_kept_def by metis
  have "drv (motorctrl_work c) = awd8833c_set_enable 0 1 (awd8833c_set_enable 0 0 ?t)"
    by (simp add: motorctrl_work_def)
  then show ?thesis
    using t by (auto simp: awd8833c_set_enable_def both_asleep_def pin_defs)
qed

subsection \<open>Attributes under the mutex\<close>

text \<open>
  The contract of a writable attribute: with the mutex free it applies its update and leaves
  the mutex free, on a rejected text it returns the error with the mutex held, and with the
  mutex held it blocks. \<open>blocks\<close> is that last law alone, which the readable ones share.
\<close>

definition blocks :: "(motor_chip \<Rightarrow> 'r option) \<Rightarrow> bool" where
  "blocks f \<longleftrightarrow> (\<forall>c. lock c \<longrightarrow> f c = None)"

locale locked_attr =
  fixes store :: motor_store and upd :: "u32 \<Rightarrow> motor_chip \<Rightarrow> motor_chip"
  assumes accepted: "\<not> lock c \<Longrightarrow> store (Inr v) sz c = Some (sz, upd v c)"
    and rejected: "\<not> lock c \<Longrightarrow> store (Inl e) sz c = Some (e, c\<lparr>lock := True\<rparr>)"
    and held: "lock c \<Longrightarrow> store p sz c = None"
    and upd_free: "\<not> lock c \<Longrightarrow> \<not> lock (upd v c)"
begin

lemma blocked: "blocks (store p sz)"
  by (simp add: blocks_def held)

lemma reject_leaks: "\<not> lock c \<Longrightarrow> \<exists>c'. store (Inl e) sz c = Some (e, c') \<and> lock c' \<and> mot c' = mot c"
  by (simp add: rejected)

lemma reject_blocks:
  assumes "\<not> lock c" and "blocks g"
  shows "\<exists>c'. store (Inl e) sz c = Some (e, c') \<and> g c' = None"
  using reject_leaks [OF assms(1)] assms(2) unfolding blocks_def by blast

lemma result:
  assumes "store p sz c = Some (r, c')"
  shows "(\<exists>v. p = Inr v \<and> c' = upd v c) \<or> (\<exists>e. p = Inl e \<and> c' = c\<lparr>lock := True\<rparr>)"
  using assms accepted rejected held by (cases p; cases "lock c") auto

end

interpretation motor_attr: locked_attr motor_attr_store
  "\<lambda>val. upd_mot (motor_update (\<lambda>_. if val \<noteq> 0 then AW_PAN_MOTOR else AW_RISING_MOTOR))"
  by unfold_locales (simp_all add: motor_attr_store_def mutex_lock_def mutex_unlock_def upd_mot_def)

interpretation mode_attr: locked_attr mode_store
  "\<lambda>val. upd_mot (mode_update (\<lambda>_. if val \<noteq> 0 then 1 else 0))"
  by unfold_locales (simp_all add: mode_store_def mutex_lock_def mutex_unlock_def upd_mot_def)

interpretation dir_attr: locked_attr dir_store
  "\<lambda>val. upd_mot (dir_update (\<lambda>_. if val \<noteq> 0 then 1 else 0))"
  by unfold_locales (simp_all add: dir_store_def mutex_lock_def mutex_unlock_def upd_mot_def)

interpretation en_attr: locked_attr en_store "\<lambda>val. upd_mot (en_update (\<lambda>_. val \<noteq> 0))"
  by unfold_locales (simp_all add: en_store_def mutex_lock_def mutex_unlock_def upd_mot_def)

interpretation cycle_attr: locked_attr cycle_store
  "\<lambda>val. upd_mot (cycle_update (\<lambda>_. if val < 1000 then val else 0))"
  by unfold_locales (simp_all add: cycle_store_def mutex_lock_def mutex_unlock_def upd_mot_def)

text \<open>The speed attribute also sets the static delays of the driver file.\<close>

definition sp_set :: "u32 \<Rightarrow> motor_chip \<Rightarrow> motor_chip" where
  "sp_set val c = (let v = (if val < 10 then ucast val else 0 :: u8);
       (d, s) = awd8833c_set_motor_speed v (drv c)
     in c\<lparr>mot := (mot c)\<lparr>sp := v, delay := d\<rparr>, drv := s\<rparr>)"

interpretation sp_attr: locked_attr sp_store sp_set
  by unfold_locales (simp_all add: sp_store_def sp_set_def mutex_lock_def mutex_unlock_def
      upd_mot_def Let_def case_prod_beta)

interpretation step_attr: locked_attr step_on_store "\<lambda>val c. c\<lparr>work_motor := True\<rparr>"
  by unfold_locales (simp_all add: step_on_store_def mutex_lock_def mutex_unlock_def)

lemmas attr_blocked = motor_attr.blocked mode_attr.blocked dir_attr.blocked en_attr.blocked
  cycle_attr.blocked sp_attr.blocked step_attr.blocked

lemma stores_block: "(name, sh, Some g) \<in> set motor_attrs \<Longrightarrow> blocks (g p sz)"
  unfolding motor_attrs_def by (auto intro: attr_blocked)

lemma shows_block: "(name, Some g, st) \<in> set motor_attrs \<Longrightarrow> name \<noteq> ''version'' \<Longrightarrow> blocks g"
  unfolding motor_attrs_def blocks_def
  by (auto simp: motor_info_def motor_attr_show_def mode_show_def en_show_def dir_show_def
      cycle_show_def delay_show_def sp_show_def mutex_lock_def)

lemma stores_leak:
  assumes "(name, sh, Some f) \<in> set motor_attrs" and "\<not> lock c"
  shows "\<exists>c'. f (Inl e) sz c = Some (e, c') \<and> lock c'"
  using assms unfolding motor_attrs_def
  by (auto simp: motor_attr.rejected mode_attr.rejected dir_attr.rejected en_attr.rejected
      cycle_attr.rejected sp_attr.rejected step_attr.rejected)

lemma shows_keep:
  assumes "(name, Some g, st) \<in> set motor_attrs" and "g c = Some (t, c')"
  shows "c' = c"
  using assms unfolding motor_attrs_def
  by (auto simp: motor_version_def motor_info_def motor_attr_show_def mode_show_def en_show_def dir_show_def
      cycle_show_def delay_show_def sp_show_def mutex_lock_def mutex_unlock_def Let_def split: if_splits)

subsection \<open>Reachable chips\<close>

text \<open>A step is one attribute write or read, or one execution of the pending work item.\<close>

inductive motor_step :: "motor_chip \<Rightarrow> motor_chip \<Rightarrow> bool" where
  store_attr: "(name, sh, Some f) \<in> set motor_attrs \<Longrightarrow> f p sz c = Some (r, c') \<Longrightarrow> motor_step c c'"
| show_attr: "(name, Some g, st) \<in> set motor_attrs \<Longrightarrow> g c = Some (t, c') \<Longrightarrow> motor_step c c'"
| run_work: "work_motor c \<Longrightarrow> motor_step c (motorctrl_work (c\<lparr>work_motor := False\<rparr>))"

inductive motor_reachable :: "motor_chip \<Rightarrow> bool" where
  probed: "motor_probe get ok grp awd_initial = (0, Some c) \<Longrightarrow> motor_reachable c"
| step: "motor_reachable c \<Longrightarrow> motor_step c c' \<Longrightarrow> motor_reachable c'"

definition motor_ok :: "motor_chip \<Rightarrow> bool" where
  "motor_ok c \<longleftrightarrow> motor (mot c) \<le> 1 \<and> mode (mot c) \<le> 1 \<and> dir (mot c) \<le> 1 \<and> cycle (mot c) < 1000 \<and>
     sp (mot c) < 10 \<and> (delay (mot c) = 0 \<or> unat (delay (mot c)) = speed_delay (sp (mot c))) \<and>
     g_full_step_state (drv c) < 4 \<and> one_awake (mio (drv c)) \<and> both_asleep (drv c)"

lemma full_state_lt4:
  "g_full_step_state s < 4 \<Longrightarrow> g_full_step_state (awd8833c_full_step_forward_function s) < 4"
  "g_full_step_state s < 4 \<Longrightarrow> g_full_step_state (awd8833c_full_step_reverse_function s) < 4"
  by (simp_all add: awd8833c_full_step_forward_function_def
      awd8833c_full_step_reverse_function_def pin_defs Let_def)

lemma full_state_funpow:
  fixes f :: "awd \<Rightarrow> awd"
  shows "(\<And>s. g_full_step_state s < 4 \<Longrightarrow> g_full_step_state (f s) < 4) \<Longrightarrow>
    g_full_step_state s < 4 \<Longrightarrow> g_full_step_state ((f ^^ n) s) < 4"
  by (induction n) auto

lemma step_function_state:
  "g_full_step_state s < 4 \<Longrightarrow> g_full_step_state (awd8833c_step_function d AW_FULL_STEP n s) < 4"
  using full_state_funpow full_state_lt4 by (simp add: awd8833c_step_function_def)

lemma work_keeps:
  "mot (motorctrl_work c) = mot c" "lock (motorctrl_work c) = lock c"
  "g_full_step_state (drv c) < 4 \<Longrightarrow> g_full_step_state (drv (motorctrl_work c)) < 4"
proof -
  show "mot (motorctrl_work c) = mot c" "lock (motorctrl_work c) = lock c"
    by (simp_all add: motorctrl_work_def)
  have e: "g_full_step_state (awd8833c_set_enable x y s) = g_full_step_state s" for x y s
    by (simp add: awd8833c_set_enable_def pin_defs)
  have i: "g_full_step_state (awd8833c_gpio_init s) = g_full_step_state s" for s
    by (simp add: awd8833c_gpio_init_def pin_defs)
  have v: "g_full_step_state (snd (awd8833c_set_motor_speed x s)) = g_full_step_state s" for x s
    by (simp add: awd8833c_set_motor_speed_def Let_def)
  assume "g_full_step_state (drv c) < 4"
  then show "g_full_step_state (drv (motorctrl_work c)) < 4"
    by (simp add: motorctrl_work_def e v i step_function_state)
qed

end
