(* ===== verification/Motor_Props.thy ===== *)
theory Motor_Props
  imports Motor_Lemmas
begin

text \<open>
  The properties of the motor: what the step functions do to the coils, the speed law, the
  work function's effect and duration, and the attributes with their mutex.
\<close>

subsection \<open>Auxiliary facts\<close>

definition in_step :: "u8 \<Rightarrow> u8 \<Rightarrow> awd \<Rightarrow> bool" where
  "in_step direction mode_select s \<longleftrightarrow>
     (if mode_select = AW_FULL_STEP
      then (if direction = AW_FORWARD then full_forward_sync s else full_reverse_sync s)
      else (if direction = AW_FORWARD then half_forward_sync s else half_reverse_sync s))"

definition stride :: "u8 \<Rightarrow> u8 \<Rightarrow> int" where
  "stride direction mode_select =
     (if direction = AW_FORWARD then 1 else -1) * (if mode_select = AW_FULL_STEP then 2 else 1)"

text \<open>The two drives meet when the state variable is even.\<close>

lemma sync_swap:
  assumes "full_forward_sync s" and "even (unat (g_full_step_state s))"
  shows "full_reverse_sync s"
proof -
  have "g_full_step_state s < 4" using assms(1) by (simp add: full_forward_sync_def)
  from u8_less_4 [OF this] show ?thesis
    using assms unfolding full_forward_sync_def full_reverse_sync_def by (elim disjE) simp_all
qed

lemma lost_steps:
  assumes "full_forward_sync s" and "odd (unat (g_full_step_state s))"
  defines "t \<equiv> awd8833c_full_step_reverse_function (awd8833c_full_step_reverse_function s)"
  shows "full_reverse_sync t \<and> awd_position t = awd_position s"
proof -
  have "g_full_step_state s < 4" using assms(1) by (simp add: full_forward_sync_def)
  from u8_less_4 [OF this] show ?thesis
    using assms(1,2) unfolding t_def full_forward_sync_def full_reverse_sync_def awd_position_def
    by (elim disjE) (auto dest!: position_cases simp: coil_a_def coil_b_def coil_levels
        awd8833c_full_step_reverse_function_def pin_defs Let_def)
qed

lemma resync:
  assumes "g_full_step_state s < 4" and "coil_a s = Coast" and "coil_b s = Coast"
  shows "full_forward_sync (awd8833c_full_step_forward_function (awd8833c_full_step_forward_function s))"
    and "full_reverse_sync (awd8833c_full_step_reverse_function (awd8833c_full_step_reverse_function s))"
  using u8_less_4 [OF assms(1)] assms(2,3)
  unfolding full_forward_sync_def full_reverse_sync_def awd_position_def
  by (auto simp: coil_a_def coil_b_def coil_levels
      awd8833c_full_step_forward_function_def awd8833c_full_step_reverse_function_def pin_defs Let_def)

lemma funpow_after_two: "2 \<le> n \<Longrightarrow> (f ^^ n) s = (f ^^ (n - 2)) (f (f s))"
proof -
  assume "2 \<le> n"
  then have n: "n = (n - 2) + 2" by simp
  have "(f ^^ (k + 2)) s = (f ^^ k) (f (f s))" for k
    unfolding funpow_add by (simp add: numeral_2_eq_2)
  then show ?thesis using n by metis
qed

text \<open>The sleep pins and the speed setting do not move the coils.\<close>

lemma enable_coils:
  "coil_a (awd8833c_set_enable x y s) = coil_a s" "coil_b (awd8833c_set_enable x y s) = coil_b s"
  "g_full_step_state (awd8833c_set_enable x y s) = g_full_step_state s"
  "g_half_step_state (awd8833c_set_enable x y s) = g_half_step_state s"
  "g_full_step_delay (awd8833c_set_enable x y s) = g_full_step_delay s"
  "sleep_min (mio (awd8833c_set_enable x y s)) = sleep_min (mio s)"
  "sleep_max (mio (awd8833c_set_enable x y s)) = sleep_max (mio s)"
  by (simp_all add: awd8833c_set_enable_def coil_a_def coil_b_def pin_defs)

lemma speed_coils:
  "coil_a (snd (awd8833c_set_motor_speed v s)) = coil_a s"
  "coil_b (snd (awd8833c_set_motor_speed v s)) = coil_b s"
  "g_full_step_state (snd (awd8833c_set_motor_speed v s)) = g_full_step_state s"
  "g_half_step_state (snd (awd8833c_set_motor_speed v s)) = g_half_step_state s"
  "mio (snd (awd8833c_set_motor_speed v s)) = mio s"
  by (simp_all add: awd8833c_set_motor_speed_def Let_def coil_a_def coil_b_def)

lemma init_other:
  "g_half_step_state (awd8833c_gpio_init s) = g_half_step_state s"
  "sleep_min (mio (awd8833c_gpio_init s)) = sleep_min (mio s)"
  "sleep_max (mio (awd8833c_gpio_init s)) = sleep_max (mio s)"
  by (simp_all add: awd8833c_gpio_init_def pin_defs)

lemma init_coasts:
  "coil_a (awd8833c_gpio_init s) = Coast" "coil_b (awd8833c_gpio_init s) = Coast"
  "g_full_step_state (awd8833c_gpio_init s) = g_full_step_state s"
  by (simp_all add: awd8833c_gpio_init_def coil_a_def coil_b_def pin_defs)

text \<open>\<open>while (1)\<close> has no value.\<close>

lemma forever_None: "forever f s = None"
proof -
  have "forever f s = Some y \<Longrightarrow> False" for s y
    by (erule forever.raw_induct [rotated]) blast
  then show ?thesis by (cases "forever f s") auto
qed

lemma probed_facts:
  assumes "motor_probe get ok grp s = (0, Some c)"
  shows "mot c = \<lparr>motor = 0, mode = 0, en = False, dir = 0, cycle = 0, degree = 0, delay = 0, sp = 0\<rparr> \<and>
    \<not> lock c \<and> drv c = snd (Motor_gpio_init get s)"
  using assms by (auto simp: motor_probe_def split: prod.splits if_splits)

lemma gpio_claims:
  "one_awake (mio s) \<Longrightarrow> \<forall>p. \<not> level (mio s) p \<Longrightarrow>
   one_awake (mio (snd (CHECK_GPIO get ps s))) \<and> (\<forall>p. \<not> level (mio (snd (CHECK_GPIO get ps s))) p) \<and>
   g_full_step_state (snd (CHECK_GPIO get ps s)) = g_full_step_state s"
  by (induction get ps s rule: CHECK_GPIO.induct) auto

lemma probe_motor_ok: "motor_probe get ok grp awd_initial = (0, Some c) \<Longrightarrow> motor_ok c"
  using probed_facts [of get ok grp awd_initial c] gpio_claims [of awd_initial get motor_gpio_table]
  by (auto simp: motor_ok_def both_asleep_def Motor_gpio_init_def awd_initial_def)

lemma sp_set_facts:
  "sp (mot (sp_set v c)) < 10" "unat (delay (mot (sp_set v c))) = speed_delay (sp (mot (sp_set v c)))"
  "mio (drv (sp_set v c)) = mio (drv c)" "g_full_step_state (drv (sp_set v c)) = g_full_step_state (drv c)"
proof -
  have "(ucast v :: u8) < 10" if "v < 10"
  proof -
    have "v = 0 \<or> v = 1 \<or> v = 2 \<or> v = 3 \<or> v = 4 \<or> v = 5 \<or> v = 6 \<or> v = 7 \<or> v = 8 \<or> v = 9"
      using that by unat_arith
    then show ?thesis by (elim disjE) simp_all
  qed
  then show "sp (mot (sp_set v c)) < 10" by (simp add: sp_set_def Let_def case_prod_beta)
  show "unat (delay (mot (sp_set v c))) = speed_delay (sp (mot (sp_set v c)))"
    using set_motor_speed_eq by (simp add: sp_set_def Let_def case_prod_beta)
  show "mio (drv (sp_set v c)) = mio (drv c)" "g_full_step_state (drv (sp_set v c)) = g_full_step_state (drv c)"
    by (simp_all add: sp_set_def Let_def case_prod_beta awd8833c_set_motor_speed_def)
qed

lemma sp_set_other: "motor (mot (sp_set v c)) = motor (mot c)" "mode (mot (sp_set v c)) = mode (mot c)"
  "dir (mot (sp_set v c)) = dir (mot c)" "cycle (mot (sp_set v c)) = cycle (mot c)"
  by (simp_all add: sp_set_def Let_def case_prod_beta)

lemma motor_ok_lock [simp]: "motor_ok (c\<lparr>lock := b\<rparr>) = motor_ok c" "motor_ok (c\<lparr>work_motor := b\<rparr>) = motor_ok c"
  by (simp_all add: motor_ok_def)

lemma store_motor_ok:
  assumes "(name, sh, Some f) \<in> set motor_attrs" and "f p sz c = Some (r, c')" and "motor_ok c"
  shows "motor_ok c'"
  using assms unfolding motor_attrs_def
  by (auto dest!: motor_attr.result mode_attr.result dir_attr.result en_attr.result
      cycle_attr.result sp_attr.result step_attr.result)
    (simp_all add: motor_ok_def upd_mot_def sp_set_facts sp_set_other both_asleep_def)

lemma step_motor_ok: "motor_step c c' \<Longrightarrow> motor_ok c \<Longrightarrow> motor_ok c'"
proof (induction rule: motor_step.induct)
  case (run_work c)
  then show ?case
    using work_awake [of "c\<lparr>work_motor := False\<rparr>"] work_keeps [of "c\<lparr>work_motor := False\<rparr>"]
    by (simp add: motor_ok_def)
qed (auto intro: store_motor_ok dest: shows_keep)

lemma reachable_motor_ok: "motor_reachable c \<Longrightarrow> motor_ok c"
  by (induction rule: motor_reachable.induct) (auto intro: probe_motor_ok step_motor_ok)

text \<open>The self-test: one forward run from coasting coils, one half-step run back.\<close>

lemma full_forward_state:
  assumes "full_forward_sync s" and "awd_position s = 6"
  shows "g_full_step_state s = 0"
proof -
  have "g_full_step_state s < 4" using assms(1) by (simp add: full_forward_sync_def)
  from u8_less_4 [OF this] show ?thesis
    using assms by (elim disjE) (simp_all add: full_forward_sync_def)
qed

lemma half_reverse_state:
  assumes "half_reverse_sync s" and "awd_position s = 6"
  shows "g_half_step_state s = 0"
proof -
  have "g_half_step_state s < 8" using assms(1) by (simp add: half_reverse_sync_def)
  from u8_less_8 [OF this] show ?thesis
    using assms by (elim disjE) (simp_all add: half_reverse_sync_def)
qed

lemma half_step_frame:
  fixes s :: awd
  defines "f \<equiv> awd8833c_half_step_reverse_function"
  shows "g_full_step_state ((f ^^ n) s) = g_full_step_state s \<and>
    g_half_step_delay ((f ^^ n) s) = g_half_step_delay s \<and>
    sleep_min (mio ((f ^^ n) s)) = sleep_min (mio s) + n * unat (g_half_step_delay s)"
  unfolding f_def
  by (induction n) (simp_all add: awd8833c_half_step_reverse_function_def pin_defs Let_def)

lemma full_forward_half_state:
  "g_half_step_state ((awd8833c_full_step_forward_function ^^ n) s) = g_half_step_state s"
  by (induction n) (simp_all add: awd8833c_full_step_forward_function_def pin_defs Let_def)

lemma full_forward_400:
  assumes "g_full_step_state s = 0" and "coil_a s = Coast" and "coil_b s = Coast"
  shows "full_forward_sync ((awd8833c_full_step_forward_function ^^ 400) s) \<and>
    awd_position ((awd8833c_full_step_forward_function ^^ 400) s) = 6"
proof -
  let ?t = "awd8833c_full_step_forward_function (awd8833c_full_step_forward_function s)"
  have t: "full_forward_sync ?t" using assms by (intro resync) simp_all
  have "g_full_step_state ?t = 2"
    using assms(1) by (simp add: awd8833c_full_step_forward_function_def pin_defs Let_def)
  then have "awd_position ?t = 2" using t by (simp add: full_forward_sync_def)
  then show ?thesis
    using full_fwd.sync_run [OF t, of 398] full_fwd.pos_run [OF t, of 398]
    by (simp add: funpow_after_two [of 400])
qed

lemma test_run:
  assumes "g_full_step_state s = 0" and "g_half_step_state s = 0"
  shows "\<exists>t. awd8833c_test r s = Some t \<and> g_full_step_state t = 0 \<and> g_half_step_state t = 0 \<and>
    awd_position t = 6 \<and> sleep_min (mio t) = sleep_min (mio s) + 400 * 16200 + 800 * 1250"
proof -
  let ?v = "snd (awd8833c_set_motor_speed AW_SPEED_HIGH (awd8833c_set_enable 1 r (awd8833c_gpio_init s)))"
  let ?f = "(awd8833c_full_step_forward_function ^^ 400) ?v"
  let ?r = "?f\<lparr>g_full_step_delay := 2500, g_half_step_delay := 1250\<rparr>"
  let ?h = "(awd8833c_half_step_reverse_function ^^ 800) ?r"
  have test: "awd8833c_test r s = Some (awd8833c_set_enable 0 r ?h)"
    by (simp add: awd8833c_test_def awd8833c_set_rotate_speed_def awd8833c_step_function_def Let_def)
  have v: "g_full_step_state ?v = 0" "coil_a ?v = Coast" "coil_b ?v = Coast" "g_half_step_state ?v = 0"
    using assms by (simp_all add: speed_coils enable_coils init_coasts init_other)
  note f = full_forward_400 [OF v(1-3)]
  have fs: "g_full_step_state ?f = 0" by (rule full_forward_state) (use f in auto)
  have r: "awd_position ?r = 6" "g_half_step_state ?r = 0" "g_full_step_state ?r = 0"
    using f fs v(4) by (simp_all add: awd_position_def coil_a_def coil_b_def full_forward_half_state)
  have hs: "half_reverse_sync ?r" using r by (simp add: half_reverse_sync_def)
  have hp: "awd_position ?h = 6" using half_rev.pos_run [OF hs, of 800] r(1) by simp
  have "g_half_step_state ?h = 0"
    by (rule half_reverse_state [OF half_rev.sync_run [OF hs] hp])
  moreover have "g_full_step_state ?h = 0" using half_step_frame [of 800 ?r] r(3) by simp
  moreover have "unat (g_full_step_delay ?v) = 16200"
    using set_motor_speed_eq [of AW_SPEED_HIGH] by (simp add: speed_delay_def)
  then have "sleep_min (mio ?f) = sleep_min (mio s) + 400 * 16200"
    by (simp add: full_steps_time speed_coils enable_coils init_other)
  then have "sleep_min (mio ?h) = sleep_min (mio s) + 400 * 16200 + 800 * 1250"
    using half_step_frame [of 800 ?r] by simp
  ultimately show ?thesis
    using hp by (simp add: test enable_coils awd_position_def)
qed

subsection \<open>Properties\<close>

text \<open>A driver in step: two forward full steps after power-on.\<close>

definition awd_example :: awd where
  "awd_example = awd8833c_full_step_forward_function (awd8833c_full_step_forward_function awd_initial)"

lemma example_in_step: "full_forward_sync awd_example" "awd_position awd_example = 2"
  "g_full_step_state awd_example = 2"
  by (simp_all add: awd_example_def awd_initial_def full_forward_sync_def awd_position_def
      coil_a_def coil_b_def awd8833c_full_step_forward_function_def pin_defs Let_def)

definition motor_example :: motor_chip where
  "motor_example = \<lparr>mot = \<lparr>motor = 0, mode = 0, en = False, dir = 0, cycle = 0, degree = 0, delay = 0, sp = 0\<rparr>,
     work_motor = False, lock = False, drv = snd (Motor_gpio_init (\<lambda>n. 0) awd_initial)\<rparr>"

lemma motor_example_reachable: "motor_reachable motor_example"
proof (rule motor_reachable.probed)
  have "CHECK_GPIO (\<lambda>n. 0) ps s = (0, snd (CHECK_GPIO (\<lambda>n. 0) ps s))" for ps s
    by (induction "\<lambda>n::string. 0::int" ps s rule: CHECK_GPIO.induct) auto
  then have "Motor_gpio_init (\<lambda>n. 0) awd_initial = (0, snd (Motor_gpio_init (\<lambda>n. 0) awd_initial))"
    unfolding Motor_gpio_init_def by blast
  then show "motor_probe (\<lambda>n. 0) True 0 awd_initial = (0, Some motor_example)"
    by (simp add: motor_probe_def motor_example_def case_prod_beta) (metis fst_conv)
qed

definition motor_example5 :: motor_chip where
  "motor_example5 = upd_mot (cycle_update (\<lambda>_. 5)) motor_example"

lemma motor_example5_reachable: "motor_reachable motor_example5"
proof -
  have "motor_step motor_example motor_example5"
    unfolding motor_example5_def
    by (rule motor_step.store_attr [of "''cycle''" "Some cycle_show" cycle_store "Inr 5" 2 _ 2])
      (simp_all add: motor_attrs_def cycle_attr.accepted motor_example_def)
  from motor_reachable.step [OF motor_example_reachable this] show ?thesis .
qed

text \<open>
  C4: With the coils in step, a run of \<open>n\<close> pulses in any direction and drive mode moves the
  electrical position by exactly \<open>n\<close> strides (two half steps in full-step mode, one in
  half-step mode, negative in reverse) and leaves the coils in step.
\<close>

theorem step_function_position:
  assumes "in_step direction mode_select s" and "direction \<le> 1" and "mode_select \<le> 1"
  shows "in_step direction mode_select (awd8833c_step_function direction mode_select n s) \<and>
    awd_position (awd8833c_step_function direction mode_select n s) =
      (awd_position s + int (unat n) * stride direction mode_select) mod 8"
proof -
  have "direction = 0 \<or> direction = 1" "mode_select = 0 \<or> mode_select = 1"
    using assms(2,3) by unat_arith+
  then show ?thesis
    using assms(1) full_fwd.sync_run full_rev.sync_run half_fwd.sync_run half_rev.sync_run
      full_fwd.pos_run full_rev.pos_run half_fwd.pos_run half_rev.pos_run
    by (elim disjE) (simp_all add: in_step_def stride_def awd8833c_step_function_def)
qed

theorem step_function_position_witness:
  "awd_position (awd8833c_step_function 1 0 7 awd_example) = 0"
  using step_function_position [of 1 0 awd_example 7] example_in_step
  by (simp add: in_step_def stride_def)

text \<open>
  Reversing a full-step run moves the motor back at once only when the shared state
  variable is even; when it is odd the first two reverse pulses move nothing, and the run ends
  two full steps short.
\<close>

theorem reversal_loses_two_steps:
  assumes "in_step AW_FORWARD AW_FULL_STEP s" and "2 \<le> n"
  shows "awd_position (awd8833c_step_function AW_REVERSE AW_FULL_STEP n s) =
    (awd_position s - 2 * (if even (unat (g_full_step_state s)) then int (unat n) else int (unat n) - 2)) mod 8"
proof -
  have f: "full_forward_sync s" using assms(1) by (simp add: in_step_def)
  have n: "2 \<le> unat n" using assms(2) by (simp add: word_le_nat_alt)
  show ?thesis
  proof (cases "even (unat (g_full_step_state s))")
    case True
    then show ?thesis
      using full_rev.pos_run [OF sync_swap [OF f True], of "unat n"]
      by (simp add: awd8833c_step_function_def algebra_simps)
  next
    case False
    note l = lost_steps [OF f False]
    show ?thesis
      using full_rev.pos_run [OF conjunct1 [OF l], of "unat n - 2"] l False n
      by (simp add: awd8833c_step_function_def funpow_after_two [OF n] of_nat_diff algebra_simps)
  qed
qed

theorem reversal_loses_two_steps_witness:
  "awd_position (awd8833c_step_function 0 0 3 awd_example) = 4 \<and>
   awd_position (awd8833c_step_function 0 0 3 (awd8833c_full_step_forward_function awd_example)) = 2"
proof -
  have f: "full_forward_sync (awd8833c_full_step_forward_function awd_example)"
    "awd_position (awd8833c_full_step_forward_function awd_example) = 4"
    using full_forward_law [OF example_in_step(1)] example_in_step(2) by simp_all
  have o: "g_full_step_state (awd8833c_full_step_forward_function awd_example) = 3"
    by (simp add: awd8833c_full_step_forward_function_def example_in_step(3) pin_defs Let_def)
  show ?thesis
    using reversal_loses_two_steps [of awd_example 3]
      reversal_loses_two_steps [of "awd8833c_full_step_forward_function awd_example" 3]
      example_in_step f o
    by (simp add: in_step_def)
qed

text \<open>
  C26: From every reachable chip, a work run of at least two cycles ends with the coils in step
  for its direction, whatever position the earlier runs left: \<open>awd8833c_gpio_init\<close> lets the
  coils coast and two full steps drive both again.
\<close>

theorem work_resynchronises:
  assumes "motor_reachable c" and "2 \<le> cycle (mot c)"
  shows "in_step (dir (mot c)) AW_FULL_STEP (drv (motorctrl_work c))"
proof -
  have ok: "g_full_step_state (drv c) < 4" "dir (mot c) \<le> 1"
    using reachable_motor_ok [OF assms(1)] by (simp_all add: motor_ok_def)
  have n: "2 \<le> unat (cycle (mot c))" using assms(2) by (simp add: word_le_nat_alt)
  let ?v = "snd (awd8833c_set_motor_speed (sp (mot c)) (awd8833c_set_enable (of_bool (en (mot c)))
      (motor (mot c)) (awd8833c_gpio_init (drv c))))"
  have v: "g_full_step_state ?v < 4" "coil_a ?v = Coast" "coil_b ?v = Coast"
    using ok by (simp_all add: speed_coils enable_coils init_coasts)
  have k: "full_forward_sync (awd8833c_set_enable x y s) = full_forward_sync s"
    "full_reverse_sync (awd8833c_set_enable x y s) = full_reverse_sync s" for x y s
    by (simp_all add: full_forward_sync_def full_reverse_sync_def awd_position_def enable_coils)
  have "dir (mot c) = 0 \<or> dir (mot c) = 1" using ok(2) by unat_arith
  then show ?thesis
    using resync [OF v] full_fwd.sync_run full_rev.sync_run
    by (elim disjE) (simp_all add: in_step_def motorctrl_work_def k awd8833c_step_function_def
        funpow_after_two [OF n])
qed

theorem work_resynchronises_witness:
  "in_step 0 0 (drv (motorctrl_work motor_example5))"
  using work_resynchronises [OF motor_example5_reachable]
  by (simp add: motor_example5_def motor_example_def upd_mot_def)

text \<open>
  The work function holds the motor for \<open>cycle\<close> pulses of the delay of its speed: between
  that many delays and 1000 microseconds more per pulse, whatever the motor and direction.
\<close>

theorem work_duration:
  assumes "motor_reachable c"
  shows "sleep_min (mio (drv (motorctrl_work c))) =
      sleep_min (mio (drv c)) + unat (cycle (mot c)) * speed_delay (sp (mot c)) \<and>
    sleep_max (mio (drv (motorctrl_work c))) =
      sleep_max (mio (drv c)) + unat (cycle (mot c)) * (speed_delay (sp (mot c)) + 1000)"
proof -
  have "dir (mot c) \<le> 1" using reachable_motor_ok [OF assms] by (simp add: motor_ok_def)
  then have d: "dir (mot c) = 0 \<or> dir (mot c) = 1" by unat_arith
  let ?v = "snd (awd8833c_set_motor_speed (sp (mot c)) (awd8833c_set_enable (of_bool (en (mot c)))
      (motor (mot c)) (awd8833c_gpio_init (drv c))))"
  have v: "unat (g_full_step_delay ?v) = speed_delay (sp (mot c))" using set_motor_speed_eq by blast
  then have "unat (g_full_step_delay ?v + 1000) = speed_delay (sp (mot c)) + 1000"
    using speed_words(1) [of "sp (mot c)"] by (simp add: unat_word_ariths)
  moreover have "sleep_min (mio ?v) = sleep_min (mio (drv c))" "sleep_max (mio ?v) = sleep_max (mio (drv c))"
    by (simp_all add: speed_coils enable_coils init_other)
  ultimately show ?thesis
    using d v by (elim disjE) (simp_all add: motorctrl_work_def enable_coils
        awd8833c_step_function_def full_steps_time)
qed

theorem work_duration_witness:
  "sleep_min (mio (drv (motorctrl_work motor_example5))) = sleep_min (mio (drv motor_example5)) + 90000"
  using conjunct1 [OF work_duration [OF motor_example5_reachable]]
  by (simp add: motor_example5_def motor_example_def upd_mot_def speed_delay_def)

text \<open>
  C14: Safety: in every reachable state of the driver no moment of the pin log has both motors
  out of sleep, and between work runs both motors sleep.
\<close>

theorem never_both_awake:
  assumes "motor_reachable c"
  shows "one_awake (mio (drv c)) \<and> both_asleep (drv c)"
  using reachable_motor_ok [OF assms] by (simp add: motor_ok_def)

theorem never_both_awake_witness:
  "one_awake (mio (drv motor_example)) \<and> both_asleep (drv motor_example)"
  by (rule never_both_awake) (rule motor_example_reachable)

text \<open>
  Invariant of the control block: whatever is written, selector fields stay 0 or 1, the
  cycle count below 1000, the speed below 10, and the shown delay is 0 until a speed is set and
  then the delay of that speed.
\<close>

theorem control_block_invariant:
  assumes "motor_reachable c"
  shows "motor (mot c) \<le> 1 \<and> mode (mot c) \<le> 1 \<and> dir (mot c) \<le> 1 \<and> cycle (mot c) < 1000 \<and>
    sp (mot c) < 10 \<and> (delay (mot c) \<noteq> 0 \<longrightarrow> unat (delay (mot c)) = speed_delay (sp (mot c)))"
  using reachable_motor_ok [OF assms] by (auto simp: motor_ok_def)

theorem control_block_invariant_witness:
  "cycle (mot motor_example) < 1000 \<and> sp (mot motor_example) < 10"
  using control_block_invariant [OF motor_example_reachable] by simp

text \<open>
  C40: A write that \<open>kstrtouint\<close> rejects returns its error with the mutex held: from then on
  every write of every attribute blocks, and so does every read of every attribute but \<open>version\<close>, the
  only one that does not take the mutex.
\<close>

theorem parse_error_deadlocks:
  assumes "(name, sh, Some f) \<in> set motor_attrs" and "\<not> lock c"
  shows "\<exists>c'. f (Inl e) sz c = Some (e, c') \<and>
    (\<forall>(attr, rd, wr)\<in>set motor_attrs.
      (\<forall>g. wr = Some g \<longrightarrow> g p n c' = None) \<and>
      (\<forall>g. rd = Some g \<longrightarrow> g c' = (if attr = ''version'' then Some (''v0.0.0.2'', c') else None)))"
proof -
  obtain c' where c': "f (Inl e) sz c = Some (e, c')" "lock c'" using stores_leak [OF assms, of e sz] by blast
  have "g p n c' = None" if "(attr, rd, Some g) \<in> set motor_attrs" for attr rd g
    using stores_block [OF that] c'(2) by (simp add: blocks_def)
  moreover have "g c' = None" if "(attr, Some g, wr) \<in> set motor_attrs" "attr \<noteq> ''version''" for attr wr g
    using shows_block [OF that] c'(2) by (simp add: blocks_def)
  moreover have "g c' = Some (''v0.0.0.2'', c')" if "(''version'', Some g, wr) \<in> set motor_attrs" for g wr
    using that by (auto simp: motor_attrs_def motor_version_def)
  ultimately show ?thesis using c'(1) by fastforce
qed

theorem parse_error_deadlocks_witness:
  "\<exists>c'. cycle_store (Inl (-22)) 4 motor_example = Some (-22, c') \<and> sp_store (Inr 1) 2 c' = None \<and>
    delay_show c' = None \<and> motor_version c' = Some (''v0.0.0.2'', c')"
proof -
  have "(''cycle'', Some cycle_show, Some cycle_store) \<in> set motor_attrs" "\<not> lock motor_example"
    by (simp_all add: motor_attrs_def motor_example_def)
  from parse_error_deadlocks [OF this, of "-22" 4 "Inr 1" 2] show ?thesis by (auto simp: motor_attrs_def)
qed

text \<open>
  What an accepted write makes the attribute show, with the mutex free: a non-zero mode
  shows as Step, a non-zero direction as Forward, a cycle count of 1000 or more as 0; a
  non-zero motor shows as Pan, although the selector shows any non-zero motor as Rising.
\<close>

theorem attributes_read_back:
  assumes "\<not> lock c"
  shows "Option.bind (motor_attr_store (Inr v) n c) (motor_attr_show \<circ> snd) =
      Some ((if v \<noteq> 0 then ''Motor: Pan'' else ''Motor: Rising'') @ nl, snd (the (motor_attr_store (Inr v) n c))) \<and>
    map_option fst (Option.bind (mode_store (Inr v) n c) (mode_show \<circ> snd)) =
      Some ((if v \<noteq> 0 then ''Mode: Step'' else ''Mode: Degree'') @ nl) \<and>
    map_option fst (Option.bind (dir_store (Inr v) n c) (dir_show \<circ> snd)) =
      Some ((if v \<noteq> 0 then ''Dir: Forward'' else ''Dir: Reverse'') @ nl) \<and>
    map_option fst (Option.bind (cycle_store (Inr v) n c) (cycle_show \<circ> snd)) =
      Some (''cycle count: '' @ show_dec (if v < 1000 then unat v else 0) @ nl)"
  using assms
  by (simp add: motor_attr.accepted mode_attr.accepted dir_attr.accepted cycle_attr.accepted
      upd_mot_def motor_attr_show_def mode_show_def dir_show_def cycle_show_def
      mutex_lock_def mutex_unlock_def)

theorem attributes_read_back_witness:
  "map_option fst (Option.bind (cycle_store (Inr 5000) 5 motor_example) (cycle_show \<circ> snd)) =
     Some (''cycle count: '' @ show_dec 0 @ nl)"
  using attributes_read_back [of motor_example 5000 5] by (simp add: motor_example_def)

text \<open>
  The speed law: any speed byte is taken into 1..10, the full-step delay falls linearly
  from 18000 to 1800 microseconds, the half-step delay is its half, and the function returns
  what it stored.
\<close>

theorem speed_law:
  "unat (fst (awd8833c_set_motor_speed v s)) = 18000 - 1800 * (max 1 (min 10 (unat v)) - 1) \<and>
   g_full_step_delay (snd (awd8833c_set_motor_speed v s)) = fst (awd8833c_set_motor_speed v s) \<and>
   unat (g_half_step_delay (snd (awd8833c_set_motor_speed v s))) =
     unat (fst (awd8833c_set_motor_speed v s)) div 2"
  using set_motor_speed_eq [of v s] by (auto simp: speed_delay_def awd8833c_set_motor_speed_def Let_def)

text \<open>
  While \<open>angle_s * 10\<close> fits in 32 bits, \<open>awd8833c_set_rotate_speed\<close> divides by zero
  exactly when the step angle is 0 or larger than \<open>angle_s * 10\<close>; otherwise it sets the
  full-step delay to a million divided by the steps per second.
\<close>

theorem rotate_speed_faults:
  assumes "unat angle_s * 10 < 2 ^ 32"
  shows "(awd8833c_set_rotate_speed angle_s step_angle s = None \<longleftrightarrow>
      step_angle = 0 \<or> unat angle_s * 10 < unat step_angle) \<and>
    (\<forall>t. awd8833c_set_rotate_speed angle_s step_angle s = Some t \<longrightarrow>
      unat (g_full_step_delay t) = 1000000 div (unat angle_s * 10 div unat step_angle))"
proof -
  have m: "unat (angle_s * 10) = unat angle_s * 10" using assms by (simp add: unat_word_ariths)
  have q: "unat (angle_s * 10 div ucast step_angle) = unat angle_s * 10 div unat step_angle"
    by (simp add: unat_div m unat_u8_u32)
  have z: "angle_s * 10 div ucast step_angle = 0 \<longleftrightarrow> unat angle_s * 10 div unat step_angle = 0"
    using q by (metis unat_eq_zero)
  have "unat step_angle = 0 \<longleftrightarrow> step_angle = 0" by (simp add: unat_eq_zero)
  then show ?thesis
    using q z by (auto simp: awd8833c_set_rotate_speed_def Let_def unat_div div_eq_0_iff)
qed

theorem rotate_speed_faults_witness:
  "awd8833c_set_rotate_speed 1 11 awd_initial = None"
  using rotate_speed_faults [of 1 11 awd_initial] by simp

text \<open>
  \<open>awd8833c_second_function_action\<close> returns only for a direction or a mode that is not
  one of the enum's; for every valid pair it never returns.
\<close>

theorem second_function_action_returns:
  "awd8833c_second_function_action direction mode_select s =
     (if direction \<le> 1 \<and> mode_select \<le> 1 then None else Some s)"
proof -
  have "x \<le> 1 \<longleftrightarrow> x = 0 \<or> x = 1" for x :: u8 by unat_arith
  then show ?thesis by (simp add: awd8833c_second_function_action_def forever_None)
qed

text \<open>
  \<open>awd8833c_test\<close> started with both state variables at 0 always returns; the 400 full
  steps and the 800 half steps are whole turns that leave both variables at 0 and the coils at
  position 6, and it sleeps 400 times 16200 and 800 times 1250 microseconds.
\<close>

theorem test_runs_whole_turns:
  assumes "g_full_step_state s = 0" and "g_half_step_state s = 0"
  shows "\<exists>t. awd8833c_test r s = Some t \<and> g_full_step_state t = 0 \<and> g_half_step_state t = 0 \<and>
    awd_position t = 6 \<and> sleep_min (mio t) = sleep_min (mio s) + 400 * 16200 + 800 * 1250"
  using test_run [OF assms] by blast

theorem test_runs_whole_turns_witness:
  "\<exists>t. awd8833c_test 1 awd_initial = Some t \<and> awd_position t = 6"
  using test_runs_whole_turns [of awd_initial 1] by (auto simp: awd_initial_def)

end
