(* ===== verification/Lis_Regs.thy ===== *)
theory Lis_Regs
  imports Prelude
begin

text \<open>
  The LIS2DW12 accelerometer driver, \<open>accelerator/src\<close>: the state of \<open>struct
  st_lis2dw12_hw\<close>, the kernel services it uses, and the inline functions of
  \<open>st_lis2dw12.h\<close>. The services are functions of the I/O done so far (newest first), so a
  register may change between two reads. \<open>None\<close> is a fault: a wild pointer, a division by
  zero or a shift without a defined count.
\<close>

subsection \<open>State\<close>

type_synonym u64 = "64 word"

datatype st_lis2dw12_sensor_id = ST_LIS2DW12_ID_ACC | ST_LIS2DW12_ID_TEMP

definition BIT_ID :: "st_lis2dw12_sensor_id \<Rightarrow> u16" where
  "BIT_ID sid = (case sid of ST_LIS2DW12_ID_ACC \<Rightarrow> 1 | ST_LIS2DW12_ID_TEMP \<Rightarrow> 2)"

text \<open>\<open>enum st_lis2dw12_hw_id\<close>, compared with integers in the source.\<close>

abbreviation (input) ST_LIS2DW12_ID :: int where "ST_LIS2DW12_ID \<equiv> 0"
abbreviation (input) ST_IIS2DLPC_ID :: int where "ST_IIS2DLPC_ID \<equiv> 1"
abbreviation (input) ST_AIS2IH_ID :: int where "ST_AIS2IH_ID \<equiv> 2"
abbreviation (input) ST_AIS2DW12_ID :: int where "ST_AIS2DW12_ID \<equiv> 3"

text \<open>IIO channel types, event types, directions, infos and modifiers of the kernel's ABI.\<close>

abbreviation (input) IIO_ACCEL :: int where "IIO_ACCEL \<equiv> 3"
abbreviation (input) IIO_TEMP :: int where "IIO_TEMP \<equiv> 9"
abbreviation (input) IIO_EV_TYPE_THRESH :: int where "IIO_EV_TYPE_THRESH \<equiv> 0"
abbreviation (input) IIO_EV_TYPE_CHANGE :: int where "IIO_EV_TYPE_CHANGE \<equiv> 5"
abbreviation (input) IIO_EV_TYPE_GESTURE :: int where "IIO_EV_TYPE_GESTURE \<equiv> 6"
abbreviation (input) STM_IIO_EV_TYPE_FIFO_FLUSH :: int where "STM_IIO_EV_TYPE_FIFO_FLUSH \<equiv> 0x1e"
abbreviation (input) IIO_EV_DIR_EITHER :: int where "IIO_EV_DIR_EITHER \<equiv> 0"
abbreviation (input) IIO_EV_DIR_RISING :: int where "IIO_EV_DIR_RISING \<equiv> 1"
abbreviation (input) IIO_EV_DIR_FALLING :: int where "IIO_EV_DIR_FALLING \<equiv> 2"
abbreviation (input) IIO_EV_DIR_SINGLETAP :: int where "IIO_EV_DIR_SINGLETAP \<equiv> 4"
abbreviation (input) IIO_EV_DIR_DOUBLETAP :: int where "IIO_EV_DIR_DOUBLETAP \<equiv> 5"
abbreviation (input) IIO_EV_INFO_VALUE :: int where "IIO_EV_INFO_VALUE \<equiv> 1"
abbreviation (input) IIO_EV_INFO_PERIOD :: int where "IIO_EV_INFO_PERIOD \<equiv> 3"
abbreviation (input) IIO_EV_INFO_RESET_TIMEOUT :: int where "IIO_EV_INFO_RESET_TIMEOUT \<equiv> 6"
abbreviation (input) IIO_EV_INFO_TAP2_MIN_DELAY :: int where "IIO_EV_INFO_TAP2_MIN_DELAY \<equiv> 7"
abbreviation (input) IIO_VAL_INT :: int where "IIO_VAL_INT \<equiv> 1"
abbreviation (input) IIO_VAL_INT_PLUS_MICRO :: int where "IIO_VAL_INT_PLUS_MICRO \<equiv> 2"
abbreviation (input) IIO_VAL_FRACTIONAL :: int where "IIO_VAL_FRACTIONAL \<equiv> 10"
abbreviation (input) IRQ_HANDLED :: int where "IRQ_HANDLED \<equiv> 1"
abbreviation (input) IRQ_WAKE_THREAD :: int where "IRQ_WAKE_THREAD \<equiv> 2"

datatype iio_modifier = NO_MOD | IIO_MOD_X | IIO_MOD_Y | IIO_MOD_Z

text \<open>
  The log. An event is its fields: channel number, modifier, type and direction of
  \<open>IIO_UNMOD_EVENT_CODE\<close> or \<open>IIO_MOD_EVENT_CODE\<close>, and the timestamp.
\<close>

datatype lis_io =
    Regmap_update_bits u8 u8 u8
  | Regmap_write u8 u8
  | Regmap_read u8
  | Regmap_bulk_write u8 "u8 list"
  | Regmap_bulk_read u8 nat
  | Regcache_bypass bool
  | Regcache_mark_dirty
  | Regcache_sync
  | Lis_msleep int
  | Lis_usleep int
  | Hrtimer_start int
  | Hrtimer_cancel
  | Cancel_work
  | Queue_work
  | Flush_workqueue
  | Push_event int iio_modifier int int int
  | Push_buffer st_lis2dw12_sensor_id "u8 list" int
  | Irq_call string int

record lis_env =
  regmap_update_bits :: "lis_io list \<Rightarrow> u8 \<Rightarrow> u8 \<Rightarrow> u8 \<Rightarrow> int"
  regmap_bulk_write :: "lis_io list \<Rightarrow> u8 \<Rightarrow> u8 list \<Rightarrow> int"
  regmap_bulk_read :: "lis_io list \<Rightarrow> u8 \<Rightarrow> nat \<Rightarrow> int \<times> (nat \<Rightarrow> u8)"
  regmap_read :: "lis_io list \<Rightarrow> u8 \<Rightarrow> int \<times> int"
  regmap_write :: "lis_io list \<Rightarrow> u8 \<Rightarrow> u8 \<Rightarrow> int"
  iio_claim_direct :: "lis_io list \<Rightarrow> int"
  iio_buffer_enabled :: "lis_io list \<Rightarrow> bool"
  iio_get_time_ns :: "lis_io list \<Rightarrow> int"
  stack_int :: "lis_io list \<Rightarrow> int"
  G_TO_M_S_2 :: "nat \<Rightarrow> u32"

record st_lis2dw12_sensor =
  gain :: u16
  odr :: u16

text \<open>\<open>odr_table\<close> has exactly the \<open>size\<close> entries that the source's loops visit.\<close>

record st_lis2dw12_settings =
  hw_id :: int
  name :: string
  odr_table :: "st_lis2dw12_sensor_id \<Rightarrow> (u16 \<times> u8) list"

datatype st_lis2dw12_selftest_status = ST_LIS2DW12_ST_RESET | ST_LIS2DW12_ST_PASS | ST_LIS2DW12_ST_FAIL

text \<open>
  Pointers are options. \<open>odr_entry\<close> is \<open>None\<close> also for the wild address that
  \<open>check_whoami\<close> computes from a null \<open>settings\<close>.
\<close>

record st_lis2dw12_hw =
  kenv :: lis_env
  io :: "lis_io list"
  irq :: int
  irq_emb :: int
  irq_pin :: int
  irq_reg :: u8
  iio_devs :: "st_lis2dw12_sensor_id \<Rightarrow> st_lis2dw12_sensor option"
  st_status :: st_lis2dw12_selftest_status
  enable_mask :: u16
  enable_ev_mask :: u16
  watermark :: u8
  std_level :: u8
  samples :: u64
  delta_ts :: int
  ts_irq :: int
  ts :: int
  oldktime :: int
  temp_workqueue :: bool
  timestamp :: int
  odr_entry :: "(st_lis2dw12_sensor_id \<Rightarrow> (u16 \<times> u8) list) option"
  settings :: "st_lis2dw12_settings option"
  req_odr_events :: int
  sixD_threshold :: u32
  freefall_threshold :: u32
  wk_th_mg :: u32
  wk_dur_ms :: u32
  tap_threshold :: u32
  tap_quiet_time :: u32
  tap_shock_time :: u32
  dtap_duration :: u32
  has_hw_fifo :: bool

type_synonym hw_op = "st_lis2dw12_hw \<Rightarrow> st_lis2dw12_hw res"

definition logio :: "lis_io \<Rightarrow> st_lis2dw12_hw \<Rightarrow> st_lis2dw12_hw" where
  "logio e hw = hw\<lparr>io := e # io hw\<rparr>"

definition upd_sensor ::
    "st_lis2dw12_sensor_id \<Rightarrow> (st_lis2dw12_sensor \<Rightarrow> st_lis2dw12_sensor) \<Rightarrow> st_lis2dw12_hw \<Rightarrow> st_lis2dw12_hw" where
  "upd_sensor sid f hw = hw\<lparr>iio_devs := (iio_devs hw)(sid := map_option f (iio_devs hw sid))\<rparr>"

text \<open>Dereferencing the sensor of a device: a missing device faults.\<close>

definition with_sensor :: "st_lis2dw12_sensor_id \<Rightarrow> st_lis2dw12_hw \<Rightarrow> (st_lis2dw12_sensor \<Rightarrow> 'r option) \<Rightarrow> 'r option" where
  "with_sensor sid hw k = Option.bind (iio_devs hw sid) k"

definition with_settings :: "st_lis2dw12_hw \<Rightarrow> (st_lis2dw12_settings \<Rightarrow> 'r option) \<Rightarrow> 'r option" where
  "with_settings hw k = Option.bind (settings hw) k"

subsection \<open>Registers and masks\<close>

abbreviation (input) TEMP_OUT_T_L_ADDR :: u8 where "TEMP_OUT_T_L_ADDR \<equiv> 0x0d"
abbreviation (input) WHOAMI_ADDR :: u8 where "WHOAMI_ADDR \<equiv> 0x0f"
abbreviation (input) WHOAMI_VAL :: int where "WHOAMI_VAL \<equiv> 0x44"
abbreviation (input) CTRL1_ADDR :: u8 where "CTRL1_ADDR \<equiv> 0x20"
abbreviation (input) ODR_MASK :: u8 where "ODR_MASK \<equiv> 0xF0"
abbreviation (input) MODE_MASK :: u8 where "MODE_MASK \<equiv> 0x0C"
abbreviation (input) LP_MODE_VAL :: u8 where "LP_MODE_VAL \<equiv> 0x00"
abbreviation (input) HP_MODE_VAL :: u8 where "HP_MODE_VAL \<equiv> 0x01"
abbreviation (input) LP_2_MODE_VAL :: u8 where "LP_2_MODE_VAL \<equiv> 0x01"
abbreviation (input) CTRL2_ADDR :: u8 where "CTRL2_ADDR \<equiv> 0x21"
abbreviation (input) BDU_MASK :: u8 where "BDU_MASK \<equiv> 0x08"
abbreviation (input) RESET_MASK :: u8 where "RESET_MASK \<equiv> 0x40"
abbreviation (input) CTRL3_ADDR :: u8 where "CTRL3_ADDR \<equiv> 0x22"
abbreviation (input) LIR_MASK :: u8 where "LIR_MASK \<equiv> 0x10"
abbreviation (input) ST_MASK :: u8 where "ST_MASK \<equiv> 0xC0"
abbreviation (input) CTRL4_INT1_CTRL_ADDR :: u8 where "CTRL4_INT1_CTRL_ADDR \<equiv> 0x23"
abbreviation (input) FTH_INT_MASK :: u8 where "FTH_INT_MASK \<equiv> 0x02"
abbreviation (input) TAP_TAP_INT1_MASK :: u8 where "TAP_TAP_INT1_MASK \<equiv> 0x08"
abbreviation (input) FF_INT1_MASK :: u8 where "FF_INT1_MASK \<equiv> 0x10"
abbreviation (input) WU_INT1_MASK :: u8 where "WU_INT1_MASK \<equiv> 0x20"
abbreviation (input) TAP_INT1_MASK :: u8 where "TAP_INT1_MASK \<equiv> 0x40"
abbreviation (input) SIXD_INT1_MASK :: u8 where "SIXD_INT1_MASK \<equiv> 0x80"
abbreviation (input) CTRL5_INT2_CTRL_ADDR :: u8 where "CTRL5_INT2_CTRL_ADDR \<equiv> 0x24"
abbreviation (input) CTRL6_ADDR :: u8 where "CTRL6_ADDR \<equiv> 0x25"
abbreviation (input) LN_MASK :: u8 where "LN_MASK \<equiv> 0x04"
abbreviation (input) FS_MASK :: u8 where "FS_MASK \<equiv> 0x30"
abbreviation (input) BW_MASK :: u8 where "BW_MASK \<equiv> 0xC0"
abbreviation (input) STATUS_ADDR :: u8 where "STATUS_ADDR \<equiv> 0x27"
abbreviation (input) STATUS_FTH_MASK :: u8 where "STATUS_FTH_MASK \<equiv> 0x80"
abbreviation (input) OUT_X_L_ADDR :: u8 where "OUT_X_L_ADDR \<equiv> 0x28"
abbreviation (input) FIFO_CTRL_ADDR :: u8 where "FIFO_CTRL_ADDR \<equiv> 0x2e"
abbreviation (input) FIFOMODE_MASK :: u8 where "FIFOMODE_MASK \<equiv> 0xE0"
abbreviation (input) FTH_MASK :: u8 where "FTH_MASK \<equiv> 0x1F"
abbreviation (input) FIFO_BYPASS :: u8 where "FIFO_BYPASS \<equiv> 0x0"
abbreviation (input) FIFO_CONTINUOUS :: u8 where "FIFO_CONTINUOUS \<equiv> 0x6"
abbreviation (input) FIFO_SAMPLES_ADDR :: u8 where "FIFO_SAMPLES_ADDR \<equiv> 0x2f"
abbreviation (input) FIFO_SAMPLES_OVR_MASK :: u8 where "FIFO_SAMPLES_OVR_MASK \<equiv> 0x40"
abbreviation (input) FIFO_SAMPLES_DIFF_MASK :: u8 where "FIFO_SAMPLES_DIFF_MASK \<equiv> 0x3F"
abbreviation (input) TAP_THS_X_ADDR :: u8 where "TAP_THS_X_ADDR \<equiv> 0x30"
abbreviation (input) TAP_THS_MASK :: u8 where "TAP_THS_MASK \<equiv> 0x1F"
abbreviation (input) SIXD_THS_MASK :: u8 where "SIXD_THS_MASK \<equiv> 0x60"
abbreviation (input) TAP_THS_Y_ADDR :: u8 where "TAP_THS_Y_ADDR \<equiv> 0x31"
abbreviation (input) TAP_THS_Z_ADDR :: u8 where "TAP_THS_Z_ADDR \<equiv> 0x32"
abbreviation (input) INT_DUR_ADDR :: u8 where "INT_DUR_ADDR \<equiv> 0x33"
abbreviation (input) SHOCK_MASK :: u8 where "SHOCK_MASK \<equiv> 0x03"
abbreviation (input) QUIET_MASK :: u8 where "QUIET_MASK \<equiv> 0x0C"
abbreviation (input) LATENCY_MASK :: u8 where "LATENCY_MASK \<equiv> 0xF0"
abbreviation (input) WAKE_UP_THS_ADDR :: u8 where "WAKE_UP_THS_ADDR \<equiv> 0x34"
abbreviation (input) WAKE_UP_THS_MASK :: u8 where "WAKE_UP_THS_MASK \<equiv> 0x3F"
abbreviation (input) SINGLE_DOUBLE_TAP_MASK :: u8 where "SINGLE_DOUBLE_TAP_MASK \<equiv> 0x80"
abbreviation (input) WAKE_UP_DUR_ADDR :: u8 where "WAKE_UP_DUR_ADDR \<equiv> 0x35"
abbreviation (input) WAKE_UP_DUR_MASK :: u8 where "WAKE_UP_DUR_MASK \<equiv> 0x60"
abbreviation (input) FREE_FALL_ADDR :: u8 where "FREE_FALL_ADDR \<equiv> 0x36"
abbreviation (input) FREE_FALL_THS_MASK :: u8 where "FREE_FALL_THS_MASK \<equiv> 0x07"
abbreviation (input) WU_SRC_ADDR :: u8 where "WU_SRC_ADDR \<equiv> 0x38"
abbreviation (input) ALL_INT_SRC_ADDR :: u8 where "ALL_INT_SRC_ADDR \<equiv> 0x3b"
abbreviation (input) ABS_INT_CFG_ADDR :: u8 where "ABS_INT_CFG_ADDR \<equiv> 0x3f"
abbreviation (input) ALL_INT_MASK :: u8 where "ALL_INT_MASK \<equiv> 0x20"

text \<open>\<open>__ffs\<close>: the lowest set bit of a byte, 8 for 0 (where the kernel's is undefined).\<close>

definition ffs :: "u8 \<Rightarrow> nat" where
  "ffs m = find_idx (bit m) [0, 1, 2, 3, 4, 5, 6, 7]"

definition SHIFT_VAL :: "u8 \<Rightarrow> u8 \<Rightarrow> u8" where
  "SHIFT_VAL val m = push_bit (ffs m) val AND m"

subsection \<open>Register access\<close>

definition update_bits :: "u8 \<Rightarrow> u8 \<Rightarrow> u8 \<Rightarrow> st_lis2dw12_hw \<Rightarrow> int \<times> st_lis2dw12_hw" where
  "update_bits addr m val hw =
     (regmap_update_bits (kenv hw) (io hw) addr m val, logio (Regmap_update_bits addr m val) hw)"

definition st_lis2dw12_write_with_mask :: "u8 \<Rightarrow> u8 \<Rightarrow> u8 \<Rightarrow> st_lis2dw12_hw \<Rightarrow> int \<times> st_lis2dw12_hw" where
  "st_lis2dw12_write_with_mask addr m data hw = update_bits addr m (SHIFT_VAL data m) hw"

text \<open>\<open>_locked\<close> takes and releases \<open>hw->lock\<close> around the access.\<close>

definition st_lis2dw12_write_with_mask_locked :: "u8 \<Rightarrow> u8 \<Rightarrow> u8 \<Rightarrow> hw_op" where
  "st_lis2dw12_write_with_mask_locked addr m data hw =
     Some (st_lis2dw12_write_with_mask addr m data hw)"

definition st_lis2dw12_write_locked :: "u8 \<Rightarrow> u8 list \<Rightarrow> st_lis2dw12_hw \<Rightarrow> int \<times> st_lis2dw12_hw" where
  "st_lis2dw12_write_locked addr val hw =
     (regmap_bulk_write (kenv hw) (io hw) addr val, logio (Regmap_bulk_write addr val) hw)"

definition st_lis2dw12_read :: "u8 \<Rightarrow> nat \<Rightarrow> st_lis2dw12_hw \<Rightarrow> int \<times> (nat \<Rightarrow> u8) \<times> st_lis2dw12_hw" where
  "st_lis2dw12_read addr len hw =
     (case regmap_bulk_read (kenv hw) (io hw) addr len of (err, data) \<Rightarrow>
        (err, data, logio (Regmap_bulk_read addr len) hw))"

text \<open>\<open>*val\<close> is set only when the read succeeds.\<close>

definition st_lis2dw12_read_with_mask ::
    "u8 \<Rightarrow> u8 \<Rightarrow> st_lis2dw12_hw \<Rightarrow> int \<times> u8 option \<times> st_lis2dw12_hw" where
  "st_lis2dw12_read_with_mask addr m hw = (case st_lis2dw12_read addr 1 hw of (err, data, hw') \<Rightarrow>
     if err < 0 then (err, None, hw') else (0, Some (drop_bit (ffs m) (data 0 AND m)), hw'))"

text \<open>\<open>irq_mask\<close> 0 has no lowest bit: the shift count is undefined.\<close>

definition st_lis2dw12_manipulate_bit :: "u8 \<Rightarrow> u8 \<Rightarrow> int \<Rightarrow> u8 option" where
  "st_lis2dw12_manipulate_bit int_reg irq_mask en =
     (if irq_mask = 0 then None
      else (let bit_position = ffs irq_mask; bit_mask = push_bit bit_position 1
            in Some ((int_reg AND NOT bit_mask) OR push_bit bit_position (word_of_int en))))"

definition st_lis2dw12_is_volatile_reg :: "u8 \<Rightarrow> bool" where
  "st_lis2dw12_is_volatile_reg reg \<longleftrightarrow>
     reg \<in> {0x0d, 0x0e, 0x0f, 0x26, 0x27, 0x28, 0x29, 0x2a, 0x2b, 0x2c, 0x2d, 0x2f, 0x37,
            0x38, 0x39, 0x3a, 0x3b, 0x3c, 0x3d, 0x3e}"

text \<open>\<open>cancel_work_sync\<close> and then \<open>hrtimer_cancel\<close> for the temperature.\<close>

definition st_lis2dw12_cancel_workqueue :: "st_lis2dw12_hw \<Rightarrow> st_lis2dw12_hw" where
  "st_lis2dw12_cancel_workqueue hw = logio Hrtimer_cancel (logio Cancel_work hw)"

definition st_lis2dw12_get_timestamp :: "st_lis2dw12_hw \<Rightarrow> int" where
  "st_lis2dw12_get_timestamp hw = iio_get_time_ns (kenv hw) (io hw)"

definition st_lis2dw12_set_fifo_mode :: "u8 \<Rightarrow> hw_op" where
  "st_lis2dw12_set_fifo_mode fmode =
     st_lis2dw12_write_with_mask_locked FIFO_CTRL_ADDR FIFOMODE_MASK fmode"

definition st_lis2dw12_is_fifo_enabled :: "st_lis2dw12_hw \<Rightarrow> bool" where
  "st_lis2dw12_is_fifo_enabled hw \<longleftrightarrow> enable_mask hw AND BIT_ID ST_LIS2DW12_ID_ACC \<noteq> 0"

definition regcache_cache_bypass :: "bool \<Rightarrow> st_lis2dw12_hw \<Rightarrow> st_lis2dw12_hw" where
  "regcache_cache_bypass b = logio (Regcache_bypass b)"

text \<open>\<open>(s16)get_unaligned_le16\<close>\<close>

definition le16 :: "(nat \<Rightarrow> u8) \<Rightarrow> nat \<Rightarrow> int" where
  "le16 data i = s16 (uint (data i) + 256 * uint (data (i + 1)))"

end
