(* ===== verification/Lis_Core.thy ===== *)
theory Lis_Core
  imports Lis_Regs
begin

text \<open>
  \<open>st_lis2dw12_core.c\<close>, first part: the tables, full scale, output data rate and enabling,
  raw reads and writes, and the self-test.
\<close>

subsection \<open>Tables\<close>

definition st_lis2dw12_std_table :: "(u16 \<times> u8) list" where
  "st_lis2dw12_std_table = [(12, 12), (25, 18), (50, 24), (100, 24), (200, 32), (400, 48), (800, 64),
     (1600, 64)]"

definition st_lis2dw12_fs_table :: "lis_env \<Rightarrow> st_lis2dw12_sensor_id \<Rightarrow> (u32 \<times> u8) list" where
  "st_lis2dw12_fs_table env sid = (case sid of
     ST_LIS2DW12_ID_ACC \<Rightarrow> [(G_TO_M_S_2 env 244, 0x0), (G_TO_M_S_2 env 488, 0x1),
                            (G_TO_M_S_2 env 976, 0x2), (G_TO_M_S_2 env 1952, 0x3)]
   | ST_LIS2DW12_ID_TEMP \<Rightarrow> [(16, 0x0)])"

text \<open>The three first parts share their rates; the last has five and four zeroed entries.\<close>

definition acc_odr_9 :: "(u16 \<times> u8) list" where
  "acc_odr_9 = [(0, 0x0), (12, 0x2), (25, 0x3), (50, 0x4), (100, 0x5), (200, 0x6), (400, 0x7),
     (800, 0x8), (1600, 0x9)]"

definition acc_odr_ais2dw12 :: "(u16 \<times> u8) list" where
  "acc_odr_ais2dw12 = [(0, 0x0), (12, 0x2), (25, 0x3), (50, 0x4), (100, 0x5), (0, 0), (0, 0), (0, 0), (0, 0)]"

definition temp_odr_4 :: "(u16 \<times> u8) list" where
  "temp_odr_4 = [(0, 0x0), (12, 0x2), (25, 0x3), (50, 0x4)]"

definition st_lis2dw12_sensor_settings :: "st_lis2dw12_settings list" where
  "st_lis2dw12_sensor_settings =
     [\<lparr>hw_id = ST_LIS2DW12_ID, name = ''lis2dw12'',
       odr_table = case_st_lis2dw12_sensor_id acc_odr_9 temp_odr_4\<rparr>,
      \<lparr>hw_id = ST_IIS2DLPC_ID, name = ''iis2dlpc'',
       odr_table = case_st_lis2dw12_sensor_id acc_odr_9 temp_odr_4\<rparr>,
      \<lparr>hw_id = ST_AIS2IH_ID, name = ''ais2ih'',
       odr_table = case_st_lis2dw12_sensor_id acc_odr_9 temp_odr_4\<rparr>,
      \<lparr>hw_id = ST_AIS2DW12_ID, name = ''ais2dw12'',
       odr_table = case_st_lis2dw12_sensor_id acc_odr_ais2dw12 temp_odr_4\<rparr>]"

definition st_lis2dw12_selftest_table :: "(string \<times> u8) list" where
  "st_lis2dw12_selftest_table = [(''disabled'', 0x0), (''positive-sign'', 0x1), (''negative-sign'', 0x2)]"

subsection \<open>Full scale and output data rate\<close>

definition st_lis2dw12_set_fs :: "st_lis2dw12_sensor_id \<Rightarrow> u16 \<Rightarrow> hw_op" where
  "st_lis2dw12_set_fs sid g hw =
     (let fs = st_lis2dw12_fs_table (kenv hw) sid;
          i = find_idx (\<lambda>e. fst e \<ge> ucast g) fs
      in if i = length fs then Some (- EINVAL, hw)
         else chk (st_lis2dw12_write_with_mask_locked CTRL6_ADDR FS_MASK (snd (fs ! i)) hw)
           (\<lambda>hw. Some (0, upd_sensor sid (gain_update (\<lambda>_. g)) hw)))"

definition st_lis2dw12_get_odr_idx :: "st_lis2dw12_sensor_id \<Rightarrow> u16 \<Rightarrow> st_lis2dw12_hw \<Rightarrow> (int \<times> nat) option" where
  "st_lis2dw12_get_odr_idx sid rq hw = with_settings hw (\<lambda>set.
     (let tab = odr_table set sid; i = find_idx (\<lambda>e. fst e = rq) tab
      in Some (if i = length tab then - EINVAL else 0, i)))"

definition st_lis2dw12_set_std_level :: "u16 \<Rightarrow> st_lis2dw12_hw \<Rightarrow> int \<times> st_lis2dw12_hw" where
  "st_lis2dw12_set_std_level rq hw =
     (let i = find_idx (\<lambda>e. fst e = rq) st_lis2dw12_std_table
      in if i = length st_lis2dw12_std_table then (- EINVAL, hw)
         else (0, hw\<lparr>std_level := snd (st_lis2dw12_std_table ! i)\<rparr>))"

definition st_lis2dw12_check_odr_dependency ::
    "st_lis2dw12_hw \<Rightarrow> u16 \<Rightarrow> st_lis2dw12_sensor_id \<Rightarrow> u16 option" where
  "st_lis2dw12_check_odr_dependency hw rq ref_id =
     (let enable = rq > 0; on = enable_mask hw AND BIT_ID ref_id \<noteq> 0
      in if enable then
           (if on then with_sensor ref_id hw (\<lambda>ref. Some (max (odr ref) rq)) else Some rq)
         else
           (if on then with_sensor ref_id hw (\<lambda>ref. Some (odr ref)) else Some 0))"

text \<open>
  \<open>st_lis2dw12_set_odr\<close>: the loop over the sensors visits the one other than \<open>sid\<close>, the
  result is capped or switched to high performance (\<open>odr_mode\<close>), events and the request
  decide, and the rate is looked up and written (\<open>write_odr\<close>).
\<close>

definition other_sensor :: "st_lis2dw12_sensor_id \<Rightarrow> st_lis2dw12_sensor_id" where
  "other_sensor sid = (case sid of ST_LIS2DW12_ID_ACC \<Rightarrow> ST_LIS2DW12_ID_TEMP
     | ST_LIS2DW12_ID_TEMP \<Rightarrow> ST_LIS2DW12_ID_ACC)"

definition ctrl1_val :: "u8 \<Rightarrow> u8 \<Rightarrow> u8" where
  "ctrl1_val v md = push_bit (ffs ODR_MASK) v OR push_bit (ffs MODE_MASK) md OR LP_2_MODE_VAL"

text \<open>The rate and mode from the larger of the request and the other sensor's rate.\<close>

definition odr_mode :: "st_lis2dw12_settings \<Rightarrow> u16 \<Rightarrow> u16 \<Rightarrow> u16 \<times> u8" where
  "odr_mode stg req_odr dep =
     (let upd_odr = (if dep > req_odr then dep else req_odr)
      in if upd_odr > 100 then
           (if hw_id stg \<noteq> ST_AIS2DW12_ID then (100, LP_MODE_VAL) else (upd_odr, HP_MODE_VAL))
         else (upd_odr, LP_MODE_VAL))"

text \<open>From the look-up of the rate on: the write to CTRL1 bypasses the register cache.\<close>

definition write_odr :: "st_lis2dw12_settings \<Rightarrow> u16 \<Rightarrow> u8 \<Rightarrow> hw_op" where
  "write_odr stg upd_odr md hw =
     (case st_lis2dw12_get_odr_idx ST_LIS2DW12_ID_ACC upd_odr hw of None \<Rightarrow> None
      | Some (err, i) \<Rightarrow>
         if err < 0 then Some (err, hw)
         else (case st_lis2dw12_write_locked CTRL1_ADDR
                      [ctrl1_val (snd (odr_table stg ST_LIS2DW12_ID_ACC ! i)) md]
                      (regcache_cache_bypass True hw)
               of (err, hw) \<Rightarrow> Some (if err < 0 then err else 0, regcache_cache_bypass False hw)))"

definition st_lis2dw12_set_odr :: "st_lis2dw12_sensor_id \<Rightarrow> u16 \<Rightarrow> hw_op" where
  "st_lis2dw12_set_odr sid req_odr hw =
     (let enable = req_odr > 0 in
      Option.bind (st_lis2dw12_check_odr_dependency hw req_odr (other_sensor sid)) (\<lambda>dep.
      with_settings hw (\<lambda>set.
        (let (upd_odr, md) = odr_mode set req_odr dep;
             upd_odr = word_of_int (max (req_odr_events hw) (if enable then uint upd_odr else 0))
         in write_odr set upd_odr md hw))))"

definition st_lis2dw12_sensor_set_enable :: "st_lis2dw12_sensor_id \<Rightarrow> bool \<Rightarrow> hw_op" where
  "st_lis2dw12_sensor_set_enable sid enable hw = with_sensor sid hw (\<lambda>sensor.
     chk (st_lis2dw12_set_odr sid (if enable then odr sensor else 0) hw) (\<lambda>hw.
       if enable then
         (if sid = ST_LIS2DW12_ID_TEMP then
            (if odr sensor = 0 then None
             else (let newTime = 1000000000 sdiv uint (odr sensor);
                       hw = logio (Hrtimer_start newTime) (hw\<lparr>oldktime := newTime\<rparr>)
                   in Some (0, hw\<lparr>enable_mask := enable_mask hw OR BIT_ID sid\<rparr>)))
          else Some (0, hw\<lparr>enable_mask := enable_mask hw OR BIT_ID sid\<rparr>))
       else
         (let hw = (if sid = ST_LIS2DW12_ID_TEMP then st_lis2dw12_cancel_workqueue hw else hw)
          in Some (0, hw\<lparr>enable_mask := enable_mask hw AND NOT (BIT_ID sid)\<rparr>))))"

subsection \<open>Raw access\<close>

text \<open>Results carry \<open>*val\<close> and \<open>*val2\<close>; they are only written on success.\<close>

type_synonym raw_res = "(int \<times> (int \<times> int) option \<times> st_lis2dw12_hw) option"

definition st_lis2dw12_read_oneshot :: "st_lis2dw12_sensor_id \<Rightarrow> u8 \<Rightarrow> st_lis2dw12_hw \<Rightarrow> raw_res" where
  "st_lis2dw12_read_oneshot sid addr hw =
     (case st_lis2dw12_sensor_set_enable sid True hw of None \<Rightarrow> None
      | Some (err, hw) \<Rightarrow>
         if err < 0 then Some (err, None, hw)
         else with_sensor sid hw (\<lambda>sensor.
           if odr sensor = 0 then None
           else (let hw = logio (Lis_usleep (3000000 sdiv uint (odr sensor))) hw;
                     (err, data, hw) = st_lis2dw12_read addr 2 hw
                 in if err < 0 then Some (err, None, hw)
                    else (case st_lis2dw12_sensor_set_enable sid False hw of None \<Rightarrow> None
                      | Some (_, hw) \<Rightarrow>
                         Some (IIO_VAL_INT,
                           Some (if sid = ST_LIS2DW12_ID_ACC then le16 data 0
                                 else le16 data 0 div 16, 0), hw)))))"

datatype chan_info = IIO_CHAN_INFO_RAW | IIO_CHAN_INFO_SCALE | IIO_CHAN_INFO_OFFSET
  | IIO_CHAN_INFO_SAMP_FREQ | IIO_CHAN_INFO_OTHER

definition st_lis2dw12_read_raw ::
    "st_lis2dw12_sensor_id \<Rightarrow> int \<Rightarrow> u8 \<Rightarrow> chan_info \<Rightarrow> st_lis2dw12_hw \<Rightarrow> raw_res" where
  "st_lis2dw12_read_raw sid ch_type ch_address m hw = (case m of
     IIO_CHAN_INFO_RAW \<Rightarrow>
       (let ret = iio_claim_direct (kenv hw) (io hw) in
        if ret \<noteq> 0 then Some (ret, None, hw) else st_lis2dw12_read_oneshot sid ch_address hw)
   | IIO_CHAN_INFO_SCALE \<Rightarrow>
       (if ch_type = IIO_ACCEL then
          with_sensor sid hw (\<lambda>s. Some (IIO_VAL_INT_PLUS_MICRO, Some (0, uint (gain s)), hw))
        else if ch_type = IIO_TEMP then
          with_sensor sid hw (\<lambda>s. Some (IIO_VAL_FRACTIONAL, Some (1000, uint (gain s)), hw))
        else Some (- EINVAL, None, hw))
   | IIO_CHAN_INFO_OFFSET \<Rightarrow>
       (if ch_type = IIO_TEMP then Some (IIO_VAL_INT, Some (400, 0), hw) else Some (- EINVAL, None, hw))
   | IIO_CHAN_INFO_SAMP_FREQ \<Rightarrow>
       with_sensor sid hw (\<lambda>s. Some (IIO_VAL_INT, Some (uint (odr s), 0), hw))
   | IIO_CHAN_INFO_OTHER \<Rightarrow> Some (- EINVAL, None, hw))"

text \<open>\<open>val\<close> and \<open>val2\<close> are cut to \<open>u16\<close> by the calls they are passed to.\<close>

definition st_lis2dw12_write_raw ::
    "st_lis2dw12_sensor_id \<Rightarrow> int \<Rightarrow> int \<Rightarrow> chan_info \<Rightarrow> hw_op" where
  "st_lis2dw12_write_raw sid val val2 m hw =
     (let err = iio_claim_direct (kenv hw) (io hw) in
      if err \<noteq> 0 then Some (err, hw)
      else (case m of
        IIO_CHAN_INFO_SCALE \<Rightarrow>
          (if sid = ST_LIS2DW12_ID_TEMP then Some (- EINVAL, hw)
           else st_lis2dw12_set_fs sid (word_of_int val2) hw)
      | IIO_CHAN_INFO_SAMP_FREQ \<Rightarrow>
          chk (if sid = ST_LIS2DW12_ID_ACC
               then Some (st_lis2dw12_set_std_level (word_of_int val) hw) else Some (0, hw))
            (\<lambda>hw. Option.bind (st_lis2dw12_get_odr_idx sid (word_of_int val) hw) (\<lambda>(err, _).
               Some (err, if err = 0 then upd_sensor sid (odr_update (\<lambda>_. word_of_int val)) hw
                          else hw)))
      | _ \<Rightarrow> Some (- EINVAL, hw)))"

subsection \<open>Attribute texts\<close>

definition st_lis2dw12_sysfs_sampling_frequency_avl ::
    "st_lis2dw12_sensor_id \<Rightarrow> st_lis2dw12_hw \<Rightarrow> string option" where
  "st_lis2dw12_sysfs_sampling_frequency_avl sid hw = with_settings hw (\<lambda>set.
     (let txt = concat (map (\<lambda>e. if fst e = 0 then [] else show_dec (unat (fst e)) @ '' '')
                  (tl (odr_table set sid)))
      in Some (butlast txt @ nl)))"

text \<open>\<open>%06u\<close>\<close>

definition show_dec6 :: "nat \<Rightarrow> string" where
  "show_dec6 n = (let t = show_dec n in replicate (6 - length t) (CHR 0x30) @ t)"

definition st_lis2dw12_sysfs_scale_avail :: "st_lis2dw12_sensor_id \<Rightarrow> st_lis2dw12_hw \<Rightarrow> string" where
  "st_lis2dw12_sysfs_scale_avail sid hw =
     butlast (concat (map (\<lambda>e. ''0.'' @ show_dec6 (unat (fst e)) @ '' '')
       (st_lis2dw12_fs_table (kenv hw) sid))) @ nl"

definition st_lis2dw12_get_hwfifo_watermark :: "st_lis2dw12_hw \<Rightarrow> string" where
  "st_lis2dw12_get_hwfifo_watermark hw = show_dec (unat (watermark hw)) @ nl"

definition st_lis2dw12_get_max_hwfifo_watermark :: "string" where
  "st_lis2dw12_get_max_hwfifo_watermark = show_dec 31 @ nl"

definition st_lis2dw12_get_selftest_avail :: "string" where
  "st_lis2dw12_get_selftest_avail = fst (st_lis2dw12_selftest_table ! 1) @ '', '' @
     fst (st_lis2dw12_selftest_table ! 2) @ nl"

definition st_lis2dw12_get_selftest_status :: "st_lis2dw12_hw \<Rightarrow> string" where
  "st_lis2dw12_get_selftest_status hw = (case st_status hw of
     ST_LIS2DW12_ST_PASS \<Rightarrow> ''pass'' | ST_LIS2DW12_ST_FAIL \<Rightarrow> ''fail''
   | ST_LIS2DW12_ST_RESET \<Rightarrow> ''na'') @ nl"

subsection \<open>Self-test\<close>

text \<open>
  \<open>!strncmp(a, b, n)\<close> on terminated strings; \<open>n\<close> is the unsigned \<open>size - 2\<close>, which
  wraps to more than any length when the size is below 2.
\<close>

definition strncmp_eq :: "string \<Rightarrow> string \<Rightarrow> nat \<Rightarrow> bool" where
  "strncmp_eq a b n \<longleftrightarrow> take n (a @ [CHR 0x00]) = take n (b @ [CHR 0x00])"

definition selftest_len :: "nat \<Rightarrow> string \<Rightarrow> nat" where
  "selftest_len sz buf = (if 2 \<le> sz then sz - 2 else length buf + 64)"

type_synonym acc3 = "int \<times> int \<times> int"

definition acc_add :: "(nat \<Rightarrow> u8) \<Rightarrow> acc3 \<Rightarrow> acc3" where
  "acc_add data a = (case a of (x, y, z) \<Rightarrow>
     (s16 (x + (le16 data 0 div 4) sdiv 5), s16 (y + (le16 data 2 div 4) sdiv 5),
      s16 (z + (le16 data 4 div 4) sdiv 5)))"

text \<open>The sampling loops: \<open>n\<close> reads of six bytes, 10 ms after each.\<close>

fun selftest_samples :: "nat \<Rightarrow> acc3 \<Rightarrow> st_lis2dw12_hw \<Rightarrow> int \<times> acc3 \<times> st_lis2dw12_hw" where
  "selftest_samples 0 a hw = (0, a, hw)"
| "selftest_samples (Suc n) a hw =
     (case st_lis2dw12_read OUT_X_L_ADDR 6 hw of (err, data, hw) \<Rightarrow>
        if err < 0 then (err, a, hw)
        else selftest_samples n (acc_add data a) (logio (Lis_msleep 10) hw))"

definition selftest_verdict :: "acc3 \<Rightarrow> acc3 \<Rightarrow> st_lis2dw12_selftest_status" where
  "selftest_verdict st a = (case st of (sx, sy, sz) \<Rightarrow> case a of (x, y, z) \<Rightarrow>
     if \<bar>sx - x\<bar> \<ge> 285 \<and> \<bar>sx - x\<bar> \<le> 6150 \<and>
        \<bar>sy - y\<bar> \<ge> 285 \<and> \<bar>sy - y\<bar> \<ge> 285 \<and>
        \<bar>sz - z\<bar> \<ge> 285 \<and> \<bar>sz - z\<bar> \<ge> 285
     then ST_LIS2DW12_ST_PASS else ST_LIS2DW12_ST_FAIL)"

text \<open>The measured part of \<open>st_lis2dw12_enable_selftest\<close>, from the first sample on.\<close>

definition selftest_measure :: "st_lis2dw12_sensor_id \<Rightarrow> u8 \<Rightarrow> u16 \<Rightarrow> hw_op" where
  "selftest_measure sid val old_gain hw =
     (let (err, a, hw) = selftest_samples 5 (0, 0, 0) (logio (Lis_msleep 200) hw) in
      if err < 0 then Some (err, hw)
      else chk (st_lis2dw12_write_with_mask_locked CTRL3_ADDR ST_MASK val hw) (\<lambda>hw.
        let (err, st, hw) = selftest_samples 5 (0, 0, 0) (logio (Lis_msleep 200) hw) in
        if err < 0 then Some (err, hw)
        else chk (st_lis2dw12_write_with_mask_locked CTRL3_ADDR ST_MASK 0
                    (hw\<lparr>st_status := selftest_verdict st a\<rparr>)) (\<lambda>hw.
          chk (st_lis2dw12_set_fs sid old_gain hw) (\<lambda>hw.
            st_lis2dw12_sensor_set_enable sid False hw))))"

definition st_lis2dw12_enable_selftest :: "st_lis2dw12_sensor_id \<Rightarrow> string \<Rightarrow> nat \<Rightarrow> hw_op" where
  "st_lis2dw12_enable_selftest sid buf sz hw =
     (let err = iio_claim_direct (kenv hw) (io hw) in
      if err \<noteq> 0 then Some (err, hw)
      else if iio_buffer_enabled (kenv hw) (io hw) then Some (- EBUSY, hw)
      else (let i = find_idx (\<lambda>e. strncmp_eq buf (fst e) (selftest_len sz buf)) st_lis2dw12_selftest_table
        in if i = length st_lis2dw12_selftest_table then Some (- EINVAL, hw)
           else with_sensor sid hw (\<lambda>sensor.
             andthen
               (chk (st_lis2dw12_set_fs sid (ucast (G_TO_M_S_2 (kenv hw) 244))
                      (hw\<lparr>st_status := ST_LIS2DW12_ST_RESET\<rparr>)) (\<lambda>hw.
                chk (st_lis2dw12_set_odr sid 50 hw)
                  (selftest_measure sid (snd (st_lis2dw12_selftest_table ! i)) (gain sensor))))
               (\<lambda>err hw. Some (if err < 0 then err else int sz, hw)))))"

end
