(* ===== verification/Lis_Events.thy ===== *)
theory Lis_Events
  imports Lis_Core
begin

text \<open>
  \<open>st_lis2dw12_events.c\<close>: the event tables, thresholds and durations, the event
  attributes, the interrupt handler of the events and \<open>st_lis2dw12_event_init\<close>.
\<close>

subsection \<open>Tables\<close>

abbreviation (input) EVENT_FF :: nat where "EVENT_FF \<equiv> 0"
abbreviation (input) EVENT_WAKEUP :: nat where "EVENT_WAKEUP \<equiv> 1"
abbreviation (input) EVENT_6D :: nat where "EVENT_6D \<equiv> 2"
abbreviation (input) EVENT_TAP :: nat where "EVENT_TAP \<equiv> 3"
abbreviation (input) EVENT_DTAP :: nat where "EVENT_DTAP \<equiv> 4"

record st_lis2dw12_event_t =
  ev_name :: string
  irq_mask :: u8
  req_odr :: int

text \<open>The second part has no tap events: their entries are zeroed.\<close>

definition st_lis2dw12_events :: "(int list \<times> st_lis2dw12_event_t list) list" where
  "st_lis2dw12_events =
     [([ST_LIS2DW12_ID, ST_IIS2DLPC_ID, ST_AIS2IH_ID, 0],
       [\<lparr>ev_name = ''free_fall'', irq_mask = FF_INT1_MASK, req_odr = 25\<rparr>,
        \<lparr>ev_name = ''wake_up'', irq_mask = WU_INT1_MASK, req_odr = 25\<rparr>,
        \<lparr>ev_name = ''sixD'', irq_mask = SIXD_INT1_MASK, req_odr = 25\<rparr>,
        \<lparr>ev_name = ''tap'', irq_mask = TAP_INT1_MASK, req_odr = 400\<rparr>,
        \<lparr>ev_name = ''dtap'', irq_mask = TAP_TAP_INT1_MASK, req_odr = 400\<rparr>]),
      ([ST_AIS2DW12_ID, 0, 0, 0],
       [\<lparr>ev_name = ''free_fall'', irq_mask = FF_INT1_MASK, req_odr = 25\<rparr>,
        \<lparr>ev_name = ''wake_up'', irq_mask = WU_INT1_MASK, req_odr = 25\<rparr>,
        \<lparr>ev_name = ''sixD'', irq_mask = SIXD_INT1_MASK, req_odr = 25\<rparr>,
        \<lparr>ev_name = '''', irq_mask = 0, req_odr = 0\<rparr>,
        \<lparr>ev_name = '''', irq_mask = 0, req_odr = 0\<rparr>])]"

definition st_lis2dw12_free_fall_threshold :: "(u32 \<times> u8) list" where
  "st_lis2dw12_free_fall_threshold =
     [(156, 0x00), (219, 0x01), (250, 0x02), (312, 0x03), (344, 0x04), (406, 0x05), (469, 0x06),
      (500, 0x07)]"

definition st_lis2dw12_6D_threshold :: "(u8 \<times> u8) list" where
  "st_lis2dw12_6D_threshold = [(80, 0x00), (70, 0x01), (60, 0x02), (50, 0x03)]"

text \<open>\<open>Inl\<close> is \<open>ERR_PTR\<close>.\<close>

definition st_lis2dw12_get_events :: "st_lis2dw12_hw \<Rightarrow> (int + st_lis2dw12_event_t list) option" where
  "st_lis2dw12_get_events hw = with_settings hw (\<lambda>set.
     (let i = find_idx (\<lambda>e. hw_id set \<in> List.set (fst e)) st_lis2dw12_events
      in Some (if i = length st_lis2dw12_events then Inl (- ENODEV)
               else Inr (snd (st_lis2dw12_events ! i)))))"

definition IS_EVENT_ENABLED :: "st_lis2dw12_hw \<Rightarrow> nat \<Rightarrow> bool" where
  "IS_EVENT_ENABLED hw ev \<longleftrightarrow> bit (enable_ev_mask hw) ev"

definition st_lis2dw12_events_enabled :: "st_lis2dw12_hw \<Rightarrow> bool" where
  "st_lis2dw12_events_enabled hw \<longleftrightarrow>
     IS_EVENT_ENABLED hw EVENT_FF \<or> IS_EVENT_ENABLED hw EVENT_WAKEUP \<or>
     IS_EVENT_ENABLED hw EVENT_TAP \<or> IS_EVENT_ENABLED hw EVENT_DTAP \<or> IS_EVENT_ENABLED hw EVENT_6D"

subsection \<open>Full scale and rate in force\<close>

definition st_lis2dw12_get_xl_fs :: "st_lis2dw12_hw \<Rightarrow> int \<times> int option \<times> st_lis2dw12_hw" where
  "st_lis2dw12_get_xl_fs hw = (case st_lis2dw12_read_with_mask CTRL6_ADDR FS_MASK hw of
     (err, fs_xl, hw') \<Rightarrow> (err, map_option (\<lambda>f. [2, 4, 8, 16] ! unat f) fs_xl, hw'))"

text \<open>
  \<open>*xl_odr\<close> stays unset when the field reads 0. The table is reached through
  \<open>hw->odr_entry\<close>.
\<close>

definition st_lis2dw12_get_xl_odr :: "st_lis2dw12_hw \<Rightarrow> (int \<times> int option \<times> st_lis2dw12_hw) option" where
  "st_lis2dw12_get_xl_odr hw = (case st_lis2dw12_read_with_mask CTRL1_ADDR ODR_MASK hw of
     (err, None, hw') \<Rightarrow> Some (err, None, hw')
   | (err, Some odr_xl, hw') \<Rightarrow>
       if odr_xl = 0 then Some (0, None, hw')
       else Option.bind (odr_entry hw') (\<lambda>tabs.
         (let tab = tabs ST_LIS2DW12_ID_ACC; i = find_idx (\<lambda>e. odr_xl = snd e) tab
          in Some (if i = length tab then (- EINVAL, None, hw')
                   else (err, Some (uint (fst (tab ! i))), hw')))))"

text \<open>A local variable that was not set holds what is on the stack.\<close>

definition st_lis2dw12_get_default_xl_odr ::
    "nat \<Rightarrow> st_lis2dw12_hw \<Rightarrow> (int \<times> int \<times> st_lis2dw12_hw) option" where
  "st_lis2dw12_get_default_xl_odr ev hw =
     Option.bind (st_lis2dw12_get_xl_odr hw) (\<lambda>(err, o', hw).
       if err < 0 then Some (err, 0, hw)
       else Option.bind (st_lis2dw12_get_events hw) (\<lambda>evs. case evs of
           Inl e \<Rightarrow> Some (e, 0, hw)
         | Inr event \<Rightarrow>
             (let rate = (case o' of None \<Rightarrow> stack_int (kenv hw) (io hw) | Some r \<Rightarrow> r);
                  req = req_odr (event ! ev)
              in Some (err, if rate > req then rate else req, hw))))"

subsection \<open>Thresholds\<close>

text \<open>The register value: the quotient is cut to \<open>u8\<close> before it is clamped.\<close>

definition clamp_u8 :: "u8 \<Rightarrow> int \<Rightarrow> u8" where
  "clamp_u8 mx tmp = (let v = word_of_int tmp in if v > mx then mx else v)"

definition field_max :: "u8 \<Rightarrow> u8" where
  "field_max m = drop_bit (ffs m) m"

definition st_lis2dw12_set_wake_up_thershold :: "int \<Rightarrow> hw_op" where
  "st_lis2dw12_set_wake_up_thershold mg hw = (case st_lis2dw12_get_xl_fs hw of
     (err, None, hw) \<Rightarrow> Some (err, hw)
   | (err, Some fs_xl_g, hw) \<Rightarrow>
       (let tmp = s32 (mg * 64) sdiv (fs_xl_g * 1000)
        in chk (st_lis2dw12_write_with_mask_locked WAKE_UP_THS_ADDR WAKE_UP_THS_MASK
                  (clamp_u8 (field_max WAKE_UP_THS_MASK) tmp) hw)
             (\<lambda>hw. Some (0, hw\<lparr>wk_th_mg := word_of_int mg\<rparr>))))"

definition st_lis2dw12_set_freefall_threshold :: "int \<Rightarrow> hw_op" where
  "st_lis2dw12_set_freefall_threshold mg hw =
     (let i = find_idx (\<lambda>e. (word_of_int mg :: u32) \<ge> fst e) st_lis2dw12_free_fall_threshold
      in if i = length st_lis2dw12_free_fall_threshold then Some (- EINVAL, hw)
         else chk (st_lis2dw12_write_with_mask_locked FREE_FALL_ADDR FREE_FALL_THS_MASK
                     (snd (st_lis2dw12_free_fall_threshold ! i)) hw)
                (\<lambda>hw. Some (0, hw\<lparr>freefall_threshold := word_of_int mg\<rparr>)))"

definition st_lis2dw12_set_6D_threshold :: "int \<Rightarrow> hw_op" where
  "st_lis2dw12_set_6D_threshold deg hw =
     (let i = find_idx (\<lambda>e. deg \<ge> uint (fst e)) st_lis2dw12_6D_threshold
      in if i = length st_lis2dw12_6D_threshold then Some (- EINVAL, hw)
         else chk (st_lis2dw12_write_with_mask_locked TAP_THS_X_ADDR SIXD_THS_MASK
                     (snd (st_lis2dw12_6D_threshold ! i)) hw)
                (\<lambda>hw. Some (0, hw\<lparr>sixD_threshold := word_of_int deg\<rparr>)))"

definition st_lis2dw12_set_tap_threshold :: "int \<Rightarrow> hw_op" where
  "st_lis2dw12_set_tap_threshold mg hw = (case st_lis2dw12_get_xl_fs hw of
     (err, None, hw) \<Rightarrow> Some (err, hw)
   | (err, Some fs_xl_g, hw) \<Rightarrow>
       (let tmp = s32 (mg * 32) sdiv (fs_xl_g * 1000);
            v = clamp_u8 (field_max TAP_THS_MASK) tmp
        in chk (st_lis2dw12_write_with_mask_locked TAP_THS_X_ADDR TAP_THS_MASK v hw) (\<lambda>hw.
           chk (st_lis2dw12_write_with_mask_locked TAP_THS_Y_ADDR TAP_THS_MASK v hw) (\<lambda>hw.
           chk (st_lis2dw12_write_with_mask_locked TAP_THS_Z_ADDR TAP_THS_MASK v hw) (\<lambda>hw.
             Some (0, hw\<lparr>tap_threshold := word_of_int mg\<rparr>))))))"

subsection \<open>Durations\<close>

text \<open>\<open>with_rate ev hw k\<close>: the rate, an error, or a fault.\<close>

definition with_rate :: "nat \<Rightarrow> st_lis2dw12_hw \<Rightarrow> (int \<Rightarrow> hw_op) \<Rightarrow> st_lis2dw12_hw res" where
  "with_rate ev hw k = (case st_lis2dw12_get_default_xl_odr ev hw of None \<Rightarrow> None
     | Some (err, rate, hw) \<Rightarrow> if err < 0 then Some (err, hw) else k rate hw)"

definition st_lis2dw12_set_wake_up_duration :: "int \<Rightarrow> hw_op" where
  "st_lis2dw12_set_wake_up_duration ms hw = with_rate EVENT_WAKEUP hw (\<lambda>sensor_odr hw.
     (let tmp = s32 (ms * sensor_odr) sdiv 32000
      in chk (st_lis2dw12_write_with_mask_locked WAKE_UP_DUR_ADDR WAKE_UP_DUR_MASK
                (clamp_u8 (field_max WAKE_UP_DUR_MASK) tmp) hw)
           (\<lambda>hw. Some (0, hw\<lparr>wk_dur_ms := word_of_int ms\<rparr>))))"

text \<open>0 below the default of the field, else the scaled value; the first division may fault.\<close>

definition duration_lsb :: "int \<Rightarrow> int \<Rightarrow> int \<Rightarrow> int \<Rightarrow> int option" where
  "duration_lsb ms sensor_odr dflt scale =
     (if sensor_odr = 0 then None
      else Some (if ms \<le> dflt sdiv sensor_odr then 0 else s32 (ms * sensor_odr) sdiv scale))"

definition st_lis2dw12_set_tap_quiet_time :: "u8 \<Rightarrow> hw_op" where
  "st_lis2dw12_set_tap_quiet_time ms hw = with_rate EVENT_TAP hw (\<lambda>sensor_odr hw.
     Option.bind (duration_lsb (uint ms) sensor_odr 2000 4000) (\<lambda>tmp.
       chk (st_lis2dw12_write_with_mask_locked INT_DUR_ADDR QUIET_MASK
              (clamp_u8 (field_max QUIET_MASK) tmp) hw)
         (\<lambda>hw. Some (0, hw\<lparr>tap_quiet_time := ucast ms\<rparr>))))"

definition st_lis2dw12_set_tap_shock_time :: "u8 \<Rightarrow> hw_op" where
  "st_lis2dw12_set_tap_shock_time ms hw = with_rate EVENT_TAP hw (\<lambda>sensor_odr hw.
     Option.bind (duration_lsb (uint ms) sensor_odr 4000 8000) (\<lambda>tmp.
       chk (st_lis2dw12_write_with_mask_locked INT_DUR_ADDR SHOCK_MASK
              (clamp_u8 (field_max QUIET_MASK) tmp) hw)
         (\<lambda>hw. Some (0, hw\<lparr>tap_shock_time := ucast ms\<rparr>))))"

definition st_lis2dw12_set_dtap_duration :: "int \<Rightarrow> hw_op" where
  "st_lis2dw12_set_dtap_duration ms hw = with_rate EVENT_TAP hw (\<lambda>sensor_odr hw.
     Option.bind (duration_lsb ms sensor_odr 16000 32000) (\<lambda>tmp.
       chk (st_lis2dw12_write_with_mask_locked INT_DUR_ADDR LATENCY_MASK
              (clamp_u8 (field_max LATENCY_MASK) tmp) hw)
         (\<lambda>hw. Some (0, hw\<lparr>dtap_duration := word_of_int ms\<rparr>))))"

definition st_lis2dw12_update_threshold_events :: hw_op where
  "st_lis2dw12_update_threshold_events hw =
     chk (st_lis2dw12_set_wake_up_thershold (sint (wk_th_mg hw)) hw) (\<lambda>hw.
       st_lis2dw12_set_tap_threshold (sint (tap_threshold hw)) hw)"

definition st_lis2dw12_update_duration_events :: hw_op where
  "st_lis2dw12_update_duration_events hw =
     chk (st_lis2dw12_set_wake_up_duration (sint (wk_dur_ms hw)) hw) (\<lambda>hw.
     chk (st_lis2dw12_set_tap_quiet_time (ucast (tap_quiet_time hw)) hw) (\<lambda>hw.
     chk (st_lis2dw12_set_dtap_duration (sint (dtap_duration hw)) hw) (\<lambda>hw.
       st_lis2dw12_set_tap_shock_time (ucast (tap_shock_time hw)) hw)))"

subsection \<open>Event attributes\<close>

text \<open>The event a type and direction name; every other pair is \<open>None\<close> and \<open>-EINVAL\<close>.\<close>

definition event_of :: "int \<Rightarrow> int \<Rightarrow> nat option" where
  "event_of type dir =
     (if type = IIO_EV_TYPE_THRESH then
        (if dir = IIO_EV_DIR_FALLING then Some EVENT_FF
         else if dir = IIO_EV_DIR_RISING then Some EVENT_WAKEUP else None)
      else if type = IIO_EV_TYPE_CHANGE then
        (if dir = IIO_EV_DIR_EITHER then Some EVENT_6D else None)
      else if type = IIO_EV_TYPE_GESTURE then
        (if dir = IIO_EV_DIR_SINGLETAP then Some EVENT_TAP
         else if dir = IIO_EV_DIR_DOUBLETAP then Some EVENT_DTAP else None)
      else None)"

definition st_lis2dw12_read_event_config :: "int \<Rightarrow> int \<Rightarrow> int \<Rightarrow> st_lis2dw12_hw \<Rightarrow> int" where
  "st_lis2dw12_read_event_config ch_type type dir hw =
     (if ch_type = IIO_ACCEL then
        (case event_of type dir of None \<Rightarrow> - EINVAL
         | Some ev \<Rightarrow> of_bool (bit (enable_ev_mask hw) ev))
      else - EINVAL)"

text \<open>The loop over the five events; \<open>ret\<close> is the rate required so far.\<close>

definition check_odr_step ::
    "st_lis2dw12_hw \<Rightarrow> int \<Rightarrow> nat \<Rightarrow> int \<Rightarrow> nat \<times> st_lis2dw12_event_t \<Rightarrow> int \<Rightarrow> int" where
  "check_odr_step hw rate ev enable ie ret = (case ie of (i, event) \<Rightarrow>
     if req_odr event = 0 then ret
     else if bit (enable_ev_mask hw) i then
       (if i = ev \<and> enable = 0 then ret
        else max (req_odr event) (if enable \<noteq> 0 then rate else ret))
     else if i = ev then (if enable \<noteq> 0 then max (req_odr event) rate else ret)
     else ret)"

definition st_lis2dw12_check_events_odr_dependency ::
    "st_lis2dw12_hw \<Rightarrow> int \<Rightarrow> nat \<Rightarrow> int \<Rightarrow> int option" where
  "st_lis2dw12_check_events_odr_dependency hw rate ev enable =
     Option.bind (st_lis2dw12_get_events hw) (\<lambda>evs. case evs of Inl e \<Rightarrow> Some e
       | Inr event \<Rightarrow> Some (fold (check_odr_step hw rate ev enable) (zip [0..<5] event) 0))"

text \<open>
  \<open>st_lis2dw12_write_event_config\<close> after its switch: program the interrupt bit, then the
  rate, then the mask of enabled events.
\<close>

definition enable_event :: "nat \<Rightarrow> int \<Rightarrow> hw_op" where
  "enable_event ev enable hw =
     (case st_lis2dw12_read CTRL4_INT1_CTRL_ADDR 1 hw of (err, data, hw) \<Rightarrow>
      if err < 0 then Some (err, hw)
      else Option.bind (st_lis2dw12_get_events hw) (\<lambda>evs. case evs of
          Inl e \<Rightarrow> Some (e, hw)
        | Inr event \<Rightarrow>
            Option.bind (st_lis2dw12_manipulate_bit (data 0) (irq_mask (event ! ev)) enable) (\<lambda>int_val.
            (case st_lis2dw12_write_locked CTRL4_INT1_CTRL_ADDR [int_val] hw of (err, hw) \<Rightarrow>
             if err < 0 then Some (err, hw)
             else Option.bind (st_lis2dw12_check_events_odr_dependency hw (req_odr (event ! ev)) ev enable)
               (\<lambda>rate. chk (st_lis2dw12_set_odr ST_LIS2DW12_ID_ACC (word_of_int rate)
                          (hw\<lparr>req_odr_events := rate\<rparr>))
                 (\<lambda>hw. Some (0, hw\<lparr>enable_ev_mask :=
                    (if enable = 0 then unset_bit ev (enable_ev_mask hw)
                     else set_bit ev (enable_ev_mask hw))\<rparr>)))))))"

definition st_lis2dw12_write_event_config :: "int \<Rightarrow> int \<Rightarrow> int \<Rightarrow> int \<Rightarrow> hw_op" where
  "st_lis2dw12_write_event_config ch_type type dir enable hw =
     (if ch_type = IIO_ACCEL then
        (case event_of type dir of None \<Rightarrow> Some (- EINVAL, hw)
         | Some ev \<Rightarrow>
             if ev = EVENT_DTAP then
               chk (st_lis2dw12_write_with_mask_locked WAKE_UP_THS_ADDR SINGLE_DOUBLE_TAP_MASK
                      (word_of_int enable) hw) (enable_event ev enable)
             else enable_event ev enable hw)
      else Some (- EINVAL, hw))"

definition st_lis2dw12_read_event_value :: "int \<Rightarrow> int \<Rightarrow> int \<Rightarrow> st_lis2dw12_hw \<Rightarrow> int \<times> int option" where
  "st_lis2dw12_read_event_value type dir info hw =
     (case event_of type dir of
        None \<Rightarrow> (- EINVAL, None)
      | Some ev \<Rightarrow>
          if info = IIO_EV_INFO_VALUE then
            (IIO_VAL_INT, Some (sint (if ev = EVENT_FF then freefall_threshold hw
               else if ev = EVENT_WAKEUP then wk_th_mg hw
               else if ev = EVENT_6D then sixD_threshold hw else tap_threshold hw)))
          else if info = IIO_EV_INFO_PERIOD \<and> ev = EVENT_WAKEUP then
            (IIO_VAL_INT, Some (sint (wk_dur_ms hw)))
          else if info = IIO_EV_INFO_RESET_TIMEOUT \<and> (ev = EVENT_TAP \<or> ev = EVENT_DTAP) then
            (IIO_VAL_INT, Some (sint (tap_quiet_time hw)))
          else if info = IIO_EV_INFO_TAP2_MIN_DELAY \<and> ev = EVENT_DTAP then
            (IIO_VAL_INT, Some (sint (dtap_duration hw)))
          else (- EINVAL, None))"

definition st_lis2dw12_write_event_value :: "int \<Rightarrow> int \<Rightarrow> int \<Rightarrow> int \<Rightarrow> int \<Rightarrow> hw_op" where
  "st_lis2dw12_write_event_value ch_type type dir info val hw =
     (if ch_type \<noteq> IIO_ACCEL then Some (- EINVAL, hw)
      else (case event_of type dir of
        None \<Rightarrow> Some (- EINVAL, hw)
      | Some ev \<Rightarrow>
          if info = IIO_EV_INFO_VALUE then
            (if ev = EVENT_FF then st_lis2dw12_set_freefall_threshold val hw
             else if ev = EVENT_WAKEUP then st_lis2dw12_set_wake_up_thershold val hw
             else if ev = EVENT_6D then st_lis2dw12_set_6D_threshold val hw
             else st_lis2dw12_set_tap_threshold val hw)
          else if info = IIO_EV_INFO_PERIOD \<and> ev = EVENT_WAKEUP then
            st_lis2dw12_set_wake_up_duration val hw
          else if info = IIO_EV_INFO_RESET_TIMEOUT \<and> (ev = EVENT_TAP \<or> ev = EVENT_DTAP) then
            st_lis2dw12_set_tap_quiet_time (word_of_int val) hw
          else if info = IIO_EV_INFO_TAP2_MIN_DELAY \<and> ev = EVENT_DTAP then
            st_lis2dw12_set_dtap_duration val hw
          else Some (- EINVAL, hw)))"

subsection \<open>Event handler\<close>

text \<open>\<open>iio_push_event(iio_dev, code, iio_get_time_ns(iio_dev))\<close> with channel 0.\<close>

definition push :: "iio_modifier \<Rightarrow> int \<Rightarrow> int \<Rightarrow> st_lis2dw12_hw \<Rightarrow> st_lis2dw12_hw" where
  "push md type dir hw = logio (Push_event 0 md type dir (st_lis2dw12_get_timestamp hw)) hw"

definition push_wake_up :: "u8 \<Rightarrow> st_lis2dw12_hw \<Rightarrow> st_lis2dw12_hw" where
  "push_wake_up src = seq
     [if bit src 0 then push IIO_MOD_Z IIO_EV_TYPE_THRESH IIO_EV_DIR_RISING else (\<lambda>hw. hw),
      if bit src 1 then push IIO_MOD_Y IIO_EV_TYPE_THRESH IIO_EV_DIR_RISING else (\<lambda>hw. hw),
      if bit src 2 then push IIO_MOD_X IIO_EV_TYPE_THRESH IIO_EV_DIR_RISING else (\<lambda>hw. hw)]"

definition push_6D :: "iio_modifier \<Rightarrow> bool \<Rightarrow> bool \<Rightarrow> st_lis2dw12_hw \<Rightarrow> st_lis2dw12_hw" where
  "push_6D md high low =
     (if high \<or> low
      then push md IIO_EV_TYPE_CHANGE (if high then IIO_EV_DIR_RISING else IIO_EV_DIR_FALLING)
      else (\<lambda>hw. hw))"

text \<open>The axis of a tap; \<open>None\<close> ends the handler.\<close>

definition tap_axis :: "u8 \<Rightarrow> iio_modifier option" where
  "tap_axis src = (if bit src 2 then Some IIO_MOD_X else if bit src 1 then Some IIO_MOD_Y
     else if bit src 0 then Some IIO_MOD_Z else None)"

definition push_taps :: "u8 \<Rightarrow> st_lis2dw12_hw \<Rightarrow> st_lis2dw12_hw" where
  "push_taps src hw =
     (let double = (\<lambda>hw. if bit src 4 \<and> IS_EVENT_ENABLED hw EVENT_DTAP then
                     (case tap_axis src of None \<Rightarrow> hw
                      | Some md \<Rightarrow> push md IIO_EV_TYPE_GESTURE IIO_EV_DIR_DOUBLETAP hw)
                   else hw)
      in if bit src 5 \<and> IS_EVENT_ENABLED hw EVENT_TAP then
           (case tap_axis src of None \<Rightarrow> hw
            | Some md \<Rightarrow> double (push md IIO_EV_TYPE_GESTURE IIO_EV_DIR_SINGLETAP hw))
         else double hw)"

definition st_lis2dw12_event_handler :: "st_lis2dw12_hw \<Rightarrow> int \<times> st_lis2dw12_hw" where
  "st_lis2dw12_event_handler hw =
     (if \<not> st_lis2dw12_events_enabled hw then (IRQ_HANDLED, hw)
      else (case st_lis2dw12_read WU_SRC_ADDR 3 hw of (err, reg_src, hw) \<Rightarrow>
        if err < 0 then (IRQ_HANDLED, hw)
        else (IRQ_HANDLED, seq
          [if bit (reg_src 0) 5 \<and> IS_EVENT_ENABLED hw EVENT_FF
             then push NO_MOD IIO_EV_TYPE_THRESH IIO_EV_DIR_FALLING else (\<lambda>hw. hw),
           if bit (reg_src 0) 3 \<and> IS_EVENT_ENABLED hw EVENT_WAKEUP
             then push_wake_up (reg_src 0) else (\<lambda>hw. hw),
           if bit (reg_src 2) 6 \<and> IS_EVENT_ENABLED hw EVENT_6D
             then seq [push_6D IIO_MOD_Z (bit (reg_src 2) 5) (bit (reg_src 2) 4),
                       push_6D IIO_MOD_Y (bit (reg_src 2) 3) (bit (reg_src 2) 2),
                       push_6D IIO_MOD_X (bit (reg_src 2) 1) (bit (reg_src 2) 0)]
             else (\<lambda>hw. hw),
           push_taps (reg_src 1)] hw)))"

definition st_lis2dw12_handler_irq_emb :: "st_lis2dw12_hw \<Rightarrow> int \<times> st_lis2dw12_hw" where
  "st_lis2dw12_handler_irq_emb hw = (IRQ_WAKE_THREAD, hw\<lparr>ts_irq := st_lis2dw12_get_timestamp hw\<rparr>)"

text \<open>\<open>request_irq\<close> is the result of \<open>devm_request_threaded_irq\<close> for the embedded line.\<close>

definition st_lis2dw12_event_init :: "int \<Rightarrow> hw_op" where
  "st_lis2dw12_event_init request_irq hw =
     chk (st_lis2dw12_set_wake_up_thershold 100 hw) (\<lambda>hw.
     chk (st_lis2dw12_set_wake_up_duration 0 hw) (\<lambda>hw.
     chk (st_lis2dw12_set_freefall_threshold 312 hw) (\<lambda>hw.
     chk (st_lis2dw12_set_6D_threshold 60 hw) (\<lambda>hw.
       if irq_emb hw > 0 then Some (request_irq, hw) else Some (0, hw)))))"

end
