(* ===== verification/Lis_Buffer.thy ===== *)
theory Lis_Buffer
  imports Lis_Events
begin

text \<open>
  \<open>st_lis2dw12_buffer.c\<close>: the FIFO, its watermark, the interrupt and its thread; and the
  parts of \<open>st_lis2dw12_core.c\<close> that use them: initialisation, probe, suspend and resume.
  \<open>fifo_lock\<close> brackets the FIFO reads; each operation here is one such critical section.
\<close>

subsection \<open>Buffer\<close>

text \<open>\<open>div_s64\<close> faults on a zero divisor; products and sums are 64-bit.\<close>

definition div_s64 :: "int \<Rightarrow> int \<Rightarrow> int option" where
  "div_s64 a b = (if b = 0 then None else Some (s64 (a sdiv b)))"

definition st_lis2dw12_ewma :: "int \<Rightarrow> int \<Rightarrow> int \<Rightarrow> int" where
  "st_lis2dw12_ewma old new weight =
     (let diff = s64 (new - old); incr = s64 (s64 ((128 - weight) * diff) sdiv 128)
      in s64 (old + incr))"

definition st_lis2dw12_update_fifo :: "st_lis2dw12_sensor_id \<Rightarrow> bool \<Rightarrow> hw_op" where
  "st_lis2dw12_update_fifo sid enable hw =
     Option.bind (if enable then
         (let t = st_lis2dw12_get_timestamp hw in
          with_sensor sid hw (\<lambda>sensor. Option.bind (div_s64 1000000000 (uint (odr sensor))) (\<lambda>d.
            Some (hw\<lparr>ts_irq := t, ts := t, delta_ts := s64 (d * uint (watermark hw)), samples := 0\<rparr>))))
       else Some hw) (\<lambda>hw.
     chk (if sid = ST_LIS2DW12_ID_ACC
          then st_lis2dw12_write_with_mask_locked FIFO_CTRL_ADDR FIFOMODE_MASK
                 (if enable then FIFO_CONTINUOUS else FIFO_BYPASS) hw
          else Some (0, hw))
       (st_lis2dw12_sensor_set_enable sid enable))"

definition st_lis2dw12_update_fifo_watermark :: "u8 \<Rightarrow> hw_op" where
  "st_lis2dw12_update_fifo_watermark wm =
     st_lis2dw12_write_with_mask_locked FIFO_CTRL_ADDR FTH_MASK wm"

text \<open>\<open>p\<close> is what \<open>kstrtoint(buf, 10, \<dots>)\<close> makes of the text: an error or a value.\<close>

definition st_lis2dw12_set_hwfifo_watermark :: "int + int \<Rightarrow> int \<Rightarrow> hw_op" where
  "st_lis2dw12_set_hwfifo_watermark p sz hw =
     (let err = iio_claim_direct (kenv hw) (io hw) in
      if err \<noteq> 0 then Some (err, hw)
      else if iio_buffer_enabled (kenv hw) (io hw) then Some (- EBUSY, hw)
      else (case p of Inl e \<Rightarrow> Some (e, hw)
        | Inr val \<Rightarrow>
            if val < 1 \<or> val > 31 then Some (- EINVAL, hw)
            else chk (st_lis2dw12_update_fifo_watermark (word_of_int val) hw)
                   (\<lambda>hw. Some (sz, hw\<lparr>watermark := word_of_int val\<rparr>))))"

definition st_lis2dw12_buffer_preenable :: "st_lis2dw12_sensor_id \<Rightarrow> hw_op" where
  "st_lis2dw12_buffer_preenable sid = st_lis2dw12_update_fifo sid True"

definition st_lis2dw12_buffer_postdisable :: "st_lis2dw12_sensor_id \<Rightarrow> hw_op" where
  "st_lis2dw12_buffer_postdisable sid = st_lis2dw12_update_fifo sid False"

text \<open>One sample of a chunk: counted, and pushed once the filter has settled.\<close>

definition fifo_sample :: "int \<Rightarrow> (nat \<Rightarrow> u8) \<Rightarrow> nat \<Rightarrow> st_lis2dw12_hw \<Rightarrow> st_lis2dw12_hw" where
  "fifo_sample dts buff i hw0 =
     (let hw = hw0\<lparr>samples := samples hw0 + 1\<rparr> in
      if samples hw < ucast (std_level hw) then hw\<lparr>ts := s64 (ts hw + dts)\<rparr>
      else (let t = min (st_lis2dw12_get_timestamp hw) (ts hw);
                hw = logio (Push_buffer ST_LIS2DW12_ID_ACC (map buff [i..<i + 6]) t) hw
            in hw\<lparr>ts := s64 (t + dts)\<rparr>))"

text \<open>\<open>while (read_len < fifo_len)\<close>: \<open>left\<close> is \<open>fifo_len - read_len\<close>, 36 bytes a turn.\<close>

fun fifo_loop :: "int \<Rightarrow> nat \<Rightarrow> nat \<Rightarrow> hw_op" where
  "fifo_loop dts left read_len hw =
     (if left = 0 then Some (int read_len, hw)
      else (let word_len = min left 36 in
        case st_lis2dw12_read OUT_X_L_ADDR word_len hw of (err, buff, hw) \<Rightarrow>
          if err < 0 then Some (err, hw)
          else fifo_loop dts (left - word_len) (read_len + word_len)
                 (fold (fifo_sample dts buff) (map (\<lambda>k. 6 * k) [0..<(word_len + 5) div 6]) hw)))"

declare fifo_loop.simps [simp del]

definition st_lis2dw12_read_fifo :: hw_op where
  "st_lis2dw12_read_fifo hw =
     (case st_lis2dw12_read FIFO_SAMPLES_ADDR 1 hw of (err, data, hw) \<Rightarrow>
      if err < 0 then Some (err, hw)
      else with_sensor ST_LIS2DW12_ID_ACC hw (\<lambda>_.
           let status = data 0;
                n = status AND FIFO_SAMPLES_DIFF_MASK;
                ovr = status AND FIFO_SAMPLES_OVR_MASK
            in Option.bind (div_s64 (delta_ts hw) (uint (watermark hw))) (\<lambda>dts.
                 fifo_loop dts ((if ovr = 0 then unat n else 63) * 6) 0 hw)))"

definition st_lis2dw12_flush_fifo :: "int \<Rightarrow> hw_op" where
  "st_lis2dw12_flush_fifo sz hw =
     andthen (st_lis2dw12_read_fifo hw) (\<lambda>err hw.
       (let hw = hw\<lparr>ts_irq := st_lis2dw12_get_timestamp hw\<rparr>;
            hw = logio (Push_event (-1) NO_MOD STM_IIO_EV_TYPE_FIFO_FLUSH IIO_EV_DIR_EITHER (ts_irq hw)) hw
        in Some (if err < 0 then err else sz, hw)))"

definition st_lis2dw12_flush_fifo_during_resume :: hw_op where
  "st_lis2dw12_flush_fifo_during_resume = st_lis2dw12_read_fifo"

definition st_lis2dw12_suspend_fifo :: hw_op where
  "st_lis2dw12_suspend_fifo hw =
     andthen (st_lis2dw12_read_fifo hw) (\<lambda>_ hw. st_lis2dw12_set_fifo_mode FIFO_BYPASS hw)"

definition st_lis2dw12_handler_irq :: "st_lis2dw12_hw \<Rightarrow> int \<times> st_lis2dw12_hw" where
  "st_lis2dw12_handler_irq hw =
     (let t = st_lis2dw12_get_timestamp hw
      in (IRQ_WAKE_THREAD,
          hw\<lparr>delta_ts := st_lis2dw12_ewma (delta_ts hw) (s64 (t - ts_irq hw)) 120, ts_irq := t\<rparr>))"

definition st_lis2dw12_handler_thread :: hw_op where
  "st_lis2dw12_handler_thread hw =
     (case st_lis2dw12_read STATUS_ADDR 1 hw of (err, data, hw) \<Rightarrow>
      if err < 0 then Some (IRQ_HANDLED, hw)
      else andthen (if data 0 AND STATUS_FTH_MASK \<noteq> 0 then st_lis2dw12_read_fifo hw else Some (0, hw))
        (\<lambda>_ hw. if irq_emb hw > 0 then Some (IRQ_HANDLED, hw)
                else Some (IRQ_HANDLED, snd (st_lis2dw12_event_handler hw))))"

subsection \<open>Temperature\<close>

definition st_lis2dw12_temp_poll_function_read :: "st_lis2dw12_hw \<Rightarrow> st_lis2dw12_hw" where
  "st_lis2dw12_temp_poll_function_read hw =
     logio Queue_work (hw\<lparr>timestamp := st_lis2dw12_get_timestamp hw\<rparr>)"

definition st_lis2dw12_temp_poll_function_work :: "st_lis2dw12_hw \<Rightarrow> st_lis2dw12_hw" where
  "st_lis2dw12_temp_poll_function_work hw0 =
     (let hw = logio (Hrtimer_start (oldktime hw0)) hw0 in
      case st_lis2dw12_read TEMP_OUT_T_L_ADDR 2 hw of (err, data, hw) \<Rightarrow>
        if err < 0 then hw
        else (let temp = (word_of_int (le16 data 0 div 16) :: u16)
              in logio (Push_buffer ST_LIS2DW12_ID_TEMP [ucast temp, ucast (drop_bit 8 temp)]
                   (timestamp hw)) hw))"

subsection \<open>Initialisation\<close>

text \<open>\<open>hw->settings\<close> is read before it is assigned.\<close>

definition st_lis2dw12_check_whoami :: "int \<Rightarrow> hw_op" where
  "st_lis2dw12_check_whoami ident hw =
     (let i = find_idx (\<lambda>e. hw_id e = ident) st_lis2dw12_sensor_settings in
      if i = length st_lis2dw12_sensor_settings then Some (- ENODEV, hw)
      else (case regmap_read (kenv hw) (io hw) WHOAMI_ADDR of (err, data) \<Rightarrow>
        (let hw = logio (Regmap_read WHOAMI_ADDR) hw in
         if err < 0 then Some (err, hw)
         else if data \<noteq> WHOAMI_VAL then Some (- ENODEV, hw)
         else Some (0, hw\<lparr>odr_entry := map_option odr_table (settings hw),
                          settings := Some (st_lis2dw12_sensor_settings ! i)\<rparr>))))"

text \<open>
  The device tree and platform data of the board: whether there is a node, the property
  \<open>st,drdy-int-pin\<close> (error and value), the two interrupt lines, and the pin of the platform
  data if there is any.
\<close>

record lis_board =
  of_node :: bool
  drdy_int_pin :: "int \<times> int"
  of_irq :: "nat \<Rightarrow> int"
  platform_pin :: "int option"

definition st_lis2dw12_of_get_drdy_pin :: "lis_board \<Rightarrow> st_lis2dw12_hw \<Rightarrow> int \<times> st_lis2dw12_hw" where
  "st_lis2dw12_of_get_drdy_pin b hw =
     (if \<not> of_node b then (- EINVAL, hw)
      else (case drdy_int_pin b of (err, pin) \<Rightarrow>
        if err \<noteq> 0 then (- EINVAL, hw)
        else (let hw = hw\<lparr>irq_pin := pin, irq := of_irq b 0\<rparr> in
          if irq hw < 0 then (irq hw, hw)
          else if irq_pin hw = 1 then (0, hw\<lparr>irq_emb := -1\<rparr>)
          else (let hw = hw\<lparr>irq_emb := of_irq b 1\<rparr> in
            if irq_emb hw < 0 then (- EINVAL, hw) else (0, hw)))))"

definition st_lis2dw12_get_drdy_pin :: "lis_board \<Rightarrow> st_lis2dw12_hw \<Rightarrow> int \<times> st_lis2dw12_hw" where
  "st_lis2dw12_get_drdy_pin b hw =
     (case st_lis2dw12_of_get_drdy_pin b hw of (err, hw) \<Rightarrow>
       (let hw = (if err < 0
                  then hw\<lparr>irq_pin := (case platform_pin b of Some p \<Rightarrow> p | None \<Rightarrow> 1)\<rparr> else hw)
        in if irq_pin hw = 1 then (0, hw\<lparr>irq_reg := CTRL4_INT1_CTRL_ADDR\<rparr>)
           else if irq_pin hw = 2 then (0, hw\<lparr>irq_reg := CTRL5_INT2_CTRL_ADDR\<rparr>)
           else (- EINVAL, hw)))"

definition st_lis2dw12_init_hw :: "lis_board \<Rightarrow> hw_op" where
  "st_lis2dw12_init_hw b hw =
     (case andthen (chk (st_lis2dw12_write_with_mask_locked CTRL2_ADDR RESET_MASK 1
                          (regcache_cache_bypass True hw))
                     (st_lis2dw12_write_with_mask_locked CTRL2_ADDR BDU_MASK 1))
             (\<lambda>err hw. Some (err, regcache_cache_bypass False hw))
      of None \<Rightarrow> None
       | Some (err, hw) \<Rightarrow>
         if err < 0 then Some (err, hw)
         else chk (st_lis2dw12_write_with_mask_locked ABS_INT_CFG_ADDR ALL_INT_MASK 1 hw) (\<lambda>hw.
           chk (st_lis2dw12_update_fifo_watermark (watermark hw) hw) (\<lambda>hw.
           chk (st_lis2dw12_write_with_mask_locked CTRL6_ADDR LN_MASK 1 hw) (\<lambda>hw.
           chk (st_lis2dw12_write_with_mask_locked CTRL6_ADDR BW_MASK 1 hw) (\<lambda>hw.
           chk (st_lis2dw12_write_with_mask_locked CTRL3_ADDR LIR_MASK 1 hw) (\<lambda>hw.
           chk (Some (st_lis2dw12_get_drdy_pin b hw)) (\<lambda>hw.
             st_lis2dw12_write_with_mask_locked (irq_reg hw) FTH_INT_MASK 1 hw)))))))"

text \<open>\<open>ok\<close> says whether the allocation succeeds; without a device the pointer stays null.\<close>

definition st_lis2dw12_alloc_iiodev :: "bool \<Rightarrow> st_lis2dw12_sensor_id \<Rightarrow> st_lis2dw12_hw \<Rightarrow> st_lis2dw12_hw option" where
  "st_lis2dw12_alloc_iiodev ok sid hw =
     (if \<not> ok then Some (hw\<lparr>iio_devs := (iio_devs hw)(sid := None)\<rparr>)
      else with_settings hw (\<lambda>set.
        (let r = fst (odr_table set sid ! 1);
             s = \<lparr>gain = ucast (fst (st_lis2dw12_fs_table (kenv hw) sid ! 0)), odr = r\<rparr>;
             hw = hw\<lparr>iio_devs := (iio_devs hw)(sid := Some s)\<rparr>
         in if sid = ST_LIS2DW12_ID_TEMP then
              (if r = 0 then None else Some (hw\<lparr>oldktime := 1000000000 sdiv uint r\<rparr>))
            else Some hw)))"

text \<open>
  What the kernel answers during the probe: allocations, the two interrupt requests, the
  buffer set-up, the work queue and the registration of each device.
\<close>

record probe_env =
  hw_alloc :: bool
  chan_alloc :: bool
  dev_alloc :: "st_lis2dw12_sensor_id \<Rightarrow> bool"
  fifo_irq :: int
  emb_irq :: int
  kfifo :: "st_lis2dw12_sensor_id \<Rightarrow> int"
  workqueue :: bool
  registered :: "st_lis2dw12_sensor_id \<Rightarrow> int"

abbreviation (input) ENOMEM :: int where "ENOMEM \<equiv> 12"

definition st_lis2dw12_fifo_setup :: "probe_env \<Rightarrow> st_lis2dw12_hw \<Rightarrow> int" where
  "st_lis2dw12_fifo_setup p hw =
     (if fifo_irq p \<noteq> 0 then fifo_irq p
      else if iio_devs hw ST_LIS2DW12_ID_ACC \<noteq> None \<and> kfifo p ST_LIS2DW12_ID_ACC \<noteq> 0
        then kfifo p ST_LIS2DW12_ID_ACC
      else if iio_devs hw ST_LIS2DW12_ID_TEMP \<noteq> None \<and> kfifo p ST_LIS2DW12_ID_TEMP \<noteq> 0
        then kfifo p ST_LIS2DW12_ID_TEMP
      else 0)"

definition lis_zero_hw :: "lis_env \<Rightarrow> int \<Rightarrow> st_lis2dw12_hw" where
  "lis_zero_hw env irq_line =
     \<lparr>kenv = env, io = [], irq = irq_line, irq_emb = 0, irq_pin = 0, irq_reg = 0,
      iio_devs = (\<lambda>_. None), st_status = ST_LIS2DW12_ST_RESET, enable_mask = 0,
      enable_ev_mask = 0, watermark = 1, std_level = 0, samples = 0, delta_ts = 0, ts_irq = 0,
      ts = 0, oldktime = 0, temp_workqueue = False, timestamp = 0, odr_entry = None, settings = None,
      req_odr_events = 0, sixD_threshold = 0, freefall_threshold = 0, wk_th_mg = 0,
      wk_dur_ms = 0, tap_threshold = 0, tap_quiet_time = 0, tap_shock_time = 0,
      dtap_duration = 0, has_hw_fifo = irq_line > 0\<rparr>"

text \<open>A null device faults in both.\<close>

definition st_lis2dw12_allocate_workqueue :: "bool \<Rightarrow> hw_op" where
  "st_lis2dw12_allocate_workqueue created hw = with_sensor ST_LIS2DW12_ID_TEMP hw (\<lambda>_.
     (let hw = (if \<not> temp_workqueue hw then hw\<lparr>temp_workqueue := created\<rparr> else hw)
      in Some (if \<not> temp_workqueue hw then - ENOMEM else 0, hw)))"

definition register_devices :: "probe_env \<Rightarrow> hw_op" where
  "register_devices p hw = with_sensor ST_LIS2DW12_ID_ACC hw (\<lambda>_.
     if registered p ST_LIS2DW12_ID_ACC \<noteq> 0 then Some (registered p ST_LIS2DW12_ID_ACC, hw)
     else with_sensor ST_LIS2DW12_ID_TEMP hw (\<lambda>_. Some (registered p ST_LIS2DW12_ID_TEMP, hw)))"

text \<open>The probe after \<open>init_hw\<close>: devices, buffer and events when there is a line, registration.\<close>

definition probe_devices :: "probe_env \<Rightarrow> hw_op" where
  "probe_devices p hw =
     Option.bind (st_lis2dw12_alloc_iiodev (dev_alloc p ST_LIS2DW12_ID_ACC) ST_LIS2DW12_ID_ACC hw) (\<lambda>hw.
     Option.bind (st_lis2dw12_alloc_iiodev (dev_alloc p ST_LIS2DW12_ID_TEMP) ST_LIS2DW12_ID_TEMP hw) (\<lambda>hw.
     (let finish = (\<lambda>hw. chk (st_lis2dw12_allocate_workqueue (workqueue p) hw) (register_devices p))
      in if has_hw_fifo hw then
           (if st_lis2dw12_fifo_setup p hw \<noteq> 0 then Some (st_lis2dw12_fifo_setup p hw, hw)
            else chk (st_lis2dw12_event_init (emb_irq p) hw) finish)
         else finish hw)))"

definition st_lis2dw12_probe :: "probe_env \<Rightarrow> lis_board \<Rightarrow> lis_env \<Rightarrow> int \<Rightarrow> int \<Rightarrow> st_lis2dw12_hw res" where
  "st_lis2dw12_probe p b env irq_line ident =
     (let hw = lis_zero_hw env irq_line in
      if \<not> hw_alloc p then Some (- ENOMEM, hw)
      else chk (st_lis2dw12_check_whoami ident hw) (\<lambda>hw.
         if \<not> chan_alloc p then Some (- ENOMEM, hw)
         else chk (st_lis2dw12_init_hw b hw) (probe_devices p)))"

definition st_lis2dw12_remove :: "st_lis2dw12_hw \<Rightarrow> st_lis2dw12_hw" where
  "st_lis2dw12_remove hw = (logio Flush_workqueue hw)\<lparr>temp_workqueue := False\<rparr>"

subsection \<open>Suspend and resume\<close>

definition upd_bits :: "u8 \<Rightarrow> u8 \<Rightarrow> u8 \<Rightarrow> hw_op" where
  "upd_bits addr m fld hw = Some (update_bits addr m (SHIFT_VAL fld m) hw)"

text \<open>Built without \<open>CONFIG_IIO_ST_LIS2DW12_STORE_SAMPLE_FIFO_SUSPEND\<close>.\<close>

definition st_lis2dw12_configure_wake_up :: hw_op where
  "st_lis2dw12_configure_wake_up hw0 =
     andthen
       (chk (upd_bits CTRL4_INT1_CTRL_ADDR WU_INT1_MASK 0 (regcache_cache_bypass True hw0)) (\<lambda>hw.
        chk (upd_bits WAKE_UP_THS_ADDR WAKE_UP_THS_MASK 2 hw) (\<lambda>hw.
        with_settings hw (\<lambda>set.
          (let val = push_bit (ffs ODR_MASK) (snd (odr_table set ST_LIS2DW12_ID_ACC ! 2));
               err = regmap_write (kenv hw) (io hw) CTRL1_ADDR val;
               hw = logio (Regmap_write CTRL1_ADDR val) hw
           in if err < 0 then Some (err, hw)
              else (let hw = logio (Lis_usleep 40000) hw;
                        err = fst (regmap_read (kenv hw) (io hw) ALL_INT_SRC_ADDR);
                        hw = logio (Regmap_read ALL_INT_SRC_ADDR) hw
                    in if err < 0 then Some (err, hw)
                       else upd_bits CTRL4_INT1_CTRL_ADDR WU_INT1_MASK 1 hw))))))
       (\<lambda>err hw. Some (if err < 0 then err else 0, regcache_cache_bypass False hw))"

definition suspend_sensor :: "st_lis2dw12_sensor_id \<Rightarrow> hw_op" where
  "suspend_sensor sid hw =
     (if iio_devs hw sid = None \<or> enable_mask hw AND BIT_ID sid = 0 then Some (0, hw)
      else if sid \<noteq> ST_LIS2DW12_ID_ACC then st_lis2dw12_set_odr sid 0 hw
      else st_lis2dw12_configure_wake_up hw)"

definition wk_irq :: "st_lis2dw12_hw \<Rightarrow> int" where
  "wk_irq hw = (if irq_emb hw > 0 then irq_emb hw else irq hw)"

text \<open>\<open>may_wakeup\<close> is \<open>device_may_wakeup\<close>.\<close>

definition st_lis2dw12_suspend :: "bool \<Rightarrow> hw_op" where
  "st_lis2dw12_suspend may_wakeup hw0 =
     (let hw = (if irq hw0 > 0 then logio (Irq_call ''disable_hardirq'' (irq hw0)) hw0 else hw0);
          hw = st_lis2dw12_cancel_workqueue hw
      in chk (if st_lis2dw12_is_fifo_enabled hw then st_lis2dw12_suspend_fifo hw else Some (0, hw)) (\<lambda>hw.
         chk (suspend_sensor ST_LIS2DW12_ID_ACC hw) (\<lambda>hw.
         chk (suspend_sensor ST_LIS2DW12_ID_TEMP hw) (\<lambda>hw.
           (let hw = logio Regcache_mark_dirty hw in
            Some (0, if enable_mask hw AND 1 \<noteq> 0 \<and> may_wakeup
                     then logio (Irq_call ''enable_irq_wake'' (wk_irq hw)) hw else hw))))))"

definition resume_sensor :: "st_lis2dw12_sensor_id \<Rightarrow> hw_op" where
  "resume_sensor sid hw =
     (if enable_mask hw AND BIT_ID sid = 0 then Some (0, hw)
      else (case iio_devs hw sid of None \<Rightarrow> Some (0, hw)
        | Some sensor \<Rightarrow> st_lis2dw12_set_odr sid (odr sensor) hw))"

definition st_lis2dw12_resume :: "bool \<Rightarrow> hw_op" where
  "st_lis2dw12_resume may_wakeup hw0 =
     andthen (st_lis2dw12_flush_fifo_during_resume hw0) (\<lambda>_ hw.
       (let hw = logio Regcache_sync hw;
            hw = (if enable_mask hw AND 1 \<noteq> 0
                  then snd (snd (st_lis2dw12_read ALL_INT_SRC_ADDR 1
                         (if may_wakeup then logio (Irq_call ''disable_irq_wake'' (wk_irq hw)) hw else hw)))
                  else hw)
        in chk (resume_sensor ST_LIS2DW12_ID_ACC hw) (\<lambda>hw.
           chk (resume_sensor ST_LIS2DW12_ID_TEMP hw) (\<lambda>hw.
           andthen (if st_lis2dw12_is_fifo_enabled hw
                    then st_lis2dw12_set_fifo_mode FIFO_CONTINUOUS hw else Some (0, hw))
             (\<lambda>err hw. Some (if err < 0 then err else 0,
                if irq hw > 0 then logio (Irq_call ''enable_irq'' (irq hw)) hw else hw))))))"

end
