(* ===== verification/Lis_Lemmas.thy ===== *)
theory Lis_Lemmas
  imports Lis_Buffer
begin

text \<open>
  Component lemmas of the accelerometer: the register masks as fields, the invariant of the
  driver state and one preservation lemma per operation.
\<close>

subsection \<open>Masks\<close>

lemma ffs_values [simp]:
  "ffs 0xF0 = 4" "ffs 0x0C = 2" "ffs 0x03 = 0" "ffs 0x40 = 6" "ffs 0x08 = 3" "ffs 0x10 = 4"
  "ffs 0xC0 = 6" "ffs 0x02 = 1" "ffs 0x20 = 5" "ffs 0x80 = 7" "ffs 0x04 = 2" "ffs 0x30 = 4"
  "ffs 0xE0 = 5" "ffs 0x1F = 0" "ffs 0x60 = 5" "ffs 0x3F = 0" "ffs 0x07 = 0"
  by (simp_all add: ffs_def)

interpretation fs_field: bit_field "0x30 :: u8" 4 2
  by unfold_locales (simp_all add: mask_eq_exp_minus_1)

interpretation odr_field: bit_field "0xF0 :: u8" 4 4
  by unfold_locales (simp_all add: mask_eq_exp_minus_1)

lemma SHIFT_VAL_put: "mask_put m (SHIFT_VAL v m) old = mask_put m (push_bit (ffs m) v) old"
  by (simp add: mask_put_def SHIFT_VAL_def ac_simps)

subsection \<open>Result logic\<close>

text \<open>\<open>rok I r\<close>: the result, if there is one, leaves a state that satisfies \<open>I\<close>.\<close>

definition rok :: "('s \<Rightarrow> bool) \<Rightarrow> 's res \<Rightarrow> bool" where
  "rok I r \<longleftrightarrow> (\<forall>e t. r = Some (e, t) \<longrightarrow> I t)"

named_theorems rok_intro \<open>operations whose results keep the invariant\<close>

lemma rok_Some [rok_intro]: "I t \<Longrightarrow> rok I (Some (e, t))"
  by (simp add: rok_def)

lemma rok_None [rok_intro]: "rok I None"
  by (simp add: rok_def)

lemma rok_chk [rok_intro]: "rok I r \<Longrightarrow> (\<And>s. I s \<Longrightarrow> rok I (k s)) \<Longrightarrow> rok I (chk r k)"
  by (auto simp: rok_def chk_def split: option.splits if_splits)

lemma rok_andthen [rok_intro]: "rok I r \<Longrightarrow> (\<And>e s. I s \<Longrightarrow> rok I (k e s)) \<Longrightarrow> rok I (andthen r k)"
  by (auto simp: rok_def andthen_def split: option.splits)

lemma rok_bind: "(\<And>x. r = Some x \<Longrightarrow> rok I (k x)) \<Longrightarrow> rok I (Option.bind r k)"
  by (cases r) (auto simp: rok_def)

lemma rok_if [rok_intro]: "(c \<Longrightarrow> rok I a) \<Longrightarrow> (\<not> c \<Longrightarrow> rok I b) \<Longrightarrow> rok I (if c then a else b)"
  by simp

lemma rokD: "rok I r \<Longrightarrow> r = Some (e, t) \<Longrightarrow> I t"
  by (simp add: rok_def)

subsection \<open>The invariant\<close>

text \<open>
  What every operation relies on: a legal watermark, the settings of a known part, both
  devices, and a non-zero rate of the accelerometer. \<open>odr_entry\<close> is never valid.
\<close>

definition lis_ok :: "st_lis2dw12_hw \<Rightarrow> bool" where
  "lis_ok hw \<longleftrightarrow> 1 \<le> watermark hw \<and> watermark hw \<le> 31 \<and>
     (\<exists>set\<in>List.set st_lis2dw12_sensor_settings. settings hw = Some set) \<and> odr_entry hw = None \<and>
     (\<exists>s. iio_devs hw ST_LIS2DW12_ID_ACC = Some s \<and> odr s \<noteq> 0) \<and> iio_devs hw ST_LIS2DW12_ID_TEMP \<noteq> None"

lemma lis_ok_upd [simp]:
  "lis_ok (logio e hw) = lis_ok hw" "lis_ok (hw\<lparr>io := a\<rparr>) = lis_ok hw"
  "lis_ok (hw\<lparr>st_status := b\<rparr>) = lis_ok hw" "lis_ok (hw\<lparr>enable_mask := c\<rparr>) = lis_ok hw"
  "lis_ok (hw\<lparr>enable_ev_mask := c\<rparr>) = lis_ok hw" "lis_ok (hw\<lparr>std_level := d\<rparr>) = lis_ok hw"
  "lis_ok (hw\<lparr>samples := f\<rparr>) = lis_ok hw" "lis_ok (hw\<lparr>delta_ts := i\<rparr>) = lis_ok hw"
  "lis_ok (hw\<lparr>ts_irq := i\<rparr>) = lis_ok hw" "lis_ok (hw\<lparr>ts := i\<rparr>) = lis_ok hw"
  "lis_ok (hw\<lparr>oldktime := i\<rparr>) = lis_ok hw" "lis_ok (hw\<lparr>timestamp := i\<rparr>) = lis_ok hw"
  "lis_ok (hw\<lparr>req_odr_events := i\<rparr>) = lis_ok hw" "lis_ok (hw\<lparr>sixD_threshold := w\<rparr>) = lis_ok hw"
  "lis_ok (hw\<lparr>freefall_threshold := w\<rparr>) = lis_ok hw" "lis_ok (hw\<lparr>wk_th_mg := w\<rparr>) = lis_ok hw"
  "lis_ok (hw\<lparr>wk_dur_ms := w\<rparr>) = lis_ok hw" "lis_ok (hw\<lparr>tap_threshold := w\<rparr>) = lis_ok hw"
  "lis_ok (hw\<lparr>tap_quiet_time := w\<rparr>) = lis_ok hw" "lis_ok (hw\<lparr>tap_shock_time := w\<rparr>) = lis_ok hw"
  "lis_ok (hw\<lparr>dtap_duration := w\<rparr>) = lis_ok hw"
  "lis_ok (regcache_cache_bypass x hw) = lis_ok hw" "lis_ok (st_lis2dw12_cancel_workqueue hw) = lis_ok hw"
  by (simp_all add: lis_ok_def logio_def regcache_cache_bypass_def st_lis2dw12_cancel_workqueue_def)

lemma lis_ok_gain [simp]: "lis_ok hw \<Longrightarrow> lis_ok (upd_sensor sid (gain_update f) hw)"
  by (auto simp: lis_ok_def upd_sensor_def)

lemma ok_read: "st_lis2dw12_read addr n hw = (err, data, hw') \<Longrightarrow> lis_ok hw' = lis_ok hw"
  by (auto simp: st_lis2dw12_read_def split: prod.splits)

lemma ok_read_mask: "st_lis2dw12_read_with_mask addr m hw = (err, v, hw') \<Longrightarrow> lis_ok hw' = lis_ok hw"
  by (auto simp: st_lis2dw12_read_with_mask_def dest: ok_read split: prod.splits if_splits)

lemma ok_write_locked: "st_lis2dw12_write_locked addr v hw = (err, hw') \<Longrightarrow> lis_ok hw' = lis_ok hw"
  by (auto simp: st_lis2dw12_write_locked_def)

lemma ok_xl_fs: "st_lis2dw12_get_xl_fs hw = (err, v, hw') \<Longrightarrow> lis_ok hw' = lis_ok hw"
  by (auto simp: st_lis2dw12_get_xl_fs_def dest: ok_read_mask split: prod.splits)

lemma ok_mask_locked [rok_intro]:
  "lis_ok hw \<Longrightarrow> rok lis_ok (st_lis2dw12_write_with_mask_locked addr m v hw)"
  by (simp add: rok_def st_lis2dw12_write_with_mask_locked_def st_lis2dw12_write_with_mask_def
      update_bits_def)

lemma ok_set_fs [rok_intro]: "lis_ok hw \<Longrightarrow> rok lis_ok (st_lis2dw12_set_fs sid g hw)"
  by (auto simp: st_lis2dw12_set_fs_def Let_def intro!: rok_intro)

lemma ok_write_odr [rok_intro]: "lis_ok hw \<Longrightarrow> rok lis_ok (write_odr stg u md hw)"
  by (auto simp: write_odr_def st_lis2dw12_write_locked_def intro!: rok_intro split: option.splits)

lemma ok_set_odr [rok_intro]: "lis_ok hw \<Longrightarrow> rok lis_ok (st_lis2dw12_set_odr sid r hw)"
  unfolding st_lis2dw12_set_odr_def with_settings_def Let_def
  by (intro rok_bind) (simp only: case_prod_beta ok_write_odr)

lemma ok_set_enable [rok_intro]:
  "lis_ok hw \<Longrightarrow> rok lis_ok (st_lis2dw12_sensor_set_enable sid en hw)"
  unfolding st_lis2dw12_sensor_set_enable_def with_sensor_def Let_def
  by (intro rok_bind rok_intro) simp_all

lemma ok_set_enable_eq: "st_lis2dw12_sensor_set_enable sid en hw = Some (e, hw') \<Longrightarrow> lis_ok hw \<Longrightarrow> lis_ok hw'"
  using ok_set_enable rokD by metis

lemma acc_rates: "find_idx (\<lambda>e. fst e = r) st_lis2dw12_std_table < length st_lis2dw12_std_table \<Longrightarrow> r \<noteq> 0"
  by (auto simp: st_lis2dw12_std_table_def split: if_splits)

lemma ok_write_raw [rok_intro]:
  assumes "lis_ok hw"
  shows "rok lis_ok (st_lis2dw12_write_raw sid val val2 m hw)"
proof (cases "m = IIO_CHAN_INFO_SAMP_FREQ")
  case True
  have upd: "lis_ok (upd_sensor sid (odr_update (\<lambda>_. r)) hw)" if "lis_ok hw"
    "sid = ST_LIS2DW12_ID_ACC \<Longrightarrow> r \<noteq> 0" for r hw
    using that by (cases sid) (auto simp: lis_ok_def upd_sensor_def)
  have std: "lis_ok hw1 \<and> (e = 0 \<longrightarrow> r \<noteq> 0) \<and> (e < 0 \<longleftrightarrow> e \<noteq> 0)"
    if "st_lis2dw12_set_std_level r hw = (e, hw1)" "lis_ok hw" for r hw e hw1
    using that find_idx_le [of "\<lambda>e. fst e = r" st_lis2dw12_std_table]
    by (auto simp: st_lis2dw12_set_std_level_def Let_def acc_rates le_less split: if_splits)
  have fin: "rok lis_ok (Option.bind (st_lis2dw12_get_odr_idx sid r hw) (\<lambda>(err, _).
      Some (err, if err = 0 then upd_sensor sid (odr_update (\<lambda>_. r)) hw else hw)))"
    if "lis_ok hw" "sid = ST_LIS2DW12_ID_ACC \<Longrightarrow> r \<noteq> 0" for r hw
    using upd [OF that] that(1) by (auto intro!: rok_bind rok_intro)
  show ?thesis
    using assms True fin std [of "word_of_int val" hw]
    by (cases "st_lis2dw12_set_std_level (word_of_int val) hw")
      (auto simp: st_lis2dw12_write_raw_def Let_def chk_def intro: rok_intro split: if_splits)
next
  case False
  then show ?thesis
    using assms by (cases m) (auto simp: st_lis2dw12_write_raw_def Let_def intro!: rok_intro)
qed

lemma ok_selftest_samples:
  "selftest_samples n a hw = (err, a', hw') \<Longrightarrow> lis_ok hw' = lis_ok hw"
  by (induction n a hw rule: selftest_samples.induct)
    (auto dest: ok_read split: prod.splits if_splits)

lemma ok_samples_after:
  "selftest_samples n a (logio e hw) = (err, a', hw') \<Longrightarrow> lis_ok hw \<Longrightarrow> lis_ok hw'"
  using ok_selftest_samples by fastforce

lemma ok_selftest_measure [rok_intro]:
  assumes "lis_ok hw"
  shows "rok lis_ok (selftest_measure sid v g hw)"
  using assms unfolding selftest_measure_def Let_def
  by (auto intro!: rok_intro split: prod.splits) (blast intro: ok_samples_after)+

lemma ok_selftest [rok_intro]: "lis_ok hw \<Longrightarrow> rok lis_ok (st_lis2dw12_enable_selftest sid buf sz hw)"
  unfolding st_lis2dw12_enable_selftest_def with_sensor_def Let_def
  by (intro rok_intro rok_bind) simp_all

text \<open>Raw reads return a value as well: the state alone is the third component.\<close>

lemma ok_read_oneshot:
  assumes "st_lis2dw12_read_oneshot sid addr hw = Some (e, v, hw')" and "lis_ok hw"
  shows "lis_ok hw'"
proof (cases "st_lis2dw12_sensor_set_enable sid True hw")
  case (Some r)
  obtain e1 h1 where r: "r = (e1, h1)" by (cases r)
  have h1: "lis_ok h1" using Some r assms(2) ok_set_enable_eq by blast
  show ?thesis
  proof (cases "e1 < 0")
    case False
    obtain s where s: "iio_devs h1 sid = Some s" "odr s \<noteq> 0"
      using assms(1) Some r False
      by (auto simp: st_lis2dw12_read_oneshot_def with_sensor_def bind_eq_Some_conv split: if_splits)
    obtain e2 d h2 where h2: "st_lis2dw12_read addr 2 (logio (Lis_usleep (3000000 sdiv uint (odr s))) h1) = (e2, d, h2)"
      using prod_cases3 by blast
    have "lis_ok h2" using h1 ok_read [OF h2] by simp
    then show ?thesis
      using assms(1) Some r False s h2
      by (auto simp: st_lis2dw12_read_oneshot_def with_sensor_def Let_def split: if_splits option.splits
          dest!: ok_set_enable_eq)
  qed (use assms(1) Some r h1 in \<open>simp add: st_lis2dw12_read_oneshot_def\<close>)
qed (use assms(1) in \<open>simp add: st_lis2dw12_read_oneshot_def\<close>)

lemma ok_read_raw:
  assumes "st_lis2dw12_read_raw sid ct ca m hw = Some (e, v, hw')" and "lis_ok hw"
  shows "lis_ok hw'"
  using assms unfolding st_lis2dw12_read_raw_def
  by (cases m) (auto simp: Let_def with_sensor_def bind_eq_Some_conv dest: ok_read_oneshot split: if_splits)

text \<open>The frame facts as introduction rules, for goals that name the intermediate state.\<close>

lemma ok_read_state:
  "st_lis2dw12_read addr n hw = (err, data, hw') \<Longrightarrow> lis_ok hw \<Longrightarrow> lis_ok hw'"
  "st_lis2dw12_write_locked addr bytes hw = (err, hw') \<Longrightarrow> lis_ok hw \<Longrightarrow> lis_ok hw'"
  using ok_read ok_write_locked by blast+

subsection \<open>Events keep the invariant\<close>

lemma ok_wake_up_thershold [rok_intro]: "lis_ok hw \<Longrightarrow> rok lis_ok (st_lis2dw12_set_wake_up_thershold mg hw)"
  unfolding st_lis2dw12_set_wake_up_thershold_def Let_def
  by (auto dest: ok_xl_fs intro!: rok_intro split: prod.splits option.splits)

lemma ok_tap_threshold [rok_intro]: "lis_ok hw \<Longrightarrow> rok lis_ok (st_lis2dw12_set_tap_threshold mg hw)"
  unfolding st_lis2dw12_set_tap_threshold_def Let_def
  by (auto dest: ok_xl_fs intro!: rok_intro split: prod.splits option.splits)

lemma ok_freefall [rok_intro]: "lis_ok hw \<Longrightarrow> rok lis_ok (st_lis2dw12_set_freefall_threshold mg hw)"
  unfolding st_lis2dw12_set_freefall_threshold_def Let_def by (intro rok_intro) simp_all

lemma ok_6D [rok_intro]: "lis_ok hw \<Longrightarrow> rok lis_ok (st_lis2dw12_set_6D_threshold mg hw)"
  unfolding st_lis2dw12_set_6D_threshold_def Let_def by (intro rok_intro) simp_all

lemma ok_get_xl_odr: "st_lis2dw12_get_xl_odr hw = Some (e, r, hw') \<Longrightarrow> lis_ok hw' = lis_ok hw"
  unfolding st_lis2dw12_get_xl_odr_def Let_def
  by (auto simp: bind_eq_Some_conv dest: ok_read_mask split: prod.splits option.splits if_splits)

lemma ok_default_xl_odr:
  assumes "st_lis2dw12_get_default_xl_odr ev hw = Some (e, r, hw')"
  shows "lis_ok hw' = lis_ok hw"
proof -
  obtain a v b where x: "st_lis2dw12_get_xl_odr hw = Some (a, v, b)"
    using assms by (auto simp: st_lis2dw12_get_default_xl_odr_def bind_eq_Some_conv)
  have "hw' = b"
  proof (cases "a < 0")
    case False
    then obtain y where y: "st_lis2dw12_get_events b = Some y"
      using assms x by (auto simp: st_lis2dw12_get_default_xl_odr_def bind_eq_Some_conv)
    then show ?thesis
      using assms x False by (cases y) (simp_all add: st_lis2dw12_get_default_xl_odr_def Let_def)
  qed (use assms x in \<open>simp add: st_lis2dw12_get_default_xl_odr_def\<close>)
  then show ?thesis using ok_get_xl_odr [OF x] by simp
qed

lemma ok_with_rate:
  assumes "lis_ok hw" and "\<And>r hw. lis_ok hw \<Longrightarrow> rok lis_ok (k r hw)"
  shows "rok lis_ok (with_rate ev hw k)"
  using assms unfolding with_rate_def
  by (auto dest: ok_default_xl_odr intro!: rok_intro split: option.splits)

lemma ok_durations [rok_intro]:
  assumes "lis_ok hw"
  shows "rok lis_ok (st_lis2dw12_set_wake_up_duration ms hw)"
    and "rok lis_ok (st_lis2dw12_set_tap_quiet_time ms8 hw)"
    and "rok lis_ok (st_lis2dw12_set_tap_shock_time ms8 hw)"
    and "rok lis_ok (st_lis2dw12_set_dtap_duration ms hw)"
  unfolding st_lis2dw12_set_wake_up_duration_def st_lis2dw12_set_tap_quiet_time_def
    st_lis2dw12_set_tap_shock_time_def st_lis2dw12_set_dtap_duration_def Let_def
  using assms by (auto intro!: ok_with_rate rok_bind rok_intro)

lemma ok_update_events [rok_intro]:
  "lis_ok hw \<Longrightarrow> rok lis_ok (st_lis2dw12_update_threshold_events hw)"
  "lis_ok hw \<Longrightarrow> rok lis_ok (st_lis2dw12_update_duration_events hw)"
  unfolding st_lis2dw12_update_threshold_events_def st_lis2dw12_update_duration_events_def
  by (intro rok_intro; assumption)+

lemma ok_enable_event [rok_intro]: "lis_ok hw \<Longrightarrow> rok lis_ok (enable_event ev en hw)"
  unfolding enable_event_def
  by (auto intro!: rok_intro rok_bind split: prod.splits sum.splits) (blast intro: ok_read_state)+

lemma ok_write_event_config [rok_intro]:
  "lis_ok hw \<Longrightarrow> rok lis_ok (st_lis2dw12_write_event_config ct ty d en hw)"
  unfolding st_lis2dw12_write_event_config_def by (auto intro!: rok_intro split: option.splits)

lemma ok_write_event_value [rok_intro]:
  "lis_ok hw \<Longrightarrow> rok lis_ok (st_lis2dw12_write_event_value ct ty d info v hw)"
  unfolding st_lis2dw12_write_event_value_def by (auto intro!: rok_intro split: option.splits)

lemma ok_push [simp]: "lis_ok (push md ty d hw) = lis_ok hw"
  by (simp add: push_def)

lemma ok_push_taps [simp]: "lis_ok (push_taps src hw) = lis_ok hw"
  by (auto simp: push_taps_def Let_def split: option.splits)

lemma ok_push_parts [simp]:
  "lis_ok (push_wake_up src hw) = lis_ok hw" "lis_ok (push_6D md h l hw) = lis_ok hw"
  by (simp_all add: push_wake_up_def push_6D_def)

lemma ok_event_handler: "lis_ok hw \<Longrightarrow> lis_ok (snd (st_lis2dw12_event_handler hw))"
proof -
  assume ok: "lis_ok hw"
  obtain e d h where r: "st_lis2dw12_read WU_SRC_ADDR 3 hw = (e, d, h)" using prod_cases3 by blast
  have "lis_ok h" using ok_read [OF r] ok by simp
  then show ?thesis using r ok by (simp add: st_lis2dw12_event_handler_def)
qed

subsection \<open>Buffer and power keep the invariant\<close>

lemma ok_update_fifo [rok_intro]: "lis_ok hw \<Longrightarrow> rok lis_ok (st_lis2dw12_update_fifo sid en hw)"
  unfolding st_lis2dw12_update_fifo_def
  by (rule rok_bind)
    (auto simp: with_sensor_def bind_eq_Some_conv Let_def intro!: rok_intro split: if_split_asm)

lemma ok_watermark [rok_intro]:
  assumes "lis_ok hw"
  shows "rok lis_ok (st_lis2dw12_set_hwfifo_watermark p sz hw)"
proof -
  have set: "lis_ok (hw\<lparr>watermark := word_of_int v\<rparr>)" if "lis_ok hw" "\<not> v < 1" "\<not> 31 < v" for hw v
  proof -
    have "uint (word_of_int v :: u8) = v" using that by (simp add: uint_word_of_int)
    then show ?thesis using that by (simp add: lis_ok_def word_le_def)
  qed
  show ?thesis
    using assms unfolding st_lis2dw12_set_hwfifo_watermark_def st_lis2dw12_update_fifo_watermark_def Let_def
    by (auto intro!: rok_intro set split: sum.splits)
qed

lemma ok_fifo_sample [simp]: "lis_ok (fifo_sample dts buff i hw) = lis_ok hw"
  by (simp add: fifo_sample_def Let_def)

lemma ok_fifo_samples [simp]: "lis_ok (fold (fifo_sample dts buff) xs hw) = lis_ok hw"
  by (induction xs arbitrary: hw) simp_all

lemma ok_fifo_loop: "lis_ok hw \<Longrightarrow> rok lis_ok (fifo_loop dts left n hw)"
proof (induction dts left n hw rule: fifo_loop.induct)
  case (1 dts left n hw)
  obtain e buff h where r: "st_lis2dw12_read OUT_X_L_ADDR (min left 36) hw = (e, buff, h)"
    using prod_cases3 by blast
  have "lis_ok h" using ok_read [OF r] 1(2) by simp
  then show ?case
    using 1(1) [OF _ refl r [symmetric] refl] 1(2) r
    by (subst fifo_loop.simps) (auto simp: Let_def intro!: rok_intro)
qed

lemma ok_read_fifo [rok_intro]: "lis_ok hw \<Longrightarrow> rok lis_ok (st_lis2dw12_read_fifo hw)"
  unfolding st_lis2dw12_read_fifo_def with_sensor_def Let_def
  by (auto intro!: rok_intro rok_bind ok_fifo_loop split: prod.splits) (blast intro: ok_read_state)+

lemma ok_flush [rok_intro]:
  "lis_ok hw \<Longrightarrow> rok lis_ok (st_lis2dw12_flush_fifo sz hw)"
  "lis_ok hw \<Longrightarrow> rok lis_ok (st_lis2dw12_flush_fifo_during_resume hw)"
  "lis_ok hw \<Longrightarrow> rok lis_ok (st_lis2dw12_suspend_fifo hw)"
  unfolding st_lis2dw12_flush_fifo_def st_lis2dw12_flush_fifo_during_resume_def
    st_lis2dw12_suspend_fifo_def st_lis2dw12_set_fifo_mode_def Let_def
  by (intro rok_intro; simp)+

lemma ok_irq [simp]: "lis_ok hw \<Longrightarrow> lis_ok (snd (st_lis2dw12_handler_irq hw))"
  "lis_ok hw \<Longrightarrow> lis_ok (snd (st_lis2dw12_handler_irq_emb hw))"
  by (simp_all add: st_lis2dw12_handler_irq_def st_lis2dw12_handler_irq_emb_def Let_def)

lemma ok_thread [rok_intro]: "lis_ok hw \<Longrightarrow> rok lis_ok (st_lis2dw12_handler_thread hw)"
proof -
  assume ok: "lis_ok hw"
  obtain e d h where r: "st_lis2dw12_read STATUS_ADDR 1 hw = (e, d, h)" using prod_cases3 by blast
  have "lis_ok h" using ok_read [OF r] ok by simp
  then show ?thesis
    unfolding st_lis2dw12_handler_thread_def r prod.case
    by (intro rok_intro) (simp_all add: ok_event_handler)
qed

lemma ok_temp [simp]:
  "lis_ok (st_lis2dw12_temp_poll_function_read hw) = lis_ok hw"
  "lis_ok (st_lis2dw12_temp_poll_function_work hw) = lis_ok hw"
  by (auto simp: st_lis2dw12_temp_poll_function_read_def st_lis2dw12_temp_poll_function_work_def
      Let_def dest: ok_read split: prod.splits)

lemma ok_configure_wake_up [rok_intro]:
  "lis_ok hw \<Longrightarrow> rok lis_ok (st_lis2dw12_configure_wake_up hw)"
  unfolding st_lis2dw12_configure_wake_up_def upd_bits_def update_bits_def with_settings_def Let_def
  by (intro rok_intro rok_bind) simp_all

lemma ok_power [rok_intro]:
  assumes "lis_ok hw"
  shows "rok lis_ok (st_lis2dw12_suspend w hw)" and "rok lis_ok (st_lis2dw12_resume w hw)"
proof -
  have s: "lis_ok h \<Longrightarrow> rok lis_ok (suspend_sensor sid h)" for sid h
    unfolding suspend_sensor_def by (intro rok_intro)
  show "rok lis_ok (st_lis2dw12_suspend w hw)"
    using assms unfolding st_lis2dw12_suspend_def Let_def by (intro rok_intro s) simp_all
  have r: "lis_ok h \<Longrightarrow> rok lis_ok (resume_sensor sid h)" for sid h
    unfolding resume_sensor_def by (auto intro!: rok_intro split: option.splits)
  have m: "lis_ok h \<Longrightarrow> rok lis_ok (st_lis2dw12_set_fifo_mode v h)" for v h
    unfolding st_lis2dw12_set_fifo_mode_def by (intro rok_intro)
  have d: "lis_ok (snd (snd (st_lis2dw12_read a n h))) = lis_ok h" for a n h
    by (simp add: st_lis2dw12_read_def case_prod_beta)
  show "rok lis_ok (st_lis2dw12_resume w hw)"
    using assms unfolding st_lis2dw12_resume_def Let_def by (intro rok_intro r m) (simp_all add: d)
qed

end
