(* ===== verification/Lis_Reach.thy ===== *)
theory Lis_Reach
  imports Lis_Lemmas
begin

text \<open>
  Reachable states of the accelerometer driver: the step relation, the probe that
  establishes the invariant, and the facts on returning that rest on it.
\<close>

subsection \<open>Reachable states\<close>

text \<open>
  A step is one call into a registered driver that returns: an attribute, a buffer switch, an
  event attribute, an interrupt or its thread, the temperature work, suspend or resume.
\<close>

inductive lis_step :: "st_lis2dw12_hw \<Rightarrow> st_lis2dw12_hw \<Rightarrow> bool" where
  read_raw: "st_lis2dw12_read_raw sid ct ca m hw = Some (e, v, hw') \<Longrightarrow> lis_step hw hw'"
| write_raw: "st_lis2dw12_write_raw sid val val2 m hw = Some (e, hw') \<Longrightarrow> lis_step hw hw'"
| selftest: "st_lis2dw12_enable_selftest sid buf sz hw = Some (e, hw') \<Longrightarrow> lis_step hw hw'"
| set_watermark: "st_lis2dw12_set_hwfifo_watermark p n hw = Some (e, hw') \<Longrightarrow> lis_step hw hw'"
| flush: "st_lis2dw12_flush_fifo n hw = Some (e, hw') \<Longrightarrow> lis_step hw hw'"
| preenable: "st_lis2dw12_buffer_preenable sid hw = Some (e, hw') \<Longrightarrow> lis_step hw hw'"
| postdisable: "st_lis2dw12_buffer_postdisable sid hw = Some (e, hw') \<Longrightarrow> lis_step hw hw'"
| event_config: "st_lis2dw12_write_event_config ct ty d en hw = Some (e, hw') \<Longrightarrow> lis_step hw hw'"
| event_value: "st_lis2dw12_write_event_value ct ty d info v hw = Some (e, hw') \<Longrightarrow> lis_step hw hw'"
| irq_line: "lis_step hw (snd (st_lis2dw12_handler_irq hw))"
| irq_thread: "st_lis2dw12_handler_thread hw = Some (e, hw') \<Longrightarrow> lis_step hw hw'"
| irq_embedded: "lis_step hw (snd (st_lis2dw12_handler_irq_emb hw))"
| event_thread: "lis_step hw (snd (st_lis2dw12_event_handler hw))"
| temp_timer: "lis_step hw (st_lis2dw12_temp_poll_function_read hw)"
| temp_work: "lis_step hw (st_lis2dw12_temp_poll_function_work hw)"
| suspend: "st_lis2dw12_suspend w hw = Some (e, hw') \<Longrightarrow> lis_step hw hw'"
| resume: "st_lis2dw12_resume w hw = Some (e, hw') \<Longrightarrow> lis_step hw hw'"

text \<open>A probe that succeeds and whose device allocations succeeded.\<close>

inductive lis_reachable :: "st_lis2dw12_hw \<Rightarrow> bool" where
  probed: "st_lis2dw12_probe p b env irq_line ident = Some (e, hw) \<Longrightarrow> 0 \<le> e \<Longrightarrow>
    dev_alloc p ST_LIS2DW12_ID_ACC \<Longrightarrow> dev_alloc p ST_LIS2DW12_ID_TEMP \<Longrightarrow> lis_reachable hw"
| step: "lis_reachable hw \<Longrightarrow> lis_step hw hw' \<Longrightarrow> lis_reachable hw'"

inductive_cases lis_stepE: "lis_step hw hw'"

lemma step_lis_ok: "lis_step hw hw' \<Longrightarrow> lis_ok hw \<Longrightarrow> lis_ok hw'"
proof (induction rule: lis_step.induct)
  case (read_raw sid ct ca m hw e v hw')
  then show ?case using ok_read_raw by blast
next
  case (event_thread hw)
  then show ?case by (rule ok_event_handler)
next
  case (preenable sid hw e hw')
  then show ?case
    unfolding st_lis2dw12_buffer_preenable_def by (blast intro: rokD rok_intro)
next
  case (postdisable sid hw e hw')
  then show ?case
    unfolding st_lis2dw12_buffer_postdisable_def by (blast intro: rokD rok_intro)
qed (simp_all, (blast intro: rokD rok_intro)+)

text \<open>The state before the devices exist.\<close>

definition lis_base :: "st_lis2dw12_hw \<Rightarrow> bool" where
  "lis_base hw \<longleftrightarrow> watermark hw = 1 \<and> (\<exists>set\<in>List.set st_lis2dw12_sensor_settings. settings hw = Some set) \<and>
     odr_entry hw = None"

lemma base_mask [rok_intro]:
  "lis_base hw \<Longrightarrow> rok lis_base (st_lis2dw12_write_with_mask_locked addr m v hw)"
  by (simp add: rok_def st_lis2dw12_write_with_mask_locked_def st_lis2dw12_write_with_mask_def
      update_bits_def lis_base_def logio_def)

lemma base_upd [simp]: "lis_base (regcache_cache_bypass x hw) = lis_base hw"
  by (simp add: regcache_cache_bypass_def lis_base_def logio_def)

lemma base_drdy: "lis_base hw \<Longrightarrow> rok lis_base (Some (st_lis2dw12_get_drdy_pin b hw))"
proof -
  assume ok: "lis_base hw"
  obtain e h where h: "st_lis2dw12_of_get_drdy_pin b hw = (e, h)" by (cases "st_lis2dw12_of_get_drdy_pin b hw")
  have "lis_base h"
    using h ok by (auto simp: st_lis2dw12_of_get_drdy_pin_def lis_base_def Let_def split: prod.splits if_splits)
  then show ?thesis
    using h by (auto simp: rok_def st_lis2dw12_get_drdy_pin_def lis_base_def Let_def split: if_splits)
qed

lemma base_init: "lis_base hw \<Longrightarrow> rok lis_base (st_lis2dw12_init_hw b hw)"
proof -
  assume ok: "lis_base hw"
  have r: "rok lis_base (andthen (chk (st_lis2dw12_write_with_mask_locked CTRL2_ADDR RESET_MASK 1
      (regcache_cache_bypass True hw)) (st_lis2dw12_write_with_mask_locked CTRL2_ADDR BDU_MASK 1))
      (\<lambda>err hw. Some (err, regcache_cache_bypass False hw)))"
    using ok by (intro rok_intro) simp_all
  have t: "lis_base h \<Longrightarrow> rok lis_base (chk (st_lis2dw12_write_with_mask_locked ABS_INT_CFG_ADDR ALL_INT_MASK 1 h) (\<lambda>hw.
           chk (st_lis2dw12_update_fifo_watermark (watermark hw) hw) (\<lambda>hw.
           chk (st_lis2dw12_write_with_mask_locked CTRL6_ADDR LN_MASK 1 hw) (\<lambda>hw.
           chk (st_lis2dw12_write_with_mask_locked CTRL6_ADDR BW_MASK 1 hw) (\<lambda>hw.
           chk (st_lis2dw12_write_with_mask_locked CTRL3_ADDR LIR_MASK 1 hw) (\<lambda>hw.
           chk (Some (st_lis2dw12_get_drdy_pin b hw)) (\<lambda>hw.
             st_lis2dw12_write_with_mask_locked (irq_reg hw) FTH_INT_MASK 1 hw)))))))" for h
    unfolding st_lis2dw12_update_fifo_watermark_def
    by (intro rok_intro base_drdy)
  show ?thesis
    using r t unfolding st_lis2dw12_init_hw_def
    by (auto simp: rok_def split: option.splits)
qed

lemma settings_rates:
  assumes "stg \<in> List.set st_lis2dw12_sensor_settings"
  shows "fst (odr_table stg sid ! 1) = 12"
  using assms by (cases sid)
    (auto simp: st_lis2dw12_sensor_settings_def acc_odr_9_def acc_odr_ais2dw12_def temp_odr_4_def)

lemma alloc_devices:
  assumes "lis_base hw"
  obtains h1 h2 where "st_lis2dw12_alloc_iiodev True ST_LIS2DW12_ID_ACC hw = Some h1"
    and "st_lis2dw12_alloc_iiodev True ST_LIS2DW12_ID_TEMP h1 = Some h2" and "lis_ok h2"
proof -
  from assms obtain stg where stg: "stg \<in> List.set st_lis2dw12_sensor_settings" "settings hw = Some stg"
    and base: "watermark hw = 1" "odr_entry hw = None"
    by (auto simp: lis_base_def)
  define s where "s sid = \<lparr>gain = ucast (fst (st_lis2dw12_fs_table (kenv hw) sid ! 0)), odr = 12 :: u16\<rparr>" for sid
  define h1 where "h1 = hw\<lparr>iio_devs := (iio_devs hw)(ST_LIS2DW12_ID_ACC := Some (s ST_LIS2DW12_ID_ACC))\<rparr>"
  define h2 where "h2 = h1\<lparr>iio_devs := (iio_devs h1)(ST_LIS2DW12_ID_TEMP := Some (s ST_LIS2DW12_ID_TEMP)),
    oldktime := 1000000000 sdiv uint (12 :: u16)\<rparr>"
  have rates: "fst (odr_table stg sid ! 1) = 12" for sid
    using stg(1) by (rule settings_rates)
  have 1: "st_lis2dw12_alloc_iiodev True ST_LIS2DW12_ID_ACC hw = Some h1"
    unfolding st_lis2dw12_alloc_iiodev_def with_settings_def stg(2)
    by (simp only: rates Let_def bind.bind_lunit not_True_eq_False if_False st_lis2dw12_sensor_id.distinct
        h1_def s_def)
  have st1: "settings h1 = Some stg" by (simp add: h1_def stg)
  have 2: "st_lis2dw12_alloc_iiodev True ST_LIS2DW12_ID_TEMP h1 = Some h2"
    unfolding st_lis2dw12_alloc_iiodev_def with_settings_def st1
    by (simp add: rates [simplified] h2_def s_def) (simp add: h1_def)
  have "lis_ok h2"
    using stg base by (simp add: lis_ok_def h2_def h1_def s_def)
  with 1 2 show ?thesis by (rule that)
qed

lemma ok_event_init [rok_intro]: "lis_ok hw \<Longrightarrow> rok lis_ok (st_lis2dw12_event_init r hw)"
  unfolding st_lis2dw12_event_init_def by (intro rok_intro)

lemma ok_register:
  "lis_ok hw \<Longrightarrow> rok lis_ok (chk (st_lis2dw12_allocate_workqueue w hw) (register_devices p))"
  unfolding st_lis2dw12_allocate_workqueue_def register_devices_def with_sensor_def Let_def
  by (intro rok_intro rok_bind) (auto simp: lis_ok_def)

lemma ok_probe_devices:
  assumes "lis_base hw" and "dev_alloc p ST_LIS2DW12_ID_ACC" and "dev_alloc p ST_LIS2DW12_ID_TEMP"
  shows "rok lis_ok (probe_devices p hw)"
proof -
  obtain h1 h2 where h: "st_lis2dw12_alloc_iiodev True ST_LIS2DW12_ID_ACC hw = Some h1"
    "st_lis2dw12_alloc_iiodev True ST_LIS2DW12_ID_TEMP h1 = Some h2" "lis_ok h2"
    using alloc_devices [OF assms(1)] .
  then show ?thesis
    using assms(2,3) unfolding probe_devices_def Let_def
    by (auto intro!: rok_intro ok_register)
qed

lemma probe_lis_ok:
  assumes "st_lis2dw12_probe p b env irq_line ident = Some (e, hw)" and "0 \<le> e"
    and "dev_alloc p ST_LIS2DW12_ID_ACC" and "dev_alloc p ST_LIS2DW12_ID_TEMP"
  shows "lis_ok hw"
proof -
  let ?z = "lis_zero_hw env irq_line"
  from assms(1,2) obtain e1 h1 e2 h2 where
    w: "st_lis2dw12_check_whoami ident ?z = Some (e1, h1)" "0 \<le> e1"
    and i: "st_lis2dw12_init_hw b h1 = Some (e2, h2)" "0 \<le> e2"
    and d: "probe_devices p h2 = Some (e, hw)"
    unfolding st_lis2dw12_probe_def Let_def
    by (auto elim!: chk_okE split: if_split_asm)
  have "lis_base h1"
  proof -
    have "find_idx (\<lambda>e. hw_id e = ident) st_lis2dw12_sensor_settings < length st_lis2dw12_sensor_settings"
      using w find_idx_le [of "\<lambda>e. hw_id e = ident" st_lis2dw12_sensor_settings]
      by (auto simp: st_lis2dw12_check_whoami_def Let_def le_less split: if_split_asm)
    then show ?thesis
      using w by (auto simp: st_lis2dw12_check_whoami_def Let_def lis_base_def lis_zero_hw_def
          logio_def split: if_split_asm prod.split_asm)
  qed
  then have "lis_base h2" using base_init rokD i(1) by metis
  then show ?thesis using ok_probe_devices assms(3,4) rokD d by metis
qed

lemma reachable_lis_ok: "lis_reachable hw \<Longrightarrow> lis_ok hw"
  by (induction rule: lis_reachable.induct) (auto intro: probe_lis_ok step_lis_ok)

subsection \<open>No faults where the invariant holds\<close>

lemma fifo_loop_returns: "\<exists>e t. fifo_loop dts left n hw = Some (e, t)"
proof (induction dts left n hw rule: fifo_loop.induct)
  case (1 dts left n hw)
  obtain e buff h where r: "st_lis2dw12_read OUT_X_L_ADDR (min left 36) hw = (e, buff, h)"
    using prod_cases3 by blast
  show ?case
    using 1 [OF _ refl r [symmetric] refl] r
    by (subst fifo_loop.simps) (auto simp: Let_def)
qed

lemma read_fifo_returns: "lis_ok hw \<Longrightarrow> \<exists>e t. st_lis2dw12_read_fifo hw = Some (e, t)"
proof -
  assume ok: "lis_ok hw"
  obtain e d h where r: "st_lis2dw12_read FIFO_SAMPLES_ADDR 1 hw = (e, d, h)" using prod_cases3 by blast
  have h: "lis_ok h" using ok_read [OF r] ok by simp
  then have "watermark h \<noteq> 0" by (auto simp: lis_ok_def)
  then have "uint (watermark h) \<noteq> 0" by (simp add: uint_0_iff)
  then show ?thesis
    using h r fifo_loop_returns
    by (auto simp: st_lis2dw12_read_fifo_def with_sensor_def Let_def div_s64_def lis_ok_def)
qed

lemma set_odr_returns: "lis_ok hw \<Longrightarrow> \<exists>e t. st_lis2dw12_set_odr sid r hw = Some (e, t)"
  by (auto simp: lis_ok_def st_lis2dw12_set_odr_def st_lis2dw12_check_odr_dependency_def
      with_sensor_def with_settings_def Let_def write_odr_def st_lis2dw12_get_odr_idx_def
      other_sensor_def case_prod_beta split: st_lis2dw12_sensor_id.splits)

subsection \<open>A concrete probe\<close>

text \<open>
  A bus that answers the identity, accepts every write and, during the probe's 17 accesses,
  reads zero in CTRL1 and CTRL6; a board with one interrupt line. \<open>fresh_hw\<close> is the state after the probe, for
  the first entry of the settings (a LIS2DW12) or the last (an AIS2DW12).
\<close>

definition quiet :: "lis_env \<Rightarrow> bool" where
  "quiet env \<longleftrightarrow> (\<forall>l a m v. regmap_update_bits env l a m v = 0) \<and>
     (\<forall>l a n. a = CTRL1_ADDR \<or> a = CTRL6_ADDR \<longrightarrow> length l \<le> 17 \<longrightarrow>
        regmap_bulk_read env l a n = (0, \<lambda>_. 0)) \<and>
     (\<forall>l a. regmap_read env l a = (0, 0x44))"

definition good_probe :: probe_env where
  "good_probe = \<lparr>hw_alloc = True, chan_alloc = True, dev_alloc = (\<lambda>_. True), fifo_irq = 0,
     emb_irq = 0, kfifo = (\<lambda>_. 0), workqueue = True, registered = (\<lambda>_. 0)\<rparr>"

definition good_board :: lis_board where
  "good_board = \<lparr>of_node = True, drdy_int_pin = (0, 1), of_irq = (\<lambda>_. 5), platform_pin = None\<rparr>"

definition fresh_hw :: "lis_env \<Rightarrow> int \<Rightarrow> st_lis2dw12_hw" where
  "fresh_hw env part = (lis_zero_hw env 5)\<lparr>
     io := [Regmap_update_bits 0x30 0x60 0x40, Regmap_update_bits 0x36 7 0,
            Regmap_update_bits 0x35 0x60 0, Regmap_bulk_read 0x20 1,
            Regmap_update_bits 0x34 0x3F 3, Regmap_bulk_read 0x25 1,
            Regmap_update_bits 0x23 2 2, Regmap_update_bits 0x22 0x10 0x10,
            Regmap_update_bits 0x25 0xC0 0x40, Regmap_update_bits 0x25 4 4,
            Regmap_update_bits 0x2e 0x1F 1, Regmap_update_bits 0x3f 0x20 0x20,
            Regcache_bypass False, Regmap_update_bits 0x21 8 8, Regmap_update_bits 0x21 0x40 0x40,
            Regcache_bypass True, Regmap_read 0x0f],
     irq_emb := -1, irq_pin := 1, irq_reg := 0x23,
     iio_devs := [ST_LIS2DW12_ID_ACC \<mapsto> \<lparr>gain = ucast (G_TO_M_S_2 env 244), odr = 12\<rparr>,
       ST_LIS2DW12_ID_TEMP \<mapsto> \<lparr>gain = 16, odr = 12\<rparr>],
     oldktime := 83333333, temp_workqueue := True, settings := Some (st_lis2dw12_sensor_settings ! nat part),
     sixD_threshold := 60, freefall_threshold := 312, wk_th_mg := 100\<rparr>"

lemma good_simps [simp]:
  "hw_alloc good_probe" "chan_alloc good_probe" "dev_alloc good_probe sid" "fifo_irq good_probe = 0"
  "emb_irq good_probe = 0" "kfifo good_probe sid = 0" "workqueue good_probe" "registered good_probe sid = 0"
  "of_node good_board" "drdy_int_pin good_board = (0, 1)" "of_irq good_board n = 5"
  by (simp_all add: good_probe_def good_board_def)

lemma fresh_probe:
  assumes "quiet env" and "part = 0 \<or> part = 3"
  shows "st_lis2dw12_probe good_probe good_board env 5 part = Some (0, fresh_hw env part)"
proof -
  have bus: "regmap_update_bits env l a m v = 0" "regmap_read env l a = (0, 0x44)"
    "length l \<le> 17 \<Longrightarrow> regmap_bulk_read env l CTRL1_ADDR n = (0, \<lambda>_. 0)"
    "length l \<le> 17 \<Longrightarrow> regmap_bulk_read env l CTRL6_ADDR n = (0, \<lambda>_. 0)" for l a m v n
    using assms(1) by (auto simp: quiet_def)
  define hw1 where "hw1 = (lis_zero_hw env 5)\<lparr>io := [Regmap_read 0x0f],
    settings := Some (st_lis2dw12_sensor_settings ! nat part)\<rparr>"
  have who: "st_lis2dw12_check_whoami part (lis_zero_hw env 5) = Some (0, hw1)"
    using assms(2) by (auto simp: st_lis2dw12_check_whoami_def lis_zero_hw_def Let_def logio_def
        st_lis2dw12_sensor_settings_def hw1_def bus)
  have rate: "fst (odr_table (st_lis2dw12_sensor_settings ! nat part) sid ! 1) = 12" for sid
    using assms(2) settings_rates [of "st_lis2dw12_sensor_settings ! nat part" sid]
    by (auto simp: st_lis2dw12_sensor_settings_def)
  have ident: "hw_id (st_lis2dw12_sensor_settings ! nat part) = part"
    using assms(2) by (auto simp: st_lis2dw12_sensor_settings_def)
  show ?thesis
    unfolding st_lis2dw12_probe_def Let_def who
    using assms(2) rate
    by (auto simp: hw1_def st_lis2dw12_init_hw_def st_lis2dw12_write_with_mask_locked_def
        st_lis2dw12_write_with_mask_def update_bits_def regcache_cache_bypass_def logio_def
        st_lis2dw12_update_fifo_watermark_def st_lis2dw12_get_drdy_pin_def
        st_lis2dw12_of_get_drdy_pin_def Let_def SHIFT_VAL_def lis_zero_hw_def probe_devices_def
        st_lis2dw12_alloc_iiodev_def with_settings_def st_lis2dw12_fifo_setup_def
        st_lis2dw12_fs_table_def st_lis2dw12_event_init_def st_lis2dw12_set_wake_up_thershold_def
        st_lis2dw12_get_xl_fs_def st_lis2dw12_read_with_mask_def st_lis2dw12_read_def
        st_lis2dw12_set_wake_up_duration_def with_rate_def st_lis2dw12_get_default_xl_odr_def
        st_lis2dw12_get_xl_odr_def st_lis2dw12_get_events_def ident st_lis2dw12_events_def
        st_lis2dw12_set_freefall_threshold_def st_lis2dw12_free_fall_threshold_def
        st_lis2dw12_set_6D_threshold_def st_lis2dw12_6D_threshold_def
        st_lis2dw12_allocate_workqueue_def register_devices_def with_sensor_def clamp_u8_def
        field_max_def s32_id fresh_hw_def bus fun_upd_def [symmetric])
qed

lemma fresh_reachable: "quiet env \<Longrightarrow> part = 0 \<or> part = 3 \<Longrightarrow> lis_reachable (fresh_hw env part)"
  by (rule lis_reachable.probed [OF fresh_probe]) simp_all

text \<open>One such bus: everything succeeds, registers read zero, time is the number of accesses.\<close>

definition quiet_env :: lis_env where
  "quiet_env = \<lparr>regmap_update_bits = (\<lambda>_ _ _ _. 0), regmap_bulk_write = (\<lambda>_ _ _. 0),
     regmap_bulk_read = (\<lambda>_ _ _. (0, \<lambda>_. 0)), regmap_read = (\<lambda>_ _. (0, 0x44)),
     regmap_write = (\<lambda>_ _ _. 0), iio_claim_direct = (\<lambda>_. 0), iio_buffer_enabled = (\<lambda>_. False),
     iio_get_time_ns = (\<lambda>l. int (length l)), stack_int = (\<lambda>_. 0),
     G_TO_M_S_2 = (\<lambda>n. word_of_nat (n * 980665 div 100000))\<rparr>"

lemma quiet_quiet_env [simp]: "quiet quiet_env" "quiet (quiet_env\<lparr>regmap_bulk_write := f\<rparr>)"
  "(\<And>l a n. a = CTRL1_ADDR \<or> a = CTRL6_ADDR \<Longrightarrow> length l \<le> 17 \<Longrightarrow> g l a n = (0, \<lambda>_. 0)) \<Longrightarrow> quiet (quiet_env\<lparr>regmap_bulk_read := g\<rparr>)"
  "quiet (quiet_env\<lparr>iio_get_time_ns := t\<rparr>)"
  by (simp_all add: quiet_def quiet_env_def)

lemma quiet_env_simps [simp]:
  "regmap_update_bits quiet_env l a m v = 0" "regmap_bulk_write quiet_env l a b = 0"
  "regmap_bulk_read quiet_env l a n = (0, \<lambda>_. 0)" "iio_claim_direct quiet_env l = 0"
  "iio_buffer_enabled quiet_env l = False" "iio_get_time_ns quiet_env l = int (length l)"
  by (simp_all add: quiet_env_def)

lemma fresh_fields [simp]:
  "kenv (fresh_hw env part) = env" "settings (fresh_hw env part) = Some (st_lis2dw12_sensor_settings ! nat part)"
  "enable_mask (fresh_hw env part) = 0" "enable_ev_mask (fresh_hw env part) = 0"
  "req_odr_events (fresh_hw env part) = 0" "watermark (fresh_hw env part) = 1"
  "length (io (fresh_hw env part)) = 17" "std_level (fresh_hw env part) = 0"
  "samples (fresh_hw env part) = 0"
  "iio_devs (fresh_hw env part) = [ST_LIS2DW12_ID_ACC \<mapsto> \<lparr>gain = ucast (G_TO_M_S_2 env 244), odr = 12\<rparr>,
       ST_LIS2DW12_ID_TEMP \<mapsto> \<lparr>gain = 16, odr = 12\<rparr>]"
  by (simp_all add: fresh_hw_def lis_zero_hw_def)

lemma fresh_settings [simp]: "hw_id (st_lis2dw12_sensor_settings ! 0) = 0"
  "hw_id (st_lis2dw12_sensor_settings ! 3) = 3"
  by (simp_all add: st_lis2dw12_sensor_settings_def)

end
