(* ===== verification/Lis_Props.thy ===== *)
theory Lis_Props
  imports Lis_Reach
begin

text \<open>
  The properties of the accelerometer driver: rates, events, thresholds and durations, the
  FIFO, the self-test and the probe.
\<close>

subsection \<open>Rates\<close>

lemma find_idx_map_of:
  "map_of tab k = (let i = find_idx (\<lambda>e. fst e = k) tab
     in if i = length tab then None else Some (snd (tab ! i)))"
  by (induction tab) (auto simp: Let_def)

text \<open>The rate of the other sensor, when it is enabled.\<close>

definition other_rate :: "st_lis2dw12_hw \<Rightarrow> st_lis2dw12_sensor_id \<Rightarrow> u16" where
  "other_rate hw sid = (if enable_mask hw AND BIT_ID (other_sensor sid) = 0 then 0
     else odr (the (iio_devs hw (other_sensor sid))))"

lemma lis_ok_dev: "lis_ok hw \<Longrightarrow> \<exists>s. iio_devs hw sid = Some s"
  by (cases sid) (auto simp: lis_ok_def)

lemma dependency_rate:
  assumes "lis_ok hw"
  shows "st_lis2dw12_check_odr_dependency hw r (other_sensor sid) = Some (max (other_rate hw sid) r)"
proof -
  obtain s where "iio_devs hw (other_sensor sid) = Some s" using lis_ok_dev [OF assms] by blast
  then show ?thesis
    by (auto simp: st_lis2dw12_check_odr_dependency_def other_rate_def with_sensor_def Let_def
        max_def word_gt_0 split: if_splits)
qed

text \<open>The last part of \<open>st_lis2dw12_set_odr\<close> in terms of the rate table of the part.\<close>

lemma write_odr_table:
  assumes "settings hw = Some stg"
  shows "write_odr stg u md hw = (case map_of (odr_table stg ST_LIS2DW12_ID_ACC) u of
       None \<Rightarrow> Some (- EINVAL, hw)
     | Some code \<Rightarrow>
         (let v = [ctrl1_val code md]; l = Regcache_bypass True # io hw;
              err = regmap_bulk_write (kenv hw) l CTRL1_ADDR v
          in Some (if err < 0 then err else 0,
               hw\<lparr>io := Regcache_bypass False # Regmap_bulk_write CTRL1_ADDR v # l\<rparr>)))"
  using assms find_idx_le [of "\<lambda>e. fst e = u" "odr_table stg ST_LIS2DW12_ID_ACC"]
  by (auto simp: write_odr_def st_lis2dw12_get_odr_idx_def with_settings_def Let_def find_idx_map_of
      st_lis2dw12_write_locked_def regcache_cache_bypass_def logio_def)

lemma set_odr_frame:
  assumes "st_lis2dw12_set_odr sid r hw = Some (e, hw')"
  shows "enable_ev_mask hw' = enable_ev_mask hw \<and> req_odr_events hw' = req_odr_events hw \<and>
    settings hw' = settings hw \<and> kenv hw' = kenv hw"
proof -
  obtain stg dep where "settings hw = Some stg"
    "let (u, md) = odr_mode stg r dep
     in write_odr stg (word_of_int (max (req_odr_events hw) (if 0 < r then uint u else 0))) md hw = Some (e, hw')"
    using assms by (auto simp: st_lis2dw12_set_odr_def with_settings_def bind_eq_Some_conv Let_def case_prod_beta)
  then show ?thesis
    by (auto simp: write_odr_table Let_def case_prod_beta split: option.split_asm)
qed

lemma acc_tables:
  assumes "stg \<in> List.set st_lis2dw12_sensor_settings"
  shows "odr_table stg ST_LIS2DW12_ID_ACC = (if hw_id stg = ST_AIS2DW12_ID then acc_odr_ais2dw12 else acc_odr_9)"
  using assms by (auto simp: st_lis2dw12_sensor_settings_def)

text \<open>C24: The rate programmed by \<open>st_lis2dw12_set_odr\<close> on every part but the AIS2DW12. In every
  reachable state it is the largest of what the enabled events require and, when the request is
  not 0, the request and the rate of the other enabled sensor, but these two are capped at
  100 Hz although the tables of the parts go to 1600. One byte with that rate and the low power
  mode is written to CTRL1, between the two switches of the cache; a rate that is not in the
  table writes nothing and is \<open>-EINVAL\<close>. In particular a request is never answered with more
  than 100 Hz unless a tap event needs it.\<close>

theorem set_odr_caps:
  assumes "lis_reachable hw" and "settings hw = Some stg" and "hw_id stg \<noteq> ST_AIS2DW12_ID"
    and "rate = max (req_odr_events hw)
      (if r = 0 then 0 else min 100 (max (uint r) (uint (other_rate hw sid))))"
  shows "\<exists>e hw'. st_lis2dw12_set_odr sid r hw = Some (e, hw') \<and>
    (case map_of acc_odr_9 (word_of_int rate) of
       None \<Rightarrow> e = - EINVAL \<and> hw' = hw
     | Some code \<Rightarrow> e \<le> 0 \<and> io hw' =
         [Regcache_bypass False, Regmap_bulk_write CTRL1_ADDR [push_bit 4 code OR 1],
          Regcache_bypass True] @ io hw)"
proof -
  have ok: "lis_ok hw" using assms(1) by (rule reachable_lis_ok)
  then have stg: "stg \<in> List.set st_lis2dw12_sensor_settings" using assms(2) by (auto simp: lis_ok_def)
  have md: "snd (odr_mode stg r (max (other_rate hw sid) r)) = LP_MODE_VAL"
    using assms(3) by (simp add: odr_mode_def Let_def)
  have "rate = max (req_odr_events hw) (if 0 < r then uint (fst (odr_mode stg r (max (other_rate hw sid) r))) else 0)"
  proof (cases "r = 0")
    case False
    then have "0 < r" by (simp add: word_gt_0)
    then show ?thesis
      using assms(3,4) False
      by (auto simp: odr_mode_def Let_def max_def min_def word_less_def word_le_def)
  qed (use assms(4) in simp)
  with md have "st_lis2dw12_set_odr sid r hw = write_odr stg (word_of_int rate) LP_MODE_VAL hw"
    using assms(2) dependency_rate [OF ok]
    by (simp add: st_lis2dw12_set_odr_def with_settings_def Let_def case_prod_beta)
  then show ?thesis
    using stg assms(2,3) by (auto simp: write_odr_table acc_tables Let_def ctrl1_val_def split: option.split)
qed

theorem set_odr_caps_witness:
  "\<exists>e hw'. st_lis2dw12_set_odr ST_LIS2DW12_ID_ACC 1600 (fresh_hw quiet_env 0) = Some (e, hw') \<and>
     io hw' = [Regcache_bypass False, Regmap_bulk_write 0x20 [0x51], Regcache_bypass True] @
       io (fresh_hw quiet_env 0)"
  using set_odr_caps [of "fresh_hw quiet_env 0" "st_lis2dw12_sensor_settings ! 0" 100 1600 ST_LIS2DW12_ID_ACC]
    fresh_reachable [of quiet_env 0]
  by (auto simp: other_rate_def acc_odr_9_def)

text \<open>Disabling a sensor powers the part down although the other one is still on. In every
  reachable state without enabled events, switching the buffer of either sensor off writes a
  rate field of 0 (power down) to CTRL1 whatever the mask of enabled sensors says, and then
  clears only its own bit: \<open>st_lis2dw12_set_odr\<close> computes the rate that the other sensor needs
  and discards it when the request is 0.\<close>

theorem disabling_one_stops_both:
  assumes "lis_reachable hw" and "req_odr_events hw = 0"
    and "st_lis2dw12_buffer_postdisable sid hw = Some (e, hw')" and "0 \<le> e"
  shows "\<exists>b pre post. io hw' = pre @ [Regcache_bypass False, Regmap_bulk_write CTRL1_ADDR [b],
      Regcache_bypass True] @ post @ io hw \<and> b AND ODR_MASK = 0 \<and>
    pre = (if sid = ST_LIS2DW12_ID_TEMP then [Hrtimer_cancel, Cancel_work] else []) \<and>
    post = (if sid = ST_LIS2DW12_ID_ACC then [Regmap_update_bits FIFO_CTRL_ADDR FIFOMODE_MASK 0] else []) \<and>
    enable_mask hw' = enable_mask hw AND NOT (BIT_ID sid)"
proof -
  define h where "h = (if sid = ST_LIS2DW12_ID_ACC
    then logio (Regmap_update_bits FIFO_CTRL_ADDR FIFOMODE_MASK 0) hw else hw)"
  have post: "io h = (if sid = ST_LIS2DW12_ID_ACC
    then [Regmap_update_bits FIFO_CTRL_ADDR FIFOMODE_MASK 0] else []) @ io hw"
    by (simp add: h_def logio_def)
  have ok: "lis_ok h" using reachable_lis_ok [OF assms(1)] by (simp add: h_def)
  then obtain stg where stg: "settings h = Some stg" "stg \<in> List.set st_lis2dw12_sensor_settings"
    by (auto simp: lis_ok_def)
  define md where "md = snd (odr_mode stg 0 (max (other_rate h sid) 0))"
  have md: "md \<in> {0, 1}" by (simp add: md_def odr_mode_def Let_def)
  have zero: "map_of (odr_table stg ST_LIS2DW12_ID_ACC) 0 = Some 0"
    using stg(2) by (simp add: acc_tables acc_odr_9_def acc_odr_ais2dw12_def)
  obtain s where s: "iio_devs h sid = Some s" using lis_ok_dev [OF ok] by blast
  have "req_odr_events h = 0" using assms(2) by (simp add: h_def logio_def)
  then have "st_lis2dw12_set_odr sid 0 h = write_odr stg 0 md h"
    using stg(1) dependency_rate [OF ok]
    by (simp add: st_lis2dw12_set_odr_def with_settings_def Let_def case_prod_beta md_def)
  moreover have "chk (st_lis2dw12_set_odr sid 0 h) (\<lambda>hw.
      Some (0, (if sid = ST_LIS2DW12_ID_TEMP then st_lis2dw12_cancel_workqueue hw else hw)
        \<lparr>enable_mask := enable_mask (if sid = ST_LIS2DW12_ID_TEMP then st_lis2dw12_cancel_workqueue hw else hw)
           AND NOT (BIT_ID sid)\<rparr>)) = Some (e, hw')"
    using assms(3,4) s
    by (cases sid) (auto simp: st_lis2dw12_buffer_postdisable_def st_lis2dw12_update_fifo_def
        st_lis2dw12_sensor_set_enable_def with_sensor_def st_lis2dw12_write_with_mask_locked_def
        st_lis2dw12_write_with_mask_def update_bits_def SHIFT_VAL_def h_def Let_def split: if_split_asm)
  moreover have "enable_mask h = enable_mask hw" by (simp add: h_def logio_def)
  moreover have "ctrl1_val 0 md AND ODR_MASK = 0" using md by (auto simp: ctrl1_val_def)
  ultimately show ?thesis
    using assms(4) zero stg(1) post
    by (auto simp: write_odr_table Let_def st_lis2dw12_cancel_workqueue_def logio_def split: if_split_asm)
qed

text \<open>A device with both sensors on: two buffer switches after the probe.\<close>

lemma both_on:
  "\<exists>hw. lis_reachable hw \<and> kenv hw = quiet_env \<and> req_odr_events hw = 0 \<and> enable_mask hw = 3"
proof -
  let ?f = "fresh_hw quiet_env 0"
  obtain h where h: "st_lis2dw12_buffer_preenable ST_LIS2DW12_ID_ACC ?f = Some (0, h)"
    "kenv h = quiet_env" "req_odr_events h = 0" "enable_mask h = 1" "settings h = settings ?f"
    "iio_devs h = iio_devs ?f" "watermark h = 1"
    by (simp add: st_lis2dw12_buffer_preenable_def st_lis2dw12_update_fifo_def Let_def with_sensor_def
        div_s64_def st_lis2dw12_write_with_mask_locked_def st_lis2dw12_write_with_mask_def
        update_bits_def logio_def st_lis2dw12_sensor_set_enable_def st_lis2dw12_set_odr_def
        st_lis2dw12_check_odr_dependency_def with_settings_def odr_mode_def write_odr_table
        st_lis2dw12_sensor_settings_def acc_odr_9_def BIT_ID_def other_sensor_def)
  obtain k where "st_lis2dw12_buffer_preenable ST_LIS2DW12_ID_TEMP h = Some (0, k)"
    "kenv k = quiet_env" "req_odr_events k = 0" "enable_mask k = 3"
    using h(2-)
    by (simp add: st_lis2dw12_buffer_preenable_def st_lis2dw12_update_fifo_def Let_def with_sensor_def
        div_s64_def logio_def st_lis2dw12_sensor_set_enable_def st_lis2dw12_set_odr_def
        st_lis2dw12_check_odr_dependency_def with_settings_def odr_mode_def write_odr_table
        st_lis2dw12_sensor_settings_def acc_odr_9_def BIT_ID_def other_sensor_def)
  moreover have "lis_reachable h"
    using lis_reachable.step [OF fresh_reachable lis_step.preenable [OF h(1)]] by simp
  ultimately show ?thesis
    using lis_reachable.step lis_step.preenable by blast
qed

theorem disabling_one_stops_both_witness:
  "\<exists>hw hw' b. enable_mask hw = 3 \<and>
     st_lis2dw12_buffer_postdisable ST_LIS2DW12_ID_TEMP hw = Some (0, hw') \<and>
     io hw' = [Hrtimer_cancel, Cancel_work, Regcache_bypass False, Regmap_bulk_write 0x20 [b],
       Regcache_bypass True] @ io hw \<and> b AND 0xF0 = 0 \<and> enable_mask hw' = 1"
proof -
  obtain hw where hw: "lis_reachable hw" "kenv hw = quiet_env" "req_odr_events hw = 0" "enable_mask hw = 3"
    using both_on by blast
  have ok: "lis_ok hw" using hw(1) by (rule reachable_lis_ok)
  then obtain stg s where "settings hw = Some stg" "stg \<in> List.set st_lis2dw12_sensor_settings"
    "iio_devs hw ST_LIS2DW12_ID_TEMP = Some s"
    by (auto simp: lis_ok_def)
  then obtain hw' where hw': "st_lis2dw12_buffer_postdisable ST_LIS2DW12_ID_TEMP hw = Some (0, hw')"
    using hw dependency_rate [OF ok, of 0 ST_LIS2DW12_ID_TEMP]
    by (simp add: st_lis2dw12_buffer_postdisable_def st_lis2dw12_update_fifo_def Let_def with_sensor_def
        st_lis2dw12_sensor_set_enable_def st_lis2dw12_set_odr_def with_settings_def case_prod_beta
        write_odr_table acc_tables acc_odr_9_def acc_odr_ais2dw12_def)
  then show ?thesis
    using disabling_one_stops_both [OF hw(1,3) hw'] hw(4)
    by (intro exI [of _ hw] exI [of _ hw']) (auto simp: BIT_ID_def)
qed

text \<open>A temperature rate of 0 is accepted and then faults. The rate table of the temperature
  sensor starts with 0, so writing 0 (or any multiple of 65536) as its sampling frequency
  succeeds in every reachable state, and from then on switching its buffer on divides by zero.
  The accelerometer refuses the same request with \<open>-EINVAL\<close>, because its other table, of the
  settling times, has no entry for it.\<close>

theorem zero_rate_accepted_then_faults:
  assumes "lis_reachable hw" and "iio_claim_direct (kenv hw) (io hw) = 0"
  shows "st_lis2dw12_write_raw ST_LIS2DW12_ID_ACC (65536 * k) v2 IIO_CHAN_INFO_SAMP_FREQ hw = Some (- EINVAL, hw) \<and>
    (\<exists>hw'. st_lis2dw12_write_raw ST_LIS2DW12_ID_TEMP (65536 * k) v2 IIO_CHAN_INFO_SAMP_FREQ hw = Some (0, hw') \<and>
       lis_reachable hw' \<and> st_lis2dw12_buffer_preenable ST_LIS2DW12_ID_TEMP hw' = None)"
proof -
  have ok: "lis_ok hw" using assms(1) by (rule reachable_lis_ok)
  then obtain stg s where stg: "settings hw = Some stg" "stg \<in> List.set st_lis2dw12_sensor_settings"
    and s: "iio_devs hw ST_LIS2DW12_ID_TEMP = Some s"
    by (auto simp: lis_ok_def)
  have zero: "word_of_int (65536 * k) = (0 :: u16)"
    by (simp only: word_of_int_eq_0_iff) simp
  have temp: "odr_table stg ST_LIS2DW12_ID_TEMP = temp_odr_4"
    using stg(2) by (auto simp: st_lis2dw12_sensor_settings_def)
  let ?h = "upd_sensor ST_LIS2DW12_ID_TEMP (odr_update (\<lambda>_. 0)) hw"
  have w: "st_lis2dw12_write_raw ST_LIS2DW12_ID_TEMP (65536 * k) v2 IIO_CHAN_INFO_SAMP_FREQ hw = Some (0, ?h)"
    using assms(2) stg(1) zero temp
    by (simp add: st_lis2dw12_write_raw_def st_lis2dw12_get_odr_idx_def with_settings_def temp_odr_4_def)
  moreover have "st_lis2dw12_buffer_preenable ST_LIS2DW12_ID_TEMP ?h = None"
    using s by (simp add: st_lis2dw12_buffer_preenable_def st_lis2dw12_update_fifo_def with_sensor_def
        upd_sensor_def div_s64_def Let_def)
  moreover have "st_lis2dw12_write_raw ST_LIS2DW12_ID_ACC (65536 * k) v2 IIO_CHAN_INFO_SAMP_FREQ hw =
      Some (- EINVAL, hw)"
    using assms(2) zero
    by (simp add: st_lis2dw12_write_raw_def st_lis2dw12_set_std_level_def st_lis2dw12_std_table_def Let_def)
  ultimately show ?thesis
    using lis_reachable.step [OF assms(1) lis_step.write_raw [OF w]] by blast
qed

theorem zero_rate_accepted_then_faults_witness:
  "\<exists>hw'. st_lis2dw12_write_raw ST_LIS2DW12_ID_TEMP 65536 0 IIO_CHAN_INFO_SAMP_FREQ (fresh_hw quiet_env 0) = Some (0, hw') \<and>
     st_lis2dw12_buffer_preenable ST_LIS2DW12_ID_TEMP hw' = None"
  using zero_rate_accepted_then_faults [of "fresh_hw quiet_env 0" 1 0] fresh_reachable [of quiet_env 0]
  by auto

subsection \<open>Events\<close>

text \<open>The two event tables, and the one a reachable device uses.\<close>

definition events_of :: "int \<Rightarrow> st_lis2dw12_event_t list" where
  "events_of part = snd (st_lis2dw12_events ! (if part = ST_AIS2DW12_ID then 1 else 0))"

lemma get_events_of:
  "settings hw = Some stg \<Longrightarrow> stg \<in> List.set st_lis2dw12_sensor_settings \<Longrightarrow>
   st_lis2dw12_get_events hw = Some (Inr (events_of (hw_id stg)))"
  by (auto simp: st_lis2dw12_get_events_def with_settings_def events_of_def st_lis2dw12_events_def
      st_lis2dw12_sensor_settings_def)

text \<open>The specification: the largest rate that an event of the mask requires.\<close>

definition events_rate :: "st_lis2dw12_event_t list \<Rightarrow> u16 \<Rightarrow> int" where
  "events_rate evs m = fold max (map (\<lambda>i. if bit m i then req_odr (evs ! i) else 0) [0..<5]) 0"

definition switched :: "nat \<Rightarrow> int \<Rightarrow> u16 \<Rightarrow> u16" where
  "switched ev enable m = (if enable = 0 then unset_bit ev m else set_bit ev m)"

lemma event_of_bound: "event_of ty d = Some ev \<Longrightarrow> ev < 5"
  by (auto simp: event_of_def split: if_splits)

lemma idx5: "[0..<5] = [0, 1, 2, 3, 4::nat]"
  by (simp add: upt_rec)

lemma less_5: "(ev :: nat) < 5 \<longleftrightarrow> ev = 0 \<or> ev = 1 \<or> ev = 2 \<or> ev = 3 \<or> ev = 4"
  by auto

text \<open>The loop over the rates alone.\<close>

lemma bit_switched: "i < 5 \<Longrightarrow> bit (switched ev enable m) i \<longleftrightarrow> (if i = ev then enable \<noteq> 0 else bit m i)"
  by (auto simp: switched_def bit_simps)

definition rates_of :: "int \<Rightarrow> int list" where
  "rates_of p = (if p = ST_AIS2DW12_ID then [25, 25, 25, 0, 0] else [25, 25, 25, 400, 400])"

lemma rates_of: "map req_odr (events_of p) = rates_of p"
  by (simp add: rates_of_def events_of_def st_lis2dw12_events_def)

definition rate_step :: "(nat \<Rightarrow> bool) \<Rightarrow> int \<Rightarrow> nat \<Rightarrow> bool \<Rightarrow> nat \<times> int \<Rightarrow> int \<Rightarrow> int" where
  "rate_step on rate ev en ir ret = (case ir of (i, r) \<Rightarrow>
     if r = 0 then ret
     else if on i then (if i = ev \<and> \<not> en then ret else max r (if en then rate else ret))
     else if i = ev then (if en then max r rate else ret) else ret)"

lemma check_steps:
  "fold (check_odr_step hw rate ev enable) (zip is es) ret =
   fold (rate_step (bit (enable_ev_mask hw)) rate ev (enable \<noteq> 0)) (zip is (map req_odr es)) ret"
  by (induction "is" arbitrary: es ret; case_tac es) (auto simp: check_odr_step_def rate_step_def)

lemma loop_max:
  assumes "ev < 5"
  shows "fold (rate_step on (rates_of p ! ev) ev en) (zip [0..<5] (rates_of p)) 0 =
    fold max (map (\<lambda>i. if (if i = ev then en else on i) then rates_of p ! i else 0) [0..<5]) 0"
proof -
  show ?thesis
    using assms unfolding less_5
    by (elim disjE; cases en; cases "p = ST_AIS2DW12_ID"; cases "on 0"; cases "on 1"; cases "on 2";
        cases "on 3"; cases "on 4") (simp_all add: idx5 rates_of_def rate_step_def)
qed
lemma dependency_step_max:
  assumes "ev < 5"
  shows "fold (check_odr_step hw (req_odr (events_of p ! ev)) ev enable) (zip [0..<5] (events_of p)) 0 =
    events_rate (events_of p) (switched ev enable (enable_ev_mask hw))"
proof -
  have len: "length (events_of p) = 5" by (simp add: events_of_def st_lis2dw12_events_def)
  have req: "req_odr (events_of p ! i) = rates_of p ! i" if "i < 5" for i
    using that len by (simp flip: rates_of)
  have "map (\<lambda>i. if bit (switched ev enable (enable_ev_mask hw)) i then req_odr (events_of p ! i) else 0) [0..<5] =
      map (\<lambda>i. if (if i = ev then enable \<noteq> 0 else bit (enable_ev_mask hw) i) then rates_of p ! i else 0) [0..<5]"
    by (simp add: bit_switched req)
  then show ?thesis
    by (simp only: events_rate_def check_steps rates_of req [OF assms] loop_max [OF assms])
qed

text \<open>C28: \<open>st_lis2dw12_check_events_odr_dependency\<close> computes the right rate. Its loop forgets
  what it has accumulated whenever an event is being enabled, but because the events stand in
  the table by increasing rate the result is, in every reachable state and for every event,
  exactly the largest rate required by the events that are enabled after the change.\<close>

theorem events_dependency_is_maximum:
  assumes "lis_reachable hw" and "settings hw = Some stg" and "ev < 5"
  shows "st_lis2dw12_check_events_odr_dependency hw (req_odr (events_of (hw_id stg) ! ev)) ev enable =
    Some (events_rate (events_of (hw_id stg)) (switched ev enable (enable_ev_mask hw)))"
proof -
  have "stg \<in> List.set st_lis2dw12_sensor_settings"
    using reachable_lis_ok [OF assms(1)] assms(2) by (auto simp: lis_ok_def)
  then show ?thesis
    using assms(2,3)
    by (simp add: st_lis2dw12_check_events_odr_dependency_def get_events_of dependency_step_max)
qed

theorem events_dependency_is_maximum_witness:
  "st_lis2dw12_check_events_odr_dependency (fresh_hw quiet_env 0) 400 3 1 = Some 400"
proof -
  show ?thesis
    using events_dependency_is_maximum [of "fresh_hw quiet_env 0" "st_lis2dw12_sensor_settings ! 0" 3 1]
      fresh_reachable [of quiet_env 0]
    by (simp add: events_of_def st_lis2dw12_events_def events_rate_def switched_def idx5 bit_simps)
qed

text \<open>The part of \<open>enable_event\<close> that reaches the mask, for an event the part has.\<close>

lemma manipulate_some:
  "irq_mask e \<noteq> 0 \<Longrightarrow> \<exists>v. st_lis2dw12_manipulate_bit d (irq_mask e) en = Some v"
  by (simp add: st_lis2dw12_manipulate_bit_def Let_def)

lemma enable_event_success:
  assumes "lis_ok hw" and "ev < 5" and "enable_event ev enable hw = Some (e, hw')" and "0 \<le> e"
  shows "\<exists>stg. settings hw = Some stg \<and>
    enable_ev_mask hw' = switched ev enable (enable_ev_mask hw) \<and>
    req_odr_events hw' = events_rate (events_of (hw_id stg)) (enable_ev_mask hw')"
proof -
  obtain stg where stg: "settings hw = Some stg" "stg \<in> List.set st_lis2dw12_sensor_settings"
    using assms(1) by (auto simp: lis_ok_def)
  obtain e1 data h where r: "st_lis2dw12_read CTRL4_INT1_CTRL_ADDR 1 hw = (e1, data, h)"
    using prod_cases3 by blast
  have h: "settings h = Some stg" "enable_ev_mask h = enable_ev_mask hw"
    using r stg(1) by (auto simp: st_lis2dw12_read_def logio_def split: prod.splits)
  let ?evs = "events_of (hw_id stg)"
  obtain v where v: "st_lis2dw12_manipulate_bit (data 0) (irq_mask (?evs ! ev)) enable = Some v"
    using assms(3,4) r stg h
    by (auto simp: enable_event_def get_events_of bind_eq_Some_conv split: if_split_asm)
  obtain e2 k where w: "st_lis2dw12_write_locked CTRL4_INT1_CTRL_ADDR [v] h = (e2, k)" by (cases "st_lis2dw12_write_locked CTRL4_INT1_CTRL_ADDR [v] h")
  have k: "settings k = Some stg" "enable_ev_mask k = enable_ev_mask hw"
    using w h by (auto simp: st_lis2dw12_write_locked_def logio_def)
  let ?rate = "events_rate ?evs (switched ev enable (enable_ev_mask hw))"
  have rate: "st_lis2dw12_check_events_odr_dependency k (req_odr (?evs ! ev)) ev enable = Some ?rate"
    using k stg(2) assms(2)
    by (simp add: st_lis2dw12_check_events_odr_dependency_def get_events_of dependency_step_max)
  obtain e3 m where m: "st_lis2dw12_set_odr ST_LIS2DW12_ID_ACC (word_of_int ?rate)
      (k\<lparr>req_odr_events := ?rate\<rparr>) = Some (e3, m)" "hw' = m\<lparr>enable_ev_mask := switched ev enable (enable_ev_mask m)\<rparr>"
    using assms(3,4) r stg(2) h v w k rate
    by (auto simp: enable_event_def get_events_of switched_def elim!: chk_okE split: if_split_asm)
  have "enable_ev_mask m = enable_ev_mask hw \<and> req_odr_events m = ?rate"
    using set_odr_frame [OF m(1)] k by simp
  then show ?thesis using m(2) stg(1) by simp
qed

text \<open>C11: Switching an event. When a write to an event's enable attribute succeeds in a reachable
  state, the event exists, exactly its bit of the mask of enabled events changes to what was
  asked, the rate kept for the events is the largest one the now enabled events require, and
  the enable attribute of every event reads back accordingly.\<close>

theorem event_switch_consistent:
  assumes "lis_reachable hw" and "0 \<le> e"
    and "st_lis2dw12_write_event_config ct ty d enable hw = Some (e, hw')"
  shows "\<exists>ev stg. ct = IIO_ACCEL \<and> event_of ty d = Some ev \<and> settings hw = Some stg \<and>
    enable_ev_mask hw' = switched ev enable (enable_ev_mask hw) \<and>
    req_odr_events hw' = events_rate (events_of (hw_id stg)) (enable_ev_mask hw') \<and>
    st_lis2dw12_read_event_config IIO_ACCEL ty d hw' = of_bool (enable \<noteq> 0)"
proof -
  have ok: "lis_ok hw" using assms(1) by (rule reachable_lis_ok)
  obtain ev where ev: "ct = IIO_ACCEL" "event_of ty d = Some ev"
    using assms(2,3) by (auto simp: st_lis2dw12_write_event_config_def split: if_split_asm option.split_asm)
  let ?k = "snd (st_lis2dw12_write_with_mask WAKE_UP_THS_ADDR SINGLE_DOUBLE_TAP_MASK (word_of_int enable) hw)"
  obtain h where h: "enable_event ev enable h = Some (e, hw')" "h = hw \<or> h = ?k"
    using assms(2,3) ev
    by (auto simp: st_lis2dw12_write_event_config_def st_lis2dw12_write_with_mask_locked_def case_prod_beta
        elim!: chk_okE split: if_split_asm)
  then have "lis_ok h" "settings h = settings hw" "enable_ev_mask h = enable_ev_mask hw"
    using ok by (auto simp: st_lis2dw12_write_with_mask_def update_bits_def) (simp_all add: logio_def)
  then show ?thesis
    using enable_event_success [OF _ event_of_bound [OF ev(2)] h(1) assms(2)] ev
    by (auto simp: st_lis2dw12_read_event_config_def bit_switched event_of_bound)
qed

lemma fresh_free_fall_on:
  "\<exists>hw'. st_lis2dw12_write_event_config IIO_ACCEL IIO_EV_TYPE_THRESH IIO_EV_DIR_FALLING 1
     (fresh_hw quiet_env 0) = Some (0, hw')"
  by (simp add: st_lis2dw12_write_event_config_def event_of_def enable_event_def st_lis2dw12_read_def
      get_events_of [OF fresh_fields(2)] events_of_def st_lis2dw12_events_def st_lis2dw12_sensor_settings_def
      st_lis2dw12_manipulate_bit_def Let_def st_lis2dw12_write_locked_def logio_def
      st_lis2dw12_get_events_def with_settings_def
      st_lis2dw12_check_events_odr_dependency_def check_odr_step_def idx5 BIT_ID_def
      st_lis2dw12_set_odr_def st_lis2dw12_check_odr_dependency_def odr_mode_def write_odr_table acc_odr_9_def)

theorem event_switch_consistent_witness:
  "\<exists>hw'. st_lis2dw12_write_event_config IIO_ACCEL IIO_EV_TYPE_THRESH IIO_EV_DIR_FALLING 1
     (fresh_hw quiet_env 0) = Some (0, hw') \<and> enable_ev_mask hw' = 1 \<and> req_odr_events hw' = 25"
proof -
  obtain hw' where w: "st_lis2dw12_write_event_config IIO_ACCEL IIO_EV_TYPE_THRESH IIO_EV_DIR_FALLING 1
     (fresh_hw quiet_env 0) = Some (0, hw')"
    using fresh_free_fall_on by blast
  have "enable_ev_mask hw' = switched 0 1 0 \<and> req_odr_events hw' = events_rate (events_of 0) (enable_ev_mask hw')"
    using event_switch_consistent [OF _ _ w] fresh_reachable [of quiet_env 0]
    by (simp add: event_of_def)
  moreover have "switched 0 1 0 = 1" by (simp add: switched_def set_bit_def)
  moreover have "events_rate (events_of 0) 1 = 25"
    by (simp add: events_rate_def events_of_def st_lis2dw12_events_def idx5)
  ultimately show ?thesis using w by simp
qed

text \<open>A failed switch leaves the rate of the events wrong. When the interrupt bit is
  programmed but the write of CTRL1 fails, the call returns the error with the mask of enabled
  events unchanged, but \<open>req_odr_events\<close> already holds the rate of the mask that was asked for,
  so every later rate is computed for an event that is not enabled (or without one that is).\<close>

theorem failed_switch_keeps_rate:
  assumes "lis_reachable hw" and "settings hw = Some stg" and "event_of ty d = Some ev"
    and "ev \<noteq> EVENT_DTAP" and "irq_mask (events_of (hw_id stg) ! ev) \<noteq> 0"
    and "\<And>l. 0 \<le> fst (regmap_bulk_read (kenv hw) l CTRL4_INT1_CTRL_ADDR 1)"
    and "\<And>l v. 0 \<le> regmap_bulk_write (kenv hw) l CTRL4_INT1_CTRL_ADDR v"
    and "\<And>l v. regmap_bulk_write (kenv hw) l CTRL1_ADDR v < 0"
  shows "\<exists>e hw'. st_lis2dw12_write_event_config IIO_ACCEL ty d enable hw = Some (e, hw') \<and> e < 0 \<and>
    enable_ev_mask hw' = enable_ev_mask hw \<and>
    req_odr_events hw' = events_rate (events_of (hw_id stg)) (switched ev enable (enable_ev_mask hw))"
proof -
  let ?evs = "events_of (hw_id stg)"
  let ?rate = "events_rate ?evs (switched ev enable (enable_ev_mask hw))"
  have ok: "lis_ok hw" using assms(1) by (rule reachable_lis_ok)
  have stg: "stg \<in> List.set st_lis2dw12_sensor_settings" using ok assms(2) by (auto simp: lis_ok_def)
  obtain data h where r: "st_lis2dw12_read CTRL4_INT1_CTRL_ADDR 1 hw =
      (fst (regmap_bulk_read (kenv hw) (io hw) CTRL4_INT1_CTRL_ADDR 1), data, h)"
    by (simp add: st_lis2dw12_read_def case_prod_beta)
  have h: "kenv h = kenv hw" "settings h = Some stg" "enable_ev_mask h = enable_ev_mask hw" "lis_ok h"
    using r assms(2) ok ok_read [OF r] by (auto simp: st_lis2dw12_read_def logio_def split: prod.splits)
  obtain v where v: "st_lis2dw12_manipulate_bit (data 0) (irq_mask (?evs ! ev)) enable = Some v"
    using manipulate_some assms(5) by blast
  let ?k = "logio (Regmap_bulk_write CTRL4_INT1_CTRL_ADDR [v]) h"
  have k: "kenv ?k = kenv hw" "settings ?k = Some stg" "enable_ev_mask ?k = enable_ev_mask hw" "lis_ok ?k"
    using h by (simp_all add: logio_def)
  have "st_lis2dw12_check_events_odr_dependency ?k (req_odr (?evs ! ev)) ev enable = Some ?rate"
    using k stg event_of_bound [OF assms(3)]
    by (simp add: st_lis2dw12_check_events_odr_dependency_def get_events_of dependency_step_max)
  moreover obtain e m where m: "st_lis2dw12_set_odr ST_LIS2DW12_ID_ACC (word_of_int ?rate)
      (?k\<lparr>req_odr_events := ?rate\<rparr>) = Some (e, m)"
    using set_odr_returns [of "?k\<lparr>req_odr_events := ?rate\<rparr>"] k(4) by fastforce
  moreover have "e < 0"
  proof -
    obtain u md where "write_odr stg u md (?k\<lparr>req_odr_events := ?rate\<rparr>) = Some (e, m)"
      using m k(2) by (auto simp: st_lis2dw12_set_odr_def with_settings_def bind_eq_Some_conv Let_def
          case_prod_beta)
    then show ?thesis
      using k assms(8) by (auto simp: write_odr_table Let_def split: option.split_asm if_split_asm)
  qed
  moreover have "st_lis2dw12_write_locked CTRL4_INT1_CTRL_ADDR [v] h =
      (regmap_bulk_write (kenv hw) (io h) CTRL4_INT1_CTRL_ADDR [v], ?k)"
    using h by (simp add: st_lis2dw12_write_locked_def)
  moreover have "\<not> fst (regmap_bulk_read (kenv hw) (io hw) CTRL4_INT1_CTRL_ADDR 1) < 0"
    "\<not> regmap_bulk_write (kenv hw) (io h) CTRL4_INT1_CTRL_ADDR [v] < 0"
    using assms(6,7) by (simp_all add: not_less)
  ultimately have "enable_event ev enable hw = Some (e, m) \<and> e < 0"
    using r h stg v by (simp add: enable_event_def get_events_of)
  then show ?thesis
    using assms(3,4) set_odr_frame [OF m] k by (simp add: st_lis2dw12_write_event_config_def)
qed

theorem failed_switch_keeps_rate_witness:
  "\<exists>e hw'. st_lis2dw12_write_event_config IIO_ACCEL IIO_EV_TYPE_GESTURE IIO_EV_DIR_SINGLETAP 1
      (fresh_hw (quiet_env\<lparr>regmap_bulk_write := \<lambda>l a v. if a = 0x20 then -5 else 0\<rparr>) 0) = Some (e, hw') \<and>
    e < 0 \<and> enable_ev_mask hw' = 0 \<and> req_odr_events hw' = 400"
  using failed_switch_keeps_rate [of "fresh_hw (quiet_env\<lparr>regmap_bulk_write := \<lambda>l a v. if a = 0x20 then -5 else 0\<rparr>) 0"
      "st_lis2dw12_sensor_settings ! 0" IIO_EV_TYPE_GESTURE IIO_EV_DIR_SINGLETAP 3 1]
    fresh_reachable [of "quiet_env\<lparr>regmap_bulk_write := \<lambda>l a v. if a = 0x20 then -5 else 0\<rparr>" 0]
  by (simp add: event_of_def events_of_def st_lis2dw12_events_def events_rate_def switched_def idx5
      bit_simps)

end
