(* ===== verification/Lis_Limits.thy ===== *)
theory Lis_Limits
  imports Lis_Reach
begin

text \<open>
  Properties of the accelerometer's full scale, thresholds and durations: which register value
  a requested value becomes.
\<close>

subsection \<open>Clamping and full scale\<close>

lemma clamp_u8_int: "clamp_u8 mx tmp = word_of_int (min (uint mx) (tmp mod 256))"
proof -
  have u: "uint (word_of_int tmp :: u8) = tmp mod 256" by (simp add: uint_word_of_int)
  then have "word_of_int (tmp mod 256) = (word_of_int tmp :: u8)" by (metis word_of_int_uint)
  with u show ?thesis
    by (auto simp: clamp_u8_def Let_def min_def word_less_def)
qed

lemma xl_fs_values:
  assumes "st_lis2dw12_get_xl_fs hw = (e, Some fs, h)"
  shows "\<exists>i<4. fs = [2, 4, 8, 16] ! i"
proof -
  obtain f where f: "st_lis2dw12_read_with_mask CTRL6_ADDR FS_MASK hw = (e, Some f, h)" "fs = [2, 4, 8, 16] ! unat f"
    using assms by (auto simp: st_lis2dw12_get_xl_fs_def split: prod.split_asm)
  then obtain d where "f = drop_bit 4 (d AND 0x30)"
    by (auto simp: st_lis2dw12_read_with_mask_def split: prod.split_asm if_split_asm)
  then have "unat f < 2 ^ 2" using fs_field.get_bound by blast
  then show ?thesis using f(2) by auto
qed

lemma less_4: "(i :: nat) < 4 \<longleftrightarrow> i = 0 \<or> i = 1 \<or> i = 2 \<or> i = 3"
  by auto

lemma fs_entry: "i < 4 \<Longrightarrow> snd (st_lis2dw12_fs_table env ST_LIS2DW12_ID_ACC ! i) = word_of_nat i"
  unfolding less_4 by (auto simp: st_lis2dw12_fs_table_def)

text \<open>C32: Full scale round trip and the reported scale. On a bus where the field of CTRL6 reads
  back what was last written to it, a successful \<open>st_lis2dw12_set_fs\<close> programs the first entry
  of the table that is not below the request, so that \<open>st_lis2dw12_get_xl_fs\<close> returns that
  entry's full scale, 2, 4, 8 or 16 g. The sensor, however, keeps the request itself as its
  gain, and the scale attribute reports it, although the part now measures with the scale of the
  table entry.\<close>

theorem full_scale_round_trip:
  assumes "lis_reachable hw"
    and "st_lis2dw12_set_fs ST_LIS2DW12_ID_ACC g hw = Some (e, hw')" and "0 \<le> e"
    and "\<And>v. fst (regmap_bulk_read (kenv hw) (Regmap_update_bits CTRL6_ADDR FS_MASK v # io hw) CTRL6_ADDR 1) = 0 \<and>
      snd (regmap_bulk_read (kenv hw) (Regmap_update_bits CTRL6_ADDR FS_MASK v # io hw) CTRL6_ADDR 1) 0 =
      mask_put FS_MASK v (snd (regmap_bulk_read (kenv hw) (io hw) CTRL6_ADDR 1) 0)"
  shows "\<exists>i<4. ucast g \<le> fst (st_lis2dw12_fs_table (kenv hw) ST_LIS2DW12_ID_ACC ! i) \<and>
    (\<forall>j<i. fst (st_lis2dw12_fs_table (kenv hw) ST_LIS2DW12_ID_ACC ! j) < ucast g) \<and>
    fst (snd (st_lis2dw12_get_xl_fs hw')) = Some (2 * 2 ^ i) \<and>
    st_lis2dw12_read_raw ST_LIS2DW12_ID_ACC IIO_ACCEL a IIO_CHAN_INFO_SCALE hw' =
      Some (IIO_VAL_INT_PLUS_MICRO, Some (0, uint g), hw')"
proof -
  let ?tab = "st_lis2dw12_fs_table (kenv hw) ST_LIS2DW12_ID_ACC"
  let ?P = "\<lambda>e. fst e \<ge> (ucast g :: u32)"
  define i where "i = find_idx ?P ?tab"
  have len: "length ?tab = 4" by (simp add: st_lis2dw12_fs_table_def)
  have i: "i < 4"
    using assms(2,3) find_idx_le [of ?P ?tab] len
    by (auto simp: st_lis2dw12_set_fs_def Let_def i_def le_less)
  let ?v = "SHIFT_VAL (word_of_nat i) 0x30"
  let ?h = "logio (Regmap_update_bits CTRL6_ADDR FS_MASK ?v) hw"
  have hw': "hw' = upd_sensor ST_LIS2DW12_ID_ACC (gain_update (\<lambda>_. g)) ?h"
    using assms(2,3) i len fs_entry [OF i]
    by (auto simp: st_lis2dw12_set_fs_def Let_def i_def [symmetric] st_lis2dw12_write_with_mask_locked_def
        st_lis2dw12_write_with_mask_def update_bits_def split: if_split_asm)
  obtain s where "iio_devs hw ST_LIS2DW12_ID_ACC = Some s"
    using reachable_lis_ok [OF assms(1)] by (auto simp: lis_ok_def)
  then have scale: "st_lis2dw12_read_raw ST_LIS2DW12_ID_ACC IIO_ACCEL a IIO_CHAN_INFO_SCALE hw' =
      Some (IIO_VAL_INT_PLUS_MICRO, Some (0, uint g), hw')"
    by (simp add: hw' st_lis2dw12_read_raw_def with_sensor_def upd_sensor_def logio_def)
  let ?old = "snd (regmap_bulk_read (kenv hw) (io hw) CTRL6_ADDR 1) 0"
  have "drop_bit 4 (mask_put 0x30 ?v ?old AND 0x30) = word_of_nat i"
  proof -
    have "drop_bit 4 (mask_put 0x30 ?v ?old AND 0x30) = take_bit 2 (word_of_nat i)"
      using fs_field.get_put [of "word_of_nat i" ?old] by (simp add: SHIFT_VAL_put)
    then show ?thesis using i unfolding less_4 by auto
  qed
  then have "fst (snd (st_lis2dw12_get_xl_fs hw')) = Some ([2, 4, 8, 16] ! unat (word_of_nat i :: u8))"
    using assms(4) [of ?v]
    by (simp add: hw' st_lis2dw12_get_xl_fs_def st_lis2dw12_read_with_mask_def st_lis2dw12_read_def
        upd_sensor_def logio_def case_prod_beta)
  moreover have "[2, 4, 8, 16] ! unat (word_of_nat i :: u8) = (2 * 2 ^ i :: int)"
    using i unfolding less_4 by auto
  ultimately have "fst (snd (st_lis2dw12_get_xl_fs hw')) = Some (2 * 2 ^ i)" by simp
  moreover have "ucast g \<le> fst (?tab ! i)"
    using find_idx_hit [of ?P ?tab] i len by (simp add: i_def)
  moreover have "\<forall>j<i. fst (?tab ! j) < ucast g"
    using find_idx_before [of _ ?P ?tab] by (simp add: i_def not_le)
  ultimately show ?thesis using i scale by blast
qed

text \<open>A bus whose registers start at 0 and read back the last field written to them.\<close>

definition readback_env :: lis_env where
  "readback_env = quiet_env\<lparr>regmap_bulk_read := \<lambda>l a n. (0, \<lambda>_. case l of
     Regmap_update_bits b m v # _ \<Rightarrow> if 17 < length l \<and> a = b then mask_put m v 0 else 0 | _ \<Rightarrow> 0)\<rparr>"

lemma readback_quiet: "quiet readback_env"
  unfolding readback_env_def by (rule quiet_quiet_env(3)) (auto split: list.split lis_io.split)

lemma readback_simps [simp]:
  "17 \<le> length l \<Longrightarrow> regmap_bulk_read readback_env (Regmap_update_bits b m v # l) a n =
     (0, \<lambda>_. if a = b then mask_put m v 0 else 0)"
  "length l \<le> 17 \<Longrightarrow> regmap_bulk_read readback_env l a n = (0, \<lambda>_. 0)"
  "regmap_update_bits readback_env l a m v = 0"
  by (auto simp: readback_env_def split: list.split lis_io.split)

theorem full_scale_round_trip_witness:
  "\<exists>hw'. st_lis2dw12_set_fs ST_LIS2DW12_ID_ACC 3000 (fresh_hw readback_env 0) = Some (0, hw') \<and>
     fst (snd (st_lis2dw12_get_xl_fs hw')) = Some 4 \<and>
     st_lis2dw12_read_raw ST_LIS2DW12_ID_ACC IIO_ACCEL 0 IIO_CHAN_INFO_SCALE hw' =
       Some (IIO_VAL_INT_PLUS_MICRO, Some (0, 3000), hw')"
proof -
  let ?f = "fresh_hw readback_env 0"
  have reach: "lis_reachable ?f" using fresh_reachable readback_quiet by blast
  have tab: "st_lis2dw12_fs_table readback_env ST_LIS2DW12_ID_ACC = [(2392, 0), (4785, 1), (9571, 2), (19142, 3)]"
    by (simp add: st_lis2dw12_fs_table_def readback_env_def quiet_env_def)
  then obtain hw' where w: "st_lis2dw12_set_fs ST_LIS2DW12_ID_ACC 3000 ?f = Some (0, hw')"
    by (simp add: st_lis2dw12_set_fs_def st_lis2dw12_write_with_mask_locked_def
        st_lis2dw12_write_with_mask_def update_bits_def)
  obtain i where i: "i < 4" "3000 \<le> fst (st_lis2dw12_fs_table readback_env ST_LIS2DW12_ID_ACC ! i)"
    "\<forall>j<i. fst (st_lis2dw12_fs_table readback_env ST_LIS2DW12_ID_ACC ! j) < 3000"
    "fst (snd (st_lis2dw12_get_xl_fs hw')) = Some (2 * 2 ^ i)"
    "st_lis2dw12_read_raw ST_LIS2DW12_ID_ACC IIO_ACCEL 0 IIO_CHAN_INFO_SCALE hw' =
       Some (IIO_VAL_INT_PLUS_MICRO, Some (0, 3000), hw')"
    using full_scale_round_trip [OF reach w, of 0] by auto
  have "i = 1"
    using i(1-3) unfolding less_4 tab by (auto dest: spec [of _ 1])
  with i w show ?thesis by simp
qed

subsection \<open>Thresholds\<close>

lemma sdiv_scale:
  assumes "0 \<le> mg" and "mg * k < 2 ^ 31" and "0 < fs" and "0 \<le> k"
  shows "s32 (mg * k) sdiv (fs * 1000) = mg * k div (fs * 1000)"
proof -
  have "0 \<le> mg * k" using assms by simp
  then have "s32 (mg * k) = mg * k" using assms(2) by (intro s32_id) auto
  then show ?thesis using assms \<open>0 \<le> mg * k\<close> by (simp add: sdiv_nonneg)
qed

lemma shift_full_field:
  assumes "x \<in> {0..63}"
  shows "SHIFT_VAL (word_of_int x) 0x3F = word_of_int x"
proof -
  have m: "SHIFT_VAL v 0x3F = take_bit 6 v" for v
    by (simp add: SHIFT_VAL_def take_bit_eq_mask mask_eq_exp_minus_1)
  have "uint (word_of_int x :: u8) = x" using assms by (simp add: uint_word_of_int)
  then have "take_bit 6 (uint (word_of_int x :: u8)) = uint (word_of_int x :: u8)"
    using assms by (simp add: take_bit_int_eq_self)
  then have "take_bit 6 (word_of_int x :: u8) = word_of_int x"
    by (metis unsigned_take_bit_eq word_eq_iff_unsigned)
  then show ?thesis by (simp add: m)
qed

text \<open>The wake-up threshold in force. For a full scale of \<open>fs\<close> g and a request of
  \<open>mg\<close> milli-g the register receives \<open>mg * 64 / (fs * 1000)\<close> modulo 256, then clamped to 63,
  because the quotient is stored in a byte before it is clamped. Up to four times the full scale
  this is the clamped quotient; at four times the full scale it falls back to 0, the most
  sensitive setting, and the attribute still shows the request.\<close>

theorem wake_up_threshold_wraps:
  assumes "st_lis2dw12_get_xl_fs hw = (0, Some fs, h)" and "0 \<le> mg" and "mg < 2 ^ 25"
    and "v = min 63 (mg * 64 div (fs * 1000) mod 256)"
  shows "st_lis2dw12_set_wake_up_thershold mg hw =
      chk (Some (update_bits WAKE_UP_THS_ADDR WAKE_UP_THS_MASK (word_of_int v) h))
        (\<lambda>hw. Some (0, hw\<lparr>wk_th_mg := word_of_int mg\<rparr>)) \<and>
    (mg < 4000 * fs \<longrightarrow> v = min 63 (mg * 64 div (fs * 1000))) \<and> (mg = 4000 * fs \<longrightarrow> v = 0)"
proof (intro conjI)
  have fs: "fs \<in> {2, 4, 8, 16}" using xl_fs_values [OF assms(1)] unfolding less_4 by auto
  have "s32 (mg * 64) sdiv (fs * 1000) = mg * 64 div (fs * 1000)"
    using fs assms(2,3) by (intro sdiv_scale) auto
  moreover have "v \<in> {0..63}" using assms(4) by auto
  moreover have "uint (field_max WAKE_UP_THS_MASK) = 63" by (simp add: field_max_def)
  ultimately show "st_lis2dw12_set_wake_up_thershold mg hw =
      chk (Some (update_bits WAKE_UP_THS_ADDR WAKE_UP_THS_MASK (word_of_int v) h))
        (\<lambda>hw. Some (0, hw\<lparr>wk_th_mg := word_of_int mg\<rparr>))"
    using assms(1,4)
    by (simp add: st_lis2dw12_set_wake_up_thershold_def Let_def clamp_u8_int shift_full_field
        st_lis2dw12_write_with_mask_locked_def st_lis2dw12_write_with_mask_def)
  show "mg < 4000 * fs \<longrightarrow> v = min 63 (mg * 64 div (fs * 1000))"
    using fs assms(2,4) by auto
  show "mg = 4000 * fs \<longrightarrow> v = 0"
    using fs assms(4) by auto
qed

theorem wake_up_threshold_wraps_witness:
  "\<exists>h. st_lis2dw12_get_xl_fs (fresh_hw quiet_env 0) = (0, Some 2, h) \<and>
     st_lis2dw12_set_wake_up_thershold 8000 (fresh_hw quiet_env 0) =
       Some (0, (snd (update_bits 0x34 0x3F 0 h))\<lparr>wk_th_mg := 8000\<rparr>)"
proof -
  let ?h = "logio (Regmap_bulk_read 0x25 1) (fresh_hw quiet_env 0)"
  have "st_lis2dw12_get_xl_fs (fresh_hw quiet_env 0) = (0, Some 2, ?h)"
    by (simp add: st_lis2dw12_get_xl_fs_def st_lis2dw12_read_with_mask_def st_lis2dw12_read_def)
  then show ?thesis
    using wake_up_threshold_wraps [of "fresh_hw quiet_env 0" 2 ?h 8000 0]
    by (simp add: update_bits_def) (simp add: logio_def)
qed

text \<open>The free-fall and 6D thresholds. Both search their table for the first entry that is
  not above the request. The table of angles descends, so the 6D search programs the code of the
  largest listed angle not above the request and refuses angles below 50 degrees. The table of
  free-fall thresholds ascends, so its search stops at the first entry, 156 mg, for every
  request from there on: all of them program code 0, negative ones included, and the other
  seven entries are unreachable.\<close>

theorem threshold_searches:
  "st_lis2dw12_set_freefall_threshold mg hw =
     (if (word_of_int mg :: u32) < 156 then Some (- EINVAL, hw)
      else chk (st_lis2dw12_write_with_mask_locked FREE_FALL_ADDR FREE_FALL_THS_MASK 0 hw)
        (\<lambda>hw. Some (0, hw\<lparr>freefall_threshold := word_of_int mg\<rparr>))) \<and>
   st_lis2dw12_set_6D_threshold deg hw =
     (if deg < 50 then Some (- EINVAL, hw)
      else chk (st_lis2dw12_write_with_mask_locked TAP_THS_X_ADDR SIXD_THS_MASK
                  (word_of_int (8 - min 8 (deg div 10))) hw)
        (\<lambda>hw. Some (0, hw\<lparr>sixD_threshold := word_of_int deg\<rparr>)))"
proof
  have "(word_of_int mg :: u32) < 156 \<Longrightarrow> \<not> c \<le> (word_of_int mg :: u32)" if "156 \<le> c" for c
    using that by (meson leD order_less_le_trans)
  then show "st_lis2dw12_set_freefall_threshold mg hw =
     (if (word_of_int mg :: u32) < 156 then Some (- EINVAL, hw)
      else chk (st_lis2dw12_write_with_mask_locked FREE_FALL_ADDR FREE_FALL_THS_MASK 0 hw)
        (\<lambda>hw. Some (0, hw\<lparr>freefall_threshold := word_of_int mg\<rparr>)))"
    by (simp add: st_lis2dw12_set_freefall_threshold_def st_lis2dw12_free_fall_threshold_def Let_def not_less)
  have "deg < 50 \<or> deg div 10 = 5 \<and> 50 \<le> deg \<and> deg < 60 \<or> deg div 10 = 6 \<and> 60 \<le> deg \<and> deg < 70 \<or>
      deg div 10 = 7 \<and> 70 \<le> deg \<and> deg < 80 \<or> 8 \<le> deg div 10 \<and> 80 \<le> deg"
    by presburger
  then show "st_lis2dw12_set_6D_threshold deg hw =
     (if deg < 50 then Some (- EINVAL, hw)
      else chk (st_lis2dw12_write_with_mask_locked TAP_THS_X_ADDR SIXD_THS_MASK
                  (word_of_int (8 - min 8 (deg div 10))) hw)
        (\<lambda>hw. Some (0, hw\<lparr>sixD_threshold := word_of_int deg\<rparr>)))"
    by (elim disjE conjE) (simp_all add: st_lis2dw12_set_6D_threshold_def st_lis2dw12_6D_threshold_def Let_def)
qed

subsection \<open>Durations\<close>

text \<open>Event durations fault while the accelerometer runs. In every reachable state in which
  CTRL1 reads a non-zero rate field, writing the wake-up period, the quiet time of a tap or the
  latency of a double tap dereferences a wild pointer: the probe computed
  \<open>hw->odr_entry\<close> from \<open>hw->settings\<close> before that was assigned, and no operation
  repairs it.\<close>

theorem durations_fault_when_running:
  assumes "lis_reachable hw" and "regmap_bulk_read (kenv hw) (io hw) CTRL1_ADDR 1 = (0, d)"
    and "d 0 AND ODR_MASK \<noteq> 0"
  shows "st_lis2dw12_write_event_value IIO_ACCEL IIO_EV_TYPE_THRESH IIO_EV_DIR_RISING IIO_EV_INFO_PERIOD ms hw = None \<and>
    st_lis2dw12_write_event_value IIO_ACCEL IIO_EV_TYPE_GESTURE IIO_EV_DIR_SINGLETAP IIO_EV_INFO_RESET_TIMEOUT ms hw = None \<and>
    st_lis2dw12_write_event_value IIO_ACCEL IIO_EV_TYPE_GESTURE IIO_EV_DIR_DOUBLETAP IIO_EV_INFO_TAP2_MIN_DELAY ms hw = None"
proof -
  have "drop_bit 4 (d 0 AND 0xF0) \<noteq> 0"
    using assms(3) odr_field.get_zero by simp
  moreover have "odr_entry hw = None" using reachable_lis_ok [OF assms(1)] by (simp add: lis_ok_def)
  ultimately have "with_rate ev hw k = None" for ev k
    using assms(2)
    by (simp add: with_rate_def st_lis2dw12_get_default_xl_odr_def st_lis2dw12_get_xl_odr_def
        st_lis2dw12_read_with_mask_def st_lis2dw12_read_def logio_def)
  then show ?thesis
    by (simp add: st_lis2dw12_write_event_value_def event_of_def st_lis2dw12_set_wake_up_duration_def
        st_lis2dw12_set_tap_quiet_time_def st_lis2dw12_set_dtap_duration_def)
qed

text \<open>A bus whose registers read 0x50 once the probe is over.\<close>

definition running_env :: lis_env where
  "running_env = quiet_env\<lparr>regmap_bulk_read := \<lambda>l a n. (0, \<lambda>_. if length l \<le> 17 then 0 else 0x50)\<rparr>"

lemma running_quiet: "quiet running_env"
  unfolding running_env_def by (rule quiet_quiet_env(3)) simp

theorem durations_fault_when_running_witness:
  "\<exists>hw. lis_reachable hw \<and>
     st_lis2dw12_write_event_value IIO_ACCEL IIO_EV_TYPE_THRESH IIO_EV_DIR_RISING IIO_EV_INFO_PERIOD 500 hw = None"
proof -
  let ?hw = "st_lis2dw12_temp_poll_function_read (fresh_hw running_env 0)"
  have r: "lis_reachable ?hw"
    using fresh_reachable [OF running_quiet, of 0] lis_reachable.step lis_step.temp_timer by blast
  have "regmap_bulk_read (kenv ?hw) (io ?hw) 0x20 1 = (0, \<lambda>_. 0x50)"
    by (simp add: st_lis2dw12_temp_poll_function_read_def logio_def running_env_def)
  then show ?thesis
    using durations_fault_when_running [OF r, of "\<lambda>_. 0x50" 500] r by auto
qed

end
