(* ===== verification/Lis_Fifo.thy ===== *)
theory Lis_Fifo
  imports Lis_Reach
begin

text \<open>
  Properties of the accelerometer's run time: the FIFO and its time base, the operations that
  cannot fault, the event handler, the self-test and the probe.
\<close>

subsection \<open>Operations that cannot fault\<close>

text \<open>\<open>good I r\<close>: there is a result, and its state satisfies \<open>I\<close>.\<close>

definition good :: "('s \<Rightarrow> bool) \<Rightarrow> 's res \<Rightarrow> bool" where
  "good I r \<longleftrightarrow> (\<exists>e t. r = Some (e, t) \<and> I t)"

named_theorems good_intro \<open>operations that return and keep the invariant\<close>

lemma good_Some [good_intro]: "I t \<Longrightarrow> good I (Some (e, t))"
  by (simp add: good_def)

lemma good_chk [good_intro]: "good I r \<Longrightarrow> (\<And>s. I s \<Longrightarrow> good I (k s)) \<Longrightarrow> good I (chk r k)"
  by (auto simp: good_def chk_def)

lemma good_andthen [good_intro]: "good I r \<Longrightarrow> (\<And>e s. I s \<Longrightarrow> good I (k e s)) \<Longrightarrow> good I (andthen r k)"
  by (auto simp: good_def andthen_def)

lemma good_if [good_intro]: "(c \<Longrightarrow> good I a) \<Longrightarrow> (\<not> c \<Longrightarrow> good I b) \<Longrightarrow> good I (if c then a else b)"
  by simp

lemma good_returns: "rok I r \<Longrightarrow> r \<noteq> None \<Longrightarrow> good I r"
  by (auto simp: rok_def good_def)

lemma good_mask [good_intro]:
  "lis_ok hw \<Longrightarrow> good lis_ok (st_lis2dw12_write_with_mask_locked addr m v hw)"
  by (rule good_returns [OF ok_mask_locked]) (simp_all add: st_lis2dw12_write_with_mask_locked_def)

lemma good_set_odr [good_intro]: "lis_ok hw \<Longrightarrow> good lis_ok (st_lis2dw12_set_odr sid r hw)"
  using set_odr_returns by (intro good_returns ok_set_odr) fastforce+

lemma good_read_fifo [good_intro]: "lis_ok hw \<Longrightarrow> good lis_ok (st_lis2dw12_read_fifo hw)"
  using read_fifo_returns by (intro good_returns ok_read_fifo) fastforce+

lemma good_fifo_mode [good_intro]: "lis_ok hw \<Longrightarrow> good lis_ok (st_lis2dw12_set_fifo_mode v hw)"
  unfolding st_lis2dw12_set_fifo_mode_def by (intro good_intro)

lemma good_flush [good_intro]:
  "lis_ok hw \<Longrightarrow> good lis_ok (st_lis2dw12_flush_fifo sz hw)"
  "lis_ok hw \<Longrightarrow> good lis_ok (st_lis2dw12_flush_fifo_during_resume hw)"
  "lis_ok hw \<Longrightarrow> good lis_ok (st_lis2dw12_suspend_fifo hw)"
  unfolding st_lis2dw12_flush_fifo_def st_lis2dw12_flush_fifo_during_resume_def
    st_lis2dw12_suspend_fifo_def Let_def
  by (intro good_intro; simp)+

lemma good_wake_up [good_intro]: "lis_ok hw \<Longrightarrow> good lis_ok (st_lis2dw12_configure_wake_up hw)"
proof (rule good_returns [OF ok_configure_wake_up])
  assume "lis_ok hw"
  then obtain stg where "settings hw = Some stg" by (auto simp: lis_ok_def)
  then show "st_lis2dw12_configure_wake_up hw \<noteq> None"
    by (simp add: st_lis2dw12_configure_wake_up_def upd_bits_def update_bits_def with_settings_def
        regcache_cache_bypass_def logio_def Let_def)
qed

lemma good_power [good_intro]:
  assumes "lis_ok hw"
  shows "good lis_ok (st_lis2dw12_suspend w hw)" and "good lis_ok (st_lis2dw12_resume w hw)"
proof -
  have s: "lis_ok h \<Longrightarrow> good lis_ok (suspend_sensor sid h)" for sid h
    unfolding suspend_sensor_def by (intro good_intro)
  show "good lis_ok (st_lis2dw12_suspend w hw)"
    using assms unfolding st_lis2dw12_suspend_def Let_def by (intro good_intro s) simp_all
  have r: "lis_ok h \<Longrightarrow> good lis_ok (resume_sensor sid h)" for sid h
    unfolding resume_sensor_def by (auto intro!: good_intro split: option.splits)
  have d: "lis_ok (snd (snd (st_lis2dw12_read a n h))) = lis_ok h" for a n h
    by (simp add: st_lis2dw12_read_def case_prod_beta)
  show "good lis_ok (st_lis2dw12_resume w hw)"
    using assms unfolding st_lis2dw12_resume_def Let_def by (intro good_intro r) (simp_all add: d)
qed

lemma good_thread [good_intro]: "lis_ok hw \<Longrightarrow> good lis_ok (st_lis2dw12_handler_thread hw)"
proof -
  assume ok: "lis_ok hw"
  obtain e d h where r: "st_lis2dw12_read STATUS_ADDR 1 hw = (e, d, h)" using prod_cases3 by blast
  have "lis_ok h" using ok_read [OF r] ok by simp
  then show ?thesis
    unfolding st_lis2dw12_handler_thread_def r prod.case
    by (intro good_intro) (simp_all add: ok_event_handler)
qed

text \<open>C13: The run time of the driver cannot fault. After a successful probe and any sequence of
  calls the watermark is between 1 and 31, and then reading, flushing and suspending the FIFO,
  the interrupt thread, programming a rate, and the suspend and resume of the device all
  return: the divisor of the sample period is never 0, and no pointer they use is null, whatever
  the bus answers. (The durations of the events and the temperature rate are the exceptions,
  shown elsewhere.)\<close>

theorem run_time_returns:
  assumes "lis_reachable hw"
  shows "watermark hw \<in> {1..31} \<and> st_lis2dw12_read_fifo hw \<noteq> None \<and> st_lis2dw12_flush_fifo sz hw \<noteq> None \<and>
    st_lis2dw12_handler_thread hw \<noteq> None \<and> st_lis2dw12_set_odr sid r hw \<noteq> None \<and>
    st_lis2dw12_suspend w hw \<noteq> None \<and> st_lis2dw12_resume w hw \<noteq> None"
proof -
  have ok: "lis_ok hw" using assms by (rule reachable_lis_ok)
  have ne: "good lis_ok r \<Longrightarrow> r \<noteq> None" for r by (auto simp: good_def)
  have "watermark hw \<in> {1..31}" using ok by (auto simp: lis_ok_def)
  then show ?thesis
    using ok by (intro conjI ne good_intro) auto
qed

theorem run_time_returns_witness:
  "st_lis2dw12_read_fifo (fresh_hw quiet_env 0) \<noteq> None \<and>
   st_lis2dw12_resume True (fresh_hw quiet_env 0) \<noteq> None"
  using run_time_returns [of "fresh_hw quiet_env 0"] fresh_reachable [of quiet_env 0] by simp

subsection \<open>Time base\<close>

lemma ewma_120:
  assumes "\<bar>new - old\<bar> < 2 ^ 58" and "\<bar>old\<bar> < 2 ^ 61" and "\<bar>new\<bar> < 2 ^ 61"
  shows "st_lis2dw12_ewma old new 120 = old + sgn (new - old) * (\<bar>new - old\<bar> div 16)"
proof -
  let ?d = "new - old"
  have d: "s64 ?d = ?d" using assms(1) by (intro s64_id) auto
  have m: "s64 (8 * ?d) = 8 * ?d" using assms(1) by (intro s64_id) auto
  have q: "(8 * d) sdiv 128 = sgn d * (\<bar>d\<bar> div 16)" for d :: int
  proof -
    have "\<bar>8 * d\<bar> div 128 = \<bar>d\<bar> div 16" by (simp add: abs_mult zdiv_zmult2_eq)
    then show ?thesis by (simp add: signed_divide_int_def sgn_mult)
  qed
  have b: "0 \<le> \<bar>?d\<bar> div 16" "\<bar>?d\<bar> div 16 \<le> \<bar>?d\<bar>" by (auto simp: div_le_dividend) 
  then have s: "\<bar>sgn ?d * (\<bar>?d\<bar> div 16)\<bar> \<le> \<bar>?d\<bar>" by (simp add: abs_mult abs_sgn_eq)
  define y where "y = sgn ?d * (\<bar>?d\<bar> div 16)"
  have y: "\<bar>y\<bar> < 2 ^ 58" using s assms(1) unfolding y_def by (rule order_le_less_trans)
  then have "s64 y = y" by (intro s64_id) auto
  moreover have "s64 (old + y) = old + y" using y assms(2) by (intro s64_id) auto
  moreover have e: "(128 - 120) * ?d = 8 * ?d" by simp
  ultimately show ?thesis
    unfolding st_lis2dw12_ewma_def Let_def d e m q y_def [symmetric] by simp
qed

text \<open>The estimate of the interrupt period. Each interrupt moves the estimate towards the
  interval since the previous interrupt by a sixteenth of the distance, rounded towards zero: it
  never overshoots, the distance to a constant interval shrinks until it is below 16 ns and then
  stays, and the time of the interrupt is recorded. The bounds exclude the wrap-around of the
  64-bit arithmetic (they are more than nine years).\<close>

theorem period_estimate:
  assumes "t = iio_get_time_ns (kenv hw) (io hw)" and "p = t - ts_irq hw"
    and "0 \<le> p" and "p < 2 ^ 58" and "0 \<le> delta_ts hw" and "delta_ts hw < 2 ^ 58"
    and "st_lis2dw12_handler_irq hw = (r, hw')"
  shows "r = IRQ_WAKE_THREAD \<and> ts_irq hw' = t \<and>
    \<bar>delta_ts hw' - p\<bar> = \<bar>delta_ts hw - p\<bar> - \<bar>delta_ts hw - p\<bar> div 16 \<and>
    min (delta_ts hw) p \<le> delta_ts hw' \<and> delta_ts hw' \<le> max (delta_ts hw) p"
proof -
  let ?d = "p - delta_ts hw"
  have "s64 p = p" using assms(3,4) by (intro s64_id) auto
  moreover have "\<bar>?d\<bar> < 2 ^ 58" using assms(3-6) by linarith
  ultimately have e: "delta_ts hw' = delta_ts hw + sgn ?d * (\<bar>?d\<bar> div 16)"
    and r: "r = IRQ_WAKE_THREAD" "ts_irq hw' = t"
    using assms ewma_120 [of p "delta_ts hw"]
    by (auto simp: st_lis2dw12_handler_irq_def Let_def st_lis2dw12_get_timestamp_def)
  have b: "0 \<le> \<bar>?d\<bar> div 16" "\<bar>?d\<bar> div 16 \<le> \<bar>?d\<bar>" by (auto simp: div_le_dividend)
  have "\<bar>delta_ts hw - p\<bar> = \<bar>?d\<bar>" by simp
  then show ?thesis
    using b r unfolding e by (cases "?d > 0"; cases "?d = 0") (auto simp: sgn_if)
qed

theorem period_estimate_witness:
  "delta_ts (snd (st_lis2dw12_handler_irq ((fresh_hw quiet_env 0)\<lparr>delta_ts := 1600, ts_irq := 0\<rparr>))) \<in> {17..1600}"
  using period_estimate [of 17 "(fresh_hw quiet_env 0)\<lparr>delta_ts := 1600, ts_irq := 0\<rparr>" 17
      "fst (st_lis2dw12_handler_irq ((fresh_hw quiet_env 0)\<lparr>delta_ts := 1600, ts_irq := 0\<rparr>))"
      "snd (st_lis2dw12_handler_irq ((fresh_hw quiet_env 0)\<lparr>delta_ts := 1600, ts_irq := 0\<rparr>))"]
  by simp

subsection \<open>FIFO\<close>

definition is_push :: "lis_io \<Rightarrow> bool" where
  "is_push e \<longleftrightarrow> (case e of Push_buffer sid bytes t \<Rightarrow> sid = ST_LIS2DW12_ID_ACC \<and> length bytes = 6 | _ \<Rightarrow> False)"

text \<open>
  \<open>fifo_run hw n hw'\<close>: \<open>hw'\<close> is \<open>hw\<close> after \<open>n\<close> samples were taken: all counted,
  those from number \<open>std_level\<close> on pushed, and only reads of at most 36 bytes of the output
  registers otherwise.
\<close>

definition fifo_run :: "st_lis2dw12_hw \<Rightarrow> nat \<Rightarrow> st_lis2dw12_hw \<Rightarrow> bool" where
  "fifo_run hw n hw' \<longleftrightarrow> kenv hw' = kenv hw \<and> std_level hw' = std_level hw \<and>
     unat (samples hw') = unat (samples hw) + n \<and>
     (\<exists>xs. io hw' = xs @ io hw \<and>
        length (filter is_push xs) = n - (unat (std_level hw) - 1 - unat (samples hw)) \<and>
        (\<forall>e\<in>List.set xs. is_push e \<or> (\<exists>k\<le>36. e = Regmap_bulk_read OUT_X_L_ADDR k)))"

lemma fifo_run_0: "fifo_run hw 0 hw"
  by (simp add: fifo_run_def)

lemma settle_split: "n - (l - Suc (s + m)) + (m - (l - Suc s)) = m + n - (l - Suc s)" for n m l s :: nat
  by arith

lemma fifo_run_trans:
  assumes "fifo_run a m b" and "fifo_run b n c"
  shows "fifo_run a (m + n) c"
proof -
  from assms(1) obtain xs where xs: "io b = xs @ io a"
    "length (filter is_push xs) = m - (unat (std_level a) - 1 - unat (samples a))"
    "\<forall>e\<in>List.set xs. is_push e \<or> (\<exists>k\<le>36. e = Regmap_bulk_read OUT_X_L_ADDR k)"
    unfolding fifo_run_def by blast
  from assms(2) obtain ys where ys: "io c = ys @ io b"
    "length (filter is_push ys) = n - (unat (std_level b) - 1 - unat (samples b))"
    "\<forall>e\<in>List.set ys. is_push e \<or> (\<exists>k\<le>36. e = Regmap_bulk_read OUT_X_L_ADDR k)"
    unfolding fifo_run_def by blast
  from xs ys show ?thesis
    using assms unfolding fifo_run_def by (intro conjI exI [of _ "ys @ xs"]) (auto simp: settle_split)
qed

lemma unat_u8_u64: "unat (ucast (x :: u8) :: u64) = unat x"
proof -
  have "uint (ucast x :: u64) = uint x" by (simp add: uint_up_ucast is_up)
  then show ?thesis by (simp only: unat_eq_nat_uint)
qed

lemma fifo_run_sample:
  assumes "unat (samples hw) + 1 < 2 ^ 64"
  shows "fifo_run hw 1 (fifo_sample dts buff i hw)"
proof -
  have s: "unat (samples hw + 1) = unat (samples hw) + 1"
    using assms by (simp add: unat_word_ariths)
  have "samples hw + 1 < ucast (std_level hw) \<longleftrightarrow> unat (samples hw) + 1 < unat (std_level hw)"
    by (simp add: word_less_nat_alt s unat_u8_u64)
  then show ?thesis
    using s by (auto simp: fifo_run_def fifo_sample_def Let_def logio_def is_push_def)
qed

lemma fifo_run_samples:
  "unat (samples hw) + length is < 2 ^ 64 \<Longrightarrow> fifo_run hw (length is) (fold (fifo_sample dts buff) is hw)"
proof (induction "is" arbitrary: hw)
  case Nil
  then show ?case by (simp add: fifo_run_0)
next
  case (Cons i "is")
  have 1: "fifo_run hw 1 (fifo_sample dts buff i hw)"
    using Cons.prems by (intro fifo_run_sample) simp
  then have "unat (samples (fifo_sample dts buff i hw)) = unat (samples hw) + 1" by (simp add: fifo_run_def)
  then have "fifo_run (fifo_sample dts buff i hw) (length is) (fold (fifo_sample dts buff) is (fifo_sample dts buff i hw))"
    using Cons by simp
  from fifo_run_trans [OF 1 this] show ?case by simp
qed

lemma fifo_loop_run:
  assumes "\<And>l k. 0 \<le> fst (regmap_bulk_read (kenv hw) l OUT_X_L_ADDR k)"
    and "unat (samples hw) + n < 2 ^ 64"
  shows "\<exists>hw'. fifo_loop dts (6 * n) r hw = Some (int (r + 6 * n), hw') \<and> fifo_run hw n hw'"
  using assms
proof (induction n arbitrary: r hw rule: less_induct)
  case (less n)
  show ?case
  proof (cases "n = 0")
    case True
    then show ?thesis using fifo_run_0 by (subst fifo_loop.simps) auto
  next
    case False
    define m where "m = min n 6"
    have m: "0 < m" "m \<le> n" "min (6 * n) 36 = 6 * m" "(6 * m + 5) div 6 = m" "6 * m \<le> 36"
      using False by (auto simp: m_def)
    obtain e d h where rd: "st_lis2dw12_read OUT_X_L_ADDR (6 * m) hw = (e, d, h)" using prod_cases3 by blast
    have h: "h = logio (Regmap_bulk_read OUT_X_L_ADDR (6 * m)) hw" "0 \<le> e"
      using rd less.prems(1) by (auto simp: st_lis2dw12_read_def split: prod.split_asm) (metis fst_conv)
    let ?k = "fold (fifo_sample dts d) (map (\<lambda>k. 6 * k) [0..<m]) h"
    have "fifo_run h m ?k"
      using fifo_run_samples [of h "map (\<lambda>k. 6 * k) [0..<m]"] less.prems(2) m(2) h(1)
      by (simp add: logio_def)
    moreover have "fifo_run hw 0 h"
      using h(1) m(5) by (auto simp: fifo_run_def logio_def is_push_def)
    ultimately have k: "fifo_run hw m ?k" using fifo_run_trans [of hw 0 h m] by simp
    then have "kenv ?k = kenv hw" "unat (samples ?k) + (n - m) < 2 ^ 64"
      using less.prems(2) m(2) by (auto simp: fifo_run_def)
    then obtain hw' where "fifo_loop dts (6 * (n - m)) (r + 6 * m) ?k = Some (int (r + 6 * m + 6 * (n - m)), hw')"
      "fifo_run ?k (n - m) hw'"
      using less.IH [of "n - m" ?k "r + 6 * m"] less.prems(1) m(1,2) by auto
    moreover from this(2) have "fifo_run hw (m + (n - m)) hw'" by (rule fifo_run_trans [OF k])
    then have "fifo_run hw n hw'" using m(2) by simp
    moreover have "6 * n - 6 * m = 6 * (n - m)" by simp
    ultimately show ?thesis
      using rd h(2) m False by (subst fifo_loop.simps) (auto simp: Let_def)
  qed
qed

text \<open>C2: Reading the FIFO is complete. When the bus answers, \<open>st_lis2dw12_read_fifo\<close> drains
  exactly as many samples as the status register announces, all 63 when it reports an overrun: it
  returns their size in bytes, counts every sample, reads in chunks of at most 36 bytes, and
  pushes one six-byte record for every sample but those the filter needs to settle, namely the
  ones whose number since the buffer was enabled is below \<open>std_level\<close>.\<close>

theorem read_fifo_complete:
  assumes "lis_reachable hw"
    and "\<And>l k. 0 \<le> fst (regmap_bulk_read (kenv hw) l OUT_X_L_ADDR k)"
    and "regmap_bulk_read (kenv hw) (io hw) FIFO_SAMPLES_ADDR 1 = (e, d)" and "0 \<le> e"
    and "n = (if d 0 AND FIFO_SAMPLES_OVR_MASK = 0 then unat (d 0 AND FIFO_SAMPLES_DIFF_MASK) else 63)"
    and "unat (samples hw) + n < 2 ^ 64"
  shows "\<exists>hw'. st_lis2dw12_read_fifo hw = Some (6 * int n, hw') \<and>
    fifo_run (logio (Regmap_bulk_read FIFO_SAMPLES_ADDR 1) hw) n hw'"
proof -
  let ?h = "logio (Regmap_bulk_read FIFO_SAMPLES_ADDR 1) hw"
  have ok: "lis_ok ?h" using reachable_lis_ok [OF assms(1)] by simp
  then obtain s where s: "iio_devs ?h ST_LIS2DW12_ID_ACC = Some s" by (auto simp: lis_ok_def)
  have "watermark ?h \<noteq> 0" using ok by (auto simp: lis_ok_def)
  then have "uint (watermark ?h) \<noteq> 0" by (simp add: uint_0_iff)
  then obtain dts where dts: "div_s64 (delta_ts ?h) (uint (watermark ?h)) = Some dts" by (simp add: div_s64_def)
  obtain hw' where "fifo_loop dts (6 * n) 0 ?h = Some (int (0 + 6 * n), hw')" "fifo_run ?h n hw'"
    using fifo_loop_run [of ?h n dts 0] assms(2,6) by (auto simp: logio_def)
  then show ?thesis
    using assms(3-5) s dts
    by (auto simp: st_lis2dw12_read_fifo_def st_lis2dw12_read_def with_sensor_def Let_def mult.commute)
qed

text \<open>A bus whose FIFO holds five samples.\<close>

definition fifo5_env :: lis_env where
  "fifo5_env = quiet_env\<lparr>regmap_bulk_read := \<lambda>l a n. (0, \<lambda>_. if a = 0x2f then 5 else 0)\<rparr>"

lemma fifo5_quiet: "quiet fifo5_env"
  unfolding fifo5_env_def by (rule quiet_quiet_env(3)) auto

theorem read_fifo_complete_witness:
  "\<exists>hw'. st_lis2dw12_read_fifo (fresh_hw fifo5_env 0) = Some (30, hw') \<and>
     fifo_run (logio (Regmap_bulk_read 0x2f 1) (fresh_hw fifo5_env 0)) 5 hw'"
  using read_fifo_complete [of "fresh_hw fifo5_env 0" 0 "\<lambda>_. 5" 5] fresh_reachable [OF fifo5_quiet, of 0]
  by (simp add: fifo5_env_def)

subsection \<open>Event handler\<close>

text \<open>The log entries that the handler may add when the enabled events are those of \<open>m\<close>.\<close>

definition enabled_push :: "u16 \<Rightarrow> lis_io \<Rightarrow> bool" where
  "enabled_push m e = (case e of
     Push_event c md ty d t \<Rightarrow>
       ty = IIO_EV_TYPE_THRESH \<and> d = IIO_EV_DIR_FALLING \<and> bit m EVENT_FF \<or>
       ty = IIO_EV_TYPE_THRESH \<and> d = IIO_EV_DIR_RISING \<and> bit m EVENT_WAKEUP \<or>
       ty = IIO_EV_TYPE_CHANGE \<and> bit m EVENT_6D \<or>
       ty = IIO_EV_TYPE_GESTURE \<and> d = IIO_EV_DIR_SINGLETAP \<and> bit m EVENT_TAP \<or>
       ty = IIO_EV_TYPE_GESTURE \<and> d = IIO_EV_DIR_DOUBLETAP \<and> bit m EVENT_DTAP
   | Regmap_bulk_read a n \<Rightarrow> a = WU_SRC_ADDR \<and> n = 3
   | _ \<Rightarrow> False)"

definition pushed_only :: "u16 \<Rightarrow> lis_io list \<Rightarrow> st_lis2dw12_hw \<Rightarrow> bool" where
  "pushed_only m l hw \<longleftrightarrow> enable_ev_mask hw = m \<and> (\<exists>xs. io hw = xs @ l \<and> list_all (enabled_push m) xs)"

lemma keeps_push:
  "(\<And>t. enabled_push m (Push_event 0 md ty d t)) \<Longrightarrow> keeps (pushed_only m l) (push md ty d)"
proof (unfold keeps_def, intro allI impI)
  fix hw
  assume "\<And>t. enabled_push m (Push_event 0 md ty d t)" and "pushed_only m l hw"
  then obtain xs where "enable_ev_mask hw = m" "io hw = xs @ l" "list_all (enabled_push m) xs"
    "\<And>t. enabled_push m (Push_event 0 md ty d t)"
    by (auto simp: pushed_only_def)
  then show "pushed_only m l (push md ty d hw)"
    unfolding pushed_only_def
    by (intro conjI exI [of _ "Push_event 0 md ty d (st_lis2dw12_get_timestamp hw) # xs"])
      (simp_all add: push_def logio_def)
qed

lemma keeps_wake_up: "bit m EVENT_WAKEUP \<Longrightarrow> keeps (pushed_only m l) (push_wake_up src)"
  unfolding push_wake_up_def by (intro keeps_intro keeps_push) (simp_all add: enabled_push_def)

lemma keeps_6D: "bit m EVENT_6D \<Longrightarrow> keeps (pushed_only m l) (push_6D md a b)"
  unfolding push_6D_def by (intro keeps_intro keeps_push) (simp_all add: enabled_push_def)

lemma keeps_taps: "keeps (pushed_only m l) (push_taps src)"
proof (unfold keeps_def, intro allI impI)
  fix hw
  assume p: "pushed_only m l hw"
  have tap: "pushed_only m l h \<Longrightarrow> bit m EVENT_TAP \<Longrightarrow>
      pushed_only m l (push md IIO_EV_TYPE_GESTURE IIO_EV_DIR_SINGLETAP h)" for md h
    by (rule keepsD [OF keeps_push]) (simp_all add: enabled_push_def)
  have dtap: "pushed_only m l h \<Longrightarrow> bit m EVENT_DTAP \<Longrightarrow>
      pushed_only m l (push md IIO_EV_TYPE_GESTURE IIO_EV_DIR_DOUBLETAP h)" for md h
    by (rule keepsD [OF keeps_push]) (simp_all add: enabled_push_def)
  have mask: "pushed_only m l h \<Longrightarrow> enable_ev_mask h = m" for h by (simp add: pushed_only_def)
  show "pushed_only m l (push_taps src hw)"
    using p by (auto simp: push_taps_def Let_def IS_EVENT_ENABLED_def mask tap split: option.split
        intro!: dtap dest: mask) 
qed

text \<open>
  The specification of what is reported: modifier, type and direction of each event, in order,
  from the mask \<open>m\<close> and the three source registers \<open>d\<close>.
\<close>

definition reported :: "u16 \<Rightarrow> (nat \<Rightarrow> u8) \<Rightarrow> (iio_modifier \<times> int \<times> int) list" where
  "reported m d =
     (if bit m EVENT_FF \<and> bit (d 0) 5 then [(NO_MOD, IIO_EV_TYPE_THRESH, IIO_EV_DIR_FALLING)] else []) @
     (if bit m EVENT_WAKEUP \<and> bit (d 0) 3
      then map (\<lambda>(md, n). (md, IIO_EV_TYPE_THRESH, IIO_EV_DIR_RISING))
        (filter (\<lambda>(md, n). bit (d 0) n) [(IIO_MOD_Z, 0), (IIO_MOD_Y, 1), (IIO_MOD_X, 2)])
      else []) @
     (if bit m EVENT_6D \<and> bit (d 2) 6
      then map (\<lambda>(md, n). (md, IIO_EV_TYPE_CHANGE, if bit (d 2) (n + 1) then IIO_EV_DIR_RISING else IIO_EV_DIR_FALLING))
        (filter (\<lambda>(md, n). bit (d 2) n \<or> bit (d 2) (n + 1)) [(IIO_MOD_Z, 4), (IIO_MOD_Y, 2), (IIO_MOD_X, 0)])
      else []) @
     (case tap_axis (d 1) of None \<Rightarrow> [] | Some md \<Rightarrow>
       (if bit m EVENT_TAP \<and> bit (d 1) 5 then [(md, IIO_EV_TYPE_GESTURE, IIO_EV_DIR_SINGLETAP)] else []) @
       (if bit m EVENT_DTAP \<and> bit (d 1) 4 then [(md, IIO_EV_TYPE_GESTURE, IIO_EV_DIR_DOUBLETAP)] else []))"

text \<open>The events of a log, newest first.\<close>

fun log_events :: "lis_io list \<Rightarrow> (iio_modifier \<times> int \<times> int) list" where
  "log_events (Push_event c md ty d t # l) = (md, ty, d) # log_events l"
| "log_events (_ # l) = log_events l"
| "log_events [] = []"

lemma events_push [simp]: "log_events (io (push md ty d hw)) = (md, ty, d) # log_events (io hw)"
  by (simp add: push_def logio_def)

lemma enabled_after_push [simp]:
  "enable_ev_mask (push md ty d hw) = enable_ev_mask hw"
  "enable_ev_mask (push_wake_up s hw) = enable_ev_mask hw"
  "enable_ev_mask (push_6D md a b hw) = enable_ev_mask hw"
  by (simp_all add: push_def logio_def push_wake_up_def push_6D_def)

lemma events_wake_up: "log_events (io (push_wake_up s hw)) =
    rev (map (\<lambda>(md, n). (md, IIO_EV_TYPE_THRESH, IIO_EV_DIR_RISING))
      (filter (\<lambda>(md, n). bit s n) [(IIO_MOD_Z, 0), (IIO_MOD_Y, 1), (IIO_MOD_X, 2)])) @ log_events (io hw)"
  by (simp add: push_wake_up_def)

lemma events_6D_axis: "log_events (io (push_6D md h l hw)) =
    (if h \<or> l then [(md, IIO_EV_TYPE_CHANGE, if h then IIO_EV_DIR_RISING else IIO_EV_DIR_FALLING)] else [])
      @ log_events (io hw)"
  by (simp add: push_6D_def)

lemma events_6D: "log_events (io (seq [push_6D IIO_MOD_Z (bit s 5) (bit s 4), push_6D IIO_MOD_Y (bit s 3) (bit s 2),
      push_6D IIO_MOD_X (bit s 1) (bit s 0)] hw)) =
    rev (map (\<lambda>(md, n). (md, IIO_EV_TYPE_CHANGE, if bit s (n + 1) then IIO_EV_DIR_RISING else IIO_EV_DIR_FALLING))
        (filter (\<lambda>(md, n). bit s n \<or> bit s (n + 1)) [(IIO_MOD_Z, 4), (IIO_MOD_Y, 2), (IIO_MOD_X, 0)]))
      @ log_events (io hw)"
  by (cases "bit s 5"; cases "bit s 4"; cases "bit s 3"; cases "bit s 2"; cases "bit s 1"; cases "bit s 0")
    (simp_all add: events_6D_axis)

text \<open>One guarded statement of the handler.\<close>

lemma events_guard:
  assumes "\<And>h. log_events (io (f h)) = rev evs @ log_events (io h)"
  shows "log_events (io ((if b \<and> c then f else (\<lambda>h. h)) h)) = rev (if c \<and> b then evs else []) @ log_events (io h)"
  using assms by simp

lemma events_taps: "log_events (io (push_taps s hw)) =
    rev (case tap_axis s of None \<Rightarrow> [] | Some md \<Rightarrow>
       (if bit (enable_ev_mask hw) EVENT_TAP \<and> bit s 5 then [(md, IIO_EV_TYPE_GESTURE, IIO_EV_DIR_SINGLETAP)] else []) @
       (if bit (enable_ev_mask hw) EVENT_DTAP \<and> bit s 4 then [(md, IIO_EV_TYPE_GESTURE, IIO_EV_DIR_DOUBLETAP)] else []))
    @ log_events (io hw)"
  by (simp add: push_taps_def Let_def IS_EVENT_ENABLED_def split: option.split)

text \<open>The statements of the handler behind its read, and what they push.\<close>

abbreviation event_steps :: "st_lis2dw12_hw \<Rightarrow> (nat \<Rightarrow> u8) \<Rightarrow> (st_lis2dw12_hw \<Rightarrow> st_lis2dw12_hw) list" where
  "event_steps h d \<equiv> [if bit (d 0) 5 \<and> IS_EVENT_ENABLED h EVENT_FF
       then push NO_MOD IIO_EV_TYPE_THRESH IIO_EV_DIR_FALLING else (\<lambda>hw. hw),
     if bit (d 0) 3 \<and> IS_EVENT_ENABLED h EVENT_WAKEUP then push_wake_up (d 0) else (\<lambda>hw. hw),
     if bit (d 2) 6 \<and> IS_EVENT_ENABLED h EVENT_6D
       then seq [push_6D IIO_MOD_Z (bit (d 2) 5) (bit (d 2) 4), push_6D IIO_MOD_Y (bit (d 2) 3) (bit (d 2) 2),
                 push_6D IIO_MOD_X (bit (d 2) 1) (bit (d 2) 0)]
       else (\<lambda>hw. hw),
     push_taps (d 1)]"

lemma event_steps_keep:
  assumes "enable_ev_mask h = m"
  shows "keeps (pushed_only m l) (seq (event_steps h d))"
  using assms by (intro keeps_intro keeps_push keeps_wake_up keeps_6D keeps_taps)
    (simp_all add: IS_EVENT_ENABLED_def enabled_push_def)

lemma events_steps:
  "log_events (io (seq (event_steps h d) h)) = rev (reported (enable_ev_mask h) d) @ log_events (io h)"
proof -
  let ?m = "enable_ev_mask h"
  define s1 where "s1 = (if bit (d 0) 5 \<and> bit ?m EVENT_FF
    then push NO_MOD IIO_EV_TYPE_THRESH IIO_EV_DIR_FALLING else (\<lambda>hw. hw)) h"
  define s2 where "s2 = (if bit (d 0) 3 \<and> bit ?m EVENT_WAKEUP then push_wake_up (d 0) else (\<lambda>hw. hw)) s1"
  define s3 where "s3 = (if bit (d 2) 6 \<and> bit ?m EVENT_6D
    then seq [push_6D IIO_MOD_Z (bit (d 2) 5) (bit (d 2) 4), push_6D IIO_MOD_Y (bit (d 2) 3) (bit (d 2) 2),
              push_6D IIO_MOD_X (bit (d 2) 1) (bit (d 2) 0)] else (\<lambda>hw. hw)) s2"
  have "enable_ev_mask s3 = ?m" by (simp add: s1_def s2_def s3_def)
  moreover have "log_events (io s1) = rev (if bit ?m EVENT_FF \<and> bit (d 0) 5
      then [(NO_MOD, IIO_EV_TYPE_THRESH, IIO_EV_DIR_FALLING)] else []) @ log_events (io h)"
    unfolding s1_def by (rule events_guard) simp
  moreover note events_guard [OF events_wake_up [of "d 0"], of "bit (d 0) 3" "bit ?m EVENT_WAKEUP" s1, folded s2_def]
  moreover note events_guard [OF events_6D [of "d 2"], of "bit (d 2) 6" "bit ?m EVENT_6D" s2, folded s3_def]
  moreover have "seq (event_steps h d) h = push_taps (d 1) s3"
    unfolding s3_def s2_def s1_def IS_EVENT_ENABLED_def seq.simps ..
  ultimately show ?thesis
    unfolding reported_def by (simp only: events_taps rev_append append_assoc)
qed

text \<open>C6: The event handler reports exactly the enabled events that the source registers show. For
  any mask and any content of the three registers the events pushed, in order, are those of the
  specification \<open>reported\<close>: only for enabled events, one per axis that is flagged, a rising
  6D event where both directions are flagged, and taps only with an axis. The handler always
  returns \<open>IRQ_HANDLED\<close>, leaves the mask alone, does nothing but one read of the three
  registers besides the pushes, and not even that when no event is enabled.\<close>

theorem handler_reports_enabled:
  assumes "regmap_bulk_read (kenv hw) (io hw) WU_SRC_ADDR 3 = (e, d)"
    and "st_lis2dw12_event_handler hw = (r, hw')"
  shows "r = IRQ_HANDLED \<and> enable_ev_mask hw' = enable_ev_mask hw \<and>
    (\<exists>xs. io hw' = xs @ io hw \<and> list_all (enabled_push (enable_ev_mask hw)) xs) \<and>
    log_events (io hw') = (if st_lis2dw12_events_enabled hw \<and> 0 \<le> e
      then rev (reported (enable_ev_mask hw) d) else []) @ log_events (io hw) \<and>
    (st_lis2dw12_events_enabled hw \<or> hw' = hw)"
proof -
  let ?m = "enable_ev_mask hw"
  define h where "h = logio (Regmap_bulk_read WU_SRC_ADDR 3) hw"
  have rd: "st_lis2dw12_read WU_SRC_ADDR 3 hw = (e, d, h)"
    using assms(1) by (simp add: st_lis2dw12_read_def h_def)
  have h: "pushed_only ?m (io hw) h" and ev: "log_events (io h) = log_events (io hw)"
    by (auto simp: h_def pushed_only_def logio_def enabled_push_def)
  then have m: "enable_ev_mask h = ?m" by (simp add: pushed_only_def)
  have k: "pushed_only ?m (io hw) (seq (event_steps h d) h)"
    by (rule keepsD [OF event_steps_keep [OF m] h])
  have rep: "log_events (io (seq (event_steps h d) h)) = rev (reported ?m d) @ log_events (io hw)"
    using events_steps [of d h] m ev by simp
  have "pushed_only ?m (io hw) hw' \<and> r = IRQ_HANDLED \<and> (st_lis2dw12_events_enabled hw \<or> hw' = hw) \<and>
    log_events (io hw') = (if st_lis2dw12_events_enabled hw \<and> 0 \<le> e
      then rev (reported ?m d) else []) @ log_events (io hw)"
  proof (cases "st_lis2dw12_events_enabled hw \<and> 0 \<le> e")
    case True
    then have "hw' = seq (event_steps h d) h \<and> r = IRQ_HANDLED"
      using assms(2) rd by (simp add: st_lis2dw12_event_handler_def)
    then show ?thesis using True k rep by simp
  next
    case False
    have "pushed_only ?m (io hw) hw" by (simp add: pushed_only_def)
    then show ?thesis
      using False assms(2) rd h ev by (auto simp: st_lis2dw12_event_handler_def split: if_split_asm)
  qed
  then show ?thesis by (auto simp: pushed_only_def)
qed

theorem handler_reports_enabled_witness:
  "log_events (io (snd (st_lis2dw12_event_handler ((fresh_hw
      (quiet_env\<lparr>regmap_bulk_read := \<lambda>l a n. (0, \<lambda>_. if a = 0x38 then 0x2A else 0)\<rparr>) 0)\<lparr>enable_ev_mask := 3\<rparr>)))) =
    [(IIO_MOD_Y, IIO_EV_TYPE_THRESH, IIO_EV_DIR_RISING), (NO_MOD, IIO_EV_TYPE_THRESH, IIO_EV_DIR_FALLING)]"
proof -
  let ?hw = "(fresh_hw (quiet_env\<lparr>regmap_bulk_read := \<lambda>l a n. (0, \<lambda>_. if a = 0x38 then 0x2A else 0)\<rparr>) 0)\<lparr>enable_ev_mask := 3\<rparr>"
  have "log_events (io ?hw) = []" by (simp add: fresh_hw_def lis_zero_hw_def)
  then show ?thesis
    using handler_reports_enabled [of ?hw 0 "\<lambda>_. 0x2A" "fst (st_lis2dw12_event_handler ?hw)"
        "snd (st_lis2dw12_event_handler ?hw)"]
    by (simp add: reported_def tap_axis_def st_lis2dw12_events_enabled_def IS_EVENT_ENABLED_def)
qed

subsection \<open>Self-test\<close>

text \<open>The self-test mode last written to CTRL3.\<close>

fun last_st :: "lis_io list \<Rightarrow> u8 option" where
  "last_st [] = None"
| "last_st (Regmap_update_bits a m v # l) = (if a = CTRL3_ADDR \<and> m = ST_MASK then Some v else last_st l)"
| "last_st (_ # l) = last_st l"

text \<open>What sampling, the full scale and switching off leave alone.\<close>

lemma samples_frame:
  "selftest_samples n a hw = (e, a', hw') \<Longrightarrow>
     last_st (io hw') = last_st (io hw) \<and> iio_devs hw' = iio_devs hw \<and> st_status hw' = st_status hw"
  by (induction n a hw rule: selftest_samples.induct)
    (auto simp: st_lis2dw12_read_def logio_def split: prod.split_asm if_split_asm)

lemma set_fs_frame:
  assumes "st_lis2dw12_set_fs sid g hw = Some (e, hw')" and "0 \<le> e" and "iio_devs hw sid = Some s"
  shows "last_st (io hw') = last_st (io hw) \<and> st_status hw' = st_status hw \<and>
    iio_devs hw' sid = Some (s\<lparr>gain := g\<rparr>)"
  using assms
  by (auto simp: st_lis2dw12_set_fs_def Let_def st_lis2dw12_write_with_mask_locked_def
      st_lis2dw12_write_with_mask_def update_bits_def logio_def upd_sensor_def split: if_split_asm)

lemma set_odr_log:
  assumes "st_lis2dw12_set_odr sid r hw = Some (e, hw')"
  shows "last_st (io hw') = last_st (io hw) \<and> st_status hw' = st_status hw \<and> iio_devs hw' = iio_devs hw"
proof -
  obtain u md stg where "write_odr stg u md hw = Some (e, hw')"
    using assms by (auto simp: st_lis2dw12_set_odr_def with_settings_def bind_eq_Some_conv Let_def case_prod_beta)
  then show ?thesis
    by (auto simp: write_odr_def st_lis2dw12_write_locked_def regcache_cache_bypass_def logio_def
        split: option.split_asm if_split_asm)
qed

lemma set_disable_frame:
  assumes "st_lis2dw12_sensor_set_enable sid False hw = Some (e, hw')" and "0 \<le> e"
  shows "last_st (io hw') = last_st (io hw) \<and> st_status hw' = st_status hw \<and> iio_devs hw' = iio_devs hw"
proof -
  obtain e1 h where h: "st_lis2dw12_set_odr sid 0 hw = Some (e1, h)"
    and hw': "hw' = (if sid = ST_LIS2DW12_ID_TEMP then st_lis2dw12_cancel_workqueue h else h)
      \<lparr>enable_mask := enable_mask h AND NOT (BIT_ID sid)\<rparr>"
    using assms
    by (auto simp: st_lis2dw12_sensor_set_enable_def with_sensor_def bind_eq_Some_conv Let_def
        st_lis2dw12_cancel_workqueue_def logio_def elim!: chk_okE)
  show ?thesis using set_odr_log [OF h] by (simp add: hw' st_lis2dw12_cancel_workqueue_def logio_def)
qed

text \<open>The self-test and its abort. When the measured part of \<open>st_lis2dw12_enable_selftest\<close>
  succeeds, self-test is switched off in CTRL3, a verdict is recorded and the sensor's gain is
  the one it had before. But when a read of the second series fails, the function returns at
  once: the self-test stays switched on in the part, the gain stays the one of the self-test,
  and no verdict is recorded.\<close>

theorem selftest_abort_stays_on:
  assumes "iio_devs hw sid = Some s"
    and "selftest_samples 5 (0, 0, 0) (logio (Lis_msleep 200) hw) = (e1, a, h1)" and "0 \<le> e1"
    and "st_lis2dw12_write_with_mask CTRL3_ADDR ST_MASK v h1 = (e2, h2)" and "0 \<le> e2"
    and "selftest_samples 5 (0, 0, 0) (logio (Lis_msleep 200) h2) = (e3, st, h3)"
    and "selftest_measure sid v g hw = Some (e, hw')"
  shows "if e3 < 0
    then e = e3 \<and> last_st (io hw') = Some (SHIFT_VAL v ST_MASK) \<and> iio_devs hw' sid = Some s \<and>
      st_status hw' = st_status hw
    else 0 \<le> e \<longrightarrow> last_st (io hw') = Some 0 \<and> iio_devs hw' sid = Some (s\<lparr>gain := g\<rparr>) \<and>
      st_status hw' = selftest_verdict st a"
proof -
  have f1: "iio_devs h1 = iio_devs hw" "st_status h1 = st_status hw"
    using samples_frame [OF assms(2)] by (auto simp: logio_def)
  have f2: "h2 = logio (Regmap_update_bits CTRL3_ADDR ST_MASK (SHIFT_VAL v ST_MASK)) h1"
    using assms(4) by (simp add: st_lis2dw12_write_with_mask_def update_bits_def)
  have f3: "last_st (io h3) = Some (SHIFT_VAL v ST_MASK)" "iio_devs h3 = iio_devs hw"
    "st_status h3 = st_status hw"
    using samples_frame [OF assms(6)] f1 by (auto simp: logio_def f2)
  show ?thesis
  proof (cases "e3 < 0")
    case True
    then show ?thesis
      using assms f3 by (simp add: selftest_measure_def st_lis2dw12_write_with_mask_locked_def)
  next
    case False
    show ?thesis
    proof (simp add: False, intro impI)
      assume "0 \<le> e"
      define h4 where "h4 = logio (Regmap_update_bits CTRL3_ADDR ST_MASK 0) (h3\<lparr>st_status := selftest_verdict st a\<rparr>)"
      obtain e5 h5 where fs: "st_lis2dw12_set_fs sid g h4 = Some (e5, h5)" "0 \<le> e5"
        and off: "st_lis2dw12_sensor_set_enable sid False h5 = Some (e, hw')"
        using assms False \<open>0 \<le> e\<close>
        by (auto simp: selftest_measure_def st_lis2dw12_write_with_mask_locked_def
            st_lis2dw12_write_with_mask_def update_bits_def SHIFT_VAL_def h4_def elim!: chk_okE
            split: if_split_asm)
      have "last_st (io h4) = Some 0" "iio_devs h4 sid = Some s" "st_status h4 = selftest_verdict st a"
        using f3 assms(1) by (simp_all add: h4_def logio_def)
      then show "last_st (io hw') = Some 0 \<and> iio_devs hw' sid = Some (s\<lparr>gain := g\<rparr>) \<and>
          st_status hw' = selftest_verdict st a"
        using set_fs_frame [OF fs] set_disable_frame [OF off \<open>0 \<le> e\<close>] by simp
    qed
  qed
qed

text \<open>A bus that fails from the 35th access on.\<close>

definition failing_env :: lis_env where
  "failing_env = quiet_env\<lparr>regmap_bulk_read := \<lambda>l a n. (if 35 \<le> length l then -5 else 0, \<lambda>_. 0)\<rparr>"

theorem selftest_abort_stays_on_witness:
  "\<exists>hw'. selftest_measure ST_LIS2DW12_ID_ACC 1 2392 (fresh_hw failing_env 0) = Some (-5, hw') \<and>
     last_st (io hw') = Some 0x40"
proof -
  have n5: "5 = Suc (Suc (Suc (Suc (Suc 0))))" by simp
  have bulk: "regmap_bulk_read failing_env l a n = (if 35 \<le> length l then -5 else 0, \<lambda>_. 0)"
    "regmap_update_bits failing_env l a m v = 0" for l a n m v
    by (simp_all add: failing_env_def)
  let ?hw = "fresh_hw failing_env 0"
  obtain a h1 where 1: "selftest_samples 5 (0, 0, 0) (logio (Lis_msleep 200) ?hw) = (0, a, h1)"
    "length (io h1) = 28" "kenv h1 = failing_env"
    unfolding n5 by (simp add: st_lis2dw12_read_def bulk logio_def)
  obtain h2 where 2: "st_lis2dw12_write_with_mask CTRL3_ADDR ST_MASK 1 h1 = (0, h2)"
    "length (io h2) = 29" "kenv h2 = failing_env"
    using 1 by (simp add: st_lis2dw12_write_with_mask_def update_bits_def bulk logio_def)
  obtain st h3 where 3: "selftest_samples 5 (0, 0, 0) (logio (Lis_msleep 200) h2) = (-5, st, h3)"
    using 2 unfolding n5 by (simp add: st_lis2dw12_read_def bulk logio_def)
  have m: "selftest_measure ST_LIS2DW12_ID_ACC 1 2392 ?hw = Some (-5, h3)"
    using 1 2 3 by (simp add: selftest_measure_def st_lis2dw12_write_with_mask_locked_def)
  show ?thesis
    using selftest_abort_stays_on [OF _ 1(1) _ 2(1) _ 3 m] m by (simp add: SHIFT_VAL_def)
qed

end
