(* ===== verification/Ieee.thy ===== *)
theory Ieee
  imports Complex_Main Prelude
begin

text \<open>
  C floating point as the compilers of this firmware implement it: values are rationals and
  each operation rounds the exact result to the nearest value of the format, ties to even.
  \<open>f32\<close> and \<open>f64\<close> are \<open>float\<close> and \<open>double\<close>. The largest exponent is not bounded: the code
  never comes near it; NaN does not arise from the operations that are modelled.
\<close>

fun ilog2 :: "nat \<Rightarrow> nat" where
  "ilog2 n = (if n < 2 then 0 else Suc (ilog2 (n div 2)))"

declare ilog2.simps [simp del]

lemma ilog2_bounds: "0 < n \<Longrightarrow> 2 ^ ilog2 n \<le> n \<and> n < 2 ^ Suc (ilog2 n)"
proof (induction n rule: ilog2.induct)
  case (1 n)
  show ?case
  proof (cases "n < 2")
    case True
    then show ?thesis using 1(2) by (simp add: ilog2.simps [of n])
  next
    case False
    then have "2 ^ ilog2 (n div 2) \<le> n div 2 \<and> n div 2 < 2 ^ Suc (ilog2 (n div 2))"
      using 1(1) by simp
    then show ?thesis using False by (subst (1 2) ilog2.simps) (simp, linarith)
  qed
qed

text \<open>The exponent of a positive rational: the power of two just below it.\<close>

definition rat_exp :: "rat \<Rightarrow> int" where
  "rat_exp x = (case quotient_of x of (n, d) \<Rightarrow>
     let k = int (ilog2 (nat n)) - int (ilog2 (nat d)) in if 2 powi k \<le> x then k else k - 1)"

lemma rat_exp_bounds:
  assumes "0 < x"
  shows "2 powi (rat_exp x) \<le> x" and "x < 2 powi (rat_exp x + 1)"
proof -
  obtain n d where q: "quotient_of x = (n, d)" by (cases "quotient_of x") auto
  have d: "0 < d" using quotient_of_denom_pos [OF q] .
  have x: "x = of_int n / of_int d" using quotient_of_div [OF q] .
  have n: "0 < n" using assms d by (simp add: x zero_less_divide_iff)
  let ?a = "ilog2 (nat n)" and ?b = "ilog2 (nat d)"
  define k where "k = int ?a - int ?b"
  have rn: "(of_int n :: rat) = of_nat (nat n)" "(of_int d :: rat) = of_nat (nat d)"
    using n d by simp_all
  have "2 ^ ?a \<le> nat n" "nat n < 2 ^ Suc ?a" "2 ^ ?b \<le> nat d" "nat d < 2 ^ Suc ?b"
    using ilog2_bounds [of "nat n"] ilog2_bounds [of "nat d"] n d by auto
  then have b: "(2 :: rat) ^ ?a \<le> of_int n" "(of_int n :: rat) < 2 ^ Suc ?a"
    "(2 :: rat) ^ ?b \<le> of_int d" "(of_int d :: rat) < 2 ^ Suc ?b"
    unfolding rn by (metis of_nat_le_iff of_nat_less_iff of_nat_numeral of_nat_power)+
  have pk: "2 powi k = (2 :: rat) ^ ?a / 2 ^ ?b"
    by (simp add: k_def power_int_diff)
  have "x < 2 ^ Suc ?a / 2 ^ ?b"
    unfolding x using b d n by (intro frac_less) auto
  then have up: "x < 2 powi (k + 1)" by (simp add: power_int_add pk mult.commute)
  have "2 ^ ?a / 2 ^ Suc ?b < x"
    unfolding x using b d n by (intro frac_less2) auto
  then have lo: "2 powi (k - 1) \<le> x" by (simp add: power_int_diff pk)
  have "rat_exp x = (if 2 powi k \<le> x then k else k - 1)"
    by (simp add: rat_exp_def q k_def Let_def)
  then show "2 powi (rat_exp x) \<le> x" and "x < 2 powi (rat_exp x + 1)"
    using up lo by (auto simp: not_le)
qed

lemma rat_exp_less:
  assumes "0 < x" and "x < 2 powi e"
  shows "rat_exp x < e"
proof -
  have "(2 :: rat) powi rat_exp x < 2 powi e" using rat_exp_bounds(1) [OF assms(1)] assms(2) by simp
  then show ?thesis by (meson not_le power_int_increasing one_le_numeral)
qed

text \<open>Rounding to an integer, ties to even.\<close>

definition round_even :: "rat \<Rightarrow> int" where
  "round_even y = (let f = \<lfloor>y\<rfloor>; r = y - of_int f in
     if r < 1 / 2 then f else if r > 1 / 2 then f + 1 else if even f then f else f + 1)"

lemma round_even_int [simp]: "round_even (of_int k) = k"
  by (simp add: round_even_def)

lemma round_even_error: "\<bar>of_int (round_even y) - y\<bar> \<le> 1 / 2"
proof -
  have "of_int \<lfloor>y\<rfloor> \<le> y" "y < of_int \<lfloor>y\<rfloor> + 1" by linarith+
  then show ?thesis by (auto simp: round_even_def Let_def abs_le_iff)
qed

lemma round_even_nonneg: "0 \<le> y \<Longrightarrow> 0 \<le> round_even y"
  by (auto simp: round_even_def Let_def)

definition fround :: "int \<Rightarrow> int \<Rightarrow> rat \<Rightarrow> rat" where
  "fround p emin x = (if x = 0 then 0
     else (let u = 2 powi (max (rat_exp \<bar>x\<bar> - p + 1) emin) in u * of_int (round_even (x / u))))"

definition f32 :: "rat \<Rightarrow> rat" where "f32 = fround 24 (-149)"

definition f64 :: "rat \<Rightarrow> rat" where "f64 = fround 53 (-1074)"

lemma fround_0 [simp]: "fround p emin 0 = 0"
  by (simp add: fround_def)

lemma fround_nonneg: "0 \<le> x \<Longrightarrow> 0 \<le> fround p emin x"
  by (auto simp: fround_def Let_def intro!: mult_nonneg_nonneg round_even_nonneg divide_nonneg_nonneg)

text \<open>A multiple of a power of two that fits the precision is not rounded.\<close>

lemma fround_exact:
  assumes "x = of_int k * 2 powi j" and "\<bar>k\<bar> < 2 ^ nat p" and "0 \<le> p" and "emin \<le> j"
  shows "fround p emin x = x"
proof (cases "x = 0")
  case False
  let ?u = "2 powi (max (rat_exp \<bar>x\<bar> - p + 1) emin) :: rat"
  have "\<bar>x\<bar> = of_int \<bar>k\<bar> * 2 powi j" using assms(1) by (simp add: abs_mult)
  also have "(of_int \<bar>k\<bar> :: rat) < of_int (2 ^ nat p)" using assms(2) by (simp only: of_int_less_iff)
  also have "(of_int (2 ^ nat p) :: rat) = 2 powi p" using assms(3) by (simp add: power_int_def)
  finally have "\<bar>x\<bar> < 2 powi (p + j)" by (simp add: power_int_add)
  then have "rat_exp \<bar>x\<bar> < p + j" using False by (intro rat_exp_less) auto
  then have le: "max (rat_exp \<bar>x\<bar> - p + 1) emin \<le> j" using assms(4) by simp
  have "x / ?u = of_int k * 2 powi (j - max (rat_exp \<bar>x\<bar> - p + 1) emin)"
    by (simp add: assms(1) power_int_diff)
  also have "\<dots> = of_int (k * 2 ^ nat (j - max (rat_exp \<bar>x\<bar> - p + 1) emin))"
    using le by (simp add: power_int_def)
  finally have "round_even (x / ?u) = k * 2 ^ nat (j - max (rat_exp \<bar>x\<bar> - p + 1) emin)"
    and "x = ?u * of_int (k * 2 ^ nat (j - max (rat_exp \<bar>x\<bar> - p + 1) emin))"
    by (simp_all only: round_even_int) (simp add: field_simps)
  then show ?thesis using False by (simp add: fround_def Let_def)
qed simp

text \<open>The rounding error of a normal result is at most half a unit of its last place.\<close>

lemma fround_error:
  assumes "2 powi (emin + p - 1) \<le> \<bar>x\<bar>"
  shows "\<bar>fround p emin x - x\<bar> \<le> \<bar>x\<bar> * 2 powi (- p)"
proof -
  have pos: "0 < \<bar>x\<bar>" using assms by (meson less_le_trans zero_less_power_int zero_less_numeral)
  let ?u = "2 powi (max (rat_exp \<bar>x\<bar> - p + 1) emin) :: rat"
  have "\<not> rat_exp \<bar>x\<bar> + 1 \<le> emin + p - 1"
  proof
    assume "rat_exp \<bar>x\<bar> + 1 \<le> emin + p - 1"
    then have "(2 :: rat) powi (rat_exp \<bar>x\<bar> + 1) \<le> 2 powi (emin + p - 1)"
      by (intro power_int_increasing) auto
    then show False using assms rat_exp_bounds(2) [OF pos] by simp
  qed
  then have "max (rat_exp \<bar>x\<bar> - p + 1) emin = rat_exp \<bar>x\<bar> - p + 1" by linarith
  then have u: "?u = 2 powi (rat_exp \<bar>x\<bar> - p + 1)" by simp
  have "fround p emin x - x = ?u * (of_int (round_even (x / ?u)) - x / ?u)"
    using pos by (simp add: fround_def Let_def right_diff_distrib)
  then have "\<bar>fround p emin x - x\<bar> \<le> ?u * (1 / 2)"
    using round_even_error [of "x / ?u"] by (simp add: abs_mult)
  also have "\<dots> = 2 powi (rat_exp \<bar>x\<bar>) * 2 powi (- p)"
    unfolding u by (simp add: power_int_diff power_int_add power_int_minus field_simps)
  also have "\<dots> \<le> \<bar>x\<bar> * 2 powi (- p)"
    using rat_exp_bounds(1) [OF pos] by (intro mult_right_mono) auto
  finally show ?thesis .
qed

lemma f32_error:
  assumes "1 / 1000 \<le> x"
  shows "\<bar>f32 x - x\<bar> \<le> x / 16777216"
proof -
  have "(2 :: rat) powi (-149 + 24 - 1) \<le> 1 / 1000" by (simp add: power_int_def power_divide)
  then have "(2 :: rat) powi (-149 + 24 - 1) \<le> \<bar>x\<bar>" using assms by linarith
  from fround_error [OF this] show ?thesis using assms by (simp add: f32_def power_int_def power_divide)
qed

end
