(* ===== verification/C_Text.thy ===== *)
theory C_Text
  imports Ieee
begin

text \<open>
  The text conversions of the C library that the daemon uses: \<open>%d\<close>, \<open>atoi\<close>, \<open>strtol\<close> in base
  16 and \<open>atof\<close>, over strings without their final NUL.
\<close>

definition show_int :: "int \<Rightarrow> string" where
  "show_int i = (if i < 0 then ''-'' @ show_dec (nat (- i)) else show_dec (nat i))"

definition is_space :: "char \<Rightarrow> bool" where
  "is_space c \<longleftrightarrow> c = CHR '' '' \<or> 9 \<le> (of_char c :: nat) \<and> (of_char c :: nat) \<le> 13"

definition digit_of :: "char \<Rightarrow> int option" where
  "digit_of c = (let n = of_char c :: int in
     if 48 \<le> n \<and> n \<le> 57 then Some (n - 48)
     else if 97 \<le> n \<and> n \<le> 122 then Some (n - 87)
     else if 65 \<le> n \<and> n \<le> 90 then Some (n - 55) else None)"

text \<open>The digits below \<open>base\<close> in front of a string: their value, their number and the rest.\<close>

fun digits :: "int \<Rightarrow> string \<Rightarrow> int \<Rightarrow> nat \<Rightarrow> int \<times> nat \<times> string" where
  "digits base [] v n = (v, n, [])"
| "digits base (c # cs) v n = (case digit_of c of
     Some d \<Rightarrow> if d < base then digits base cs (base * v + d) (Suc n) else (v, n, c # cs)
   | None \<Rightarrow> (v, n, c # cs))"

definition sign_of :: "string \<Rightarrow> int \<times> string" where
  "sign_of str = (case str of
     c # cs \<Rightarrow> if c = CHR ''-'' then (-1, cs) else if c = CHR ''+'' then (1, cs) else (1, str)
   | [] \<Rightarrow> (1, str))"

text \<open>A value that overflows an \<open>int\<close> is undefined in C; here it is the number itself.\<close>

definition atoi :: "string \<Rightarrow> int" where
  "atoi str = (case sign_of (dropWhile is_space str) of (sg, str) \<Rightarrow> sg * fst (digits 10 str 0 0))"

definition strtol16 :: "string \<Rightarrow> int" where
  "strtol16 str = (case sign_of (dropWhile is_space str) of (sg, str) \<Rightarrow>
     let str = (case str of a # b # c # cs \<Rightarrow>
                  if a = CHR ''0'' \<and> (b = CHR ''x'' \<or> b = CHR ''X'') \<and>
                     (case digit_of c of Some d \<Rightarrow> d < 16 | None \<Rightarrow> False)
                  then c # cs else str
                | _ \<Rightarrow> str)
     in sg * fst (digits 16 str 0 0))"

text \<open>\<open>strtol\<close> with base 0: hexadecimal after \<open>0x\<close>, octal after \<open>0\<close>, decimal otherwise.\<close>

definition strtol0 :: "string \<Rightarrow> int" where
  "strtol0 str = (case sign_of (dropWhile is_space str) of (sg, ds) \<Rightarrow>
     if take 1 ds = ''0''
     then (if take 2 ds = ''0x'' \<or> take 2 ds = ''0X'' then strtol16 str else sg * fst (digits 8 ds 0 0))
     else sg * fst (digits 10 ds 0 0))"

text \<open>
  \<open>strtod\<close> on decimal numbers, with the rest of the string (hexadecimal numbers, infinities
  and NaN are read as far as their digits go).
\<close>

definition strtod :: "string \<Rightarrow> rat \<times> string" where
  "strtod str = (case sign_of (dropWhile is_space str) of (sg, s0) \<Rightarrow>
     case digits 10 s0 0 0 of (whole, n, s1) \<Rightarrow>
     case (case s1 of c # cs \<Rightarrow> if c = CHR ''.'' then digits 10 cs whole 0 else (whole, 0, s1)
           | [] \<Rightarrow> (whole, 0, s1)) of (mant, k, s2) \<Rightarrow>
     if n = 0 \<and> k = 0 then (0, str)
     else (case (case s2 of c # cs \<Rightarrow>
             if c = CHR ''e'' \<or> c = CHR ''E''
             then (case sign_of cs of (es, s3) \<Rightarrow> case digits 10 s3 0 0 of (e, m, s4) \<Rightarrow>
                     if m = 0 then (0, s2) else (es * e, s4))
             else (0, s2) | [] \<Rightarrow> (0, s2)) of (e, rest) \<Rightarrow>
       (f64 (of_int (sg * mant) * 10 powi (e - int k)), rest)))"

definition atof :: "string \<Rightarrow> rat" where "atof str = fst (strtod str)"

text \<open>Conversion of a floating value to an integer: truncation.\<close>

definition trunc :: "rat \<Rightarrow> int" where
  "trunc x = (if 0 \<le> x then \<lfloor>x\<rfloor> else \<lceil>x\<rceil>)"

text \<open>
  \<open>argv[i]\<close> for an argument vector \<open>args\<close>: an argument, the null pointer behind them
  (\<open>Some None\<close>), a string of the environment, which Linux lays out behind it, the null pointer
  that ends the environment. What lies behind is no pointer to a string, so reading it as one is a
  fault (\<open>None\<close>).
\<close>

definition argv_mem :: "string list \<Rightarrow> string list \<Rightarrow> nat \<Rightarrow> string option option" where
  "argv_mem args envp i = (let mem = map Some args @ None # map Some envp @ [None]
     in if i < length mem then Some (mem ! i) else None)"

end
