(* ===== verification/Misc_Gpio.thy ===== *)
theory Misc_Gpio
  imports C_Text
begin

text \<open>
  The pins and the PWM channels of the diagnostic daemon, \<open>pega_misc/src/pega_gpio.[ch]\<close> and
  \<open>pega_pwm.c\<close>: everything is a write to a sysfs file. The state starts with the environment
  and the log of system calls (newest first); later theories extend the record with the static
  variables of their own file, so the operations here work on every extension.
\<close>

subsection \<open>System calls\<close>

datatype sys_path = Gpio_export | Gpio_direction int | Gpio_value int | Gpio_edge int
  | Pwm_export u32 | Pwm_unexport u32 | Pwm_period u32 | Pwm_duty_cycle u32 | Pwm_enable u32

text \<open>\<open>Open p ok\<close> records an attempt and its outcome, so that descriptors can be counted.\<close>

datatype misc_io = Open sys_path bool | Write_file sys_path string | Read_file sys_path
  | Close sys_path | Usleep nat | Thread_create | Thread_cancel
  | I2c_write int "u8 list" | I2c_read int nat | System string
  | Sigaction | Timer_create | Timer_settime int int | Timer_delete | Print string | Print_value rat | Opendir string
  | Uart_open bool | Uart_close | Uart_config u32 bool | Uart_read nat

text \<open>
  The environment answers from the log so far: whether a sysfs file opens, what a read of it
  gives, the contents of a text file, whether a timer
  call succeeds and whether the armed timer has expired, the entries of
  a directory, the descriptor of the serial port, whether it raised SIGIO, what a read of it gives,
  what lies on the stack behind a local array, the descriptor of a bus, whether a descriptor takes a slave address, how many bytes a
  bus \<open>write\<close> transfers and which bytes a \<open>read\<close> delivers (\<open>None\<close>: it returns -1).
\<close>

record misc_env =
  open_ok :: "misc_io list \<Rightarrow> sys_path \<Rightarrow> bool"
  read_file :: "misc_io list \<Rightarrow> sys_path \<Rightarrow> string option"
  text_file :: "misc_io list \<Rightarrow> string \<Rightarrow> string option"
  timer_call_ok :: "misc_io list \<Rightarrow> bool"
  timer_expired :: "misc_io list \<Rightarrow> bool"
  dir_list :: "misc_io list \<Rightarrow> string \<Rightarrow> string list option"
  uart_fd :: "misc_io list \<Rightarrow> int"
  uart_sigio :: "misc_io list \<Rightarrow> bool"
  uart_bytes :: "misc_io list \<Rightarrow> nat \<Rightarrow> u8 list option"
  stack_bytes :: "misc_io list \<Rightarrow> u8 list"
  i2c_open :: "misc_io list \<Rightarrow> string \<Rightarrow> int"
  i2c_slave_ok :: "misc_io list \<Rightarrow> int \<Rightarrow> int \<Rightarrow> bool"
  i2c_write_ret :: "misc_io list \<Rightarrow> int \<Rightarrow> int \<Rightarrow> u8 list \<Rightarrow> int"
  i2c_read_ret :: "misc_io list \<Rightarrow> int \<Rightarrow> int \<Rightarrow> nat \<Rightarrow> u8 list option"

record gpio_st =
  menv :: misc_env
  mlog :: "misc_io list"
  bIrcut_enable :: int

abbreviation (input) FAILED :: int where "FAILED \<equiv> - 1"
abbreviation (input) NOT_THING :: int where "NOT_THING \<equiv> 0"
abbreviation (input) SUCCEED :: int where "SUCCEED \<equiv> 1"

definition emit :: "misc_io \<Rightarrow> 'a gpio_st_scheme \<Rightarrow> 'a gpio_st_scheme" where
  "emit e s = s\<lparr>mlog := e # mlog s\<rparr>"

definition sys_open :: "sys_path \<Rightarrow> 'a gpio_st_scheme \<Rightarrow> bool \<times> 'a gpio_st_scheme" where
  "sys_open p s = (let ok = open_ok (menv s) (mlog s) p in (ok, emit (Open p ok) s))"

definition usleep :: "nat \<Rightarrow> 'a gpio_st_scheme \<Rightarrow> 'a gpio_st_scheme" where
  "usleep us = emit (Usleep us)"

subsection \<open>Pins\<close>

abbreviation (input) IO_I_SYNC_BUTTON :: int where "IO_I_SYNC_BUTTON \<equiv> 6"
abbreviation (input) IO_I_IDAC :: int where "IO_I_IDAC \<equiv> 62"
abbreviation (input) IO_I_ACC_INT :: int where "IO_I_ACC_INT \<equiv> 60"
abbreviation (input) IO_I_NFC_IRQ :: int where "IO_I_NFC_IRQ \<equiv> 68"
abbreviation (input) IO_I_MOTOR_nFAULT_PAN :: int where "IO_I_MOTOR_nFAULT_PAN \<equiv> 63"
abbreviation (input) IO_I_MOTOR_nFAULT_RISING :: int where "IO_I_MOTOR_nFAULT_RISING \<equiv> 64"
abbreviation (input) IO_O_IW610F_RST_WL :: int where "IO_O_IW610F_RST_WL \<equiv> 20"
abbreviation (input) IO_O_IW610F_RST_BLE :: int where "IO_O_IW610F_RST_BLE \<equiv> 47"
abbreviation (input) IO_O_IW610G_RST_WL :: int where "IO_O_IW610G_RST_WL \<equiv> 18"
abbreviation (input) IO_O_AUDIO_SHUTDOWN :: int where "IO_O_AUDIO_SHUTDOWN \<equiv> 16"
abbreviation (input) PIN_RISING_nSLEEP :: int where "PIN_RISING_nSLEEP \<equiv> 17"
abbreviation (input) PIN_PAN_nSLEEP :: int where "PIN_PAN_nSLEEP \<equiv> 44"
abbreviation (input) PIN_MOTO_PWM0 :: int where "PIN_MOTO_PWM0 \<equiv> 59"
abbreviation (input) PIN_MOTO_PWM1 :: int where "PIN_MOTO_PWM1 \<equiv> 58"
abbreviation (input) PIN_MOTO_PWM2 :: int where "PIN_MOTO_PWM2 \<equiv> 55"
abbreviation (input) PIN_MOTO_PWM3 :: int where "PIN_MOTO_PWM3 \<equiv> 54"
abbreviation (input) IO_O_IR_CUT_IN1 :: int where "IO_O_IR_CUT_IN1 \<equiv> 80"
abbreviation (input) IO_O_IR_CUT_IN2 :: int where "IO_O_IR_CUT_IN2 \<equiv> 81"
abbreviation (input) IO_O_CAM_1V8_EN :: int where "IO_O_CAM_1V8_EN \<equiv> 61"
abbreviation (input) IO_O_LED_R :: int where "IO_O_LED_R \<equiv> 69"
abbreviation (input) IO_O_LED_G :: int where "IO_O_LED_G \<equiv> 70"
abbreviation (input) IO_O_LED_B :: int where "IO_O_LED_B \<equiv> 71"
abbreviation (input) PWM_CH6 :: u32 where "PWM_CH6 \<equiv> 6"
abbreviation (input) PWM_CH7 :: u32 where "PWM_CH7 \<equiv> 7"

definition Pega_Gpio_pin_output_set ::
    "int \<Rightarrow> int \<Rightarrow> 'a gpio_st_scheme \<Rightarrow> int \<times> 'a gpio_st_scheme" where
  "Pega_Gpio_pin_output_set sGpioNum bHigh s =
     (case sys_open (Gpio_value sGpioNum) s of (ok, s) \<Rightarrow>
      if \<not> ok then (FAILED, s)
      else (SUCCEED, seq
        [emit (Write_file (Gpio_value sGpioNum) (if bHigh \<noteq> 0 then ''1'' else ''0'')),
         emit (Close (Gpio_value sGpioNum))] s))"

definition Pega_Gpio_pin_state_init ::
    "int \<Rightarrow> int \<Rightarrow> int \<Rightarrow> 'a gpio_st_scheme \<Rightarrow> int \<times> 'a gpio_st_scheme" where
  "Pega_Gpio_pin_state_init sGpioNum bInput bHigh s =
     (case sys_open Gpio_export s of (ok, s) \<Rightarrow>
      if \<not> ok then (FAILED, s)
      else (case sys_open (Gpio_direction sGpioNum)
                   (seq [emit (Write_file Gpio_export (show_int sGpioNum)),
                         emit (Close Gpio_export)] s) of (ok, s) \<Rightarrow>
        if \<not> ok then (FAILED, s)
        else (let s = seq [emit (Write_file (Gpio_direction sGpioNum)
                               (if bInput \<noteq> 0 then ''in'' else ''out'')),
                           emit (Close (Gpio_direction sGpioNum))] s
              in if bInput \<noteq> 0 then (SUCCEED, s)
                 else Pega_Gpio_pin_output_set sGpioNum bHigh s)))"

definition Pega_Gpio_Read :: "int \<Rightarrow> 'a gpio_st_scheme \<Rightarrow> int \<times> 'a gpio_st_scheme" where
  "Pega_Gpio_Read pin s =
     (case sys_open (Gpio_value pin) s of (ok, s) \<Rightarrow>
      if \<not> ok then (FAILED, s)
      else (case read_file (menv s) (mlog s) (Gpio_value pin) of
          None \<Rightarrow> (FAILED, emit (Read_file (Gpio_value pin)) s)
        | Some str \<Rightarrow> (if atoi (take 3 str) = 0 then 0 else 1,
            seq [emit (Read_file (Gpio_value pin)), emit (Close (Gpio_value pin))] s)))"

definition gpio_init_pin :: "int \<times> int \<times> int \<Rightarrow> 'a gpio_st_scheme \<Rightarrow> 'a gpio_st_scheme" where
  "gpio_init_pin x s = (case x of (pin, inp, high) \<Rightarrow> snd (Pega_Gpio_pin_state_init pin inp high s))"

definition gpio_init_table :: "(int \<times> int \<times> int) list" where
  "gpio_init_table =
     [(IO_I_IDAC, 1, -1), (IO_I_SYNC_BUTTON, 1, -1), (IO_I_ACC_INT, 1, -1), (IO_I_NFC_IRQ, 1, -1),
      (IO_I_MOTOR_nFAULT_PAN, 1, -1), (IO_I_MOTOR_nFAULT_RISING, 1, -1),
      (IO_O_IW610F_RST_WL, 0, 1), (IO_O_IW610F_RST_BLE, 0, 1), (IO_O_IW610G_RST_WL, 0, 1),
      (IO_O_AUDIO_SHUTDOWN, 0, 0), (PIN_RISING_nSLEEP, 0, 0), (PIN_PAN_nSLEEP, 0, 0),
      (PIN_MOTO_PWM0, 0, 0), (PIN_MOTO_PWM1, 0, 0), (PIN_MOTO_PWM2, 0, 0), (PIN_MOTO_PWM3, 0, 0),
      (IO_O_IR_CUT_IN1, 0, 0), (IO_O_IR_CUT_IN2, 0, 0), (IO_O_CAM_1V8_EN, 0, 1),
      (IO_O_LED_R, 0, 0), (IO_O_LED_G, 0, 0), (IO_O_LED_B, 0, 0)]"

definition Pega_Gpio_init :: "'a gpio_st_scheme \<Rightarrow> 'a gpio_st_scheme" where
  "Pega_Gpio_init = fold gpio_init_pin gpio_init_table"

definition pin_out :: "int \<Rightarrow> int \<Rightarrow> 'a gpio_st_scheme \<Rightarrow> 'a gpio_st_scheme" where
  "pin_out pin high s = snd (Pega_Gpio_pin_output_set pin high s)"

definition IO_IR_CUT1_CTRL :: "bool \<Rightarrow> 'a gpio_st_scheme \<Rightarrow> 'a gpio_st_scheme" where
  "IO_IR_CUT1_CTRL on = pin_out IO_O_IR_CUT_IN1 (if on then 0 else 1)"

definition IO_IR_CUT2_CTRL :: "bool \<Rightarrow> 'a gpio_st_scheme \<Rightarrow> 'a gpio_st_scheme" where
  "IO_IR_CUT2_CTRL on = pin_out IO_O_IR_CUT_IN2 (if on then 0 else 1)"

definition IO_LED_R_CTRL :: "bool \<Rightarrow> 'a gpio_st_scheme \<Rightarrow> 'a gpio_st_scheme" where
  "IO_LED_R_CTRL on = pin_out IO_O_LED_R (of_bool on)"

definition IO_LED_G_CTRL :: "bool \<Rightarrow> 'a gpio_st_scheme \<Rightarrow> 'a gpio_st_scheme" where
  "IO_LED_G_CTRL on = pin_out IO_O_LED_G (of_bool on)"

definition IO_LED_B_CTRL :: "bool \<Rightarrow> 'a gpio_st_scheme \<Rightarrow> 'a gpio_st_scheme" where
  "IO_LED_B_CTRL on = pin_out IO_O_LED_B (of_bool on)"

definition IO_AMP_SHUTDOWN :: "bool \<Rightarrow> 'a gpio_st_scheme \<Rightarrow> 'a gpio_st_scheme" where
  "IO_AMP_SHUTDOWN on = pin_out IO_O_AUDIO_SHUTDOWN (if on then 0 else 1)"

definition Pega_Gpio_HW_Amp_Reset :: "'a gpio_st_scheme \<Rightarrow> 'a gpio_st_scheme" where
  "Pega_Gpio_HW_Amp_Reset = seq [IO_AMP_SHUTDOWN True, usleep 100000, IO_AMP_SHUTDOWN False]"

definition Pega_Gpio_IRCut_status_set :: "int \<Rightarrow> 'a gpio_st_scheme \<Rightarrow> 'a gpio_st_scheme" where
  "Pega_Gpio_IRCut_status_set enable s = s\<lparr>bIrcut_enable := enable\<rparr>"

definition Pega_Gpio_IRCut_Control :: "u8 \<Rightarrow> 'a gpio_st_scheme \<Rightarrow> 'a gpio_st_scheme" where
  "Pega_Gpio_IRCut_Control bFlag = seq
     [Pega_Gpio_IRCut_status_set (uint bFlag),
      if bFlag = 1 then seq [IO_IR_CUT1_CTRL False, IO_IR_CUT2_CTRL True]
      else seq [IO_IR_CUT1_CTRL True, IO_IR_CUT2_CTRL False],
      usleep 200000, IO_IR_CUT1_CTRL False, IO_IR_CUT2_CTRL False]"

subsection \<open>PWM channels\<close>

text \<open>
  A failed export prints its channel number with \<open>%s\<close>: \<open>printf\<close> follows the number as a
  pointer, so the result is a fault, \<open>None\<close>. Only channels 6 and 7 have an export file.
\<close>

definition pwm_export_file ::
    "(u32 \<Rightarrow> sys_path) \<Rightarrow> u32 \<Rightarrow> 'a gpio_st_scheme \<Rightarrow> (int \<times> 'a gpio_st_scheme) option" where
  "pwm_export_file file pwm s =
     (if pwm = PWM_CH6 \<or> pwm = PWM_CH7
      then (case sys_open (file pwm) s of (ok, s) \<Rightarrow>
        if ok then Some (1, seq [emit (Write_file (file pwm) ''0''), emit (Close (file pwm))] s)
        else None)
      else None)"

definition Pega_pwm_export :: "u32 \<Rightarrow> 'a gpio_st_scheme \<Rightarrow> (int \<times> 'a gpio_st_scheme) option" where
  "Pega_pwm_export = pwm_export_file Pwm_export"

definition Pega_pwm_unexport :: "u32 \<Rightarrow> 'a gpio_st_scheme \<Rightarrow> (int \<times> 'a gpio_st_scheme) option" where
  "Pega_pwm_unexport = pwm_export_file Pwm_unexport"

text \<open>The descriptor of the period file is overwritten without being closed.\<close>

definition Pega_pwm_config ::
    "u32 \<Rightarrow> u32 \<Rightarrow> u32 \<Rightarrow> 'a gpio_st_scheme \<Rightarrow> int \<times> 'a gpio_st_scheme" where
  "Pega_pwm_config pwm period duty_percent s =
     (let duty_cycle = period div 100 * duty_percent in
      case sys_open (Pwm_period pwm) s of (ok, s) \<Rightarrow>
      if \<not> ok then (-1, s)
      else (case sys_open (Pwm_duty_cycle pwm)
                   (emit (Write_file (Pwm_period pwm) (show_int (sint period))) s) of (ok, s) \<Rightarrow>
        if \<not> ok then (-1, s)
        else (0, seq [emit (Write_file (Pwm_duty_cycle pwm) (show_int (sint duty_cycle))),
                      emit (Close (Pwm_duty_cycle pwm))] s)))"

definition Pega_pwm_control :: "u32 \<Rightarrow> int \<Rightarrow> 'a gpio_st_scheme \<Rightarrow> int \<times> 'a gpio_st_scheme" where
  "Pega_pwm_control pwm bEnable s =
     (case sys_open (Pwm_enable pwm) s of (ok, s) \<Rightarrow>
      if \<not> ok then (-1, s)
      else (0, seq [emit (Write_file (Pwm_enable pwm) (if bEnable = 1 then ''1'' else ''0'')),
                    emit (Close (Pwm_enable pwm))] s))"

definition pwm_start :: "u32 \<Rightarrow> u32 \<Rightarrow> u32 \<Rightarrow> int \<Rightarrow> 'a gpio_st_scheme \<Rightarrow> 'a gpio_st_scheme option" where
  "pwm_start pwm freq duty bIsOn s =
     Option.bind (Pega_pwm_export pwm s) (\<lambda>(ret, s).
       if ret > -1
       then (case Pega_pwm_config pwm freq duty s of (ret, s) \<Rightarrow>
         Some (if ret > -1 then snd (Pega_pwm_control pwm bIsOn s) else s))
       else Some s)"

definition Pega_pwm_init :: "u32 \<Rightarrow> 'a gpio_st_scheme \<Rightarrow> 'a gpio_st_scheme option" where
  "Pega_pwm_init bIsOn s =
     (let on = (if bIsOn > 1 then 1 else uint bIsOn) in
      Option.bind (pwm_start PWM_CH6 20000 50 on s) (pwm_start PWM_CH7 30000 50 on))"

definition IO_IRLED_CTRL :: "bool \<Rightarrow> 'a gpio_st_scheme \<Rightarrow> 'a gpio_st_scheme" where
  "IO_IRLED_CTRL on s = snd (Pega_pwm_control PWM_CH6 (of_bool on) s)"

definition IO_SPOTLIGHT_CTRL :: "bool \<Rightarrow> 'a gpio_st_scheme \<Rightarrow> 'a gpio_st_scheme" where
  "IO_SPOTLIGHT_CTRL on s = snd (Pega_pwm_control PWM_CH7 (of_bool on) s)"

subsection \<open>What the log says\<close>

text \<open>The last value written to a file, and the descriptors opened and not closed.\<close>

fun last_write :: "misc_io list \<Rightarrow> sys_path \<Rightarrow> string option" where
  "last_write [] p = None"
| "last_write (e # h) p = (case e of
     Write_file q v \<Rightarrow> if q = p then Some v else last_write h p
   | _ \<Rightarrow> last_write h p)"

fun open_fds :: "misc_io list \<Rightarrow> int" where
  "open_fds [] = 0"
| "open_fds (e # h) = (case e of
     Open p ok \<Rightarrow> open_fds h + of_bool ok
   | Close p \<Rightarrow> open_fds h - 1
   | _ \<Rightarrow> open_fds h)"

end
