(* ===== verification/Misc_Led.thy ===== *)
theory Misc_Led
  imports Misc_Gpio
begin

text \<open>
  The status LED, \<open>pega_misc/src/pega_led_flash.c\<close>: the table of states and priorities, the
  patterns, and the flashing thread. A thread runs from one sleep to the next in one step; a
  cancelled thread takes no further step (it is cancelled in a sleep, and the canceller sleeps
  200 ms before it touches a pin).
\<close>

subsection \<open>State\<close>

text \<open>Where a flashing thread stands: not yet run, asleep with its colours lit, or asleep dark.\<close>

datatype led_phase = Led_start | Led_lit | Led_dark

record led_st = gpio_st +
  m_eLED_State :: u8
  m_eLED_State_prev :: u8
  bIsLedFlashing :: u8
  eLedFlashing_Pattern :: u8
  eLedFlashing_Color :: u8
  u16Period :: u16
  led_thread_id :: nat
  led_threads :: "(nat \<times> led_phase) list"
  next_thread :: nat

abbreviation (input) LED_State_None :: u16 where "LED_State_None \<equiv> 0"
abbreviation (input) LED_State_Off :: u16 where "LED_State_Off \<equiv> 1"
abbreviation (input) LED_State_System_Start_Up :: u16 where "LED_State_System_Start_Up \<equiv> 2"
abbreviation (input) LED_State_Wifi_Ready :: u16 where "LED_State_Wifi_Ready \<equiv> 3"
abbreviation (input) LED_State_Wifi_off :: u16 where "LED_State_Wifi_off \<equiv> 4"
abbreviation (input) LED_State_Wifi_fw_error :: u16 where "LED_State_Wifi_fw_error \<equiv> 5"
abbreviation (input) LED_State_Power_off :: u16 where "LED_State_Power_off \<equiv> 6"

abbreviation (input) LED_FLASH_COLOR_R :: u8 where "LED_FLASH_COLOR_R \<equiv> 1"
abbreviation (input) LED_FLASH_COLOR_G :: u8 where "LED_FLASH_COLOR_G \<equiv> 2"
abbreviation (input) LED_FLASH_COLOR_B :: u8 where "LED_FLASH_COLOR_B \<equiv> 4"

abbreviation (input) LED_PATTERN_NONE :: u16 where "LED_PATTERN_NONE \<equiv> 0"
abbreviation (input) LED_PATTERN_COLOR_RED :: u16 where "LED_PATTERN_COLOR_RED \<equiv> 1"
abbreviation (input) LED_PATTERN_COLOR_GREEN :: u16 where "LED_PATTERN_COLOR_GREEN \<equiv> 2"
abbreviation (input) LED_PATTERN_COLOR_BLUE :: u16 where "LED_PATTERN_COLOR_BLUE \<equiv> 3"
abbreviation (input) LED_PATTERN_COLOR_CYAN :: u16 where "LED_PATTERN_COLOR_CYAN \<equiv> 4"
abbreviation (input) LED_PATTERN_COLOR_MAGENTA :: u16 where "LED_PATTERN_COLOR_MAGENTA \<equiv> 5"
abbreviation (input) LED_PATTERN_COLOR_YELLOW :: u16 where "LED_PATTERN_COLOR_YELLOW \<equiv> 6"
abbreviation (input) LED_PATTERN_COLOR_WHITE :: u16 where "LED_PATTERN_COLOR_WHITE \<equiv> 7"
abbreviation (input) LED_PATTERN_FLASHING_RED :: u16 where "LED_PATTERN_FLASHING_RED \<equiv> 8"
abbreviation (input) LED_PATTERN_FLASHING_GREEN :: u16 where "LED_PATTERN_FLASHING_GREEN \<equiv> 9"
abbreviation (input) LED_PATTERN_FLASHING_BLUE :: u16 where "LED_PATTERN_FLASHING_BLUE \<equiv> 10"
abbreviation (input) LED_PATTERN_FLASHING_CYAN :: u16 where "LED_PATTERN_FLASHING_CYAN \<equiv> 11"
abbreviation (input) LED_PATTERN_FLASHING_MAGENTA :: u16 where "LED_PATTERN_FLASHING_MAGENTA \<equiv> 12"
abbreviation (input) LED_PATTERN_FLASHING_YELLOW :: u16 where "LED_PATTERN_FLASHING_YELLOW \<equiv> 13"
abbreviation (input) LED_PATTERN_FLASHING_WHITE :: u16 where "LED_PATTERN_FLASHING_WHITE \<equiv> 14"

subsection \<open>The flashing thread\<close>

definition flash_leds :: "bool \<Rightarrow> 'a led_st_scheme \<Rightarrow> 'a led_st_scheme" where
  "flash_leds on s = (let c = eLedFlashing_Color s in seq
     [if c AND LED_FLASH_COLOR_R \<noteq> 0 then IO_LED_R_CTRL on else (\<lambda>s. s),
      if c AND LED_FLASH_COLOR_G \<noteq> 0 then IO_LED_G_CTRL on else (\<lambda>s. s),
      if c AND LED_FLASH_COLOR_B \<noteq> 0 then IO_LED_B_CTRL on else (\<lambda>s. s)] s)"

definition flash_prologue :: "'a led_st_scheme \<Rightarrow> 'a led_st_scheme" where
  "flash_prologue s = s\<lparr>bIsLedFlashing := 1,
     u16Period := (if u16Period s < 50 then 100 else u16Period s)\<rparr>"

definition flash_on :: "'a led_st_scheme \<Rightarrow> 'a led_st_scheme" where
  "flash_on = seq [flash_leds True, usleep 500000]"

definition flash_off :: "'a led_st_scheme \<Rightarrow> 'a led_st_scheme" where
  "flash_off = seq [flash_leds False, (\<lambda>s. usleep (1000 * unat (u16Period s)) s)]"

text \<open>One step of a thread of \<open>Pega_led_flash_TaskHandler\<close>: it runs to its next sleep.\<close>

definition Pega_led_flash_TaskHandler :: "nat \<Rightarrow> 'a led_st_scheme \<Rightarrow> 'a led_st_scheme" where
  "Pega_led_flash_TaskHandler t s = (case map_of (led_threads s) t of
     None \<Rightarrow> s
   | Some ph \<Rightarrow>
      (let step = (case ph of Led_start \<Rightarrow> seq [flash_prologue, flash_on]
                            | Led_lit \<Rightarrow> flash_off | Led_dark \<Rightarrow> flash_on);
           ph' = (if ph = Led_lit then Led_dark else Led_lit);
           s = step s
       in s\<lparr>led_threads := map (\<lambda>x. if fst x = t then (t, ph') else x) (led_threads s)\<rparr>))"

definition Pega_led_flash_handler_Start :: "'a led_st_scheme \<Rightarrow> 'a led_st_scheme" where
  "Pega_led_flash_handler_Start s = emit Thread_create
     (s\<lparr>led_thread_id := next_thread s, next_thread := Suc (next_thread s),
        led_threads := (next_thread s, Led_start) # led_threads s\<rparr>)"

definition Pega_led_flash_Chanel :: "'a led_st_scheme \<Rightarrow> 'a led_st_scheme" where
  "Pega_led_flash_Chanel s =
     (if led_thread_id s \<noteq> 0
      then emit Thread_cancel
        (s\<lparr>led_threads := filter (\<lambda>x. fst x \<noteq> led_thread_id s) (led_threads s), led_thread_id := 0\<rparr>)
      else s)"

definition Pega_led_flash_Led_Flashing_Check :: "'a led_st_scheme \<Rightarrow> bool" where
  "Pega_led_flash_Led_Flashing_Check s = (bIsLedFlashing s > 0)"

subsection \<open>Patterns\<close>

definition flash_color :: "u8 \<Rightarrow> 'a led_st_scheme \<Rightarrow> int \<times> 'a led_st_scheme" where
  "flash_color c s = (0, Pega_led_flash_handler_Start (s\<lparr>eLedFlashing_Color := c\<rparr>))"

definition solid :: "('a led_st_scheme \<Rightarrow> 'a led_st_scheme) list \<Rightarrow> 'a led_st_scheme \<Rightarrow>
    int \<times> 'a led_st_scheme" where
  "solid fs s = (0, seq fs s)"

definition led_pattern_switch :: "u16 \<Rightarrow> 'a led_st_scheme \<Rightarrow> int \<times> 'a led_st_scheme" where
  "led_pattern_switch p =
     (if p = LED_PATTERN_COLOR_RED then solid [IO_LED_R_CTRL True]
      else if p = LED_PATTERN_COLOR_GREEN then solid [IO_LED_G_CTRL True]
      else if p = LED_PATTERN_COLOR_BLUE then solid [IO_LED_B_CTRL True]
      else if p = LED_PATTERN_COLOR_CYAN then solid [IO_LED_G_CTRL True, IO_LED_B_CTRL True]
      else if p = LED_PATTERN_COLOR_MAGENTA then solid [IO_LED_R_CTRL True, IO_LED_B_CTRL True]
      else if p = LED_PATTERN_COLOR_YELLOW then solid [IO_LED_R_CTRL True, IO_LED_G_CTRL True]
      else if p = LED_PATTERN_COLOR_WHITE
        then solid [IO_LED_R_CTRL True, IO_LED_G_CTRL True, IO_LED_B_CTRL True]
      else if p = LED_PATTERN_FLASHING_RED then flash_color LED_FLASH_COLOR_R
      else if p = LED_PATTERN_FLASHING_GREEN then flash_color LED_FLASH_COLOR_G
      else if p = LED_PATTERN_FLASHING_BLUE then flash_color LED_FLASH_COLOR_B
      else if p = LED_PATTERN_FLASHING_CYAN then flash_color (LED_FLASH_COLOR_G + LED_FLASH_COLOR_B)
      else if p = LED_PATTERN_FLASHING_MAGENTA
        then flash_color (LED_FLASH_COLOR_R + LED_FLASH_COLOR_B)
      else if p = LED_PATTERN_FLASHING_YELLOW
        then flash_color (LED_FLASH_COLOR_R + LED_FLASH_COLOR_G)
      else if p = LED_PATTERN_FLASHING_WHITE
        then flash_color (LED_FLASH_COLOR_R + LED_FLASH_COLOR_G + LED_FLASH_COLOR_B)
      else (\<lambda>s. (-1, s)))"

definition Pega_led_flash_Pattern_Set :: "u16 \<Rightarrow> 'a led_st_scheme \<Rightarrow> int \<times> 'a led_st_scheme" where
  "Pega_led_flash_Pattern_Set ePattern s = led_pattern_switch ePattern (seq
     [Pega_led_flash_Chanel, usleep 200000,
      IO_LED_R_CTRL False, IO_LED_G_CTRL False, IO_LED_B_CTRL False,
      (\<lambda>s. s\<lparr>eLedFlashing_Pattern := ucast ePattern, u16Period := 500\<rparr>)] s)"

subsection \<open>States and priorities\<close>

definition m_stLedPatternPriorityTbl :: "(int \<times> int) list" where
  "m_stLedPatternPriorityTbl = [(0, 0), (1, 1), (2, 5), (3, 10), (4, 10), (5, 10), (6, 100)]"

definition Pega_led_flash_state_priority_get :: "int \<Rightarrow> int" where
  "Pega_led_flash_state_priority_get ePattern =
     (case map_of m_stLedPatternPriorityTbl ePattern of None \<Rightarrow> -1 | Some v \<Rightarrow> v)"

definition led_state_pattern :: "u8 \<Rightarrow> u16" where
  "led_state_pattern st =
     (if st = 1 then LED_PATTERN_NONE
      else if st = 2 then LED_PATTERN_FLASHING_YELLOW
      else if st = 3 then LED_PATTERN_COLOR_BLUE
      else if st = 4 then LED_PATTERN_COLOR_YELLOW
      else if st = 5 then LED_PATTERN_COLOR_RED
      else LED_PATTERN_NONE)"

definition Pega_led_flash_state_Set :: "u16 \<Rightarrow> 'a led_st_scheme \<Rightarrow> int \<times> 'a led_st_scheme" where
  "Pega_led_flash_state_Set estate s =
     (if ucast (m_eLED_State s) = estate then (1, s)
      else (let now = Pega_led_flash_state_priority_get (uint estate);
                prev = Pega_led_flash_state_priority_get (uint (m_eLED_State s))
            in if now < 0 then (-3, s)
               else if prev > now then (-2, s)
               else (let s = s\<lparr>m_eLED_State_prev := m_eLED_State s, m_eLED_State := ucast estate\<rparr>
                     in Pega_led_flash_Pattern_Set (led_state_pattern (m_eLED_State s)) s)))"

definition Pega_led_flash_State_Clear :: "'a led_st_scheme \<Rightarrow> 'a led_st_scheme" where
  "Pega_led_flash_State_Clear s = s\<lparr>m_eLED_State := 0, m_eLED_State_prev := 0\<rparr>"

end
