(* ===== verification/Misc_Als.thy ===== *)
theory Misc_Als
  imports Misc_Led "HOL-Library.Monad_Syntax"
begin

text \<open>
  The I2C transport \<open>pega_misc/src/pega_i2c_control.c\<close> and the ambient light sensor
  \<open>pega_als_opt300x.[ch]\<close>. A transfer that cannot select its slave ends the process with
  \<open>exit(1)\<close>: the result is \<open>None\<close>.
\<close>

subsection \<open>I2C transport\<close>

datatype ISP_I2C_FMT = I2C_FMT_A8D8 | I2C_FMT_A16D8 | I2C_FMT_A8D16 | I2C_FMT_A16D16

text \<open>The byte \<open>(v >> n) & 0xff\<close>.\<close>

definition byte_of :: "nat \<Rightarrow> 'b::len word \<Rightarrow> u8" where
  "byte_of n v = ucast (drop_bit n v)"

definition i2c_bytes :: "ISP_I2C_FMT \<Rightarrow> u32 \<Rightarrow> u16 \<Rightarrow> u8 list" where
  "i2c_bytes fmt reg v = (case fmt of
     I2C_FMT_A8D8 \<Rightarrow> [byte_of 0 reg, byte_of 0 v]
   | I2C_FMT_A16D8 \<Rightarrow> [byte_of 8 reg, byte_of 0 reg, byte_of 0 v]
   | I2C_FMT_A8D16 \<Rightarrow> [byte_of 0 reg, byte_of 8 v, byte_of 0 v]
   | I2C_FMT_A16D16 \<Rightarrow> [byte_of 8 reg, byte_of 0 reg, byte_of 8 v, byte_of 0 v])"

definition bus_write :: "int \<Rightarrow> int \<Rightarrow> u8 list \<Rightarrow> 'a gpio_st_scheme \<Rightarrow> bool \<times> 'a gpio_st_scheme" where
  "bus_write fd slave bs s =
     (i2c_write_ret (menv s) (mlog s) fd slave bs = int (length bs), emit (I2c_write slave bs) s)"

definition pega_i2cSetAddress :: "int \<Rightarrow> int \<Rightarrow> 'a gpio_st_scheme \<Rightarrow> 'a gpio_st_scheme option" where
  "pega_i2cSetAddress fd slave s = (if i2c_slave_ok (menv s) (mlog s) fd slave then Some s else None)"

definition pega_i2c_Write ::
    "int \<Rightarrow> int \<Rightarrow> u32 \<Rightarrow> u16 \<Rightarrow> ISP_I2C_FMT \<Rightarrow> 'a gpio_st_scheme \<Rightarrow> 'a gpio_st_scheme res" where
  "pega_i2c_Write fd slaveAddr reg v fmt s =
     (if fd \<le> 0 then Some (FAILED, s)
      else do {
        s \<leftarrow> pega_i2cSetAddress fd (drop_bit 1 slaveAddr) s;
        let (ok, s) = bus_write fd (drop_bit 1 slaveAddr) (i2c_bytes fmt reg v) s;
        Some (if ok then SUCCEED else FAILED, s)
      })"

text \<open>
  \<open>read\<close> stores its bytes through a \<open>uint16_t\<close> pointer on a little endian machine; a short
  read leaves the other bytes as they were.
\<close>

fun store_bytes :: "u8 list \<Rightarrow> u16 \<Rightarrow> u16" where
  "store_bytes [] v = v"
| "store_bytes [a] v = (v AND 0xFF00) OR ucast a"
| "store_bytes (a # b # _) v = push_bit 8 (ucast b) OR ucast a"

definition i2c_reg_bytes :: "ISP_I2C_FMT \<Rightarrow> u32 \<Rightarrow> u8 list" where
  "i2c_reg_bytes fmt reg = (case fmt of
     I2C_FMT_A8D8 \<Rightarrow> [byte_of 0 reg] | I2C_FMT_A8D16 \<Rightarrow> [byte_of 0 reg]
   | I2C_FMT_A16D8 \<Rightarrow> [byte_of 8 reg, byte_of 0 reg]
   | I2C_FMT_A16D16 \<Rightarrow> [byte_of 8 reg, byte_of 0 reg])"

definition i2c_read_len :: "ISP_I2C_FMT \<Rightarrow> nat" where
  "i2c_read_len fmt = (case fmt of I2C_FMT_A8D8 \<Rightarrow> 1 | I2C_FMT_A16D8 \<Rightarrow> 1
     | I2C_FMT_A8D16 \<Rightarrow> 2 | I2C_FMT_A16D16 \<Rightarrow> 2)"

definition pega_i2c_Read :: "int \<Rightarrow> int \<Rightarrow> u32 \<Rightarrow> u16 \<Rightarrow> ISP_I2C_FMT \<Rightarrow> 'a gpio_st_scheme \<Rightarrow>
    (int \<times> u16 \<times> 'a gpio_st_scheme) option" where
  "pega_i2c_Read fd slaveAddr reg v fmt s =
     (if fd \<le> 0 then Some (FAILED, v, s)
      else do {
        let slave = drop_bit 1 slaveAddr;
        s \<leftarrow> pega_i2cSetAddress fd slave s;
        let (ok, s) = bus_write fd slave (i2c_reg_bytes fmt reg) s;
        if \<not> ok then Some (FAILED, v, s)
        else (let n = i2c_read_len fmt; r = i2c_read_ret (menv s) (mlog s) fd slave n;
                  s = emit (I2c_read slave n) s
              in case r of
                None \<Rightarrow> Some (FAILED, v, s)
              | Some bs \<Rightarrow> Some (if length (take n bs) = n then SUCCEED else FAILED,
                               store_bytes (take n bs) v, s))
      })"

subsection \<open>Light sensor\<close>

record als_st = led_st +
  m_Als_i2cFile :: int
  wDeviceID :: u16
  wConfReg :: u16
  als_fLux :: rat
  als_fLux_old :: rat

abbreviation (input) OPT300x_ADDRESS :: int where "OPT300x_ADDRESS \<equiv> 0x88"
abbreviation (input) OPT300x_REG_SYS_RESULT :: u8 where "OPT300x_REG_SYS_RESULT \<equiv> 0"
abbreviation (input) OPT300x_REG_SYS_CONF :: u8 where "OPT300x_REG_SYS_CONF \<equiv> 1"
abbreviation (input) OPT300x_REG_LOW_LIMIT :: u8 where "OPT300x_REG_LOW_LIMIT \<equiv> 2"
abbreviation (input) OPT300x_REG_HIGH_LIMIT :: u8 where "OPT300x_REG_HIGH_LIMIT \<equiv> 3"
abbreviation (input) OPT300x_REG_MANUFACTURER_ID :: u8 where "OPT300x_REG_MANUFACTURER_ID \<equiv> 0x7E"
abbreviation (input) OPT300x_REG_DEVICE_ID :: u8 where "OPT300x_REG_DEVICE_ID \<equiv> 0x7F"
abbreviation (input) CONFIGURATION_RN_AUTO :: u16 where "CONFIGURATION_RN_AUTO \<equiv> 0xC000"
abbreviation (input) CONFIGURATION_CT :: u16 where "CONFIGURATION_CT \<equiv> 0x0800"
abbreviation (input) CONFIGURATION_M_MASK :: u16 where "CONFIGURATION_M_MASK \<equiv> 0x0600"
abbreviation (input) CONFIGURATION_M_CONTINUOUS :: u16 where "CONFIGURATION_M_CONTINUOUS \<equiv> 0x0400"
abbreviation (input) CONFIGURATION_ME :: u16 where "CONFIGURATION_ME \<equiv> 0x0004"
abbreviation (input) CONFIGURATION_FC_MASK :: u16 where "CONFIGURATION_FC_MASK \<equiv> 0x0003"

definition OPT300X_I2C_Word_Data_Swap :: "u16 \<Rightarrow> u16" where
  "OPT300X_I2C_Word_Data_Swap d = push_bit 8 (d AND 0x00FF) + drop_bit 8 (d AND 0xFF00)"

definition OPT300X_I2C_WriteToSlave :: "u8 \<Rightarrow> u16 \<Rightarrow> 'a als_st_scheme \<Rightarrow> 'a als_st_scheme res" where
  "OPT300X_I2C_WriteToSlave regAddr regData s =
     pega_i2c_Write (m_Als_i2cFile s) OPT300x_ADDRESS (ucast regAddr) regData I2C_FMT_A8D16 s"

text \<open>The second component is what the call leaves in the caller's variable.\<close>

definition OPT300X_I2C_ReadFromSlave ::
    "u8 \<Rightarrow> u16 \<Rightarrow> 'a als_st_scheme \<Rightarrow> (int \<times> u16 \<times> 'a als_st_scheme) option" where
  "OPT300X_I2C_ReadFromSlave regAddr regData s = do {
     (ret, v, s) \<leftarrow> pega_i2c_Read (m_Als_i2cFile s) OPT300x_ADDRESS (ucast regAddr) 0 I2C_FMT_A8D16 s;
     Some (if ret = FAILED then (ret, regData, s) else (ret, OPT300X_I2C_Word_Data_Swap v, s))
   }"

definition OPT300x_set_mode :: "u16 \<Rightarrow> 'a als_st_scheme \<Rightarrow> 'a als_st_scheme" where
  "OPT300x_set_mode wMode s =
     s\<lparr>wConfReg := (wConfReg s AND NOT CONFIGURATION_M_MASK) OR wMode\<rparr>"

definition LsbWeightTable :: "rat list" where
  "LsbWeightTable = map f32
     [1/100, 2/100, 4/100, 8/100, 16/100, 32/100, 64/100, 128/100, 256/100, 512/100, 1024/100]"

definition lux_of :: "u16 \<Rightarrow> rat" where
  "lux_of wVal =
     (let e = drop_bit 12 wVal; m = of_nat (unat (wVal AND 0xFFF))
      in if e < 0xB then f32 (LsbWeightTable ! unat e * m) else f32 (f32 (2048/100) * m))"

text \<open>The caller's variable is uninitialised, but it is read only after a successful read.\<close>

definition OPT300x_Read_Lux :: "'a als_st_scheme \<Rightarrow> (bool \<times> 'a als_st_scheme) option" where
  "OPT300x_Read_Lux s = do {
     (ret, wVal, s) \<leftarrow> OPT300X_I2C_ReadFromSlave OPT300x_REG_SYS_RESULT 0 s;
     Some (if ret = SUCCEED then (True, s\<lparr>als_fLux := lux_of wVal\<rparr>) else (False, s))
   }"

definition OPT300x_Continue_Mode_Check :: "'a als_st_scheme \<Rightarrow> (bool \<times> 'a als_st_scheme) option" where
  "OPT300x_Continue_Mode_Check s = do {
     (ret, wVal, s) \<leftarrow> OPT300X_I2C_ReadFromSlave OPT300x_REG_SYS_CONF 0 s;
     if ret = SUCCEED \<and> wVal AND 0xFC00 \<noteq> 0xCC00
     then do {
       let s = OPT300x_set_mode CONFIGURATION_M_CONTINUOUS
                 (s\<lparr>wConfReg := (wVal AND 0x03FF) OR 0xCC00\<rparr>);
       (ret, s) \<leftarrow> OPT300X_I2C_WriteToSlave OPT300x_REG_SYS_CONF (wConfReg s) s;
       Some (ret \<noteq> SUCCEED, s)
     }
     else Some (True, s)
   }"

definition OPT300x_Device_I2C_open :: "'a als_st_scheme \<Rightarrow> 'a als_st_scheme" where
  "OPT300x_Device_I2C_open s = s\<lparr>m_Als_i2cFile := i2c_open (menv s) (mlog s) ''/dev/i2c-3''\<rparr>"

definition OPT300x_Device_I2C_close :: "'a als_st_scheme \<Rightarrow> 'a als_st_scheme" where
  "OPT300x_Device_I2C_close s = s\<lparr>m_Als_i2cFile := -1\<rparr>"

definition OPT300x_Is_Init_Already :: "'a als_st_scheme \<Rightarrow> (bool \<times> 'a als_st_scheme) option" where
  "OPT300x_Is_Init_Already s = do {
     (ret, wVal, s) \<leftarrow> OPT300X_I2C_ReadFromSlave OPT300x_REG_SYS_CONF 0 s;
     Some (ret \<noteq> FAILED \<and> wVal AND 0xCC00 = 0xCC00, s)
   }"

definition OPT300x_Device_Init :: "'a als_st_scheme \<Rightarrow> 'a als_st_scheme option" where
  "OPT300x_Device_Init s = do {
     let s = OPT300x_set_mode CONFIGURATION_M_CONTINUOUS
               (s\<lparr>wDeviceID := 0, wConfReg := CONFIGURATION_RN_AUTO OR CONFIGURATION_CT\<rparr>);
     let s = s\<lparr>wConfReg := wConfReg s AND NOT CONFIGURATION_ME AND NOT CONFIGURATION_FC_MASK\<rparr>;
     (already, s) \<leftarrow> OPT300x_Is_Init_Already s;
     (r, s) \<leftarrow> (if already then Some (0, s)
                else OPT300X_I2C_WriteToSlave OPT300x_REG_SYS_CONF (wConfReg s) s);
     (ret, wVal, s) \<leftarrow> OPT300X_I2C_ReadFromSlave OPT300x_REG_DEVICE_ID 0 s;
     Some (if ret = SUCCEED then s\<lparr>wDeviceID := wVal\<rparr> else s)
   }"

definition OPT300x_Read_Lux_Handler :: "'a als_st_scheme \<Rightarrow> (rat \<times> 'a als_st_scheme) option" where
  "OPT300x_Read_Lux_Handler s = do {
     (ok, s) \<leftarrow> OPT300x_Read_Lux s;
     if \<not> ok then Some (-1, s)
     else if als_fLux s = als_fLux_old s
     then do { (r, s) \<leftarrow> OPT300x_Continue_Mode_Check s; Some (als_fLux s, s) }
     else Some (als_fLux s, s\<lparr>als_fLux_old := als_fLux s\<rparr>)
   }"

definition OPT300x_Device_ID_Get :: "'a als_st_scheme \<Rightarrow> (u16 \<times> 'a als_st_scheme) option" where
  "OPT300x_Device_ID_Get s = do {
     (ret, wVal, s) \<leftarrow> OPT300X_I2C_ReadFromSlave OPT300x_REG_DEVICE_ID 0 s;
     Some (if ret = SUCCEED then (wVal, s\<lparr>wDeviceID := wVal\<rparr>) else (0, s))
   }"

text \<open>
  \<open>OPT300x_Register_Info_Print\<close>: the registers it reads and prints, each with what the variable
  holds after the read (a failed read prints the previous value).
\<close>

fun print_regs :: "u8 list \<Rightarrow> u16 \<Rightarrow> 'a als_st_scheme \<Rightarrow>
    ((u8 \<times> u16) list \<times> 'a als_st_scheme) option" where
  "print_regs [] v s = Some ([], s)"
| "print_regs (r # rs) v s = do {
     (ret, v, s) \<leftarrow> OPT300X_I2C_ReadFromSlave r v s;
     (xs, s) \<leftarrow> print_regs rs v s;
     Some ((r, v) # xs, s)
   }"

definition OPT300x_Register_Info_Print ::
    "u16 \<Rightarrow> 'a als_st_scheme \<Rightarrow> ((u8 \<times> u16) list \<times> 'a als_st_scheme) option" where
  "OPT300x_Register_Info_Print junk = print_regs
     [OPT300x_REG_SYS_RESULT, OPT300x_REG_SYS_CONF, OPT300x_REG_LOW_LIMIT, OPT300x_REG_HIGH_LIMIT,
      OPT300x_REG_MANUFACTURER_ID, OPT300x_REG_DEVICE_ID] junk"

end
