(* ===== verification/Misc_Nv.thy ===== *)
theory Misc_Nv
  imports Misc_Als
begin

text \<open>
  Day and night mode, \<open>pega_misc/src/pega_nv_mode.c\<close>: the averaged light level decides between
  the IR-cut filter (day) and the IR LEDs (night), with a count of readings beyond each threshold.
\<close>

subsection \<open>State\<close>

record nv_st = als_st +
  fLux :: rat
  fOffset :: rat
  fLuxCal :: rat
  fNightModeThd :: rat
  fDayModeThd :: rat
  bNVModeSet :: u8
  bIsNVModeAuto :: u8
  bIsNightMode :: u8
  bIRLedEn :: u8
  bIsIRLedOn :: u8
  u8DayModeCounts :: u8
  u8NightModeCounts :: u8
  sTriggerCounts :: int
  InitialLSValue :: int
  m_tmpfLux :: rat

abbreviation (input) NV_MODE_DAY :: int where "NV_MODE_DAY \<equiv> 3"
abbreviation (input) NV_MODE_STATE_NIGHT :: int where "NV_MODE_STATE_NIGHT \<equiv> 2"

text \<open>The static initialiser of \<open>m_stNVmode\<close>.\<close>

definition nv_initial :: "'a nv_st_scheme \<Rightarrow> 'a nv_st_scheme" where
  "nv_initial s = s\<lparr>fLux := 0xFFFFFF, fOffset := 0, fLuxCal := 1, fNightModeThd := 2,
     fDayModeThd := 5, bNVModeSet := 0, bIsNVModeAuto := 1, bIsNightMode := 3, bIRLedEn := 0,
     bIsIRLedOn := 2, u8DayModeCounts := 0, u8NightModeCounts := 0, sTriggerCounts := 4,
     InitialLSValue := 0x7FFFFFFF, m_tmpfLux := -1\<rparr>"

subsection \<open>Outputs\<close>

definition Pega_NV_Mode_IR_Led_Control :: "int \<Rightarrow> 'a nv_st_scheme \<Rightarrow> 'a nv_st_scheme" where
  "Pega_NV_Mode_IR_Led_Control bEnable s =
     (let on = (bEnable = 1 \<and> bIRLedEn s = 1)
      in IO_IRLED_CTRL on (s\<lparr>bIsIRLedOn := of_bool on\<rparr>))"

definition Pega_Force_Day_Night_Mode :: "u8 \<Rightarrow> 'a nv_st_scheme \<Rightarrow> 'a nv_st_scheme" where
  "Pega_Force_Day_Night_Mode IsNightMode =
     (if IsNightMode \<noteq> 0 then seq [Pega_Gpio_IRCut_Control 0, IO_IRLED_CTRL True]
      else seq [IO_IRLED_CTRL False, Pega_Gpio_IRCut_Control 1])"

definition Pega_NV_Mode_Night_Mode_Set :: "'a nv_st_scheme \<Rightarrow> 'a nv_st_scheme" where
  "Pega_NV_Mode_Night_Mode_Set s =
     (if bIsNightMode s = 1 then s else Pega_Force_Day_Night_Mode 1 (s\<lparr>bIsNightMode := 1\<rparr>))"

definition Pega_NV_Mode_Day_Mode_Set :: "'a nv_st_scheme \<Rightarrow> 'a nv_st_scheme" where
  "Pega_NV_Mode_Day_Mode_Set s =
     (if bIsNightMode s = 0 then s else Pega_Force_Day_Night_Mode 0 (s\<lparr>bIsNightMode := 0\<rparr>))"

definition Pega_NV_Mode_Manual_Set :: "'a nv_st_scheme \<Rightarrow> 'a nv_st_scheme" where
  "Pega_NV_Mode_Manual_Set s =
     (if bNVModeSet s = 1 then s
      else (let s = (if bIsNightMode s = 1
                     then Pega_NV_Mode_Night_Mode_Set (s\<lparr>bIsNightMode := 0\<rparr>)
                     else Pega_NV_Mode_Day_Mode_Set (s\<lparr>bIsNightMode := 1\<rparr>))
            in s\<lparr>bNVModeSet := 1\<rparr>))"

definition Pega_NV_Mode_Night_IR_Led_Control :: "u8 \<Rightarrow> 'a nv_st_scheme \<Rightarrow> 'a nv_st_scheme" where
  "Pega_NV_Mode_Night_IR_Led_Control bFlag s =
     (let s = s\<lparr>bIRLedEn := bFlag\<rparr>
      in if bIsNightMode s \<noteq> 1 then s else Pega_NV_Mode_IR_Led_Control 1 s)"

subsection \<open>Light level\<close>

definition Pega_NV_Mode_Lux_Update :: "rat \<Rightarrow> 'a nv_st_scheme \<Rightarrow> rat \<times> 'a nv_st_scheme" where
  "Pega_NV_Mode_Lux_Update l s =
     (let l = (if fLuxCal s \<noteq> 0 then f32 (l * fLuxCal s) else l);
          l = f32 (l + fOffset s)
      in (l, s\<lparr>fLux := l,
               InitialLSValue := (if InitialLSValue s = 0x7FFFFFFF then trunc l
                                  else InitialLSValue s)\<rparr>))"

text \<open>The two threshold tests of \<open>Pega_NV_Mode_Processing\<close> after the level was read.\<close>

definition nv_night_step :: "int \<times> 'a nv_st_scheme \<Rightarrow> int \<times> 'a nv_st_scheme" where
  "nv_night_step rs = (case rs of (rtn, s) \<Rightarrow>
     if fLux s < fNightModeThd s
     then (if uint (u8NightModeCounts s) \<ge> sTriggerCounts s - 1
           then (NV_MODE_STATE_NIGHT, Pega_NV_Mode_Night_Mode_Set (s\<lparr>u8DayModeCounts := 0\<rparr>))
           else (rtn, s\<lparr>u8NightModeCounts := u8NightModeCounts s + 1\<rparr>))
     else (rtn, s))"

definition nv_day_step :: "int \<times> 'a nv_st_scheme \<Rightarrow> int \<times> 'a nv_st_scheme" where
  "nv_day_step rs = (case rs of (rtn, s) \<Rightarrow>
     if fLux s > fDayModeThd s
     then (if uint (u8DayModeCounts s) \<ge> sTriggerCounts s - 1
           then (NV_MODE_DAY, Pega_NV_Mode_Day_Mode_Set (s\<lparr>u8NightModeCounts := 0\<rparr>))
           else (rtn, s\<lparr>u8DayModeCounts := u8DayModeCounts s + 1\<rparr>))
     else (rtn, s))"

definition Pega_NV_Mode_Processing :: "'a nv_st_scheme \<Rightarrow> 'a nv_st_scheme res" where
  "Pega_NV_Mode_Processing s =
     (if bIsNVModeAuto s \<noteq> 1 then Some (NOT_THING, Pega_NV_Mode_Manual_Set s)
      else do {
        (l, s) \<leftarrow> OPT300x_Read_Lux_Handler s;
        let s = s\<lparr>m_tmpfLux := l\<rparr>;
        if l < 0 then Some (NOT_THING, s)
        else Some (nv_day_step (nv_night_step (NOT_THING, snd (Pega_NV_Mode_Lux_Update l s))))
      })"

definition Pega_NV_Mode_Diag_Lux_Get :: "'a nv_st_scheme \<Rightarrow> (rat \<times> 'a nv_st_scheme) option" where
  "Pega_NV_Mode_Diag_Lux_Get s = do {
     (l, s) \<leftarrow> OPT300x_Read_Lux_Handler s;
     Some (Pega_NV_Mode_Lux_Update l s)
   }"

subsection \<open>Settings\<close>

text \<open>
  \<open>/tmp/pega/als_cali_gain\<close> holds the stored gain. A missing file is read through a null
  pointer, more than 32 bytes overflow the buffer, and a number that is not followed by another
  character is read past the bytes of the file: all three are faults.
\<close>

definition Pega_NV_Mode_nvram_update :: "'a nv_st_scheme \<Rightarrow> 'a nv_st_scheme option" where
  "Pega_NV_Mode_nvram_update s =
     (let s = emit (System ''echo $(sku_printenv -n ALS_CALI_GAIN) >/tmp/pega/als_cali_gain'') s
      in case text_file (menv s) (mlog s) ''/tmp/pega/als_cali_gain'' of
        None \<Rightarrow> None
      | Some str \<Rightarrow>
          if length (take 50 str) > 32 then None
          else (case strtod str of (v, rest) \<Rightarrow>
            if rest = [] then None
            else (let gain = f32 v in Some (if gain > 0 then s\<lparr>fLuxCal := gain\<rparr> else s))))"

definition Pega_NV_EnterNVThreshold_Update :: "int \<Rightarrow> 'a nv_st_scheme \<Rightarrow> int \<times> 'a nv_st_scheme" where
  "Pega_NV_EnterNVThreshold_Update night_thd s =
     (if night_thd > 0 then (SUCCEED, s\<lparr>fNightModeThd := f32 (f32 (of_int night_thd) / 100)\<rparr>)
      else (FAILED, s))"

definition Pega_NV_ExitNVThreshold_Update :: "int \<Rightarrow> 'a nv_st_scheme \<Rightarrow> int \<times> 'a nv_st_scheme" where
  "Pega_NV_ExitNVThreshold_Update day_thd s =
     (if day_thd > 0 then (SUCCEED, s\<lparr>fDayModeThd := f32 (f32 (of_int day_thd) / 100)\<rparr>)
      else (FAILED, s))"

definition Pega_NV_DayNighMode_Manual_Set :: "u8 \<Rightarrow> 'a nv_st_scheme \<Rightarrow> 'a nv_st_scheme" where
  "Pega_NV_DayNighMode_Manual_Set bNightMode s =
     s\<lparr>bNVModeSet := 0, bIsNightMode := bNightMode, bIsNVModeAuto := 0\<rparr>"

definition Pega_NV_Mode_Threshold_Set :: "rat \<Rightarrow> rat \<Rightarrow> 'a nv_st_scheme \<Rightarrow> 'a nv_st_scheme" where
  "Pega_NV_Mode_Threshold_Set night day s = s\<lparr>fNightModeThd := night, fDayModeThd := day\<rparr>"

definition Pega_NV_Mode_Control_Set :: "u8 \<Rightarrow> 'a nv_st_scheme \<Rightarrow> 'a nv_st_scheme" where
  "Pega_NV_Mode_Control_Set bFlag s =
     s\<lparr>bIsNVModeAuto := bFlag, u8DayModeCounts := 0, u8NightModeCounts := 0\<rparr>"

definition Pega_NV_Mode_NVModeSet_Flag_Clear :: "'a nv_st_scheme \<Rightarrow> 'a nv_st_scheme" where
  "Pega_NV_Mode_NVModeSet_Flag_Clear s = s\<lparr>bNVModeSet := 0\<rparr>"

definition Pega_NV_Mode_NVModeSet_LuxCal_Set :: "rat \<Rightarrow> 'a nv_st_scheme \<Rightarrow> 'a nv_st_scheme" where
  "Pega_NV_Mode_NVModeSet_LuxCal_Set v s = s\<lparr>fLuxCal := v\<rparr>"

definition Pega_NV_Mode_NVModeSet_LuxOffset_Set :: "rat \<Rightarrow> 'a nv_st_scheme \<Rightarrow> 'a nv_st_scheme" where
  "Pega_NV_Mode_NVModeSet_LuxOffset_Set v s = s\<lparr>fOffset := v\<rparr>"

definition Pega_NV_Mode_NightMode_Set :: "u8 \<Rightarrow> 'a nv_st_scheme \<Rightarrow> 'a nv_st_scheme" where
  "Pega_NV_Mode_NightMode_Set day_night s = s\<lparr>bIsNightMode := day_night\<rparr>"

definition Pega_NV_Mode_IRLedEn_Set :: "u8 \<Rightarrow> 'a nv_st_scheme \<Rightarrow> 'a nv_st_scheme" where
  "Pega_NV_Mode_IRLedEn_Set enable s = s\<lparr>bIRLedEn := enable\<rparr>"

definition pga_set_NV_TriggerCounts :: "int \<Rightarrow> 'a nv_st_scheme \<Rightarrow> 'a nv_st_scheme" where
  "pga_set_NV_TriggerCounts v s = s\<lparr>sTriggerCounts := v\<rparr>"

definition pga_get_LastLSValue :: "'a nv_st_scheme \<Rightarrow> int" where
  "pga_get_LastLSValue s = trunc (fLux s)"

definition Pega_Diag_Force_Day_Night_Mode :: "u8 \<Rightarrow> 'a nv_st_scheme \<Rightarrow> 'a nv_st_scheme" where
  "Pega_Diag_Force_Day_Night_Mode IsNightMode s =
     (let s = s\<lparr>bIsNVModeAuto := 0, bNVModeSet := 1\<rparr>
      in if bIsNightMode s \<noteq> IsNightMode
         then Pega_Force_Day_Night_Mode IsNightMode (s\<lparr>bIsNightMode := IsNightMode\<rparr>) else s)"

end
