(* ===== verification/Misc_Amp.thy ===== *)
theory Misc_Amp
  imports Misc_Nv
begin

text \<open>
  The audio amplifier, \<open>pega_misc/src/pega_amp_tas256x.c\<close>: register access with the cached
  book and page, the interpreter of the configuration file, and the built-in start-up script.
\<close>

subsection \<open>Register access\<close>

record amp_st = nv_st +
  cur_book :: u8
  cur_page :: u8
  m_Amp_i2cFile :: int
  m_bIsAmp_init :: int

abbreviation (input) TAS2563_ADDRESS :: int where "TAS2563_ADDRESS \<equiv> 0x98"
abbreviation (input) TAS2563_PAGE :: u8 where "TAS2563_PAGE \<equiv> 0x00"
abbreviation (input) TAS2563_SW_RESET :: u8 where "TAS2563_SW_RESET \<equiv> 0x01"
abbreviation (input) TAS2563_PWR_CTL :: u8 where "TAS2563_PWR_CTL \<equiv> 0x02"
abbreviation (input) TAS2563_PB_CFG1 :: u8 where "TAS2563_PB_CFG1 \<equiv> 0x03"
abbreviation (input) TAS2563_INT_LIVE4 :: u8 where "TAS2563_INT_LIVE4 \<equiv> 0x22"
abbreviation (input) TAS2563_INT_LTCH0 :: u8 where "TAS2563_INT_LTCH0 \<equiv> 0x24"
abbreviation (input) TAS2563_BOOK :: u8 where "TAS2563_BOOK \<equiv> 0x7F"

definition tas2563_i2c_write :: "u8 \<Rightarrow> u8 \<Rightarrow> 'a amp_st_scheme \<Rightarrow> 'a amp_st_scheme res" where
  "tas2563_i2c_write regAddr regData s =
     pega_i2c_Write (m_Amp_i2cFile s) TAS2563_ADDRESS (ucast regAddr) (ucast regData) I2C_FMT_A8D8 s"

text \<open>A write whose result is ignored, and a sequence of steps that may end the process.\<close>

definition tas_put :: "u8 \<Rightarrow> u8 \<Rightarrow> 'a amp_st_scheme \<Rightarrow> 'a amp_st_scheme option" where
  "tas_put regAddr regData s = map_option snd (tas2563_i2c_write regAddr regData s)"

fun seq_opt :: "('s \<Rightarrow> 's option) list \<Rightarrow> 's \<Rightarrow> 's option" where
  "seq_opt [] s = Some s"
| "seq_opt (f # fs) s = Option.bind (f s) (seq_opt fs)"

fun bulk_write_loop :: "u8 \<Rightarrow> u8 list \<Rightarrow> 'a amp_st_scheme \<Rightarrow> 'a amp_st_scheme res" where
  "bulk_write_loop reg [] s = Some (0, s)"
| "bulk_write_loop reg (d # ds) s = do {
     (ret, s) \<leftarrow> tas2563_i2c_write reg d s;
     if ret \<noteq> 0 then Some (-1, s) else bulk_write_loop (reg + 1) ds s
   }"

definition tas2563_bulk_write_reg ::
    "u8 \<Rightarrow> u8 \<Rightarrow> u8 \<Rightarrow> u8 list \<Rightarrow> 'a amp_st_scheme \<Rightarrow> 'a amp_st_scheme res" where
  "tas2563_bulk_write_reg book page regAddr regData s = do {
     (ret, s) \<leftarrow> (if book \<noteq> cur_book s then tas2563_i2c_write TAS2563_BOOK book (s\<lparr>cur_book := book\<rparr>)
                 else Some (0, s));
     if ret \<noteq> 0 then Some (-1, s)
     else do {
       (ret, s) \<leftarrow> (if page \<noteq> cur_page s then tas2563_i2c_write TAS2563_PAGE page (s\<lparr>cur_page := page\<rparr>)
                   else Some (0, s));
       if ret \<noteq> 0 then Some (-1, s) else bulk_write_loop regAddr regData s
     }
   }"

text \<open>The register value is what the transfer left in a zeroed variable, whatever the result.\<close>

definition tas2563_i2c_read :: "u8 \<Rightarrow> 'a amp_st_scheme \<Rightarrow> (int \<times> u8 \<times> 'a amp_st_scheme) option" where
  "tas2563_i2c_read regAddr s = do {
     (ret, v, s) \<leftarrow> pega_i2c_Read (m_Amp_i2cFile s) TAS2563_ADDRESS (ucast regAddr) 0 I2C_FMT_A8D8 s;
     Some (ret, ucast v, s)
   }"

definition tas2563_update_bits :: "u8 \<Rightarrow> u8 \<Rightarrow> u8 \<Rightarrow> 'a amp_st_scheme \<Rightarrow> 'a amp_st_scheme res" where
  "tas2563_update_bits reg msk v s = do {
     (ret, old, s) \<leftarrow> tas2563_i2c_read reg s;
     if ret < 0 then Some (ret, s)
     else (let new = (old AND NOT msk) OR (v AND msk) in
       if old \<noteq> new
       then do { (ret, s) \<leftarrow> tas2563_i2c_write reg new s; Some (if ret < 0 then ret else 0, s) }
       else Some (0, s))
   }"

definition Pega_AMP_Device_I2C_open :: "'a amp_st_scheme \<Rightarrow> 'a amp_st_scheme" where
  "Pega_AMP_Device_I2C_open s = s\<lparr>m_Amp_i2cFile := i2c_open (menv s) (mlog s) ''/dev/i2c-0''\<rparr>"

definition Pega_AMP_Device_I2C_close :: "'a amp_st_scheme \<Rightarrow> 'a amp_st_scheme" where
  "Pega_AMP_Device_I2C_close s = s\<lparr>m_Amp_i2cFile := -1\<rparr>"

definition page0 :: "('a amp_st_scheme \<Rightarrow> 'a amp_st_scheme option) list" where
  "page0 = [tas_put TAS2563_PAGE 0, tas_put TAS2563_BOOK 0]"

definition update_only :: "u8 \<Rightarrow> u8 \<Rightarrow> u8 \<Rightarrow> 'a amp_st_scheme \<Rightarrow> 'a amp_st_scheme option" where
  "update_only reg msk v s = map_option snd (tas2563_update_bits reg msk v s)"

definition Pega_AMP_Software_Reset :: "'a amp_st_scheme \<Rightarrow> 'a amp_st_scheme option" where
  "Pega_AMP_Software_Reset s = do {
     s \<leftarrow> seq_opt page0 s;
     (ret, s) \<leftarrow> tas2563_i2c_write TAS2563_SW_RESET 1 s;
     Some (emit (Print (if ret \<noteq> 0 then ''tas2560 reset fail'' else ''tas2560 reset success'')) s)
   }"

definition Pega_AMP_Software_Mute :: "u8 \<Rightarrow> 'a amp_st_scheme \<Rightarrow> 'a amp_st_scheme option" where
  "Pega_AMP_Software_Mute bMute =
     seq_opt (page0 @ [update_only TAS2563_PWR_CTL 0x03 (if bMute \<noteq> 0 then 1 else 0)])"

text \<open>The level is a \<open>float\<close>; the comparisons and the arithmetic are in \<open>double\<close>.\<close>

definition volume_code :: "rat \<Rightarrow> u8" where
  "volume_code fdB =
     (let fdB = (if fdB < 17/2 then 17/2 else fdB); fdB = (if fdB > 22 then 22 else fdB)
      in word_of_int (trunc (f64 (f64 (f64 (fdB - 17/2) / (1/2)) + 1))))"

definition Pega_AMP_Volume_Control :: "rat \<Rightarrow> 'a amp_st_scheme \<Rightarrow> 'a amp_st_scheme option" where
  "Pega_AMP_Volume_Control fdB =
     seq_opt (page0 @ [update_only TAS2563_PB_CFG1 0x3E (push_bit 1 (volume_code fdB))])"

subsection \<open>The configuration file\<close>

text \<open>
  \<open>fgets(buf, 60, f)\<close>: at most 59 characters, up to and with the newline; the flag is the end
  of file indicator. At the end of the file the buffer keeps its old content.
\<close>

fun take_line :: "nat \<Rightarrow> string \<Rightarrow> string \<times> string \<times> bool" where
  "take_line n [] = ([], [], 0 < n)"
| "take_line 0 (c # cs) = ([], c # cs, False)"
| "take_line (Suc n) (c # cs) = (if c = CHR 0x0A then ([c], cs, False)
     else (case take_line n cs of (l, r, eof) \<Rightarrow> (c # l, r, eof)))"

text \<open>The tokens of \<open>strtok(line, " ")\<close>.\<close>

fun tokens :: "string \<Rightarrow> string \<Rightarrow> string list" where
  "tokens acc [] = (if acc = [] then [] else [acc])"
| "tokens acc (c # cs) = (if c = CHR '' ''
     then (if acc = [] then tokens [] cs else acc # tokens [] cs) else tokens (acc @ [c]) cs)"

text \<open>
  One line that is not \<open>end\<close>: \<open>w <slave> <reg> <value>\<close> writes a register, \<open>> <value>\<close> the next
  one, \<open>d\<close> waits. A missing token is a null pointer for \<open>strcmp\<close> or \<open>strtol\<close>: a fault.
\<close>

definition cfg_line :: "string \<Rightarrow> u8 \<Rightarrow> 'a amp_st_scheme \<Rightarrow> (u8 \<times> 'a amp_st_scheme) option" where
  "cfg_line line reg s = (case tokens [] line of
     [] \<Rightarrow> None
   | tok # toks \<Rightarrow>
      if tok = ''w''
      then (case toks of
          _ # r # v # _ \<Rightarrow>
            (let reg = word_of_int (strtol16 r)
             in map_option (Pair reg) (tas_put reg (word_of_int (strtol16 v)) s))
        | _ \<Rightarrow> None)
      else if tok = ''>''
      then (case toks of
          v # _ \<Rightarrow> map_option (Pair (reg + 1)) (tas_put (reg + 1) (word_of_int (strtol16 v)) s)
        | _ \<Rightarrow> None)
      else if tok = ''d'' then Some (reg, usleep 10 s)
      else Some (reg, s))"

text \<open>
  The loop: \<open>buf\<close> is what the buffer holds as a C string when a line is to be read (after
  \<open>strtok\<close> it ends behind its first token). The last character of a line is cut off whether it
  is a newline or not, and an empty line would write in front of the buffer.
\<close>

function cfg_loop :: "string \<Rightarrow> string \<Rightarrow> u8 \<Rightarrow> 'a amp_st_scheme \<Rightarrow> 'a amp_st_scheme option" where
  "cfg_loop inp buf reg s =
     (case take_line 59 inp of (l, rest, eof) \<Rightarrow>
      let line = (if inp = [] then buf else l) in
      if line = [] then None
      else if butlast line = ''end'' then Some s
      else do {
        (reg, s) \<leftarrow> cfg_line (butlast line) reg s;
        if eof then Some s
        else cfg_loop rest
          (takeWhile (\<lambda>c. c = CHR '' '') (butlast line) @ hd (tokens [] (butlast line))) reg s
      })"
  by pat_completeness auto

lemma take_line_shorter: "inp \<noteq> [] \<Longrightarrow> 0 < n \<Longrightarrow> length (fst (snd (take_line n inp))) < length inp"
proof (induction n inp rule: take_line.induct)
  case (3 n c cs)
  then show ?case by (cases n; cases cs) (auto split: prod.splits)
qed auto

lemma take_line_more:
  assumes "take_line 59 inp = (l, rest, eof)" and "\<not> eof"
  shows "length rest < length inp"
proof (cases inp)
  case Nil
  then show ?thesis using assms by simp
next
  case (Cons c cs)
  then show ?thesis using take_line_shorter [of inp 59] assms by simp
qed

termination cfg_loop
  by (relation "measure (\<lambda>(inp, buf, reg, s). length inp)") (auto dest: take_line_more [OF sym])

declare cfg_loop.simps [simp del]

definition tas2563_load_audio_config_file :: "'a amp_st_scheme \<Rightarrow> 'a amp_st_scheme res" where
  "tas2563_load_audio_config_file s = (case text_file (menv s) (mlog s) ''/settings/tas2563.cfg'' of
     None \<Rightarrow> Some (-1, s)
   | Some text \<Rightarrow> map_option (Pair 0) (cfg_loop text [] 0 s))"

subsection \<open>Start-up\<close>

text \<open>The built-in script: a register write or a delay in microseconds per statement.\<close>

datatype amp_cmd = W u8 u8 | D nat

definition amp_script :: "amp_cmd list" where
  "amp_script =
     [W 0x00 0x00, W 0x7F 0x00, W 0x00 0x00, W 0x02 0x01, D 10000, W 0x00 0x00, W 0x7F 0x00,
      W 0x00 0x00, W 0x02 0x02, W 0x00 0x00, W 0x7F 0x00, W 0x00 0x00, W 0x01 0x01, W 0x00 0x00,
      W 0x7F 0x00, W 0x00 0xFD, W 0x0D 0x0D, W 0x32 0x49, W 0x3F 0x21, W 0x19 0x80, W 0x0D 0x0D,
      W 0x5F 0xC1, W 0x00 0x00, W 0x0A 0x03, W 0x1A 0xFC, W 0x1B 0xA6, W 0x1C 0xDF, W 0x1D 0xEF,
      W 0x30 0x19, W 0x32 0x80, W 0x38 0x00, W 0x30 0x99, W 0x33 0x34, W 0x34 0x4B, W 0x35 0x84,
      W 0x3C 0x38, W 0x00 0x04, W 0x60 0x04, W 0x61 0x04, W 0x62 0x04, W 0x63 0x04, W 0x14 0x1C,
      W 0x15 0x94, W 0x16 0x7A, W 0x17 0xE1, W 0x18 0x1F, W 0x19 0xA3, W 0x1A 0xD7, W 0x1B 0x0A,
      W 0x1C 0x22, W 0x1D 0xB3, W 0x1E 0x33, W 0x1F 0x33, W 0x20 0x25, W 0x21 0xC2, W 0x22 0x8F,
      W 0x23 0x5C, W 0x24 0x28, W 0x25 0xD1, W 0x26 0xEB, W 0x27 0x85, W 0x28 0x2B, W 0x29 0xE1,
      W 0x2A 0x47, W 0x2B 0xAE, W 0x2C 0x2E, W 0x2D 0xF0, W 0x2E 0xA3, W 0x2F 0xD7, W 0x30 0x32,
      W 0x31 0x00, W 0x32 0x00, W 0x33 0x00, W 0x34 0x35, W 0x35 0x0F, W 0x36 0x5C, W 0x37 0x29,
      W 0x38 0x38, W 0x39 0x1E, W 0x3A 0xB8, W 0x3B 0x52, W 0x3C 0x3B, W 0x3D 0x2E, W 0x3E 0x14,
      W 0x3F 0x7B, W 0x40 0x04, W 0x41 0xCC, W 0x42 0xCC, W 0x43 0xCD, W 0x00 0x03, W 0x5C 0x1E,
      W 0x5D 0x2E, W 0x5E 0x14, W 0x5F 0x7B, W 0x60 0x21, W 0x61 0x3D, W 0x62 0x70, W 0x63 0xA4,
      W 0x64 0x24, W 0x65 0x4C, W 0x66 0xCC, W 0x67 0xCD, W 0x68 0x27, W 0x69 0x5C, W 0x6A 0x28,
      W 0x6B 0xF6, W 0x6C 0x2A, W 0x6D 0x6B, W 0x6E 0x85, W 0x6F 0x1F, W 0x70 0x2D, W 0x71 0x7A,
      W 0x72 0xE1, W 0x73 0x48, W 0x74 0x30, W 0x75 0x8A, W 0x76 0x3D, W 0x77 0x71, W 0x78 0x33,
      W 0x79 0x99, W 0x7A 0x99, W 0x7B 0x9A, W 0x7C 0x36, W 0x7D 0xA8, W 0x7E 0xF5, W 0x7F 0xC3,
      W 0x00 0x04, W 0x08 0x39, W 0x09 0xB8, W 0x0A 0x51, W 0x0B 0xEC, W 0x0C 0x3C, W 0x0D 0xC7,
      W 0x0E 0xAE, W 0x0F 0x14, W 0x10 0x3F, W 0x11 0xD7, W 0x12 0x0A, W 0x13 0x3D, W 0x54 0x17,
      W 0x55 0x99, W 0x56 0x99, W 0x57 0x9A, W 0x6C 0x00, W 0x6D 0x00, W 0x6E 0x00, W 0x6F 0x17,
      W 0x00 0x00, W 0x03 0x20, W 0x04 0xC6, W 0x0A 0x03, W 0x12 0x12, W 0x13 0x76, W 0x14 0x01,
      W 0x15 0x2E, W 0x17 0x0E, W 0x19 0x00, W 0x33 0x34, W 0x34 0x4B, W 0x3B 0x38, W 0x3D 0x08,
      W 0x3E 0x10, W 0x3F 0x00, W 0x40 0xB6, W 0x00 0x01, W 0x08 0x40, W 0x00 0x02, W 0x0C 0x40,
      W 0x0D 0x00, W 0x0E 0x00, W 0x0F 0x00, W 0x10 0x03, W 0x11 0x4A, W 0x12 0x51, W 0x13 0x6C,
      W 0x00 0x04, W 0x74 0x7F, W 0x75 0xFB, W 0x76 0xB6, W 0x77 0x14, W 0x78 0x80, W 0x79 0x04,
      W 0x7A 0x49, W 0x7B 0xED, W 0x7C 0x7F, W 0x7D 0xF7, W 0x7E 0x6C, W 0x7F 0x28, W 0x00 0x02,
      W 0x68 0x7F, W 0x69 0xFB, W 0x6A 0xB6, W 0x6B 0x14, W 0x6C 0x80, W 0x6D 0x04, W 0x6E 0x49,
      W 0x6F 0xED, W 0x70 0x7F, W 0x71 0xF7, W 0x72 0x6C, W 0x73 0x28, W 0x14 0x2D, W 0x15 0x6A,
      W 0x16 0x86, W 0x17 0x6F, W 0x18 0x47, W 0x19 0x5C, W 0x1A 0x28, W 0x1B 0xF6, W 0x1C 0x16,
      W 0x1D 0x66, W 0x1E 0x66, W 0x1F 0x66, W 0x20 0x1A, W 0x21 0x66, W 0x22 0x66, W 0x23 0x66,
      W 0x24 0x08, W 0x25 0x00, W 0x26 0x00, W 0x27 0x00, W 0x28 0x17, W 0x29 0x33, W 0x2A 0x33,
      W 0x2B 0x33, W 0x2C 0x15, W 0x2D 0x99, W 0x2E 0x99, W 0x2F 0x9A, W 0x00 0x05, W 0x24 0x7F,
      W 0x25 0xFE, W 0x26 0xFD, W 0x27 0x47, W 0x2C 0xFE, W 0x2D 0xFE, W 0x2E 0xA4, W 0x2F 0xB5,
      W 0x40 0x00, W 0x41 0x00, W 0x42 0x03, W 0x43 0x20, W 0x44 0x02, W 0x45 0x46, W 0x46 0xB4,
      W 0x47 0xE4, W 0x1C 0x01, W 0x1D 0xC9, W 0x1E 0x24, W 0x1F 0x92, W 0x20 0x00, W 0x21 0x12,
      W 0x22 0x49, W 0x23 0x25, W 0x00 0x02, W 0x5C 0x00, W 0x5D 0x01, W 0x5E 0x09, W 0x5F 0x45,
      W 0x64 0x00, W 0x65 0x00, W 0x66 0x12, W 0x67 0xC0, W 0x40 0x04, W 0x41 0xCC, W 0x42 0xCC,
      W 0x43 0xCD, W 0x4C 0x00, W 0x4D 0x00, W 0x4E 0x00, W 0x4F 0x00, W 0x00 0x03, W 0x24 0x39,
      W 0x25 0x80, W 0x26 0x00, W 0x27 0x00, W 0x18 0x72, W 0x18 0x14, W 0x1A 0x82, W 0x1B 0xC0,
      W 0x1C 0x00, W 0x1D 0x00, W 0x1E 0x00, W 0x1F 0x64, W 0x20 0x40, W 0x21 0xBD, W 0x22 0xB7,
      W 0x23 0xC0, W 0x28 0x2D, W 0x29 0x6A, W 0x2A 0x86, W 0x2B 0x6F, W 0x00 0x00, W 0x04 0xC6,
      W 0x0A 0x03, W 0x31 0x40, W 0x00 0x00, W 0x7F 0x00, W 0x00 0x00, W 0x02 0x00]"

definition amp_step :: "amp_cmd \<Rightarrow> 'a amp_st_scheme \<Rightarrow> 'a amp_st_scheme option" where
  "amp_step c s = (case c of W r v \<Rightarrow> tas_put r v s | D n \<Rightarrow> Some (usleep n s))"

definition Pega_AMP_Initialize :: "bool \<Rightarrow> rat \<Rightarrow> 'a amp_st_scheme \<Rightarrow> 'a amp_st_scheme option" where
  "Pega_AMP_Initialize bIsNewCfg fdB s = do {
     let s = usleep 300000 (Pega_Gpio_HW_Amp_Reset s);
     (ret, s) \<leftarrow> (if bIsNewCfg then tas2563_load_audio_config_file s else Some (-1, s));
     if ret \<ge> 0
     then do {
       s \<leftarrow> (if fdB > 0 then Pega_AMP_Volume_Control fdB s else Some s);
       Some (s\<lparr>m_bIsAmp_init := 1\<rparr>)
     }
     else do {
       s \<leftarrow> seq_opt (map amp_step amp_script) s;
       if fdB > 0 then Pega_AMP_Volume_Control fdB s else Some s
     }
   }"

subsection \<open>Raw access\<close>

definition Pega_AMP_Reg_Write :: "u8 \<Rightarrow> u8 \<Rightarrow> 'a amp_st_scheme \<Rightarrow> 'a amp_st_scheme option" where
  "Pega_AMP_Reg_Write r v = seq_opt (page0 @ [tas_put r v])"

definition Pega_AMP_Reg_Read :: "u8 \<Rightarrow> 'a amp_st_scheme \<Rightarrow> (u8 \<times> 'a amp_st_scheme) option" where
  "Pega_AMP_Reg_Read r s = do {
     s \<leftarrow> seq_opt page0 s;
     (ret, v, s) \<leftarrow> tas2563_i2c_read r s;
     Some (v, s)
   }"

definition Pega_AMP_Clock_Error_check :: "'a amp_st_scheme \<Rightarrow> 'a amp_st_scheme res" where
  "Pega_AMP_Clock_Error_check s = do {
     (r24, s) \<leftarrow> Pega_AMP_Reg_Read TAS2563_INT_LTCH0 s;
     (r22, s) \<leftarrow> Pega_AMP_Reg_Read TAS2563_INT_LIVE4 s;
     Some (if r24 AND 0x02 = 0x02 \<and> r22 AND 0x80 = 0x80 then 1 else 0, s)
   }"

fun amp_read_regs :: "u8 list \<Rightarrow> 'a amp_st_scheme \<Rightarrow> ((u8 \<times> u8) list \<times> 'a amp_st_scheme) option" where
  "amp_read_regs [] s = Some ([], s)"
| "amp_read_regs (r # rs) s = do {
     (ret, v, s) \<leftarrow> tas2563_i2c_read r s;
     (xs, s) \<leftarrow> amp_read_regs rs s;
     Some ((r, v) # xs, s)
   }"

definition Pega_AMP_Reg_Data_Print :: "'a amp_st_scheme \<Rightarrow> ((u8 \<times> u8) list \<times> 'a amp_st_scheme) option" where
  "Pega_AMP_Reg_Data_Print s =
     (if m_bIsAmp_init s \<noteq> 1 then Some ([], s)
      else do { s \<leftarrow> seq_opt page0 s; amp_read_regs (map word_of_nat [0..<0x7F]) s })"

end
