(* ===== verification/Misc_Motor.thy ===== *)
theory Misc_Motor
  imports Misc_Amp "HOL-Library.While_Combinator"
begin

text \<open>
  The motors of the diagnostic daemon, \<open>pega_misc/src/pega_motor_awd8833.c\<close>: the step sequences
  over sysfs pins, rotation by degrees, and runs that a POSIX timer ends. Functions that the
  kernel driver also has carry the suffix \<open>_m\<close>.
\<close>

subsection \<open>State and pins\<close>

record motor_st = amp_st +
  g_full_step_state_m :: u8
  g_half_step_state_m :: u8
  g_full_step_delay_m :: u32
  g_half_step_delay_m :: u32
  m_isTimeout :: u8
  timer_armed :: bool

abbreviation (input) AW_REVERSE :: u8 where "AW_REVERSE \<equiv> 0"
abbreviation (input) AW_FORWARD :: u8 where "AW_FORWARD \<equiv> 1"
abbreviation (input) AW_FULL_STEP :: u8 where "AW_FULL_STEP \<equiv> 0"
abbreviation (input) AW_HALF_STEP :: u8 where "AW_HALF_STEP \<equiv> 1"
abbreviation (input) AW_PAN_MOTOR :: u8 where "AW_PAN_MOTOR \<equiv> 0"
abbreviation (input) AW_RISING_MOTOR :: u8 where "AW_RISING_MOTOR \<equiv> 1"
abbreviation (input) AW_SPEED_LOW :: u8 where "AW_SPEED_LOW \<equiv> 1"
abbreviation (input) AW_SPEED_MID :: u8 where "AW_SPEED_MID \<equiv> 2"
abbreviation (input) AW_SPEED_HIGH :: u8 where "AW_SPEED_HIGH \<equiv> 3"
abbreviation (input) AW_SPEED_VREY_HIGH :: u8 where "AW_SPEED_VREY_HIGH \<equiv> 4"

definition IO_PAN_MOTOR :: "bool \<Rightarrow> 'a motor_st_scheme \<Rightarrow> 'a motor_st_scheme" where
  "IO_PAN_MOTOR on = pin_out PIN_PAN_nSLEEP (of_bool on)"

definition IO_RISING_MOTOR :: "bool \<Rightarrow> 'a motor_st_scheme \<Rightarrow> 'a motor_st_scheme" where
  "IO_RISING_MOTOR on = pin_out PIN_RISING_nSLEEP (of_bool on)"

definition IO_AIN1 :: "bool \<Rightarrow> 'a motor_st_scheme \<Rightarrow> 'a motor_st_scheme" where
  "IO_AIN1 on = pin_out PIN_MOTO_PWM0 (of_bool on)"

definition IO_AIN2 :: "bool \<Rightarrow> 'a motor_st_scheme \<Rightarrow> 'a motor_st_scheme" where
  "IO_AIN2 on = pin_out PIN_MOTO_PWM1 (of_bool on)"

definition IO_BIN1 :: "bool \<Rightarrow> 'a motor_st_scheme \<Rightarrow> 'a motor_st_scheme" where
  "IO_BIN1 on = pin_out PIN_MOTO_PWM2 (of_bool on)"

definition IO_BIN2 :: "bool \<Rightarrow> 'a motor_st_scheme \<Rightarrow> 'a motor_st_scheme" where
  "IO_BIN2 on = pin_out PIN_MOTO_PWM3 (of_bool on)"

definition awd8833c_delay_us_m :: "u32 \<Rightarrow> 'a motor_st_scheme \<Rightarrow> 'a motor_st_scheme" where
  "awd8833c_delay_us_m us = usleep (unat us)"

definition awd8833c_set_motor_speed_m :: "u8 \<Rightarrow> 'a motor_st_scheme \<Rightarrow> 'a motor_st_scheme" where
  "awd8833c_set_motor_speed_m speed s =
     (let speed = (if speed = 0 then 1 else if speed > 10 then 10 else speed) - 1;
          d = 18000 - 1800 * ucast speed
      in s\<lparr>g_full_step_delay_m := d, g_half_step_delay_m := d div 2\<rparr>)"

definition awd8833c_stop_m :: "'a motor_st_scheme \<Rightarrow> 'a motor_st_scheme" where
  "awd8833c_stop_m = seq [IO_AIN1 False, IO_AIN2 False, IO_BIN1 False, IO_BIN2 False]"

definition awd8833c_gpio_init_m :: "'a motor_st_scheme \<Rightarrow> 'a motor_st_scheme" where
  "awd8833c_gpio_init_m = seq
     [IO_AIN1 False, IO_AIN2 False, IO_BIN1 False, IO_BIN2 False,
      IO_PAN_MOTOR False, IO_RISING_MOTOR False]"

definition awd8833c_set_enable_m :: "bool \<Rightarrow> u8 \<Rightarrow> 'a motor_st_scheme \<Rightarrow> 'a motor_st_scheme" where
  "awd8833c_set_enable_m en_select bIsRisingMotor =
     (if bIsRisingMotor > 0 then IO_RISING_MOTOR en_select else IO_PAN_MOTOR en_select)"

subsection \<open>Steps\<close>

definition set_full_m :: "u8 \<Rightarrow> 'a motor_st_scheme \<Rightarrow> 'a motor_st_scheme" where
  "set_full_m st s = s\<lparr>g_full_step_state_m := st\<rparr>"

definition set_half_m :: "u8 \<Rightarrow> 'a motor_st_scheme \<Rightarrow> 'a motor_st_scheme" where
  "set_half_m st s = s\<lparr>g_half_step_state_m := st\<rparr>"

definition awd8833c_full_step_forward_m :: "'a motor_st_scheme \<Rightarrow> 'a motor_st_scheme" where
  "awd8833c_full_step_forward_m s0 =
     (let st = g_full_step_state_m s0;
          s = (if st = 0 then seq [IO_AIN1 True, IO_AIN2 False, set_full_m 1]
               else if st = 1 then seq [IO_BIN2 True, IO_BIN1 False, set_full_m 2]
               else if st = 2 then seq [IO_AIN2 True, IO_AIN1 False, set_full_m 3]
               else if st = 3 then seq [IO_BIN1 True, IO_BIN2 False, set_full_m 0]
               else (\<lambda>s. s)) s0
      in awd8833c_delay_us_m (g_full_step_delay_m s) s)"

definition awd8833c_full_step_reverse_m :: "'a motor_st_scheme \<Rightarrow> 'a motor_st_scheme" where
  "awd8833c_full_step_reverse_m s0 =
     (let st = g_full_step_state_m s0;
          s = (if st = 0 then seq [IO_BIN1 False, IO_BIN2 True, set_full_m 1]
               else if st = 1 then seq [IO_AIN2 False, IO_AIN1 True, set_full_m 2]
               else if st = 2 then seq [IO_BIN2 False, IO_BIN1 True, set_full_m 3]
               else if st = 3 then seq [IO_AIN1 False, IO_AIN2 True, set_full_m 0]
               else (\<lambda>s. s)) s0
      in awd8833c_delay_us_m (g_full_step_delay_m s) s)"

definition awd8833c_half_step_forward_m :: "'a motor_st_scheme \<Rightarrow> 'a motor_st_scheme" where
  "awd8833c_half_step_forward_m s0 =
     (let st = g_half_step_state_m s0;
          s = (if st = 0 then seq [IO_AIN1 True, set_half_m 1]
               else if st = 1 then seq [IO_AIN2 False, set_half_m 2]
               else if st = 2 then seq [IO_BIN2 True, set_half_m 3]
               else if st = 3 then seq [IO_BIN1 False, set_half_m 4]
               else if st = 4 then seq [IO_AIN2 True, set_half_m 5]
               else if st = 5 then seq [IO_AIN1 False, set_half_m 6]
               else if st = 6 then seq [IO_BIN1 True, set_half_m 7]
               else if st = 7 then seq [IO_BIN2 False, set_half_m 0]
               else (\<lambda>s. s)) s0
      in awd8833c_delay_us_m (g_half_step_delay_m s) s)"

definition awd8833c_half_step_reverse_m :: "'a motor_st_scheme \<Rightarrow> 'a motor_st_scheme" where
  "awd8833c_half_step_reverse_m s0 =
     (let st = g_half_step_state_m s0;
          s = (if st = 0 then seq [IO_BIN2 True, set_half_m 1]
               else if st = 1 then seq [IO_BIN1 False, set_half_m 2]
               else if st = 2 then seq [IO_AIN1 True, set_half_m 3]
               else if st = 3 then seq [IO_AIN2 False, set_half_m 4]
               else if st = 4 then seq [IO_BIN1 True, set_half_m 5]
               else if st = 5 then seq [IO_BIN2 False, set_half_m 6]
               else if st = 6 then seq [IO_AIN2 True, set_half_m 7]
               else if st = 7 then seq [IO_AIN1 False, set_half_m 0]
               else (\<lambda>s. s)) s0
      in awd8833c_delay_us_m (g_half_step_delay_m s) s)"

text \<open>The step function a direction and a mode select; other values select none.\<close>

definition step_of :: "u8 \<Rightarrow> u8 \<Rightarrow> ('a motor_st_scheme \<Rightarrow> 'a motor_st_scheme) option" where
  "step_of direction mode_select =
     (if direction = AW_FORWARD then
        (if mode_select = AW_FULL_STEP then Some awd8833c_full_step_forward_m
         else if mode_select = AW_HALF_STEP then Some awd8833c_half_step_forward_m else None)
      else if direction = AW_REVERSE then
        (if mode_select = AW_FULL_STEP then Some awd8833c_full_step_reverse_m
         else if mode_select = AW_HALF_STEP then Some awd8833c_half_step_reverse_m else None)
      else None)"

definition awd8833c_step_function_action ::
    "u8 \<Rightarrow> u8 \<Rightarrow> u32 \<Rightarrow> 'a motor_st_scheme \<Rightarrow> 'a motor_st_scheme" where
  "awd8833c_step_function_action direction mode_select cycle_count s =
     (case step_of direction mode_select of None \<Rightarrow> s
      | Some step \<Rightarrow> (step ^^ unat cycle_count) s)"

subsection \<open>Timed runs\<close>

definition awd8833c_timer_handler :: "'a motor_st_scheme \<Rightarrow> 'a motor_st_scheme" where
  "awd8833c_timer_handler s = emit Timer_delete (s\<lparr>m_isTimeout := 1, timer_armed := False\<rparr>)"

text \<open>The signal arrives in the sleep that ends a step.\<close>

definition deliver_signal :: "'a motor_st_scheme \<Rightarrow> 'a motor_st_scheme" where
  "deliver_signal s =
     (if timer_armed s \<and> timer_expired (menv s) (mlog s) then awd8833c_timer_handler s else s)"

text \<open>\<open>while (m_isTimeout == 0) step();\<close> has no value when the timer never expires.\<close>

definition awd8833c_second_function_action_m ::
    "u8 \<Rightarrow> u8 \<Rightarrow> 'a motor_st_scheme \<Rightarrow> 'a motor_st_scheme option" where
  "awd8833c_second_function_action_m direction mode_select s =
     (case step_of direction mode_select of None \<Rightarrow> Some s
      | Some step \<Rightarrow> while_option (\<lambda>s. m_isTimeout s = 0) (\<lambda>s. deliver_signal (step s)) s)"

definition timer_call :: "misc_io \<Rightarrow> 'a motor_st_scheme \<Rightarrow> 'a motor_st_scheme option" where
  "timer_call e s = (if timer_call_ok (menv s) (mlog s) then Some (emit e s) else None)"

definition awd8833c_timer_init :: "'a motor_st_scheme \<Rightarrow> 'a motor_st_scheme option" where
  "awd8833c_timer_init s = do { s \<leftarrow> timer_call Sigaction s; timer_call Timer_create s }"

text \<open>\<open>u32msecs * 1000000\<close> is a product of 32-bit unsigned numbers.\<close>

definition timer_interval :: "u32 \<Rightarrow> int \<times> int" where
  "timer_interval u32msecs =
     (uint (u32msecs div 1000), uint (u32msecs * 1000000) mod 1000000000)"

definition awd8833c_timer_start :: "u32 \<Rightarrow> 'a motor_st_scheme \<Rightarrow> 'a motor_st_scheme res" where
  "awd8833c_timer_start u32msecs s =
     (if u32msecs = 0 then Some (-1, s)
      else do {
        s \<leftarrow> awd8833c_timer_init s;
        s \<leftarrow> timer_call (case timer_interval u32msecs of (sec, nsec) \<Rightarrow> Timer_settime sec nsec)
               (s\<lparr>m_isTimeout := 0\<rparr>);
        Some (0, s\<lparr>timer_armed := True\<rparr>)
      })"

subsection \<open>Speed and rotation\<close>

definition awd8833c_set_speed_level :: "u8 \<Rightarrow> 'a motor_st_scheme \<Rightarrow> 'a motor_st_scheme" where
  "awd8833c_set_speed_level speed_level s =
     (if speed_level = AW_SPEED_LOW
      then s\<lparr>g_full_step_delay_m := 20000, g_half_step_delay_m := 10000\<rparr>
      else if speed_level = AW_SPEED_MID
      then s\<lparr>g_full_step_delay_m := 10000, g_half_step_delay_m := 5000\<rparr>
      else if speed_level = AW_SPEED_HIGH
      then s\<lparr>g_full_step_delay_m := 5000, g_half_step_delay_m := 2500\<rparr>
      else if speed_level = AW_SPEED_VREY_HIGH
      then s\<lparr>g_full_step_delay_m := 2500, g_half_step_delay_m := 1250\<rparr>
      else s\<lparr>g_full_step_delay_m := 5000, g_half_step_delay_m := 2500\<rparr>)"

definition awd8833c_set_rotate_speed_m ::
    "u32 \<Rightarrow> u8 \<Rightarrow> 'a motor_st_scheme \<Rightarrow> 'a motor_st_scheme option" where
  "awd8833c_set_rotate_speed_m angle_s step_angle s =
     (if step_angle = 0 then None
      else (let n_step = angle_s * 10 div ucast step_angle in
        if n_step = 0 then None
        else (let n_us = 1000000 div n_step in
          Some (s\<lparr>g_full_step_delay_m := n_us, g_half_step_delay_m := n_us div 2\<rparr>))))"

text \<open>\<open>(uint32_t)(degree / unit + 0.5f) * 42\<close> for a degree cut off at 360.\<close>

definition degree_steps :: "rat \<Rightarrow> rat \<Rightarrow> u32" where
  "degree_steps unit degree =
     (let degree = (if degree > 360 then 360 else degree)
      in word_of_int (trunc (f32 (f32 (degree / unit) + 1/2))) * 42)"

definition rotate_run :: "u8 \<Rightarrow> u8 \<Rightarrow> u8 \<Rightarrow> u32 \<Rightarrow> 'a motor_st_scheme \<Rightarrow> 'a motor_st_scheme" where
  "rotate_run rising direction mode_select steps = seq
     [awd8833c_gpio_init_m, awd8833c_set_enable_m True rising, awd8833c_set_speed_level AW_SPEED_HIGH,
      awd8833c_step_function_action (if direction < AW_FORWARD then AW_REVERSE else AW_FORWARD)
        mode_select steps,
      awd8833c_set_enable_m False rising]"

definition awd8833c_rising_rotate_degrees :: "u8 \<Rightarrow> rat \<Rightarrow> 'a motor_st_scheme \<Rightarrow> 'a motor_st_scheme" where
  "awd8833c_rising_rotate_degrees direction degree s =
     (if degree < 0 then s else rotate_run 1 direction AW_FULL_STEP (degree_steps 15 degree) s)"

definition awd8833c_pan_rotate_degrees :: "u8 \<Rightarrow> rat \<Rightarrow> 'a motor_st_scheme \<Rightarrow> 'a motor_st_scheme" where
  "awd8833c_pan_rotate_degrees direction degree s =
     (if degree < 0 then s else rotate_run 0 direction AW_HALF_STEP (degree_steps (15/4) degree) s)"

definition awd8833c_test_m :: "u8 \<Rightarrow> 'a motor_st_scheme \<Rightarrow> 'a motor_st_scheme option" where
  "awd8833c_test_m bIsRisingMotor s = do {
     s \<leftarrow> awd8833c_set_rotate_speed_m 360 9 (seq
        [awd8833c_gpio_init_m, awd8833c_set_enable_m True bIsRisingMotor,
         awd8833c_set_speed_level AW_SPEED_HIGH,
         awd8833c_step_function_action AW_FORWARD AW_FULL_STEP 400] s);
     Some (seq [awd8833c_step_function_action AW_REVERSE AW_HALF_STEP 800,
                awd8833c_set_enable_m False bIsRisingMotor] s)
   }"

definition awd8833c_motor_launch_by_time ::
    "u8 \<Rightarrow> u8 \<Rightarrow> u8 \<Rightarrow> u8 \<Rightarrow> u32 \<Rightarrow> 'a motor_st_scheme \<Rightarrow> 'a motor_st_scheme option" where
  "awd8833c_motor_launch_by_time bIsRisingMotor direction mode_select speed u32msecs s = do {
     (ret, s) \<leftarrow> awd8833c_timer_start u32msecs (seq
        [awd8833c_gpio_init_m, awd8833c_set_enable_m True bIsRisingMotor,
         awd8833c_set_speed_level speed] s);
     s \<leftarrow> (if ret > -1 then awd8833c_second_function_action_m direction mode_select s else Some s);
     Some (awd8833c_set_enable_m False bIsRisingMotor s)
   }"

subsection \<open>The debug command\<close>

text \<open>
  \<open>pega_misc_dbg motor id v1 v2\<close>. \<open>awd8833c_GPIO_Value_Print\<close> reads the four coil pins and
  prints them; the printing has no effect on the state.
\<close>

definition awd8833c_GPIO_Value_Print :: "'a motor_st_scheme \<Rightarrow> 'a motor_st_scheme" where
  "awd8833c_GPIO_Value_Print = fold (\<lambda>pin s.
     case sys_open (Gpio_value pin) s of (ok, s) \<Rightarrow>
       if ok then seq [emit (Read_file (Gpio_value pin)), emit (Close (Gpio_value pin))] s else s)
     [PIN_MOTO_PWM0, PIN_MOTO_PWM1, PIN_MOTO_PWM2, PIN_MOTO_PWM3]"

definition awd8833c_debug :: "int \<Rightarrow> int \<Rightarrow> int \<Rightarrow> 'a motor_st_scheme \<Rightarrow> 'a motor_st_scheme option" where
  "awd8833c_debug eCmdSetId value1 value2 s =
     (let v1 = word_of_int value1 :: u8; v2 = word_of_int value2 :: u32 in
      if eCmdSetId = 1 then awd8833c_test_m (of_bool (value1 > 0)) s
      else if eCmdSetId = 2 then Some (awd8833c_pan_rotate_degrees v1 (f32 (of_int value2)) s)
      else if eCmdSetId = 3 then Some (awd8833c_rising_rotate_degrees v1 (f32 (of_int value2)) s)
      else if eCmdSetId = 11 then
        awd8833c_motor_launch_by_time AW_PAN_MOTOR AW_REVERSE AW_HALF_STEP v1 v2 s
      else if eCmdSetId = 12 then
        awd8833c_motor_launch_by_time AW_PAN_MOTOR AW_FORWARD AW_HALF_STEP v1 v2 s
      else if eCmdSetId = 13 then
        awd8833c_motor_launch_by_time AW_RISING_MOTOR AW_REVERSE AW_FULL_STEP v1 v2 s
      else if eCmdSetId = 14 then
        awd8833c_motor_launch_by_time AW_RISING_MOTOR AW_FORWARD AW_FULL_STEP v1 v2 s
      else if eCmdSetId = 15 then
        awd8833c_motor_launch_by_time AW_PAN_MOTOR AW_REVERSE AW_FULL_STEP v1 v2 s
      else if eCmdSetId = 16 then
        awd8833c_motor_launch_by_time AW_PAN_MOTOR AW_FORWARD AW_FULL_STEP v1 v2 s
      else if eCmdSetId = 17 then
        awd8833c_motor_launch_by_time AW_RISING_MOTOR AW_REVERSE AW_HALF_STEP v1 v2 s
      else if eCmdSetId = 18 then
        awd8833c_motor_launch_by_time AW_RISING_MOTOR AW_FORWARD AW_HALF_STEP v1 v2 s
      else if eCmdSetId = 70 then
        awd8833c_set_rotate_speed_m (word_of_int value1) (word_of_int value2) s
      else if eCmdSetId = 82 then map_option snd (awd8833c_timer_start (word_of_int value1) s)
      else if eCmdSetId = 98 \<or> eCmdSetId = 99 then Some (awd8833c_GPIO_Value_Print s)
      else Some s)"

end
