(* ===== verification/Misc_Schedule.thy ===== *)
theory Misc_Schedule
  imports Prelude
begin

text \<open>
  The delayed-event queue of the diagnostic daemon, \<open>pega_misc/src/pega_schedule.c\<close>: the static
  array of twelve slots with its counter and every operation on it, each taken as one atomic
  step, and below them the abstract queue they implement. Delays are in ticks of 100 ms.
\<close>

subsection \<open>Events and slots\<close>

abbreviation (input) SCH_BUFF_MAX :: nat where "SCH_BUFF_MAX \<equiv> 12"
abbreviation (input) SCH_100ms :: u32 where "SCH_100ms \<equiv> 1"
abbreviation (input) SCH_1Sec :: u32 where "SCH_1Sec \<equiv> 10"
abbreviation (input) SCH_1Hour :: u32 where "SCH_1Hour \<equiv> 36000"

abbreviation (input) schEVT_None :: u8 where "schEVT_None \<equiv> 0"
abbreviation (input) schEVT_DeleteAll :: u8 where "schEVT_DeleteAll \<equiv> 1"
abbreviation (input) schEVT_Load_wifi_fw :: u8 where "schEVT_Load_wifi_fw \<equiv> 2"
abbreviation (input) schEVT_System_diag_Cmd_Execution :: u8
  where "schEVT_System_diag_Cmd_Execution \<equiv> 200"
abbreviation (input) schEVT_System_debug_info_Execution :: u8
  where "schEVT_System_debug_info_Execution \<equiv> 201"
abbreviation (input) schEVT_Factory_Reset :: u8 where "schEVT_Factory_Reset \<equiv> 202"
abbreviation (input) schEVT_Max :: u8 where "schEVT_Max \<equiv> 203"

text \<open>
  \<open>wTMCount\<close> is a signed C \<open>int\<close> that is only assigned and decremented while positive;
  \<open>wTMTime\<close> is incremented on every tick and keeps its 32 bits.
\<close>

record stSchDefType =
  enEVT :: u8
  wTMCount :: int
  wTMTime :: u32

record sched =
  m_SchBuff :: "stSchDefType list"
  m_SchCnt :: nat

definition sched_zero :: sched where
  "sched_zero = \<lparr>m_SchBuff = replicate SCH_BUFF_MAX \<lparr>enEVT = 0, wTMCount = 0, wTMTime = 0\<rparr>,
     m_SchCnt = 0\<rparr>"

subsection \<open>Operations\<close>

definition pega_schedule_Buff_Reset :: "sched \<Rightarrow> sched" where
  "pega_schedule_Buff_Reset s =
     s\<lparr>m_SchBuff := map (\<lambda>x. x\<lparr>enEVT := schEVT_None, wTMCount := 0\<rparr>) (m_SchBuff s),
       m_SchCnt := 0\<rparr>"

definition pega_schedule_Event_Timeout_Check :: "nat \<Rightarrow> sched \<Rightarrow> bool \<times> sched" where
  "pega_schedule_Event_Timeout_Check i s =
     (let x = m_SchBuff s ! i in
      if enEVT x = schEVT_None then (False, s)
      else (let c = wTMCount x;
                c' = (if c > 0 then c - 1 else c)
            in (c > 0 \<and> c' \<le> 0,
                s\<lparr>m_SchBuff := (m_SchBuff s)[i := x\<lparr>wTMTime := wTMTime x + 1, wTMCount := c'\<rparr>]\<rparr>)))"

definition pega_schedule_Buff_Reschedlue :: "nat \<Rightarrow> sched \<Rightarrow> sched" where
  "pega_schedule_Buff_Reschedlue i s =
     s\<lparr>m_SchBuff := fold (\<lambda>j b. b[j := b ! (j + 1)]) [i..<SCH_BUFF_MAX - 1] (m_SchBuff s),
       m_SchCnt := m_SchCnt s - 1\<rparr>"

text \<open>The loop of \<open>pega_schedule_Event_Get\<close> over the slots \<open>0..m_SchCnt\<close>.\<close>

fun event_get_loop :: "nat list \<Rightarrow> sched \<Rightarrow> u8 \<times> sched" where
  "event_get_loop [] s = (schEVT_None, s)"
| "event_get_loop (i # is) s =
     (case pega_schedule_Event_Timeout_Check i s of (timeout, s) \<Rightarrow>
      if timeout then (enEVT (m_SchBuff s ! i), pega_schedule_Buff_Reschedlue i s)
      else event_get_loop is s)"

definition pega_schedule_Event_Get :: "sched \<Rightarrow> u8 \<times> sched" where
  "pega_schedule_Event_Get s =
     (if m_SchCnt s = 0 then (schEVT_None, s)
      else event_get_loop [0..<Suc (m_SchCnt s)] s)"

text \<open>
  \<open>for (i = 0; i <= m_SchCnt; i++) if (m_SchBuff[i].enEVT == e)\<close>: the slot of an event. The
  search includes the slot behind the last entry.
\<close>

definition event_slot :: "u8 \<Rightarrow> sched \<Rightarrow> nat option" where
  "event_slot e s =
     (let i = find_idx (\<lambda>x. enEVT x = e) (take (Suc (m_SchCnt s)) (m_SchBuff s))
      in if i < Suc (m_SchCnt s) \<and> i < length (m_SchBuff s) then Some i else None)"

definition time_count_set :: "nat \<Rightarrow> u32 \<Rightarrow> sched \<Rightarrow> sched" where
  "time_count_set i d s =
     s\<lparr>m_SchBuff := (m_SchBuff s)[i := (m_SchBuff s ! i)\<lparr>wTMCount := sint d, wTMTime := 0\<rparr>]\<rparr>"

definition pega_schedule_Event_push :: "u8 \<Rightarrow> u32 \<Rightarrow> sched \<Rightarrow> bool \<times> sched" where
  "pega_schedule_Event_push e d s =
     (if e \<ge> schEVT_Max then (False, s)
      else (case event_slot e s of
          Some i \<Rightarrow> (True, time_count_set i d s)
        | None \<Rightarrow>
            if m_SchCnt s \<ge> SCH_BUFF_MAX - 1 then (False, s)
            else (let i = m_SchCnt s in
              (True, time_count_set i d
                 (s\<lparr>m_SchCnt := Suc i,
                    m_SchBuff := (m_SchBuff s)[i := (m_SchBuff s ! i)\<lparr>enEVT := e\<rparr>]\<rparr>)))))"

definition pega_schedule_Event_pop :: "sched \<Rightarrow> sched" where
  "pega_schedule_Event_pop = pega_schedule_Buff_Reschedlue 0"

definition pega_schedule_Event_Cancel :: "u8 \<Rightarrow> sched \<Rightarrow> bool \<times> sched" where
  "pega_schedule_Event_Cancel e s =
     (if e \<ge> schEVT_Max then (False, s)
      else if e = schEVT_DeleteAll then (True, pega_schedule_Buff_Reset s)
      else (case event_slot e s of
          Some i \<Rightarrow> (True, pega_schedule_Buff_Reschedlue i s)
        | None \<Rightarrow> (False, s)))"

definition pega_schedule_Event_Check :: "u8 \<Rightarrow> sched \<Rightarrow> bool" where
  "pega_schedule_Event_Check e s = (e < schEVT_Max \<and> event_slot e s \<noteq> None)"

text \<open>The two readers return their flag and the value stored through the pointer.\<close>

definition pega_schedule_Event_DelayTime_Get :: "u8 \<Rightarrow> sched \<Rightarrow> bool \<times> u32" where
  "pega_schedule_Event_DelayTime_Get e s =
     (if e \<ge> schEVT_Max then (False, 0)
      else (case event_slot e s of
          Some i \<Rightarrow> (True, word_of_int (wTMCount (m_SchBuff s ! i) * 100))
        | None \<Rightarrow> (False, 0)))"

definition pega_schedule_Event_Time_Get :: "u8 \<Rightarrow> sched \<Rightarrow> bool \<times> u32" where
  "pega_schedule_Event_Time_Get e s =
     (if e \<ge> schEVT_Max then (False, 0)
      else (case event_slot e s of
          Some i \<Rightarrow> (True, wTMTime (m_SchBuff s ! i) * 100)
        | None \<Rightarrow> (False, 0)))"

definition pega_schedule_Event_Time_Count_Set :: "u8 \<Rightarrow> sched \<Rightarrow> bool \<times> sched" where
  "pega_schedule_Event_Time_Count_Set e = pega_schedule_Event_push e (SCH_1Hour * 4)"

definition pega_schedule_Event_Time_Count_Get :: "u8 \<Rightarrow> sched \<Rightarrow> bool \<times> u32 \<times> sched" where
  "pega_schedule_Event_Time_Count_Get e s =
     (case pega_schedule_Event_Time_Get e s of (rtn, t) \<Rightarrow>
        (rtn, t, snd (pega_schedule_Event_Cancel e s)))"
end
