(* ===== verification/Misc_Main.thy ===== *)
theory Misc_Main
  imports Misc_Motor Misc_Schedule "HOL-Library.Sublist"
begin

text \<open>
  The main program of the diagnostic daemon: the Bluetooth serial port \<open>pega_ble_uart.c\<close>, the
  Wi-Fi firmware start \<open>pega_wifi.c\<close>, the interface look-up of \<open>pega_network_ip.c\<close> and
  \<open>main.c\<close> with its flags, its start-up and its endless loop.
\<close>

subsection \<open>Bluetooth serial port\<close>

record ble_st = motor_st +
  m_pUartPortFile :: int
  m_u8Buffer :: "u8 list"
  m_UartRcvCount :: int
  m_bDataReceive :: bool

abbreviation (input) UART_BUFFER_MAX_LEN :: nat where "UART_BUFFER_MAX_LEN \<equiv> 64"

definition Pega_Ble_uart_device_open :: "'a ble_st_scheme \<Rightarrow> bool \<times> 'a ble_st_scheme" where
  "Pega_Ble_uart_device_open s =
     (let fd = uart_fd (menv s) (mlog s)
      in (fd \<ge> 0, emit (Uart_open (fd \<ge> 0)) (s\<lparr>m_pUartPortFile := fd\<rparr>)))"

definition Pega_Ble_uart_device_close :: "'a ble_st_scheme \<Rightarrow> 'a ble_st_scheme" where
  "Pega_Ble_uart_device_close s = (if m_pUartPortFile s \<noteq> -1 then emit Uart_close s else s)"

definition uart_baud :: "u32 \<Rightarrow> u32" where
  "uart_baud b = (if b \<in> {9600, 19200, 38400, 57600, 230400, 460800, 921600, 1000000, 2000000, 3000000}
                  then b else 115200)"

definition Pega_Ble_uart_init :: "u32 \<Rightarrow> int \<Rightarrow> 'a ble_st_scheme \<Rightarrow> 'a ble_st_scheme" where
  "Pega_Ble_uart_init u32BaudRate bRTSCTS_En = emit (Uart_config (uart_baud u32BaudRate) (bRTSCTS_En > 0))"

text \<open>The SIGIO handler, run when the signal arrives in a sleep.\<close>

definition Pega_Ble_uart_signal_handler_IO :: "'a ble_st_scheme \<Rightarrow> 'a ble_st_scheme" where
  "Pega_Ble_uart_signal_handler_IO s = s\<lparr>m_bDataReceive := True, m_UartRcvCount := m_UartRcvCount s + 1\<rparr>"

definition Pega_Ble_uart_ReceiveBuffer :: "nat \<Rightarrow> 'a ble_st_scheme \<Rightarrow> int \<times> 'a ble_st_scheme" where
  "Pega_Ble_uart_ReceiveBuffer n s =
     (if m_pUartPortFile s \<noteq> -1
      then (case uart_bytes (menv s) (mlog s) n of
          None \<Rightarrow> (-1, emit (Uart_read n) s)
        | Some bs \<Rightarrow> (int (length (take n bs)), emit (Uart_read n)
            (s\<lparr>m_u8Buffer := take n bs @ drop (length (take n bs)) (m_u8Buffer s)\<rparr>)))
      else (-1, s))"

text \<open>\<open>while (n-- > 1)\<close>: wait for the signal in steps of 10 ms, then read once.\<close>

fun bringup_wait :: "nat \<Rightarrow> 'a ble_st_scheme \<Rightarrow> int \<times> 'a ble_st_scheme" where
  "bringup_wait 0 s = (0, s)"
| "bringup_wait (Suc n) s =
     (if m_bDataReceive s
      then Pega_Ble_uart_ReceiveBuffer UART_BUFFER_MAX_LEN (s\<lparr>m_bDataReceive := False\<rparr>)
      else (let s = usleep 10000 s
            in bringup_wait n (if uart_sigio (menv s) (mlog s)
                               then Pega_Ble_uart_signal_handler_IO s else s)))"

text \<open>
  \<open>strstr\<close> over the buffer up to its NUL. The pattern is a five byte array without a NUL, so
  \<open>strstr\<close> also wants the bytes behind it on the stack, up to the first NUL.
\<close>

definition wifiAck :: "u8 list" where "wifiAck = [0xAB, 0x01, 0x88, 0xC0, 0x9F]"

definition c_string :: "u8 list \<Rightarrow> u8 list" where "c_string = takeWhile (\<lambda>b. b \<noteq> 0)"

definition Pega_Ble_uart_CheckReceiveDone :: "'a ble_st_scheme \<Rightarrow> bool" where
  "Pega_Ble_uart_CheckReceiveDone s =
     sublist (c_string (wifiAck @ stack_bytes (menv s) (mlog s))) (c_string (m_u8Buffer s))"

definition Pega_Ble_uart_BringUp_Ready :: "int \<Rightarrow> 'a ble_st_scheme \<Rightarrow> bool \<times> 'a ble_st_scheme" where
  "Pega_Ble_uart_BringUp_Ready intTimeout_ms s =
     (case bringup_wait (nat (intTimeout_ms sdiv 10 - 1)) s of (len, s) \<Rightarrow>
        (Pega_Ble_uart_CheckReceiveDone s, s))"

definition Pega_wifi_load_firmware :: "'a ble_st_scheme \<Rightarrow> bool \<times> 'a ble_st_scheme" where
  "Pega_wifi_load_firmware s =
     (case Pega_Ble_uart_device_open s of (ok, s) \<Rightarrow>
      if ok
      then (case Pega_Ble_uart_BringUp_Ready 3000 (Pega_Ble_uart_init 115200 0 s) of (ready, s) \<Rightarrow>
              (ready, Pega_Ble_uart_device_close s))
      else (False, s))"

subsection \<open>Flags\<close>

record misc_st = ble_st +
  bIsBurnInOn :: bool
  bIsALSDisable :: bool
  bIsWiFiDisable :: bool
  bIsACCDisable :: bool
  bIsNFCDisable :: bool
  bIsMotorDisable :: bool
  bIsWiFiFwReady :: bool
  bIsWiFiFwError :: bool
  eWIFI1_if :: u8
  eWIFI2_if :: u8

definition pega_misc_wifi_fw_error :: "'a misc_st_scheme \<Rightarrow> 'a misc_st_scheme" where
  "pega_misc_wifi_fw_error s =
     snd (Pega_led_flash_state_Set LED_State_Wifi_fw_error (s\<lparr>bIsWiFiFwError := False\<rparr>))"

definition Pega_wifi_load_firmware_enable :: "'a misc_st_scheme \<Rightarrow> 'a misc_st_scheme" where
  "Pega_wifi_load_firmware_enable s =
     (case Pega_wifi_load_firmware s of (ready, s) \<Rightarrow>
      if ready then emit (System ''sh /scripts/IW610_wifi_on.sh'') s else pega_misc_wifi_fw_error s)"

definition Pega_Misc_Burn_Enable_Control :: "bool \<Rightarrow> 'a misc_st_scheme \<Rightarrow> 'a misc_st_scheme" where
  "Pega_Misc_Burn_Enable_Control b s = s\<lparr>bIsBurnInOn := b\<rparr>"

definition Pega_Misc_ALS_Disable_Control :: "bool \<Rightarrow> 'a misc_st_scheme \<Rightarrow> 'a misc_st_scheme" where
  "Pega_Misc_ALS_Disable_Control b s = s\<lparr>bIsALSDisable := b\<rparr>"

definition Pega_Misc_WiFi_Disable_Control :: "bool \<Rightarrow> 'a misc_st_scheme \<Rightarrow> 'a misc_st_scheme" where
  "Pega_Misc_WiFi_Disable_Control b s = s\<lparr>bIsWiFiDisable := b\<rparr>"

subsection \<open>Interfaces\<close>

definition dir_has :: "string \<Rightarrow> string \<Rightarrow> 'a gpio_st_scheme \<Rightarrow> int \<times> 'a gpio_st_scheme" where
  "dir_has path ifname s =
     (case dir_list (menv s) (mlog s) path of
        None \<Rightarrow> -1
      | Some es \<Rightarrow> if ifname \<in> set (filter (\<lambda>e. e \<noteq> ''.'' \<and> e \<noteq> ''..'') es) then 0 else -1,
      emit (Opendir path) s)"

definition pega_netip_is_interface_exist :: "string \<Rightarrow> 'a gpio_st_scheme \<Rightarrow> int \<times> 'a gpio_st_scheme" where
  "pega_netip_is_interface_exist = dir_has ''/sys/class/net/''"

definition pega_netip_interface_check_sd0 :: "string \<Rightarrow> 'a gpio_st_scheme \<Rightarrow> int \<times> 'a gpio_st_scheme" where
  "pega_netip_interface_check_sd0 = dir_has
     ''/sys/devices/platform/soc/1f008400.ifs_sdmmc0/mmc_host/mmc0/mmc0:0001/mmc0:0001:1/net''"

definition pega_netip_interface_check_sd1 :: "string \<Rightarrow> 'a gpio_st_scheme \<Rightarrow> int \<times> 'a gpio_st_scheme" where
  "pega_netip_interface_check_sd1 = dir_has
     ''/sys/devices/platform/soc/1f282600.ifs_sdmmc1/mmc_host/mmc1/mmc1:0001/mmc1:0001:1/net''"

text \<open>The first of \<open>mlan0\<close> and \<open>mlan1\<close> that a check finds: 1, 2, or 0 for none.\<close>

definition which_if :: "(string \<Rightarrow> 'a gpio_st_scheme \<Rightarrow> int \<times> 'a gpio_st_scheme) \<Rightarrow>
    'a gpio_st_scheme \<Rightarrow> u8 \<times> 'a gpio_st_scheme" where
  "which_if check s =
     (case check ''mlan0'' s of (r, s) \<Rightarrow>
      if r \<ge> 0 then (1, s)
      else (case check ''mlan1'' s of (r, s) \<Rightarrow> (if r \<ge> 0 then 2 else 0, s)))"

definition Pega_Misc_Update_WiFi_interface :: "'a misc_st_scheme \<Rightarrow> 'a misc_st_scheme" where
  "Pega_Misc_Update_WiFi_interface s =
     (case which_if pega_netip_interface_check_sd0 s of (i1, s) \<Rightarrow>
      case which_if pega_netip_interface_check_sd1 s of (i2, s) \<Rightarrow>
        s\<lparr>eWIFI1_if := i1, eWIFI2_if := i2\<rparr>)"

definition pega_misc_wifi_ready_check :: "'a misc_st_scheme \<Rightarrow> 'a misc_st_scheme" where
  "pega_misc_wifi_ready_check s =
     (if bIsWiFiDisable s \<or> bIsWiFiFwReady s then s
      else (case pega_netip_is_interface_exist ''mlan0'' s of (r, s) \<Rightarrow>
        if r > -1
        then (case pega_netip_is_interface_exist ''mlan1'' s of (r, s) \<Rightarrow>
          if r > -1
          then snd (Pega_led_flash_state_Set LED_State_Wifi_Ready
                 (Pega_Misc_Update_WiFi_interface (s\<lparr>bIsWiFiFwReady := True\<rparr>)))
          else s)
        else s))"

definition pega_misc_wifi_interface_check :: "'a misc_st_scheme \<Rightarrow> 'a misc_st_scheme" where
  "pega_misc_wifi_interface_check s =
     (if bIsWiFiDisable s \<or> \<not> bIsWiFiFwReady s then s
      else (case pega_netip_is_interface_exist ''mlan0'' s of (r, s) \<Rightarrow>
        if r < 0
        then (case pega_netip_is_interface_exist ''mlan1'' s of (r, s) \<Rightarrow>
          if r < 0
          then snd (Pega_led_flash_state_Set LED_State_Wifi_off (s\<lparr>bIsWiFiFwReady := False\<rparr>))
          else s)
        else s))"

definition pega_misc_ALS_handler :: "'a misc_st_scheme \<Rightarrow> 'a misc_st_scheme option" where
  "pega_misc_ALS_handler s =
     (if \<not> bIsALSDisable s then map_option snd (Pega_NV_Mode_Processing s) else Some s)"

text \<open>One round of the loop of \<open>main\<close>.\<close>

definition main_round :: "'a misc_st_scheme \<Rightarrow> 'a misc_st_scheme option" where
  "main_round s = do {
     s \<leftarrow> pega_misc_ALS_handler s;
     Some (usleep 1000000 (pega_misc_wifi_interface_check (pega_misc_wifi_ready_check s)))
   }"

end
