(* ===== verification/Misc_Run.thy ===== *)
theory Misc_Run
  imports Misc_Main
begin

text \<open>
  The diagnostic daemon as a whole: the message handlers \<open>pega_misc_diag.c\<close> and \<open>pega_debug.c\<close>
  with their one-slot mailboxes, the dispatch of scheduled events, the start-up of \<open>main.c\<close>, and
  the steps its threads take.
\<close>

subsection \<open>State\<close>

record diag_msg =
  eCmdId :: int
  value1 :: int
  value2 :: int
  value3 :: int
  fval1 :: rat
  fval2 :: rat

text \<open>\<open>char\<close> is unsigned on the target.\<close>

record stDiagCmdStrType = diag_msg +
  bDebugEn :: u8
  wCmdCnt :: u8

record stDebugCmdType =
  dbg_eCmdId :: int
  dbg_value1 :: int
  dbg_value2 :: int
  dbg_value3 :: int

record misc = misc_st +
  m_stDiagCmd :: stDiagCmdStrType
  m_bDebugMsgEn :: u8
  m_eDebugCmd :: stDebugCmdType
  sch :: sched

definition upd_diag :: "(stDiagCmdStrType \<Rightarrow> stDiagCmdStrType) \<Rightarrow> misc \<Rightarrow> misc" where
  "upd_diag f s = s\<lparr>m_stDiagCmd := f (m_stDiagCmd s)\<rparr>"

definition push_event :: "u8 \<Rightarrow> u32 \<Rightarrow> misc \<Rightarrow> misc" where
  "push_event e d s = s\<lparr>sch := snd (pega_schedule_Event_push e d (sch s))\<rparr>"

subsection \<open>Replies\<close>

definition PT_DIAG_SET :: "int \<Rightarrow> 'a gpio_st_scheme \<Rightarrow> 'a gpio_st_scheme" where
  "PT_DIAG_SET r = emit (Print (''#INFO#'' @ (if r \<noteq> 0 then ''-1'' else ''0'') @ ''#END#''))"

definition PT_DIAG_GET :: "string \<Rightarrow> 'a gpio_st_scheme \<Rightarrow> 'a gpio_st_scheme" where
  "PT_DIAG_GET data = emit (Print (''#INFO#0:'' @ data @ ''#END#''))"

definition show_hex4 :: "u16 \<Rightarrow> string" where
  "show_hex4 v = replicate (4 - length (show_hex (unat v))) (CHR ''0'') @ show_hex (unat v)"

subsection \<open>Diagnostic commands\<close>

definition Pega_diag_commands_processer :: "diag_msg \<Rightarrow> misc \<Rightarrow> int \<times> misc" where
  "Pega_diag_commands_processer d s =
     (let s = (if wCmdCnt (m_stDiagCmd s) > 0
               then emit (Print ''Diag cmd is not processing finished!'') s else s)
      in (1, push_event schEVT_System_diag_Cmd_Execution SCH_100ms (upd_diag
        (\<lambda>c. c\<lparr>eCmdId := eCmdId d, value1 := value1 d, value2 := value2 d, value3 := value3 d,
               fval1 := fval1 d, fval2 := fval2 d, wCmdCnt := wCmdCnt c + 1\<rparr>) s)))"

definition led_diag :: "int \<Rightarrow> bool \<Rightarrow> 'a gpio_st_scheme \<Rightarrow> 'a gpio_st_scheme" where
  "led_diag led on =
     (if led = 1 then IO_LED_R_CTRL on
      else if led = 2 then IO_LED_G_CTRL on
      else if led = 3 then IO_LED_B_CTRL on
      else if led = 4 then seq [IO_LED_R_CTRL True, IO_LED_G_CTRL True, IO_LED_B_CTRL True]
      else if led = 5 then seq [IO_LED_R_CTRL False, IO_LED_G_CTRL False, IO_LED_B_CTRL False]
      else emit (Print ''Diag LED control index error!''))"

definition wifi_if_name :: "u8 \<Rightarrow> string" where
  "wifi_if_name i = (if i = 1 then ''mlan0'' else if i = 2 then ''mlan1'' else ''none'')"

definition Pega_Misc_Diag_wifi_interface_Print :: "'a misc_st_scheme \<Rightarrow> 'a misc_st_scheme" where
  "Pega_Misc_Diag_wifi_interface_Print s =
     (let s = Pega_Misc_Update_WiFi_interface s
      in seq [PT_DIAG_GET (''SDIO_0:'' @ wifi_if_name (eWIFI1_if s)),
              PT_DIAG_GET (''SDIO_1:'' @ wifi_if_name (eWIFI2_if s))] s)"

definition als_diag :: "int \<Rightarrow> 'a misc_st_scheme \<Rightarrow> 'a misc_st_scheme option" where
  "als_diag c s =
     (if c = 1 then map_option (\<lambda>(v, s). PT_DIAG_GET (show_hex4 v) s) (OPT300x_Device_ID_Get s)
      else if c = 2 \<or> c = 3 \<or> c = 5 then Some (PT_DIAG_SET 0 s)
      else if c = 4 then map_option (\<lambda>(v, s). emit (Print_value v) s) (Pega_NV_Mode_Diag_Lux_Get s)
      else if c = 6 then Some (PT_DIAG_SET 0 (Pega_Misc_ALS_Disable_Control False s))
      else if c = 7 then Some (PT_DIAG_SET 0 (Pega_Misc_ALS_Disable_Control True s))
      else Some s)"

definition audio_diag :: "int \<Rightarrow> rat \<Rightarrow> 'a misc_st_scheme \<Rightarrow> 'a misc_st_scheme option" where
  "audio_diag c v s =
     (if c = 1 then map_option (PT_DIAG_SET 0) (Pega_AMP_Initialize True 12 s)
      else if c = 2 then map_option (PT_DIAG_SET 0) (Pega_AMP_Volume_Control v s)
      else Some s)"

definition button_diag :: "int \<Rightarrow> 'a misc_st_scheme \<Rightarrow> 'a misc_st_scheme" where
  "button_diag c s =
     (if c = 1
      then (case Pega_Gpio_Read IO_I_SYNC_BUTTON s of (v, s) \<Rightarrow>
        PT_DIAG_GET (if v = 0 then ''Pressed'' else ''Not Pressed'') s)
      else seq [emit (Print ''Diag button control index error!''), PT_DIAG_SET (-1)] s)"

definition diag_switch :: "misc \<Rightarrow> misc option" where
  "diag_switch s =
     (let c = m_stDiagCmd s; v1 = value1 c in
      if eCmdId c = 2
      then Some (PT_DIAG_SET 0 (Pega_Gpio_IRCut_Control (word_of_int v1) s))
      else if eCmdId c = 3 then Some (PT_DIAG_SET 0 (IO_IRLED_CTRL (v1 > 0) s))
      else if eCmdId c = 4
      then Some (PT_DIAG_SET 0 (snd (Pega_pwm_config PWM_CH6 20000 (word_of_int v1) s)))
      else if eCmdId c = 5 then Some (PT_DIAG_SET 0 (IO_SPOTLIGHT_CTRL (v1 > 0) s))
      else if eCmdId c = 6
      then Some (PT_DIAG_SET 0 (snd (Pega_pwm_config PWM_CH7 20000 (word_of_int v1) s)))
      else if eCmdId c = 7 then Some (PT_DIAG_SET 0 (led_diag v1 (value2 c > 0) s))
      else if eCmdId c = 8 then als_diag v1 s
      else if eCmdId c = 10 then audio_diag v1 (fval1 c) s
      else if eCmdId c = 11 then Some (button_diag v1 s)
      else if eCmdId c = 14
      then Some (if v1 = 1 then Pega_Misc_Diag_wifi_interface_Print s else s)
      else Some s)"

definition Pega_diag_msgq_Cmd_Execution :: "misc \<Rightarrow> misc option" where
  "Pega_diag_msgq_Cmd_Execution s = do {
     s \<leftarrow> diag_switch s;
     Some (upd_diag (\<lambda>c. if wCmdCnt c > 0 then c\<lparr>wCmdCnt := wCmdCnt c - 1\<rparr> else c) s)
   }"

definition Pega_diag_msgq_debug_trigger :: "misc \<Rightarrow> misc" where
  "Pega_diag_msgq_debug_trigger = upd_diag (\<lambda>c. c\<lparr>bDebugEn := of_bool (bDebugEn c = 0)\<rparr>)"

subsection \<open>Debug commands\<close>

text \<open>A message and its four values; the stored command keeps the values a case does not set.\<close>

definition Pega_debug_commands_processer :: "int \<Rightarrow> int \<Rightarrow> int \<Rightarrow> int \<Rightarrow> misc \<Rightarrow> int \<times> misc" where
  "Pega_debug_commands_processer cmd v1 v2 v3 s =
     (let run = push_event schEVT_System_debug_info_Execution SCH_100ms; d = m_eDebugCmd s in
      if cmd = 1 then (0, s\<lparr>m_bDebugMsgEn := word_of_int v1\<rparr>)
      else if cmd = 2 then (1, run (s\<lparr>m_eDebugCmd := d\<lparr>dbg_eCmdId := 1, dbg_value1 := v1\<rparr>\<rparr>))
      else if cmd = 3 then (1, run (s\<lparr>m_eDebugCmd :=
        \<lparr>dbg_eCmdId = 2, dbg_value1 = v1, dbg_value2 = v2, dbg_value3 = v3\<rparr>\<rparr>))
      else if cmd = 4 then (1, run (s\<lparr>m_eDebugCmd := d\<lparr>dbg_eCmdId := 3, dbg_value1 := v1\<rparr>\<rparr>))
      else if cmd = 5 then (1, run (s\<lparr>m_eDebugCmd :=
        \<lparr>dbg_eCmdId = 4, dbg_value1 = v1, dbg_value2 = v2, dbg_value3 = v3\<rparr>\<rparr>))
      else if cmd = 6 then (1, push_event (word_of_int v1) SCH_100ms s)
      else (-1, s))"

text \<open>The two dumps that read registers; the other dumps only print.\<close>

definition Pega_debug_print_info_processer :: "int \<Rightarrow> misc \<Rightarrow> misc option" where
  "Pega_debug_print_info_processer v s =
     (if v = 6 then map_option snd (OPT300x_Register_Info_Print 0 s)
      else if v = 7 then map_option snd (Pega_AMP_Reg_Data_Print s)
      else Some s)"

definition Pega_debug_command_set_processer :: "int \<Rightarrow> int \<Rightarrow> misc \<Rightarrow> misc" where
  "Pega_debug_command_set_processer c v1 =
     (if c = 1 then Pega_diag_msgq_debug_trigger
      else if c = 2 then Pega_Misc_Update_WiFi_interface
      else if c = 3 then Pega_Gpio_HW_Amp_Reset
      else if c = 4 then Pega_Misc_Burn_Enable_Control (v1 > 0)
      else if c = 5 then Pega_Misc_ALS_Disable_Control (v1 > 0)
      else if c = 6 then Pega_Misc_WiFi_Disable_Control (v1 > 0)
      else (\<lambda>s. s))"

definition Pega_debug_schedule_command :: "misc \<Rightarrow> misc option" where
  "Pega_debug_schedule_command s =
     (let d = m_eDebugCmd s in
      if dbg_eCmdId d = 1 then Pega_debug_print_info_processer (dbg_value1 d) s
      else if dbg_eCmdId d = 2
      then Some (Pega_debug_command_set_processer (dbg_value1 d) (dbg_value2 d) s)
      else if dbg_eCmdId d = 4 then awd8833c_debug (dbg_value1 d) (dbg_value2 d) (dbg_value3 d) s
      else Some s)"

subsection \<open>Scheduled events\<close>

definition pega_schedule_Event_Processing :: "misc \<Rightarrow> misc option" where
  "pega_schedule_Event_Processing s =
     (case pega_schedule_Event_Get (sch s) of (e, q) \<Rightarrow>
      let s = s\<lparr>sch := q\<rparr> in
      if e = schEVT_Load_wifi_fw then Some (Pega_wifi_load_firmware_enable s)
      else if e = schEVT_System_diag_Cmd_Execution then Pega_diag_msgq_Cmd_Execution s
      else if e = schEVT_System_debug_info_Execution then Pega_debug_schedule_command s
      else Some s)"

subsection \<open>Fault interrupts\<close>

definition Pega_Motor_interrupt_trigger_set ::
    "int \<Rightarrow> u32 \<Rightarrow> 'a gpio_st_scheme \<Rightarrow> int \<times> 'a gpio_st_scheme" where
  "Pega_Motor_interrupt_trigger_set pin eInterrupt s =
     (if eInterrupt > 3 then (-1, s)
      else (case sys_open (Gpio_edge pin) s of (ok, s) \<Rightarrow>
        if \<not> ok then (-1, s)
        else (0, seq [emit (Write_file (Gpio_edge pin)
          (if eInterrupt = 1 then ''rising'' else if eInterrupt = 2 then ''falling''
           else if eInterrupt = 3 then ''both'' else ''none'')), emit (Close (Gpio_edge pin))] s)))"

text \<open>
  Each fault thread arms its pin, opens its value file and waits in \<open>poll\<close>; what it does on a
  fault is to read the file and print.
\<close>

definition fault_thread_start :: "int \<Rightarrow> 'a gpio_st_scheme \<Rightarrow> 'a gpio_st_scheme" where
  "fault_thread_start pin s =
     (case sys_open (Gpio_value pin) (snd (Pega_Motor_interrupt_trigger_set pin 2 s)) of (ok, s) \<Rightarrow>
      if ok then emit (Read_file (Gpio_value pin)) s else s)"

definition Pega_Motor_interrupt_handler_Start :: "'a gpio_st_scheme \<Rightarrow> 'a gpio_st_scheme" where
  "Pega_Motor_interrupt_handler_Start = seq
     [emit Thread_create, emit Thread_create,
      fault_thread_start IO_I_MOTOR_nFAULT_PAN, fault_thread_start IO_I_MOTOR_nFAULT_RISING]"

subsection \<open>Start-up\<close>

text \<open>The option letters as \<open>getopt\<close> returns them; \<open>FAILED\<close> ends the program.\<close>

fun pega_misc_cmd_paring :: "char list \<Rightarrow> misc \<Rightarrow> int \<times> misc" where
  "pega_misc_cmd_paring [] s = (NOT_THING, s)"
| "pega_misc_cmd_paring (c # cs) s =
     (if c = CHR ''a'' then pega_misc_cmd_paring cs (s\<lparr>bIsALSDisable := True\<rparr>)
      else if c = CHR ''A'' then pega_misc_cmd_paring cs (s\<lparr>bIsACCDisable := True\<rparr>)
      else if c = CHR ''w'' then pega_misc_cmd_paring cs (s\<lparr>bIsWiFiDisable := True\<rparr>)
      else if c = CHR ''n'' then pega_misc_cmd_paring cs (s\<lparr>bIsNFCDisable := True\<rparr>)
      else if c = CHR ''M'' then pega_misc_cmd_paring cs (s\<lparr>bIsMotorDisable := True\<rparr>)
      else (FAILED, s))"

definition Pega_Misc_system_variables_init :: "misc \<Rightarrow> misc" where
  "Pega_Misc_system_variables_init s = s\<lparr>bIsALSDisable := True\<rparr>"

definition Pega_Misc_hareware_init :: "misc \<Rightarrow> misc option" where
  "Pega_Misc_hareware_init s = do {
     s \<leftarrow> Pega_pwm_init 0 (Pega_Gpio_init s);
     s \<leftarrow> OPT300x_Device_Init s;
     Pega_AMP_Initialize True 10 s
   }"

definition zero_diag :: stDiagCmdStrType where
  "zero_diag = \<lparr>eCmdId = 0, value1 = 0, value2 = 0, value3 = 0, fval1 = 0, fval2 = 0,
     bDebugEn = 0, wCmdCnt = 0\<rparr>"

definition Pega_Misc_system_tasks_start :: "misc \<Rightarrow> misc" where
  "Pega_Misc_system_tasks_start s = seq
     [(\<lambda>s. s\<lparr>sch := pega_schedule_Buff_Reset (sch s)\<rparr>), Pega_led_flash_handler_Start,
      upd_diag (\<lambda>_. zero_diag),
      if \<not> bIsMotorDisable s then Pega_Motor_interrupt_handler_Start else (\<lambda>s. s)] s"

definition misc_startup :: "misc \<Rightarrow> misc option" where
  "misc_startup s = do {
     let s = Pega_AMP_Device_I2C_open (OPT300x_Device_I2C_open s);
     s \<leftarrow> Pega_Misc_hareware_init (Pega_Misc_system_variables_init s);
     let s = snd (Pega_led_flash_state_Set LED_State_System_Start_Up (Pega_Misc_system_tasks_start s));
     Some (if \<not> bIsWiFiDisable s then push_event schEVT_Load_wifi_fw SCH_1Sec s else s)
   }"

text \<open>\<open>main\<close> before its loop: \<open>Inl\<close> when an option ends the program.\<close>

definition misc_main :: "char list \<Rightarrow> misc \<Rightarrow> (misc + misc) option" where
  "misc_main opts s = (case pega_misc_cmd_paring opts s of (ret, s) \<Rightarrow>
     if ret = FAILED then Some (Inl s) else map_option Inr (misc_startup s))"

text \<open>The static initialisers of all files.\<close>

definition misc_static :: "misc_env \<Rightarrow> misc" where
  "misc_static env = nv_initial
     \<lparr>menv = env, mlog = [], bIrcut_enable = -1,
      m_eLED_State = 0, m_eLED_State_prev = 0, bIsLedFlashing = 0, eLedFlashing_Pattern = 0,
      eLedFlashing_Color = 0, u16Period = 0, led_thread_id = 0, led_threads = [], next_thread = 1,
      m_Als_i2cFile = -1, wDeviceID = 0, wConfReg = 0, als_fLux = 0, als_fLux_old = 0,
      fLux = 0, fOffset = 0, fLuxCal = 0, fNightModeThd = 0, fDayModeThd = 0, bNVModeSet = 0,
      bIsNVModeAuto = 0, bIsNightMode = 0, bIRLedEn = 0, bIsIRLedOn = 0, u8DayModeCounts = 0,
      u8NightModeCounts = 0, sTriggerCounts = 0, InitialLSValue = 0, m_tmpfLux = 0,
      cur_book = 0, cur_page = 0, m_Amp_i2cFile = -1, m_bIsAmp_init = -1,
      g_full_step_state_m = 0, g_half_step_state_m = 0, g_full_step_delay_m = 5000,
      g_half_step_delay_m = 2500, m_isTimeout = 0, timer_armed = False,
      m_pUartPortFile = -1, m_u8Buffer = replicate UART_BUFFER_MAX_LEN 0, m_UartRcvCount = 0,
      m_bDataReceive = False,
      bIsBurnInOn = False, bIsALSDisable = False, bIsWiFiDisable = False, bIsACCDisable = False,
      bIsNFCDisable = False, bIsMotorDisable = False, bIsWiFiFwReady = False,
      bIsWiFiFwError = False, eWIFI1_if = 0, eWIFI2_if = 0,
      m_stDiagCmd = zero_diag, m_bDebugMsgEn = 0,
      m_eDebugCmd = \<lparr>dbg_eCmdId = 0, dbg_value1 = 0, dbg_value2 = 0, dbg_value3 = 0\<rparr>,
      sch = sched_zero\<rparr>"

subsection \<open>Steps\<close>

text \<open>
  The daemon's threads: the main loop, the schedule tick, the two message listeners and the LED
  thread. Each takes one round at a time; there is no step from a state that faults.
\<close>

inductive misc_step :: "misc \<Rightarrow> misc \<Rightarrow> bool" where
  step_main: "main_round s = Some t \<Longrightarrow> misc_step s t"
| step_tick: "pega_schedule_Event_Processing s = Some t \<Longrightarrow> misc_step s t"
| step_diag: "misc_step s (snd (Pega_diag_commands_processer d s))"
| step_debug: "misc_step s (snd (Pega_debug_commands_processer cmd v1 v2 v3 s))"
| step_led: "misc_step s (Pega_led_flash_TaskHandler th s)"

inductive misc_reachable :: "misc \<Rightarrow> bool" where
  reach_start: "misc_main opts (misc_static env) = Some (Inr s) \<Longrightarrow> misc_reachable s"
| reach_step: "misc_reachable s \<Longrightarrow> misc_step s t \<Longrightarrow> misc_reachable t"

inductive_cases misc_stepE: "misc_step s t"

end
