(* ===== verification/Misc_Queue.thy ===== *)
theory Misc_Queue
  imports Misc_Schedule
begin

text \<open>
  The abstract specification of the event queue: a list of distinct pending events with their
  remaining ticks. The array of \<open>Misc_Schedule\<close> refines it operation by operation, and the
  locale \<open>delayed_queue\<close> proves once what a client may rely on: when a pushed event fires.
\<close>

subsection \<open>The abstract queue\<close>

type_synonym queue = "stSchDefType list"

definition q_push :: "u8 \<Rightarrow> u32 \<Rightarrow> queue \<Rightarrow> bool \<times> queue" where
  "q_push e d q =
     (if e \<ge> schEVT_Max then (False, q)
      else if e = schEVT_None then (True, q)
      else if e \<in> enEVT ` set q
      then (True, map (\<lambda>x. if enEVT x = e then x\<lparr>wTMCount := sint d, wTMTime := 0\<rparr> else x) q)
      else if length q \<ge> 11 then (False, q)
      else (True, q @ [\<lparr>enEVT = e, wTMCount = sint d, wTMTime = 0\<rparr>]))"

fun q_tick :: "queue \<Rightarrow> u8 \<times> queue" where
  "q_tick [] = (schEVT_None, [])"
| "q_tick (x # q) =
     (if wTMCount x = 1 then (enEVT x, q)
      else (case q_tick q of (e, q') \<Rightarrow>
        (e, x\<lparr>wTMTime := wTMTime x + 1,
              wTMCount := (if wTMCount x > 0 then wTMCount x - 1 else wTMCount x)\<rparr> # q')))"

definition q_cancel :: "u8 \<Rightarrow> queue \<Rightarrow> bool \<times> queue" where
  "q_cancel e q =
     (if e \<ge> schEVT_Max then (False, q)
      else if e = schEVT_DeleteAll then (True, [])
      else (e \<in> enEVT ` set q, filter (\<lambda>x. enEVT x \<noteq> e) q))"

definition q_ok :: "queue \<Rightarrow> bool" where
  "q_ok q \<longleftrightarrow> length q \<le> 11 \<and> distinct (map enEVT q) \<and>
     (\<forall>x\<in>set q. enEVT x \<noteq> schEVT_None \<and> enEVT x < schEVT_Max)"

subsection \<open>Ticks of the abstract queue\<close>

lemma q_tick_event: "fst (q_tick q) \<noteq> 0 \<Longrightarrow> fst (q_tick q) \<in> enEVT ` set q"
  by (induction q) (auto split: prod.splits)

lemma q_tick_subset: "enEVT ` set (snd (q_tick q)) \<subseteq> enEVT ` set q"
proof (induction q)
  case (Cons x q)
  then show ?case
    by (cases "q_tick q") (auto dest: subsetD [OF _ imageI])
qed simp

lemma q_tick_length: "length (snd (q_tick q)) \<le> length q"
  by (induction q) (auto split: prod.splits)

lemma q_tick_distinct: "distinct (map enEVT q) \<Longrightarrow> distinct (map enEVT (snd (q_tick q)))"
proof (induction q)
  case (Cons x q)
  have "enEVT x \<notin> enEVT ` set (snd (q_tick q))" using Cons.prems q_tick_subset [of q] by auto
  with Cons show ?case by (cases "q_tick q") simp
qed simp

lemma q_tick_ok: "q_ok q \<Longrightarrow> q_ok (snd (q_tick q))"
proof -
  assume ok: "q_ok q"
  have "enEVT x \<noteq> 0 \<and> enEVT x < 203" if "x \<in> set (snd (q_tick q))" for x
  proof -
    from that have "enEVT x \<in> enEVT ` set q" using q_tick_subset by blast
    then show ?thesis using ok by (auto simp: q_ok_def)
  qed
  then show ?thesis
    using ok q_tick_length [of q] q_tick_distinct [of q] by (auto simp: q_ok_def)
qed

text \<open>
  One tick as an entry at position \<open>p\<close> sees it: it fires, it counts down, or an earlier entry
  fires and it moves up without counting.
\<close>

lemma q_tick_entry:
  assumes "q_ok q" and "p < length q" and "0 < wTMCount (q ! p)"
  shows "fst (q_tick q) = enEVT (q ! p) \<and> wTMCount (q ! p) = 1 \<or>
    fst (q_tick q) \<noteq> enEVT (q ! p) \<and>
    (\<exists>p'<length (snd (q_tick q)). enEVT (snd (q_tick q) ! p') = enEVT (q ! p) \<and>
       (p' = p \<and> 1 < wTMCount (q ! p) \<and> wTMCount (snd (q_tick q) ! p') = wTMCount (q ! p) - 1 \<or>
        p = Suc p' \<and> wTMCount (snd (q_tick q) ! p') = wTMCount (q ! p)))"
proof -
  have "distinct (map enEVT q)" "\<forall>x\<in>set q. enEVT x \<noteq> 0" using assms(1) by (auto simp: q_ok_def)
  then show ?thesis using assms(2,3)
  proof (induction q arbitrary: p)
    case Nil
    then show ?case by simp
  next
    case (Cons x q)
    obtain e q' where t: "q_tick q = (e, q')" by (cases "q_tick q") auto
    have x: "e \<noteq> enEVT x"
    proof
      assume "e = enEVT x"
      moreover have "enEVT x \<noteq> 0" using Cons.prems(2) by simp
      ultimately have "enEVT x \<in> enEVT ` set q" using q_tick_event [of q] t by simp
      then show False using Cons.prems(1) by simp
    qed
    show ?case
    proof (cases p)
      case 0
      then show ?thesis using Cons.prems(4) x by (auto simp: t intro!: exI [of _ 0])
    next
      case (Suc k)
      show ?thesis
      proof (cases "wTMCount x = 1")
        case True
        have "enEVT (q ! k) \<in> enEVT ` set q" using Cons.prems(3) Suc by simp
        then have "enEVT (q ! k) \<noteq> enEVT x" using Cons.prems(1) by auto
        then show ?thesis using True Suc Cons.prems by (auto intro!: exI [of _ k])
      next
        case False
        have IH: "e = enEVT (q ! k) \<and> wTMCount (q ! k) = 1 \<or> e \<noteq> enEVT (q ! k) \<and>
          (\<exists>p'<length q'. enEVT (q' ! p') = enEVT (q ! k) \<and>
            (p' = k \<and> 1 < wTMCount (q ! k) \<and> wTMCount (q' ! p') = wTMCount (q ! k) - 1 \<or>
             k = Suc p' \<and> wTMCount (q' ! p') = wTMCount (q ! k)))"
          using Cons.IH [of k] Cons.prems Suc t by simp
        then show ?thesis
        proof (elim disjE conjE exE)
          fix p'
          assume p': "e \<noteq> enEVT (q ! k)" "p' < length q'" "enEVT (q' ! p') = enEVT (q ! k)"
          assume "p' = k" "1 < wTMCount (q ! k)" "wTMCount (q' ! p') = wTMCount (q ! k) - 1"
          then show ?thesis using False Suc t p' by (auto intro!: exI [of _ "Suc p'"])
        next
          fix p'
          assume p': "e \<noteq> enEVT (q ! k)" "p' < length q'" "enEVT (q' ! p') = enEVT (q ! k)"
          assume "k = Suc p'" "wTMCount (q' ! p') = wTMCount (q ! k)"
          then show ?thesis using False Suc t p' by (auto intro!: exI [of _ "Suc p'"])
        qed (use False Suc t in simp)
      qed
    qed
  qed
qed

lemma q_tick_stuck:
  assumes "q_ok q" and "x \<in> set q" and "wTMCount x \<le> 0"
  shows "fst (q_tick q) \<noteq> enEVT x \<and>
    (\<exists>y\<in>set (snd (q_tick q)). enEVT y = enEVT x \<and> wTMCount y \<le> 0)"
proof -
  have "distinct (map enEVT q)" "\<forall>x\<in>set q. enEVT x \<noteq> 0" using assms(1) by (auto simp: q_ok_def)
  then show ?thesis using assms(2,3)
  proof (induction q)
    case (Cons y q)
    obtain e q' where t: "q_tick q = (e, q')" by (cases "q_tick q") auto
    have "e \<noteq> enEVT y"
      using Cons.prems(1,2) q_tick_event [of q] t by auto
    then show ?case
      using Cons t by (auto simp: image_iff)
  qed simp
qed

lemma q_push_ok: "q_ok q \<Longrightarrow> q_ok (snd (q_push e d q))"
proof -
  assume ok: "q_ok q"
  have "map enEVT (map (\<lambda>x. if enEVT x = e then x\<lparr>wTMCount := sint d, wTMTime := 0\<rparr> else x) q) =
    map enEVT q"
    by (induction q) simp_all
  then show ?thesis
    using ok by (auto simp: q_push_def q_ok_def not_le simp del: map_map split: if_splits)
qed

text \<open>After a successful push the event is an entry with the requested delay.\<close>

lemma q_push_entry:
  assumes "q_ok q" and "e \<noteq> 0" and "fst (q_push e d q)"
  obtains p where "p < length (snd (q_push e d q))" and "p \<le> 10"
    and "enEVT (snd (q_push e d q) ! p) = e" and "wTMCount (snd (q_push e d q) ! p) = sint d"
proof (cases "e \<in> enEVT ` set q")
  case True
  then obtain p where "p < length q" "enEVT (q ! p) = e" by (auto simp: in_set_conv_nth)
  then show ?thesis
    using assms True by (intro that [of p]) (auto simp: q_push_def q_ok_def split: if_splits)
next
  case False
  then show ?thesis
    using assms by (intro that [of "length q"]) (auto simp: q_push_def q_ok_def split: if_splits)
qed

subsection \<open>What a client may rely on\<close>

definition ticks :: "('s \<Rightarrow> u8 \<times> 's) \<Rightarrow> nat \<Rightarrow> 's \<Rightarrow> 's" where
  "ticks tick n = (\<lambda>s. snd (tick s)) ^^ n"

lemma ticks_0 [simp]: "ticks tick 0 s = s"
  by (simp add: ticks_def)

lemma ticks_Suc: "ticks tick (Suc n) s = ticks tick n (snd (tick s))"
  unfolding ticks_def by (simp only: funpow_Suc_right comp_def)

text \<open>
  The interface of a queue of delayed events: what its operations do to the list of pending
  events, as seen through \<open>pending\<close>, while the representation invariant holds.
\<close>

locale delayed_queue =
  fixes push :: "u8 \<Rightarrow> u32 \<Rightarrow> 's \<Rightarrow> bool \<times> 's" and tick :: "'s \<Rightarrow> u8 \<times> 's"
    and pending :: "'s \<Rightarrow> queue" and inv :: "'s \<Rightarrow> bool"
  assumes pending_ok: "inv s \<Longrightarrow> q_ok (pending s)"
    and push_inv: "inv s \<Longrightarrow> inv (snd (push e d s))"
    and push_ret: "inv s \<Longrightarrow> fst (push e d s) = fst (q_push e d (pending s))"
    and push_pending: "inv s \<Longrightarrow> pending (snd (push e d s)) = snd (q_push e d (pending s))"
    and tick_inv: "inv s \<Longrightarrow> inv (snd (tick s))"
    and tick_ret: "inv s \<Longrightarrow> fst (tick s) = fst (q_tick (pending s))"
    and tick_pending: "inv s \<Longrightarrow> pending (snd (tick s)) = snd (q_tick (pending s))"
begin

lemma ticks_inv: "inv s \<Longrightarrow> inv (ticks tick n s)"
  by (induction n arbitrary: s) (auto simp: ticks_Suc tick_inv)

lemma entry_fires:
  assumes "inv s" and "p < length (pending s)" and "wTMCount (pending s ! p) = int (Suc c)"
  shows "\<exists>n\<ge>c. n \<le> c + p \<and> fst (tick (ticks tick n s)) = enEVT (pending s ! p) \<and>
    (\<forall>m<n. fst (tick (ticks tick m s)) \<noteq> enEVT (pending s ! p))"
  using assms
proof (induction "c + p" arbitrary: c p s)
  case (0 c p s)
  then have "0 < wTMCount (pending s ! p)" by simp
  from q_tick_entry [OF pending_ok [OF 0(2)] 0(3) this] 0 show ?case
    by (auto simp: tick_ret intro!: exI [of _ 0])
next
  case (Suc k c p s)
  let ?e = "enEVT (pending s ! p)" and ?s = "snd (tick s)"
  have inv': "inv ?s" using Suc.prems(1) by (rule tick_inv)
  have "0 < wTMCount (pending s ! p)" using Suc.prems by simp
  from q_tick_entry [OF pending_ok [OF Suc.prems(1)] Suc.prems(2) this] Suc.prems(1)
  consider (fires) "fst (tick s) = ?e" "wTMCount (pending s ! p) = 1"
    | (later) p' where "fst (tick s) \<noteq> ?e" "p' < length (pending ?s)"
        "enEVT (pending ?s ! p') = ?e"
        "p' = p \<and> 1 < wTMCount (pending s ! p) \<and>
           wTMCount (pending ?s ! p') = wTMCount (pending s ! p) - 1 \<or>
         p = Suc p' \<and> wTMCount (pending ?s ! p') = wTMCount (pending s ! p)"
    by (auto simp: tick_ret tick_pending)
  then show ?case
  proof cases
    case fires
    then show ?thesis using Suc.prems(3) by (auto intro!: exI [of _ 0])
  next
    case later
    have "\<exists>c'. wTMCount (pending ?s ! p') = int (Suc c') \<and> k = c' + p' \<and> c \<le> Suc c' \<and> c' + p' < c + p"
      using later(4)
    proof (elim disjE conjE)
      assume "p' = p" "1 < wTMCount (pending s ! p)"
        "wTMCount (pending ?s ! p') = wTMCount (pending s ! p) - 1"
      then show ?thesis using Suc(2) Suc.prems(3) by (intro exI [of _ "c - 1"]) auto
    next
      assume "p = Suc p'" "wTMCount (pending ?s ! p') = wTMCount (pending s ! p)"
      then show ?thesis using Suc(2) Suc.prems(3) by (intro exI [of _ c]) auto
    qed
    then obtain c' where c': "wTMCount (pending ?s ! p') = int (Suc c')" "k = c' + p'" "c \<le> Suc c'"
        "c' + p' < c + p" by blast
    from Suc.hyps(1) [OF c'(2) inv' later(2) c'(1)] later(3)
    obtain n where n: "n \<ge> c'" "n \<le> c' + p'" "fst (tick (ticks tick n ?s)) = ?e"
        "\<forall>m<n. fst (tick (ticks tick m ?s)) \<noteq> ?e" by auto
    have "fst (tick (ticks tick m s)) \<noteq> ?e" if "m < Suc n" for m
      using that n(4) later(1) by (cases m) (auto simp: ticks_Suc)
    then show ?thesis using n c' by (intro exI [of _ "Suc n"]) (auto simp: ticks_Suc)
  qed
qed

lemma event_fires:
  assumes "inv s" and "e \<noteq> 0" and "fst (push e d s)" and "sint d = int (Suc c)"
  shows "\<exists>n\<ge>c. n \<le> c + 10 \<and> fst (tick (ticks tick n (snd (push e d s)))) = e \<and>
    (\<forall>m<n. fst (tick (ticks tick m (snd (push e d s)))) \<noteq> e)"
proof -
  let ?s = "snd (push e d s)"
  have "fst (q_push e d (pending s))" using assms by (simp add: push_ret)
  from q_push_entry [OF pending_ok [OF assms(1)] assms(2) this] push_pending [OF assms(1), of e d]
  obtain p where p: "p < length (pending ?s)" "p \<le> 10" "enEVT (pending ?s ! p) = e"
      "wTMCount (pending ?s ! p) = sint d" by metis
  from entry_fires [OF push_inv [OF assms(1)] p(1), of c] p assms(4) show ?thesis by fastforce
qed

lemma stuck_entry:
  assumes "inv s" and "x \<in> set (pending s)" and "wTMCount x \<le> 0"
  shows "fst (tick (ticks tick n s)) \<noteq> enEVT x \<and> enEVT x \<in> enEVT ` set (pending (ticks tick n s))"
  using assms
proof (induction n arbitrary: s x)
  case 0
  then show ?case using q_tick_stuck [OF pending_ok] by (simp add: tick_ret)
next
  case (Suc n)
  from q_tick_stuck [OF pending_ok [OF Suc.prems(1)] Suc.prems(2,3)]
  obtain y where "y \<in> set (pending (snd (tick s)))" "enEVT y = enEVT x" "wTMCount y \<le> 0"
    using Suc.prems(1) by (auto simp: tick_pending)
  from Suc.IH [OF tick_inv [OF Suc.prems(1)] this(1,3)] this(2) show ?case
    by (simp add: ticks_Suc)
qed

lemma undelayed_event_stuck:
  assumes "inv s" and "e \<noteq> 0" and "fst (push e d s)" and "sint d \<le> 0"
  shows "fst (tick (ticks tick n (snd (push e d s)))) \<noteq> e \<and>
    e \<in> enEVT ` set (pending (ticks tick n (snd (push e d s))))"
proof -
  let ?s = "snd (push e d s)"
  have "fst (q_push e d (pending s))" using assms by (simp add: push_ret)
  from q_push_entry [OF pending_ok [OF assms(1)] assms(2) this] push_pending [OF assms(1), of e d]
  obtain p where p: "p < length (pending ?s)" "enEVT (pending ?s ! p) = e"
      "wTMCount (pending ?s ! p) = sint d" by metis
  from stuck_entry [OF push_inv [OF assms(1)], of "pending ?s ! p" e d n] p assms(4)
  show ?thesis by simp
qed

end

end
