(* ===== verification/Misc_Refine.thy ===== *)
theory Misc_Refine
  imports Misc_Queue
begin

text \<open>
  The slot array implements the abstract queue: the invariant of \<open>pega_schedule.c\<close>, one
  refinement lemma per operation and the interpretation of \<open>delayed_queue\<close> on the code's model.
\<close>

definition sched_abs :: "sched \<Rightarrow> queue" where
  "sched_abs s = take (m_SchCnt s) (m_SchBuff s)"

definition sched_ok :: "sched \<Rightarrow> bool" where
  "sched_ok s \<longleftrightarrow> length (m_SchBuff s) = SCH_BUFF_MAX \<and> m_SchCnt s \<le> 11 \<and>
     q_ok (sched_abs s) \<and> (\<forall>x\<in>set (drop (m_SchCnt s) (m_SchBuff s)). enEVT x = schEVT_None)"

subsection \<open>The array\<close>

lemma sched_okE:
  assumes "sched_ok s"
  obtains q rest where "m_SchBuff s = q @ rest" and "m_SchCnt s = length q" and "sched_abs s = q"
    and "length q + length rest = 12" and "rest \<noteq> []" and "q_ok q"
    and "\<forall>x\<in>set rest. enEVT x = 0"
proof (rule that)
  show "m_SchBuff s = sched_abs s @ drop (m_SchCnt s) (m_SchBuff s)" by (simp add: sched_abs_def)
qed (use assms in \<open>auto simp: sched_ok_def sched_abs_def\<close>)

lemma sched_okI:
  assumes "m_SchBuff s = q @ rest" and "m_SchCnt s = length q" and "length q + length rest = 12"
    and "q_ok q" and "\<forall>x\<in>set rest. enEVT x = 0"
  shows "sched_ok s" and "sched_abs s = q"
  using assms by (auto simp: sched_ok_def sched_abs_def q_ok_def)

lemma find_idx_append:
  "find_idx P (xs @ ys) = (if \<exists>x\<in>set xs. P x then find_idx P xs else length xs + find_idx P ys)"
  by (induction xs) auto

text \<open>The shift of \<open>pega_schedule_Buff_Reschedlue\<close> removes one slot and repeats the last.\<close>

lemma shift_down:
  "n < length b \<Longrightarrow> i \<le> n \<Longrightarrow> fold (\<lambda>j b. b[j := b ! (j + 1)]) [i..<n] b =
    take i b @ drop (Suc i) (take (Suc n) b) @ drop n b"
proof (induction "n - i" arbitrary: i b)
  case 0
  then show ?case by (simp add: id_take_nth_drop)
next
  case (Suc k)
  then have i: "[i..<n] = i # [Suc i..<n]" by (simp add: upt_conv_Cons)
  let ?b = "b[i := b ! (i + 1)]"
  have "fold (\<lambda>j b. b[j := b ! (j + 1)]) [Suc i..<n] ?b =
      take (Suc i) ?b @ drop (Suc (Suc i)) (take (Suc n) ?b) @ drop n ?b"
    using Suc by (intro Suc.hyps(1)) auto
  also have "take (Suc i) ?b = take i b @ [b ! Suc i]"
    using Suc by (simp add: take_Suc_conv_app_nth)
  also have "drop (Suc (Suc i)) (take (Suc n) ?b) = drop (Suc (Suc i)) (take (Suc n) b)"
    using Suc by (simp add: drop_update_cancel take_update_swap)
  also have "drop n ?b = drop n b" using Suc by simp
  finally have step: "fold (\<lambda>j b. b[j := b ! (j + 1)]) [i..<n] b =
      take i b @ [b ! Suc i] @ drop (Suc (Suc i)) (take (Suc n) b) @ drop n b" using i by simp
  have "drop (Suc i) (take (Suc n) b) = take (Suc n) b ! Suc i # drop (Suc (Suc i)) (take (Suc n) b)"
    using Suc by (intro Cons_nth_drop_Suc [symmetric]) simp
  then show ?case using step Suc by simp
qed

lemma Reschedlue_split:
  assumes "m_SchBuff s = xs @ x # ys" and "length xs + length ys = 11"
  shows "m_SchBuff (pega_schedule_Buff_Reschedlue (length xs) s) =
    xs @ ys @ [last (x # ys)]"
proof -
  have l: "length (m_SchBuff s) = 12" using assms by simp
  have "drop 11 (xs @ x # ys) = [last (x # ys)]"
  proof -
    have "drop 11 (xs @ x # ys) = drop (11 - length xs) (x # ys)" using assms(2) by simp
    also have "\<dots> = drop (length ys) (x # ys)" using assms(2) by (metis add_diff_cancel_left')
    also have "\<dots> = [last (x # ys)]" by (induction ys arbitrary: x) auto
    finally show ?thesis .
  qed
  then show ?thesis
    using assms l shift_down [of 11 "m_SchBuff s" "length xs"]
    by (simp add: pega_schedule_Buff_Reschedlue_def)
qed

lemma Reschedlue_ok:
  assumes "m_SchBuff s = q1 @ x # q2 @ rest" and "m_SchCnt s = Suc (length q1 + length q2)"
    and "length q1 + length q2 + length rest = 11" and "q_ok (q1 @ q2)"
    and "rest \<noteq> []" and "\<forall>x\<in>set rest. enEVT x = 0"
  shows "sched_ok (pega_schedule_Buff_Reschedlue (length q1) s)"
    and "sched_abs (pega_schedule_Buff_Reschedlue (length q1) s) = q1 @ q2"
proof -
  let ?s = "pega_schedule_Buff_Reschedlue (length q1) s"
  have "m_SchBuff ?s = (q1 @ q2) @ rest @ [last rest]"
    using assms Reschedlue_split [of s q1 x "q2 @ rest"] by simp
  moreover have "m_SchCnt ?s = length (q1 @ q2)"
    using assms by (simp add: pega_schedule_Buff_Reschedlue_def)
  moreover have "\<forall>y\<in>set (rest @ [last rest]). enEVT y = 0"
    using assms(6) last_in_set [OF assms(5)] by auto
  ultimately show "sched_ok ?s" and "sched_abs ?s = q1 @ q2"
    using assms(3,4) sched_okI [of ?s "q1 @ q2" "rest @ [last rest]"] by simp_all
qed

text \<open>Popping drops the first slot, whatever its delay; an empty queue stays empty.\<close>

lemma pop_refines:
  assumes "sched_ok s"
  shows "sched_ok (pega_schedule_Event_pop s)" and "sched_abs (pega_schedule_Event_pop s) = tl (sched_abs s)"
proof -
  from assms obtain q rest where s: "m_SchBuff s = q @ rest" "m_SchCnt s = length q" "sched_abs s = q"
    "length q + length rest = 12" "rest \<noteq> []" "q_ok q" "\<forall>x\<in>set rest. enEVT x = 0" by (rule sched_okE)
  have "sched_ok (pega_schedule_Buff_Reschedlue 0 s) \<and> sched_abs (pega_schedule_Buff_Reschedlue 0 s) = tl q"
  proof (cases q)
    case Nil
    from s(5) obtain x ys where rest: "rest = x # ys" by (cases rest) auto
    let ?s = "pega_schedule_Buff_Reschedlue 0 s"
    have "m_SchBuff ?s = [] @ ys @ [last (x # ys)]"
      using Reschedlue_split [of s "[]" x ys] s(1,4) by (simp add: Nil rest)
    moreover have "enEVT (last (x # ys)) = 0" using s(7) last_in_set [of "x # ys"] unfolding rest by blast
    ultimately show ?thesis
      using sched_okI [of ?s "[]" "ys @ [last (x # ys)]"] s(2,4,6,7)
      by (auto simp: Nil rest pega_schedule_Buff_Reschedlue_def)
  next
    case (Cons x q2)
    have "q_ok q2" using s(6) by (simp add: Cons q_ok_def)
    then show ?thesis
      using Reschedlue_ok [of s "[]" x q2 rest] s by (simp add: Cons)
  qed
  then show "sched_ok (pega_schedule_Event_pop s)" "sched_abs (pega_schedule_Event_pop s) = tl (sched_abs s)"
    by (simp_all add: pega_schedule_Event_pop_def s(3))
qed

subsection \<open>Slots\<close>

lemma slot_live:
  assumes "sched_ok s" and "e \<in> enEVT ` set (sched_abs s)"
  obtains q1 x q2 rest where "event_slot e s = Some (length q1)" and "sched_abs s = q1 @ x # q2"
    and "m_SchBuff s = q1 @ x # q2 @ rest" and "enEVT x = e"
    and "e \<notin> enEVT ` set q1" and "e \<notin> enEVT ` set q2"
    and "m_SchCnt s = Suc (length q1 + length q2)"
    and "length q1 + length q2 + length rest = 11" and "rest \<noteq> []"
    and "\<forall>x\<in>set rest. enEVT x = 0"
proof -
  from assms(1) obtain q rest where q: "m_SchBuff s = q @ rest" "m_SchCnt s = length q"
    "sched_abs s = q" "length q + length rest = 12" "rest \<noteq> []" "q_ok q"
    "\<forall>x\<in>set rest. enEVT x = 0" by (rule sched_okE) blast
  from assms(2) q(3) obtain x where x: "x \<in> set q" "enEVT x = e" by auto
  then obtain q1 q2 where split: "q = q1 @ x # q2" by (auto dest: split_list)
  then have notin: "e \<notin> enEVT ` set q1" "e \<notin> enEVT ` set q2"
    using q(6) x(2) by (auto simp: q_ok_def)
  have "find_idx (\<lambda>x. enEVT x = e) (take (Suc (m_SchCnt s)) (m_SchBuff s)) = length q1"
    using q split x(2) notin(1) find_idx_append [of _ q1] by (auto simp: image_iff)
  then have "event_slot e s = Some (length q1)"
    using q split by (simp add: event_slot_def)
  then show ?thesis using q split x notin by (intro that [of q1 x q2 rest]) auto
qed

lemma slot_none:
  assumes "sched_ok s" and "e \<noteq> 0" and "e \<notin> enEVT ` set (sched_abs s)"
  shows "event_slot e s = None"
proof -
  from assms(1) obtain q rest where q: "m_SchBuff s = q @ rest" "m_SchCnt s = length q"
    "sched_abs s = q" "length q + length rest = 12" "rest \<noteq> []" "q_ok q"
    "\<forall>x\<in>set rest. enEVT x = 0" by (rule sched_okE) blast
  have "find_idx (\<lambda>x. enEVT x = e) (take (Suc (m_SchCnt s)) (m_SchBuff s)) =
      length (take (Suc (m_SchCnt s)) (m_SchBuff s))"
    unfolding find_idx_eq_length using q assms(2,3) by (auto simp: image_iff dest!: in_set_takeD)
  moreover have "rest = hd rest # tl rest" using q(5) by simp
  ultimately show ?thesis using q by (cases rest) (auto simp: event_slot_def)
qed

text \<open>The slot behind the last entry answers for the event None.\<close>

lemma slot_0: "sched_ok s \<Longrightarrow> event_slot 0 s = Some (m_SchCnt s)"
proof (erule sched_okE)
  fix q rest
  assume q: "m_SchBuff s = q @ rest" "m_SchCnt s = length q" "length q + length rest = 12"
    "rest \<noteq> []" "q_ok q" and none: "\<forall>x\<in>set rest. enEVT x = 0"
  obtain r rs where "rest = r # rs" using q(4) by (cases rest) auto
  moreover from this none have "enEVT r = 0" by simp
  moreover have "\<not> (\<exists>x\<in>set q. enEVT x = 0)" using q(5) by (auto simp: q_ok_def)
  ultimately show "event_slot 0 s = Some (m_SchCnt s)"
    using q by (auto simp: event_slot_def find_idx_append)
qed

subsection \<open>Refinement\<close>

lemma q_ok_names: "map enEVT p = map enEVT q \<Longrightarrow> q_ok p \<longleftrightarrow> q_ok q"
proof -
  assume names: "map enEVT p = map enEVT q"
  then have "length p = length q" by (rule map_eq_imp_length_eq)
  moreover have "enEVT ` set p = enEVT ` set q" using names by (metis list.set_map)
  then have "(\<forall>x\<in>set p. enEVT x \<noteq> 0 \<and> enEVT x < 203) \<longleftrightarrow> (\<forall>x\<in>set q. enEVT x \<noteq> 0 \<and> enEVT x < 203)"
    by (metis (no_types, lifting) image_iff)
  ultimately show ?thesis using names by (simp add: q_ok_def)
qed

lemma q_ok_remove: "q_ok (q1 @ x # q2) \<Longrightarrow> q_ok (q1 @ q2)"
  by (auto simp: q_ok_def)

lemma get_loop:
  assumes "m_SchBuff s = ds @ q @ rest" and "m_SchCnt s = length ds + length q"
    and "length ds + length q + length rest = 12" and "rest \<noteq> []" and "q_ok (ds @ q)"
    and "\<forall>x\<in>set rest. enEVT x = 0"
  shows "\<exists>s'. event_get_loop [length ds..<Suc (m_SchCnt s)] s = (fst (q_tick q), s') \<and>
    sched_ok s' \<and> sched_abs s' = ds @ snd (q_tick q)"
  using assms
proof (induction q arbitrary: ds s)
  case Nil
  then obtain r rs where r: "rest = r # rs" "enEVT r = 0" by (cases rest) auto
  then show ?case
    using Nil sched_okI [of s ds rest] by (simp add: pega_schedule_Event_Timeout_Check_def nth_append)
next
  case (Cons x q)
  let ?x = "x\<lparr>wTMTime := wTMTime x + 1,
      wTMCount := (if wTMCount x > 0 then wTMCount x - 1 else wTMCount x)\<rparr>"
  let ?s = "s\<lparr>m_SchBuff := ds @ ?x # q @ rest\<rparr>"
  have x: "enEVT x \<noteq> 0" using Cons.prems(5) by (simp add: q_ok_def)
  have upt: "[length ds..<Suc (m_SchCnt s)] = length ds # [Suc (length ds)..<Suc (m_SchCnt s)]"
    using Cons.prems(2) by (intro upt_conv_Cons) simp
  have check: "pega_schedule_Event_Timeout_Check (length ds) s = (wTMCount x = 1, ?s)"
    using x Cons.prems(1) by (auto simp: pega_schedule_Event_Timeout_Check_def Let_def)
  have ok: "q_ok (ds @ ?x # q)" using Cons.prems(5) q_ok_names [of "ds @ ?x # q" "ds @ x # q"] by simp
  show ?case
  proof (cases "wTMCount x = 1")
    case True
    have "sched_ok (pega_schedule_Buff_Reschedlue (length ds) ?s)"
      "sched_abs (pega_schedule_Buff_Reschedlue (length ds) ?s) = ds @ q"
      using Cons.prems ok q_ok_remove [OF ok] Reschedlue_ok [of ?s ds ?x q rest] by simp_all
    then show ?thesis using True check upt by (simp add: nth_append)
  next
    case False
    obtain e q' where t: "q_tick q = (e, q')" by (cases "q_tick q") auto
    from Cons.IH [of ?s "ds @ [?x]"] Cons.prems ok
    obtain s' where "event_get_loop [Suc (length ds)..<Suc (m_SchCnt s)] ?s = (e, s')"
      "sched_ok s'" "sched_abs s' = (ds @ [?x]) @ q'" by (auto simp: t)
    then show ?thesis using False check upt by (simp add: t)
  qed
qed

lemma tick_refines:
  assumes "sched_ok s"
  shows "sched_ok (snd (pega_schedule_Event_Get s))"
    and "fst (pega_schedule_Event_Get s) = fst (q_tick (sched_abs s))"
    and "sched_abs (snd (pega_schedule_Event_Get s)) = snd (q_tick (sched_abs s))"
proof -
  from assms obtain q rest where q: "m_SchBuff s = q @ rest" "m_SchCnt s = length q"
    "sched_abs s = q" "length q + length rest = 12" "rest \<noteq> []" "q_ok q"
    "\<forall>x\<in>set rest. enEVT x = 0" by (rule sched_okE) blast
  from get_loop [of s "[]" q rest] q
  obtain s' where "event_get_loop [0..<Suc (m_SchCnt s)] s = (fst (q_tick q), s')"
    "sched_ok s'" "sched_abs s' = snd (q_tick q)" by auto
  then show "sched_ok (snd (pega_schedule_Event_Get s))"
    and "fst (pega_schedule_Event_Get s) = fst (q_tick (sched_abs s))"
    and "sched_abs (snd (pega_schedule_Event_Get s)) = snd (q_tick (sched_abs s))"
    using assms q by (cases q; auto simp: pega_schedule_Event_Get_def)+
qed

text \<open>The three ways a push goes: to the first free slot with no name, to a live slot, to a new one.\<close>

lemma push_unnamed:
  assumes "sched_ok s" and "sched_abs s = q"
  shows "sched_ok (snd (pega_schedule_Event_push 0 d s)) \<and>
    fst (pega_schedule_Event_push 0 d s) = fst (q_push 0 d q) \<and>
    sched_abs (snd (pega_schedule_Event_push 0 d s)) = snd (q_push 0 d q)"
proof -
  from assms obtain r rs where q: "m_SchBuff s = q @ r # rs" "m_SchCnt s = length q"
    "length q + length (r # rs) = 12" "q_ok q" "\<forall>x\<in>set (r # rs). enEVT x = 0"
    by (auto elim!: sched_okE simp: neq_Nil_conv)
  let ?r = "r\<lparr>wTMCount := sint d, wTMTime := 0\<rparr>"
  have "m_SchBuff (time_count_set (length q) d s) = q @ ?r # rs"
    using q by (simp add: time_count_set_def)
  then show ?thesis
    using q assms(2) slot_0 [OF assms(1)] sched_okI [of "time_count_set (length q) d s" q "?r # rs"]
    by (auto simp: pega_schedule_Event_push_def q_push_def time_count_set_def)
qed

lemma push_live:
  assumes "sched_ok s" and "sched_abs s = q" and "e \<noteq> 0" and "e < 203" and "e \<in> enEVT ` set q"
  shows "sched_ok (snd (pega_schedule_Event_push e d s)) \<and>
    fst (pega_schedule_Event_push e d s) = fst (q_push e d q) \<and>
    sched_abs (snd (pega_schedule_Event_push e d s)) = snd (q_push e d q)"
proof -
  from assms(1,2) obtain rest where q: "m_SchBuff s = q @ rest" "m_SchCnt s = length q"
    "length q + length rest = 12" "rest \<noteq> []" "q_ok q" "\<forall>x\<in>set rest. enEVT x = 0"
    by (auto elim!: sched_okE)
  from slot_live [OF assms(1), of e] assms obtain q1 x q2 rest' where x:
    "event_slot e s = Some (length q1)" "q = q1 @ x # q2" "m_SchBuff s = q1 @ x # q2 @ rest'"
    "enEVT x = e" "e \<notin> enEVT ` set q1" "e \<notin> enEVT ` set q2" by metis
  let ?x = "x\<lparr>wTMCount := sint d, wTMTime := 0\<rparr>" and ?t = "time_count_set (length q1) d s"
  have "map (\<lambda>x. if enEVT x = e then x\<lparr>wTMCount := sint d, wTMTime := 0\<rparr> else x) q' = q'"
    if "e \<notin> enEVT ` set q'" for q' using that by (induction q') auto
  then have push: "q_push e d q = (True, q1 @ ?x # q2)"
    using assms(3-5) x by (auto simp: q_push_def)
  have "rest' = rest" using x q(1) by simp
  then have "m_SchBuff ?t = (q1 @ ?x # q2) @ rest" "m_SchCnt ?t = length (q1 @ ?x # q2)"
    using x q by (simp_all add: time_count_set_def)
  moreover have "q_ok (q1 @ ?x # q2)"
    using q(5) x(2) q_ok_names [of "q1 @ ?x # q2" q] by simp
  ultimately show ?thesis
    using assms(3-5) q x push sched_okI [of ?t "q1 @ ?x # q2" rest]
    by (simp add: pega_schedule_Event_push_def)
qed

lemma push_new:
  assumes "sched_ok s" and "sched_abs s = q" and "e \<noteq> 0" and "e < 203" and "e \<notin> enEVT ` set q"
  shows "sched_ok (snd (pega_schedule_Event_push e d s)) \<and>
    fst (pega_schedule_Event_push e d s) = fst (q_push e d q) \<and>
    sched_abs (snd (pega_schedule_Event_push e d s)) = snd (q_push e d q)"
proof -
  from assms(1,2) obtain r rs where q: "m_SchBuff s = q @ r # rs" "m_SchCnt s = length q"
    "length q + length (r # rs) = 12" "q_ok q" "\<forall>x\<in>set (r # rs). enEVT x = 0"
    by (auto elim!: sched_okE simp: neq_Nil_conv)
  have slot: "event_slot e s = None" using assms by (intro slot_none) auto
  show ?thesis
  proof (cases "length q \<ge> 11")
    case True
    then show ?thesis using assms q slot by (simp add: pega_schedule_Event_push_def q_push_def)
  next
    case False
    let ?s = "snd (pega_schedule_Event_push e d s)" and ?x = "\<lparr>enEVT = e, wTMCount = sint d, wTMTime = 0\<rparr>"
    have "m_SchBuff ?s = (q @ [?x]) @ rs" "m_SchCnt ?s = length (q @ [?x])"
      using False assms(3-5) q slot by (simp_all add: pega_schedule_Event_push_def time_count_set_def Let_def)
    moreover have "q_push e d q = (True, q @ [?x])" using False assms(3-5) by (simp add: q_push_def)
    moreover from this have "q_ok (q @ [?x])" using q_push_ok [OF q(4), of e d] by simp
    ultimately show ?thesis
      using False assms(3-5) q slot sched_okI [of ?s "q @ [?x]" rs]
      by (simp add: pega_schedule_Event_push_def Let_def)
  qed
qed

lemma push_refines:
  assumes "sched_ok s"
  shows "sched_ok (snd (pega_schedule_Event_push e d s))"
    and "fst (pega_schedule_Event_push e d s) = fst (q_push e d (sched_abs s))"
    and "sched_abs (snd (pega_schedule_Event_push e d s)) = snd (q_push e d (sched_abs s))"
proof -
  have "pega_schedule_Event_push e d s = (False, s) \<and> q_push e d (sched_abs s) = (False, sched_abs s)" if "203 \<le> e"
    using that by (simp add: pega_schedule_Event_push_def q_push_def)
  then show "sched_ok (snd (pega_schedule_Event_push e d s))"
    and "fst (pega_schedule_Event_push e d s) = fst (q_push e d (sched_abs s))"
    and "sched_abs (snd (pega_schedule_Event_push e d s)) = snd (q_push e d (sched_abs s))"
    using assms push_unnamed [OF assms refl, of d] push_live [OF assms refl, of e d]
      push_new [OF assms refl, of e d] by (cases "203 \<le> e"; cases "e = 0"; force)+
qed

interpretation sched_queue: delayed_queue pega_schedule_Event_push pega_schedule_Event_Get
    sched_abs sched_ok
  by unfold_locales (simp_all add: tick_refines push_refines, simp add: sched_ok_def)

end
