(* ===== verification/Misc_Frame.thy ===== *)
theory Misc_Frame
  imports Misc_Run Misc_Refine
begin

text \<open>
  What each component leaves alone. An operation of a component changes only the record fields
  up to its own: the rest of the record, \<open>more\<close>, is the same afterwards. From this follow the
  invariants of the daemon that single components own.
\<close>

subsection \<open>From one level to the next\<close>

lemma more_led: "gpio_st.more s = gpio_st.more t \<Longrightarrow> led_st.more s = led_st.more t"
  by (cases s; cases t) simp

lemma more_als: "led_st.more s = led_st.more t \<Longrightarrow> als_st.more s = als_st.more t"
  by (cases s; cases t) simp

lemma more_nv: "als_st.more s = als_st.more t \<Longrightarrow> nv_st.more s = nv_st.more t"
  by (cases s; cases t) simp

lemma more_amp: "nv_st.more s = nv_st.more t \<Longrightarrow> amp_st.more s = amp_st.more t"
  by (cases s; cases t) simp

lemma more_motor: "amp_st.more s = amp_st.more t \<Longrightarrow> motor_st.more s = motor_st.more t"
  by (cases s; cases t) simp

lemma more_ble: "motor_st.more s = motor_st.more t \<Longrightarrow> ble_st.more s = ble_st.more t"
  by (cases s; cases t) simp

lemma more_misc: "ble_st.more s = ble_st.more t \<Longrightarrow> misc_st.more s = misc_st.more t"
  by (cases s; cases t) simp

lemma flags_more:
  "ble_st.more s = ble_st.more t \<Longrightarrow> bIsWiFiFwError s = bIsWiFiFwError t"
  by (cases s; cases t) simp

lemma misc_more:
  assumes "misc_st.more s = misc_st.more t"
  shows "sch s = sch t" and "m_stDiagCmd s = m_stDiagCmd t" and "m_eDebugCmd s = m_eDebugCmd t"
  using assms by (cases s; cases t; simp)+

text \<open>Sequences and loops keep what their parts keep.\<close>

lemma seq_keeps: "(\<And>f s. f \<in> set fs \<Longrightarrow> v (f s) = v s) \<Longrightarrow> v (seq fs s) = v s"
  by (induction fs arbitrary: s) auto

lemma fold_keeps: "(\<And>x s. v (f x s) = v s) \<Longrightarrow> v (fold f xs s) = v s"
  by (induction xs arbitrary: s) auto

lemma seq_opt_keeps:
  "(\<And>f s t. f \<in> set fs \<Longrightarrow> f s = Some t \<Longrightarrow> v t = v s) \<Longrightarrow> seq_opt fs s = Some t \<Longrightarrow> v t = v s"
  by (induction fs arbitrary: s) (auto split: Option.bind_splits, metis)

lemma funpow_keeps: "(\<And>s. v (f s) = v s) \<Longrightarrow> v ((f ^^ n) s) = v s"
  by (induction n) auto

subsection \<open>Pins and channels\<close>

lemma emit_more [simp]: "gpio_st.more (emit e s) = gpio_st.more s"
  by (simp add: emit_def)

lemma sys_open_more: "sys_open p s = (ok, t) \<Longrightarrow> gpio_st.more t = gpio_st.more s"
  by (auto simp: sys_open_def Let_def)

lemma usleep_more [simp]: "gpio_st.more (usleep n s) = gpio_st.more s"
  by (simp add: usleep_def)

lemma output_set_more: "gpio_st.more (snd (Pega_Gpio_pin_output_set p h s)) = gpio_st.more s"
  by (auto simp: Pega_Gpio_pin_output_set_def dest: sys_open_more split: prod.splits)

lemma pin_out_more [simp]: "gpio_st.more (pin_out p h s) = gpio_st.more s"
  by (simp add: pin_out_def output_set_more)

lemma pin_state_init_more:
  "gpio_st.more (snd (Pega_Gpio_pin_state_init p i h s)) = gpio_st.more s"
  by (auto simp: Pega_Gpio_pin_state_init_def Let_def output_set_more dest!: sys_open_more split: prod.splits)

lemma gpio_init_more [simp]: "gpio_st.more (Pega_Gpio_init s) = gpio_st.more s"
  unfolding Pega_Gpio_init_def
  by (rule fold_keeps) (auto simp: gpio_init_pin_def pin_state_init_more split: prod.splits)

lemma gpio_read_more: "Pega_Gpio_Read p s = (r, t) \<Longrightarrow> gpio_st.more t = gpio_st.more s"
  by (auto simp: Pega_Gpio_Read_def dest!: sys_open_more split: prod.splits option.splits if_splits)

lemma pins_more [simp]:
  "gpio_st.more (IO_LED_R_CTRL on s) = gpio_st.more s" "gpio_st.more (IO_LED_G_CTRL on s) = gpio_st.more s"
  "gpio_st.more (IO_LED_B_CTRL on s) = gpio_st.more s" "gpio_st.more (IO_IR_CUT1_CTRL on s) = gpio_st.more s"
  "gpio_st.more (IO_IR_CUT2_CTRL on s) = gpio_st.more s" "gpio_st.more (IO_AMP_SHUTDOWN on s) = gpio_st.more s"
  by (simp_all add: IO_LED_R_CTRL_def IO_LED_G_CTRL_def IO_LED_B_CTRL_def IO_IR_CUT1_CTRL_def
      IO_IR_CUT2_CTRL_def IO_AMP_SHUTDOWN_def)

lemma amp_reset_more [simp]: "gpio_st.more (Pega_Gpio_HW_Amp_Reset s) = gpio_st.more s"
  by (simp add: Pega_Gpio_HW_Amp_Reset_def)

lemma ircut_more [simp]: "gpio_st.more (Pega_Gpio_IRCut_Control b s) = gpio_st.more s"
  by (simp add: Pega_Gpio_IRCut_Control_def Pega_Gpio_IRCut_status_set_def)

lemma pwm_config_more: "gpio_st.more (snd (Pega_pwm_config p f d s)) = gpio_st.more s"
  by (auto simp: Pega_pwm_config_def Let_def dest!: sys_open_more split: prod.splits)

lemma pwm_control_more: "gpio_st.more (snd (Pega_pwm_control p b s)) = gpio_st.more s"
  by (auto simp: Pega_pwm_control_def dest!: sys_open_more split: prod.splits)

lemma leds_more [simp]: "gpio_st.more (IO_IRLED_CTRL on s) = gpio_st.more s"
  "gpio_st.more (IO_SPOTLIGHT_CTRL on s) = gpio_st.more s"
  by (simp_all add: IO_IRLED_CTRL_def IO_SPOTLIGHT_CTRL_def pwm_control_more)

lemma pwm_config_pair: "Pega_pwm_config p f d s = (r, t) \<Longrightarrow> gpio_st.more t = gpio_st.more s"
  using pwm_config_more [of p f d s] by simp

lemma pwm_export_more: "Pega_pwm_export p s = Some (r, t) \<Longrightarrow> gpio_st.more t = gpio_st.more s"
  by (auto simp: Pega_pwm_export_def pwm_export_file_def dest!: sys_open_more split: prod.splits if_splits)

lemma pwm_start_more: "pwm_start p f d b s = Some t \<Longrightarrow> gpio_st.more t = gpio_st.more s"
  by (auto simp: pwm_start_def pwm_control_more dest!: pwm_export_more pwm_config_pair
      split: Option.bind_splits prod.splits if_splits)

lemma pwm_init_more: "Pega_pwm_init b s = Some t \<Longrightarrow> gpio_st.more t = gpio_st.more s"
  by (auto simp: Pega_pwm_init_def Let_def dest!: pwm_start_more split: Option.bind_splits)

subsection \<open>I2C, light sensor and amplifier\<close>

lemma i2c_write_more: "pega_i2c_Write fd a r v f s = Some (x, t) \<Longrightarrow> gpio_st.more t = gpio_st.more s"
  by (auto simp: pega_i2c_Write_def pega_i2cSetAddress_def bus_write_def split: if_splits Option.bind_splits)

lemma i2c_read_more: "pega_i2c_Read fd a r v f s = Some (x, y, t) \<Longrightarrow> gpio_st.more t = gpio_st.more s"
  by (auto simp: pega_i2c_Read_def pega_i2cSetAddress_def bus_write_def Let_def
      split: if_splits Option.bind_splits option.splits)

lemma opt_write_more:
  "OPT300X_I2C_WriteToSlave r v s = Some (x, t) \<Longrightarrow> gpio_st.more t = gpio_st.more s"
  by (auto simp: OPT300X_I2C_WriteToSlave_def dest: i2c_write_more)

lemma opt_read_more:
  "OPT300X_I2C_ReadFromSlave r v s = Some (x, y, t) \<Longrightarrow> gpio_st.more t = gpio_st.more s"
  by (auto simp: OPT300X_I2C_ReadFromSlave_def dest!: i2c_read_more split: Option.bind_splits if_splits)

lemma print_regs_more: "print_regs rs v s = Some (xs, t) \<Longrightarrow> gpio_st.more t = gpio_st.more s"
  by (induction rs arbitrary: v s xs t) (auto dest!: opt_read_more split: Option.bind_splits)

lemmas opt_more = opt_write_more [THEN more_led, THEN more_als] opt_read_more [THEN more_led, THEN more_als]

lemma read_lux_more: "OPT300x_Read_Lux_Handler s = Some (l, t) \<Longrightarrow> als_st.more t = als_st.more s"
  by (auto simp: OPT300x_Read_Lux_Handler_def OPT300x_Read_Lux_def OPT300x_Continue_Mode_Check_def
      OPT300x_set_mode_def Let_def dest!: opt_more split: Option.bind_splits if_splits)

lemma als_init_more: "OPT300x_Device_Init s = Some t \<Longrightarrow> als_st.more t = als_st.more s"
  by (auto simp: OPT300x_Device_Init_def OPT300x_Is_Init_Already_def OPT300x_set_mode_def Let_def
      dest!: opt_more split: Option.bind_splits if_splits)

lemma als_id_more: "OPT300x_Device_ID_Get s = Some (v, t) \<Longrightarrow> als_st.more t = als_st.more s"
  by (auto simp: OPT300x_Device_ID_Get_def dest!: opt_more split: Option.bind_splits if_splits)

lemma tas_put_more: "tas_put r v s = Some t \<Longrightarrow> gpio_st.more t = gpio_st.more s"
  by (auto simp: tas_put_def tas2563_i2c_write_def dest!: i2c_write_more)

lemma tas_read_more: "tas2563_i2c_read r s = Some (x, y, t) \<Longrightarrow> gpio_st.more t = gpio_st.more s"
  by (auto simp: tas2563_i2c_read_def dest!: i2c_read_more split: Option.bind_splits)

lemma update_only_more: "update_only r m v s = Some t \<Longrightarrow> gpio_st.more t = gpio_st.more s"
  by (auto simp: update_only_def tas2563_update_bits_def tas2563_i2c_write_def Let_def
      dest!: i2c_write_more tas_read_more split: Option.bind_splits if_splits)

lemma page0_more: "seq_opt page0 s = Some t \<Longrightarrow> gpio_st.more t = gpio_st.more s"
  by (auto simp: page0_def dest!: tas_put_more split: Option.bind_splits)

lemma volume_more: "Pega_AMP_Volume_Control v s = Some t \<Longrightarrow> gpio_st.more t = gpio_st.more s"
  unfolding Pega_AMP_Volume_Control_def
  by (erule seq_opt_keeps [rotated]) (auto simp: page0_def dest!: tas_put_more update_only_more)

lemma script_more: "seq_opt (map amp_step xs) s = Some t \<Longrightarrow> gpio_st.more t = gpio_st.more s"
  by (erule seq_opt_keeps [rotated])
    (auto simp: amp_step_def dest!: tas_put_more split: amp_cmd.splits)

lemma cfg_line_more: "cfg_line l r s = Some (x, t) \<Longrightarrow> gpio_st.more t = gpio_st.more s"
  by (auto simp: cfg_line_def Let_def dest!: tas_put_more split: list.splits if_splits)

lemma cfg_loop_more: "cfg_loop inp buf r s = Some t \<Longrightarrow> gpio_st.more t = gpio_st.more s"
proof (induction "length inp" arbitrary: inp buf r s rule: less_induct)
  case less
  obtain l rest eof where l: "take_line 59 inp = (l, rest, eof)" by (cases "take_line 59 inp") auto
  show ?case
    using less.prems less.hyps take_line_more [OF l] by (subst (asm) cfg_loop.simps)
      (auto simp: l Let_def split: if_splits Option.bind_splits dest!: cfg_line_more)
qed

lemma load_cfg_more: "tas2563_load_audio_config_file s = Some (r, t) \<Longrightarrow> gpio_st.more t = gpio_st.more s"
  by (auto simp: tas2563_load_audio_config_file_def dest!: cfg_loop_more split: option.splits)

lemma amp_init_more: "Pega_AMP_Initialize b v s = Some t \<Longrightarrow> amp_st.more t = amp_st.more s"
proof -
  let ?s = "usleep 300000 (Pega_Gpio_HW_Amp_Reset s)"
  note up = more_led [THEN more_als, THEN more_nv, THEN more_amp]
  have "amp_st.more ?s = amp_st.more s" by (rule up) simp
  then show "Pega_AMP_Initialize b v s = Some t \<Longrightarrow> amp_st.more t = amp_st.more s"
    by (auto simp: Pega_AMP_Initialize_def Let_def
        dest!: volume_more [THEN up] script_more [THEN up] load_cfg_more [THEN up]
        split: Option.bind_splits if_splits)
qed

lemma read_regs_more: "amp_read_regs rs s = Some (xs, t) \<Longrightarrow> gpio_st.more t = gpio_st.more s"
  by (induction rs arbitrary: s xs t) (auto dest!: tas_read_more split: Option.bind_splits)

lemma amp_print_more: "Pega_AMP_Reg_Data_Print s = Some (xs, t) \<Longrightarrow> gpio_st.more t = gpio_st.more s"
  by (auto simp: Pega_AMP_Reg_Data_Print_def dest!: page0_more read_regs_more split: Option.bind_splits if_splits)

subsection \<open>LED, day and night, motors\<close>

lemma led_thread_more [simp]: "led_st.more (Pega_led_flash_TaskHandler th s) = led_st.more s"
proof -
  have "led_st.more (flash_leds on s) = led_st.more s" for on and s :: "'a led_st_scheme"
    unfolding flash_leds_def by (intro more_led) (auto intro!: seq_keeps simp: Let_def)
  moreover have "led_st.more (usleep n s) = led_st.more s" for n and s :: "'a led_st_scheme"
    by (intro more_led) simp
  ultimately have "led_st.more (flash_on s) = led_st.more s" "led_st.more (flash_off s) = led_st.more s"
    "led_st.more (flash_prologue s) = led_st.more s" for s :: "'a led_st_scheme"
    by (simp_all add: flash_on_def flash_off_def flash_prologue_def)
  then show ?thesis
    by (auto simp: Pega_led_flash_TaskHandler_def Let_def split: option.splits led_phase.splits)
qed

lemma led_emit_more [simp]: "led_st.more (emit e s) = led_st.more s"
  by (intro more_led) simp

lemma led_start_more [simp]: "led_st.more (Pega_led_flash_handler_Start s) = led_st.more s"
  by (simp add: Pega_led_flash_handler_Start_def)

lemma led_pattern_more: "led_st.more (snd (Pega_led_flash_Pattern_Set p s)) = led_st.more s"
proof -
  have solid: "led_st.more (snd (solid fs s)) = led_st.more s"
    if "\<And>f s. f \<in> set fs \<Longrightarrow> gpio_st.more (f s) = gpio_st.more s" for fs and s :: "'a led_st_scheme"
    unfolding solid_def by (rule more_led) (use that in \<open>auto intro: seq_keeps\<close>)
  have "led_st.more (snd (led_pattern_switch p s)) = led_st.more s" for s :: "'a led_st_scheme"
    unfolding led_pattern_switch_def by (auto simp: flash_color_def intro!: solid)
  moreover have "led_st.more (pin_out a b s) = led_st.more s" for a b and s :: "'a led_st_scheme"
    by (intro more_led) simp
  ultimately show ?thesis
    by (simp add: Pega_led_flash_Pattern_Set_def Pega_led_flash_Chanel_def usleep_def
        IO_LED_R_CTRL_def IO_LED_G_CTRL_def IO_LED_B_CTRL_def)
qed

lemma led_state_more: "led_st.more (snd (Pega_led_flash_state_Set e s)) = led_st.more s"
  by (simp add: Pega_led_flash_state_Set_def Let_def led_pattern_more)

lemma nv_force_more: "nv_st.more (Pega_Force_Day_Night_Mode b s) = nv_st.more s"
  unfolding Pega_Force_Day_Night_Mode_def
  by (intro more_nv more_als more_led) (auto intro: seq_keeps)

lemma nv_processing_more: "Pega_NV_Mode_Processing s = Some (r, t) \<Longrightarrow> nv_st.more t = nv_st.more s"
  by (auto simp: Pega_NV_Mode_Processing_def Pega_NV_Mode_Manual_Set_def Pega_NV_Mode_Night_Mode_Set_def
      Pega_NV_Mode_Day_Mode_Set_def nv_day_step_def nv_night_step_def Pega_NV_Mode_Lux_Update_def
      Let_def nv_force_more dest!: read_lux_more [THEN more_nv] split: Option.bind_splits if_splits)

lemma nv_diag_more: "Pega_NV_Mode_Diag_Lux_Get s = Some (l, t) \<Longrightarrow> nv_st.more t = nv_st.more s"
  by (auto simp: Pega_NV_Mode_Diag_Lux_Get_def Pega_NV_Mode_Lux_Update_def Let_def
      dest!: read_lux_more [THEN more_nv] split: Option.bind_splits)

text \<open>Pins, sleeps and step counters of the motor.\<close>

lemma motor_gpio_more: "gpio_st.more s = gpio_st.more t \<Longrightarrow> motor_st.more s = motor_st.more t"
  by (rule more_led [THEN more_als, THEN more_nv, THEN more_amp, THEN more_motor])

lemma motor_pins_more [simp]:
  "motor_st.more (IO_AIN1 on s) = motor_st.more s" "motor_st.more (IO_AIN2 on s) = motor_st.more s"
  "motor_st.more (IO_BIN1 on s) = motor_st.more s" "motor_st.more (IO_BIN2 on s) = motor_st.more s"
  "motor_st.more (IO_PAN_MOTOR on s) = motor_st.more s"
  "motor_st.more (IO_RISING_MOTOR on s) = motor_st.more s" "motor_st.more (emit e s) = motor_st.more s"
  by (rule motor_gpio_more; simp add: IO_AIN1_def IO_AIN2_def IO_BIN1_def IO_BIN2_def
      IO_PAN_MOTOR_def IO_RISING_MOTOR_def)+

lemma step_more: "step_of d m = Some f \<Longrightarrow> motor_st.more (f s) = motor_st.more s"
  by (auto simp: step_of_def awd8833c_full_step_forward_m_def awd8833c_full_step_reverse_m_def
      awd8833c_half_step_forward_m_def awd8833c_half_step_reverse_m_def Let_def set_full_m_def
      set_half_m_def awd8833c_delay_us_m_def usleep_def split: if_splits)

lemma steps_more [simp]: "motor_st.more (awd8833c_step_function_action d m n s) = motor_st.more s"
  by (auto simp: awd8833c_step_function_action_def step_more intro: funpow_keeps split: option.splits)

lemma motor_ops_more [simp]:
  "motor_st.more (awd8833c_gpio_init_m s) = motor_st.more s"
  "motor_st.more (awd8833c_set_enable_m en r s) = motor_st.more s"
  "motor_st.more (awd8833c_set_speed_level v s) = motor_st.more s"
  by (auto simp: awd8833c_gpio_init_m_def awd8833c_set_enable_m_def awd8833c_set_speed_level_def)

lemma second_action_more:
  fixes s t :: "'a motor_st_scheme"
  assumes "awd8833c_second_function_action_m d m s = Some t"
  shows "motor_st.more t = motor_st.more s"
proof (cases "step_of d m :: ('a motor_st_scheme \<Rightarrow> 'a motor_st_scheme) option")
  case None
  then show ?thesis using assms by (simp add: awd8833c_second_function_action_m_def)
next
  case (Some f)
  have "motor_st.more (deliver_signal (f x)) = motor_st.more x" for x
    using step_more [OF Some] by (simp add: deliver_signal_def awd8833c_timer_handler_def)
  then show ?thesis
    using assms Some while_option_rule [of "\<lambda>x. motor_st.more x = motor_st.more s"
        "\<lambda>s. m_isTimeout s = 0" "\<lambda>s. deliver_signal (f s)" s t]
    by (simp add: awd8833c_second_function_action_m_def)
qed

lemma timer_start_more: "awd8833c_timer_start n s = Some (r, t) \<Longrightarrow> motor_st.more t = motor_st.more s"
  by (auto simp: awd8833c_timer_start_def awd8833c_timer_init_def timer_call_def
      split: if_splits Option.bind_splits prod.splits)

lemma rotate_speed_more: "awd8833c_set_rotate_speed_m a b s = Some t \<Longrightarrow> motor_st.more t = motor_st.more s"
  by (auto simp: awd8833c_set_rotate_speed_m_def Let_def split: if_splits)

lemma launch_more:
  "awd8833c_motor_launch_by_time r d m v n s = Some t \<Longrightarrow> motor_st.more t = motor_st.more s"
  by (auto simp: awd8833c_motor_launch_by_time_def dest!: timer_start_more second_action_more
      split: Option.bind_splits if_splits)

lemma rotate_more [simp]:
  "motor_st.more (awd8833c_pan_rotate_degrees d g s) = motor_st.more s"
  "motor_st.more (awd8833c_rising_rotate_degrees d g s) = motor_st.more s"
  by (simp_all add: awd8833c_pan_rotate_degrees_def awd8833c_rising_rotate_degrees_def rotate_run_def)

lemma motor_test_more: "awd8833c_test_m r s = Some t \<Longrightarrow> motor_st.more t = motor_st.more s"
  by (auto simp: awd8833c_test_m_def dest!: rotate_speed_more split: Option.bind_splits)

lemma gpio_print_more: "gpio_st.more (awd8833c_GPIO_Value_Print s) = gpio_st.more s"
  unfolding awd8833c_GPIO_Value_Print_def
  by (rule fold_keeps) (auto dest!: sys_open_more split: prod.splits)

lemma motor_debug_more: "awd8833c_debug c v w s = Some t \<Longrightarrow> motor_st.more t = motor_st.more s"
  using gpio_print_more [of s, THEN motor_gpio_more]
  by (auto simp: awd8833c_debug_def Let_def dest!: launch_more motor_test_more rotate_speed_more
      timer_start_more split: if_splits)

subsection \<open>Main program\<close>

lemma ble_gpio_more: "gpio_st.more s = gpio_st.more t \<Longrightarrow> ble_st.more s = ble_st.more t"
  by (rule motor_gpio_more [THEN more_ble])

lemma ble_led_more: "led_st.more s = led_st.more t \<Longrightarrow> ble_st.more s = ble_st.more t"
  by (rule more_als [THEN more_nv, THEN more_amp, THEN more_motor, THEN more_ble])

lemma ble_emit_more [simp]: "ble_st.more (emit e s) = ble_st.more s" "ble_st.more (usleep n s) = ble_st.more s"
  by (rule ble_gpio_more; simp)+

lemma receive_more: "ble_st.more (snd (Pega_Ble_uart_ReceiveBuffer n s)) = ble_st.more s"
  by (simp add: Pega_Ble_uart_ReceiveBuffer_def split: option.split)

lemma bringup_more: "ble_st.more (snd (bringup_wait n s)) = ble_st.more s"
proof (induction n arbitrary: s)
  case (Suc n)
  show ?case
    by (simp only: bringup_wait.simps Let_def split: if_split)
      (simp add: Suc.IH receive_more Pega_Ble_uart_signal_handler_IO_def)
qed simp

lemma uart_more: "ble_st.more (snd (Pega_Ble_uart_device_open s)) = ble_st.more s"
  "ble_st.more (Pega_Ble_uart_init b r s) = ble_st.more s"
  "ble_st.more (Pega_Ble_uart_device_close s) = ble_st.more s"
  by (simp_all add: Pega_Ble_uart_device_open_def Let_def Pega_Ble_uart_init_def
      Pega_Ble_uart_device_close_def)

lemma ready_more: "ble_st.more (snd (Pega_Ble_uart_BringUp_Ready n s)) = ble_st.more s"
proof -
  obtain l t where "bringup_wait (nat (n sdiv 10 - 1)) s = (l, t)" by fastforce
  then show ?thesis
    using bringup_more [of "nat (n sdiv 10 - 1)" s] by (simp add: Pega_Ble_uart_BringUp_Ready_def)
qed

lemma load_fw_more: "ble_st.more (snd (Pega_wifi_load_firmware s)) = ble_st.more s"
proof -
  obtain ok t where t: "Pega_Ble_uart_device_open s = (ok, t)" by fastforce
  obtain r u where "Pega_Ble_uart_BringUp_Ready 3000 (Pega_Ble_uart_init 115200 0 t) = (r, u)" by fastforce
  then show ?thesis
    using t uart_more(1) [of s] uart_more(2) [of 115200 0 t] uart_more(3) [of u]
      ready_more [of 3000 "Pega_Ble_uart_init 115200 0 t"]
    by (simp add: Pega_wifi_load_firmware_def)
qed

lemma led_state_pair:
  "snd (Pega_led_flash_state_Set e s) = t \<Longrightarrow> ble_st.more t = ble_st.more s"
  using led_state_more [of e s] by (auto intro: ble_led_more)

lemma dir_has_more: "dir_has p i s = (r, t) \<Longrightarrow> gpio_st.more t = gpio_st.more s"
  by (auto simp: dir_has_def)

lemma which_if_more:
  "(\<And>i s r t. check i s = (r, t) \<Longrightarrow> gpio_st.more t = gpio_st.more s) \<Longrightarrow>
   which_if check s = (i, t) \<Longrightarrow> gpio_st.more t = gpio_st.more s"
  by (auto simp: which_if_def split: prod.splits if_splits)

end
