(* ===== verification/Misc_Reach.thy ===== *)
theory Misc_Reach
  imports Misc_Frame
begin

text \<open>
  The invariant of the daemon: what every step of every thread keeps, by rule induction over the
  reachable states.
\<close>

subsection \<open>Steps that leave the mailboxes and the queue alone\<close>

definition calm :: "'a misc_st_scheme \<Rightarrow> 'a misc_st_scheme \<Rightarrow> bool" where
  "calm s t \<longleftrightarrow> (bIsWiFiFwError t \<longrightarrow> bIsWiFiFwError s) \<and> misc_st.more t = misc_st.more s"

lemma calm_refl [simp]: "calm s s"
  by (simp add: calm_def)

lemma calm_trans: "calm s t \<Longrightarrow> calm t u \<Longrightarrow> calm s u"
  by (simp add: calm_def)

lemma calm_ble: "ble_st.more t = ble_st.more s \<Longrightarrow> calm s t"
  using more_misc [of t s] flags_more [of t s] by (simp add: calm_def)

lemmas calm_motor = calm_ble [OF more_ble]
lemmas calm_amp = calm_motor [OF more_motor]
lemmas calm_nv = calm_amp [OF more_amp]
lemmas calm_als = calm_nv [OF more_nv]
lemmas calm_led = calm_als [OF more_als]
lemmas calm_gpio = calm_led [OF more_led]

lemma calm_flags [simp]:
  "calm s (s\<lparr>bIsBurnInOn := b\<rparr>)" "calm s (s\<lparr>bIsALSDisable := b\<rparr>)" "calm s (s\<lparr>bIsWiFiDisable := b\<rparr>)"
  "calm s (s\<lparr>bIsWiFiFwReady := b\<rparr>)" "calm s (s\<lparr>bIsWiFiFwError := False\<rparr>)"
  "calm s (s\<lparr>eWIFI1_if := i, eWIFI2_if := j\<rparr>)"
  by (simp_all add: calm_def)

lemma calm_led_state: "calm s (snd (Pega_led_flash_state_Set e s))"
  by (rule calm_led) (rule led_state_more)

lemma calm_which:
  assumes "\<And>i (s :: 'a misc_st_scheme) r t. check i s = (r, t) \<Longrightarrow> gpio_st.more t = gpio_st.more s"
    and "which_if check (s :: 'a misc_st_scheme) = (i, t)"
  shows "calm s t"
  by (rule calm_gpio, rule which_if_more [OF _ assms(2)]) (rule assms(1))

lemma calm_update_wifi: "calm s (Pega_Misc_Update_WiFi_interface s)"
proof -
  obtain i t where 1: "which_if pega_netip_interface_check_sd0 s = (i, t)" by fastforce
  obtain j u where 2: "which_if pega_netip_interface_check_sd1 t = (j, u)" by fastforce
  have "calm s t"
    using 1 by (rule calm_which [rotated]) (auto simp: pega_netip_interface_check_sd0_def dest: dir_has_more)
  moreover have "calm t u"
    using 2 by (rule calm_which [rotated]) (auto simp: pega_netip_interface_check_sd1_def dest: dir_has_more)
  ultimately have "calm s (u\<lparr>eWIFI1_if := i, eWIFI2_if := j\<rparr>)"
    by (intro calm_trans [OF _ calm_flags(6)]) (rule calm_trans)
  then show ?thesis by (simp add: Pega_Misc_Update_WiFi_interface_def 1 2)
qed

lemma calm_exists: "pega_netip_is_interface_exist i s = (r, t) \<Longrightarrow> calm s t"
  by (rule calm_gpio) (auto simp: pega_netip_is_interface_exist_def dest: dir_has_more)

text \<open>The same facts as steps of a chain.\<close>

lemmas calm_chain = calm_refl calm_trans [OF _ calm_led_state] calm_trans [OF _ calm_update_wifi]
  calm_flags [THEN calm_trans [rotated]] calm_trans [OF _ calm_gpio [OF usleep_more]]
  calm_trans [OF _ calm_gpio [OF emit_more]] calm_trans [OF _ calm_exists]

lemma calm_ready: "calm s (pega_misc_wifi_ready_check s)"
  unfolding pega_misc_wifi_ready_check_def
  by (auto split: prod.split intro!: calm_chain(1-8) dest!: calm_exists intro: calm_trans)

lemma calm_interface: "calm s (pega_misc_wifi_interface_check s)"
  unfolding pega_misc_wifi_interface_check_def
  by (auto split: prod.split intro!: calm_chain(1-8) dest!: calm_exists intro: calm_trans)

lemma calm_main_round: "main_round s = Some t \<Longrightarrow> calm s t"
proof -
  assume "main_round s = Some t"
  then obtain u where u: "pega_misc_ALS_handler s = Some u"
    and t: "t = usleep 1000000 (pega_misc_wifi_interface_check (pega_misc_wifi_ready_check u))"
    by (auto simp: main_round_def split: Option.bind_splits)
  have "calm s u"
    using u by (auto simp: pega_misc_ALS_handler_def split: if_splits dest!: nv_processing_more [THEN calm_nv])
  then show "calm s t"
    unfolding t by (blast intro: calm_trans calm_gpio [OF usleep_more] calm_ready calm_interface)
qed

lemma calm_load_fw: "calm s (Pega_wifi_load_firmware_enable s)"
proof -
  obtain r t where 1: "Pega_wifi_load_firmware s = (r, t)" by fastforce
  have "calm s t" using load_fw_more [of s, THEN calm_ble] 1 by simp
  then show ?thesis
    by (auto simp: Pega_wifi_load_firmware_enable_def pega_misc_wifi_fw_error_def 1
        intro!: calm_chain(2) calm_trans [OF _ calm_flags(5)] calm_trans [OF _ calm_gpio [OF emit_more]])
qed

subsection \<open>Commands\<close>

lemma calm_misc:
  fixes s t :: misc
  assumes "calm s t"
  shows "sch t = sch s" and "m_stDiagCmd t = m_stDiagCmd s" and "m_eDebugCmd t = m_eDebugCmd s"
  using assms misc_more [of t s] by (simp_all add: calm_def)

lemma calm_pins:
  "calm s (PT_DIAG_SET r s)" "calm s (PT_DIAG_GET d s)" "calm s (Pega_Gpio_IRCut_Control b s)"
  "calm s (IO_IRLED_CTRL on s)" "calm s (IO_SPOTLIGHT_CTRL on s)" "calm s (led_diag i on s)"
  "calm s (snd (Pega_pwm_config p f dc s))" "calm s (Pega_Gpio_HW_Amp_Reset s)" "calm s (emit e s)"
  by (rule calm_gpio; simp add: PT_DIAG_SET_def PT_DIAG_GET_def led_diag_def pwm_config_more)+

lemmas calm_pins_step = calm_pins [THEN calm_trans [rotated]]

lemma calm_als_diag: "als_diag c s = Some t \<Longrightarrow> calm s t"
  by (auto simp: als_diag_def Pega_Misc_ALS_Disable_Control_def split: if_splits
      dest!: als_id_more [THEN calm_als] nv_diag_more [THEN calm_nv] intro!: calm_pins_step calm_flags)

lemma calm_audio_diag: "audio_diag c v s = Some t \<Longrightarrow> calm s t"
  by (auto simp: audio_diag_def split: if_splits
      dest!: amp_init_more [THEN calm_amp] volume_more [THEN calm_gpio] intro!: calm_pins_step)

lemma calm_button_diag: "calm s (button_diag c s)"
  by (auto simp: button_diag_def split: prod.splits
      dest!: gpio_read_more [THEN calm_gpio] intro!: calm_pins_step)

lemma calm_wifi_print: "calm s (Pega_Misc_Diag_wifi_interface_Print s)"
  by (simp add: Pega_Misc_Diag_wifi_interface_Print_def Let_def)
    (intro calm_pins_step calm_update_wifi)

lemma calm_diag_switch: "diag_switch s = Some t \<Longrightarrow> calm s t"
  unfolding diag_switch_def Let_def
  by (auto split: if_splits dest!: calm_als_diag calm_audio_diag
      intro!: calm_pins_step calm_button_diag calm_wifi_print)

lemma reg_info_more: "OPT300x_Register_Info_Print j s = Some (xs, t) \<Longrightarrow> gpio_st.more t = gpio_st.more s"
  unfolding OPT300x_Register_Info_Print_def by (rule print_regs_more)

lemma calm_debug:
  assumes "Pega_debug_schedule_command s = Some t"
  shows "bIsWiFiFwError t \<longrightarrow> bIsWiFiFwError s" and "sch t = sch s"
    and "diag_msg.truncate (m_stDiagCmd t) = diag_msg.truncate (m_stDiagCmd s) \<and>
      wCmdCnt (m_stDiagCmd t) = wCmdCnt (m_stDiagCmd s)"
proof -
  let ?same = "\<lambda>t. diag_msg.truncate (m_stDiagCmd t) = diag_msg.truncate (m_stDiagCmd s) \<and>
    wCmdCnt (m_stDiagCmd t) = wCmdCnt (m_stDiagCmd s)"
  have info: "calm s u" if "Pega_debug_print_info_processer v s = Some u" for v u
    using that by (auto simp: Pega_debug_print_info_processer_def
        split: if_splits dest!: reg_info_more [THEN calm_gpio] amp_print_more [THEN calm_gpio])
  have command: "(bIsWiFiFwError (Pega_debug_command_set_processer c v s) \<longrightarrow> bIsWiFiFwError s) \<and>
      sch (Pega_debug_command_set_processer c v s) = sch s \<and>
      ?same (Pega_debug_command_set_processer c v s)" for c v
  proof (cases "c = 1")
    case True
    then show ?thesis
      by (simp add: Pega_debug_command_set_processer_def Pega_diag_msgq_debug_trigger_def upd_diag_def
          diag_msg.defs)
  next
    case False
    then have "calm s (Pega_debug_command_set_processer c v s)"
      by (auto simp: Pega_debug_command_set_processer_def Pega_Misc_Burn_Enable_Control_def
          Pega_Misc_ALS_Disable_Control_def Pega_Misc_WiFi_Disable_Control_def
          intro: calm_update_wifi calm_pins)
    from this calm_misc(1,2) [OF this] show ?thesis by (simp add: calm_def)
  qed
  have motor: "calm s u" if "awd8833c_debug c v w s = Some u" for c v w u
    using that by (rule motor_debug_more [THEN calm_motor])
  consider (calm) "calm s t"
    | (command) c v where "t = Pega_debug_command_set_processer c v s"
    using assms unfolding Pega_debug_schedule_command_def Let_def
    by (metis info motor calm_refl option.inject)
  then have "(bIsWiFiFwError t \<longrightarrow> bIsWiFiFwError s) \<and> sch t = sch s \<and> ?same t"
  proof cases
    case calm
    then show ?thesis using calm_misc(1,2) [OF calm] by (simp add: calm_def)
  qed (use command in simp)
  then show "bIsWiFiFwError t \<longrightarrow> bIsWiFiFwError s" "sch t = sch s" "?same t"
    by simp_all
qed

subsection \<open>Scheduled events\<close>

text \<open>A tick takes the event that the queue delivers; no handler touches the queue.\<close>

lemma event_processing:
  assumes "pega_schedule_Event_Processing s = Some t"
  shows "sch t = snd (pega_schedule_Event_Get (sch s))" and "bIsWiFiFwError t \<longrightarrow> bIsWiFiFwError s"
proof -
  obtain e q where g: "pega_schedule_Event_Get (sch s) = (e, q)" by fastforce
  let ?s = "s\<lparr>sch := q\<rparr>"
  have diag: "sch u = q \<and> (bIsWiFiFwError u \<longrightarrow> bIsWiFiFwError s)"
    if "Pega_diag_msgq_Cmd_Execution ?s = Some u" for u
  proof -
    from that obtain v where "diag_switch ?s = Some v"
      and "u = upd_diag (\<lambda>c. if wCmdCnt c > 0 then c\<lparr>wCmdCnt := wCmdCnt c - 1\<rparr> else c) v"
      by (auto simp: Pega_diag_msgq_Cmd_Execution_def split: Option.bind_splits)
    then show ?thesis
      using calm_misc(1) [of ?s v] calm_diag_switch [of ?s v] by (auto simp: upd_diag_def calm_def)
  qed
  have load: "sch (Pega_wifi_load_firmware_enable ?s) = q \<and>
      (bIsWiFiFwError (Pega_wifi_load_firmware_enable ?s) \<longrightarrow> bIsWiFiFwError s)"
    using calm_load_fw [of ?s] calm_misc(1) [OF calm_load_fw, of ?s] by (simp add: calm_def)
  have debug: "sch u = q \<and> (bIsWiFiFwError u \<longrightarrow> bIsWiFiFwError s)"
    if "Pega_debug_schedule_command ?s = Some u" for u
    using calm_debug [OF that] by simp
  consider "t = Pega_wifi_load_firmware_enable ?s" | "Pega_diag_msgq_Cmd_Execution ?s = Some t"
    | "Pega_debug_schedule_command ?s = Some t" | "t = ?s"
    using assms unfolding pega_schedule_Event_Processing_def g prod.case Let_def
    by (metis option.inject)
  then have "sch t = q \<and> (bIsWiFiFwError t \<longrightarrow> bIsWiFiFwError s)"
    by cases (use load diag debug in simp_all)
  then show "sch t = snd (pega_schedule_Event_Get (sch s))" "bIsWiFiFwError t \<longrightarrow> bIsWiFiFwError s"
    by (simp_all add: g)
qed

subsection \<open>Start-up and reachable states\<close>

lemma Buff_Reset_ok: "length (m_SchBuff q) = 12 \<Longrightarrow> sched_ok (pega_schedule_Buff_Reset q)"
  by (auto simp: sched_ok_def sched_abs_def pega_schedule_Buff_Reset_def q_ok_def)

lemma calm_options: "calm s (snd (pega_misc_cmd_paring cs s))"
  by (induction cs s rule: pega_misc_cmd_paring.induct) (auto simp: calm_def)

lemma fault_start_more: "gpio_st.more (Pega_Motor_interrupt_handler_Start s) = gpio_st.more s"
proof -
  have set: "gpio_st.more (snd (Pega_Motor_interrupt_trigger_set pin e s)) = gpio_st.more s"
    for pin e and s :: "'a gpio_st_scheme"
    by (auto simp: Pega_Motor_interrupt_trigger_set_def dest!: sys_open_more split: prod.splits)
  have "gpio_st.more (fault_thread_start pin s) = gpio_st.more s" for pin and s :: "'a gpio_st_scheme"
    by (auto simp: fault_thread_start_def set dest!: sys_open_more split: prod.splits)
  then show ?thesis by (simp add: Pega_Motor_interrupt_handler_Start_def)
qed

lemma calm_hardware: "Pega_Misc_hareware_init s = Some t \<Longrightarrow> calm s t"
  by (auto simp: Pega_Misc_hareware_init_def split: Option.bind_splits
      dest!: pwm_init_more [THEN calm_gpio] als_init_more [THEN calm_als] amp_init_more [THEN calm_amp]
      intro: calm_trans [OF calm_trans] calm_trans [OF calm_trans [OF calm_gpio [OF gpio_init_more]]])

definition daemon_ok :: "misc \<Rightarrow> bool" where
  "daemon_ok s \<longleftrightarrow> \<not> bIsWiFiFwError s \<and> sched_ok (sch s)"

lemma calm_daemon_ok: "daemon_ok s \<Longrightarrow> calm s t \<Longrightarrow> daemon_ok t"
  using calm_misc(1) [of s t] by (auto simp: daemon_ok_def calm_def)

lemma push_event_ok: "daemon_ok s \<Longrightarrow> daemon_ok (push_event e d s)"
  by (simp add: daemon_ok_def push_event_def push_refines)

lemma tasks_start_ok:
  assumes "\<not> bIsWiFiFwError s" and "length (m_SchBuff (sch s)) = 12"
  shows "daemon_ok (Pega_Misc_system_tasks_start s)"
proof -
  have start: "daemon_ok (Pega_Motor_interrupt_handler_Start t)" if "daemon_ok t" for t
    using that by (rule calm_daemon_ok) (rule calm_gpio [OF fault_start_more])
  have "daemon_ok (s\<lparr>sch := pega_schedule_Buff_Reset (sch s)\<rparr>)"
    using assms Buff_Reset_ok by (simp add: daemon_ok_def)
  then have "daemon_ok (Pega_led_flash_handler_Start (s\<lparr>sch := pega_schedule_Buff_Reset (sch s)\<rparr>))"
    by (rule calm_daemon_ok) (rule calm_led [OF led_start_more])
  then have "daemon_ok (upd_diag (\<lambda>_. zero_diag)
      (Pega_led_flash_handler_Start (s\<lparr>sch := pega_schedule_Buff_Reset (sch s)\<rparr>)))"
    by (simp add: daemon_ok_def upd_diag_def)
  then show ?thesis by (simp add: Pega_Misc_system_tasks_start_def start)
qed

lemma startup_ok:
  assumes "misc_startup s = Some t" and "\<not> bIsWiFiFwError s" and "length (m_SchBuff (sch s)) = 12"
  shows "daemon_ok t"
proof -
  let ?v = "Pega_Misc_system_variables_init (Pega_AMP_Device_I2C_open (OPT300x_Device_I2C_open s))"
  obtain u where u: "Pega_Misc_hareware_init ?v = Some u"
    and t: "t = (let s = snd (Pega_led_flash_state_Set LED_State_System_Start_Up
               (Pega_Misc_system_tasks_start u))
             in if \<not> bIsWiFiDisable s then push_event schEVT_Load_wifi_fw SCH_1Sec s else s)"
    using assms(1) by (auto simp: misc_startup_def Let_def split: Option.bind_splits)
  have v: "sch ?v = sch s" "bIsWiFiFwError ?v = bIsWiFiFwError s"
    by (simp_all add: Pega_Misc_system_variables_init_def Pega_AMP_Device_I2C_open_def
        OPT300x_Device_I2C_open_def)
  have "\<not> bIsWiFiFwError u" "length (m_SchBuff (sch u)) = 12"
    using calm_hardware [OF u] calm_misc(1) [OF calm_hardware [OF u]] v assms(2,3) by (auto simp: calm_def)
  then have "daemon_ok (snd (Pega_led_flash_state_Set LED_State_System_Start_Up
      (Pega_Misc_system_tasks_start u)))"
    by (intro calm_daemon_ok [OF tasks_start_ok calm_led_state])
  then show ?thesis by (auto simp: t Let_def intro: push_event_ok)
qed

lemma static_ok: "\<not> bIsWiFiFwError (misc_static env)" "length (m_SchBuff (sch (misc_static env))) = 12"
  by (simp_all add: misc_static_def nv_initial_def sched_zero_def)

lemma main_ok: "misc_main opts (misc_static env) = Some (Inr s) \<Longrightarrow> daemon_ok s"
proof -
  assume main: "misc_main opts (misc_static env) = Some (Inr s)"
  obtain r u where u: "pega_misc_cmd_paring opts (misc_static env) = (r, u)" by fastforce
  then have "calm (misc_static env) u" using calm_options [of "misc_static env" opts] by simp
  then have "\<not> bIsWiFiFwError u" "length (m_SchBuff (sch u)) = 12"
    using static_ok [of env] calm_misc(1) [of "misc_static env" u] by (auto simp: calm_def)
  then show ?thesis
    using main startup_ok by (auto simp: misc_main_def u split: if_splits)
qed

lemma step_ok: "misc_step s t \<Longrightarrow> daemon_ok s \<Longrightarrow> daemon_ok t"
proof (induction rule: misc_step.induct)
  case (step_main s t)
  then show ?case using calm_main_round calm_daemon_ok by blast
next
  case (step_tick s t)
  then show ?case using event_processing [of s t] tick_refines(1) [of "sch s"] by (auto simp: daemon_ok_def)
next
  case (step_diag s d)
  then have "daemon_ok (emit e s)" for e using calm_daemon_ok calm_pins(9) by blast
  with step_diag have "daemon_ok (upd_diag f (emit e s))" "daemon_ok (upd_diag f s)" for f e
    by (simp_all add: daemon_ok_def upd_diag_def)
  then show ?case
    by (auto simp: Pega_diag_commands_processer_def Let_def intro: push_event_ok)
next
  case (step_debug s cmd v1 v2 v3)
  then have "daemon_ok (s\<lparr>m_eDebugCmd := d\<rparr>)" "daemon_ok (s\<lparr>m_bDebugMsgEn := b\<rparr>)" for d b
    by (simp_all add: daemon_ok_def)
  with step_debug show ?case
    by (auto simp: Pega_debug_commands_processer_def Let_def intro: push_event_ok)
next
  case (step_led s th)
  then show ?case using calm_daemon_ok calm_led [OF led_thread_more] by blast
qed

lemma reachable_ok: "misc_reachable s \<Longrightarrow> daemon_ok s"
  by (induction rule: misc_reachable.induct) (auto intro: main_ok step_ok)

end
