(* ===== verification/Misc_Start.thy ===== *)
theory Misc_Start
  imports Misc_Reach
begin

text \<open>
  The start-up of the daemon: it reaches its loop on a board whose I2C buses are missing, and
  what holds when the loop begins. The reachable states are therefore not empty.
\<close>

subsection \<open>Start-up returns\<close>

lemma sys_open_true: "sys_open p s = (True, emit (Open p True) s)" if "\<And>h p. open_ok (menv s) h p"
  using that by (simp add: sys_open_def)

lemma menv_emit [simp]: "menv (emit e s) = menv s"
  by (simp add: emit_def)

lemma pwm_start_returns:
  assumes "\<And>h p. open_ok (menv s) h p" and "p = PWM_CH6 \<or> p = PWM_CH7"
  shows "\<exists>t. pwm_start p f d b s = Some t \<and> menv t = menv s"
  using assms
  by (auto simp: pwm_start_def Pega_pwm_export_def pwm_export_file_def Pega_pwm_config_def
      Pega_pwm_control_def sys_open_def Let_def)

lemma pwm_init_returns:
  assumes "\<And>h p. open_ok (menv s) h p"
  shows "\<exists>t. Pega_pwm_init b s = Some t \<and> menv t = menv s"
proof -
  obtain t where "pwm_start PWM_CH6 20000 50 (if b > 1 then 1 else uint b) s = Some t" "menv t = menv s"
    using pwm_start_returns [OF assms, where p = PWM_CH6] by blast
  moreover from this obtain u where
    "pwm_start PWM_CH7 30000 50 (if b > 1 then 1 else uint b) t = Some u" "menv u = menv t"
    using pwm_start_returns [of t PWM_CH7] assms by metis
  ultimately show ?thesis by (simp add: Pega_pwm_init_def Let_def)
qed

text \<open>A bus that did not open: every transfer fails at once.\<close>

lemma no_als_bus:
  assumes "m_Als_i2cFile s \<le> 0"
  shows "OPT300X_I2C_ReadFromSlave r v s = Some (-1, v, s)" "OPT300X_I2C_WriteToSlave r w s = Some (-1, s)"
  using assms by (simp_all add: OPT300X_I2C_ReadFromSlave_def OPT300X_I2C_WriteToSlave_def
      pega_i2c_Read_def pega_i2c_Write_def)

lemma als_init_no_bus:
  fixes s :: "'a amp_st_scheme"
  assumes "m_Als_i2cFile s \<le> 0"
  shows "\<exists>t. OPT300x_Device_Init s = Some t \<and> menv t = menv s \<and> m_Amp_i2cFile t = m_Amp_i2cFile s"
  using assms by (simp add: OPT300x_Device_Init_def OPT300x_set_mode_def OPT300x_Is_Init_Already_def
      Let_def no_als_bus)

lemma no_amp_bus:
  assumes "m_Amp_i2cFile s \<le> 0"
  shows "tas_put r v s = Some s" "update_only r m v s = Some s"
  using assms by (simp_all add: tas_put_def update_only_def tas2563_update_bits_def tas2563_i2c_read_def
      tas2563_i2c_write_def pega_i2c_Read_def pega_i2c_Write_def)

lemma script_no_bus: "m_Amp_i2cFile s \<le> 0 \<Longrightarrow> \<exists>t. seq_opt (map amp_step xs) s = Some t \<and> m_Amp_i2cFile t \<le> 0"
proof (induction xs arbitrary: s)
  case (Cons x xs)
  obtain t where "amp_step x s = Some t" "m_Amp_i2cFile t \<le> 0"
    using Cons.prems by (cases x) (auto simp: amp_step_def no_amp_bus usleep_def emit_def)
  then show ?case using Cons.IH by simp
qed simp

lemma volume_no_bus: "m_Amp_i2cFile s \<le> 0 \<Longrightarrow> Pega_AMP_Volume_Control v s = Some s"
  by (simp add: Pega_AMP_Volume_Control_def page0_def no_amp_bus)

lemma amp_init_no_bus:
  assumes "m_Amp_i2cFile s \<le> 0" and "\<And>h f. text_file (menv s) h f = None"
  shows "\<exists>t. Pega_AMP_Initialize b v s = Some t"
proof -
  let ?s = "usleep 300000 (Pega_Gpio_HW_Amp_Reset s)"
  have s: "m_Amp_i2cFile ?s = m_Amp_i2cFile s" "menv ?s = menv s"
    by (simp_all add: usleep_def Pega_Gpio_HW_Amp_Reset_def IO_AMP_SHUTDOWN_def pin_out_def
        Pega_Gpio_pin_output_set_def sys_open_def emit_def Let_def)
  obtain t where "seq_opt (map amp_step amp_script) ?s = Some t" "m_Amp_i2cFile t \<le> 0"
    using script_no_bus [of ?s amp_script] assms(1) s by auto
  then show ?thesis
    using assms(2) s by (simp add: Pega_AMP_Initialize_def Let_def tas2563_load_audio_config_file_def volume_no_bus)
qed

lemma gpio_init_menv: "menv (Pega_Gpio_init s) = menv s"
proof -
  have "menv (gpio_init_pin x s) = menv s" for x and s :: "'a gpio_st_scheme"
    by (auto simp: gpio_init_pin_def Pega_Gpio_pin_state_init_def Pega_Gpio_pin_output_set_def
        sys_open_def Let_def split: prod.split)
  then show ?thesis unfolding Pega_Gpio_init_def by (rule fold_keeps)
qed

lemma fd_more:
  fixes s t :: "'a amp_st_scheme"
  assumes "gpio_st.more t = gpio_st.more s"
  shows "m_Als_i2cFile t = m_Als_i2cFile s" and "m_Amp_i2cFile t = m_Amp_i2cFile s"
  using assms by (cases s; cases t; simp)+

text \<open>
  What a started daemon looks like: only the event that loads the Wi-Fi firmware can be pending
  and no command is stored.
\<close>

lemma startup_state:
  assumes "misc_main opts s0 = Some (Inr s)" and "length (m_SchBuff (sch s0)) = 12"
  shows "m_SchCnt (sch s) \<le> 1" and "wCmdCnt (m_stDiagCmd s) = 0"
proof -
  obtain r u0 where u0: "pega_misc_cmd_paring opts s0 = (r, u0)" by fastforce
  have su0: "misc_startup u0 = Some s" using assms(1) by (auto simp: misc_main_def u0 split: if_splits)
  let ?v = "Pega_Misc_system_variables_init (Pega_AMP_Device_I2C_open (OPT300x_Device_I2C_open u0))"
  obtain u where u: "Pega_Misc_hareware_init ?v = Some u"
    and t: "s = (let s = snd (Pega_led_flash_state_Set LED_State_System_Start_Up
               (Pega_Misc_system_tasks_start u))
             in if \<not> bIsWiFiDisable s then push_event schEVT_Load_wifi_fw SCH_1Sec s else s)"
    using su0 by (auto simp: misc_startup_def Let_def split: Option.bind_splits)
  have "sch ?v = sch u0"
    by (simp add: Pega_Misc_system_variables_init_def Pega_AMP_Device_I2C_open_def
        OPT300x_Device_I2C_open_def)
  then have "sch u = sch s0"
    using calm_misc(1) [OF calm_hardware [OF u]] calm_misc(1) [OF calm_options [of s0 opts]] by (simp add: u0)
  define w where "w = Pega_led_flash_handler_Start (u\<lparr>sch := pega_schedule_Buff_Reset (sch u)\<rparr>)"
  have w: "sch w = pega_schedule_Buff_Reset (sch s0)"
    unfolding w_def using calm_misc(1) [OF calm_led [OF led_start_more], of "u\<lparr>sch := pega_schedule_Buff_Reset (sch u)\<rparr>"]
    by (simp add: \<open>sch u = sch s0\<close>)
  define x where "x = Pega_Misc_system_tasks_start u"
  have x: "sch x = pega_schedule_Buff_Reset (sch s0) \<and> m_stDiagCmd x = zero_diag"
    unfolding x_def Pega_Misc_system_tasks_start_def
    using calm_misc(1,2) [OF calm_gpio [OF fault_start_more], of "upd_diag (\<lambda>_. zero_diag) w"] w
    by (simp add: upd_diag_def w_def [symmetric])
  define y where "y = snd (Pega_led_flash_state_Set LED_State_System_Start_Up x)"
  have y: "sch y = pega_schedule_Buff_Reset (sch s0) \<and> m_stDiagCmd y = zero_diag"
    unfolding y_def using calm_misc(1,2) [OF calm_led_state [of x LED_State_System_Start_Up]] x by simp
  have s: "s = (if \<not> bIsWiFiDisable y then push_event schEVT_Load_wifi_fw SCH_1Sec y else y)"
    using t by (simp add: Let_def y_def x_def)
  have "m_SchCnt (pega_schedule_Buff_Reset q) = 0" for q by (simp add: pega_schedule_Buff_Reset_def)
  moreover have "m_SchCnt (snd (pega_schedule_Event_push e d q)) \<le> Suc (m_SchCnt q)" for e d q
    by (auto simp: pega_schedule_Event_push_def time_count_set_def Let_def split: option.splits)
  ultimately show "m_SchCnt (sch s) \<le> 1" "wCmdCnt (m_stDiagCmd s) = 0"
    using y by (auto simp: s push_event_def zero_diag_def) (metis One_nat_def)
qed

lemma startup_no_buses:
  assumes "\<And>h p. open_ok env h p" and "\<And>h d. i2c_open env h d \<le> 0" and "\<And>h f. text_file env h f = None"
  shows "\<exists>s. misc_main [] (misc_static env) = Some (Inr s)"
proof -
  let ?s = "misc_static env"
  define v where "v = Pega_Misc_system_variables_init (Pega_AMP_Device_I2C_open (OPT300x_Device_I2C_open ?s))"
  have m: "menv ?s = env" by (simp add: misc_static_def nv_initial_def)
  then have v: "menv v = env" "m_Als_i2cFile v \<le> 0" "m_Amp_i2cFile v \<le> 0"
    using assms(2) by (simp_all add: v_def Pega_Misc_system_variables_init_def
        Pega_AMP_Device_I2C_open_def OPT300x_Device_I2C_open_def)
  define g where "g = Pega_Gpio_init v"
  have g: "menv g = env" "m_Als_i2cFile g \<le> 0" "m_Amp_i2cFile g \<le> 0"
    using v fd_more [of g v] gpio_init_menv [of v] by (simp_all add: g_def)
  obtain p where p: "Pega_pwm_init 0 g = Some p" "menv p = env"
    using pwm_init_returns [of g 0] assms(1) g(1) by auto
  have "gpio_st.more p = gpio_st.more g" using p(1) by (rule pwm_init_more)
  from fd_more [OF this] have fd: "m_Als_i2cFile p \<le> 0" "m_Amp_i2cFile p \<le> 0" using g by simp_all
  obtain a where a: "OPT300x_Device_Init p = Some a" "menv a = env" "m_Amp_i2cFile a \<le> 0"
    using als_init_no_bus [OF fd(1)] p(2) fd(2) by auto
  obtain b where b: "Pega_AMP_Initialize True 10 a = Some b"
    using amp_init_no_bus [of a True 10] assms(3) a(2,3) by auto
  have "misc_startup ?s \<noteq> None"
    using p(1) a(1) b by (simp add: misc_startup_def Pega_Misc_hareware_init_def v_def g_def Let_def)
  then show ?thesis by (auto simp: misc_main_def)
qed

definition quiet_env :: misc_env where
  "quiet_env = \<lparr>open_ok = \<lambda>h p. True, read_file = \<lambda>h p. None, text_file = \<lambda>h f. None,
     timer_call_ok = \<lambda>h. True, timer_expired = \<lambda>h. True, dir_list = \<lambda>h d. None, uart_fd = \<lambda>h. -1,
     uart_sigio = \<lambda>h. False, uart_bytes = \<lambda>h n. None, stack_bytes = \<lambda>h. [],
     i2c_open = \<lambda>h d. -1, i2c_slave_ok = \<lambda>h fd a. True, i2c_write_ret = \<lambda>h fd a bs. 0,
     i2c_read_ret = \<lambda>h fd a n. None\<rparr>"

lemma quiet_reachable:
  obtains s where "misc_reachable s" and "m_SchCnt (sch s) \<le> 1" and "wCmdCnt (m_stDiagCmd s) = 0"
proof -
  obtain s where "misc_main [] (misc_static quiet_env) = Some (Inr s)"
    using startup_no_buses [of quiet_env] by (auto simp: quiet_env_def)
  then show ?thesis using that reach_start startup_state static_ok(2) by blast
qed

end
