(* ===== verification/Misc_Props.thy ===== *)
theory Misc_Props
  imports Misc_Start
begin

text \<open>
  Properties of the event queue and of the daemon's message handling: the array implements the
  abstract queue, a command reaches its execution, and what is lost on the way.
\<close>

subsection \<open>Runs of the schedule thread\<close>

text \<open>The first \<open>n\<close> ticks after a state; \<open>None\<close> when one of them ends the process.\<close>

fun tick_run :: "nat \<Rightarrow> misc \<Rightarrow> misc option" where
  "tick_run 0 s = Some s"
| "tick_run (Suc n) s = Option.bind (pega_schedule_Event_Processing s) (tick_run n)"

lemma tick_run_sch: "tick_run n s = Some t \<Longrightarrow> sch t = ticks pega_schedule_Event_Get n (sch s)"
  by (induction n arbitrary: s) (auto simp: ticks_Suc event_processing(1) split: Option.bind_splits)

lemma tick_run_prefix: "tick_run n s = Some t \<Longrightarrow> m \<le> n \<Longrightarrow> \<exists>u. tick_run m s = Some u"
proof (induction n arbitrary: s m)
  case (Suc n)
  then show ?case by (cases m) (auto split: Option.bind_splits)
qed simp

lemma tick_run_Suc: "tick_run (Suc n) s = Option.bind (tick_run n s) pega_schedule_Event_Processing"
proof (induction n arbitrary: s)
  case 0
  show ?case by (cases "pega_schedule_Event_Processing s") simp_all
next
  case (Suc n)
  show ?case
  proof (cases "pega_schedule_Event_Processing s")
    case (Some u)
    then show ?thesis using Suc.IH [of u] by simp
  qed simp
qed

text \<open>The stored command survives every tick that does not execute it.\<close>

lemma event_keeps_command:
  assumes "pega_schedule_Event_Processing s = Some t"
    and "fst (pega_schedule_Event_Get (sch s)) \<noteq> schEVT_System_diag_Cmd_Execution"
  shows "diag_msg.truncate (m_stDiagCmd t) = diag_msg.truncate (m_stDiagCmd s)"
    and "wCmdCnt (m_stDiagCmd t) = wCmdCnt (m_stDiagCmd s)"
proof -
  obtain e q where g: "pega_schedule_Event_Get (sch s) = (e, q)" by fastforce
  let ?s = "s\<lparr>sch := q\<rparr>"
  have debug: "diag_msg.truncate (m_stDiagCmd u) = diag_msg.truncate (m_stDiagCmd s) \<and>
      wCmdCnt (m_stDiagCmd u) = wCmdCnt (m_stDiagCmd s)"
    if "Pega_debug_schedule_command ?s = Some u" for u
    using calm_debug(3) [OF that] by auto
  consider "t = Pega_wifi_load_firmware_enable ?s" | "Pega_debug_schedule_command ?s = Some t" | "t = ?s"
    using assms unfolding pega_schedule_Event_Processing_def g prod.case Let_def fst_conv
    by (metis option.inject)
  then have "diag_msg.truncate (m_stDiagCmd t) = diag_msg.truncate (m_stDiagCmd s) \<and>
      wCmdCnt (m_stDiagCmd t) = wCmdCnt (m_stDiagCmd s)"
    by cases (use calm_misc(2) [OF calm_load_fw, of ?s] debug in simp_all)
  then show "diag_msg.truncate (m_stDiagCmd t) = diag_msg.truncate (m_stDiagCmd s)"
    "wCmdCnt (m_stDiagCmd t) = wCmdCnt (m_stDiagCmd s)" by simp_all
qed

lemma run_keeps_command:
  assumes "tick_run n s = Some t"
    and "\<And>m. m < n \<Longrightarrow> fst (pega_schedule_Event_Get (ticks pega_schedule_Event_Get m (sch s))) \<noteq>
        schEVT_System_diag_Cmd_Execution"
  shows "diag_msg.truncate (m_stDiagCmd t) = diag_msg.truncate (m_stDiagCmd s) \<and>
    wCmdCnt (m_stDiagCmd t) = wCmdCnt (m_stDiagCmd s)"
  using assms
proof (induction n arbitrary: t)
  case (Suc n)
  from Suc.prems(1) obtain u where u: "tick_run n s = Some u" "pega_schedule_Event_Processing u = Some t"
    by (auto simp: tick_run_Suc simp del: tick_run.simps split: Option.bind_splits)
  then have "fst (pega_schedule_Event_Get (sch u)) \<noteq> schEVT_System_diag_Cmd_Execution"
    using Suc.prems(2) [of n] by (simp add: tick_run_sch)
  with event_keeps_command [OF u(2)] Suc.IH [OF u(1)] Suc.prems(2) show ?case by simp
qed simp

subsection \<open>Cancelling\<close>

lemma cancel_refines:
  assumes "sched_ok s" and "e \<noteq> 0"
  shows "sched_ok (snd (pega_schedule_Event_Cancel e s))"
    and "fst (pega_schedule_Event_Cancel e s) = fst (q_cancel e (sched_abs s))"
    and "sched_abs (snd (pega_schedule_Event_Cancel e s)) = snd (q_cancel e (sched_abs s))"
proof -
  have len: "length (m_SchBuff s) = 12" using assms by (simp add: sched_ok_def)
  have "sched_ok (snd (pega_schedule_Event_Cancel e s)) \<and>
    fst (pega_schedule_Event_Cancel e s) = fst (q_cancel e (sched_abs s)) \<and>
    sched_abs (snd (pega_schedule_Event_Cancel e s)) = snd (q_cancel e (sched_abs s))"
  proof (cases "e \<ge> 203 \<or> e = 1")
    case True
    have "sched_abs (pega_schedule_Buff_Reset s) = []"
      by (simp add: sched_abs_def pega_schedule_Buff_Reset_def)
    then show ?thesis
      using True assms Buff_Reset_ok [OF len] by (auto simp: pega_schedule_Event_Cancel_def q_cancel_def)
  next
    case False
    show ?thesis
    proof (cases "e \<in> enEVT ` set (sched_abs s)")
      case True
      from slot_live [OF assms(1) True] obtain q1 x q2 rest where
        q: "event_slot e s = Some (length q1)" "sched_abs s = q1 @ x # q2"
          "m_SchBuff s = q1 @ x # q2 @ rest" "enEVT x = e"
          "e \<notin> enEVT ` set q1" "e \<notin> enEVT ` set q2"
          "m_SchCnt s = Suc (length q1 + length q2)" "length q1 + length q2 + length rest = 11"
          "rest \<noteq> []" "\<forall>x\<in>set rest. enEVT x = 0" by metis
      have "q_ok (q1 @ q2)" using assms(1) q(2) q_ok_remove by (auto simp: sched_ok_def)
      note r = Reschedlue_ok [OF q(3,7,8) this q(9,10)]
      have "filter (\<lambda>x. enEVT x \<noteq> e) (sched_abs s) = q1 @ q2"
        using q(4-6) by (simp add: q(2)) (metis (mono_tags, lifting) filter_True imageI)
      then show ?thesis
        using False True r q(1) by (simp add: pega_schedule_Event_Cancel_def q_cancel_def)
    next
      case none: False
      then have "filter (\<lambda>x. enEVT x \<noteq> e) (sched_abs s) = sched_abs s"
        by (auto simp: filter_id_conv)
      then show ?thesis
        using False none assms slot_none [OF assms none]
        by (simp add: pega_schedule_Event_Cancel_def q_cancel_def)
    qed
  qed
  then show "sched_ok (snd (pega_schedule_Event_Cancel e s))"
    "fst (pega_schedule_Event_Cancel e s) = fst (q_cancel e (sched_abs s))"
    "sched_abs (snd (pega_schedule_Event_Cancel e s)) = snd (q_cancel e (sched_abs s))" by blast+
qed

lemma check_refines:
  assumes "sched_ok s" and "e \<noteq> 0"
  shows "pega_schedule_Event_Check e s \<longleftrightarrow> e \<in> enEVT ` set (sched_abs s)"
proof (cases "e \<in> enEVT ` set (sched_abs s)")
  case True
  from slot_live [OF assms(1) True] have "event_slot e s \<noteq> None" by (metis option.distinct(1))
  moreover have "e < 203" using assms(1) True by (auto simp: sched_ok_def q_ok_def)
  ultimately show ?thesis using True by (simp add: pega_schedule_Event_Check_def)
qed (use slot_none [OF assms] in \<open>simp add: pega_schedule_Event_Check_def\<close>)

lemma q_tick_removes:
  "distinct (map enEVT q) \<Longrightarrow> fst (q_tick q) \<noteq> 0 \<Longrightarrow> fst (q_tick q) \<notin> enEVT ` set (snd (q_tick q))"
proof (induction q)
  case (Cons x q)
  obtain e q' where t: "q_tick q = (e, q')" by (cases "q_tick q") auto
  have "enEVT x \<noteq> e" if "e \<noteq> 0" using that Cons.prems(1) q_tick_event [of q] t by auto
  moreover have "enEVT x \<notin> enEVT ` set q" using Cons.prems(1) by simp
  ultimately show ?case using Cons.IH Cons.prems t by (cases "wTMCount x = 1") auto
qed simp

lemma zero_ok [simp]: "sched_ok sched_zero" and zero_abs [simp]: "sched_abs sched_zero = []"
  by (auto simp: sched_ok_def sched_abs_def sched_zero_def q_ok_def)

subsection \<open>The array implements the queue\<close>

text \<open>
  C1: The twelve slots and their counter implement the abstract queue of pending events: pushing,
  ticking, cancelling and looking up an event and popping the first one return what the abstract
  operations return and leave the array in a state that stands for the queue those operations produce.
\<close>

theorem queue_refines:
  assumes "sched_ok s" and "e \<noteq> schEVT_None"
  shows "sched_ok (snd (pega_schedule_Event_push e d s)) \<and>
    apsnd sched_abs (pega_schedule_Event_push e d s) = q_push e d (sched_abs s) \<and>
    sched_ok (snd (pega_schedule_Event_Get s)) \<and>
    apsnd sched_abs (pega_schedule_Event_Get s) = q_tick (sched_abs s) \<and>
    sched_ok (snd (pega_schedule_Event_Cancel e s)) \<and>
    apsnd sched_abs (pega_schedule_Event_Cancel e s) = q_cancel e (sched_abs s) \<and>
    pega_schedule_Event_Check e s = (e \<in> enEVT ` set (sched_abs s)) \<and>
    sched_ok (pega_schedule_Event_pop s) \<and>
    sched_abs (pega_schedule_Event_pop s) = tl (sched_abs s)"
  using assms push_refines [OF assms(1)] tick_refines [OF assms(1)] cancel_refines [OF assms]
    check_refines [OF assms] pop_refines [OF assms(1)]
  by (simp add: prod_eq_iff)

theorem queue_refines_witness:
  "apsnd sched_abs (pega_schedule_Event_Cancel 2 (snd (pega_schedule_Event_push 2 10 sched_zero))) =
    q_cancel 2 [\<lparr>enEVT = 2, wTMCount = 10, wTMTime = 0\<rparr>] \<and>
   sched_abs (pega_schedule_Event_pop (snd (pega_schedule_Event_push 2 10 sched_zero))) = []"
proof -
  have "sched_ok (snd (pega_schedule_Event_push 2 10 sched_zero))"
    "sched_abs (snd (pega_schedule_Event_push 2 10 sched_zero)) =
      [\<lparr>enEVT = 2, wTMCount = 10, wTMTime = 0\<rparr>]"
    by (simp_all add: push_refines q_push_def)
  with queue_refines [of "snd (pega_schedule_Event_push 2 10 sched_zero)" 2 10] show ?thesis by simp
qed

text \<open>
  C7: A pushed event with a positive delay of \<open>d\<close> ticks is delivered: not before tick \<open>d\<close>, and at
  the latest ten ticks after it (a tick delivers one event, and at most ten others can be
  delivered first).
\<close>

theorem pushed_event_fires:
  assumes "sched_ok s" and "e \<noteq> schEVT_None" and "fst (pega_schedule_Event_push e d s)" and "0 < sint d"
  shows "\<exists>n. sint d \<le> int n + 1 \<and> int n + 1 \<le> sint d + 10 \<and>
    fst (pega_schedule_Event_Get (ticks pega_schedule_Event_Get n (snd (pega_schedule_Event_push e d s)))) = e \<and>
    (\<forall>m<n. fst (pega_schedule_Event_Get
       (ticks pega_schedule_Event_Get m (snd (pega_schedule_Event_push e d s)))) \<noteq> e)"
proof -
  obtain c where c: "sint d = int (Suc c)" using assms(4) by (metis gr0_implies_Suc zero_less_imp_eq_int)
  from sched_queue.event_fires [OF assms(1-3) c] show ?thesis using c by fastforce
qed

theorem pushed_event_fires_witness:
  "\<exists>n. 10 \<le> int n + 1 \<and> int n + 1 \<le> 20 \<and>
    fst (pega_schedule_Event_Get (ticks pega_schedule_Event_Get n
      (snd (pega_schedule_Event_push schEVT_Load_wifi_fw 10 sched_zero)))) = schEVT_Load_wifi_fw"
proof -
  have "fst (pega_schedule_Event_push schEVT_Load_wifi_fw 10 sched_zero)"
    by (simp add: push_refines(2) q_push_def)
  then show ?thesis using pushed_event_fires [of sched_zero 2 10] by auto
qed

text \<open>
  An event pushed with a delay of zero, or one of \<open>2 ^ 31\<close> ticks or more (which is stored as
  a negative number), is accepted, but no tick ever delivers it, and it keeps its slot.
\<close>

theorem undelayed_event_never_fires:
  assumes "sched_ok s" and "e \<noteq> schEVT_None" and "fst (pega_schedule_Event_push e d s)" and "sint d \<le> 0"
  shows "fst (pega_schedule_Event_Get
      (ticks pega_schedule_Event_Get n (snd (pega_schedule_Event_push e d s)))) \<noteq> e \<and>
    pega_schedule_Event_Check e (ticks pega_schedule_Event_Get n (snd (pega_schedule_Event_push e d s)))"
proof -
  have "sched_ok (ticks pega_schedule_Event_Get n (snd (pega_schedule_Event_push e d s)))"
    by (intro sched_queue.ticks_inv push_refines(1) assms(1))
  with sched_queue.undelayed_event_stuck [OF assms, of n] show ?thesis
    by (simp add: check_refines [OF _ assms(2)])
qed

theorem undelayed_event_never_fires_witness:
  "pega_schedule_Event_Check schEVT_Load_wifi_fw (ticks pega_schedule_Event_Get 1000
    (snd (pega_schedule_Event_push schEVT_Load_wifi_fw 0 sched_zero)))"
proof -
  have "fst (pega_schedule_Event_push schEVT_Load_wifi_fw 0 sched_zero)"
    by (simp add: push_refines(2) q_push_def)
  then show ?thesis using undelayed_event_never_fires [of sched_zero 2 0 1000] by simp
qed

subsection \<open>A command on its way\<close>

lemma push_room: "m_SchCnt q < 11 \<Longrightarrow> e < 203 \<Longrightarrow> fst (pega_schedule_Event_push e d q)"
  by (auto simp: pega_schedule_Event_push_def Let_def split: option.splits)

lemma diag_message:
  "sch (snd (Pega_diag_commands_processer d s)) = snd (pega_schedule_Event_push 200 1 (sch s))"
  "diag_msg.truncate (m_stDiagCmd (snd (Pega_diag_commands_processer d s))) = diag_msg.truncate d"
  "wCmdCnt (m_stDiagCmd (snd (Pega_diag_commands_processer d s))) = wCmdCnt (m_stDiagCmd s) + 1"
  by (auto simp: Pega_diag_commands_processer_def push_event_def upd_diag_def Let_def emit_def
      diag_msg.defs)

text \<open>What an execution of the stored command leaves behind.\<close>

lemma execution_leaves:
  assumes "Pega_diag_msgq_Cmd_Execution s = Some t"
  shows "sch t = sch s" and "wCmdCnt (m_stDiagCmd t) = wCmdCnt (m_stDiagCmd s) - (if wCmdCnt (m_stDiagCmd s) > 0 then 1 else 0)"
proof -
  obtain u where "diag_switch s = Some u"
    and "t = upd_diag (\<lambda>c. if wCmdCnt c > 0 then c\<lparr>wCmdCnt := wCmdCnt c - 1\<rparr> else c) u"
    using assms by (auto simp: Pega_diag_msgq_Cmd_Execution_def split: Option.bind_splits)
  then show "sch t = sch s"
    "wCmdCnt (m_stDiagCmd t) = wCmdCnt (m_stDiagCmd s) - (if wCmdCnt (m_stDiagCmd s) > 0 then 1 else 0)"
    using calm_misc(1,2) [OF calm_diag_switch, of s u] by (simp_all add: upd_diag_def)
qed

lemma command_run:
  assumes "sched_ok q" and "fst (pega_schedule_Event_push 200 1 q)"
    and "sch s = snd (pega_schedule_Event_push 200 1 q)"
  shows "\<exists>n\<le>10. tick_run n s = None \<or> (\<exists>u. tick_run n s = Some u \<and>
    fst (pega_schedule_Event_Get (sch u)) = 200 \<and> sched_ok (sch u) \<and>
    diag_msg.truncate (m_stDiagCmd u) = diag_msg.truncate (m_stDiagCmd s) \<and>
    wCmdCnt (m_stDiagCmd u) = wCmdCnt (m_stDiagCmd s))"
proof -
  from sched_queue.event_fires [OF assms(1) _ assms(2), of 0]
  obtain n where n: "n \<le> 10" "fst (pega_schedule_Event_Get (ticks pega_schedule_Event_Get n (sch s))) = 200"
      "\<forall>m<n. fst (pega_schedule_Event_Get (ticks pega_schedule_Event_Get m (sch s))) \<noteq> 200"
    using assms(3) by auto
  have "sched_ok (ticks pega_schedule_Event_Get n (sch s))"
    unfolding assms(3) by (intro sched_queue.ticks_inv push_refines(1) assms(1))
  then have "sched_ok (sch u) \<and> fst (pega_schedule_Event_Get (sch u)) = 200 \<and>
      diag_msg.truncate (m_stDiagCmd u) = diag_msg.truncate (m_stDiagCmd s) \<and>
      wCmdCnt (m_stDiagCmd u) = wCmdCnt (m_stDiagCmd s)" if "tick_run n s = Some u" for u
    using tick_run_sch [OF that] n(2,3) run_keeps_command [OF that] by metis
  then show ?thesis using n(1) by (cases "tick_run n s") blast+
qed

lemma event_execution:
  assumes "fst (pega_schedule_Event_Get (sch u)) = 200"
  shows "pega_schedule_Event_Processing u =
    Pega_diag_msgq_Cmd_Execution (u\<lparr>sch := snd (pega_schedule_Event_Get (sch u))\<rparr>)"
  using assms by (cases "pega_schedule_Event_Get (sch u)") (simp add: pega_schedule_Event_Processing_def Let_def)

text \<open>Two messages for the witnesses: \<open>diag irled on\<close> and \<open>diag icr day\<close>.\<close>

definition irled_on :: diag_msg where
  "irled_on = \<lparr>eCmdId = 3, value1 = 1, value2 = 0, value3 = 0, fval1 = 0, fval2 = 0\<rparr>"

definition icr_day :: diag_msg where
  "icr_day = \<lparr>eCmdId = 2, value1 = 1, value2 = 0, value3 = 0, fval1 = 0, fval2 = 0\<rparr>"

text \<open>
  A run of all threads after a message \<open>d\<close> has arrived in \<open>s\<close>, until the schedule thread is about to
  execute the diagnostic command: \<open>n\<close> counts its ticks, \<open>d'\<close> is the last diagnostic message so far.
\<close>

inductive waiting_run :: "diag_msg \<Rightarrow> misc \<Rightarrow> nat \<Rightarrow> diag_msg \<Rightarrow> misc \<Rightarrow> bool" for d s where
  arrives: "waiting_run d s 0 d (snd (Pega_diag_commands_processer d s))"
| next_main: "waiting_run d s n d' t \<Longrightarrow> main_round t = Some u \<Longrightarrow> waiting_run d s n d' u"
| next_tick: "waiting_run d s n d' t \<Longrightarrow>
    fst (pega_schedule_Event_Get (sch t)) \<noteq> schEVT_System_diag_Cmd_Execution \<Longrightarrow>
    pega_schedule_Event_Processing t = Some u \<Longrightarrow> waiting_run d s (Suc n) d' u"
| next_diag: "waiting_run d s n d' t \<Longrightarrow>
    waiting_run d s n d'' (snd (Pega_diag_commands_processer d'' t))"
| next_debug: "waiting_run d s n d' t \<Longrightarrow>
    waiting_run d s n d' (snd (Pega_debug_commands_processer cmd v1 v2 v3 t))"
| next_led: "waiting_run d s n d' t \<Longrightarrow> waiting_run d s n d' (Pega_led_flash_TaskHandler th t)"

text \<open>The entry of the command: due at the next tick, but for at most \<open>p\<close> entries before it.\<close>

definition due_at :: "nat \<Rightarrow> sched \<Rightarrow> bool" where
  "due_at p q \<longleftrightarrow> sched_ok q \<and> p < length (sched_abs q) \<and>
     enEVT (sched_abs q ! p) = schEVT_System_diag_Cmd_Execution \<and> wTMCount (sched_abs q ! p) = 1"

lemma due_push:
  assumes "due_at p q"
  shows "due_at p (snd (pega_schedule_Event_push e SCH_100ms q))"
  using assms by (auto simp: due_at_def push_refines q_push_def nth_append)

lemma due_new:
  assumes "sched_ok q" and "fst (pega_schedule_Event_push 200 1 q)"
  shows "\<exists>p\<le>10. due_at p (snd (pega_schedule_Event_push 200 1 q))"
proof -
  have "q_ok (sched_abs q)" "fst (q_push 200 1 (sched_abs q))" using assms by (simp_all add: sched_ok_def push_refines)
  from q_push_entry [OF this(1) _ this(2)] show ?thesis
    using assms(1) by (simp add: due_at_def push_refines) blast
qed

lemma due_tick:
  assumes "due_at p q"
  shows "fst (pega_schedule_Event_Get q) = 200 \<or>
    (\<exists>p'. p = Suc p' \<and> due_at p' (snd (pega_schedule_Event_Get q)))"
proof -
  have "q_ok (sched_abs q)" "sched_ok q" using assms by (simp_all add: due_at_def sched_ok_def)
  then show ?thesis
    using q_tick_entry [of "sched_abs q" p] assms by (auto simp: due_at_def tick_refines)
qed

lemma due_pending: "due_at p q \<Longrightarrow> pega_schedule_Event_Check 200 q"
  using nth_mem [of p "sched_abs q"] by (auto simp: due_at_def check_refines simp del: nth_mem)

lemma debug_message:
  "m_stDiagCmd (snd (Pega_debug_commands_processer cmd v1 v2 v3 s)) = m_stDiagCmd s"
  "sch (snd (Pega_debug_commands_processer cmd v1 v2 v3 s)) = sch s \<or>
   (\<exists>e. sch (snd (Pega_debug_commands_processer cmd v1 v2 v3 s)) = snd (pega_schedule_Event_push e SCH_100ms (sch s)))"
  by (auto simp: Pega_debug_commands_processer_def push_event_def Let_def)

lemma waiting_due:
  assumes "waiting_run d s n d' t" and "sched_ok (sch s)" and "m_SchCnt (sch s) < 11"
  shows "diag_msg.truncate (m_stDiagCmd t) = diag_msg.truncate d' \<and> (\<exists>p. p + n \<le> 10 \<and> due_at p (sch t))"
  using assms
proof (induction rule: waiting_run.induct)
  case arrives
  then show ?case using due_new [OF arrives(1) push_room] by (simp add: diag_message)
next
  case (next_main n d' t u)
  then show ?case using calm_misc(1,2) [OF calm_main_round, of t u] by simp
next
  case (next_tick n d' t u)
  then obtain p where p: "p + n \<le> 10" "due_at p (sch t)" by blast
  then obtain p' where "p = Suc p'" "due_at p' (sch u)"
    using due_tick [OF p(2)] next_tick.hyps(2) event_processing(1) [OF next_tick.hyps(3)] by auto
  then show ?case
    using event_keeps_command(1) [OF next_tick.hyps(3,2)] next_tick.IH next_tick.prems p(1)
    by (metis add_Suc add_Suc_right)
next
  case (next_diag n d' t d'')
  then show ?case by (auto simp: diag_message intro: due_push)
next
  case (next_debug n d' t cmd v1 v2 v3)
  then show ?case using debug_message [of cmd v1 v2 v3 t] due_push by (metis (no_types, lifting))
next
  case (next_led n d' t th)
  then show ?case using calm_misc(1,2) [OF calm_led [OF led_thread_more], of th t] by simp
qed

lemma tick_may_end:
  "pega_schedule_Event_Processing t = None \<Longrightarrow> fst (pega_schedule_Event_Get (sch t)) \<in>
     {schEVT_System_diag_Cmd_Execution, schEVT_System_debug_info_Execution}"
  by (cases "pega_schedule_Event_Get (sch t)")
    (auto simp: pega_schedule_Event_Processing_def Let_def split: if_splits)

text \<open>
  C8: A diagnostic command that arrives while the queue has room is executed, whatever the threads of
  the daemon do in between and in whatever order: after at most ten ticks of the schedule thread the
  next tick executes it. Until then it stays pending, and what is executed is the last message that
  has arrived, so a further message replaces the values of the first. A tick before that can end
  the process only by a debug command.
\<close>

theorem diag_command_executed:
  assumes "misc_reachable s" and "m_SchCnt (sch s) < 11" and "waiting_run d s n d' t"
  shows "n \<le> 10 \<and> diag_msg.truncate (m_stDiagCmd t) = diag_msg.truncate d' \<and>
    pega_schedule_Event_Check schEVT_System_diag_Cmd_Execution (sch t) \<and>
    (n = 10 \<longrightarrow> fst (pega_schedule_Event_Get (sch t)) = schEVT_System_diag_Cmd_Execution) \<and>
    (fst (pega_schedule_Event_Get (sch t)) = schEVT_System_diag_Cmd_Execution \<longrightarrow>
      pega_schedule_Event_Processing t =
        Pega_diag_msgq_Cmd_Execution (t\<lparr>sch := snd (pega_schedule_Event_Get (sch t))\<rparr>)) \<and>
    (pega_schedule_Event_Processing t = None \<longrightarrow> fst (pega_schedule_Event_Get (sch t)) \<in>
      {schEVT_System_diag_Cmd_Execution, schEVT_System_debug_info_Execution})"
proof -
  have "sched_ok (sch s)" using reachable_ok [OF assms(1)] by (simp add: daemon_ok_def)
  from waiting_due [OF assms(3) this assms(2)] obtain p where
    t: "diag_msg.truncate (m_stDiagCmd t) = diag_msg.truncate d'" "p + n \<le> 10" "due_at p (sch t)" by blast
  have "fst (pega_schedule_Event_Get (sch t)) = 200" if "n = 10"
    using due_tick [OF t(3)] t(2) that by auto
  then show ?thesis
    using t(1,2) due_pending [OF t(3)] event_execution tick_may_end by auto
qed

theorem diag_command_executed_witness:
  "\<exists>s t. misc_reachable s \<and> waiting_run irled_on s 0 icr_day t \<and>
    diag_msg.truncate (m_stDiagCmd t) = diag_msg.truncate icr_day \<and>
    pega_schedule_Event_Check schEVT_System_diag_Cmd_Execution (sch t)"
proof -
  obtain s where s: "misc_reachable s" "m_SchCnt (sch s) < 11" using quiet_reachable by (metis le_less_trans one_less_numeral_iff semiring_norm(77))
  let ?t = "snd (Pega_diag_commands_processer icr_day (Pega_led_flash_TaskHandler 1
    (snd (Pega_diag_commands_processer irled_on s))))"
  have run: "waiting_run irled_on s 0 icr_day ?t"
    by (rule waiting_run.next_diag, rule waiting_run.next_led, rule waiting_run.arrives)
  from diag_command_executed [OF s run] s(1) run show ?thesis by (intro exI [of _ s] exI [of _ ?t]) simp
qed

lemma push_again:
  assumes "sched_ok q" and "e \<noteq> 0" and "fst (pega_schedule_Event_push e d q)"
  shows "fst (pega_schedule_Event_push e d' (snd (pega_schedule_Event_push e d q)))"
proof -
  have push: "fst (q_push e d (sched_abs q))" using assms by (simp add: push_refines)
  from q_push_entry [OF _ assms(2) push] assms(1)
  obtain p where "p < length (snd (q_push e d (sched_abs q)))" "enEVT (snd (q_push e d (sched_abs q)) ! p) = e"
    by (auto simp: sched_ok_def)
  then have "e \<in> enEVT ` set (snd (q_push e d (sched_abs q)))" by (metis imageI nth_mem)
  then show ?thesis
    using assms push by (simp add: push_refines) (simp add: q_push_def split: if_splits)
qed

text \<open>
  Of two diagnostic commands that arrive before the next tick only the second is executed.
  Its execution takes one off the counter and removes the event, so the counter stays one higher
  than before: no execution is left for the first command, and every later message is reported
  as arriving before the previous one was finished.
\<close>

theorem second_command_replaces_first:
  assumes "misc_reachable s" and "m_SchCnt (sch s) < 11" and "wCmdCnt (m_stDiagCmd s) < 254"
  shows "\<exists>n\<le>10.
    tick_run n (snd (Pega_diag_commands_processer d2 (snd (Pega_diag_commands_processer d1 s)))) = None \<or>
    (\<exists>u. tick_run n (snd (Pega_diag_commands_processer d2 (snd (Pega_diag_commands_processer d1 s)))) = Some u \<and>
      diag_msg.truncate (m_stDiagCmd u) = diag_msg.truncate d2 \<and>
      pega_schedule_Event_Processing u =
        Pega_diag_msgq_Cmd_Execution (u\<lparr>sch := snd (pega_schedule_Event_Get (sch u))\<rparr>) \<and>
      (\<forall>v. pega_schedule_Event_Processing u = Some v \<longrightarrow>
        wCmdCnt (m_stDiagCmd v) = wCmdCnt (m_stDiagCmd s) + 1 \<and>
        \<not> pega_schedule_Event_Check schEVT_System_diag_Cmd_Execution (sch v)))"
proof -
  let ?q = "snd (pega_schedule_Event_push 200 1 (sch s))"
  have ok: "sched_ok (sch s)" using reachable_ok [OF assms(1)] by (simp add: daemon_ok_def)
  have "fst (pega_schedule_Event_push 200 1 ?q)"
    by (rule push_again [OF ok _ push_room [OF assms(2)]]) simp_all
  from command_run [OF push_refines(1) [OF ok] this, of "snd (Pega_diag_commands_processer d2
      (snd (Pega_diag_commands_processer d1 s)))"]
  obtain n where n: "n \<le> 10" "tick_run n (snd (Pega_diag_commands_processer d2
        (snd (Pega_diag_commands_processer d1 s)))) = None \<or>
      (\<exists>u. tick_run n (snd (Pega_diag_commands_processer d2 (snd (Pega_diag_commands_processer d1 s)))) = Some u \<and>
        fst (pega_schedule_Event_Get (sch u)) = 200 \<and> sched_ok (sch u) \<and>
        diag_msg.truncate (m_stDiagCmd u) = diag_msg.truncate d2 \<and>
        wCmdCnt (m_stDiagCmd u) = wCmdCnt (m_stDiagCmd s) + 1 + 1)"
    by (auto simp: diag_message)
  have "wCmdCnt (m_stDiagCmd s) + 1 + 1 > 0"
    using assms(3) by (simp add: word_less_nat_alt unat_word_ariths)
  then have "wCmdCnt (m_stDiagCmd v) = wCmdCnt (m_stDiagCmd s) + 1 \<and>
      \<not> pega_schedule_Event_Check 200 (sch v)"
    if "fst (pega_schedule_Event_Get (sch u)) = 200" "sched_ok (sch u)"
      "wCmdCnt (m_stDiagCmd u) = wCmdCnt (m_stDiagCmd s) + 1 + 1"
      "pega_schedule_Event_Processing u = Some v" for u v
  proof -
    have x: "Pega_diag_msgq_Cmd_Execution (u\<lparr>sch := snd (pega_schedule_Event_Get (sch u))\<rparr>) = Some v"
      using that by (simp add: event_execution)
    have "200 \<notin> enEVT ` set (snd (q_tick (sched_abs (sch u))))"
      using q_tick_removes [of "sched_abs (sch u)"] that(1,2) by (simp add: tick_refines sched_ok_def q_ok_def)
    then show ?thesis
      using execution_leaves [OF x] that tick_refines [OF that(2)] \<open>wCmdCnt (m_stDiagCmd s) + 1 + 1 > 0\<close>
      by (simp add: check_refines)
  qed
  then show ?thesis using n event_execution by blast
qed

theorem second_command_replaces_first_witness:
  "\<exists>s n. misc_reachable s \<and> wCmdCnt (m_stDiagCmd s) = 0 \<and> n \<le> 10 \<and>
    (tick_run n (snd (Pega_diag_commands_processer icr_day (snd (Pega_diag_commands_processer irled_on s)))) = None \<or>
    (\<exists>u. tick_run n (snd (Pega_diag_commands_processer icr_day (snd (Pega_diag_commands_processer irled_on s)))) = Some u \<and>
      diag_msg.truncate (m_stDiagCmd u) = diag_msg.truncate icr_day))"
proof -
  obtain s where "misc_reachable s" "m_SchCnt (sch s) < 11" "wCmdCnt (m_stDiagCmd s) = 0"
    using quiet_reachable by (metis le_less_trans one_less_numeral_iff semiring_norm(77))
  with second_command_replaces_first [of s icr_day irled_on] show ?thesis by auto
qed

subsection \<open>Invariants\<close>

text \<open>
  C29: In every reachable state of the daemon the queue is well formed: the pending events fill
  the first \<open>m_SchCnt\<close> slots, at most eleven, are distinct and valid, and all other slots are empty.
\<close>

theorem queue_invariant:
  assumes "misc_reachable s"
  shows "length (m_SchBuff (sch s)) = 12 \<and> m_SchCnt (sch s) \<le> 11 \<and>
    distinct (map enEVT (take (m_SchCnt (sch s)) (m_SchBuff (sch s)))) \<and>
    (\<forall>x\<in>set (take (m_SchCnt (sch s)) (m_SchBuff (sch s))). 0 < enEVT x \<and> enEVT x < schEVT_Max) \<and>
    (\<forall>x\<in>set (drop (m_SchCnt (sch s)) (m_SchBuff (sch s))). enEVT x = schEVT_None)"
  using reachable_ok [OF assms]
  by (auto simp: daemon_ok_def sched_ok_def sched_abs_def q_ok_def word_gt_0)

theorem queue_invariant_witness: "\<exists>s. misc_reachable s \<and> length (m_SchBuff (sch s)) = 12"
proof -
  obtain s where "misc_reachable s" by (rule quiet_reachable)
  with queue_invariant [of s] show ?thesis by blast
qed

text \<open>
  No reachable state of the daemon has the Wi-Fi firmware error flag set: the function that
  reports the error clears it.
\<close>

theorem firmware_error_never_recorded:
  assumes "misc_reachable s"
  shows "\<not> bIsWiFiFwError s"
  using reachable_ok [OF assms] by (simp add: daemon_ok_def)

theorem firmware_error_never_recorded_witness: "\<exists>s. misc_reachable s \<and> \<not> bIsWiFiFwError s"
proof -
  obtain s where "misc_reachable s" by (rule quiet_reachable)
  with firmware_error_never_recorded [of s] show ?thesis by blast
qed

end
