(* ===== verification/Misc_Light.thy ===== *)
theory Misc_Light
  imports Misc_Start
begin

text \<open>
  Properties of what the daemon shows and switches: the status LED with its priorities and its
  flashing thread, the day and night decision with its counters, and the outputs it drives.
\<close>

subsection \<open>Output files\<close>

definition all_open :: "'a gpio_st_scheme \<Rightarrow> bool" where
  "all_open s \<longleftrightarrow> (\<forall>h p. open_ok (menv s) h p)"

lemma emit_simps [simp]:
  "all_open (emit e s) = all_open s" "mlog (emit e s) = e # mlog s" "menv (emit e s) = menv s"
  by (simp_all add: all_open_def emit_def)

lemma pin_out_log:
  "all_open s \<Longrightarrow> mlog (pin_out p v s) = Close (Gpio_value p) #
     Write_file (Gpio_value p) (if v \<noteq> 0 then ''1'' else ''0'') # Open (Gpio_value p) True # mlog s"
  by (simp add: pin_out_def Pega_Gpio_pin_output_set_def sys_open_def all_open_def Let_def emit_def)

lemma pin_out_open [simp]: "all_open (pin_out p v s) = all_open s"
  by (auto simp: pin_out_def Pega_Gpio_pin_output_set_def sys_open_def all_open_def Let_def emit_def)

lemma usleep_simps [simp]: "all_open (usleep n s) = all_open s" "mlog (usleep n s) = Usleep n # mlog s"
  by (simp_all add: usleep_def)

lemma pwm_control_log:
  "all_open s \<Longrightarrow> mlog (snd (Pega_pwm_control ch b s)) = Close (Pwm_enable ch) #
     Write_file (Pwm_enable ch) (if b = 1 then ''1'' else ''0'') # Open (Pwm_enable ch) True # mlog s"
  by (simp add: Pega_pwm_control_def sys_open_def all_open_def Let_def emit_def)

lemma pwm_control_open [simp]: "all_open (snd (Pega_pwm_control ch b s)) = all_open s"
  by (auto simp: Pega_pwm_control_def sys_open_def all_open_def Let_def emit_def)

text \<open>What a pin shows last.\<close>

definition pin_shows :: "'a gpio_st_scheme \<Rightarrow> int \<Rightarrow> string option" where
  "pin_shows s p = last_write (mlog s) (Gpio_value p)"

lemma shows_pin_out [simp]:
  "all_open s \<Longrightarrow> pin_shows (pin_out p v s) q = (if q = p then Some (if v \<noteq> 0 then ''1'' else ''0'') else pin_shows s q)"
  by (simp add: pin_shows_def pin_out_log)

lemma shows_usleep [simp]: "pin_shows (usleep n s) q = pin_shows s q"
  by (simp add: pin_shows_def)

lemma shows_emit [simp]:
  "pin_shows (emit Thread_create s) q = pin_shows s q" "pin_shows (emit Thread_cancel s) q = pin_shows s q"
  by (simp_all add: pin_shows_def)

lemma pin_out_led [simp]:
  fixes s :: "'a led_st_scheme"
  shows "m_eLED_State (pin_out p v s) = m_eLED_State s" "eLedFlashing_Color (pin_out p v s) = eLedFlashing_Color s"
    "u16Period (pin_out p v s) = u16Period s" "led_threads (pin_out p v s) = led_threads s"
    "led_thread_id (pin_out p v s) = led_thread_id s" "next_thread (pin_out p v s) = next_thread s"
    "bIsLedFlashing (pin_out p v s) = bIsLedFlashing s"
  by (simp_all add: pin_out_def Pega_Gpio_pin_output_set_def sys_open_def Let_def emit_def)

lemma usleep_led [simp]:
  fixes s :: "'a led_st_scheme"
  shows "m_eLED_State (usleep n s) = m_eLED_State s" "eLedFlashing_Color (usleep n s) = eLedFlashing_Color s"
    "u16Period (usleep n s) = u16Period s" "led_threads (usleep n s) = led_threads s"
    "led_thread_id (usleep n s) = led_thread_id s" "next_thread (usleep n s) = next_thread s"
    "bIsLedFlashing (usleep n s) = bIsLedFlashing s"
  by (simp_all add: usleep_def emit_def)

subsection \<open>Status LED\<close>

lemma priorities: "Pega_led_flash_state_priority_get i =
    (if i = 0 then 0 else if i = 1 then 1 else if i = 2 then 5 else if i = 3 then 10
     else if i = 4 then 10 else if i = 5 then 10 else if i = 6 then 100 else -1)"
  by (simp add: Pega_led_flash_state_priority_get_def m_stLedPatternPriorityTbl_def)

lemma emit_led [simp]:
  fixes s :: "'a led_st_scheme"
  shows "m_eLED_State (emit e s) = m_eLED_State s" "eLedFlashing_Color (emit e s) = eLedFlashing_Color s"
    "u16Period (emit e s) = u16Period s" "led_threads (emit e s) = led_threads s"
    "led_thread_id (emit e s) = led_thread_id s" "next_thread (emit e s) = next_thread s"
    "bIsLedFlashing (emit e s) = bIsLedFlashing s"
  by (simp_all add: emit_def)

lemma led_updates [simp]:
  fixes u :: "'a led_st_scheme"
  shows "all_open (u\<lparr>eLedFlashing_Pattern := a, u16Period := b\<rparr>) = all_open u"
    "all_open (u\<lparr>led_threads := x, led_thread_id := y\<rparr>) = all_open u"
    "all_open (u\<lparr>eLedFlashing_Color := k\<rparr>) = all_open u"
    "pin_shows (u\<lparr>eLedFlashing_Pattern := a, u16Period := b\<rparr>) q = pin_shows u q"
    "pin_shows (u\<lparr>eLedFlashing_Color := k\<rparr>) q = pin_shows u q"
    "pin_shows (u\<lparr>led_thread_id := y, next_thread := n, led_threads := x\<rparr>) q = pin_shows u q"
  by (simp_all add: all_open_def pin_shows_def)

lemmas led_pins = IO_LED_R_CTRL_def IO_LED_G_CTRL_def IO_LED_B_CTRL_def

lemma pattern_keeps_state [simp]: "m_eLED_State (snd (Pega_led_flash_Pattern_Set p s)) = m_eLED_State s"
  by (simp add: Pega_led_flash_Pattern_Set_def led_pattern_switch_def solid_def flash_color_def led_pins
      Pega_led_flash_Chanel_def Pega_led_flash_handler_Start_def)

lemma accepted_state: "0 \<le> Pega_led_flash_state_priority_get (uint (e :: u16)) \<Longrightarrow> uint (ucast e :: u8) = uint e"
proof -
  assume "0 \<le> Pega_led_flash_state_priority_get (uint e)"
  then have "uint e \<le> 6" by (simp add: priorities split: if_splits)
  then have "uint e mod 256 = uint e" using uint_ge_0 [of e] by simp
  then show ?thesis by (simp add: unsigned_ucast_eq take_bit_eq_mod)
qed

lemma state_set_priority:
  "Pega_led_flash_state_priority_get (uint (m_eLED_State s)) \<le>
    Pega_led_flash_state_priority_get (uint (m_eLED_State (snd (Pega_led_flash_state_Set e s))))"
  by (auto simp: Pega_led_flash_state_Set_def Let_def accepted_state)

lemma state_set_off: "m_eLED_State s = 6 \<Longrightarrow> snd (Pega_led_flash_state_Set e s) = s"
proof -
  assume off: "m_eLED_State s = 6"
  have "e = 6" if "uint e = 6" using that by (simp add: word_uint_eq_iff)
  then show ?thesis
    using off by (auto simp: Pega_led_flash_state_Set_def Let_def priorities)
qed

text \<open>
  C16: Over any sequence of requests the priority of the LED state never falls, and once it shows
  that the power goes off no request changes anything any more.
\<close>

theorem led_priority_never_falls:
  "Pega_led_flash_state_priority_get (uint (m_eLED_State s)) \<le> Pega_led_flash_state_priority_get
     (uint (m_eLED_State (fold (\<lambda>e s. snd (Pega_led_flash_state_Set e s)) es s))) \<and>
   fold (\<lambda>e s. snd (Pega_led_flash_state_Set e s)) es (s\<lparr>m_eLED_State := 6\<rparr>) = s\<lparr>m_eLED_State := 6\<rparr>"
proof
  show "Pega_led_flash_state_priority_get (uint (m_eLED_State s)) \<le> Pega_led_flash_state_priority_get
     (uint (m_eLED_State (fold (\<lambda>e s. snd (Pega_led_flash_state_Set e s)) es s)))"
    by (induction es arbitrary: s) (use state_set_priority in \<open>auto intro: order_trans\<close>)
  show "fold (\<lambda>e s. snd (Pega_led_flash_state_Set e s)) es (s\<lparr>m_eLED_State := 6\<rparr>) = s\<lparr>m_eLED_State := 6\<rparr>"
    by (induction es) (simp_all add: state_set_off)
qed

text \<open>The state in which the pattern switch starts: no thread, all colours off.\<close>

lemma pattern_set_cleared:
  assumes "all_open s"
  obtains c where "Pega_led_flash_Pattern_Set p s = led_pattern_switch p c" and "all_open c"
    and "pin_shows c IO_O_LED_R = Some ''0''" and "pin_shows c IO_O_LED_G = Some ''0''"
    and "pin_shows c IO_O_LED_B = Some ''0''" and "m_eLED_State c = m_eLED_State s"
    and "next_thread c = next_thread s" and "u16Period c = 500"
    and "led_threads c = filter (\<lambda>x. led_thread_id s = 0 \<or> fst x \<noteq> led_thread_id s) (led_threads s)"
proof (rule that)
  let ?c = "seq [Pega_led_flash_Chanel, usleep 200000,
      IO_LED_R_CTRL False, IO_LED_G_CTRL False, IO_LED_B_CTRL False,
      (\<lambda>s. s\<lparr>eLedFlashing_Pattern := ucast p, u16Period := 500\<rparr>)] s"
  show "Pega_led_flash_Pattern_Set p s = led_pattern_switch p ?c"
    by (simp only: Pega_led_flash_Pattern_Set_def)
  show "all_open ?c" "pin_shows ?c IO_O_LED_R = Some ''0''" "pin_shows ?c IO_O_LED_G = Some ''0''"
    "pin_shows ?c IO_O_LED_B = Some ''0''" "m_eLED_State ?c = m_eLED_State s"
    "next_thread ?c = next_thread s" "u16Period ?c = 500"
    "led_threads ?c = filter (\<lambda>x. led_thread_id s = 0 \<or> fst x \<noteq> led_thread_id s) (led_threads s)"
    using assms by (simp_all add: Pega_led_flash_Chanel_def led_pins)
qed

text \<open>
  C17: An accepted request makes the three LED pins show exactly the colours of the state: blue
  when the Wi-Fi is ready, yellow when it is off, red on a firmware error, dark otherwise. Only
  the start-up state has a flashing thread, yellow with a period of 500 ms; a thread that flashed
  before is cancelled. The two dark states end in the default branch of the pattern switch, so
  their success is reported as -1.
\<close>

theorem led_state_shows:
  assumes "all_open s" and "0 < e" and "e \<le> 6" and "ucast (m_eLED_State s) \<noteq> e"
    and "Pega_led_flash_state_priority_get (uint (m_eLED_State s)) \<le> Pega_led_flash_state_priority_get (uint e)"
  shows "fst (Pega_led_flash_state_Set e s) = (if e = LED_State_Off \<or> e = LED_State_Power_off then -1 else 0) \<and>
    (let t = snd (Pega_led_flash_state_Set e s) in
      m_eLED_State t = ucast e \<and>
      pin_shows t IO_O_LED_R = Some (if e = LED_State_Wifi_off \<or> e = LED_State_Wifi_fw_error then ''1'' else ''0'') \<and>
      pin_shows t IO_O_LED_G = Some (if e = LED_State_Wifi_off then ''1'' else ''0'') \<and>
      pin_shows t IO_O_LED_B = Some (if e = LED_State_Wifi_Ready then ''1'' else ''0'') \<and>
      led_threads t = (if e = LED_State_System_Start_Up then [(next_thread s, Led_start)] else []) @
        filter (\<lambda>x. led_thread_id s = 0 \<or> fst x \<noteq> led_thread_id s) (led_threads s))"
proof -
  have e: "e \<in> {1, 2, 3, 4, 5, 6}"
    using assms(2,3) by (auto simp: word_unat_eq_iff word_less_nat_alt word_le_nat_alt)
  define u where "u = s\<lparr>m_eLED_State_prev := m_eLED_State s, m_eLED_State := ucast e\<rparr>"
  have u: "Pega_led_flash_state_Set e s = Pega_led_flash_Pattern_Set (led_state_pattern (ucast e)) u"
    using assms(4,5) e by (auto simp: Pega_led_flash_state_Set_def Let_def priorities u_def)
  have "all_open u" "m_eLED_State u = ucast e" "next_thread u = next_thread s"
    "led_thread_id u = led_thread_id s" "led_threads u = led_threads s"
    using assms(1) by (simp_all add: u_def all_open_def)
  with pattern_set_cleared [of u "led_state_pattern (ucast e)"] obtain c where
    c: "Pega_led_flash_Pattern_Set (led_state_pattern (ucast e)) u = led_pattern_switch (led_state_pattern (ucast e)) c"
      "all_open c" "pin_shows c IO_O_LED_R = Some ''0''" "pin_shows c IO_O_LED_G = Some ''0''"
      "pin_shows c IO_O_LED_B = Some ''0''" "m_eLED_State c = ucast e" "next_thread c = next_thread s"
      "led_threads c = filter (\<lambda>x. led_thread_id s = 0 \<or> fst x \<noteq> led_thread_id s) (led_threads s)"
    by metis
  have start: "pin_shows (Pega_led_flash_handler_Start (c\<lparr>eLedFlashing_Color := k\<rparr>)) q = pin_shows c q" for k q
    by (simp add: Pega_led_flash_handler_Start_def)
  from e show ?thesis
    unfolding u c(1)
    by (elim insertE emptyE; simp add: led_state_pattern_def led_pattern_switch_def solid_def led_pins
        flash_color_def c start) (simp add: Pega_led_flash_handler_Start_def c)
qed

lemma quiet_static [simp]: "all_open (misc_static quiet_env)" "m_eLED_State (misc_static quiet_env) = 0"
  by (simp_all add: all_open_def misc_static_def nv_initial_def quiet_env_def)

theorem led_state_shows_witness:
  "pin_shows (snd (Pega_led_flash_state_Set LED_State_Wifi_off (misc_static quiet_env))) IO_O_LED_G = Some ''1''"
  using led_state_shows [of "misc_static quiet_env" LED_State_Wifi_off] by (simp add: priorities Let_def)

subsection \<open>The flashing thread\<close>

lemma flash_phase:
  assumes "map_of (led_threads x) th = Some ph" and "all_open x" and "eLedFlashing_Color x = 3"
    and "u16Period x = 500" and "pin_shows x IO_O_LED_B = Some ''0''"
  defines "y \<equiv> Pega_led_flash_TaskHandler th x"
  shows "all_open y \<and> eLedFlashing_Color y = 3 \<and> u16Period y = 500 \<and>
    map_of (led_threads y) th = Some (if ph = Led_lit then Led_dark else Led_lit) \<and>
    pin_shows y IO_O_LED_R = Some (if ph = Led_lit then ''0'' else ''1'') \<and>
    pin_shows y IO_O_LED_G = Some (if ph = Led_lit then ''0'' else ''1'') \<and>
    pin_shows y IO_O_LED_B = Some ''0'' \<and> hd (mlog y) = Usleep 500000"
proof -
  have upd: "map_of (map (\<lambda>x. if fst x = th then (th, q) else x) xs) th =
      (if map_of xs th = None then None else Some q)" for xs :: "(nat \<times> led_phase) list" and q
    by (induction xs) auto
  have set: "all_open (u\<lparr>led_threads := ts\<rparr>) = all_open u" "pin_shows (u\<lparr>led_threads := ts\<rparr>) q = pin_shows u q"
    "all_open (u\<lparr>bIsLedFlashing := b, u16Period := w\<rparr>) = all_open u"
    "pin_shows (u\<lparr>bIsLedFlashing := b, u16Period := w\<rparr>) q = pin_shows u q"
    for u :: "'a led_st_scheme" and ts b w q
    by (simp_all add: all_open_def pin_shows_def)
  show ?thesis
    using assms(1-5) unfolding y_def
    by (cases ph) (simp_all add: Pega_led_flash_TaskHandler_def flash_prologue_def flash_on_def flash_off_def
      flash_leds_def led_pins upd set)
qed

text \<open>
  From the start-up state the flashing thread lights red and green and blanks them in turn,
  each for 500 ms, and never lights blue: after an odd number of its steps the LED is yellow,
  after an even number dark.
\<close>

theorem start_up_blinks_yellow:
  assumes "all_open s" and "m_eLED_State s \<le> 1"
  shows "let x = (Pega_led_flash_TaskHandler (next_thread s) ^^ Suc n)
             (snd (Pega_led_flash_state_Set LED_State_System_Start_Up s)) in
    pin_shows x IO_O_LED_R = Some (if even n then ''1'' else ''0'') \<and>
    pin_shows x IO_O_LED_G = Some (if even n then ''1'' else ''0'') \<and>
    pin_shows x IO_O_LED_B = Some ''0'' \<and> hd (mlog x) = Usleep 500000"
proof -
  let ?T = "Pega_led_flash_TaskHandler (next_thread s)"
  define u where "u = s\<lparr>m_eLED_State_prev := m_eLED_State s, m_eLED_State := 2\<rparr>"
  have "m_eLED_State s \<in> {0, 1}" using assms(2) by (auto simp: word_unat_eq_iff word_le_nat_alt)
  then have u: "Pega_led_flash_state_Set LED_State_System_Start_Up s = Pega_led_flash_Pattern_Set 13 u"
    by (auto simp: Pega_led_flash_state_Set_def Let_def priorities u_def led_state_pattern_def)
  have "all_open u" "next_thread u = next_thread s"
    using assms(1) by (simp_all add: u_def all_open_def)
  with pattern_set_cleared [of u 13] obtain c where
    c: "Pega_led_flash_Pattern_Set 13 u = led_pattern_switch 13 c" "all_open c"
      "pin_shows c IO_O_LED_B = Some ''0''" "next_thread c = next_thread s" "u16Period c = 500"
    by metis
  define t where "t = snd (Pega_led_flash_state_Set LED_State_System_Start_Up s)"
  have t: "t = Pega_led_flash_handler_Start (c\<lparr>eLedFlashing_Color := 3\<rparr>)"
    by (simp add: t_def u c(1) led_pattern_switch_def flash_color_def)
  have "all_open t \<and> eLedFlashing_Color t = 3 \<and> u16Period t = 500 \<and>
      map_of (led_threads t) (next_thread s) = Some Led_start \<and> pin_shows t IO_O_LED_B = Some ''0''"
    using c by (simp add: t Pega_led_flash_handler_Start_def) (simp add: all_open_def)
  then have "let x = (?T ^^ Suc n) t in all_open x \<and> eLedFlashing_Color x = 3 \<and> u16Period x = 500 \<and>
      map_of (led_threads x) (next_thread s) = Some (if even n then Led_lit else Led_dark) \<and>
      pin_shows x IO_O_LED_R = Some (if even n then ''1'' else ''0'') \<and>
      pin_shows x IO_O_LED_G = Some (if even n then ''1'' else ''0'') \<and>
      pin_shows x IO_O_LED_B = Some ''0'' \<and> hd (mlog x) = Usleep 500000"
  proof (induction n)
    case 0
    then show ?case using flash_phase [of t "next_thread s" Led_start] by (simp add: Let_def)
  next
    case (Suc n)
    then show ?case
      using flash_phase [of "(?T ^^ Suc n) t" "next_thread s" "if even n then Led_lit else Led_dark"]
      by (simp add: Let_def)
  qed
  then show ?thesis by (simp only: Let_def t_def)
qed

theorem start_up_blinks_yellow_witness:
  "pin_shows ((Pega_led_flash_TaskHandler (next_thread (misc_static quiet_env)) ^^ Suc 8)
      (snd (Pega_led_flash_state_Set LED_State_System_Start_Up (misc_static quiet_env)))) IO_O_LED_R = Some ''1''"
  using start_up_blinks_yellow [of "misc_static quiet_env" 8] by (simp only: Let_def) simp

subsection \<open>Day and night\<close>

text \<open>
  A round of the decision as its counters see it: no reading, dark, bright, or in between. The
  thresholds and the level are those the round has used.
\<close>

datatype nv_level = No_reading | Dark | Bright | Between

definition nv_level :: "'a nv_st_scheme \<Rightarrow> nv_level" where
  "nv_level t = (if m_tmpfLux t < 0 then No_reading else if fLux t < fNightModeThd t then Dark
     else if fLux t > fDayModeThd t then Bright else Between)"

text \<open>The automaton of mode, day count and night count.\<close>

definition nv_auto :: "int \<Rightarrow> nv_level \<Rightarrow> u8 \<times> u8 \<times> u8 \<Rightarrow> u8 \<times> u8 \<times> u8" where
  "nv_auto T l c = (case c of (mode, d, n) \<Rightarrow>
     if l = Dark then (if uint n \<ge> T - 1 then (1, 0, n) else (mode, d, n + 1))
     else if l = Bright then (if uint d \<ge> T - 1 then (0, d, 0) else (mode, d + 1, n))
     else c)"

definition nv_view :: "'a nv_st_scheme \<Rightarrow> u8 \<times> u8 \<times> u8" where
  "nv_view s = (bIsNightMode s, u8DayModeCounts s, u8NightModeCounts s)"

text \<open>What a round does not change.\<close>

definition nv_config :: "'a nv_st_scheme \<Rightarrow> u8 \<times> int \<times> rat \<times> rat" where
  "nv_config s = (bIsNVModeAuto s, sTriggerCounts s, fNightModeThd s, fDayModeThd s)"

lemma force_keeps: 
  fixes s :: "'a nv_st_scheme"
  shows "nv_view (Pega_Force_Day_Night_Mode b s) = nv_view s" "nv_config (Pega_Force_Day_Night_Mode b s) = nv_config s"
    "fLux (Pega_Force_Day_Night_Mode b s) = fLux s" "m_tmpfLux (Pega_Force_Day_Night_Mode b s) = m_tmpfLux s"
proof -
  have more: "als_st.more (Pega_Force_Day_Night_Mode b s) = als_st.more s"
    unfolding Pega_Force_Day_Night_Mode_def
    by (intro more_als more_led) (auto intro: seq_keeps)
  obtain t where t: "t = Pega_Force_Day_Night_Mode b s" by simp
  show "nv_view (Pega_Force_Day_Night_Mode b s) = nv_view s"
    "nv_config (Pega_Force_Day_Night_Mode b s) = nv_config s"
    "fLux (Pega_Force_Day_Night_Mode b s) = fLux s" "m_tmpfLux (Pega_Force_Day_Night_Mode b s) = m_tmpfLux s"
    using more unfolding t [symmetric] by (cases s; cases t; simp add: nv_view_def nv_config_def)+
qed

lemma mode_sets:
  fixes x :: "'a nv_st_scheme"
  shows "nv_view (Pega_NV_Mode_Night_Mode_Set x) = (1, u8DayModeCounts x, u8NightModeCounts x)"
    "nv_view (Pega_NV_Mode_Day_Mode_Set x) = (0, u8DayModeCounts x, u8NightModeCounts x)"
    "nv_config (Pega_NV_Mode_Night_Mode_Set x) = nv_config x" "nv_config (Pega_NV_Mode_Day_Mode_Set x) = nv_config x"
    "fLux (Pega_NV_Mode_Night_Mode_Set x) = fLux x" "m_tmpfLux (Pega_NV_Mode_Night_Mode_Set x) = m_tmpfLux x"
    "fLux (Pega_NV_Mode_Day_Mode_Set x) = fLux x" "m_tmpfLux (Pega_NV_Mode_Day_Mode_Set x) = m_tmpfLux x"
  by (simp_all add: Pega_NV_Mode_Night_Mode_Set_def Pega_NV_Mode_Day_Mode_Set_def force_keeps)
    (simp_all add: nv_view_def nv_config_def)

lemma dark_steps:
  fixes v :: "'a nv_st_scheme"
  assumes "(r, t) = nv_day_step (nv_night_step (r0, v))" and "0 \<le> m_tmpfLux v"
    and dark: "fLux v < fNightModeThd v" "\<not> fLux v > fDayModeThd v"
  shows "nv_view t = nv_auto (sTriggerCounts v) (nv_level t) (nv_view v) \<and> nv_config t = nv_config v"
proof (cases "uint (u8NightModeCounts v) \<ge> sTriggerCounts v - 1")
  case True
  define w where "w = Pega_NV_Mode_Night_Mode_Set (v\<lparr>u8DayModeCounts := 0\<rparr>)"
  have w: "nv_view w = (1, 0, u8NightModeCounts v)" "nv_config w = nv_config v" "fLux w = fLux v"
    "m_tmpfLux w = m_tmpfLux v"
    by (simp_all add: w_def mode_sets) (simp add: nv_config_def)
  then have "t = w"
    using assms(1) dark True
    by (simp add: nv_night_step_def nv_day_step_def w_def [symmetric] nv_config_def)
  then show ?thesis
    using w dark True assms(2) by (simp add: nv_level_def nv_auto_def nv_config_def) (simp add: nv_view_def)
next
  case False
  then have "t = v\<lparr>u8NightModeCounts := u8NightModeCounts v + 1\<rparr>"
    using assms(1) dark by (simp add: nv_night_step_def nv_day_step_def)
  then show ?thesis
    using False dark assms(2) by (simp add: nv_level_def nv_auto_def nv_config_def nv_view_def)
qed

lemma bright_steps:
  fixes v :: "'a nv_st_scheme"
  assumes "(r, t) = nv_day_step (nv_night_step (r0, v))" and "0 \<le> m_tmpfLux v"
    and bright: "\<not> fLux v < fNightModeThd v" "fLux v > fDayModeThd v"
  shows "nv_view t = nv_auto (sTriggerCounts v) (nv_level t) (nv_view v) \<and> nv_config t = nv_config v"
proof (cases "uint (u8DayModeCounts v) \<ge> sTriggerCounts v - 1")
  case True
  define w where "w = Pega_NV_Mode_Day_Mode_Set (v\<lparr>u8NightModeCounts := 0\<rparr>)"
  have w: "nv_view w = (0, u8DayModeCounts v, 0)" "nv_config w = nv_config v" "fLux w = fLux v"
    "m_tmpfLux w = m_tmpfLux v"
    by (simp_all add: w_def mode_sets) (simp add: nv_config_def)
  have "t = w" using assms(1) bright True by (simp add: nv_night_step_def nv_day_step_def w_def)
  then show ?thesis
    using w bright True assms(2) by (simp add: nv_level_def nv_auto_def nv_config_def) (simp add: nv_view_def)
next
  case False
  then have "t = v\<lparr>u8DayModeCounts := u8DayModeCounts v + 1\<rparr>"
    using assms(1) bright by (simp add: nv_night_step_def nv_day_step_def)
  then show ?thesis
    using False bright assms(2) by (simp add: nv_level_def nv_auto_def nv_config_def nv_view_def)
qed

lemma threshold_steps:
  fixes v :: "'a nv_st_scheme"
  assumes "(r, t) = nv_day_step (nv_night_step (r0, v))" and "0 \<le> m_tmpfLux v"
    and "fNightModeThd v \<le> fDayModeThd v"
  shows "nv_view t = nv_auto (sTriggerCounts v) (nv_level t) (nv_view v) \<and> nv_config t = nv_config v"
proof -
  consider (dark) "fLux v < fNightModeThd v" "\<not> fLux v > fDayModeThd v"
    | (bright) "\<not> fLux v < fNightModeThd v" "fLux v > fDayModeThd v"
    | (between) "\<not> fLux v < fNightModeThd v" "\<not> fLux v > fDayModeThd v" using assms(3) by fastforce
  then show ?thesis
  proof cases
    case between
    then have "t = v" using assms(1) by (simp add: nv_night_step_def nv_day_step_def)
    then show ?thesis using between assms(2) by (simp add: nv_level_def nv_auto_def)
  qed (rule dark_steps [OF assms(1,2)] bright_steps [OF assms(1,2)]; assumption)+
qed

lemma processing_auto:
  assumes "Pega_NV_Mode_Processing s = Some (r, t)" and "bIsNVModeAuto s = 1"
    and "fNightModeThd s \<le> fDayModeThd s"
  shows "nv_view t = nv_auto (sTriggerCounts s) (nv_level t) (nv_view s)" and "nv_config t = nv_config s"
proof -
  obtain l u where lux: "OPT300x_Read_Lux_Handler s = Some (l, u)"
    and t: "if l < 0 then t = u\<lparr>m_tmpfLux := l\<rparr>
      else (r, t) = nv_day_step (nv_night_step (0, snd (Pega_NV_Mode_Lux_Update l (u\<lparr>m_tmpfLux := l\<rparr>))))"
    using assms(1,2) by (auto simp: Pega_NV_Mode_Processing_def Let_def split: Option.bind_splits if_splits)
  have u: "nv_view u = nv_view s" "nv_config u = nv_config s"
    using read_lux_more [OF lux] by (cases s; cases u; simp add: nv_view_def nv_config_def)+
  have "nv_view t = nv_auto (sTriggerCounts s) (nv_level t) (nv_view s) \<and> nv_config t = nv_config s"
  proof (cases "l < 0")
    case True
    then have "t = u\<lparr>m_tmpfLux := l\<rparr>" using t by simp
    then show ?thesis using u True by (simp add: nv_view_def nv_config_def nv_level_def nv_auto_def)
  next
    case False
    define v where "v = snd (Pega_NV_Mode_Lux_Update l (u\<lparr>m_tmpfLux := l\<rparr>))"
    have v: "nv_view v = nv_view s" "nv_config v = nv_config s" "m_tmpfLux v = l"
      using u by (simp_all add: v_def Pega_NV_Mode_Lux_Update_def Let_def nv_view_def nv_config_def)
    have "(r, t) = nv_day_step (nv_night_step (0, v))" using t False v_def by simp
    moreover have "sTriggerCounts v = sTriggerCounts s" "fNightModeThd v \<le> fDayModeThd v"
      using v assms(3) by (simp_all add: nv_config_def)
    ultimately show ?thesis using threshold_steps [of r t 0 v] v False by simp
  qed
  then show "nv_view t = nv_auto (sTriggerCounts s) (nv_level t) (nv_view s)" "nv_config t = nv_config s"
    by simp_all
qed

fun nv_run :: "nat \<Rightarrow> 'a nv_st_scheme \<Rightarrow> (nv_level list \<times> 'a nv_st_scheme) option" where
  "nv_run 0 s = Some ([], s)"
| "nv_run (Suc n) s = Option.bind (Pega_NV_Mode_Processing s) (\<lambda>(r, t).
     map_option (\<lambda>(ls, u). (nv_level t # ls, u)) (nv_run n t))"

lemma nv_run_auto:
  assumes "nv_run k s = Some (ls, t)" and "bIsNVModeAuto s = 1" and "fNightModeThd s \<le> fDayModeThd s"
  shows "nv_view t = fold (nv_auto (sTriggerCounts s)) ls (nv_view s) \<and> nv_config t = nv_config s"
  using assms
proof (induction k arbitrary: s ls)
  case (Suc k)
  from Suc.prems(1) obtain r u ls' where u: "Pega_NV_Mode_Processing s = Some (r, u)"
    "nv_run k u = Some (ls', t)" "ls = nv_level u # ls'"
    by (auto split: Option.bind_splits)
  note a = processing_auto [OF u(1) Suc.prems(2,3)]
  then have "bIsNVModeAuto u = 1" "fNightModeThd u \<le> fDayModeThd u" "sTriggerCounts u = sTriggerCounts s"
    using Suc.prems(2,3) by (simp_all add: nv_config_def)
  with Suc.IH [OF u(2)] a show ?case by (simp add: u(3))
qed (simp add: nv_view_def)

lemma auto_rounds:
  assumes "1 \<le> T" and "T \<le> 256" and "uint d + int (count_list ls Bright) < T"
  shows "fst (fold (nv_auto T) ls (m, d, n)) =
    (if 0 < count_list ls Dark \<and> T \<le> uint n + int (count_list ls Dark) then 1 else m)"
  using assms(3)
proof (induction ls arbitrary: m d n)
  case (Cons l ls)
  have up: "uint (x + 1) = uint x + 1" if "uint x < T - 1" for x :: u8
    using that assms(2) uint_ge_0 [of x] by (simp add: uint_word_ariths)
  show ?case
  proof (cases l)
    case Dark
    have "uint d + int (count_list ls Bright) < T" using Cons.prems Dark by simp
    then have "int (count_list ls Bright) < T" using uint_ge_0 [of d] by linarith
    then show ?thesis
      using Dark Cons.IH [of 0 1 n] Cons.IH [of d m "n + 1"] Cons.prems up [of n] assms(1)
      by (cases "uint n \<ge> T - 1") (simp_all add: nv_auto_def)
  next
    case Bright
    then show ?thesis using Cons.IH [of "d + 1" m n] Cons.prems up [of d] by (simp add: nv_auto_def)
  qed (use Cons in \<open>simp_all add: nv_auto_def\<close>)
qed simp

lemma auto_stuck:
  assumes "256 < T"
  shows "fst (fold (nv_auto T) ls c) = fst c"
proof (induction ls arbitrary: c)
  case (Cons l ls)
  have "\<not> uint x \<ge> T - 1" for x :: u8 using uint_lt2p [of x] assms by simp
  then show ?case using Cons by (simp add: nv_auto_def split: prod.split)
qed simp

text \<open>
  C12: In automatic mode the daemon switches to night when the dark rounds since the last switch
  to day reach the trigger count, as long as the bright rounds do not: the dark rounds need not
  follow each other, and neither bright rounds in between nor a switch to night restart the count.
\<close>

theorem night_after_enough_dark_rounds:
  assumes "nv_run k s = Some (ls, t)" and "bIsNVModeAuto s = 1" and "fNightModeThd s \<le> fDayModeThd s"
    and "1 \<le> sTriggerCounts s" and "sTriggerCounts s \<le> 256"
    and "uint (u8DayModeCounts s) + int (count_list ls Bright) < sTriggerCounts s"
  shows "bIsNightMode t = (if 0 < count_list ls Dark \<and>
      sTriggerCounts s \<le> uint (u8NightModeCounts s) + int (count_list ls Dark) then 1 else bIsNightMode s)"
proof -
  have "bIsNightMode t = fst (nv_view t)" by (simp add: nv_view_def)
  also have "\<dots> = fst (fold (nv_auto (sTriggerCounts s)) ls (nv_view s))"
    using nv_run_auto [OF assms(1-3)] by simp
  finally show ?thesis
    using auto_rounds [OF assms(4-6)] by (simp add: nv_view_def)
qed

definition dark_env :: misc_env where
  "dark_env = quiet_env\<lparr>i2c_open := \<lambda>h d. 3, i2c_write_ret := \<lambda>h fd a bs. int (length bs),
     i2c_read_ret := \<lambda>h fd a n. Some (replicate n 0)\<rparr>"

definition dark_board :: misc where
  "dark_board = (misc_static dark_env)\<lparr>m_Als_i2cFile := 3, als_fLux_old := 1, sTriggerCounts := 1\<rparr>"

lemma lux_0: "lux_of 0 = 0"
  by (simp add: lux_of_def f32_def)

lemma dark_reading:
  assumes "menv s = dark_env" and "m_Als_i2cFile s = 3" and "als_fLux_old s \<noteq> 0"
  shows "\<exists>u. OPT300x_Read_Lux_Handler s = Some (0, u) \<and> als_st.more u = als_st.more s"
proof -
  have "OPT300X_I2C_ReadFromSlave 0 0 s = Some (1, 0, emit (I2c_read 0x44 2) (emit (I2c_write 0x44 [0]) s))"
    using assms(1,2) by (simp add: OPT300X_I2C_ReadFromSlave_def pega_i2c_Read_def pega_i2cSetAddress_def
        bus_write_def i2c_reg_bytes_def i2c_read_len_def byte_of_def dark_env_def quiet_env_def
        OPT300X_I2C_Word_Data_Swap_def Let_def eval_nat_numeral)
  then have "OPT300x_Read_Lux_Handler s = Some (0, (emit (I2c_read 0x44 2) (emit (I2c_write 0x44 [0]) s))
      \<lparr>als_fLux := 0, als_fLux_old := 0\<rparr>)"
    using assms(3) by (simp add: OPT300x_Read_Lux_Handler_def OPT300x_Read_Lux_def lux_0 emit_def)
  then show ?thesis using read_lux_more by blast
qed

lemma nv_fields:
  fixes s t :: "'a nv_st_scheme"
  assumes "als_st.more t = als_st.more s"
  shows "bIsNVModeAuto t = bIsNVModeAuto s" "fNightModeThd t = fNightModeThd s" "fDayModeThd t = fDayModeThd s"
    "fLuxCal t = fLuxCal s" "fOffset t = fOffset s" "sTriggerCounts t = sTriggerCounts s"
    "u8NightModeCounts t = u8NightModeCounts s" "bIsNightMode t = bIsNightMode s"
  using assms by (cases s; cases t; simp)+

lemma first_dark_round:
  fixes s u :: "'a nv_st_scheme"
  assumes "OPT300x_Read_Lux_Handler s = Some (0, u)" and "als_st.more u = als_st.more s"
    and "bIsNVModeAuto s = 1" and "0 < fNightModeThd s" and "0 < fDayModeThd s" and "fOffset s = 0"
    and "sTriggerCounts s = 1"
  shows "\<exists>t. nv_run 1 s = Some ([Dark], t)"
proof -
  define v where "v = snd (Pega_NV_Mode_Lux_Update 0 (u\<lparr>m_tmpfLux := 0\<rparr>))"
  have v: "fLux v = 0" "fNightModeThd v = fNightModeThd s" "fDayModeThd v = fDayModeThd s"
    "sTriggerCounts v = 1" "m_tmpfLux v = 0"
    using assms(6,7) nv_fields [OF assms(2)]
    by (simp_all add: v_def Pega_NV_Mode_Lux_Update_def f32_def Let_def)
  define w where "w = Pega_NV_Mode_Night_Mode_Set (v\<lparr>u8DayModeCounts := 0\<rparr>)"
  have w: "fLux w = 0" "m_tmpfLux w = 0" "nv_config w = nv_config v"
    using v by (simp_all add: w_def mode_sets) (simp add: nv_config_def)
  have "Pega_NV_Mode_Processing s = Some (nv_day_step (nv_night_step (0, v)))"
    using assms(1,3) by (simp add: Pega_NV_Mode_Processing_def v_def Let_def)
  also have "nv_night_step (0, v) = (2, w)"
    using v assms(4) by (simp add: nv_night_step_def w_def)
  also have "nv_day_step (2, w) = (2, w)"
    using v w assms(5) by (simp add: nv_day_step_def nv_config_def)
  finally have "Pega_NV_Mode_Processing s = Some (2, w)" .
  moreover have "nv_level w = Dark" using v w assms(4) by (simp add: nv_level_def nv_config_def)
  ultimately show ?thesis by simp
qed

lemma board_values:
  "menv dark_board = dark_env" "m_Als_i2cFile dark_board = 3" "als_fLux_old dark_board \<noteq> 0"
  "bIsNVModeAuto dark_board = 1" "fNightModeThd dark_board = 2" "fDayModeThd dark_board = 5"
  "fOffset dark_board = 0" "sTriggerCounts dark_board = 1" "u8NightModeCounts dark_board = 0"
  "u8DayModeCounts dark_board = 0"
  by (simp_all add: dark_board_def misc_static_def nv_initial_def)

lemma dark_rounds: "\<exists>t. nv_run 1 dark_board = Some ([Dark], t)"
proof -
  obtain u where "OPT300x_Read_Lux_Handler dark_board = Some (0, u)" "als_st.more u = als_st.more dark_board"
    using dark_reading [OF board_values(1-3)] by blast
  then show ?thesis by (rule first_dark_round) (simp_all add: board_values)
qed

theorem night_after_enough_dark_rounds_witness:
  "\<exists>t. nv_run 1 dark_board = Some ([Dark], t) \<and> bIsNightMode t = 1"
proof -
  obtain t where t: "nv_run 1 dark_board = Some ([Dark], t)" using dark_rounds by blast
  from night_after_enough_dark_rounds [OF t] have "bIsNightMode t = 1" by (simp add: board_values)
  with t show ?thesis by blast
qed

text \<open>
  A trigger count above 256 disables the automatic switching: the counters are bytes and wrap
  before they reach it, so the mode stays what it was whatever the light.
\<close>

theorem large_trigger_count_never_switches:
  assumes "nv_run k s = Some (ls, t)" and "bIsNVModeAuto s = 1" and "fNightModeThd s \<le> fDayModeThd s"
    and "256 < sTriggerCounts s"
  shows "bIsNightMode t = bIsNightMode s"
proof -
  have "bIsNightMode t = fst (nv_view t)" "bIsNightMode s = fst (nv_view s)" by (simp_all add: nv_view_def)
  then show ?thesis
    using nv_run_auto [OF assms(1-3)] auto_stuck [OF assms(4)] by simp
qed

theorem large_trigger_count_never_switches_witness:
  "\<exists>ls t. nv_run 1 (pga_set_NV_TriggerCounts 300 dark_board) = Some (ls, t) \<and> bIsNightMode t = 3"
proof -
  let ?s = "pga_set_NV_TriggerCounts 300 dark_board"
  have "menv ?s = dark_env" "m_Als_i2cFile ?s = 3" "als_fLux_old ?s \<noteq> 0"
    by (simp_all add: pga_set_NV_TriggerCounts_def board_values)
  then obtain u where u: "OPT300x_Read_Lux_Handler ?s = Some (0, u)" using dark_reading by blast
  have s: "bIsNVModeAuto ?s = 1" "fNightModeThd ?s = 2" "fDayModeThd ?s = 5" "sTriggerCounts ?s = 300"
    "bIsNightMode ?s = 3"
    by (simp_all add: pga_set_NV_TriggerCounts_def board_values) (simp add: dark_board_def misc_static_def nv_initial_def)
  obtain r t where "nv_day_step (nv_night_step (0, snd (Pega_NV_Mode_Lux_Update 0 (u\<lparr>m_tmpfLux := 0\<rparr>)))) = (r, t)"
    by fastforce
  then have "nv_run 1 ?s = Some ([nv_level t], t)"
    using u s(1) by (simp add: Pega_NV_Mode_Processing_def Let_def)
  with large_trigger_count_never_switches [OF this] s show ?thesis by auto
qed

subsection \<open>Outputs of a switch\<close>

lemmas ircut_pins = IO_IR_CUT1_CTRL_def IO_IR_CUT2_CTRL_def

lemma ircut_open [simp]: "all_open (Pega_Gpio_IRCut_Control b s) = all_open s"
  by (simp add: Pega_Gpio_IRCut_Control_def Pega_Gpio_IRCut_status_set_def ircut_pins) (simp add: all_open_def)

lemma ircut_log:
  assumes "all_open s"
  shows "\<exists>h h'. mlog (Pega_Gpio_IRCut_Control b s) = h' @ Usleep 200000 # h @ mlog s \<and>
    (\<forall>g. last_write (h @ g) (Gpio_value IO_O_IR_CUT_IN1) = Some (if b = 1 then ''1'' else ''0'') \<and>
      last_write (h @ g) (Gpio_value IO_O_IR_CUT_IN2) = Some (if b = 1 then ''0'' else ''1'') \<and>
      last_write (h' @ g) (Gpio_value IO_O_IR_CUT_IN1) = Some ''1'' \<and>
      last_write (h' @ g) (Gpio_value IO_O_IR_CUT_IN2) = Some ''1'') \<and>
    (\<forall>g p. last_write (h' @ Usleep 200000 # h @ g) (Pwm_enable p) = last_write g (Pwm_enable p))"
proof -
  let ?out = "\<lambda>p v. [Close (Gpio_value p), Write_file (Gpio_value p) v, Open (Gpio_value p) True]"
  let ?h = "?out IO_O_IR_CUT_IN2 (if b = 1 then ''0'' else ''1'') @ ?out IO_O_IR_CUT_IN1 (if b = 1 then ''1'' else ''0'')"
  let ?h' = "?out IO_O_IR_CUT_IN2 ''1'' @ ?out IO_O_IR_CUT_IN1 ''1''"
  have "all_open (s\<lparr>bIrcut_enable := k\<rparr>)" for k using assms by (simp add: all_open_def)
  then have "mlog (Pega_Gpio_IRCut_Control b s) = ?h' @ Usleep 200000 # ?h @ mlog s"
    by (simp add: Pega_Gpio_IRCut_Control_def Pega_Gpio_IRCut_status_set_def ircut_pins pin_out_log)
  then show ?thesis by (intro exI [of _ ?h] exI [of _ ?h']) simp
qed

text \<open>
  Switching to night pulses the IR-cut motor towards night for 200 ms and turns the IR LEDs
  on, switching to day turns them off and pulses the motor the other way; after the pulse both
  motor pins rest at the level that means off.
\<close>

theorem mode_switch_outputs:
  assumes "all_open s"
  shows "let t = Pega_Force_Day_Night_Mode b s in
    last_write (mlog t) (Pwm_enable PWM_CH6) = Some (if b \<noteq> 0 then ''1'' else ''0'') \<and>
    pin_shows t IO_O_IR_CUT_IN1 = Some ''1'' \<and> pin_shows t IO_O_IR_CUT_IN2 = Some ''1'' \<and>
    (\<exists>h h'. mlog t = h' @ Usleep 200000 # h \<and>
       last_write h (Gpio_value IO_O_IR_CUT_IN1) = Some (if b \<noteq> 0 then ''0'' else ''1'') \<and>
       last_write h (Gpio_value IO_O_IR_CUT_IN2) = Some (if b \<noteq> 0 then ''1'' else ''0''))"
proof (cases "b = 0")
  case True
  let ?u = "IO_IRLED_CTRL False s"
  have u: "all_open ?u" using assms by (simp add: IO_IRLED_CTRL_def)
  have led: "last_write (mlog ?u) (Pwm_enable 6) = Some ''0''"
    using assms by (simp add: IO_IRLED_CTRL_def pwm_control_log)
  from ircut_log [OF u, of 1] obtain h h' where
    "mlog (Pega_Gpio_IRCut_Control 1 ?u) = h' @ Usleep 200000 # h @ mlog ?u"
    "last_write (h @ mlog ?u) (Gpio_value 80) = Some ''1''" "last_write (h @ mlog ?u) (Gpio_value 81) = Some ''0''"
    "\<forall>g. last_write (h' @ g) (Gpio_value 80) = Some ''1'' \<and> last_write (h' @ g) (Gpio_value 81) = Some ''1''"
    "\<forall>g p. last_write (h' @ Usleep 200000 # h @ g) (Pwm_enable p) = last_write g (Pwm_enable p)"
    by auto
  then show ?thesis
    using True led by (auto simp: Pega_Force_Day_Night_Mode_def pin_shows_def Let_def)
next
  case False
  let ?u = "Pega_Gpio_IRCut_Control 0 s"
  have "all_open ?u" using assms by simp
  then have m: "mlog (IO_IRLED_CTRL True ?u) = [Close (Pwm_enable 6), Write_file (Pwm_enable 6) ''1'',
      Open (Pwm_enable 6) True] @ mlog ?u"
    by (simp add: IO_IRLED_CTRL_def pwm_control_log)
  from ircut_log [OF assms, of 0] obtain h h' where
    h: "mlog ?u = h' @ Usleep 200000 # h @ mlog s"
    "last_write (h @ mlog s) (Gpio_value 80) = Some ''0''" "last_write (h @ mlog s) (Gpio_value 81) = Some ''1''"
    "\<forall>g. last_write (h' @ g) (Gpio_value 80) = Some ''1'' \<and> last_write (h' @ g) (Gpio_value 81) = Some ''1''"
    by auto
  have log: "mlog (IO_IRLED_CTRL True ?u) = ([Close (Pwm_enable 6), Write_file (Pwm_enable 6) ''1'',
      Open (Pwm_enable 6) True] @ h') @ Usleep 200000 # h @ mlog s"
    by (simp add: m h(1))
  have "\<exists>g g'. mlog (IO_IRLED_CTRL True ?u) = g' @ Usleep 200000 # g \<and>
      last_write g (Gpio_value 80) = Some ''0'' \<and> last_write g (Gpio_value 81) = Some ''1''"
    using log h(2,3) by blast
  moreover have "last_write (mlog (IO_IRLED_CTRL True ?u)) (Pwm_enable 6) = Some ''1''" by (simp add: log)
  moreover have "pin_shows (IO_IRLED_CTRL True ?u) 80 = Some ''1''" "pin_shows (IO_IRLED_CTRL True ?u) 81 = Some ''1''"
    using h(4) by (simp_all add: pin_shows_def log)
  moreover have "Pega_Force_Day_Night_Mode b s = IO_IRLED_CTRL True ?u"
    using False by (simp add: Pega_Force_Day_Night_Mode_def)
  ultimately show ?thesis using False by (simp only: Let_def not_False_eq_True if_True simp_thms)
qed

theorem mode_switch_outputs_witness:
  "last_write (mlog (Pega_Force_Day_Night_Mode 1 (misc_static quiet_env))) (Pwm_enable PWM_CH6) = Some ''1''"
  using mode_switch_outputs [of "misc_static quiet_env" 1] by (simp add: Let_def)

end
