(* ===== verification/Misc_Als_Props.thy ===== *)
theory Misc_Als_Props
  imports Misc_Light
begin

text \<open>
  Properties of the light sensor: the accuracy of its level, its register transfers and the repair
  of its mode.
\<close>

subsection \<open>Light level\<close>

lemma weight_table: "n < 11 \<Longrightarrow> LsbWeightTable ! n = f32 (2 ^ n / 100)"
  by (simp add: LsbWeightTable_def eval_nat_numeral less_Suc_eq) (elim disjE; simp)

lemma product_error:
  fixes w m :: rat
  assumes "1 / 100 \<le> w" and "1 \<le> m"
  shows "\<bar>f32 (f32 w * m) - w * m\<bar> \<le> w * m / 4194304"
proof -
  have 1: "\<bar>f32 w - w\<bar> \<le> w / 16777216" using assms by (intro f32_error) simp
  have w: "0 \<le> w" using assms(1) by linarith
  have "\<bar>(f32 w - w) * m\<bar> \<le> (w / 16777216) * m"
    using 1 assms(2) w by (simp only: abs_mult) (rule mult_mono; simp)
  then have 2: "\<bar>f32 w * m - w * m\<bar> \<le> w * m / 16777216" by (simp add: algebra_simps)
  have wm: "1 / 100 \<le> w * m" using assms mult_mono [of "1 / 100" w 1 m] by simp
  then have "1 / 1000 \<le> f32 w * m" using 2 by linarith
  from f32_error [OF this] 2 wm show ?thesis by linarith
qed

text \<open>
  C23: The level computed from a reading with exponent \<open>e\<close> and mantissa \<open>m\<close> is \<open>m * 2 ^ e / 100\<close>
  lux up to a relative error of \<open>2 ^ -22\<close>, in spite of two roundings to \<open>float\<close>; exponents
  above 11 are taken as 11.
\<close>

theorem lux_accuracy:
  "let e = min 11 (unat (drop_bit 12 v)); x = 2 ^ e / 100 * of_nat (unat (v AND 0xFFF)) in
    \<bar>lux_of v - x\<bar> \<le> x * (1 / 2 ^ 22)"
proof -
  define e where "e = unat (drop_bit 12 v)"
  define m :: rat where "m = of_nat (unat (v AND 0xFFF))"
  define w :: rat where "w = 2 ^ min 11 e / 100"
  have lux: "lux_of v = f32 (f32 w * m)"
  proof (cases "e < 11")
    case True
    then show ?thesis by (simp add: lux_of_def Let_def word_less_nat_alt weight_table w_def e_def m_def)
  next
    case False
    then have "min 11 e = 11" by simp
    then show ?thesis using False by (simp add: lux_of_def Let_def word_less_nat_alt w_def e_def m_def)
  qed
  have "(1 :: rat) \<le> 2 ^ min 11 e" by (rule one_le_power) simp
  then have w: "1 / 100 \<le> w" unfolding w_def by (rule divide_right_mono) simp
  have m: "m = 0 \<or> 1 \<le> m"
    unfolding m_def by (cases "unat (v AND 0xFFF)") (simp_all only: of_nat_0 of_nat_Suc, simp_all)
  have "\<bar>f32 (f32 w * m) - w * m\<bar> \<le> w * m * (1 / 2 ^ 22)"
  proof (cases "m = 0")
    case True
    then show ?thesis by (simp add: f32_def)
  next
    case False
    then show ?thesis using product_error [of w m] w m by simp
  qed
  then show ?thesis by (simp only: Let_def lux w_def e_def m_def)
qed

subsection \<open>Registers of the light sensor\<close>

text \<open>
  The sensor as its data sheet describes it: a three byte write stores a register, high byte
  first; any write selects the register that a two byte read delivers, high byte first.
\<close>

fun als_pointer :: "misc_io list \<Rightarrow> u8" where
  "als_pointer [] = 0"
| "als_pointer (I2c_write a (r # bs) # h) = (if a = 0x44 then r else als_pointer h)"
| "als_pointer (_ # h) = als_pointer h"

fun als_register :: "misc_io list \<Rightarrow> u8 \<Rightarrow> u16" where
  "als_register [] r = 0"
| "als_register (I2c_write a [q, x, y] # h) r =
     (if a = 0x44 \<and> q = r then push_bit 8 (ucast x) OR ucast y else als_register h r)"
| "als_register (_ # h) r = als_register h r"

definition als_device :: "misc_env \<Rightarrow> bool" where
  "als_device env \<longleftrightarrow> (\<forall>h fd. i2c_slave_ok env h fd 0x44 \<and>
     (\<forall>bs. i2c_write_ret env h fd 0x44 bs = int (length bs)) \<and>
     i2c_read_ret env h fd 0x44 2 = (let v = als_register h (als_pointer h)
       in Some [byte_of 8 v, byte_of 0 v]))"

lemma word_bytes: "push_bit 8 (ucast (byte_of 8 (v :: u16))) OR ucast (byte_of 0 v) = v"
  by (rule bit_eqI) (auto simp: byte_of_def bit_simps)

lemma bit_255: "bit (0xFF :: u16) n \<longleftrightarrow> n < 8"
  using bit_mask_iff [of 8 n, where 'a = u16] by (auto simp: mask_eq_exp_minus_1)

lemma bit_65280: "bit (0xFF00 :: u16) n \<longleftrightarrow> 8 \<le> n \<and> n < 16"
proof -
  have "(0xFF00 :: u16) = push_bit 8 0xFF" by simp
  then show ?thesis by (simp only: bit_push_bit_iff bit_255) auto
qed

lemma swap_def: "OPT300X_I2C_Word_Data_Swap d = push_bit 8 d OR drop_bit 8 d"
proof -
  have "push_bit 8 (d AND 0xFF) AND drop_bit 8 (d AND 0xFF00) = 0"
    by (rule bit_eqI) (auto simp: bit_simps dest: bit_imp_le_length)
  then have "OPT300X_I2C_Word_Data_Swap d = push_bit 8 (d AND 0xFF) OR drop_bit 8 (d AND 0xFF00)"
    unfolding OPT300X_I2C_Word_Data_Swap_def by (rule disjunctive_add_eq_or)
  moreover have "push_bit 8 (d AND 0xFF) = push_bit 8 d"
    by (rule bit_eqI) (simp only: bit_push_bit_iff bit_and_iff bit_255, auto)
  moreover have "drop_bit 8 (d AND 0xFF00) = drop_bit 8 d"
    by (rule bit_eqI) (simp only: bit_drop_bit_eq comp_def bit_and_iff bit_65280, auto dest: bit_imp_le_length)
  ultimately show ?thesis by simp
qed

lemma swap_bytes: "OPT300X_I2C_Word_Data_Swap (push_bit 8 (ucast (b :: u8)) OR ucast (a :: u8)) =
    push_bit 8 (ucast a) OR ucast b"
  unfolding swap_def by (rule bit_eqI) (auto simp: bit_simps dest: bit_imp_le_length)

lemma reg_byte: "byte_of 0 (ucast (r :: u8) :: u32) = r"
  by (rule bit_eqI) (auto simp: byte_of_def bit_simps)

lemma device_read:
  assumes "als_device (menv s)" and "0 < m_Als_i2cFile s"
  shows "OPT300X_I2C_ReadFromSlave r x s = Some (1, als_register (mlog s) r,
    emit (I2c_read 0x44 2) (emit (I2c_write 0x44 [r]) s))"
proof -
  have d: "i2c_slave_ok (menv s) h fd 0x44" "i2c_write_ret (menv s) h fd 0x44 bs = int (length bs)"
    "i2c_read_ret (menv s) h fd 0x44 2 = Some [byte_of 8 (als_register h (als_pointer h)),
       byte_of 0 (als_register h (als_pointer h))]" for h fd bs
    using assms(1) by (simp_all add: als_device_def Let_def)
  note r = reg_byte
  have e: "menv (emit e s) = menv s" "mlog (emit e s) = e # mlog s" for e by simp_all
  show ?thesis
    using assms(2) by (simp add: OPT300X_I2C_ReadFromSlave_def pega_i2c_Read_def pega_i2cSetAddress_def
        bus_write_def i2c_reg_bytes_def i2c_read_len_def d r Let_def swap_bytes word_bytes)
qed

lemma device_write:
  assumes "als_device (menv s)" and "0 < m_Als_i2cFile s"
  shows "OPT300X_I2C_WriteToSlave r v s = Some (1, emit (I2c_write 0x44 [r, byte_of 8 v, byte_of 0 v]) s)"
proof -
  have d: "i2c_slave_ok (menv s) h fd 0x44" "i2c_write_ret (menv s) h fd 0x44 bs = int (length bs)" for h fd bs
    using assms(1) by (simp_all add: als_device_def)
  note r = reg_byte
  show ?thesis
    using assms(2) by (simp add: OPT300X_I2C_WriteToSlave_def pega_i2c_Write_def pega_i2cSetAddress_def
        bus_write_def i2c_bytes_def d r Let_def)
qed

text \<open>
  With a sensor on the bus that keeps its registers high byte first, a register reads back
  what was written to it: the order in which the transport sends the bytes and the swap after
  the little endian read cancel out.
\<close>

theorem als_register_round_trip:
  assumes "als_device (menv s)" and "0 < m_Als_i2cFile s"
  shows "\<exists>t u. OPT300X_I2C_WriteToSlave r v s = Some (SUCCEED, t) \<and>
    OPT300X_I2C_ReadFromSlave r x t = Some (SUCCEED, v, u)"
proof -
  let ?t = "emit (I2c_write 0x44 [r, byte_of 8 v, byte_of 0 v]) s"
  have "als_register (mlog ?t) r = v" by (simp add: word_bytes)
  moreover have "als_device (menv ?t)" "0 < m_Als_i2cFile ?t" using assms by (simp_all add: emit_def)
  ultimately show ?thesis using device_write [OF assms] device_read [of ?t r x] by simp
qed

definition als_env :: misc_env where
  "als_env = quiet_env\<lparr>i2c_write_ret := \<lambda>h fd a bs. int (length bs),
     i2c_read_ret := \<lambda>h fd a n. let v = als_register h (als_pointer h) in Some [byte_of 8 v, byte_of 0 v]\<rparr>"

lemma als_env_device: "als_device als_env"
  by (simp add: als_device_def als_env_def quiet_env_def)

definition als_board :: misc where
  "als_board = (misc_static als_env)\<lparr>m_Als_i2cFile := 3\<rparr>"

lemma als_board_device: "als_device (menv als_board)" "0 < m_Als_i2cFile als_board"
  using als_env_device by (simp_all add: als_board_def misc_static_def nv_initial_def)

theorem als_register_round_trip_witness:
  "\<exists>t u. OPT300X_I2C_WriteToSlave 1 0xCC10 als_board = Some (SUCCEED, t) \<and>
    OPT300X_I2C_ReadFromSlave 1 0 t = Some (SUCCEED, 0xCC10, u)"
  by (rule als_register_round_trip [OF als_board_device])

text \<open>
  After \<open>OPT300x_Continue_Mode_Check\<close> the sensor has automatic range, the long conversion
  time and a continuous mode, whatever its configuration was, and the nine bits of the register
  below the mode are as they were.
\<close>

theorem continuous_mode_restored:
  assumes "als_device (menv s)" and "0 < m_Als_i2cFile s"
  shows "\<exists>b t. OPT300x_Continue_Mode_Check s = Some (b, t) \<and>
    als_register (mlog t) OPT300x_REG_SYS_CONF AND 0xFC00 = 0xCC00 \<and>
    als_register (mlog t) OPT300x_REG_SYS_CONF AND 0x01FF =
      als_register (mlog s) OPT300x_REG_SYS_CONF AND 0x01FF"
proof -
  let ?c = "als_register (mlog s) 1" and ?u = "emit (I2c_read 0x44 2) (emit (I2c_write 0x44 [1]) s)"
  have u: "als_register (mlog ?u) 1 = ?c" by simp
  show ?thesis
  proof (cases "?c AND 0xFC00 = 0xCC00")
    case True
    then have "OPT300x_Continue_Mode_Check s = Some (True, ?u)"
      by (simp add: OPT300x_Continue_Mode_Check_def device_read [OF assms])
    moreover have "als_register (mlog ?u) 1 AND 0xFC00 = 0xCC00" using True u by simp
    moreover have "als_register (mlog ?u) 1 AND 0x01FF = ?c AND 0x01FF" using u by simp
    ultimately show ?thesis by blast
  next
    case False
    let ?v = "(((?c AND 0x03FF) OR 0xCC00) AND NOT 0x0600) OR 0x0400"
    define w where "w = ?u\<lparr>wConfReg := ?v\<rparr>"
    have w: "als_device (menv w)" "0 < m_Als_i2cFile w" "als_register (mlog w) 1 = ?c"
      using assms by (simp_all add: w_def) (simp_all add: emit_def)
    let ?t = "emit (I2c_write 0x44 [1, byte_of 8 ?v, byte_of 0 ?v]) w"
    have "OPT300x_set_mode 0x0400 (?u\<lparr>wConfReg := (?c AND 0x03FF) OR 0xCC00\<rparr>) = w"
      by (simp add: OPT300x_set_mode_def w_def)
    moreover have "wConfReg w = ?v" by (simp add: w_def)
    ultimately have "OPT300x_Continue_Mode_Check s = Some (False, ?t)"
      using False by (simp add: OPT300x_Continue_Mode_Check_def device_read [OF assms] device_write [OF w(1,2)] Let_def)
    moreover have t: "als_register (mlog ?t) 1 = ?v" by (simp add: word_bytes)
    have "als_register (mlog ?t) 1 AND 0xFC00 = 0xCC00" "als_register (mlog ?t) 1 AND 0x01FF = ?c AND 0x01FF"
      unfolding t by (simp_all add: bit.conj_disj_distrib2 and.assoc)
    ultimately show ?thesis by blast
  qed
qed

theorem continuous_mode_restored_witness:
  "\<exists>b t. OPT300x_Continue_Mode_Check als_board = Some (b, t) \<and>
    als_register (mlog t) OPT300x_REG_SYS_CONF AND 0xFC00 = 0xCC00"
  using continuous_mode_restored [OF als_board_device] by blast

end
