(* ===== verification/Misc_Sound.thy ===== *)
theory Misc_Sound
  imports Misc_Light
begin

text \<open>
  Properties of the amplifier: what a configuration file does, with and without its last line,
  the volume, and register access.
\<close>

subsection \<open>The configuration file\<close>

text \<open>A file as the vendor tool writes it: register writes and writes to the next register.\<close>

datatype cfg_cmd = Cfg_w u8 u8 | Cfg_next u8

definition hex_digit :: "nat \<Rightarrow> char" where
  "hex_digit n = ''0123456789abcdef'' ! n"

definition hex2 :: "u8 \<Rightarrow> string" where
  "hex2 v = [hex_digit (unat v div 16), hex_digit (unat v mod 16)]"

fun cfg_text :: "cfg_cmd list \<Rightarrow> string" where
  "cfg_text [] = []"
| "cfg_text (Cfg_w r v # cs) = ''w 98 '' @ hex2 r @ '' '' @ hex2 v @ CHR 0x0A # cfg_text cs"
| "cfg_text (Cfg_next v # cs) = ''> '' @ hex2 v @ CHR 0x0A # cfg_text cs"

fun cfg_writes :: "cfg_cmd list \<Rightarrow> u8 \<Rightarrow> (u8 \<times> u8) list" where
  "cfg_writes [] reg = []"
| "cfg_writes (Cfg_w r v # cs) reg = (r, v) # cfg_writes cs r"
| "cfg_writes (Cfg_next v # cs) reg = (reg + 1, v) # cfg_writes cs (reg + 1)"

lemma hex_digit_value: "n < 16 \<Longrightarrow> digit_of (hex_digit n) = Some (int n)"
  by (simp add: eval_nat_numeral less_Suc_eq) (elim disjE; simp add: hex_digit_def digit_of_def Let_def)

lemma hex_digit_char: "n < 16 \<Longrightarrow> hex_digit n \<notin> {CHR 0x0A, CHR '' '', CHR ''-'', CHR ''+'', CHR ''x'', CHR ''X''} \<and>
    \<not> is_space (hex_digit n)"
  by (simp add: eval_nat_numeral less_Suc_eq) (elim disjE; simp add: hex_digit_def is_space_def)

lemma hex2_digits:
  obtains a b where "hex2 v = [a, b]" and "a \<notin> {CHR 0x0A, CHR '' '', CHR ''-'', CHR ''+'', CHR ''x'', CHR ''X''}"
    and "b \<notin> {CHR 0x0A, CHR '' '', CHR ''-'', CHR ''+'', CHR ''x'', CHR ''X''}"
    and "word_of_int (strtol16 [a, b]) = v"
proof
  let ?a = "hex_digit (unat v div 16)" and ?b = "hex_digit (unat v mod 16)"
  have "unat v < 2 ^ LENGTH(8)" by (rule unsigned_less)
  then have v: "unat v div 16 < 16" "unat v mod 16 < 16" by simp_all
  show "hex2 v = [?a, ?b]" by (simp add: hex2_def)
  show "?a \<notin> {CHR 0x0A, CHR '' '', CHR ''-'', CHR ''+'', CHR ''x'', CHR ''X''}"
    "?b \<notin> {CHR 0x0A, CHR '' '', CHR ''-'', CHR ''+'', CHR ''x'', CHR ''X''}"
    using hex_digit_char v by blast+
  have "strtol16 [?a, ?b] = 16 * int (unat v div 16) + int (unat v mod 16)"
    using hex_digit_char [OF v(1)] v by (simp add: strtol16_def sign_of_def hex_digit_value)
  also have "\<dots> = int (unat v)" by presburger
  finally show "word_of_int (strtol16 [?a, ?b]) = v" by simp
qed

text \<open>One line of such a file.\<close>

lemma line_w:
  "cfg_loop (''w 98 '' @ hex2 r @ '' '' @ hex2 v @ CHR 0x0A # rest) buf reg s =
    Option.bind (tas_put r v s) (cfg_loop rest ''w'' r)"
proof -
  obtain a b where ab: "hex2 r = [a, b]" "a \<notin> {CHR 0x0A, CHR '' '', CHR ''-'', CHR ''+'', CHR ''x'', CHR ''X''}"
    "b \<notin> {CHR 0x0A, CHR '' '', CHR ''-'', CHR ''+'', CHR ''x'', CHR ''X''}" "word_of_int (strtol16 [a, b]) = r"
    by (rule hex2_digits)
  obtain c d where cd: "hex2 v = [c, d]" "c \<notin> {CHR 0x0A, CHR '' '', CHR ''-'', CHR ''+'', CHR ''x'', CHR ''X''}"
    "d \<notin> {CHR 0x0A, CHR '' '', CHR ''-'', CHR ''+'', CHR ''x'', CHR ''X''}" "word_of_int (strtol16 [c, d]) = v"
    by (rule hex2_digits)
  let ?l = "''w 98 '' @ [a, b] @ '' '' @ [c, d]"
  have take: "take_line 59 (?l @ CHR 0x0A # rest) = (?l @ [CHR 0x0A], rest, False)"
    using ab(2,3) cd(2,3) by (simp add: eval_nat_numeral)
  have tok: "tokens [] ?l = [''w'', ''98'', [a, b], [c, d]]" using ab(2,3) cd(2,3) by simp
  have "cfg_line ?l reg s = map_option (Pair r) (tas_put r v s)"
    unfolding cfg_line_def tok by (simp add: ab(4) cd(4) Let_def)
  then show ?thesis
    unfolding ab(1) cd(1) by (subst cfg_loop.simps) (use take tok in \<open>cases "tas_put r v s"; simp\<close>)
qed

lemma line_next:
  "cfg_loop (''> '' @ hex2 v @ CHR 0x0A # rest) buf reg s =
    Option.bind (tas_put (reg + 1) v s) (cfg_loop rest ''>'' (reg + 1))"
proof -
  obtain c d where cd: "hex2 v = [c, d]" "c \<notin> {CHR 0x0A, CHR '' '', CHR ''-'', CHR ''+'', CHR ''x'', CHR ''X''}"
    "d \<notin> {CHR 0x0A, CHR '' '', CHR ''-'', CHR ''+'', CHR ''x'', CHR ''X''}" "word_of_int (strtol16 [c, d]) = v"
    by (rule hex2_digits)
  let ?l = "''> '' @ [c, d]"
  have take: "take_line 59 (?l @ CHR 0x0A # rest) = (?l @ [CHR 0x0A], rest, False)"
    using cd(2,3) by (simp add: eval_nat_numeral)
  have tok: "tokens [] ?l = [''>'', [c, d]]" using cd(2,3) by simp
  have "cfg_line ?l reg s = map_option (Pair (reg + 1)) (tas_put (reg + 1) v s)"
    unfolding cfg_line_def tok by (simp add: cd(4))
  then show ?thesis
    unfolding cd(1) by (subst cfg_loop.simps) (use take tok in \<open>cases "tas_put (reg + 1) v s"; simp\<close>)
qed

lemma line_end: "cfg_loop (''end'' @ CHR 0x0A # rest) buf reg s = Some s"
  by (subst cfg_loop.simps) (simp add: eval_nat_numeral)

text \<open>
  C25: A configuration file of register lines that ends with the line \<open>end\<close> has exactly the effect
  of its register writes in order, where a line \<open>>\<close> writes the register after the previous one;
  what the file holds after \<open>end\<close> is not read.
\<close>

theorem config_file_writes:
  "cfg_loop (cfg_text cs @ ''end'' @ CHR 0x0A # rest) buf reg s =
    seq_opt (map (\<lambda>(r, v). tas_put r v) (cfg_writes cs reg)) s"
proof (induction cs arbitrary: buf reg s)
  case Nil
  show ?case using line_end by simp
next
  case (Cons c cs)
  show ?case
  proof (cases c)
    case (Cfg_w r v)
    show ?thesis
      using line_w [of r v "cfg_text cs @ ''end'' @ CHR 0x0A # rest" buf reg s] Cons.IH
      by (cases "tas_put r v s") (simp_all add: Cfg_w)
  next
    case (Cfg_next v)
    show ?thesis
      using line_next [of v "cfg_text cs @ ''end'' @ CHR 0x0A # rest" buf reg s] Cons.IH
      by (cases "tas_put (reg + 1) v s") (simp_all add: Cfg_next)
  qed
qed

text \<open>
  A configuration file of register lines without the line \<open>end\<close> faults after its last
  line: at the end of the file the buffer still holds the first token of that line, which the
  removal of a newline empties, and the empty line has no token to compare.
\<close>

theorem config_without_end_faults:
  "cfg_loop (cfg_text cs) [] reg s = None"
proof -
  have last: "cfg_loop [] buf reg s = None" if "buf = [] \<or> buf = [c]" for buf c reg and s :: "'a amp_st_scheme"
    using that by (subst cfg_loop.simps) (auto simp: cfg_line_def)
  have "cfg_loop (cfg_text cs) buf reg s = None" if "buf \<in> {[], ''w'', ''>''}" for buf
    using that
  proof (induction cs arbitrary: buf reg s)
    case Nil
    then show ?case using last by auto
  next
    case (Cons c cs)
    show ?case
    proof (cases c)
      case (Cfg_w r v)
      show ?thesis
        using line_w [of r v "cfg_text cs" buf reg s] Cons.IH by (cases "tas_put r v s") (simp_all add: Cfg_w)
    next
      case (Cfg_next v)
      show ?thesis
        using line_next [of v "cfg_text cs" buf reg s] Cons.IH
        by (cases "tas_put (reg + 1) v s") (simp_all add: Cfg_next)
    qed
  qed
  then show ?thesis by simp
qed

subsection \<open>Volume\<close>

lemma f64_exact:
  assumes "x = of_int k / 2 ^ n" and "\<bar>k\<bar> < 2 ^ 53" and "n < 1000"
  shows "f64 x = x"
proof -
  have "x = of_int k * 2 powi (- int n)"
    using assms(1) by (cases "n = 0") (simp_all add: power_int_def power_divide divide_simps)
  then show ?thesis unfolding f64_def using assms(2,3) by (intro fround_exact [where k = k and j = "- int n"]) simp_all
qed

text \<open>
  For every level that a \<open>float\<close> can hold between 8 and 32 dB (a multiple of \<open>2 ^ -20\<close>) the
  volume code is the level clamped to 8.5 to 22 dB in steps of half a dB, rounded down, counted
  from 1: the codes 1 to 28.
\<close>

theorem volume_law:
  "let d = of_int k / 2 ^ 20; c = max (17 / 2) (min 22 d) in
    volume_code d = word_of_int (\<lfloor>2 * c\<rfloor> - 16) \<and> 1 \<le> \<lfloor>2 * c\<rfloor> - 16 \<and> \<lfloor>2 * c\<rfloor> - 16 \<le> 28"
proof -
  define d :: rat where "d = of_int k / 2 ^ 20"
  define c where "c = max (17 / 2) (min 22 d)"
  define j where "j = max 8912896 (min 23068672 k)"
  have c: "c = of_int j / 2 ^ 20" by (auto simp: c_def d_def j_def max_def min_def)
  have j: "8912896 \<le> j" "j \<le> 23068672" by (simp_all add: j_def)
  have "f64 (c - 17 / 2) = c - 17 / 2"
    using j by (intro f64_exact [where k = "j - 8912896" and n = 20]) (simp_all add: c)
  moreover have "f64 ((c - 17 / 2) / (1 / 2)) = (c - 17 / 2) / (1 / 2)"
    using j by (intro f64_exact [where k = "2 * (j - 8912896)" and n = 20]) (simp_all add: c)
  moreover have "f64 ((c - 17 / 2) / (1 / 2) + 1) = (c - 17 / 2) / (1 / 2) + 1"
    using j by (intro f64_exact [where k = "2 * (j - 8912896) + 1048576" and n = 20]) (simp_all add: c)
  moreover have "(let fdB = (if d < 17/2 then 17/2 else d); fdB = (if fdB > 22 then 22 else fdB) in fdB) = c"
    by (auto simp: c_def Let_def)
  moreover have "(c - 17 / 2) / (1 / 2) + 1 = 2 * c + of_int (- 16)" by simp
  moreover have "17 / 2 \<le> c" "c \<le> 22" by (simp_all add: c_def)
  moreover have "0 \<le> 2 * c + of_int (- 16)" using calculation(6) by simp
  ultimately have "volume_code d = word_of_int (\<lfloor>2 * c\<rfloor> - 16)"
    unfolding volume_code_def Let_def trunc_def by (simp only: if_True floor_add_int) simp
  moreover have "1 \<le> \<lfloor>2 * c\<rfloor> - 16" "\<lfloor>2 * c\<rfloor> - 16 \<le> 28"
    using \<open>17 / 2 \<le> c\<close> \<open>c \<le> 22\<close> by (simp_all add: le_floor_iff floor_le_iff)
  ultimately show ?thesis by (simp only: Let_def c_def d_def simp_thms)
qed

subsection \<open>Registers of the amplifier\<close>

text \<open>
  The amplifier with one page selected: a two byte write stores a register, and a read delivers
  the register that the last write selected. Register 0 and 0x7F select page and book; only page
  0 of book 0 is meant here.
\<close>

fun amp_pointer :: "misc_io list \<Rightarrow> u8" where
  "amp_pointer [] = 0"
| "amp_pointer (I2c_write a (r # bs) # h) = (if a = 0x4C then r else amp_pointer h)"
| "amp_pointer (_ # h) = amp_pointer h"

fun amp_register :: "misc_io list \<Rightarrow> u8 \<Rightarrow> u8" where
  "amp_register [] r = 0"
| "amp_register (I2c_write a [q, x] # h) r = (if a = 0x4C \<and> q = r then x else amp_register h r)"
| "amp_register (_ # h) r = amp_register h r"

definition amp_device :: "misc_env \<Rightarrow> bool" where
  "amp_device env \<longleftrightarrow> (\<forall>h fd. i2c_slave_ok env h fd 0x4C \<and>
     (\<forall>bs. i2c_write_ret env h fd 0x4C bs = int (length bs)) \<and>
     i2c_read_ret env h fd 0x4C 1 = Some [amp_register h (amp_pointer h)])"

lemma byte_cast: "byte_of 0 (ucast (r :: u8) :: 'b::len word) = (ucast (ucast r :: 'b word) :: u8)"
  by (simp add: byte_of_def)

lemma byte_back: "byte_of 0 (ucast (r :: u8) :: u32) = r" "byte_of 0 (ucast (r :: u8) :: u16) = r"
  "ucast (ucast (r :: u8) :: u16) = r"
  by (rule bit_eqI; auto simp: byte_of_def bit_simps)+

lemma amp_put:
  assumes "amp_device (menv s)" and "0 < m_Amp_i2cFile s"
  shows "tas2563_i2c_write r v s = Some (1, emit (I2c_write 0x4C [r, v]) s)"
    and "tas_put r v s = Some (emit (I2c_write 0x4C [r, v]) s)"
proof -
  have "i2c_slave_ok (menv s) h fd 0x4C" "i2c_write_ret (menv s) h fd 0x4C bs = int (length bs)" for h fd bs
    using assms(1) by (simp_all add: amp_device_def)
  then show "tas2563_i2c_write r v s = Some (1, emit (I2c_write 0x4C [r, v]) s)"
    using assms(2) by (simp add: tas2563_i2c_write_def pega_i2c_Write_def
        pega_i2cSetAddress_def bus_write_def i2c_bytes_def byte_back)
  then show "tas_put r v s = Some (emit (I2c_write 0x4C [r, v]) s)" by (simp add: tas_put_def)
qed

lemma amp_get:
  assumes "amp_device (menv s)" and "0 < m_Amp_i2cFile s"
  shows "tas2563_i2c_read r s = Some (1, amp_register (mlog s) r, emit (I2c_read 0x4C 1) (emit (I2c_write 0x4C [r]) s))"
proof -
  have "i2c_slave_ok (menv s) h fd 0x4C" "i2c_write_ret (menv s) h fd 0x4C bs = int (length bs)"
    "i2c_read_ret (menv s) h fd 0x4C 1 = Some [amp_register h (amp_pointer h)]" for h fd bs
    using assms(1) by (simp_all add: amp_device_def)
  then show ?thesis
    using assms(2) by (simp add: tas2563_i2c_read_def pega_i2c_Read_def pega_i2cSetAddress_def bus_write_def
        i2c_reg_bytes_def i2c_read_len_def byte_back Let_def)
qed

lemma emit_amp [simp]: "m_Amp_i2cFile (emit e s) = m_Amp_i2cFile s" for s :: "'a amp_st_scheme"
  by (simp add: emit_def)

text \<open>
  With the amplifier on the bus the volume control changes exactly the gain field of the
  playback register, bits 1 to 5, to the volume code, and no other register but page and book.
\<close>

theorem volume_changes_gain_field:
  assumes "amp_device (menv s)" and "0 < m_Amp_i2cFile s"
  shows "\<exists>t. Pega_AMP_Volume_Control d s = Some t \<and>
    amp_register (mlog t) TAS2563_PB_CFG1 = (amp_register (mlog s) TAS2563_PB_CFG1 AND NOT 0x3E) OR
      (push_bit 1 (volume_code d) AND 0x3E) \<and>
    amp_register (mlog t) r = (if r = TAS2563_PAGE \<or> r = TAS2563_BOOK then 0
      else if r = TAS2563_PB_CFG1 then amp_register (mlog t) TAS2563_PB_CFG1 else amp_register (mlog s) r)"
proof -
  let ?p = "emit (I2c_write 0x4C [0x7F, 0]) (emit (I2c_write 0x4C [0, 0]) s)"
  let ?old = "amp_register (mlog s) 3" and ?v = "push_bit 1 (volume_code d)"
  let ?new = "(?old AND NOT 0x3E) OR (?v AND 0x3E)"
  let ?r = "emit (I2c_read 0x4C 1) (emit (I2c_write 0x4C [3]) ?p)"
  let ?t = "if ?old \<noteq> ?new then emit (I2c_write 0x4C [3, ?new]) ?r else ?r"
  have "seq_opt page0 s = Some ?p" using assms by (simp add: page0_def amp_put)
  moreover have "tas2563_i2c_read 3 ?p = Some (1, ?old, ?r)"
    using assms amp_get [of ?p 3] by simp
  moreover have "tas2563_i2c_write 3 ?new ?r = Some (1, emit (I2c_write 0x4C [3, ?new]) ?r)"
    using assms by (intro amp_put) simp_all
  ultimately have "Pega_AMP_Volume_Control d s = Some ?t"
    using assms by (simp add: Pega_AMP_Volume_Control_def page0_def update_only_def tas2563_update_bits_def
        amp_put Let_def)
  moreover have "amp_register (mlog ?t) 3 = ?new" by simp
  moreover have "amp_register (mlog ?t) r = (if r = 0 \<or> r = 0x7F then 0 else if r = 3
      then amp_register (mlog ?t) 3 else amp_register (mlog s) r)" by simp
  ultimately show ?thesis by metis
qed

definition amp_env :: misc_env where
  "amp_env = quiet_env\<lparr>i2c_write_ret := \<lambda>h fd a bs. int (length bs),
     i2c_read_ret := \<lambda>h fd a n. Some [amp_register h (amp_pointer h)]\<rparr>"

definition amp_board :: misc where
  "amp_board = (misc_static amp_env)\<lparr>m_Amp_i2cFile := 4\<rparr>"

lemma amp_board_device: "amp_device (menv amp_board)" "0 < m_Amp_i2cFile amp_board"
  by (simp_all add: amp_board_def misc_static_def nv_initial_def amp_device_def amp_env_def quiet_env_def)

theorem volume_changes_gain_field_witness:
  "\<exists>t. Pega_AMP_Volume_Control 10 amp_board = Some t \<and>
    amp_register (mlog t) TAS2563_PB_CFG1 = (amp_register (mlog amp_board) TAS2563_PB_CFG1 AND NOT 0x3E) OR
      (push_bit 1 (volume_code 10) AND 0x3E)"
  using volume_changes_gain_field [OF amp_board_device, of 10 0] by blast

text \<open>
  A bulk write over a working bus gives up after its first transfer: the transport reports
  success as 1 and the bulk write takes everything but 0 as a failure, so it returns -1 and the
  other bytes are never sent.
\<close>

theorem bulk_write_stops_at_first_transfer:
  assumes "amp_device (menv s)" and "0 < m_Amp_i2cFile s" and "regData \<noteq> []"
  shows "\<exists>t r v. tas2563_bulk_write_reg book page regAddr regData s = Some (-1, t) \<and>
    mlog t = I2c_write 0x4C [r, v] # mlog s"
proof -
  obtain d ds where "regData = d # ds" using assms(3) by (cases regData) auto
  moreover have "amp_device (menv (s\<lparr>cur_book := x\<rparr>))" "amp_device (menv (s\<lparr>cur_page := x\<rparr>))"
    "0 < m_Amp_i2cFile (s\<lparr>cur_book := x\<rparr>)" "0 < m_Amp_i2cFile (s\<lparr>cur_page := x\<rparr>)" for x
    using assms by simp_all
  ultimately show ?thesis
    using assms(1,2) by (auto simp: tas2563_bulk_write_reg_def amp_put)
qed

theorem bulk_write_stops_at_first_transfer_witness:
  "\<exists>t r v. tas2563_bulk_write_reg 0 0 0x24 [0x39, 0x80, 0x00, 0x00] amp_board = Some (-1, t) \<and>
    mlog t = I2c_write 0x4C [r, v] # mlog amp_board"
  by (rule bulk_write_stops_at_first_transfer [OF amp_board_device]) simp

end
