(* ===== verification/Misc_Drive.thy ===== *)
theory Misc_Drive
  imports Misc_Als_Props
begin

text \<open>
  Properties of the motors of the daemon: what a step adds to the log and how far a rotation goes.
\<close>

subsection \<open>Rotation by degrees\<close>

text \<open>The sleeps of a log, newest first.\<close>

fun sleeps :: "misc_io list \<Rightarrow> nat list" where
  "sleeps [] = []"
| "sleeps (Usleep n # h) = n # sleeps h"
| "sleeps (_ # h) = sleeps h"

lemma sleeps_pin_out [simp]: "sleeps (mlog (pin_out p v s)) = sleeps (mlog s)"
  by (simp add: pin_out_def Pega_Gpio_pin_output_set_def sys_open_def Let_def)

lemma pin_out_motor [simp]:
  fixes s :: "'a motor_st_scheme"
  shows "g_full_step_delay_m (pin_out p v s) = g_full_step_delay_m s"
    "g_half_step_delay_m (pin_out p v s) = g_half_step_delay_m s" "m_isTimeout (pin_out p v s) = m_isTimeout s"
    "timer_armed (pin_out p v s) = timer_armed s" "menv (pin_out p v s) = menv s"
  by (simp_all add: pin_out_def Pega_Gpio_pin_output_set_def sys_open_def Let_def) (simp_all add: emit_def)

lemmas motor_pins = IO_PAN_MOTOR_def IO_RISING_MOTOR_def IO_AIN1_def IO_AIN2_def IO_BIN1_def IO_BIN2_def

text \<open>The delay a step mode uses, and what a step adds to the log.\<close>

definition step_delay :: "u8 \<Rightarrow> 'a motor_st_scheme \<Rightarrow> u32" where
  "step_delay mode s = (if mode = AW_FULL_STEP then g_full_step_delay_m s else g_half_step_delay_m s)"

lemma step_sleeps:
  assumes "step_of d mode = Some (f :: 'a motor_st_scheme \<Rightarrow> 'a motor_st_scheme)"
  shows "sleeps (mlog (f s)) = unat (step_delay mode s) # sleeps (mlog s)"
    and "step_delay m (f s) = step_delay m s" and "menv (f s) = menv s"
    and "m_isTimeout (f s) = m_isTimeout s" and "timer_armed (f s) = timer_armed s"
  using assms unfolding step_of_def
  by (auto simp: awd8833c_full_step_forward_m_def awd8833c_full_step_reverse_m_def
      awd8833c_half_step_forward_m_def awd8833c_half_step_reverse_m_def set_full_m_def set_half_m_def
      awd8833c_delay_us_m_def usleep_def emit_def step_delay_def motor_pins Let_def split: if_splits)

lemma steps_sleeps:
  assumes "step_of d mode = Some (f :: 'a motor_st_scheme \<Rightarrow> 'a motor_st_scheme)"
  shows "sleeps (mlog ((f ^^ n) s)) = replicate n (unat (step_delay mode s)) @ sleeps (mlog s)
    \<and> step_delay m ((f ^^ n) s) = step_delay m s"
  by (induction n arbitrary: m) (simp_all add: step_sleeps [OF assms])

lemma floor_between:
  fixes y z :: rat
  assumes "30 * y = 30 * of_int q + of_int r" and "\<bar>z - y\<bar> \<le> 1 / 50000" and "1 \<le> r" and "r \<le> 29"
  shows "\<lfloor>z\<rfloor> = q"
proof -
  have "(1 :: rat) \<le> of_int r" "of_int r \<le> (29 :: rat)" using assms(3,4) by simp_all
  moreover have "z \<le> y + 1 / 50000" "y \<le> z + 1 / 50000" using assms(2) by linarith+
  ultimately have "of_int q \<le> z \<and> z < of_int q + 1" using assms(1) by linarith
  then show ?thesis by (simp add: floor_eq_iff)
qed

lemma degree_steps_law:
  assumes "c \<in> {1, 4}" and "0 \<le> d"
  shows "degree_steps (15 / of_int c) (of_int d) = word_of_int (42 * ((2 * c * min d 360 + 15) div 30))"
proof -
  define e where "e = min d 360"
  have e: "0 \<le> e" "e \<le> 360" using assms(2) by (simp_all add: e_def)
  define x :: rat where "x = of_int (c * e) / 15"
  have x0: "0 \<le> x" "x \<le> 96" using assms(1) e by (auto simp: x_def)
  have fx: "\<bar>f32 x - x\<bar> \<le> 1 / 100000"
  proof (cases "e = 0")
    case True
    then show ?thesis by (simp add: x_def f32_def)
  next
    case False
    then have "1 \<le> c * e" using assms(1) e by auto
    then have "(1 :: rat) \<le> of_int (c * e)" by (simp only: of_int_1_le_iff)
    then have "1 / 1000 \<le> x" by (simp add: x_def)
    from f32_error [OF this] x0 show ?thesis by simp
  qed
  then have "1 / 1000 \<le> f32 x + 1 / 2" "f32 x + 1 / 2 \<le> 97" using x0 by linarith+
  with f32_error [of "f32 x + 1 / 2"] have f: "\<bar>f32 (f32 x + 1 / 2) - (f32 x + 1 / 2)\<bar> \<le> 1 / 100000" by simp
  define q r where "q = (2 * c * e + 15) div 30" and "r = (2 * c * e + 15) mod 30"
  have qr: "2 * c * e + 15 = 30 * q + r" "0 \<le> r" "r < 30" by (simp_all add: q_def r_def)
  have "r \<noteq> 0" using qr(1) assms(1) by auto presburger+
  then have r: "1 \<le> r" "r \<le> 29" using qr by simp_all
  have "30 * (x + 1 / 2) = of_int (2 * c * e + 15)" by (simp add: x_def field_simps)
  also have "\<dots> = 30 * of_int q + of_int r" by (simp add: qr(1))
  finally have y: "30 * (x + 1 / 2) = 30 * of_int q + of_int r" .
  have "\<bar>f32 (f32 x + 1 / 2) - (x + 1 / 2)\<bar> \<le> 1 / 50000" using f fx by linarith
  from floor_between [OF y this r] have "\<lfloor>f32 (f32 x + 1 / 2)\<rfloor> = q" .
  moreover have "0 \<le> f32 (f32 x + 1 / 2)" using \<open>1 / 1000 \<le> f32 x + 1 / 2\<close> f by linarith
  moreover have "(if of_int d > (360 :: rat) then 360 else of_int d) / (15 / of_int c) = x"
    using assms(1) by (auto simp: x_def e_def min_def)
  ultimately have "degree_steps (15 / of_int c) (of_int d) = word_of_int q * 42"
    by (simp add: degree_steps_def trunc_def Let_def)
  then show ?thesis by (simp add: q_def e_def mult.commute)
qed

lemma unat_steps:
  assumes "0 \<le> q" and "q \<le> 96"
  shows "unat (word_of_int (42 * q) :: u32) = 42 * nat q"
proof -
  have "uint (word_of_int (42 * q) :: u32) = 42 * q"
    using assms by (simp only: uint_word_of_int_eq) (simp add: take_bit_int_eq_self)
  then show ?thesis by (simp only: unat_eq_nat_uint nat_mult_distrib) simp
qed

lemma unat_degree_steps:
  assumes "c \<in> {1, 4}"
  shows "unat (degree_steps (15 / of_int c) (of_nat d)) = 42 * nat ((2 * c * min (int d) 360 + 15) div 30)"
proof -
  let ?q = "(2 * c * min (int d) 360 + 15) div 30"
  define e where "e = min (int d) 360"
  have "0 \<le> e" "e \<le> 360" by (simp_all add: e_def)
  then have "0 \<le> 2 * c * e + 15" "2 * c * e + 15 \<le> 2895" using assms by auto
  then have "0 \<le> (2 * c * e + 15) div 30" "(2 * c * e + 15) div 30 \<le> 96" by linarith+
  then have q: "0 \<le> ?q" "?q \<le> 96" by (simp_all only: e_def)
  then have "unat (word_of_int (42 * ?q) :: u32) = 42 * nat ?q" by (rule unat_steps)
  moreover have "degree_steps (15 / of_int c) (of_nat d) = word_of_int (42 * ?q)"
    using degree_steps_law [OF assms, of "int d"] by (simp only: of_int_of_nat_eq of_nat_0_le_iff)
  ultimately show ?thesis by (simp only:)
qed

lemma step_exists:
  "d = 0 \<or> d = 1 \<Longrightarrow> m = 0 \<or> m = 1 \<Longrightarrow> \<exists>f. step_of d m = Some f"
  by (auto simp: step_of_def)

lemma set_enable_sleeps: "sleeps (mlog (awd8833c_set_enable_m en m v)) = sleeps (mlog v)"
  by (simp add: awd8833c_set_enable_m_def motor_pins)

lemma rotate_sleeps:
  assumes "m = AW_FULL_STEP \<or> m = AW_HALF_STEP"
  shows "sleeps (mlog (rotate_run rising direction m n s)) =
    replicate (unat n) (if m = AW_FULL_STEP then 5000 else 2500) @ sleeps (mlog s)"
proof -
  let ?d = "if direction < AW_FORWARD then AW_REVERSE else AW_FORWARD"
  have "?d = 0 \<or> ?d = 1" by simp
  then obtain f :: "'a motor_st_scheme \<Rightarrow> 'a motor_st_scheme" where f: "step_of ?d m = Some f"
    using step_exists [OF _ assms] by blast
  define u where "u = seq [awd8833c_gpio_init_m, awd8833c_set_enable_m True rising,
    awd8833c_set_speed_level AW_SPEED_HIGH] s"
  have u: "sleeps (mlog u) = sleeps (mlog s)" "g_full_step_delay_m u = 5000" "g_half_step_delay_m u = 2500"
    by (simp_all add: u_def awd8833c_gpio_init_m_def awd8833c_set_enable_m_def awd8833c_set_speed_level_def motor_pins)
  have "rotate_run rising direction m n s = awd8833c_set_enable_m False rising ((f ^^ unat n) u)"
    using f by (simp add: rotate_run_def u_def awd8833c_step_function_action_def)
  moreover have "sleeps (mlog ((f ^^ unat n) u)) = replicate (unat n) (unat (step_delay m u)) @ sleeps (mlog s)"
    using steps_sleeps [OF f, THEN conjunct1] u(1) by simp
  ultimately show ?thesis using u(2,3) by (simp add: set_enable_sleeps step_delay_def)
qed

text \<open>
  C30: A rotation by a whole number of degrees, cut off at 360, makes exactly 42 steps for every
  3.75 degrees of pan (half steps of 2.5 ms) or 15 degrees of rise (full steps of 5 ms), rounded
  to the nearest unit; the two roundings to \<open>float\<close> never change the count.
\<close>

theorem rotation_step_count:
  "sleeps (mlog (awd8833c_pan_rotate_degrees direction (of_nat d) s)) =
     replicate (42 * nat ((8 * min (int d) 360 + 15) div 30)) 2500 @ sleeps (mlog s) \<and>
   sleeps (mlog (awd8833c_rising_rotate_degrees direction (of_nat d) s)) =
     replicate (42 * nat ((2 * min (int d) 360 + 15) div 30)) 5000 @ sleeps (mlog s)"
  using unat_degree_steps [of 4 d] unat_degree_steps [of 1 d]
  by (simp add: awd8833c_pan_rotate_degrees_def awd8833c_rising_rotate_degrees_def rotate_sleeps)

end
