(* ===== verification/Misc_Coils.thy ===== *)
theory Misc_Coils
  imports Misc_Drive Awd_Steps
begin

text \<open>
  What the step functions of the daemon do to the coils, read off the log of pin writes: the position
  of the coils and the motors that are awake during every pause. The electrical position and the
  interface \<open>cyclic_stepper\<close> are those of the kernel driver.
\<close>

subsection \<open>Coils and motors in a log\<close>

definition high :: "misc_io list \<Rightarrow> int \<Rightarrow> bool" where
  "high h p \<longleftrightarrow> last_write h (Gpio_value p) = Some ''1''"

definition coils :: "misc_io list \<Rightarrow> int" where
  "coils h = position (coil_of (high h PIN_MOTO_PWM0) (high h PIN_MOTO_PWM1))
     (coil_of (high h PIN_MOTO_PWM2) (high h PIN_MOTO_PWM3))"

record move =
  mv_pause :: nat
  mv_coils :: int
  mv_rising :: bool
  mv_pan :: bool

text \<open>Every pause with the coils and the sleep pins as they are during it, newest first.\<close>

fun moves :: "misc_io list \<Rightarrow> move list" where
  "moves [] = []"
| "moves (Usleep n # h) = \<lparr>mv_pause = n, mv_coils = coils h, mv_rising = high h PIN_RISING_nSLEEP,
     mv_pan = high h PIN_PAN_nSLEEP\<rparr> # moves h"
| "moves (_ # h) = moves h"

lemma high_frame [simp]:
  "high (Usleep n # h) = high h" "high (Timer_delete # h) = high h" "high (Timer_create # h) = high h"
  "high (Sigaction # h) = high h" "high (Timer_settime a b # h) = high h"
  by (simp_all add: high_def fun_eq_iff)

lemma coils_frame [simp]:
  "coils (Usleep n # h) = coils h" "coils (Timer_delete # h) = coils h" "coils (Timer_create # h) = coils h"
  "coils (Sigaction # h) = coils h" "coils (Timer_settime a b # h) = coils h"
  by (simp_all add: coils_def)

lemma high_out: "all_open s \<Longrightarrow> high (mlog (pin_out p v s)) q = (if q = p then v \<noteq> 0 else high (mlog s) q)"
  using shows_pin_out [of s p v q] by (simp add: high_def pin_shows_def)

lemma moves_out [simp]: "moves (mlog (pin_out p v s)) = moves (mlog s)"
  by (simp add: pin_out_def Pega_Gpio_pin_output_set_def sys_open_def Let_def)

lemma pin_out_states [simp]:
  fixes s :: "'a motor_st_scheme"
  shows "g_full_step_state_m (pin_out p v s) = g_full_step_state_m s"
    "g_half_step_state_m (pin_out p v s) = g_half_step_state_m s"
  by (simp_all add: pin_out_def Pega_Gpio_pin_output_set_def sys_open_def Let_def) (simp_all add: emit_def)

lemma open_frame [simp]:
  fixes s :: "'a motor_st_scheme"
  shows "all_open (s\<lparr>g_full_step_state_m := a\<rparr>) = all_open s" "all_open (s\<lparr>g_half_step_state_m := b\<rparr>) = all_open s"
    "all_open (pin_out p v s) = all_open s" "all_open (usleep n s) = all_open s"
  by (simp_all add: all_open_def usleep_def emit_def)

lemma usleep_states [simp]:
  fixes s :: "'a motor_st_scheme"
  shows "g_full_step_state_m (usleep n s) = g_full_step_state_m s" "g_half_step_state_m (usleep n s) = g_half_step_state_m s"
  by (simp_all add: usleep_def emit_def)

subsection \<open>One step\<close>

lemmas step_defs_m = awd8833c_full_step_forward_m_def awd8833c_full_step_reverse_m_def
  awd8833c_half_step_forward_m_def awd8833c_half_step_reverse_m_def set_full_m_def set_half_m_def
  awd8833c_delay_us_m_def motor_pins

definition coil_sync :: "u8 \<Rightarrow> u8 \<Rightarrow> 'a motor_st_scheme \<Rightarrow> bool" where
  "coil_sync d mode s \<longleftrightarrow> all_open s \<and>
     (if mode = AW_FULL_STEP
      then g_full_step_state_m s < 4 \<and> coils (mlog s) =
        (if d = AW_FORWARD then 2 * ((uint (g_full_step_state_m s) + 3) mod 4)
         else 2 * ((3 - uint (g_full_step_state_m s)) mod 4))
      else g_half_step_state_m s < 8 \<and> coils (mlog s) =
        (if d = AW_FORWARD then (uint (g_half_step_state_m s) + 6) mod 8
         else (6 - uint (g_half_step_state_m s)) mod 8))"

definition coil_stride :: "u8 \<Rightarrow> u8 \<Rightarrow> int" where
  "coil_stride d mode = (if d = AW_FORWARD then 1 else -1) * (if mode = AW_FULL_STEP then 2 else 1)"

lemma step_move:
  fixes f :: "'a motor_st_scheme \<Rightarrow> 'a motor_st_scheme"
  assumes "step_of d mode = Some f" and "all_open s"
  shows "all_open (f s)" and "high (mlog (f s)) PIN_RISING_nSLEEP = high (mlog s) PIN_RISING_nSLEEP"
    and "high (mlog (f s)) PIN_PAN_nSLEEP = high (mlog s) PIN_PAN_nSLEEP"
    and "moves (mlog (f s)) = \<lparr>mv_pause = unat (step_delay mode s), mv_coils = coils (mlog (f s)),
      mv_rising = high (mlog s) PIN_RISING_nSLEEP, mv_pan = high (mlog s) PIN_PAN_nSLEEP\<rparr> # moves (mlog s)"
  using assms unfolding step_of_def
  by (auto simp: step_defs_m step_delay_def usleep_def Let_def high_out split: if_splits)

text \<open>A step in each direction and mode, with the state variable and the coils it leaves.\<close>

lemma step_laws:
  fixes s :: "'a motor_st_scheme"
  assumes "coil_sync d mode s" and "step_of d mode = Some (f :: 'a motor_st_scheme \<Rightarrow> 'a motor_st_scheme)"
  shows "coil_sync d mode (f s) \<and> coils (mlog (f s)) = (coils (mlog s) + coil_stride d mode) mod 8"
proof -
  have o: "all_open s" using assms(1) by (simp add: coil_sync_def)
  have m: "mode = 0 \<or> mode = 1" "d = 0 \<or> d = 1" using assms(2) by (auto simp: step_of_def split: if_splits)
  have st: "mode = 0 \<Longrightarrow> g_full_step_state_m s < 4" "mode = 1 \<Longrightarrow> g_half_step_state_m s < 8"
    using assms(1) by (simp_all add: coil_sync_def)
  note run = coils_def coil_levels step_defs_m high_out o coil_stride_def
  show ?thesis
  proof (cases "mode = 0")
    case True
    from u8_less_4 [OF st(1) [OF True]] m(2) assms show ?thesis
      unfolding coil_sync_def step_of_def True
      by (elim disjE) (auto dest!: position_cases simp: run)
  next
    case False
    with m have "mode = 1" by simp
    from u8_less_8 [OF st(2) [OF this]] m(2) assms show ?thesis
      unfolding coil_sync_def step_of_def \<open>mode = 1\<close>
      by (elim disjE) (auto dest!: position_cases simp: run)
  qed
qed

text \<open>From any coils five steps are enough: every pin has been written.\<close>

definition steps_valid :: "'a motor_st_scheme \<Rightarrow> bool" where
  "steps_valid s \<longleftrightarrow> g_full_step_state_m s < 4 \<and> g_half_step_state_m s < 8"

lemma funpow_5: "(f ^^ 5) s = f (f (f (f (f s))))"
  by (simp add: numeral_eq_Suc)

lemma steps_resync:
  fixes s :: "'a motor_st_scheme"
  assumes "all_open s" and "steps_valid s" and "step_of d mode = Some (f :: 'a motor_st_scheme \<Rightarrow> 'a motor_st_scheme)"
  shows "coil_sync d mode ((f ^^ 5) s)"
proof -
  have m: "mode = 0 \<or> mode = 1" "d = 0 \<or> d = 1" using assms(3) by (auto simp: step_of_def split: if_splits)
  have st: "g_full_step_state_m s < 4" "g_half_step_state_m s < 8" using assms(2) by (simp_all add: steps_valid_def)
  note run = coils_def coil_levels step_defs_m high_out assms(1) funpow_5
  show ?thesis
  proof (cases "mode = 0")
    case True
    from u8_less_4 [OF st(1)] m(2) assms(3) show ?thesis
      unfolding coil_sync_def step_of_def True
      by (elim disjE) (auto simp: run)
  next
    case False
    with m have "mode = 1" by simp
    from u8_less_8 [OF st(2)] m(2) assms(3) show ?thesis
      unfolding coil_sync_def step_of_def \<open>mode = 1\<close>
      by (elim disjE) (auto simp: run)
  qed
qed

lemma step_cyclic:
  fixes f :: "'a motor_st_scheme \<Rightarrow> 'a motor_st_scheme"
  assumes "step_of d mode = Some f"
  shows "cyclic_stepper f (coil_sync d mode) (\<lambda>s. coils (mlog s)) (coil_stride d mode) 8"
proof
  fix s :: "'a motor_st_scheme"
  assume s: "coil_sync d mode s"
  from step_laws [OF s assms] show "coil_sync d mode (f s)"
    "coils (mlog (f s)) = (coils (mlog s) + coil_stride d mode) mod 8" by simp_all
  from s show "coils (mlog s) mod 8 = coils (mlog s)" by (auto simp: coil_sync_def split: if_splits)
qed

subsection \<open>Runs\<close>

text \<open>\<open>k\<close> pauses, each one stride on from the pause before it, the first from \<open>c\<close>; newest first.\<close>

definition sweep :: "nat \<Rightarrow> bool \<Rightarrow> bool \<Rightarrow> int \<Rightarrow> int \<Rightarrow> nat \<Rightarrow> move list" where
  "sweep pause rising pan c d k = map (\<lambda>j. \<lparr>mv_pause = pause, mv_coils = (c + int (k - j) * d) mod 8,
     mv_rising = rising, mv_pan = pan\<rparr>) [0..<k]"

text \<open>
  Pauses of one length with one motor awake, in which the coils go on by one stride from the sixth
  step on; the first five may be spent on coils that another run has left.
\<close>

definition turns :: "nat \<Rightarrow> bool \<Rightarrow> bool \<Rightarrow> int \<Rightarrow> move list \<Rightarrow> bool" where
  "turns pause rising pan d tr \<longleftrightarrow>
     (\<forall>x\<in>set tr. mv_pause x = pause \<and> mv_rising x = rising \<and> mv_pan x = pan) \<and>
     (\<forall>i. i + 6 \<le> length tr \<longrightarrow> mv_coils (tr ! i) = (mv_coils (tr ! Suc i) + d) mod 8)"

lemma steps_frame:
  fixes f :: "'a motor_st_scheme \<Rightarrow> 'a motor_st_scheme"
  assumes "step_of d mode = Some f" and "all_open s"
  shows "all_open ((f ^^ k) s) \<and> high (mlog ((f ^^ k) s)) PIN_RISING_nSLEEP = high (mlog s) PIN_RISING_nSLEEP \<and>
    high (mlog ((f ^^ k) s)) PIN_PAN_nSLEEP = high (mlog s) PIN_PAN_nSLEEP \<and>
    step_delay mode ((f ^^ k) s) = step_delay mode s"
  by (induction k) (simp_all add: assms(2) step_move [OF assms(1)] step_sleeps(2) [OF assms(1)])

lemma sweep_Suc:
  "sweep pause r p c d (Suc k) = \<lparr>mv_pause = pause, mv_coils = (c + int (Suc k) * d) mod 8,
     mv_rising = r, mv_pan = p\<rparr> # sweep pause r p c d k"
  by (simp add: sweep_def map_upt_Suc del: upt_Suc)

lemma synced_moves:
  fixes f :: "'a motor_st_scheme \<Rightarrow> 'a motor_st_scheme"
  assumes "step_of d mode = Some f" and "coil_sync d mode s"
  shows "moves (mlog ((f ^^ k) s)) = sweep (unat (step_delay mode s)) (high (mlog s) PIN_RISING_nSLEEP)
    (high (mlog s) PIN_PAN_nSLEEP) (coils (mlog s)) (coil_stride d mode) k @ moves (mlog s)"
proof (induction k)
  case (Suc k)
  have o: "all_open s" using assms(2) by (simp add: coil_sync_def)
  note fr = steps_frame [OF assms(1) o, of k]
  have "coils (mlog ((f ^^ Suc k) s)) = (coils (mlog s) + int (Suc k) * coil_stride d mode) mod 8"
    by (rule cyclic_stepper.pos_run [OF step_cyclic [OF assms(1)] assms(2)])
  then show ?case
    using step_move(4) [OF assms(1), of "(f ^^ k) s"] fr Suc.IH by (simp add: sweep_Suc)
qed (simp add: sweep_def)

lemma steps_turn:
  fixes f :: "'a motor_st_scheme \<Rightarrow> 'a motor_st_scheme"
  assumes "step_of d mode = Some f" and "all_open s" and "steps_valid s"
  shows "\<exists>tr. moves (mlog ((f ^^ k) s)) = tr @ moves (mlog s) \<and> length tr = k \<and>
    (0 < k \<longrightarrow> mv_coils (hd tr) = coils (mlog ((f ^^ k) s))) \<and>
    turns (unat (step_delay mode s)) (high (mlog s) PIN_RISING_nSLEEP) (high (mlog s) PIN_PAN_nSLEEP)
      (coil_stride d mode) tr"
proof (induction k)
  case 0
  show ?case by (simp add: turns_def)
next
  case (Suc k)
  note fr = steps_frame [OF assms(1,2), of k]
  obtain tr where tr: "moves (mlog ((f ^^ k) s)) = tr @ moves (mlog s)" "length tr = k"
    "0 < k \<longrightarrow> mv_coils (hd tr) = coils (mlog ((f ^^ k) s))"
    "turns (unat (step_delay mode s)) (high (mlog s) PIN_RISING_nSLEEP) (high (mlog s) PIN_PAN_nSLEEP)
      (coil_stride d mode) tr" using Suc.IH by blast
  define x where "x = \<lparr>mv_pause = unat (step_delay mode s), mv_coils = coils (mlog ((f ^^ Suc k) s)),
    mv_rising = high (mlog s) PIN_RISING_nSLEEP, mv_pan = high (mlog s) PIN_PAN_nSLEEP\<rparr>"
  have "moves (mlog ((f ^^ Suc k) s)) = (x # tr) @ moves (mlog s)"
    using step_move(4) [OF assms(1), of "(f ^^ k) s"] fr tr(1) by (simp add: x_def)
  moreover have "mv_coils x = (mv_coils (tr ! 0) + coil_stride d mode) mod 8" if "5 \<le> k"
  proof -
    have "(f ^^ k) s = (f ^^ (k - 5)) ((f ^^ 5) s)" using that by (metis add.commute funpow_add le_add_diff_inverse2 o_apply)
    then have "coil_sync d mode ((f ^^ k) s)"
      using cyclic_stepper.sync_run [OF step_cyclic [OF assms(1)] steps_resync [OF assms(2,3,1)]] by simp
    from step_laws [OF this assms(1)] show ?thesis
      using tr(2,3) that by (cases tr) (simp_all add: x_def)
  qed
  then have "turns (unat (step_delay mode s)) (high (mlog s) PIN_RISING_nSLEEP) (high (mlog s) PIN_PAN_nSLEEP)
      (coil_stride d mode) (x # tr)"
    using tr(2,4) by (auto simp: turns_def x_def nth_Cons split: nat.split)
  ultimately show ?case using tr(2) by (intro exI [of _ "x # tr"]) (simp add: x_def)
qed

end
