(* ===== verification/Misc_Timed.thy ===== *)
theory Misc_Timed
  imports Misc_Coils
begin

text \<open>
  Runs of the motors that a POSIX timer ends: that they return, how many steps they can make, how
  long the motor is driven, and which way it turns. Time is a clock that the calls advance; sleeps
  and timers are late by an unknown amount, as POSIX allows.
\<close>

subsection \<open>Clock and timer\<close>

text \<open>The log up to the last setting of the timer, and its interval in nanoseconds.\<close>

fun last_set :: "misc_io list \<Rightarrow> (misc_io list \<times> int) option" where
  "last_set [] = None"
| "last_set (e # h) = (case e of
     Timer_settime sec nsec \<Rightarrow> Some (e # h, sec * 1000000000 + nsec)
   | _ \<Rightarrow> last_set h)"

text \<open>
  What is documented of the calls, for a clock in nanoseconds: it never goes back; a sleep lasts at
  least the time asked for, unless the signal of the timer cuts it short; the timer does not expire
  before its interval is over, and its signal comes at most \<open>late\<close> after that. No call fails.
\<close>

definition timer_env :: "(misc_io list \<Rightarrow> int) \<Rightarrow> int \<Rightarrow> misc_env \<Rightarrow> bool" where
  "timer_env clock late env \<longleftrightarrow> (\<forall>h. timer_call_ok env h) \<and>
     (\<forall>e h. clock h \<le> clock (e # h)) \<and>
     (\<forall>n h. timer_expired env (Usleep n # h) \<or> clock h + 1000 * int n \<le> clock (Usleep n # h)) \<and>
     (\<forall>h g i. last_set h = Some (g, i) \<longrightarrow>
        (timer_expired env h \<longrightarrow> clock (tl g) + i \<le> clock h) \<and>
        (clock g + i + late \<le> clock h \<longrightarrow> timer_expired env h))"

lemma clock_grows:
  assumes "timer_env clock late env"
  shows "clock h \<le> clock (es @ h)"
proof (induction es)
  case (Cons e es)
  have "clock (es @ h) \<le> clock (e # es @ h)" using assms by (simp add: timer_env_def)
  with Cons show ?case by simp
qed simp

text \<open>A step writes pins and sleeps; it never sets the timer.\<close>

definition writes_pins :: "misc_io list \<Rightarrow> misc_io list \<Rightarrow> bool" where
  "writes_pins h g \<longleftrightarrow> (\<exists>es. g = es @ h) \<and> last_set g = last_set h"

lemma writes_refl: "writes_pins h h"
  by (simp add: writes_pins_def)

lemma writes_out: "writes_pins h (mlog s) \<Longrightarrow> writes_pins h (mlog (pin_out p v s))"
  by (auto simp: writes_pins_def pin_out_def Pega_Gpio_pin_output_set_def sys_open_def Let_def)

lemma step_writes:
  assumes "step_of d mode = Some (f :: 'a motor_st_scheme \<Rightarrow> 'a motor_st_scheme)"
  shows "\<exists>g. mlog (f s) = Usleep (unat (step_delay mode s)) # g \<and> writes_pins (mlog s) g"
  using assms unfolding step_of_def
  by (auto simp: step_defs_m step_delay_def Let_def intro!: writes_out writes_refl split: if_splits)

lemma step_clock:
  assumes "step_of d mode = Some (f :: 'a motor_st_scheme \<Rightarrow> 'a motor_st_scheme)" and "timer_env clock late env"
  shows "last_set (mlog (f s)) = last_set (mlog s)" and "clock (mlog s) \<le> clock (mlog (f s))"
    and "\<not> timer_expired env (mlog (f s)) \<Longrightarrow>
      clock (mlog s) + 1000 * int (unat (step_delay mode s)) \<le> clock (mlog (f s))"
proof -
  obtain g es where g: "mlog (f s) = Usleep (unat (step_delay mode s)) # g" "g = es @ mlog s"
    "last_set g = last_set (mlog s)" using step_writes [OF assms(1), of s] by (auto simp: writes_pins_def)
  have c: "clock (mlog s) \<le> clock g" "clock g \<le> clock (mlog (f s))"
    using clock_grows [OF assms(2), of "mlog s" es] assms(2) g(1,2) by (auto simp: timer_env_def)
  show "last_set (mlog (f s)) = last_set (mlog s)" "clock (mlog s) \<le> clock (mlog (f s))" using g c by simp_all
  show "clock (mlog s) + 1000 * int (unat (step_delay mode s)) \<le> clock (mlog (f s))"
    if "\<not> timer_expired env (mlog (f s))"
  proof -
    let ?n = "unat (step_delay mode s)"
    have "timer_expired env (Usleep ?n # g) \<or> clock g + 1000 * int ?n \<le> clock (Usleep ?n # g)"
      using assms(2) unfolding timer_env_def by blast
    with that have "clock g + 1000 * int ?n \<le> clock (Usleep ?n # g)" unfolding g(1) by blast
    with c(1) show ?thesis unfolding g(1) by linarith
  qed
qed

subsection \<open>The loop\<close>

lemma handler_simps:
  "m_isTimeout (awd8833c_timer_handler s) = 1" "mlog (awd8833c_timer_handler s) = Timer_delete # mlog s"
  "menv (awd8833c_timer_handler s) = menv s"
  by (simp_all add: awd8833c_timer_handler_def emit_def)

text \<open>The loop ends with the first step after which the timer has expired.\<close>

lemma loop_ends:
  fixes f :: "'a motor_st_scheme \<Rightarrow> 'a motor_st_scheme"
  assumes step: "step_of d mode = Some f"
    and "\<And>j. 0 < j \<Longrightarrow> j \<le> k \<Longrightarrow> \<not> timer_expired (menv s) (mlog ((f ^^ j) s))"
    and "timer_expired (menv s) (mlog ((f ^^ Suc k) s))" and "m_isTimeout s = 0" and "timer_armed s"
  shows "while_option (\<lambda>s. m_isTimeout s = 0) (\<lambda>s. deliver_signal (f s)) s =
    Some (awd8833c_timer_handler ((f ^^ Suc k) s))"
  using assms(2-)
proof (induction k arbitrary: s)
  case 0
  have "deliver_signal (f s) = awd8833c_timer_handler (f s)"
    using 0 by (simp add: deliver_signal_def step_sleeps [OF step])
  then show ?case
    using 0(3) by (subst while_option_unfold)
      (simp add: while_option_unfold [of _ _ "awd8833c_timer_handler _"] handler_simps)
next
  case (Suc k)
  have "\<not> timer_expired (menv s) (mlog (f s))" using Suc.prems(1) [of 1] by simp
  then have d: "deliver_signal (f s) = f s" by (simp add: deliver_signal_def step_sleeps [OF step])
  have *: "(f ^^ j) (f s) = (f ^^ Suc j) s" for j by (simp only: funpow_Suc_right comp_def)
  have "while_option (\<lambda>s. m_isTimeout s = 0) (\<lambda>s. deliver_signal (f s)) (f s) =
      Some (awd8833c_timer_handler ((f ^^ Suc k) (f s)))"
  proof (rule Suc.IH)
    show "\<not> timer_expired (menv (f s)) (mlog ((f ^^ j) (f s)))" if "0 < j" "j \<le> k" for j
      unfolding * step_sleeps(3) [OF step] using Suc.prems(1) [of "Suc j"] that by simp
    show "timer_expired (menv (f s)) (mlog ((f ^^ Suc k) (f s)))"
      unfolding * step_sleeps(3) [OF step] by (rule Suc.prems(2))
    show "m_isTimeout (f s) = 0" "timer_armed (f s)" using Suc.prems(3,4) by (simp_all add: step_sleeps [OF step])
  qed
  then show ?case using Suc.prems(3) by (subst while_option_unfold) (simp only: d * if_True simp_thms)
qed

lemma steps_menv:
  "step_of d mode = Some f \<Longrightarrow> menv ((f ^^ j) s) = menv s \<and> unat (step_delay mode ((f ^^ j) s)) = unat (step_delay mode s)"
  for f :: "'a motor_st_scheme \<Rightarrow> 'a motor_st_scheme"
  by (induction j) (simp_all add: step_sleeps)

text \<open>As long as it has not expired, every step takes its time.\<close>

lemma steps_clock:
  fixes f :: "'a motor_st_scheme \<Rightarrow> 'a motor_st_scheme"
  assumes step: "step_of d mode = Some f" and env: "timer_env clock late (menv s)"
    and "\<And>i. 0 < i \<Longrightarrow> i \<le> j \<Longrightarrow> \<not> timer_expired (menv s) (mlog ((f ^^ i) s))"
  shows "last_set (mlog ((f ^^ j) s)) = last_set (mlog s) \<and>
    clock (mlog s) + 1000 * int (unat (step_delay mode s)) * int j \<le> clock (mlog ((f ^^ j) s))"
  using assms(3)
proof (induction j)
  case (Suc j)
  have "\<not> timer_expired (menv s) (mlog (f ((f ^^ j) s)))" using Suc.prems [of "Suc j"] by simp
  with step_clock [OF step env, of "(f ^^ j) s"] steps_menv [OF step, of j s] Suc.IH Suc.prems
  show ?case by (simp add: algebra_simps)
qed simp

lemma timed_loop:
  fixes f :: "'a motor_st_scheme \<Rightarrow> 'a motor_st_scheme"
  assumes step: "step_of d mode = Some f" and env: "timer_env clock late (menv s)"
    and set: "last_set (mlog s) = Some (mlog s, i)" and "0 < i + late" and "m_isTimeout s = 0" and "timer_armed s"
    and n: "0 < unat (step_delay mode s)"
  shows "\<exists>k. while_option (\<lambda>s. m_isTimeout s = 0) (\<lambda>s. deliver_signal (f s)) s =
      Some (awd8833c_timer_handler ((f ^^ Suc k) s)) \<and>
    1000 * int (unat (step_delay mode s)) * int k < i + late \<and>
    clock (tl (mlog s)) + i \<le> clock (mlog ((f ^^ Suc k) s))"
proof -
  let ?n = "int (unat (step_delay mode s))" and ?x = "\<lambda>j. timer_expired (menv s) (mlog ((f ^^ j) s))"
  have late: "?x j" if "clock (mlog s) + i + late \<le> clock (mlog ((f ^^ j) s))" "last_set (mlog ((f ^^ j) s)) = last_set (mlog s)" for j
    using env set that unfolding timer_env_def by (metis (no_types, lifting))
  have "\<exists>k. ?x (Suc k)"
  proof (rule ccontr)
    assume "\<nexists>k. ?x (Suc k)"
    then have no: "\<not> ?x j" if "0 < j" for j using that by (cases j) auto
    define j where "j = Suc (nat (i + late))"
    have "i + late \<le> int j" by (simp add: j_def)
    also have "\<dots> \<le> 1000 * ?n * int j"
    proof -
      have "1 \<le> 1000 * ?n" using n by linarith
      then show ?thesis using mult_right_mono [of 1 "1000 * ?n" "int j"] by linarith
    qed
    finally have "i + late \<le> 1000 * ?n * int j" .
    then have "?x j" using late [of j] steps_clock [OF step env, of j] no by simp
    then show False using no [of j] by (simp add: j_def)
  qed
  define k where "k = (LEAST k. ?x (Suc k))"
  have k: "?x (Suc k)" unfolding k_def by (rule LeastI_ex) fact
  have less: "\<not> ?x j" if "0 < j" "j \<le> k" for j
  proof -
    from that obtain l where "j = Suc l" "l < k" by (cases j) auto
    then show ?thesis using not_less_Least [of l "\<lambda>k. ?x (Suc k)"] by (simp add: k_def)
  qed
  have "1000 * ?n * int k < i + late"
  proof (cases k)
    case (Suc l)
    then show ?thesis using less [of k] late [of k] steps_clock [OF step env less, of k] by fastforce
  qed (use assms(4) in simp)
  moreover have "clock (tl (mlog s)) + i \<le> clock (mlog ((f ^^ Suc k) s))"
  proof -
    have "last_set (mlog ((f ^^ Suc k) s)) = Some (mlog s, i)"
      using step_clock(1) [OF step env, of "(f ^^ k) s"] steps_clock [OF step env less] set by simp
    then show ?thesis using k env unfolding timer_env_def by blast
  qed
  ultimately show ?thesis using loop_ends [OF step less k assms(5,6)] by blast
qed

subsection \<open>Timed runs\<close>

text \<open>The delay of a speed level in a step mode.\<close>

definition level_delay :: "u8 \<Rightarrow> u8 \<Rightarrow> nat" where
  "level_delay speed mode =
     (if speed = 1 then 20000 else if speed = 2 then 10000 else if speed = 4 then 2500 else 5000)
       div (if mode = AW_FULL_STEP then 1 else 2)"

lemma level_delay_set: "unat (step_delay mode (awd8833c_set_speed_level speed s)) = level_delay speed mode"
  by (simp add: step_delay_def level_delay_def awd8833c_set_speed_level_def)

text \<open>What comes before the timer: both motors asleep, then one awake, at the delay of the level.\<close>

definition launch_prepare :: "u8 \<Rightarrow> u8 \<Rightarrow> 'a motor_st_scheme \<Rightarrow> 'a motor_st_scheme" where
  "launch_prepare rising speed = seq [awd8833c_gpio_init_m, awd8833c_set_enable_m True rising,
     awd8833c_set_speed_level speed]"

lemma speed_level_frame [simp]:
  fixes s :: "'a motor_st_scheme"
  shows "mlog (awd8833c_set_speed_level v s) = mlog s" "menv (awd8833c_set_speed_level v s) = menv s"
    "g_full_step_state_m (awd8833c_set_speed_level v s) = g_full_step_state_m s"
    "g_half_step_state_m (awd8833c_set_speed_level v s) = g_half_step_state_m s"
    "m_isTimeout (awd8833c_set_speed_level v s) = m_isTimeout s"
  by (simp_all add: awd8833c_set_speed_level_def)

lemma prepare_facts:
  fixes s :: "'a motor_st_scheme" and rising speed :: u8
  defines "u \<equiv> launch_prepare rising speed s"
  assumes "all_open s"
  shows "menv u = menv s" and "moves (mlog u) = moves (mlog s)" and "\<exists>es. mlog u = es @ mlog s"
    and "steps_valid u = steps_valid s" and "unat (step_delay mode u) = level_delay speed mode"
    and "high (mlog u) PIN_RISING_nSLEEP = (0 < rising)" and "high (mlog u) PIN_PAN_nSLEEP = (rising = 0)"
    and "pin_shows u (if 0 < rising then PIN_PAN_nSLEEP else PIN_RISING_nSLEEP) = Some ''0''"
proof -
  let ?w = "awd8833c_set_enable_m True rising (awd8833c_gpio_init_m s)"
  have u: "u = awd8833c_set_speed_level speed ?w" by (simp add: u_def launch_prepare_def)
  show "menv u = menv s" "moves (mlog u) = moves (mlog s)" "steps_valid u = steps_valid s"
    by (simp_all add: u awd8833c_gpio_init_m_def awd8833c_set_enable_m_def motor_pins steps_valid_def)
  show "unat (step_delay mode u) = level_delay speed mode" unfolding u by (rule level_delay_set)
  show "high (mlog u) PIN_RISING_nSLEEP = (0 < rising)" "high (mlog u) PIN_PAN_nSLEEP = (rising = 0)"
    using assms(2) by (auto simp: u awd8833c_gpio_init_m_def awd8833c_set_enable_m_def motor_pins high_out word_gt_0)
  show "pin_shows u (if 0 < rising then PIN_PAN_nSLEEP else PIN_RISING_nSLEEP) = Some ''0''"
    using assms(2) by (auto simp: u pin_shows_def)
      (auto simp: awd8833c_gpio_init_m_def awd8833c_set_enable_m_def motor_pins simp flip: pin_shows_def)
  have "writes_pins (mlog s) (mlog u)"
    unfolding u by (auto simp: awd8833c_gpio_init_m_def awd8833c_set_enable_m_def motor_pins
        intro!: writes_out writes_refl)
  then show "\<exists>es. mlog u = es @ mlog s" by (simp add: writes_pins_def)
qed

lemma set_enable_facts:
  fixes s :: "'a motor_st_scheme"
  assumes "all_open s"
  shows "menv (awd8833c_set_enable_m en m s) = menv s" "moves (mlog (awd8833c_set_enable_m en m s)) = moves (mlog s)"
    "pin_shows (awd8833c_set_enable_m False m s) (if 0 < m then PIN_RISING_nSLEEP else PIN_PAN_nSLEEP) = Some ''0''"
    "q \<noteq> (if 0 < m then PIN_RISING_nSLEEP else PIN_PAN_nSLEEP) \<Longrightarrow>
      pin_shows (awd8833c_set_enable_m False m s) q = pin_shows s q"
    "\<exists>es. mlog (awd8833c_set_enable_m en m s) = es @ mlog s"
  using assms writes_out [OF writes_refl]
  by (auto simp: awd8833c_set_enable_m_def motor_pins writes_pins_def split: if_splits)

lemma shows_states:
  fixes s :: "'a motor_st_scheme"
  shows "pin_shows (s\<lparr>g_full_step_state_m := a\<rparr>) q = pin_shows s q" "pin_shows (s\<lparr>g_half_step_state_m := a\<rparr>) q = pin_shows s q"
  by (simp_all add: pin_shows_def)

text \<open>A step leaves the sleep pins alone.\<close>

lemma steps_shows:
  fixes f :: "'a motor_st_scheme \<Rightarrow> 'a motor_st_scheme"
  assumes "step_of d mode = Some f" and "all_open s" and "q = PIN_RISING_nSLEEP \<or> q = PIN_PAN_nSLEEP"
  shows "pin_shows ((f ^^ k) s) q = pin_shows s q"
proof (induction k)
  case (Suc k)
  have "all_open ((f ^^ k) s)" using steps_frame [OF assms(1,2)] by blast
  then have "pin_shows (f ((f ^^ k) s)) q = pin_shows ((f ^^ k) s) q"
    using assms(1,3) unfolding step_of_def
    by (auto simp: step_defs_m Let_def shows_states split: if_splits)
  with Suc show ?case by simp
qed simp

lemma timed_run:
  fixes s :: "'a motor_st_scheme"
  assumes env: "timer_env clock late (menv s)" and s: "all_open s" "steps_valid s" and ms: "ms \<noteq> 0"
    and i: "timer_interval ms = (sec, nsec)" "i = sec * 1000000000 + nsec" "0 < i" "0 \<le> late"
    and "d = 0 \<or> d = 1" and "mode = 0 \<or> mode = 1"
  shows "\<exists>t tr. awd8833c_motor_launch_by_time rising d mode speed ms s = Some t \<and>
    moves (mlog t) = tr @ moves (mlog s) \<and>
    turns (level_delay speed mode) (0 < rising) (rising = 0) (coil_stride d mode) tr \<and> tr \<noteq> [] \<and>
    1000 * int (level_delay speed mode) * (int (length tr) - 1) < i + late \<and>
    clock (mlog s) + i \<le> clock (mlog t) \<and>
    pin_shows t PIN_RISING_nSLEEP = Some ''0'' \<and> pin_shows t PIN_PAN_nSLEEP = Some ''0''"
proof -
  obtain f :: "'a motor_st_scheme \<Rightarrow> 'a motor_st_scheme" where f: "step_of d mode = Some f"
    using step_exists [OF assms(9,10)] by blast
  define u where "u = launch_prepare rising speed s"
  note u = prepare_facts [where rising = rising and speed = speed, OF s(1), folded u_def]
  define v where "v = emit (Timer_settime sec nsec) ((emit Timer_create (emit Sigaction u))
    \<lparr>m_isTimeout := 0\<rparr>)\<lparr>timer_armed := True\<rparr>"
  have v: "menv v = menv s" "moves (mlog v) = moves (mlog s)" "steps_valid v" "all_open v"
    "m_isTimeout v = 0" "timer_armed v" "step_delay mode v = step_delay mode u"
    "high (mlog v) PIN_RISING_nSLEEP = (0 < rising)" "high (mlog v) PIN_PAN_nSLEEP = (rising = 0)"
    "last_set (mlog v) = Some (mlog v, i)" "\<exists>es. tl (mlog v) = es @ mlog s"
    "pin_shows v (if 0 < rising then PIN_PAN_nSLEEP else PIN_RISING_nSLEEP) = Some ''0''"
    using u(1-4,6-) s i(2) by (auto simp: v_def emit_def step_delay_def steps_valid_def all_open_def pin_shows_def)
  have "awd8833c_timer_start ms u = Some (0, v)"
    using env u(1) i(1) ms by (simp add: awd8833c_timer_start_def awd8833c_timer_init_def timer_call_def
        timer_env_def v_def emit_def)
  then have run: "awd8833c_motor_launch_by_time rising d mode speed ms s =
      map_option (awd8833c_set_enable_m False rising)
       (while_option (\<lambda>s. m_isTimeout s = 0) (\<lambda>s. deliver_signal (f s)) v)"
    using f by (simp add: awd8833c_motor_launch_by_time_def u_def launch_prepare_def
        awd8833c_second_function_action_m_def map_option_case split: option.splits)
  have v7: "unat (step_delay mode v) = level_delay speed mode" unfolding v(7) by (rule u(5))
  have pos: "0 < unat (step_delay mode v)" unfolding v7 by (simp add: level_delay_def)
  have env_v: "timer_env clock late (menv v)" using env v(1) by simp
  from timed_loop [OF f env_v v(10) _ v(5,6) pos] i(3,4) obtain k where
    k: "while_option (\<lambda>s. m_isTimeout s = 0) (\<lambda>s. deliver_signal (f s)) v =
        Some (awd8833c_timer_handler ((f ^^ Suc k) v))"
      "1000 * int (level_delay speed mode) * int k < i + late"
      "clock (tl (mlog v)) + i \<le> clock (mlog ((f ^^ Suc k) v))" unfolding v7 by fastforce
  define w where "w = (f ^^ Suc k) v"
  obtain tr where tr: "moves (mlog w) = tr @ moves (mlog s)" "length tr = Suc k"
    "turns (level_delay speed mode) (0 < rising) (rising = 0) (coil_stride d mode) tr"
    using steps_turn [OF f v(4,3), of "Suc k"] unfolding w_def v(2,8,9) v7 by blast
  define x where "x = awd8833c_timer_handler w"
  have "all_open w" using steps_frame [OF f v(4)] by (simp only: w_def)
  then have x: "all_open x" "moves (mlog x) = moves (mlog w)" "clock (mlog w) \<le> clock (mlog x)"
    "pin_shows x q = pin_shows w q" for q
    using env by (simp_all add: x_def handler_simps all_open_def pin_shows_def timer_env_def)
  let ?t = "awd8833c_set_enable_m False rising x"
  note fin = set_enable_facts [where m = rising, OF x(1)]
  obtain es where "tl (mlog v) = es @ mlog s" using v(11) by blast
  then have "clock (mlog s) \<le> clock (tl (mlog v))" using clock_grows [OF env] by simp
  moreover obtain fs where "mlog ?t = fs @ mlog x" using fin(5) by blast
  then have "clock (mlog x) \<le> clock (mlog ?t)" using clock_grows [OF env] by simp
  ultimately have "clock (mlog s) + i \<le> clock (mlog ?t)" using k(3) x(3) by (simp add: w_def)
  moreover have "pin_shows ?t PIN_RISING_nSLEEP = Some ''0'' \<and> pin_shows ?t PIN_PAN_nSLEEP = Some ''0''"
  proof -
    have "pin_shows x (if 0 < rising then PIN_PAN_nSLEEP else PIN_RISING_nSLEEP) = Some ''0''"
      using v(12) steps_shows [OF f v(4), of _ "Suc k"] unfolding x(4) w_def by (simp split: if_splits del: funpow.simps)
    then show ?thesis using fin(3) fin(4) [where q = PIN_PAN_nSLEEP] fin(4) [where q = PIN_RISING_nSLEEP]
      by (auto split: if_splits)
  qed
  moreover have "tr \<noteq> []" "1000 * int (level_delay speed mode) * (int (length tr) - 1) < i + late"
    using tr(2) k(2) by auto
  moreover have "awd8833c_motor_launch_by_time rising d mode speed ms s = Some ?t"
    using run k(1) by (simp add: x_def w_def)
  moreover have "moves (mlog ?t) = tr @ moves (mlog s)" using fin(2) x(2) tr(1) by simp
  ultimately show ?thesis using tr(3) by blast
qed

lemma interval_exact:
  assumes "uint ms \<le> 4294"
  shows "timer_interval ms = (uint ms div 1000, uint ms mod 1000 * 1000000)"
proof -
  have "uint (ms * 1000000) = uint ms * 1000000"
    using assms uint_mult_lem [of ms 1000000] by simp
  moreover have "uint ms * 1000000 mod 1000000000 = uint ms mod 1000 * 1000000"
    using mult_mod_left [of "uint ms" 1000 1000000] by simp
  ultimately show ?thesis by (simp only: timer_interval_def uint_div) simp
qed

lemma timed_steps:
  fixes s :: "'a motor_st_scheme"
  assumes "timer_env clock late (menv s)" and "0 \<le> late" and "all_open s" and "steps_valid s"
    and "0 < ms" and "uint ms \<le> 4294" and "d = 0 \<or> d = 1" and "mode = 0 \<or> mode = 1"
  shows "\<exists>t tr. awd8833c_motor_launch_by_time rising d mode speed ms s = Some t \<and>
    moves (mlog t) = tr @ moves (mlog s) \<and>
    turns (level_delay speed mode) (0 < rising) (rising = 0) (coil_stride d mode) tr \<and> tr \<noteq> [] \<and>
    1000 * int (level_delay speed mode) * (int (length tr) - 1) < 1000000 * uint ms + late \<and>
    clock (mlog s) + 1000000 * uint ms \<le> clock (mlog t) \<and>
    pin_shows t PIN_RISING_nSLEEP = Some ''0'' \<and> pin_shows t PIN_PAN_nSLEEP = Some ''0''"
proof -
  have pos: "0 < uint ms" "ms \<noteq> 0" using assms(5) by (auto simp: word_less_def)
  have "1000000 * uint ms = uint ms div 1000 * 1000000000 + uint ms mod 1000 * 1000000"
    using div_mult_mod_eq [of "uint ms" 1000] by linarith
  from timed_run [OF assms(1,3,4) pos(2) interval_exact [OF assms(6)] this _ assms(2,7,8)] pos(1)
  show ?thesis by simp
qed

text \<open>
  C15: A timed run of up to 4294 ms always returns: the motor asked for, and only it, is awake for at
  least that time, with the pause of its speed level and step mode after every step. It makes at
  least one step, and at most so many that the pauses of all but the last are shorter than the time
  and the lateness of the timer together. From the sixth step on every step turns the coils by one
  stride in the direction asked for. At the end both motors are asleep. The clock, the lateness of
  the timer and the length of a sleep beyond the time asked for are arbitrary; the state variables
  of the step functions are in their range, and the pin files open.
\<close>

theorem timed_run_length:
  fixes s :: "'a motor_st_scheme"
  assumes "timer_env clock late (menv s)" and "0 \<le> late" and "all_open s" and "steps_valid s"
    and "0 < ms" and "uint ms \<le> 4294" and "d = 0 \<or> d = 1" and "mode = 0 \<or> mode = 1"
  shows "\<exists>t tr. awd8833c_motor_launch_by_time rising d mode speed ms s = Some t \<and>
    moves (mlog t) = tr @ moves (mlog s) \<and>
    turns (level_delay speed mode) (0 < rising) (rising = 0) (coil_stride d mode) tr \<and> tr \<noteq> [] \<and>
    1000 * int (level_delay speed mode) * (int (length tr) - 1) < 1000000 * uint ms + late \<and>
    clock (mlog s) + 1000000 * uint ms \<le> clock (mlog t) \<and>
    pin_shows t PIN_RISING_nSLEEP = Some ''0'' \<and> pin_shows t PIN_PAN_nSLEEP = Some ''0''"
  by (rule timed_steps) (use assms in simp_all)

text \<open>
  From 4295 ms on, the product of the interval in nanoseconds leaves 32 bits: a run of 4295 ms
  at high speed in full steps sets the timer to 4.000032704 s, which a timer that is less than 4.9 ms
  late ends after at most 801 steps of 5 ms; 4295 ms would be 859.
\<close>

theorem long_run_is_cut_short:
  fixes s :: "'a motor_st_scheme"
  assumes "timer_env clock late (menv s)" and "0 \<le> late" and "late < 4900000" and "all_open s" and "steps_valid s"
  shows "\<exists>t tr. awd8833c_motor_launch_by_time rising 1 0 3 4295 s = Some t \<and>
    moves (mlog t) = tr @ moves (mlog s) \<and> length tr \<le> 801"
proof -
  have i: "timer_interval 4295 = (4, 32704)" by (simp add: timer_interval_def)
  have l: "level_delay 3 0 = 5000" by (simp add: level_delay_def)
  from timed_run [OF assms(1,4,5) _ i refl _ assms(2), of 1 0 rising 3] obtain t tr where
    "awd8833c_motor_launch_by_time rising 1 0 3 4295 s = Some t" "moves (mlog t) = tr @ moves (mlog s)"
    "1000 * int (level_delay 3 0) * (int (length tr) - 1) < 4 * 1000000000 + 32704 + late"
    by auto
  then show ?thesis using assms(3) by (intro exI [of _ t] exI [of _ tr]) (simp add: l)
qed

subsection \<open>A board for the witnesses\<close>

text \<open>Its clock counts the pauses only, and its timer is punctual.\<close>

definition pause_clock :: "misc_io list \<Rightarrow> int" where
  "pause_clock h = 1000 * int (sum_list (sleeps h))"

definition drive_board :: misc where
  "drive_board = misc_static (quiet_env\<lparr>timer_expired := \<lambda>h. case last_set h of
     None \<Rightarrow> False | Some (g, i) \<Rightarrow> pause_clock g + i \<le> pause_clock h\<rparr>)"

lemma last_set_head: "last_set h = Some (g, i) \<Longrightarrow> \<exists>a b. hd g = Timer_settime a b \<and> g \<noteq> []"
  by (induction h) (auto split: misc_io.splits)

lemma pause_clock_env: "timer_env pause_clock 0 (menv drive_board)"
proof -
  have mono: "pause_clock h \<le> pause_clock (e # h)" for e h by (cases e) (simp_all add: pause_clock_def)
  have "pause_clock (tl g) = pause_clock g" if "last_set h = Some (g, i)" for h g i
    using last_set_head [OF that] by (cases g) (auto simp: pause_clock_def)
  moreover have "pause_clock (Usleep n # h) = pause_clock h + 1000 * int n" for n h
    by (simp add: pause_clock_def)
  ultimately show ?thesis
    using mono by (auto simp: timer_env_def drive_board_def misc_static_def nv_initial_def quiet_env_def split: option.split)
qed

lemma drive_board_values: "all_open drive_board" "mlog drive_board = []" "steps_valid drive_board"
  by (simp_all add: drive_board_def all_open_def misc_static_def nv_initial_def quiet_env_def steps_valid_def)

text \<open>On that clock the number of pauses is determined.\<close>

lemma sleeps_moves: "sleeps h = map mv_pause (moves h)"
  by (induction h rule: moves.induct) simp_all

lemma turns_clock:
  assumes "turns n r p d tr" and "moves h = tr"
  shows "pause_clock h = 1000 * int n * int (length tr)"
proof -
  have "map mv_pause tr = replicate (length tr) n" using assms(1) by (intro replicate_eqI) (auto simp: turns_def)
  then show ?thesis by (simp add: pause_clock_def sleeps_moves assms(2) sum_list_replicate)
qed

theorem timed_run_length_witness:
  "\<exists>t tr. awd8833c_motor_launch_by_time 1 1 0 3 12 drive_board = Some t \<and> moves (mlog t) = tr \<and>
    length tr = 3 \<and> turns 5000 True False 2 tr \<and> pin_shows t 17 = Some ''0''"
proof -
  have v: "level_delay 3 0 = 5000" "uint (12 :: u32) = 12" "0 < (12 :: u32)" "coil_stride 1 0 = 2"
    by (simp_all add: level_delay_def coil_stride_def)
  from timed_run_length [OF pause_clock_env _ drive_board_values(1,3) v(3), of 1 0 1 3]
  obtain t tr where t: "awd8833c_motor_launch_by_time 1 1 0 3 12 drive_board = Some t" "moves (mlog t) = tr"
      "turns 5000 True False 2 tr" "5000000 * (int (length tr) - 1) < 12000000"
      "12000000 \<le> pause_clock (mlog t)" "pin_shows t 17 = Some ''0''"
    by (auto simp: v drive_board_values pause_clock_def)
  from turns_clock [OF t(3,2)] t(4,5) have "length tr = 3" by simp
  with t show ?thesis by blast
qed

theorem long_run_is_cut_short_witness:
  "\<exists>t. awd8833c_motor_launch_by_time 0 1 0 3 4295 drive_board = Some t \<and> length (moves (mlog t)) \<le> 801"
  using long_run_is_cut_short [OF pause_clock_env _ _ drive_board_values(1,3), of 0]
  by (auto simp: drive_board_values)

end
