(* ===== verification/Misc_Net.thy ===== *)
theory Misc_Net
  imports Misc_Als_Props
begin

text \<open>
  Properties of the main loop and of the remaining outputs: when the Wi-Fi counts as ready, what
  the acknowledgement of the Wi-Fi firmware is compared with, and what the PWM channels cost.
\<close>

subsection \<open>Wi-Fi interfaces\<close>

lemma env_keeps [simp]:
  "menv (pin_out p v s) = menv s" "menv (usleep n s) = menv s"
  by (simp_all add: pin_out_def Pega_Gpio_pin_output_set_def sys_open_def usleep_def Let_def)

lemma pattern_keeps_env: "menv (snd (Pega_led_flash_Pattern_Set p s)) = menv s"
proof -
  have "menv (snd (led_pattern_switch p u)) = menv u" for u :: "'a led_st_scheme"
    by (simp add: led_pattern_switch_def solid_def flash_color_def led_pins Pega_led_flash_handler_Start_def)
  then show ?thesis
    by (simp add: Pega_led_flash_Pattern_Set_def Pega_led_flash_Chanel_def led_pins)
qed

lemma state_set_env [simp]: "menv (snd (Pega_led_flash_state_Set e s)) = menv s"
  by (simp add: Pega_led_flash_state_Set_def Let_def pattern_keeps_env)

lemma state_set_flags [simp]:
  fixes s :: "'a misc_st_scheme"
  shows "bIsWiFiDisable (snd (Pega_led_flash_state_Set e s)) = bIsWiFiDisable s"
    "bIsWiFiFwReady (snd (Pega_led_flash_state_Set e s)) = bIsWiFiFwReady s"
proof -
  have "ble_st.more (snd (Pega_led_flash_state_Set e s)) = ble_st.more s"
    by (rule led_state_pair) simp
  then show "bIsWiFiDisable (snd (Pega_led_flash_state_Set e s)) = bIsWiFiDisable s"
    "bIsWiFiFwReady (snd (Pega_led_flash_state_Set e s)) = bIsWiFiFwReady s"
    by (cases s; cases "snd (Pega_led_flash_state_Set e s)"; simp)+
qed

lemma state_set_led: "e = 3 \<or> e = 4 \<Longrightarrow> m_eLED_State s \<le> 5 \<Longrightarrow>
    m_eLED_State (snd (Pega_led_flash_state_Set e s)) = ucast e"
proof -
  assume e: "e = 3 \<or> e = 4" and s: "m_eLED_State s \<le> 5"
  then have "uint (m_eLED_State s) \<le> 5" by (simp add: word_le_def)
  then have "Pega_led_flash_state_priority_get (uint (m_eLED_State s)) \<le> 10" by (simp add: priorities)
  moreover have "m_eLED_State s = ucast e" if "ucast (m_eLED_State s) = e"
  proof -
    have "(ucast (ucast (m_eLED_State s) :: u16) :: u8) = m_eLED_State s"
      by (rule bit_eqI) (simp add: bit_simps)
    then show ?thesis by (simp only: that)
  qed
  ultimately show ?thesis using e by (auto simp: Pega_led_flash_state_Set_def Let_def priorities)
qed

text \<open>The network interfaces, when the directory does not change.\<close>

definition net_is :: "'a gpio_st_scheme \<Rightarrow> string set \<Rightarrow> bool" where
  "net_is s ns \<longleftrightarrow> (\<forall>h. case dir_list (menv s) h ''/sys/class/net/'' of
     None \<Rightarrow> ns = {} | Some es \<Rightarrow> ns = set es)"

lemma exists_check:
  assumes "net_is s ns" and "n \<noteq> ''.''" and "n \<noteq> ''..''"
  shows "pega_netip_is_interface_exist n s = (if n \<in> ns then 0 else -1, emit (Opendir ''/sys/class/net/'') s)"
  using spec [OF assms(1) [unfolded net_is_def], of "mlog s"] assms(2,3)
  by (auto simp: pega_netip_is_interface_exist_def dir_has_def split: option.splits)

lemma net_is_cong: "menv t = menv s \<Longrightarrow> net_is t ns = net_is s ns"
  by (simp add: net_is_def)

lemma emit_flags [simp]:
  fixes s :: "'a misc_st_scheme"
  shows "bIsWiFiDisable (emit e s) = bIsWiFiDisable s" "bIsWiFiFwReady (emit e s) = bIsWiFiFwReady s"
    "bIsALSDisable (emit e s) = bIsALSDisable s"
  by (simp_all add: emit_def)

lemma which_if_keeps:
  fixes s :: "'a misc_st_scheme"
  assumes "which_if (dir_has p) s = (i, t)"
  shows "menv t = menv s \<and> bIsWiFiDisable t = bIsWiFiDisable s \<and> bIsWiFiFwReady t = bIsWiFiFwReady s \<and>
    m_eLED_State t = m_eLED_State s"
  using assms by (auto simp: which_if_def dir_has_def split: if_splits)

lemma update_wifi_keeps [simp]:
  "menv (Pega_Misc_Update_WiFi_interface s) = menv s"
  "bIsWiFiDisable (Pega_Misc_Update_WiFi_interface s) = bIsWiFiDisable s"
  "bIsWiFiFwReady (Pega_Misc_Update_WiFi_interface s) = bIsWiFiFwReady s"
  "m_eLED_State (Pega_Misc_Update_WiFi_interface s) = m_eLED_State s"
  by (auto simp: Pega_Misc_Update_WiFi_interface_def pega_netip_interface_check_sd0_def [abs_def]
      pega_netip_interface_check_sd1_def [abs_def] dest!: which_if_keeps split: prod.splits)

text \<open>
  C27: With the light sensor off, one round of the main loop makes the Wi-Fi ready when both
  interfaces exist and not ready when both are gone; one interface alone changes nothing. The LED
  follows at the change, unless the power goes off.
\<close>

theorem wifi_ready_hysteresis:
  assumes "net_is s ns" and "bIsALSDisable s" and "\<not> bIsWiFiDisable s" and "m_eLED_State s \<le> 5"
  shows "\<exists>t. main_round s = Some t \<and>
    (let ups = (''mlan0'' \<in> ns) \<and> ''mlan1'' \<in> ns; downs = ''mlan0'' \<notin> ns \<and> ''mlan1'' \<notin> ns in
     bIsWiFiFwReady t = (if bIsWiFiFwReady s then \<not> downs else ups) \<and>
     m_eLED_State t = (if \<not> bIsWiFiFwReady s \<and> ups then 3
       else if bIsWiFiFwReady s \<and> downs then 4 else m_eLED_State s))"
proof -
  have n: "''mlan0'' \<noteq> ''.''" "''mlan0'' \<noteq> ''..''" "''mlan1'' \<noteq> ''.''" "''mlan1'' \<noteq> ''..''" by simp_all
  have e: "net_is (emit x u) ns = net_is u ns" for x and u :: "'a misc_st_scheme"
    by (rule net_is_cong) simp
  note ex = exists_check [where ns = ns, OF _ n(1,2)] exists_check [where ns = ns, OF _ n(3,4)]
  define r where "r = pega_misc_wifi_ready_check s"
  have r: "menv r = menv s" "bIsWiFiDisable r = bIsWiFiDisable s"
    "bIsWiFiFwReady r = (bIsWiFiFwReady s \<or> ''mlan0'' \<in> ns \<and> ''mlan1'' \<in> ns)"
    "m_eLED_State r = (if \<not> bIsWiFiFwReady s \<and> ''mlan0'' \<in> ns \<and> ''mlan1'' \<in> ns then 3 else m_eLED_State s)"
    using assms by (simp_all add: r_def pega_misc_wifi_ready_check_def ex e state_set_led)
  then have net: "net_is r ns" using assms(1) net_is_cong by blast
  define t where "t = pega_misc_wifi_interface_check r"
  have led: "m_eLED_State r \<le> 5" using r(4) assms(4) by simp
  have t: "bIsWiFiFwReady t = (bIsWiFiFwReady r \<and> (''mlan0'' \<in> ns \<or> ''mlan1'' \<in> ns))"
    "m_eLED_State t = (if bIsWiFiFwReady r \<and> ''mlan0'' \<notin> ns \<and> ''mlan1'' \<notin> ns then 4 else m_eLED_State r)"
    using assms(3) r(2) led net by (simp_all add: t_def pega_misc_wifi_interface_check_def ex e state_set_led)
  have "main_round s = Some (usleep 1000000 t)"
    using assms(2) by (simp add: main_round_def pega_misc_ALS_handler_def t_def r_def)
  then show ?thesis using t r(3,4) by (auto simp add: Let_def usleep_def)
qed

subsection \<open>Acknowledgement of the firmware\<close>

text \<open>
  When the controller has answered with the five bytes of the acknowledgement and nothing else,
  the check still fails unless a NUL happens to lie behind the pattern array on the stack.
\<close>

theorem ack_needs_a_terminator:
  assumes "c_string (m_u8Buffer s) = wifiAck"
  shows "Pega_Ble_uart_CheckReceiveDone s \<longleftrightarrow> c_string (stack_bytes (menv s) (mlog s)) = []"
proof -
  have "c_string (wifiAck @ x) = wifiAck @ c_string x" for x
    by (simp add: c_string_def wifiAck_def)
  then show ?thesis
    unfolding Pega_Ble_uart_CheckReceiveDone_def assms by (auto dest: sublist_length_le)
qed

fun waits :: "misc_io list \<Rightarrow> nat" where
  "waits [] = 0"
| "waits (Usleep n # h) = n + waits h"
| "waits (_ # h) = waits h"

lemma silent_wait:
  fixes s :: "'a ble_st_scheme"
  assumes "\<forall>h. \<not> uart_sigio (menv s) h" and "\<not> m_bDataReceive s"
  shows "\<exists>t. bringup_wait n s = (0, t) \<and> menv t = menv s \<and> m_u8Buffer t = m_u8Buffer s \<and>
    waits (mlog t) = n * 10000 + waits (mlog s)"
  using assms
proof (induction n arbitrary: s)
  case (Suc n)
  have "\<not> m_bDataReceive (usleep 10000 s)" "m_u8Buffer (usleep 10000 s) = m_u8Buffer s"
    using Suc.prems(2) by (simp_all add: usleep_def emit_def)
  then show ?case using Suc.IH [of "usleep 10000 s"] Suc.prems by (auto simp: Let_def)
qed auto

text \<open>
  The answer is looked for even when none came: on a silent port the check runs after 2.99 s
  on the bytes of the last answer, so an earlier acknowledgement counts again.
\<close>

theorem silent_port_checks_the_old_answer:
  fixes s :: "'a ble_st_scheme"
  assumes "\<forall>h. \<not> uart_sigio (menv s) h" and "\<not> m_bDataReceive s"
  shows "\<exists>t. Pega_Ble_uart_BringUp_Ready 3000 s = (Pega_Ble_uart_CheckReceiveDone t, t) \<and>
    m_u8Buffer t = m_u8Buffer s \<and> waits (mlog t) = 2990000 + waits (mlog s)"
proof -
  have "nat (3000 sdiv 10 - 1) = 299" by (simp add: signed_divide_int_def)
  then show ?thesis using silent_wait [OF assms, of 299] by (auto simp: Pega_Ble_uart_BringUp_Ready_def)
qed

subsection \<open>PWM channels\<close>

lemma pwm_config_log:
  "all_open s \<Longrightarrow> Pega_pwm_config ch p d s = (0, s\<lparr>mlog := Close (Pwm_duty_cycle ch) #
     Write_file (Pwm_duty_cycle ch) (show_int (sint (p div 100 * d))) # Open (Pwm_duty_cycle ch) True #
     Write_file (Pwm_period ch) (show_int (sint p)) # Open (Pwm_period ch) True # mlog s\<rparr>)"
  by (simp add: Pega_pwm_config_def sys_open_def all_open_def emit_def Let_def)

text \<open>
  The diagnostic commands 4 and 6 set the duty cycle of the IR light and of the spot light in
  percent of a period of 20000 ns, although the spot light starts with 30000 ns, and each leaves
  one file descriptor open.
\<close>

theorem pwm_command_leaks_a_descriptor:
  assumes "all_open s" and "eCmdId (m_stDiagCmd s) = 4 \<or> eCmdId (m_stDiagCmd s) = 6"
    and "0 \<le> value1 (m_stDiagCmd s)" and "value1 (m_stDiagCmd s) \<le> 100"
  shows "\<exists>t. Pega_diag_msgq_Cmd_Execution s = Some t \<and>
    (let ch = (if eCmdId (m_stDiagCmd s) = 4 then PWM_CH6 else PWM_CH7) in
     last_write (mlog t) (Pwm_period ch) = Some (show_int 20000) \<and>
     last_write (mlog t) (Pwm_duty_cycle ch) = Some (show_int (200 * value1 (m_stDiagCmd s)))) \<and>
    open_fds (mlog t) = open_fds (mlog s) + 1"
proof -
  define v where "v = value1 (m_stDiagCmd s)"
  have "sint (word_of_int (200 * v) :: u32) = signed_take_bit 31 (200 * v)" by transfer simp
  then have "sint (200 * word_of_int v :: u32) = 200 * v"
    using assms(3,4) by (simp add: v_def signed_take_bit_int_eq_self)
  then show ?thesis using assms(1,2)
    by (auto simp: Pega_diag_msgq_Cmd_Execution_def diag_switch_def pwm_config_log PT_DIAG_SET_def emit_def
        upd_diag_def Let_def v_def)
qed

subsection \<open>Boards for the witnesses\<close>

definition net_board :: "string list \<Rightarrow> misc" where
  "net_board ns = (misc_static (quiet_env\<lparr>dir_list := \<lambda>h d. Some ns\<rparr>))\<lparr>bIsALSDisable := True\<rparr>"

lemma net_board_values:
  "net_is (net_board ns) (set ns)" "bIsALSDisable (net_board ns)" "\<not> bIsWiFiDisable (net_board ns)"
  "m_eLED_State (net_board ns) = 0" "\<not> bIsWiFiFwReady (net_board ns)" "mlog (net_board ns) = []"
  "\<not> m_bDataReceive (net_board ns)" "\<not> uart_sigio (menv (net_board ns)) h" "all_open (net_board ns)"
  "stack_bytes (menv (net_board ns)) h = []"
  by (simp_all add: net_board_def net_is_def misc_static_def nv_initial_def quiet_env_def all_open_def)

theorem wifi_ready_hysteresis_witness:
  "\<exists>t. main_round (net_board [''mlan1'', ''mlan0'']) = Some t \<and> bIsWiFiFwReady t \<and> m_eLED_State t = 3"
  using wifi_ready_hysteresis [OF net_board_values(1-3), of "[''mlan1'', ''mlan0'']"]
  by (simp add: net_board_values Let_def)

theorem ack_needs_a_terminator_witness:
  "Pega_Ble_uart_CheckReceiveDone ((net_board [])\<lparr>m_u8Buffer := wifiAck @ [0]\<rparr>)"
  using ack_needs_a_terminator [of "(net_board [])\<lparr>m_u8Buffer := wifiAck @ [0]\<rparr>"]
  by (simp add: net_board_values c_string_def wifiAck_def)

theorem silent_port_checks_the_old_answer_witness:
  "\<exists>t. Pega_Ble_uart_BringUp_Ready 3000 (net_board []) = (Pega_Ble_uart_CheckReceiveDone t, t) \<and>
    m_u8Buffer t = replicate 64 0 \<and> waits (mlog t) = 2990000"
proof -
  have "m_u8Buffer (net_board []) = replicate 64 0" by (simp add: net_board_def misc_static_def nv_initial_def)
  then show ?thesis using silent_port_checks_the_old_answer [of "net_board []"] by (simp add: net_board_values)
qed

theorem pwm_command_leaks_a_descriptor_witness:
  "\<exists>t. Pega_diag_msgq_Cmd_Execution ((net_board [])\<lparr>m_stDiagCmd := zero_diag\<lparr>eCmdId := 6, value1 := 30\<rparr>\<rparr>) = Some t \<and>
    last_write (mlog t) (Pwm_duty_cycle PWM_CH7) = Some (show_int 6000) \<and> open_fds (mlog t) = 1"
proof -
  let ?s = "(net_board [])\<lparr>m_stDiagCmd := zero_diag\<lparr>eCmdId := 6, value1 := 30\<rparr>\<rparr>"
  have "all_open ?s" using net_board_values(9) by (simp add: all_open_def)
  then show ?thesis
    using pwm_command_leaks_a_descriptor [of ?s] by (auto simp: net_board_values zero_diag_def Let_def)
qed

end
