(* ===== verification/Diag_Base.thy ===== *)
theory Diag_Base
  imports Misc_Run
begin

text \<open>
  The command line client \<open>pega_diag\<close> talks to the daemon through a message queue, to the shell
  through \<open>system\<close> and \<open>popen\<close>, and to its user through lines of the form \<open>#INFO#...#END#\<close>. This
  theory holds its state, the calls it makes (\<open>pega_diag_msgq_cmd.c\<close>, \<open>pega_network_ip.c\<close> and the
  macros of \<open>pega_diag.h\<close>) and its view of its argument vector. A fault (a read through a null
  pointer, a write past an array) is the result \<open>None\<close>.
\<close>

subsection \<open>State\<close>

text \<open>
  The log holds, newest first, what the program did: the name a handler prints when it starts, the
  other text it prints, its replies, the messages it sent and whether the queue took them, the
  shell commands, the pipes, the directory and the files it opened, its pauses and the help tables.
\<close>

datatype diag_io = Trace string | Say string | Reply string | Msg diag_msg bool | Shell string
  | Pipe string | Open_net | Fopen string bool | Sleep nat | Help_table "(string \<times> string) list"
  | Main_help "(string \<times> string) list"

text \<open>One entry of \<open>getifaddrs\<close>: an IPv4 address is set, \<open>getnameinfo\<close> accepts it, the netmask.\<close>

record ifaddrs =
  ifa_name :: string
  ifa_inet :: bool
  ifa_numeric :: bool
  ifa_netmask :: "string option"

text \<open>
  The environment answers from the log so far: the exit status of a shell command, the output of a
  piped one (\<open>None\<close>: \<open>popen\<close> fails), the entries of \<open>/sys/class/net\<close>, the IPv4 address of an
  interface, the lines of \<open>/proc/net/if_inet6\<close> as pairs of an interface and an address, the list
  of \<open>getifaddrs\<close>, whether a file opens and whether the message queue takes a message. \<open>environ\<close>
  are the strings of the environment, which Linux lays out behind the null pointer that ends
  \<open>argv\<close>; \<open>stack_text\<close> is what an uninitialised local array holds up to its first NUL.
\<close>

record diag_env =
  environ :: "string list"
  stack_text :: string
  shell_ret :: "diag_io list \<Rightarrow> string \<Rightarrow> int"
  pipe_out :: "diag_io list \<Rightarrow> string \<Rightarrow> string option"
  net_entries :: "diag_io list \<Rightarrow> string list option"
  inet4_of :: "diag_io list \<Rightarrow> string \<Rightarrow> string option"
  inet6_lines :: "diag_io list \<Rightarrow> (string \<times> string) list option"
  ifaddrs_of :: "diag_io list \<Rightarrow> ifaddrs list option"
  fopen_ok :: "diag_io list \<Rightarrow> string \<Rightarrow> bool"
  msgq_ok :: "diag_io list \<Rightarrow> bool"

record diag_st =
  denv :: diag_env
  dlog :: "diag_io list"
  m_stDiagMsg :: diag_msg
  audio_file_path :: string
  audio_record_time :: string
  audio_play_time :: string
  mic_record_volume :: int

type_synonym handler = "string list \<Rightarrow> diag_st \<Rightarrow> (int \<times> diag_st) option"

definition log_io :: "diag_io \<Rightarrow> diag_st \<Rightarrow> diag_st" where
  "log_io e s = s\<lparr>dlog := e # dlog s\<rparr>"

text \<open>Quotes and newlines, which a string literal cannot hold as they are.\<close>

abbreviation (input) quote :: string where "quote \<equiv> [CHR 0x22]"

subsection \<open>Arguments and buffers\<close>

text \<open>The argument vector in the environment of the state.\<close>

definition argv_at :: "string list \<Rightarrow> nat \<Rightarrow> diag_st \<Rightarrow> string option option" where
  "argv_at args i s = argv_mem args (environ (denv s)) i"

text \<open>\<open>sprintf\<close> into an array of \<open>n\<close> bytes, and \<open>snprintf\<close>.\<close>

definition sprintf_into :: "nat \<Rightarrow> string \<Rightarrow> string option" where
  "sprintf_into n str = (if length str < n then Some str else None)"

definition snprintf :: "nat \<Rightarrow> string \<Rightarrow> string" where
  "snprintf n str = take (n - 1) str"

subsection \<open>Shell\<close>

definition system_c :: "string \<Rightarrow> diag_st \<Rightarrow> int \<times> diag_st" where
  "system_c cmd s = (shell_ret (denv s) (dlog s) cmd, log_io (Shell cmd) s)"

text \<open>
  The content of a buffer after \<open>fgets(buff, k + 1, fd)\<close> has been called until it returns the null
  pointer: the last line, or the last piece of it when the line is longer than \<open>k\<close>.
\<close>

fun last_line :: "nat \<Rightarrow> string \<Rightarrow> string \<Rightarrow> string \<Rightarrow> string" where
  "last_line k acc buf [] = (if acc = [] then buf else acc)"
| "last_line k acc buf (c # cs) =
     (if c = CHR 0x0A \<or> Suc (length acc) = k then last_line k [] (acc @ [c]) cs
      else last_line k (acc @ [c]) buf cs)"

definition pegaDiag_StringBuffGet :: "string \<Rightarrow> nat \<Rightarrow> diag_st \<Rightarrow> int \<times> string \<times> diag_st" where
  "pegaDiag_StringBuffGet pCmd pSize s =
     (let t = log_io (Pipe pCmd) s
      in case pipe_out (denv s) (dlog s) pCmd of
           None \<Rightarrow> (-1, [], t)
         | Some text \<Rightarrow> (0, last_line (pSize - 2) [] [] text, t))"

subsection \<open>Replies\<close>

definition DIAG_SET :: "int \<Rightarrow> diag_st \<Rightarrow> diag_st" where
  "DIAG_SET r = log_io (Reply (''#INFO#'' @ (if r \<noteq> 0 then ''-1'' else ''0'') @ ''#END#''))"

definition DIAG_GET :: "int \<Rightarrow> string \<Rightarrow> diag_st \<Rightarrow> diag_st" where
  "DIAG_GET r data = log_io (Reply
     (''#INFO#'' @ (if r \<noteq> 0 then ''-1'' else ''0'') @ '':'' @ data @ ''#END#''))"

subsection \<open>Messages\<close>

definition zero_msg :: diag_msg where
  "zero_msg = \<lparr>eCmdId = 0, value1 = 0, value2 = 0, value3 = 0, fval1 = 0, fval2 = 0\<rparr>"

text \<open>The queue is the daemon's (key 85695540); both calls of the queue can fail.\<close>

definition Pega_diag_msgq_send_request :: "diag_msg \<Rightarrow> diag_st \<Rightarrow> int \<times> diag_st" where
  "Pega_diag_msgq_send_request m s =
     (let ok = msgq_ok (denv s) (dlog s) in (if ok then 0 else -1, log_io (Msg m ok) s))"

subsection \<open>Network interfaces\<close>

definition client_interface_exist :: "string \<Rightarrow> diag_st \<Rightarrow> int \<times> diag_st" where
  "client_interface_exist ifname s =
     (case net_entries (denv s) (dlog s) of
        None \<Rightarrow> (-1, log_io Open_net s)
      | Some ds \<Rightarrow> (if ifname \<in> set (filter (\<lambda>d. d \<noteq> ''.'' \<and> d \<noteq> ''..'') ds) then 0 else -1,
                     log_io Open_net s))"

text \<open>\<open>IFNAMSIZ\<close> is 16.\<close>

definition pega_netip_parse_inet4 :: "string \<Rightarrow> string \<Rightarrow> diag_st \<Rightarrow> int \<times> string" where
  "pega_netip_parse_inet4 ifname ip s =
     (if length ifname \<ge> 16 then (-1, ip)
      else (case inet4_of (denv s) (dlog s) ifname of None \<Rightarrow> (-1, ip) | Some a \<Rightarrow> (0, a)))"

fun inet6_scan :: "string \<Rightarrow> (string \<times> string) list \<Rightarrow> int \<times> string \<Rightarrow> int \<times> string" where
  "inet6_scan ifname [] r = r"
| "inet6_scan ifname ((d, a) # ls) r = inet6_scan ifname ls (if d \<noteq> ifname then r else (0, a))"

definition pega_netip_parse_inet6 :: "string \<Rightarrow> string \<Rightarrow> diag_st \<Rightarrow> int \<times> string" where
  "pega_netip_parse_inet6 ifname ip s =
     (case inet6_lines (denv s) (dlog s) of None \<Rightarrow> (-1, ip)
      | Some ls \<Rightarrow> inet6_scan ifname ls (-1, ip))"

definition pega_netip_ip_get :: "string \<Rightarrow> diag_st \<Rightarrow> int \<times> string" where
  "pega_netip_ip_get ifname s =
     (case pega_netip_parse_inet4 ifname [] s of (r, ip) \<Rightarrow>
      if r > -1 then (0, ip)
      else (case pega_netip_parse_inet6 ifname ip s of (r, ip) \<Rightarrow>
        if r > -1 then (0, ip) else (-1, ip)))"

end
