(* ===== verification/Diag_Handlers.thy ===== *)
theory Diag_Handlers
  imports Diag_Base
begin

text \<open>
  The handlers of \<open>pega_diag.c\<close> that its command tables reach, one definition each. A handler gets
  the argument vector from its own name on; \<open>--argc, ++argv\<close> at its start is \<open>tl args\<close>. Most only
  fill the message and send it; the daemon then replies.
\<close>

text \<open>What the handlers share: print the name, set fields of the static message, send it.\<close>

definition request :: "string \<Rightarrow> (diag_msg \<Rightarrow> diag_msg) \<Rightarrow> diag_st \<Rightarrow> diag_st" where
  "request fname f s =
     (let s = log_io (Trace fname) s; s = s\<lparr>m_stDiagMsg := f (m_stDiagMsg s)\<rparr>
      in snd (Pega_diag_msgq_send_request (m_stDiagMsg s) s))"

subsection \<open>Versions\<close>

definition pegaDiag_IspFwVersionGet :: handler where
  "pegaDiag_IspFwVersionGet args s = 
     (case pegaDiag_StringBuffGet
        (''A=`pega_misc -v | grep 'version' | cut -d' ' -f3`;echo -n '' @ quote @ ''$A'' @ quote) 100 s
      of (r, buff, s) \<Rightarrow> Some (r, DIAG_GET 0 buff s))"

definition pegaDiag_WifiVersionGet :: handler where
  "pegaDiag_WifiVersionGet args s = 
     (case client_interface_exist ''mlan0'' s of (e, s) \<Rightarrow>
      if e < 0 then Some (0, DIAG_GET 0 ''NULL'' s)
      else (case pegaDiag_StringBuffGet
        (''A=`cat /proc/mwlan/adapter0/mlan0/info | grep 'firmware_major_version' | cut -d'=' -f2`;'' @
         ''echo -n '' @ quote @ ''$A'' @ quote) 120 s
      of (r, buff, s) \<Rightarrow> Some (r, DIAG_GET 0 buff s)))"

subsection \<open>Lights\<close>

definition pegaDiag_IcrDayModeSet :: handler where
  "pegaDiag_IcrDayModeSet args s =
     Some (0, request ''pegaDiag_IcrDayModeSet'' (\<lambda>m. m\<lparr>eCmdId := 2, value1 := 0\<rparr>) s)"

definition pegaDiag_IcrNightModeSet :: handler where
  "pegaDiag_IcrNightModeSet args s =
     Some (0, request ''pegaDiag_IcrNightModeSet'' (\<lambda>m. m\<lparr>eCmdId := 2, value1 := 1\<rparr>) s)"

definition pegaDiag_IrLedOn :: handler where
  "pegaDiag_IrLedOn args s =
     Some (0, request ''pegaDiag_IrLedOn'' (\<lambda>m. m\<lparr>eCmdId := 3, value1 := 1\<rparr>) s)"

definition pegaDiag_IrLedOff :: handler where
  "pegaDiag_IrLedOff args s =
     Some (0, request ''pegaDiag_IrLedOff'' (\<lambda>m. m\<lparr>eCmdId := 3, value1 := 0\<rparr>) s)"

text \<open>\<open>atoi\<close> reads its argument without a check for the null pointer.\<close>

definition duty_of :: "string list \<Rightarrow> diag_st \<Rightarrow> int option" where
  "duty_of argv s = do {
     a \<leftarrow> argv_at argv 0 s;
     str \<leftarrow> a;
     let v = atoi str;
     let v = (if v \<le> 0 then 1 else v);
     Some (if v > 100 then 100 else v)
   }"

definition pegaDiag_IrLedPwmValueSet :: handler where
  "pegaDiag_IrLedPwmValueSet args s = 
     map_option (\<lambda>v. (0, request ''pegaDiag_IrLedPwmValueSet'' (\<lambda>m. m\<lparr>eCmdId := 4, value1 := v\<rparr>) s))
       (duty_of (tl args) s)"

definition pegaDiag_SpotLedOn :: handler where
  "pegaDiag_SpotLedOn args s =
     Some (0, request ''pegaDiag_SpotLedOn'' (\<lambda>m. m\<lparr>eCmdId := 5, value1 := 1\<rparr>) s)"

definition pegaDiag_SpotLedOff :: handler where
  "pegaDiag_SpotLedOff args s =
     Some (0, request ''pegaDiag_SpotLedOff'' (\<lambda>m. m\<lparr>eCmdId := 5, value1 := 0\<rparr>) s)"

definition pegaDiag_SpotLedPwmValueSet :: handler where
  "pegaDiag_SpotLedPwmValueSet args s = 
     map_option (\<lambda>v. (0, request ''pegaDiag_SpotLedPwmValueSet'' (\<lambda>m. m\<lparr>eCmdId := 6, value1 := v\<rparr>) s))
       (duty_of (tl args) s)"

definition pegaDiag_LedAllOn :: handler where
  "pegaDiag_LedAllOn args s =
     Some (0, request ''pegaDiag_LedAllOn'' (\<lambda>m. m\<lparr>eCmdId := 7, value1 := 4\<rparr>) s)"

definition pegaDiag_LedAllOff :: handler where
  "pegaDiag_LedAllOff args s =
     Some (0, request ''pegaDiag_LedAllOff'' (\<lambda>m. m\<lparr>eCmdId := 7, value1 := 5\<rparr>) s)"

definition pegaDiag_LedROn :: handler where
  "pegaDiag_LedROn args s =
     Some (0, request ''pegaDiag_LedROn'' (\<lambda>m. m\<lparr>eCmdId := 7, value1 := 1, value2 := 1\<rparr>) s)"

definition pegaDiag_LedROff :: handler where
  "pegaDiag_LedROff args s =
     Some (0, request ''pegaDiag_LedROff'' (\<lambda>m. m\<lparr>eCmdId := 7, value1 := 1, value2 := 0\<rparr>) s)"

definition pegaDiag_LedGOn :: handler where
  "pegaDiag_LedGOn args s =
     Some (0, request ''pegaDiag_LedGOn'' (\<lambda>m. m\<lparr>eCmdId := 7, value1 := 2, value2 := 1\<rparr>) s)"

definition pegaDiag_LedGOff :: handler where
  "pegaDiag_LedGOff args s =
     Some (0, request ''pegaDiag_LedGOff'' (\<lambda>m. m\<lparr>eCmdId := 7, value1 := 2, value2 := 0\<rparr>) s)"

definition pegaDiag_LedBOn :: handler where
  "pegaDiag_LedBOn args s =
     Some (0, request ''pegaDiag_LedBOn'' (\<lambda>m. m\<lparr>eCmdId := 7, value1 := 3, value2 := 1\<rparr>) s)"

definition pegaDiag_LedBOff :: handler where
  "pegaDiag_LedBOff args s =
     Some (0, request ''pegaDiag_LedBOff'' (\<lambda>m. m\<lparr>eCmdId := 7, value1 := 3, value2 := 0\<rparr>) s)"

subsection \<open>Ambient light sensor\<close>

definition pegaDiag_AlsIdGet :: handler where
  "pegaDiag_AlsIdGet args s =
     Some (0, request ''pegaDiag_AlsIdGet'' (\<lambda>m. m\<lparr>eCmdId := 8, value1 := 1\<rparr>) s)"

definition pegaDiag_AlsDayModeSet :: handler where
  "pegaDiag_AlsDayModeSet args s =
     Some (0, request ''pegaDiag_AlsDayModeSet'' (\<lambda>m. m\<lparr>eCmdId := 8, value1 := 2\<rparr>) s)"

definition pegaDiag_AlsNightModeSet :: handler where
  "pegaDiag_AlsNightModeSet args s =
     Some (0, request ''pegaDiag_AlsNightModeSet'' (\<lambda>m. m\<lparr>eCmdId := 8, value1 := 3\<rparr>) s)"

definition pegaDiag_AlsValueGet :: handler where
  "pegaDiag_AlsValueGet args s =
     Some (0, request ''pegaDiag_AlsValueGet'' (\<lambda>m. m\<lparr>eCmdId := 8, value1 := 4\<rparr>) s)"

text \<open>\<open>%f\<close>: six digits after the point, rounded to even.\<close>

definition show_fixed :: "rat \<Rightarrow> string" where
  "show_fixed x =
     (let n = nat (round_even (abs x * 1000000)); frac = show_dec (n mod 1000000)
      in (if x < 0 then ''-'' else []) @ show_dec (n div 1000000) @ ''.'' @
         replicate (6 - length frac) (CHR ''0'') @ frac)"

text \<open>
  Both arguments are looked at, also when the first is the null pointer; then the second is the
  first string of the environment.
\<close>

definition pegaDiag_AlsCalidata :: handler where
  "pegaDiag_AlsCalidata args s = do {
     let argv = tl args;
     let s = log_io (Trace ''pegaDiag_AlsCalidata'') s;
     let s = s\<lparr>m_stDiagMsg := (m_stDiagMsg s)\<lparr>eCmdId := 8, value1 := 5\<rparr>\<rparr>;
     a0 \<leftarrow> argv_at argv 0 s;
     (gain, s) \<leftarrow> (case a0 of
         None \<Rightarrow> Some (0, s)
       | Some str \<Rightarrow> do {
           let gain = f32 (atof str);
           cmd \<leftarrow> sprintf_into 64 (''sh /etc/pega/diag/als_calidata_write.sh '' @ show_fixed gain);
           Some (gain, snd (system_c cmd s))
         });
     a1 \<leftarrow> argv_at argv 1 s;
     (offset, s) \<leftarrow> (case a1 of
         None \<Rightarrow> Some (-1000, s)
       | Some str \<Rightarrow> do {
           let offset = f32 (atof str);
           cmd \<leftarrow> sprintf_into 64 (''sh /etc/pega/diag/als_calidata_write.sh '' @ show_fixed gain @
             '' '' @ show_fixed offset);
           Some (offset, snd (system_c cmd s))
         });
     let s = s\<lparr>m_stDiagMsg := (m_stDiagMsg s)\<lparr>fval1 := gain, fval2 := offset\<rparr>\<rparr>;
     Some (0, snd (Pega_diag_msgq_send_request (m_stDiagMsg s) s))
   }"

definition pegaDiag_AlsOn :: handler where
  "pegaDiag_AlsOn args s =
     Some (0, request ''pegaDiag_AlsOn'' (\<lambda>m. m\<lparr>eCmdId := 8, value1 := 6\<rparr>) s)"

definition pegaDiag_AlsOff :: handler where
  "pegaDiag_AlsOff args s =
     Some (0, request ''pegaDiag_AlsOff'' (\<lambda>m. m\<lparr>eCmdId := 8, value1 := 7\<rparr>) s)"

definition pegaDiag_AlsCalidata_Get :: handler where
  "pegaDiag_AlsCalidata_Get args s =
     Some (0, request ''pegaDiag_AlsCalidata_Get'' (\<lambda>m. m\<lparr>eCmdId := 8, value1 := 8\<rparr>) s)"

subsection \<open>Amplifier and button\<close>

text \<open>The message keeps what was set before the range check; the table entry that names this
  handler is \<open>volume xx\<close>, a name with a blank.\<close>

definition pegaDiag_AudioVolumeSet :: handler where
  "pegaDiag_AudioVolumeSet args s = do {
     let s = log_io (Trace ''pegaDiag_AudioVolumeSet'') s;
     let s = s\<lparr>m_stDiagMsg := (m_stDiagMsg s)\<lparr>eCmdId := 10, value1 := 2\<rparr>\<rparr>;
     a0 \<leftarrow> argv_at (tl args) 0 s;
     let volume = (case a0 of None \<Rightarrow> 0 | Some str \<Rightarrow> f32 (atof str));
     Some (0, if volume < 17 / 2 \<or> volume > 22
              then DIAG_SET (-1) (log_io (Say ''[error] Volume value is wrong!'') s)
              else (let s = s\<lparr>m_stDiagMsg := (m_stDiagMsg s)\<lparr>fval1 := volume\<rparr>\<rparr>
                    in snd (Pega_diag_msgq_send_request (m_stDiagMsg s) s)))
   }"

definition pegaDiag_ButtonDetection_Get :: handler where
  "pegaDiag_ButtonDetection_Get args s =
     Some (0, request ''pegaDiag_ButtonDetection_Get'' (\<lambda>m. m\<lparr>eCmdId := 11, value1 := 1\<rparr>) s)"

definition pegaDiag_AudioInit :: handler where
  "pegaDiag_AudioInit args s =
     Some (0, request ''pegaDiag_AudioInit'' (\<lambda>m. m\<lparr>eCmdId := 10, value1 := 1\<rparr>) s)"

end
