(* ===== verification/Diag_Shell.thy ===== *)
theory Diag_Shell
  imports Diag_Handlers
begin

text \<open>
  The handlers of \<open>pega_diag.c\<close> that do their work with shell commands: Wi-Fi, Bluetooth,
  Ethernet, audio files, output, ring LED, accelerometer, NFC, motors and streaming.
\<close>

subsection \<open>Wi-Fi\<close>

definition wifi_script :: "bool \<Rightarrow> string \<Rightarrow> string \<Rightarrow> diag_st \<Rightarrow> (int \<times> diag_st) option" where
  "wifi_script there fname cmd s =
     (case client_interface_exist ''mlan0'' (log_io (Trace fname) s) of (e, s) \<Rightarrow>
      Some (0, DIAG_SET 0 (if (e > -1) = there then log_io (Sleep 3) (snd (system_c cmd s)) else s)))"

definition pegaDiag_WifiOn :: handler where
  "pegaDiag_WifiOn args = wifi_script False ''pegaDiag_WifiOn'' ''sh /scripts/IW610_wifi_on.sh''"

definition pegaDiag_WifiOff :: handler where
  "pegaDiag_WifiOff args = wifi_script True ''pegaDiag_WifiOff'' ''sh /scripts/wifi_driver_off.sh''"

definition pegaDiag_WifiMfg :: handler where
  "pegaDiag_WifiMfg args =
     wifi_script False ''pegaDiag_WifiMfg'' ''sh /scripts/IW610_wifi_on.sh mfg''"

definition wifi_connect_mlan0 :: "string \<Rightarrow> string \<Rightarrow> diag_st \<Rightarrow> int \<times> diag_st" where
  "wifi_connect_mlan0 ssid pass s =
     (case client_interface_exist ''mlan0'' s of (e, s) \<Rightarrow>
      if e > -1
      then (0, DIAG_SET 0 (snd (system_c
        (snprintf 120 (''/scripts/wifi_connect.sh '' @ ssid @ '' '' @ pass)) s)))
      else (0, DIAG_SET (-1) s))"

definition pegaDiag_WifiConnect :: handler where
  "pegaDiag_WifiConnect args s = do {
     let argv = tl args;
     let s = log_io (Trace ''pegaDiag_WifiConnect'') s;
     a0 \<leftarrow> argv_at argv 0 s;
     case a0 of
       None \<Rightarrow> Some (0, DIAG_SET (-1) (log_io (Say ''[error] SSID is empty!'') s))
     | Some ssid \<Rightarrow> do {
         a1 \<leftarrow> argv_at argv 1 s;
         case a1 of
           None \<Rightarrow> Some (0, DIAG_SET (-1) (log_io (Say ''[error] PASSWORD is empty!'') s))
         | Some pass \<Rightarrow> do {
             a2 \<leftarrow> argv_at argv 2 s;
             case a2 of
               None \<Rightarrow> Some (wifi_connect_mlan0 ssid pass s)
             | Some ifname \<Rightarrow>
                 if take 5 ifname = ''mlan1''
                 then (case client_interface_exist ''mlan1'' s of (e, s) \<Rightarrow>
                   if e > -1
                   then Some (0, DIAG_SET 0 (snd (system_c (snprintf 120
                     (''/scripts/wifi_connect.sh '' @ ssid @ '' '' @ pass @ '' mlan1'')) s)))
                   else Some (wifi_connect_mlan0 ssid pass s))
                 else Some (wifi_connect_mlan0 ssid pass s)
           }
       }
   }"

definition pegaDiag_WifiStatus :: handler where
  "pegaDiag_WifiStatus args s =
     (let s = log_io (Trace ''pegaDiag_WifiStatus'') s
      in case pega_netip_ip_get ''mlan0'' s of (rtn, ip) \<Rightarrow>
        Some (0, DIAG_GET 0 (if rtn > -1 then ''Connected'' else ''No connection'') s))"

definition pegaDiag_WifiRssiGet :: handler where
  "pegaDiag_WifiRssiGet args s = Some (0, DIAG_GET 0 [] (log_io (Trace ''pegaDiag_WifiRssiGet'') s))"

definition pegaDiag_WifiMacGet :: handler where
  "pegaDiag_WifiMacGet args s =
     (case pegaDiag_StringBuffGet
        (''A=`ifconfig | grep mlan0 | cut -d' ' -f10`;echo -n '' @ quote @ ''$A'' @ quote) 100
        (log_io (Trace ''pegaDiag_WifiMacGet'') s)
      of (r, buff, s) \<Rightarrow> Some (r, DIAG_GET 0 buff s))"

definition pegaDiag_WifiInterfaceGet :: handler where
  "pegaDiag_WifiInterfaceGet args s =
     Some (0, request ''pegaDiag_WifiInterfaceGet'' (\<lambda>m. m\<lparr>eCmdId := 14, value1 := 1\<rparr>) s)"

text \<open>
  The quotes around a value of the configuration file are cut off by copying \<open>strlen(buff) - 2\<close>
  bytes. The length is unsigned: a shorter answer asks for almost the whole address space.
\<close>

definition unquote :: "string \<Rightarrow> string option" where
  "unquote buff = (if length buff < 2 then None else Some (take (length buff - 2) (drop 1 buff)))"

definition wpa_value :: "string \<Rightarrow> string \<Rightarrow> diag_st \<Rightarrow> (int \<times> diag_st) option" where
  "wpa_value fname key s =
     (case pegaDiag_StringBuffGet
        (''A=`cat /config/nxp/wpa.conf | grep '' @ key @ '' | cut -d'=' -f2`;echo -n $A'') 100
        (log_io (Trace fname) s)
      of (r, buff, s) \<Rightarrow> map_option (\<lambda>str. (r, DIAG_GET 0 str s)) (unquote buff))"

definition pegaDiag_WifiSsidGet :: handler where
  "pegaDiag_WifiSsidGet args = wpa_value ''pegaDiag_WifiSsidGet'' ''ssid''"

definition pegaDiag_WifiPassGet :: handler where
  "pegaDiag_WifiPassGet args = wpa_value ''pegaDiag_WifiPassGet'' ''psk''"

definition shell_set :: "string \<Rightarrow> nat \<Rightarrow> string \<Rightarrow> string list \<Rightarrow> diag_st \<Rightarrow> (int \<times> diag_st) option" where
  "shell_set fname bytes cmd argv s = do {
     let s = log_io (Trace fname) s;
     a0 \<leftarrow> argv_at argv 0 s;
     Some (case a0 of
         None \<Rightarrow> (-1, DIAG_SET (-1) s)
       | Some v \<Rightarrow> (0, DIAG_SET 0 (snd (system_c (snprintf bytes (cmd @ v)) s))))
   }"

definition pegaDiag_WifiSsidSet :: handler where
  "pegaDiag_WifiSsidSet args s = map_option (\<lambda>(r, s). (0, s))
     (shell_set ''pegaDiag_WifiSsidSet'' 100 ''/scripts/wifi_ssid.sh '' (tl args) s)"

definition pegaDiag_WifiPassSet :: handler where
  "pegaDiag_WifiPassSet args s = map_option (\<lambda>(r, s). (0, s))
     (shell_set ''pegaDiag_WifiPassSet'' 100 ''/scripts/wifi_password.sh '' (tl args) s)"

definition pegaDiag_WifiIpAddrGet :: handler where
  "pegaDiag_WifiIpAddrGet args s =
     (let s = log_io (Trace ''pegaDiag_WifiIpAddrGet'') s
      in case pega_netip_ip_get ''mlan0'' s of (rtn, ip) \<Rightarrow>
        Some (0, DIAG_GET 0 (if rtn > -1 then ip else ''NULL'') s))"

definition pegaDiag_WifiIpAddrSet :: handler where
  "pegaDiag_WifiIpAddrSet args s = map_option (\<lambda>(r, s). (0, s))
     (shell_set ''pegaDiag_WifiIpAddrSet'' 100 ''ifconfig mlan0 '' (tl args) s)"

text \<open>The first usable entry of the interface; its netmask is used without a check.\<close>

fun find_mlan0 :: "ifaddrs list \<Rightarrow> ifaddrs option" where
  "find_mlan0 [] = None"
| "find_mlan0 (i # is) =
     (if \<not> ifa_inet i then find_mlan0 is
      else if \<not> ifa_numeric i then find_mlan0 is
      else if ifa_name i = ''mlan0'' then Some i
      else find_mlan0 is)"

definition pegaDiag_WifiIpMaskGet :: handler where
  "pegaDiag_WifiIpMaskGet args s =
     (let s = log_io (Trace ''pegaDiag_WifiIpMaskGet'') s
      in case ifaddrs_of (denv s) (dlog s) of
           None \<Rightarrow> Some (-1, s)
         | Some is \<Rightarrow> (case find_mlan0 is of
             None \<Rightarrow> Some (0, DIAG_GET 0 ''NULL'' s)
           | Some i \<Rightarrow> map_option (\<lambda>addr. (0, DIAG_GET 0 addr s)) (ifa_netmask i)))"

definition pegaDiag_WifiIpMaskSet :: handler where
  "pegaDiag_WifiIpMaskSet args s = map_option (\<lambda>(r, s). (0, s))
     (shell_set ''pegaDiag_WifiIpMaskSet'' 100 ''ifconfig mlan0 netmask '' (tl args) s)"

subsection \<open>Bluetooth and Ethernet\<close>

text \<open>The first line of the answer; \<open>pclose\<close> of a pipe that did not open is a fault.\<close>

definition pegaDiag_is_ble_fw_ready :: "diag_st \<Rightarrow> (int \<times> diag_st) option" where
  "pegaDiag_is_ble_fw_ready s =
     (let cmd = ''hciconfig | grep -c UART''; t = log_io (Pipe cmd) s
      in case pipe_out (denv s) (dlog s) cmd of
           None \<Rightarrow> None
         | Some text \<Rightarrow> Some (if text = [] then 0 else atoi (fst (take_line 511 text)), t))"

definition pegaDiag_BleOn :: handler where
  "pegaDiag_BleOn args s =
     (case client_interface_exist ''mlan0'' (log_io (Trace ''pegaDiag_BleOn'') s) of (e, s) \<Rightarrow>
      if e > -1
      then map_option (\<lambda>(ready, s). (0, DIAG_SET 0
             (if ready = 0 then snd (system_c ''/scripts/IW610_ble_on.sh'' s) else s)))
           (pegaDiag_is_ble_fw_ready s)
      else Some (0, DIAG_SET 0 (log_io (Say ''[error] IW610 fw is not ready!'') s)))"

definition pegaDiag_BleOff :: handler where
  "pegaDiag_BleOff args s = Some (0, DIAG_SET 0 (log_io (Trace ''pegaDiag_BleOff'') s))"

definition pegaDiag_BleScan :: handler where
  "pegaDiag_BleScan args s = do {
     (ready, s) \<leftarrow> pegaDiag_is_ble_fw_ready (log_io (Trace ''pegaDiag_BleScan'') s);
     let s = (if ready = 0
              then log_io (Sleep 4) (snd (system_c ''/scripts/IW610_ble_on.sh'' s)) else s);
     let s = snd (system_c ''hciconfig hci0 up'' s);
     Some (0, DIAG_SET 0 (if length args = 2
       then snd (system_c (snprintf 120 (''hcitool -i hci0 name '' @ args ! 1)) s) else s))
   }"

definition pegaDiag_EthernetOn :: handler where
  "pegaDiag_EthernetOn args s = do {
     let argv = tl args;
     let s = log_io (Trace ''pegaDiag_EthernetOn'') s;
     a0 \<leftarrow> argv_at argv 0 s;
     case a0 of
       None \<Rightarrow> Some (-1, DIAG_SET (-1) (log_io (Say ''No interface'') s))
     | Some ifname \<Rightarrow> do {
         a1 \<leftarrow> argv_at argv 1 s;
         case a1 of
           None \<Rightarrow> Some (-1, DIAG_SET (-1) (log_io (Say ''No ip'') s))
         | Some ip \<Rightarrow> Some (0, DIAG_SET 0 (snd (system_c
             (snprintf 100 (''/scripts/Ethernet_on.sh '' @ ifname @ '' '' @ ip)) s)))
       }
   }"

subsection \<open>Audio files\<close>

definition pegaDiag_AudioFileExist :: "string \<Rightarrow> diag_st \<Rightarrow> (int \<times> diag_st) option" where
  "pegaDiag_AudioFileExist fname s = do {
     p \<leftarrow> sprintf_into 128 fname;
     let s = s\<lparr>audio_file_path := p\<rparr>;
     let ok = fopen_ok (denv s) (dlog s) p;
     let s = log_io (Fopen p ok) s;
     Some (if ok then (1, s) else (-1, log_io (Say (''file '' @ fname @ '' isn't exist!'')) s))
   }"

definition run_audio :: "string \<Rightarrow> string \<Rightarrow> diag_st \<Rightarrow> (int \<times> diag_st) option" where
  "run_audio file cmd s = do {
     (r, s) \<leftarrow> pegaDiag_AudioFileExist file s;
     if r = 1 then map_option (\<lambda>cmd. system_c cmd s) (sprintf_into 256 cmd) else Some (-1, s)
   }"

definition pegaDiag_AudioRecordFile :: handler where
  "pegaDiag_AudioRecordFile args s = do {
     let argv = tl args;
     let s = log_io (Trace ''pegaDiag_AudioRecordFile'') s;
     t \<leftarrow> (if argv = [] then Some ''10''
          else map_option (\<lambda>t. if atoi t \<le> 0 then ''10'' else t) (sprintf_into 64 (hd argv)));
     let file = ''/config/audio/16k_16bit_stereo_ai.json'';
     (r, s) \<leftarrow> run_audio file (''prog_audio_audio -f '' @ file @ '' -t '' @ t)
                (s\<lparr>audio_record_time := t\<rparr>);
     Some (r, DIAG_SET r s)
   }"

text \<open>
  The duration of \<open>play\<close> goes to a local array of 16 bytes; when it is no positive number only its
  first character is replaced by that of the default.
\<close>

definition play_duration :: "string \<Rightarrow> diag_st \<Rightarrow> string option" where
  "play_duration str s = map_option (\<lambda>d. if atoi d \<le> 0
       then hd (audio_play_time s) # (if d = [] then stack_text (denv s) else tl d) else d)
     (sprintf_into 16 str)"

definition pegaDiag_AudioPlayFile :: handler where
  "pegaDiag_AudioPlayFile args s = do {
     let argv = tl args;
     let s = (log_io (Trace ''pegaDiag_AudioPlayFile'') s)\<lparr>audio_play_time := ''10''\<rparr>;
     (r, s) \<leftarrow> (case argv of
         [f] \<Rightarrow> run_audio f (''prog_audio_audio -f '' @ f) s
       | [f, d] \<Rightarrow> do {
           f \<leftarrow> sprintf_into 128 f;
           d \<leftarrow> play_duration d s;
           run_audio f (''prog_audio_audio -f '' @ f @ '' -t '' @ d) s
         }
       | _ \<Rightarrow> run_audio ''/config/audio/16k_16bit_mono_ao.json''
                (''prog_audio_audio -f '' @ ''/config/audio/16k_16bit_mono_ao.json'') s);
     Some (r, DIAG_SET r s)
   }"

subsection \<open>Output\<close>

definition pegaDiag_PrintConsole :: handler where
  "pegaDiag_PrintConsole args s =
     Some (0, DIAG_SET 0 (request ''pegaDiag_PrintConsole'' (\<lambda>m. m\<lparr>eCmdId := 16, value1 := 255\<rparr>) s))"

definition pegaDiag_PrintTelnet :: handler where
  "pegaDiag_PrintTelnet args s =
     (case tl args of
        [] \<Rightarrow> Some (system_c ''sh /etc/pega/diag/tty_path.sh''
                 (log_io (Trace ''pegaDiag_PrintTelnet'') s))
      | a # _ \<Rightarrow> Some (0, DIAG_SET 0 (request ''pegaDiag_PrintTelnet''
          (\<lambda>m. m\<lparr>eCmdId := 16, value1 := atoi a\<rparr>) s)))"

subsection \<open>Ring LED, accelerometer and NFC\<close>

text \<open>These three do not step over their own name: the script gets it as its argument.\<close>

definition pegaDiag_NFCControl :: handler where
  "pegaDiag_NFCControl args = shell_set ''pegaDiag_NFCControl'' 160 ''/scripts/NFC.sh '' args"

definition pegaDiag_RingLedControl :: handler where
  "pegaDiag_RingLedControl args = shell_set ''pegaDiag_RingLedControl'' 160 ''/scripts/ring_led.sh '' args"

definition pegaDiag_AccControl :: handler where
  "pegaDiag_AccControl args = shell_set ''pegaDiag_AccControl'' 160 ''/scripts/acc.sh '' args"

subsection \<open>Motors and streaming\<close>

definition motor_self_test :: "int \<Rightarrow> diag_st \<Rightarrow> (int \<times> diag_st) option" where
  "motor_self_test m s =
     Some (0, DIAG_SET 0 (snd (system_c (''pega_misc_dbg motor 1 '' @ show_int m) s)))"

definition motor_move :: "int \<Rightarrow> string list \<Rightarrow> diag_st \<Rightarrow> (int \<times> diag_st) option" where
  "motor_move code argv s = do {
     a0 \<leftarrow> argv_at argv 0 s;
     let speed = (case a0 of None \<Rightarrow> 3 | Some str \<Rightarrow> atoi str);
     a1 \<leftarrow> argv_at argv 1 s;
     let time = (case a1 of None \<Rightarrow> 1000 | Some str \<Rightarrow> atoi str);
     cmd \<leftarrow> sprintf_into 64 (''pega_misc_dbg motor '' @ show_int code @ '' '' @ show_int speed @
       '' '' @ show_int time);
     Some (0, DIAG_SET 0 (snd (system_c cmd s)))
   }"

definition pegaDiag_rising_motor_test :: handler where
  "pegaDiag_rising_motor_test args = motor_self_test 1"

definition pegaDiag_rising_motor_forward :: handler where
  "pegaDiag_rising_motor_forward args = motor_move 14 (tl args)"

definition pegaDiag_rising_motor_reverse :: handler where
  "pegaDiag_rising_motor_reverse args = motor_move 13 (tl args)"

definition pegaDiag_pan_motor_forward :: handler where
  "pegaDiag_pan_motor_forward args = motor_move 12 (tl args)"

definition pegaDiag_pan_motor_reverse :: handler where
  "pegaDiag_pan_motor_reverse args = motor_move 11 (tl args)"

definition pegaDiag_pan_motor_test :: handler where
  "pegaDiag_pan_motor_test args = motor_self_test 0"

definition pegaDiag_streaming_on :: handler where
  "pegaDiag_streaming_on args s =
     (let s = log_io (Trace ''pegaDiag_streaming_on'') s
      in Some (0, DIAG_SET 0
        (if fst (pega_netip_ip_get ''mlan0'' s) > -1 then snd (system_c ''/scripts/streaming_on.sh'' s)
         else if fst (pega_netip_ip_get ''eth0'' s) > -1 then snd (system_c ''/scripts/streaming_on.sh'' s)
         else if fst (pega_netip_ip_get ''eth1'' s) > -1 then snd (system_c ''/scripts/streaming_on.sh'' s)
         else log_io (Say ''[Error]Interface is not ready.'') s)))"

definition pegaDiag_mfgbridge_test :: handler where
  "pegaDiag_mfgbridge_test args s =
     Some (0, DIAG_SET 0 (snd (system_c ''/scripts/IW610_mfgbridge_test.sh''
       (snd (system_c ''/scripts/libgpiod_enable.sh'' s)))))"

end
