(* ===== verification/Diag_Table.thy ===== *)
theory Diag_Table
  imports Diag_Shell
begin

text \<open>
  The command tables of \<open>pega_diag.c\<close>, the search through them and \<open>main\<close>.
\<close>

subsection \<open>Tables\<close>

text \<open>
  An entry has a name, a line of help and either a handler or another table. The entry of null
  pointers that ends a table is the end of the list. Some entries only hold lines of help: both
  pointers are null.
\<close>

datatype command_line = Command_line (cmd: string) (doc: string) (func: "handler option")
  (eNext: "command_line list option")

definition m_eVersionCommand :: "command_line list" where
  "m_eVersionCommand =
     [Command_line ''sw'' ''sw version'' (Some pegaDiag_IspFwVersionGet) None,
      Command_line ''wifi'' ''wifi version'' (Some pegaDiag_WifiVersionGet) None]"

definition m_eIcrCommand :: "command_line list" where
  "m_eIcrCommand =
     [Command_line ''day'' ''icr day mode set'' (Some pegaDiag_IcrDayModeSet) None,
      Command_line ''night'' ''icr night mode set'' (Some pegaDiag_IcrNightModeSet) None]"

definition m_eIrLedCommand :: "command_line list" where
  "m_eIrLedCommand =
     [Command_line ''on'' ''ir on'' (Some pegaDiag_IrLedOn) None,
      Command_line ''off'' ''ir off'' (Some pegaDiag_IrLedOff) None,
      Command_line ''set'' ''ir pwm set'' (Some pegaDiag_IrLedPwmValueSet) None]"

definition m_eSpotLedCommand :: "command_line list" where
  "m_eSpotLedCommand =
     [Command_line ''on'' ''spot on'' (Some pegaDiag_SpotLedOn) None,
      Command_line ''off'' ''spot off'' (Some pegaDiag_SpotLedOff) None,
      Command_line ''set'' ''spot pwm set'' (Some pegaDiag_SpotLedPwmValueSet) None]"

definition m_eLedCommand :: "command_line list" where
  "m_eLedCommand =
     [Command_line ''on'' ''Led_All on'' (Some pegaDiag_LedAllOn) None,
      Command_line ''off'' ''Led_All off'' (Some pegaDiag_LedAllOff) None]"

definition m_eLedRCommand :: "command_line list" where
  "m_eLedRCommand =
     [Command_line ''on'' ''Led_R on'' (Some pegaDiag_LedROn) None,
      Command_line ''off'' ''Led_R off'' (Some pegaDiag_LedROff) None]"

definition m_eLedGCommand :: "command_line list" where
  "m_eLedGCommand =
     [Command_line ''on'' ''Led_G on'' (Some pegaDiag_LedGOn) None,
      Command_line ''off'' ''Led_G off'' (Some pegaDiag_LedGOff) None]"

definition m_eLedBCommand :: "command_line list" where
  "m_eLedBCommand =
     [Command_line ''on'' ''Led_B on'' (Some pegaDiag_LedBOn) None,
      Command_line ''off'' ''Led_B off'' (Some pegaDiag_LedBOff) None]"

definition m_eAlsCommand :: "command_line list" where
  "m_eAlsCommand =
     [Command_line ''id'' ''als id'' (Some pegaDiag_AlsIdGet) None,
      Command_line ''day'' ''als day mode'' (Some pegaDiag_AlsDayModeSet) None,
      Command_line ''night'' ''als night mode'' (Some pegaDiag_AlsNightModeSet) None,
      Command_line ''value'' ''als value'' (Some pegaDiag_AlsValueGet) None,
      Command_line ''calidata'' ''als calidata'' (Some pegaDiag_AlsCalidata) None,
      Command_line ''on'' ''als enable'' (Some pegaDiag_AlsOn) None,
      Command_line ''off'' ''als disable'' (Some pegaDiag_AlsOff) None,
      Command_line ''gain'' ''als gain get'' (Some pegaDiag_AlsCalidata_Get) None]"

definition m_eButtonCommand :: "command_line list" where
  "m_eButtonCommand =
     [Command_line ''get'' ''button status get'' (Some pegaDiag_ButtonDetection_Get) None]"

definition m_eWifiSsidCommand :: "command_line list" where
  "m_eWifiSsidCommand =
     [Command_line ''get'' ''wifi ssid get'' (Some pegaDiag_WifiSsidGet) None,
      Command_line ''set'' ''wifi ssid set'' (Some pegaDiag_WifiSsidSet) None]"

definition m_eWifiPasswordCommand :: "command_line list" where
  "m_eWifiPasswordCommand =
     [Command_line ''get'' ''wifi password get'' (Some pegaDiag_WifiPassGet) None,
      Command_line ''set'' ''wifi password set'' (Some pegaDiag_WifiPassSet) None]"

definition m_eWifiIPAddrCommand :: "command_line list" where
  "m_eWifiIPAddrCommand =
     [Command_line ''get'' ''wifi ip_addr get'' (Some pegaDiag_WifiIpAddrGet) None,
      Command_line ''set'' ''wifi ip_addr set'' (Some pegaDiag_WifiIpAddrSet) None]"

definition m_eWifiIPMaskCommand :: "command_line list" where
  "m_eWifiIPMaskCommand =
     [Command_line ''get'' ''wifi ip_mask get'' (Some pegaDiag_WifiIpMaskGet) None,
      Command_line ''set'' ''wifi ip_mask set'' (Some pegaDiag_WifiIpMaskSet) None]"

definition m_eWifiCommand :: "command_line list" where
  "m_eWifiCommand =
     [Command_line ''on'' ''wifi on'' (Some pegaDiag_WifiOn) None,
      Command_line ''off'' ''wifi off'' (Some pegaDiag_WifiOff) None,
      Command_line ''mfg'' ''wifi mfg fw on'' (Some pegaDiag_WifiMfg) None,
      Command_line ''connect'' ''wifi connect ssid password'' (Some pegaDiag_WifiConnect) None,
      Command_line ''status'' ''wifi connection status'' (Some pegaDiag_WifiStatus) None,
      Command_line ''rssi'' ''wifi rssi'' (Some pegaDiag_WifiRssiGet) None,
      Command_line ''mac'' ''wifi mac address'' (Some pegaDiag_WifiMacGet) None,
      Command_line ''interface'' ''wifi interface'' (Some pegaDiag_WifiInterfaceGet) None,
      Command_line ''ssid'' ''wifi ssid command'' None (Some m_eWifiSsidCommand),
      Command_line ''password'' ''wifi password'' None (Some m_eWifiPasswordCommand),
      Command_line ''ip_addr'' ''wifi ip address'' None (Some m_eWifiIPAddrCommand),
      Command_line ''ip_mask'' ''wifi ip mask'' None (Some m_eWifiIPMaskCommand)]"

definition m_eBleCommand :: "command_line list" where
  "m_eBleCommand =
     [Command_line ''on'' ''ble on'' (Some pegaDiag_BleOn) None,
      Command_line ''off'' ''ble off'' (Some pegaDiag_BleOff) None,
      Command_line ''scan'' ''ble scan'' (Some pegaDiag_BleScan) None]"

definition m_eEthernetCommand :: "command_line list" where
  "m_eEthernetCommand =
     [Command_line ''command:'' ''[interface:eth0/eth1/ethx] [ip:192.168.xx.xx]'' None None,
      Command_line ''example:'' ''diag ethernet on eth0 192.168.0.5'' None None,
      Command_line ''on'' ''ethernet enable'' (Some pegaDiag_EthernetOn) None]"

definition m_eAudioCommand :: "command_line list" where
  "m_eAudioCommand =
     [Command_line ''init'' ''init amplifier'' (Some pegaDiag_AudioInit) None,
      Command_line ''record'' ''record audio file'' (Some pegaDiag_AudioRecordFile) None,
      Command_line ''play'' ''play audio file'' (Some pegaDiag_AudioPlayFile) None,
      Command_line ''volume xx'' ''audio volume Set (xx:0~15)'' (Some pegaDiag_AudioVolumeSet) None]"

definition m_eOut2TelnetCommand :: "command_line list" where
  "m_eOut2TelnetCommand =
     [Command_line ''console'' ''print to console'' (Some pegaDiag_PrintConsole) None,
      Command_line ''telnet'' ''print to telnet'' (Some pegaDiag_PrintTelnet) None]"

definition m_eRingLEDConfigCommand :: "command_line list" where
  "m_eRingLEDConfigCommand =
     [Command_line ''mode_on'' ''Mode on'' (Some pegaDiag_RingLedControl) None,
      Command_line ''mode_off'' ''Mode off'' (Some pegaDiag_RingLedControl) None,
      Command_line ''mode_default'' ''Default'' (Some pegaDiag_RingLedControl) None,
      Command_line ''mode_night'' ''Mode night'' (Some pegaDiag_RingLedControl) None,
      Command_line ''be_on'' ''Brightextend on'' (Some pegaDiag_RingLedControl) None,
      Command_line ''be_off'' ''brightextend off'' (Some pegaDiag_RingLedControl) None,
      Command_line ''ce_set'' ''CoolExtend set'' (Some pegaDiag_RingLedControl) None,
      Command_line ''ce_get'' ''CoolExtend get'' (Some pegaDiag_RingLedControl) None,
      Command_line ''fr_set'' ''Fade Rate set'' (Some pegaDiag_RingLedControl) None,
      Command_line ''fr_get'' ''Fade Rate get'' (Some pegaDiag_RingLedControl) None]"

definition m_eRingLEDCommand :: "command_line list" where
  "m_eRingLEDCommand =
     [Command_line ''config'' ''RingLED Config'' None (Some m_eRingLEDConfigCommand),
      Command_line ''on_breath'' ''White light Breathing on'' (Some pegaDiag_RingLedControl) None,
      Command_line ''off_breath'' ''White light Breathing off'' (Some pegaDiag_RingLedControl) None,
      Command_line ''breathing'' ''breathing'' (Some pegaDiag_RingLedControl) None,
      Command_line ''br2colors'' ''br2colors'' (Some pegaDiag_RingLedControl) None,
      Command_line ''br_demo'' ''br_demo'' (Some pegaDiag_RingLedControl) None,
      Command_line ''flower'' ''flower'' (Some pegaDiag_RingLedControl) None,
      Command_line ''chase'' ''chase'' (Some pegaDiag_RingLedControl) None,
      Command_line ''chase_demo'' ''chasing_demo'' (Some pegaDiag_RingLedControl) None,
      Command_line ''racing'' ''racing'' (Some pegaDiag_RingLedControl) None,
      Command_line ''brlogscale'' ''breathing logscale'' (Some pegaDiag_RingLedControl) None,
      Command_line ''br_logscale_demo'' ''breathing logscale demo'' (Some pegaDiag_RingLedControl) None]"

definition m_eAccCommand :: "command_line list" where
  "m_eAccCommand =
     [Command_line ''acc_raw'' ''Read 3 Axis raw data'' (Some pegaDiag_AccControl) None,
      Command_line ''acc_scale'' ''Read 3 Axis scale'' (Some pegaDiag_AccControl) None,
      Command_line ''int_6D_on'' ''enable 6D event'' (Some pegaDiag_AccControl) None,
      Command_line ''int_6D_off'' ''disable 6D event'' (Some pegaDiag_AccControl) None,
      Command_line ''int_freefall_on'' ''enable freefall event'' (Some pegaDiag_AccControl) None,
      Command_line ''int_freefall_off'' ''disable freefall event'' (Some pegaDiag_AccControl) None,
      Command_line ''int_wake_on'' ''enable wakeup event'' (Some pegaDiag_AccControl) None,
      Command_line ''int_wake_off'' ''disable wakeup event'' (Some pegaDiag_AccControl) None]"

definition m_eNFCCommand :: "command_line list" where
  "m_eNFCCommand =
     [Command_line ''i2c_check'' ''Dump Register'' (Some pegaDiag_NFCControl) None,
      Command_line ''scan'' ''SampleCode Demo'' (Some pegaDiag_NFCControl) None]"

definition m_eMotorRisingCommand :: "command_line list" where
  "m_eMotorRisingCommand =
     [Command_line ''command:'' ''forward [speed:1~4] [time:100ms~]'' None None,
      Command_line ''example:'' ''forward 4 1000'' None None,
      Command_line ''forward'' ''move forward'' (Some pegaDiag_rising_motor_forward) None,
      Command_line ''command:'' ''reverse [speed:1~4] [time:100ms~]'' None None,
      Command_line ''example:'' ''reverse 4 1000'' None None,
      Command_line ''reverse'' ''move reverse'' (Some pegaDiag_rising_motor_reverse) None,
      Command_line ''test'' ''rising motor self-test'' (Some pegaDiag_rising_motor_test) None]"

definition m_eMotorPanCommand :: "command_line list" where
  "m_eMotorPanCommand =
     [Command_line ''command:'' ''forward [speed:1~4] [time:100ms~]'' None None,
      Command_line ''example:'' ''forward 4 1000'' None None,
      Command_line ''forward'' ''move forward'' (Some pegaDiag_pan_motor_forward) None,
      Command_line ''command:'' ''reverse [speed:1~4] [time:100ms~]'' None None,
      Command_line ''example:'' ''reverse 4 1000'' None None,
      Command_line ''reverse'' ''move reverse'' (Some pegaDiag_pan_motor_reverse) None,
      Command_line ''test'' ''pan motor self-test'' (Some pegaDiag_pan_motor_test) None]"

definition m_eMotorCommand :: "command_line list" where
  "m_eMotorCommand =
     [Command_line ''rising'' ''rising motor'' None (Some m_eMotorRisingCommand),
      Command_line ''pan'' ''pan motor'' None (Some m_eMotorPanCommand)]"

definition m_eStreamingCommand :: "command_line list" where
  "m_eStreamingCommand =
     [Command_line ''on'' ''RTSP streaming output'' (Some pegaDiag_streaming_on) None]"

definition m_eMfgbridgeCommand :: "command_line list" where
  "m_eMfgbridgeCommand =
     [Command_line ''test'' ''Labtool mfgbridge test'' (Some pegaDiag_mfgbridge_test) None]"

definition m_eDiagMainCommand :: "command_line list" where
  "m_eDiagMainCommand =
     [Command_line ''ver'' ''version command'' None (Some m_eVersionCommand),
      Command_line ''icr'' ''icr command'' None (Some m_eIcrCommand),
      Command_line ''irled'' ''irled command'' None (Some m_eIrLedCommand),
      Command_line ''spotled'' ''spotled command'' None (Some m_eSpotLedCommand),
      Command_line ''led'' ''led command'' None (Some m_eLedCommand),
      Command_line ''led_r'' ''led red command'' None (Some m_eLedRCommand),
      Command_line ''led_g'' ''led green command'' None (Some m_eLedGCommand),
      Command_line ''led_b'' ''led blue command'' None (Some m_eLedBCommand),
      Command_line ''als'' ''als command'' None (Some m_eAlsCommand),
      Command_line ''audio'' ''audio command'' None (Some m_eAudioCommand),
      Command_line ''print'' ''print to telnet'' None (Some m_eOut2TelnetCommand),
      Command_line ''button'' ''button command'' None (Some m_eButtonCommand),
      Command_line ''wifi'' ''wifi command'' None (Some m_eWifiCommand),
      Command_line ''ble'' ''ble command'' None (Some m_eBleCommand),
      Command_line ''ethernet'' ''ethernet command'' None (Some m_eEthernetCommand),
      Command_line ''ringled'' ''ringled commad'' None (Some m_eRingLEDCommand),
      Command_line ''acc'' ''acc commad'' None (Some m_eAccCommand),
      Command_line ''nfc'' ''nfc commad'' None (Some m_eNFCCommand),
      Command_line ''motor'' ''motor commad'' None (Some m_eMotorCommand),
      Command_line ''streaming'' ''streaming commad'' None (Some m_eStreamingCommand),
      Command_line ''mfgbridge'' ''mfgbridge commad'' None (Some m_eMfgbridgeCommand)]"

subsection \<open>Search\<close>

definition help_lines :: "command_line list \<Rightarrow> (string \<times> string) list" where
  "help_lines t = map (\<lambda>c. (cmd c, doc c)) t"

text \<open>
  The arguments \<open>t\<close> is the rest of the table still to be searched. A name with neither a handler
  nor a table is a fault: the table behind its null pointer is read, for the help or for the search.
\<close>

function pegaDiag_ExecuteCommand :: "command_line list \<Rightarrow> handler" where
  "pegaDiag_ExecuteCommand [] args s =
     Some (-1, log_io (Say (''Unknown command - '' @ quote @ hd args @ quote)) s)"
| "pegaDiag_ExecuteCommand (c # t) args s =
     (if cmd c \<noteq> hd args then pegaDiag_ExecuteCommand t args s
      else (case func c of
          Some f \<Rightarrow> f args s
        | None \<Rightarrow> (case eNext c of
            None \<Rightarrow> None
          | Some u \<Rightarrow> if length args \<le> 1 then Some (0, log_io (Help_table (help_lines u)) s)
                      else pegaDiag_ExecuteCommand u (tl args) s)))"
  by pat_completeness auto

termination pegaDiag_ExecuteCommand
  by (relation "measures [\<lambda>(t, args, s). length args, \<lambda>(t, args, s). length t]") auto

definition pegaDiag_PrintHelp :: "command_line list \<Rightarrow> diag_st \<Rightarrow> diag_st" where
  "pegaDiag_PrintHelp t = log_io (Main_help (help_lines t))"

text \<open>\<open>main\<close>: \<open>args\<close> are the arguments without the name of the program.\<close>

definition diag_main :: handler where
  "diag_main args s = do {
     let s = s\<lparr>m_stDiagMsg := zero_msg\<rparr>;
     (r, s) \<leftarrow> (if args = [] then Some (-1, s)
                else pegaDiag_ExecuteCommand m_eDiagMainCommand args s);
     Some (r, if r \<noteq> 0 then pegaDiag_PrintHelp m_eDiagMainCommand s else s)
   }"

text \<open>The static variables when the program starts.\<close>

definition diag_static :: "diag_env \<Rightarrow> diag_st" where
  "diag_static env = \<lparr>denv = env, dlog = [], m_stDiagMsg = zero_msg, audio_file_path = [],
     audio_record_time = [], audio_play_time = [], mic_record_volume = 0\<rparr>"

end
