(* ===== verification/Diag_Search.thy ===== *)
theory Diag_Search
  imports Diag_Table "HOL-Library.Sublist"
begin

text \<open>
  The search of \<open>pegaDiag_ExecuteCommand\<close> against a flat list of the commands: a locale for tables
  without an entry that hides a later one, interpreted on the main table.
\<close>

subsection \<open>The commands of a table\<close>

text \<open>The names that lead to a handler, and those that lead to a line of help.\<close>

fun command_paths :: "command_line list \<Rightarrow> (string list \<times> handler) list" where
  "command_paths [] = []"
| "command_paths (Command_line c d f n # t) =
     (case f of Some h \<Rightarrow> [([c], h)]
      | None \<Rightarrow> (case n of None \<Rightarrow> [] | Some u \<Rightarrow> map (\<lambda>(p, h). (c # p, h)) (command_paths u)))
     @ command_paths t"

fun help_paths :: "command_line list \<Rightarrow> string list list" where
  "help_paths [] = []"
| "help_paths (Command_line c d f n # t) =
     (case f of Some h \<Rightarrow> []
      | None \<Rightarrow> (case n of None \<Rightarrow> [[c]] | Some u \<Rightarrow> map ((#) c) (help_paths u)))
     @ help_paths t"

text \<open>No entry hides a later one that leads somewhere or a line of help that it is not itself.\<close>

definition leads :: "command_line \<Rightarrow> bool" where
  "leads e \<longleftrightarrow> \<not> Option.is_none (func e) \<or> \<not> Option.is_none (eNext e)"

fun open_table :: "command_line list \<Rightarrow> bool" where
  "open_table [] \<longleftrightarrow> True"
| "open_table (Command_line c d f n # t) \<longleftrightarrow>
     (\<forall>e\<in>set t. cmd e = c \<longrightarrow> \<not> leads (Command_line c d f n) \<and> \<not> leads e) \<and>
     (case n of None \<Rightarrow> True | Some u \<Rightarrow> open_table u) \<and> open_table t"

locale command_table =
  fixes T :: "command_line list"
  assumes table: "open_table T"
begin

lemma path_nonempty: "(p, h) \<in> set (command_paths U) \<Longrightarrow> p \<noteq> []"
  by (induction U arbitrary: p rule: command_paths.induct) (auto split: option.splits)

lemma head_name: "(c # p, h) \<in> set (command_paths U) \<Longrightarrow>
    \<exists>e\<in>set U. cmd e = c \<and> leads e"
  by (induction U arbitrary: p rule: command_paths.induct) (auto simp: leads_def split: option.splits)

lemma help_head: "c # p \<in> set (help_paths U) \<Longrightarrow>
    \<exists>e\<in>set U. cmd e = c \<and> (p \<noteq> [] \<longrightarrow> eNext e \<noteq> None)"
  by (induction U arbitrary: p rule: help_paths.induct) (auto split: option.splits)

lemma help_nonempty: "p \<in> set (help_paths U) \<Longrightarrow> p \<noteq> []"
proof (induction U arbitrary: p rule: help_paths.induct)
  case (2 c d f n t)
  then show ?case by (cases "p \<in> set (help_paths t)") (auto split: option.splits)
qed simp

lemma runs_in:
  "open_table U \<Longrightarrow> (p, h) \<in> set (command_paths U) \<Longrightarrow>
   pegaDiag_ExecuteCommand U (p @ rest) s = h (last p # rest) s"
proof (induction U arbitrary: p rule: command_paths.induct)
  case (2 c d f n t)
  show ?case
  proof (cases "(p, h) \<in> set (command_paths t)")
    case True
    then obtain b q where p: "p = b # q" using path_nonempty by (cases p) auto
    from head_name True p obtain e where "e \<in> set t" "cmd e = b" "leads e" by blast
    then have "b \<noteq> c" using 2(3) by auto
    moreover have "pegaDiag_ExecuteCommand t (p @ rest) s = h (last p # rest) s"
      using 2(2,3) True by simp
    ultimately show ?thesis using p by simp
  next
    case False
    show ?thesis
    proof (cases f)
      case (Some k)
      then show ?thesis using 2(4) False by auto
    next
      case None
      then obtain u q where u: "n = Some u" "(q, h) \<in> set (command_paths u)" "p = c # q"
        using 2(4) False by (auto split: option.splits)
      moreover have "q \<noteq> []" using path_nonempty u(2) by blast
      ultimately show ?thesis using None 2(1) [OF None u(1) _ u(2)] 2(3) by (cases q) auto
    qed
  qed
qed simp

lemmas runs = runs_in [OF table]

text \<open>A line of help is found as if it were a command, and its null pointer is followed.\<close>

lemma help_faults_in:
  "open_table U \<Longrightarrow> p \<in> set (help_paths U) \<Longrightarrow> pegaDiag_ExecuteCommand U (p @ rest) s = None"
proof (induction U arbitrary: p rule: help_paths.induct)
  case (2 c d f n t)
  show ?case
  proof (cases "p \<in> set (help_paths t) \<and> hd p \<noteq> c")
    case True
    then have "pegaDiag_ExecuteCommand t (p @ rest) s = None" using 2(2,3) by simp
    then show ?thesis using True help_nonempty [of p t] by (cases p) auto
  next
    case False
    then have hd: "hd p = c" and ne: "p \<noteq> []"
      using 2(4) help_nonempty by (auto split: option.splits)
    show ?thesis
    proof (cases "p \<in> set (help_paths t)")
      case True
      obtain q where q: "p = c # q" using hd ne by (cases p) auto
      with help_head True obtain e where "e \<in> set t" "cmd e = c" by blast
      then have "f = None" "n = None" using 2(3) by (auto simp: leads_def Option.is_none_def)
      then show ?thesis using q by simp
    next
      case F: False
      then have f: "f = None" using 2(4) by (auto split: option.splits)
      show ?thesis
      proof (cases n)
        case None
        then show ?thesis using f ne hd by (cases p) auto
      next
        case (Some u)
        then obtain q where q: "q \<in> set (help_paths u)" "p = c # q" using 2(4) F f by auto
        moreover have "q \<noteq> []" using help_nonempty q(1) by blast
        ultimately show ?thesis using f Some 2(1) [OF f Some _ q(1)] 2(3) by (cases q) auto
      qed
    qed
  qed
qed simp

lemmas help_faults = help_faults_in [OF table]

text \<open>Every other line of arguments only prints: an unknown name, or the help of a table.\<close>

lemma otherwise_in:
  "args \<noteq> [] \<Longrightarrow> \<forall>p h. (p, h) \<in> set (command_paths U) \<longrightarrow> \<not> prefix p args \<Longrightarrow>
   \<forall>p\<in>set (help_paths U). \<not> prefix p args \<Longrightarrow>
   (\<exists>text. pegaDiag_ExecuteCommand U args s = Some (-1, log_io (Say text) s)) \<or>
   (\<exists>t. pegaDiag_ExecuteCommand U args s = Some (0, log_io (Help_table t) s))"
proof (induction U args s rule: pegaDiag_ExecuteCommand.induct)
  case (2 c t args s)
  obtain name d f n where c: "c = Command_line name d f n" by (cases c)
  show ?case
  proof (cases "cmd c = hd args")
    case False
    have "\<forall>p h. (p, h) \<in> set (command_paths t) \<longrightarrow> \<not> prefix p args"
      "\<forall>p\<in>set (help_paths t). \<not> prefix p args"
      using 2(4,5) by (auto simp: c)
    then show ?thesis using 2(1) 2(3) False by simp
  next
    case True
    then obtain rest where args: "args = name # rest" using 2(3) c by (cases args) auto
    have "f = None" using 2(4) by (auto simp: c args split: option.splits)
    moreover have "n \<noteq> None" using 2(5) calculation by (cases n) (auto simp: c args)
    ultimately obtain u where f: "f = None" and n: "n = Some u" by auto
    show ?thesis
    proof (cases "rest = []")
      case False
      moreover have "\<not> prefix p rest" if "(p, h) \<in> set (command_paths u)" for p h
      proof -
        have "(name # p, h) \<in> set (command_paths (c # t))" using that by (auto simp: c f n)
        then show ?thesis using 2(4) args by auto
      qed
      moreover have "\<not> prefix p rest" if "p \<in> set (help_paths u)" for p
      proof -
        have "name # p \<in> set (help_paths (c # t))" using that by (simp add: c f n)
        then show ?thesis using 2(5) args by auto
      qed
      ultimately show ?thesis using 2(2) True by (simp add: c args f n Suc_le_eq)
    qed (auto simp: c args f n)
  qed
qed auto

lemmas otherwise = otherwise_in [where U = T]

end

subsection \<open>The main table\<close>

lemmas diag_tables = m_eDiagMainCommand_def m_eVersionCommand_def m_eIcrCommand_def
  m_eIrLedCommand_def m_eSpotLedCommand_def m_eLedCommand_def m_eLedRCommand_def m_eLedGCommand_def
  m_eLedBCommand_def m_eAlsCommand_def m_eAudioCommand_def m_eOut2TelnetCommand_def
  m_eButtonCommand_def m_eWifiCommand_def m_eWifiSsidCommand_def m_eWifiPasswordCommand_def
  m_eWifiIPAddrCommand_def m_eWifiIPMaskCommand_def m_eBleCommand_def m_eEthernetCommand_def
  m_eRingLEDCommand_def m_eRingLEDConfigCommand_def m_eAccCommand_def m_eNFCCommand_def
  m_eMotorCommand_def m_eMotorRisingCommand_def m_eMotorPanCommand_def m_eStreamingCommand_def
  m_eMfgbridgeCommand_def

lemma leaf_tables_open:
  "open_table m_eVersionCommand"
  "open_table m_eIcrCommand"
  "open_table m_eIrLedCommand"
  "open_table m_eSpotLedCommand"
  "open_table m_eLedCommand"
  "open_table m_eLedRCommand"
  "open_table m_eLedGCommand"
  "open_table m_eLedBCommand"
  "open_table m_eAlsCommand"
  "open_table m_eButtonCommand"
  "open_table m_eWifiSsidCommand"
  "open_table m_eWifiPasswordCommand"
  "open_table m_eWifiIPAddrCommand"
  "open_table m_eWifiIPMaskCommand"
  "open_table m_eBleCommand"
  "open_table m_eEthernetCommand"
  "open_table m_eAudioCommand"
  "open_table m_eOut2TelnetCommand"
  "open_table m_eRingLEDConfigCommand"
  "open_table m_eAccCommand"
  "open_table m_eNFCCommand"
  "open_table m_eMotorRisingCommand"
  "open_table m_eMotorPanCommand"
  "open_table m_eStreamingCommand"
  "open_table m_eMfgbridgeCommand"
  by (simp_all add: leads_def m_eVersionCommand_def m_eIcrCommand_def m_eIrLedCommand_def m_eSpotLedCommand_def m_eLedCommand_def m_eLedRCommand_def m_eLedGCommand_def m_eLedBCommand_def m_eAlsCommand_def m_eButtonCommand_def m_eWifiSsidCommand_def m_eWifiPasswordCommand_def m_eWifiIPAddrCommand_def m_eWifiIPMaskCommand_def m_eBleCommand_def m_eEthernetCommand_def m_eAudioCommand_def m_eOut2TelnetCommand_def m_eRingLEDConfigCommand_def m_eAccCommand_def m_eNFCCommand_def m_eMotorRisingCommand_def m_eMotorPanCommand_def m_eStreamingCommand_def m_eMfgbridgeCommand_def)

lemma inner_tables_open:
  "open_table m_eWifiCommand"
  "open_table m_eRingLEDCommand"
  "open_table m_eMotorCommand"
  by (simp_all add: leads_def leaf_tables_open m_eWifiCommand_def m_eRingLEDCommand_def m_eMotorCommand_def)

lemma diag_open: "open_table m_eDiagMainCommand"
  by (simp add: leads_def leaf_tables_open inner_tables_open m_eDiagMainCommand_def)

interpretation diag: command_table m_eDiagMainCommand
  by unfold_locales (rule diag_open)

text \<open>The commands, as the list of names on the command line with the handler.\<close>

definition diag_commands :: "(string list \<times> handler) list" where
  "diag_commands = command_paths m_eDiagMainCommand"

lemmas diag_commands_eval = diag_commands_def [unfolded diag_tables, simplified]

text \<open>What \<open>main\<close> does after the search.\<close>

definition diag_finish :: "(int \<times> diag_st) option \<Rightarrow> (int \<times> diag_st) option" where
  "diag_finish = map_option (\<lambda>(r, s).
     (r, if r \<noteq> 0 then pegaDiag_PrintHelp m_eDiagMainCommand s else s))"

lemma diag_main_search: "args \<noteq> [] \<Longrightarrow> diag_main args s =
    diag_finish (pegaDiag_ExecuteCommand m_eDiagMainCommand args (s\<lparr>m_stDiagMsg := zero_msg\<rparr>))"
  by (simp add: diag_main_def diag_finish_def Let_def)
    (simp split: option.splits add: map_option_case)

fun is_text :: "diag_io \<Rightarrow> bool" where
  "is_text (Say t) = True"
| "is_text (Help_table t) = True"
| "is_text (Main_help t) = True"
| "is_text _ = False"

lemma diag_command_run:
  assumes "(p, h) \<in> set diag_commands"
  shows "diag_main (p @ rest) s = diag_finish (h (last p # rest) (s\<lparr>m_stDiagMsg := zero_msg\<rparr>))"
  using diag.path_nonempty assms diag.runs [of p h]
  by (simp add: diag_main_search diag_commands_def)

lemma find_SomeD: "List.find P xs = Some x \<Longrightarrow> x \<in> set xs \<and> P x"
  by (auto simp: find_Some_iff)

lemma diag_prints:
  assumes "\<forall>p h. (p, h) \<in> set (command_paths m_eDiagMainCommand) \<longrightarrow> \<not> prefix p args"
    and "\<forall>p\<in>set (help_paths m_eDiagMainCommand). \<not> prefix p args"
  shows "\<exists>r t es. diag_main args s = Some (r, t) \<and> dlog t = es @ dlog s \<and> list_all is_text es"
proof (cases "args = []")
  case True
  then show ?thesis
    by (simp add: diag_main_def pegaDiag_PrintHelp_def log_io_def Cons_eq_append_conv)
next
  case False
  note main = diag_main_search [OF False] diag_finish_def pegaDiag_PrintHelp_def log_io_def
  from diag.otherwise [OF False assms, of "s\<lparr>m_stDiagMsg := zero_msg\<rparr>"]
  consider msg where "pegaDiag_ExecuteCommand m_eDiagMainCommand args (s\<lparr>m_stDiagMsg := zero_msg\<rparr>) =
      Some (-1, log_io (Say msg) (s\<lparr>m_stDiagMsg := zero_msg\<rparr>))"
    | t where "pegaDiag_ExecuteCommand m_eDiagMainCommand args (s\<lparr>m_stDiagMsg := zero_msg\<rparr>) =
      Some (0, log_io (Help_table t) (s\<lparr>m_stDiagMsg := zero_msg\<rparr>))"
    by blast
  then show ?thesis
  proof cases
    case (1 msg)
    then show ?thesis
      by (simp add: main)
  next
    case (2 t)
    then show ?thesis by (simp add: main)
  qed
qed

text \<open>The three outcomes of the search.\<close>

lemma diag_cases:
  obtains (command) p h rest where "(p, h) \<in> set diag_commands" "args = p @ rest"
  | (help_line) "diag_main args s = None"
  | (prints) r t es where "diag_main args s = Some (r, t)" "dlog t = es @ dlog s" "list_all is_text es"
proof (cases "\<exists>p h. (p, h) \<in> set diag_commands \<and> prefix p args")
  case True
  then show ?thesis using command by (auto simp: prefix_def)
next
  case no: False
  show ?thesis
  proof (cases "\<exists>p\<in>set (help_paths m_eDiagMainCommand). prefix p args")
    case True
    then obtain p rest where "p \<in> set (help_paths m_eDiagMainCommand)" "args = p @ rest" by (auto simp: prefix_def)
    then show ?thesis
      using help_line diag.help_faults diag.help_nonempty by (auto simp: diag_main_search diag_finish_def)
  next
    case False
    have "\<forall>p h. (p, h) \<in> set (command_paths m_eDiagMainCommand) \<longrightarrow> \<not> prefix p args"
      using no by (auto simp: diag_commands_def)
    from diag_prints [OF this, of s] False prints show ?thesis by blast
  qed
qed

text \<open>
  C5: The client runs the handler of the command whose names its arguments begin with, and gives it
  the last of these names and the arguments behind. A line of help in a table ends the program by
  a null pointer. Any other line of arguments prints and does nothing else: no message is sent, no
  shell command is run.
\<close>

theorem client_dispatch:
  "case List.find (\<lambda>(p, h). prefix p args) diag_commands of
     Some (p, h) \<Rightarrow> diag_main args s =
       diag_finish (h (drop (length p - 1) args) (s\<lparr>m_stDiagMsg := zero_msg\<rparr>))
   | None \<Rightarrow> if \<exists>p\<in>set (help_paths m_eDiagMainCommand). prefix p args then diag_main args s = None
     else \<exists>r t es. diag_main args s = Some (r, t) \<and> dlog t = es @ dlog s \<and> list_all is_text es"
proof (cases "List.find (\<lambda>(p, h). prefix p args) diag_commands")
  case (Some x)
  obtain p h where x: "x = (p, h)" by (cases x)
  with find_SomeD [OF Some] obtain rest where "(p, h) \<in> set diag_commands" "args = p @ rest"
    by (auto simp: prefix_def)
  moreover have "p \<noteq> []" using diag.path_nonempty calculation(1) by (auto simp: diag_commands_def)
  moreover have "drop (length p - 1) (p @ rest) = last p # rest"
    using calculation(3) by (cases p rule: rev_cases) auto
  ultimately show ?thesis using Some x diag_command_run by simp
next
  case None
  then have none: "\<forall>p h. (p, h) \<in> set diag_commands \<longrightarrow> \<not> prefix p args" by (auto simp: find_None_iff)
  show ?thesis
  proof (cases "\<exists>p\<in>set (help_paths m_eDiagMainCommand). prefix p args")
    case True
    then show ?thesis
      using None diag.help_faults diag.help_nonempty
      by (fastforce simp: prefix_def diag_main_search diag_finish_def)
  next
    case False
    have "\<exists>r t es. diag_main args s = Some (r, t) \<and> dlog t = es @ dlog s \<and> list_all is_text es"
      by (rule diag_prints) (use none False in \<open>simp_all add: diag_commands_def\<close>)
    then show ?thesis using None False by simp
  qed
qed

text \<open>A client whose queue takes every message, in an environment of one variable.\<close>

definition diag_board_env :: diag_env where
  "diag_board_env = \<lparr>environ = [''PATH=/bin''], stack_text = [], shell_ret = \<lambda>h c. 0,
     pipe_out = \<lambda>h c. Some [], net_entries = \<lambda>h. Some [''eth0'', ''mlan0''], inet4_of = \<lambda>h i. None,
     inet6_lines = \<lambda>h. None, ifaddrs_of = \<lambda>h. None, fopen_ok = \<lambda>h f. True, msgq_ok = \<lambda>h. True\<rparr>"

end
