(* ===== verification/Text_Lemmas.thy ===== *)
theory Text_Lemmas
  imports Misc_Amp
begin

text \<open>Numbers as text: printing and reading them, and the words of a command line.\<close>

subsection \<open>Printing and reading a number\<close>

lemma digit_show: "d < 10 \<Longrightarrow> digit_of (char_of (48 + d)) = Some (int d)"
proof -
  assume "d < 10"
  then have "d \<in> set [0..<10]" by simp
  moreover have "\<forall>d\<in>set [0..<10]. digit_of (char_of (48 + d)) = Some (int d)" by code_simp
  ultimately show ?thesis by blast
qed

lemma digits_append:
  "\<forall>c\<in>set xs. \<exists>d<base. digit_of c = Some d \<Longrightarrow>
   digits base (xs @ ys) v n = (case digits base xs v n of (w, k, r) \<Rightarrow> digits base ys w k)"
  by (induction base xs v n rule: digits.induct) auto

text \<open>A text of decimal digits.\<close>

definition decimal :: "string \<Rightarrow> bool" where
  "decimal xs \<longleftrightarrow> (\<forall>c\<in>set xs. \<exists>d<10. 0 \<le> d \<and> digit_of c = Some d)"

lemma decimal_show: "decimal (show_dec n) \<and> show_dec n \<noteq> []"
proof (induction n rule: show_dec.induct)
  case (1 n)
  show ?case
  proof (cases "n < 10")
    case True
    then show ?thesis using digit_show [of n] by (subst (1 2) show_dec.simps) (simp add: decimal_def)
  next
    case False
    then show ?thesis
      using 1 digit_show [of "n mod 10"] by (subst (1 2) show_dec.simps) (simp add: decimal_def ball_Un)
  qed
qed

lemma digits_show: "digits 10 (show_dec n) 0 k = (int n, k + length (show_dec n), [])"
proof (induction n arbitrary: k rule: show_dec.induct)
  case (1 n)
  show ?case
  proof (cases "n < 10")
    case True
    then show ?thesis using digit_show [of n] by (subst (1 2) show_dec.simps) simp
  next
    case False
    have d: "\<forall>c\<in>set (show_dec (n div 10)). \<exists>d<10. digit_of c = Some d"
      using decimal_show by (auto simp: decimal_def)
    have "10 * int (n div 10) + int (n mod 10) = int n" by presburger
    then show ?thesis
      using False 1 digits_append [OF d, of "[char_of (48 + n mod 10)]" 0] digit_show [of "n mod 10"]
      by (subst (1 2) show_dec.simps) simp
  qed
qed

lemma length_show: "n < 10 ^ k \<Longrightarrow> 0 < k \<Longrightarrow> length (show_dec n) \<le> k"
proof (induction n arbitrary: k rule: show_dec.induct)
  case (1 n)
  show ?case
  proof (cases "n < 10")
    case True
    then show ?thesis using 1(3) by (subst show_dec.simps) simp
  next
    case False
    then have "1 < k" using 1(2,3) by (cases "k = 1") auto
    then have "n div 10 < 10 ^ (k - 1)" "0 < k - 1"
      using 1(2) by (auto simp: less_mult_imp_div_less mult.commute [of _ 10] power_eq_if)
    then show ?thesis using False 1(1) \<open>1 < k\<close> by (subst show_dec.simps) (fastforce)
  qed
qed

lemma decimal_head:
  assumes "decimal xs" and "xs \<noteq> []"
  shows "dropWhile is_space xs = xs" and "sign_of xs = (1, xs)" and "CHR '' '' \<notin> set xs"
proof -
  have no: "\<not> is_space c \<and> c \<noteq> CHR ''-'' \<and> c \<noteq> CHR ''+''" if "c \<in> set xs" for c
  proof -
    from assms(1) that obtain d where "digit_of c = Some d" "d < 10" by (auto simp only: decimal_def)
    then have "48 \<le> (of_char c :: int) \<and> (of_char c :: int) \<le> 57" by (auto simp: digit_of_def Let_def split: if_splits)
    moreover have "(of_char c :: int) = int (of_char c)" by (simp only: of_nat_of_char)
    ultimately have "48 \<le> (of_char c :: nat)" by linarith
    then show ?thesis by (auto simp: is_space_def)
  qed
  then show "dropWhile is_space xs = xs" and "sign_of xs = (1, xs)"
    using assms(2) by (cases xs; auto simp: sign_of_def)+
  show "CHR '' '' \<notin> set xs" using no [of "CHR '' ''"] by (auto simp: is_space_def)
qed

lemma atoi_show_dec: "atoi (show_dec n) = int n"
  using decimal_head [of "show_dec n"] decimal_show [of n] digits_show [of n 0] by (simp add: atoi_def)

theorem atoi_show_int: "atoi (show_int n) = n"
proof (cases "n < 0")
  case True
  then show ?thesis
    using digits_show [of "nat (- n)" 0] by (simp add: atoi_def show_int_def is_space_def sign_of_def)
qed (simp add: show_int_def atoi_show_dec)

subsection \<open>Words\<close>

lemma tokens_word: "CHR '' '' \<notin> set w \<Longrightarrow> tokens acc (w @ xs) = tokens (acc @ w) xs"
  by (induction w arbitrary: acc) auto

lemma tokens_cut: "acc \<noteq> [] \<Longrightarrow> tokens acc (CHR '' '' # xs) = acc # tokens [] xs"
  by simp

lemma show_int_word: "CHR '' '' \<notin> set (show_int n) \<and> show_int n \<noteq> []"
  using decimal_head(3) decimal_show by (auto simp: show_int_def)

end
