(* ===== verification/Diag_Replies.thy ===== *)
theory Diag_Replies
  imports Diag_Search Text_Lemmas
begin

text \<open>
  What a run of the client leaves in its log: at most one reply and one message, and what becomes of
  the output of a pipe.
\<close>

subsection \<open>Replies and messages\<close>

fun is_reply :: "diag_io \<Rightarrow> bool" where "is_reply (Reply x) = True" | "is_reply _ = False"
fun is_msg :: "diag_io \<Rightarrow> bool" where "is_msg (Msg m ok) = True" | "is_msg _ = False"

definition replies :: "diag_st \<Rightarrow> nat" where "replies s = length (filter is_reply (dlog s))"
definition messages :: "diag_st \<Rightarrow> nat" where "messages s = length (filter is_msg (dlog s))"

lemma replies_simps [simp]:
  "replies (log_io e s) = replies s + of_bool (is_reply e)" "replies (s\<lparr>m_stDiagMsg := m\<rparr>) = replies s"
  "replies (s\<lparr>audio_record_time := x\<rparr>) = replies s" "replies (s\<lparr>audio_play_time := x\<rparr>) = replies s"
  "replies (s\<lparr>audio_file_path := x\<rparr>) = replies s"
  "replies (snd (system_c c s)) = replies s" "replies (DIAG_SET r s) = Suc (replies s)"
  "replies (DIAG_GET r d s) = Suc (replies s)" "replies (snd (Pega_diag_msgq_send_request m s)) = replies s"
  "replies (request fname f s) = replies s"
  by (simp_all add: replies_def log_io_def system_c_def DIAG_SET_def DIAG_GET_def request_def
      Pega_diag_msgq_send_request_def Let_def)

lemma messages_simps [simp]:
  "messages (log_io e s) = messages s + of_bool (is_msg e)" "messages (s\<lparr>m_stDiagMsg := m\<rparr>) = messages s"
  "messages (s\<lparr>audio_record_time := x\<rparr>) = messages s" "messages (s\<lparr>audio_play_time := x\<rparr>) = messages s"
  "messages (s\<lparr>audio_file_path := x\<rparr>) = messages s"
  "messages (snd (system_c c s)) = messages s" "messages (DIAG_SET r s) = messages s"
  "messages (DIAG_GET r d s) = messages s" "messages (snd (Pega_diag_msgq_send_request m s)) = Suc (messages s)"
  "messages (request fname f s) = Suc (messages s)"
  by (simp_all add: messages_def log_io_def system_c_def DIAG_SET_def DIAG_GET_def request_def
      Pega_diag_msgq_send_request_def Let_def)

text \<open>Calls that do neither.\<close>

lemma silent_calls:
  "system_c c s = (r, t) \<Longrightarrow> replies t = replies s \<and> messages t = messages s"
  "client_interface_exist i s = (r, t) \<Longrightarrow> replies t = replies s \<and> messages t = messages s"
  "pegaDiag_StringBuffGet c n s = (r, b, t) \<Longrightarrow> replies t = replies s \<and> messages t = messages s"
  "pegaDiag_is_ble_fw_ready s = Some (r, t) \<Longrightarrow> replies t = replies s \<and> messages t = messages s"
  "run_audio f c s = Some (r, t) \<Longrightarrow> replies t = replies s \<and> messages t = messages s"
  by (auto simp: system_c_def client_interface_exist_def pegaDiag_StringBuffGet_def
      pegaDiag_is_ble_fw_ready_def run_audio_def pegaDiag_AudioFileExist_def Let_def
      split: option.splits Option.bind_splits if_splits)

text \<open>A run with at most one reply and at most one message.\<close>

definition modest :: "handler \<Rightarrow> bool" where
  "modest h \<longleftrightarrow> (\<forall>args s r t. h args s = Some (r, t) \<longrightarrow>
     replies t \<le> Suc (replies s) \<and> messages t \<le> Suc (messages s))"

lemma modest_0 [simp]:
  "modest pegaDiag_IspFwVersionGet"
  "modest pegaDiag_WifiVersionGet"
  "modest pegaDiag_IcrDayModeSet"
  "modest pegaDiag_IcrNightModeSet"
  "modest pegaDiag_IrLedOn"
  "modest pegaDiag_IrLedOff"
  "modest pegaDiag_IrLedPwmValueSet"
  "modest pegaDiag_SpotLedOn"
  "modest pegaDiag_SpotLedOff"
  "modest pegaDiag_SpotLedPwmValueSet"
  "modest pegaDiag_LedAllOn"
  "modest pegaDiag_LedAllOff"
  "modest pegaDiag_LedROn"
  "modest pegaDiag_LedROff"
  by (auto simp: modest_def pegaDiag_IspFwVersionGet_def pegaDiag_WifiVersionGet_def pegaDiag_IcrDayModeSet_def pegaDiag_IcrNightModeSet_def pegaDiag_IrLedOn_def pegaDiag_IrLedOff_def pegaDiag_IrLedPwmValueSet_def pegaDiag_SpotLedOn_def pegaDiag_SpotLedOff_def pegaDiag_SpotLedPwmValueSet_def pegaDiag_LedAllOn_def pegaDiag_LedAllOff_def pegaDiag_LedROn_def pegaDiag_LedROff_def
      wifi_script_def wifi_connect_mlan0_def wpa_value_def shell_set_def motor_self_test_def motor_move_def Let_def
      dest!: silent_calls split: option.splits prod.splits Option.bind_splits if_splits list.splits)

lemma modest_1 [simp]:
  "modest pegaDiag_LedGOn"
  "modest pegaDiag_LedGOff"
  "modest pegaDiag_LedBOn"
  "modest pegaDiag_LedBOff"
  "modest pegaDiag_AlsIdGet"
  "modest pegaDiag_AlsDayModeSet"
  "modest pegaDiag_AlsNightModeSet"
  "modest pegaDiag_AlsValueGet"
  "modest pegaDiag_AlsCalidata"
  "modest pegaDiag_AlsOn"
  "modest pegaDiag_AlsOff"
  "modest pegaDiag_AlsCalidata_Get"
  "modest pegaDiag_AudioVolumeSet"
  "modest pegaDiag_ButtonDetection_Get"
  by (auto simp: modest_def pegaDiag_LedGOn_def pegaDiag_LedGOff_def pegaDiag_LedBOn_def pegaDiag_LedBOff_def pegaDiag_AlsIdGet_def pegaDiag_AlsDayModeSet_def pegaDiag_AlsNightModeSet_def pegaDiag_AlsValueGet_def pegaDiag_AlsCalidata_def pegaDiag_AlsOn_def pegaDiag_AlsOff_def pegaDiag_AlsCalidata_Get_def pegaDiag_AudioVolumeSet_def pegaDiag_ButtonDetection_Get_def
      wifi_script_def wifi_connect_mlan0_def wpa_value_def shell_set_def motor_self_test_def motor_move_def Let_def
      dest!: silent_calls split: option.splits prod.splits Option.bind_splits if_splits list.splits)

lemma modest_2 [simp]:
  "modest pegaDiag_AudioInit"
  "modest pegaDiag_WifiOn"
  "modest pegaDiag_WifiOff"
  "modest pegaDiag_WifiMfg"
  "modest pegaDiag_WifiConnect"
  "modest pegaDiag_WifiStatus"
  "modest pegaDiag_WifiRssiGet"
  "modest pegaDiag_WifiMacGet"
  "modest pegaDiag_WifiInterfaceGet"
  "modest pegaDiag_WifiSsidGet"
  "modest pegaDiag_WifiPassGet"
  "modest pegaDiag_WifiSsidSet"
  "modest pegaDiag_WifiPassSet"
  "modest pegaDiag_WifiIpAddrGet"
  by (auto simp: modest_def pegaDiag_AudioInit_def pegaDiag_WifiOn_def pegaDiag_WifiOff_def pegaDiag_WifiMfg_def pegaDiag_WifiConnect_def pegaDiag_WifiStatus_def pegaDiag_WifiRssiGet_def pegaDiag_WifiMacGet_def pegaDiag_WifiInterfaceGet_def pegaDiag_WifiSsidGet_def pegaDiag_WifiPassGet_def pegaDiag_WifiSsidSet_def pegaDiag_WifiPassSet_def pegaDiag_WifiIpAddrGet_def
      wifi_script_def wifi_connect_mlan0_def wpa_value_def shell_set_def motor_self_test_def motor_move_def Let_def
      dest!: silent_calls split: option.splits prod.splits Option.bind_splits if_splits list.splits)

lemma modest_3 [simp]:
  "modest pegaDiag_WifiIpAddrSet"
  "modest pegaDiag_WifiIpMaskGet"
  "modest pegaDiag_WifiIpMaskSet"
  "modest pegaDiag_BleOn"
  "modest pegaDiag_BleOff"
  "modest pegaDiag_BleScan"
  "modest pegaDiag_EthernetOn"
  "modest pegaDiag_AudioRecordFile"
  "modest pegaDiag_AudioPlayFile"
  "modest pegaDiag_PrintConsole"
  "modest pegaDiag_PrintTelnet"
  "modest pegaDiag_NFCControl"
  "modest pegaDiag_RingLedControl"
  "modest pegaDiag_AccControl"
  by (auto simp: modest_def pegaDiag_WifiIpAddrSet_def pegaDiag_WifiIpMaskGet_def pegaDiag_WifiIpMaskSet_def pegaDiag_BleOn_def pegaDiag_BleOff_def pegaDiag_BleScan_def pegaDiag_EthernetOn_def pegaDiag_AudioRecordFile_def pegaDiag_AudioPlayFile_def pegaDiag_PrintConsole_def pegaDiag_PrintTelnet_def pegaDiag_NFCControl_def pegaDiag_RingLedControl_def pegaDiag_AccControl_def
      wifi_script_def wifi_connect_mlan0_def wpa_value_def shell_set_def motor_self_test_def motor_move_def Let_def
      dest!: silent_calls split: option.splits prod.splits Option.bind_splits if_splits list.splits)

lemma modest_4 [simp]:
  "modest pegaDiag_rising_motor_test"
  "modest pegaDiag_rising_motor_forward"
  "modest pegaDiag_rising_motor_reverse"
  "modest pegaDiag_pan_motor_forward"
  "modest pegaDiag_pan_motor_reverse"
  "modest pegaDiag_pan_motor_test"
  "modest pegaDiag_streaming_on"
  "modest pegaDiag_mfgbridge_test"
  by (auto simp: modest_def pegaDiag_rising_motor_test_def pegaDiag_rising_motor_forward_def pegaDiag_rising_motor_reverse_def pegaDiag_pan_motor_forward_def pegaDiag_pan_motor_reverse_def pegaDiag_pan_motor_test_def pegaDiag_streaming_on_def pegaDiag_mfgbridge_test_def
      wifi_script_def wifi_connect_mlan0_def wpa_value_def shell_set_def motor_self_test_def motor_move_def Let_def
      dest!: silent_calls split: option.splits prod.splits Option.bind_splits if_splits list.splits)

lemma all_modest: "(p, h) \<in> set diag_commands \<Longrightarrow> modest h"
  by (auto simp: diag_commands_eval)

lemma text_silent: "list_all is_text es \<Longrightarrow> filter is_reply es = [] \<and> filter is_msg es = []"
proof (induction es)
  case (Cons e es)
  then show ?case by (cases e) auto
qed simp

text \<open>
  C21: No run of the client prints more than one reply or sends more than one message, whatever its
  arguments are.
\<close>

theorem client_replies_once:
  assumes "diag_main args s = Some (r, t)"
  shows "replies t \<le> Suc (replies s) \<and> messages t \<le> Suc (messages s)"
proof (cases rule: diag_cases [where args = args and s = s])
  case (command p h rest)
  then obtain q u where "h (last p # rest) (s\<lparr>m_stDiagMsg := zero_msg\<rparr>) = Some (q, u)"
    "t = (if q \<noteq> 0 then pegaDiag_PrintHelp m_eDiagMainCommand u else u)"
    using diag_command_run assms by (auto simp: diag_finish_def)
  moreover have "modest h" using command(1) by (rule all_modest)
  ultimately show ?thesis by (fastforce simp: modest_def pegaDiag_PrintHelp_def)
next
  case (prints q u es)
  then show ?thesis using assms text_silent by (simp add: replies_def messages_def)
qed (use assms in simp)

subsection \<open>The output of a pipe\<close>

abbreviation (input) NL :: char where "NL \<equiv> CHR 0x0A"

text \<open>The last line of a text, with its newline if it has one.\<close>

definition final_line :: "string \<Rightarrow> string" where
  "final_line xs = (if xs = [] then [] else rev (takeWhile (\<lambda>c. c \<noteq> NL) (rev (butlast xs))) @ [last xs])"

lemma final_line_single: "NL \<notin> set (butlast xs) \<Longrightarrow> final_line xs = xs"
proof -
  assume "NL \<notin> set (butlast xs)"
  then have "takeWhile (\<lambda>c. c \<noteq> NL) (rev (butlast xs)) = rev (butlast xs)" by (auto simp: takeWhile_eq_all_conv)
  then show ?thesis by (simp only: final_line_def rev_rev_ident) simp
qed

lemma final_line_Cons:
  "xs \<noteq> [] \<Longrightarrow> c = NL \<or> NL \<in> set (butlast xs) \<Longrightarrow> final_line (c # xs) = final_line xs"
proof -
  assume "xs \<noteq> []" and "c = NL \<or> NL \<in> set (butlast xs)"
  moreover have "takeWhile (\<lambda>c. c \<noteq> NL) (rev (butlast xs) @ [c]) = takeWhile (\<lambda>c. c \<noteq> NL) (rev (butlast xs))"
    if "NL \<in> set (butlast xs)"
    by (rule takeWhile_append1 [where x = NL]) (use that in simp_all)
  moreover have "takeWhile (\<lambda>c. c \<noteq> NL) (ys @ [NL]) = takeWhile (\<lambda>c. c \<noteq> NL) ys" for ys
    by (induction ys) auto
  ultimately show ?thesis by (auto simp: final_line_def)
qed

text \<open>What the last \<open>fgets\<close> leaves in the buffer is the last piece of the last line.\<close>

lemma last_line_length:
  assumes "length acc < k" and "xs \<noteq> []"
  shows "length (last_line k acc buf xs) = (if NL \<in> set (butlast xs)
    then (length (final_line xs) - 1) mod k + 1 else (length acc + length xs - 1) mod k + 1)"
  using assms
proof (induction k acc buf xs rule: last_line.induct)
  case (2 k acc buf c cs)
  show ?case
  proof (cases "cs = []")
    case True
    then show ?thesis using "2.prems" by simp
  next
    case False
    then obtain n where n: "length cs = Suc n" by (cases cs) auto
    have whole: "final_line cs = cs" if "NL \<notin> set (butlast cs)" using that by (rule final_line_single)
    show ?thesis
    proof (cases "c = NL \<or> Suc (length acc) = k")
      case True
      moreover have "Suc (length acc) = k \<Longrightarrow> Suc (length acc + n) mod k = n mod k"
        using mod_add_self1 [of k n] by (metis add_Suc)
      ultimately show ?thesis
        using "2.IH"(1) [OF True] "2.prems" False n whole by (auto simp: final_line_Cons)
    next
      case no: False
      then have "Suc (length acc) < k" using "2.prems" by simp
      with "2.IH"(2) [OF no] no False show ?thesis by (auto simp: final_line_Cons)
    qed
  qed
qed simp

lemma last_line_short:
  "NL \<notin> set inp \<Longrightarrow> length acc + length inp \<le> k \<Longrightarrow>
   last_line k acc buf inp = (if acc @ inp = [] then buf else acc @ inp)"
proof (induction k acc buf inp rule: last_line.induct)
  case (2 k acc buf c cs)
  then show ?case by (cases "cs = []") auto
qed simp

text \<open>The handlers that read the configuration file, and the key each looks for.\<close>

definition wpa_commands :: "(string list \<times> string) set" where
  "wpa_commands = {([''wifi'', ''ssid'', ''get''], ''ssid''), ([''wifi'', ''password'', ''get''], ''psk'')}"

lemma wpa_run:
  assumes "(p, key) \<in> wpa_commands"
  shows "\<exists>fname. diag_main p s = diag_finish (wpa_value fname key (s\<lparr>m_stDiagMsg := zero_msg\<rparr>))"
proof -
  have "([''wifi'', ''ssid'', ''get''], pegaDiag_WifiSsidGet) \<in> set diag_commands"
    "([''wifi'', ''password'', ''get''], pegaDiag_WifiPassGet) \<in> set diag_commands"
    by (simp_all add: diag_commands_eval)
  from this [THEN diag_command_run, of "[]" s] assms show ?thesis
    by (auto simp: wpa_commands_def pegaDiag_WifiSsidGet_def pegaDiag_WifiPassGet_def)
qed

lemma piped_value:
  assumes "\<forall>h. pipe_out (denv s) h command = result"
  shows "\<exists>g. (case pegaDiag_StringBuffGet command 100 (log_io e (s\<lparr>m_stDiagMsg := m\<rparr>)) of
      (r, buff, s) \<Rightarrow> map_option (\<lambda>str. (r, DIAG_GET 0 str s)) (unquote buff)) =
    (case result of None \<Rightarrow> None | Some out \<Rightarrow>
      map_option (\<lambda>str. (0, DIAG_GET 0 str g)) (unquote (last_line 98 [] [] out)))"
proof (cases result)
  case None
  then show ?thesis using assms by (simp add: pegaDiag_StringBuffGet_def log_io_def unquote_def)
next
  case (Some out)
  then show ?thesis
    using assms by (intro exI [of _ "log_io (Pipe command) (log_io e (s\<lparr>m_stDiagMsg := m\<rparr>))"])
      (simp add: pegaDiag_StringBuffGet_def log_io_def)
qed

lemma wpa_reads:
  assumes "(p, key) \<in> wpa_commands"
    and "\<forall>h. pipe_out (denv s) h (''A=`cat /config/nxp/wpa.conf | grep '' @ key @
      '' | cut -d'=' -f2`;echo -n $A'') = result"
  shows "\<exists>g. diag_main p s = diag_finish (case result of None \<Rightarrow> None | Some out \<Rightarrow>
    map_option (\<lambda>str. (0, DIAG_GET 0 str g)) (unquote (last_line 98 [] [] out)))"
proof -
  obtain fname where run: "diag_main p s = diag_finish (wpa_value fname key (s\<lparr>m_stDiagMsg := zero_msg\<rparr>))"
    using wpa_run [OF assms(1)] by blast
  show ?thesis
    unfolding run wpa_value_def using piped_value [OF assms(2), of "Trace fname" zero_msg] by metis
qed

lemma last_piece_short: "length (last_line 98 [] [] out) < 2 \<longleftrightarrow> out = [] \<or> length (final_line out) mod 98 = 1"
proof (cases "out = []")
  case False
  then have "length (last_line 98 [] [] out) = (length (final_line out) - 1) mod 98 + 1"
    using last_line_length [of "[]" 98 out "[]"] final_line_single [of out] by auto
  moreover obtain n where "length (final_line out) = Suc n" using False by (simp add: final_line_def)
  moreover have "Suc n mod 98 = 1 \<longleftrightarrow> n mod 98 = 0" by (simp add: mod_Suc)
  ultimately show ?thesis using False by simp
qed simp

text \<open>
  C20: \<open>diag wifi ssid get\<close> and \<open>diag wifi password get\<close> read the output of a pipe in pieces of at most 98
  characters, which also end at a newline, and take the quotes off the last piece. Cutting them off a
  piece of less than two characters copies almost the whole address space: the client faults. It does so
  exactly when the pipe cannot be opened, when its output is empty, as it is when the file has no such
  line, or when the length of its last line, newline included, is one more than a multiple of 98. A quoted
  value of one line and at most 98 characters is replied without its quotes.
\<close>

theorem wifi_value_reply:
  assumes "(p, key) \<in> wpa_commands"
    and "\<forall>h. pipe_out (denv s) h (''A=`cat /config/nxp/wpa.conf | grep '' @ key @
      '' | cut -d'=' -f2`;echo -n $A'') = result"
  shows "(diag_main p s = None \<longleftrightarrow>
      (case result of None \<Rightarrow> True | Some out \<Rightarrow> out = [] \<or> length (final_line out) mod 98 = 1)) \<and>
    (result = Some (quote @ name @ quote) \<and> CHR 0x0A \<notin> set name \<and> length name \<le> 96 \<longrightarrow>
      (\<exists>t. diag_main p s = Some (0, t) \<and> hd (dlog t) = Reply (''#INFO#0:'' @ name @ ''#END#'')))"
proof -
  obtain g where main: "diag_main p s = diag_finish (case result of None \<Rightarrow> None | Some out \<Rightarrow>
      map_option (\<lambda>str. (0, DIAG_GET 0 str g)) (unquote (last_line 98 [] [] out)))"
    using wpa_reads [OF assms] by blast
  have "diag_finish (map_option f (unquote x)) = None \<longleftrightarrow> length x < 2" "diag_finish None = None" for f x
    by (simp_all add: diag_finish_def unquote_def)
  then have "diag_main p s = None \<longleftrightarrow>
      (case result of None \<Rightarrow> True | Some out \<Rightarrow> out = [] \<or> length (final_line out) mod 98 = 1)"
    unfolding main by (simp add: last_piece_short split: option.split)
  moreover have "\<exists>t. diag_main p s = Some (0, t) \<and> hd (dlog t) = Reply (''#INFO#0:'' @ name @ ''#END#'')"
    if "result = Some (quote @ name @ quote)" "CHR 0x0A \<notin> set name" "length name \<le> 96"
  proof -
    have "last_line 98 [] [] (quote @ name @ quote) = quote @ name @ quote"
      using that last_line_short [of "quote @ name @ quote" "[]" 98 "[]"] by simp
    moreover have "unquote (quote @ name @ quote) = Some name" by (simp add: unquote_def)
    ultimately show ?thesis unfolding main that(1) by (simp add: diag_finish_def DIAG_GET_def log_io_def)
  qed
  ultimately show ?thesis by blast
qed

theorem wifi_value_reply_witness:
  "(\<exists>t. diag_main [''wifi'', ''ssid'', ''get''] (diag_static (diag_board_env\<lparr>pipe_out := \<lambda>h c. Some (quote @ ''home'' @ quote)\<rparr>)) =
      Some (0, t) \<and> hd (dlog t) = Reply ''#INFO#0:home#END#'') \<and>
   diag_main [''wifi'', ''password'', ''get''] (diag_static (diag_board_env\<lparr>pipe_out := \<lambda>h c. Some (replicate 99 CHR ''x'')\<rparr>)) = None"
proof -
  have "final_line (replicate 99 CHR ''x'') = replicate 99 CHR ''x''"
    by (rule final_line_single) (auto dest: in_set_butlastD)
  then show ?thesis
    using wifi_value_reply [of "[''wifi'', ''ssid'', ''get'']" "''ssid''"
        "diag_static (diag_board_env\<lparr>pipe_out := \<lambda>h c. Some (quote @ ''home'' @ quote)\<rparr>)" "Some (quote @ ''home'' @ quote)" "''home''"]
      wifi_value_reply [of "[''wifi'', ''password'', ''get'']" "''psk''"
        "diag_static (diag_board_env\<lparr>pipe_out := \<lambda>h c. Some (replicate 99 CHR ''x'')\<rparr>)" "Some (replicate 99 CHR ''x'')"]
    by (simp add: wpa_commands_def diag_static_def)
qed

theorem client_replies_once_witness:
  "\<exists>t. diag_main [''wifi'', ''rssi''] (diag_static diag_board_env) = Some (0, t) \<and> replies t \<le> 1 \<and> messages t \<le> 1"
proof -
  have "([''wifi'', ''rssi''], pegaDiag_WifiRssiGet) \<in> set diag_commands" by (simp add: diag_commands_eval)
  from diag_command_run [OF this, of "[]" "diag_static diag_board_env"]
  obtain t where "diag_main [''wifi'', ''rssi''] (diag_static diag_board_env) = Some (0, t)"
    by (auto simp: pegaDiag_WifiRssiGet_def diag_finish_def)
  with client_replies_once [OF this] show ?thesis by (auto simp: replies_def messages_def diag_static_def)
qed

end
