(* ===== verification/Dbg_Client.thy ===== *)
theory Dbg_Client
  imports Diag_Base
begin

text \<open>
  The debug client \<open>pega_misc_dbg\<close> (\<open>main.c\<close> and \<open>pega_debug_msgq_cmd.c\<close>): it turns its arguments
  into one message for the daemon's debug queue.
\<close>

record dbg_msg =
  dm_eCmdId :: int
  dm_value1 :: int
  dm_value2 :: int
  dm_value3 :: int
  dm_value4 :: int

text \<open>
  \<open>strtol\<close> in base 10 with its result stored in an \<open>int\<close>, for a \<open>long\<close> of 32 bits: the message
  queues work with their \<open>int\<close> message type only where it is as wide as a \<open>long\<close>.
\<close>

definition strtol10 :: "string \<Rightarrow> int" where
  "strtol10 str = max (- (2 ^ 31)) (min (2 ^ 31 - 1) (atoi str))"

text \<open>
  A value that no argument gives keeps what the local variable \<open>stDebugMsg\<close> happened to hold. The
  code reads \<open>argv\<close> up to a fixed index, whatever \<open>argc\<close> is.
\<close>

definition dbg_value :: "string list \<Rightarrow> string list \<Rightarrow> nat \<Rightarrow> int \<Rightarrow> int option" where
  "dbg_value args envp i old = map_option (\<lambda>a. case a of None \<Rightarrow> old | Some str \<Rightarrow> strtol10 str)
     (argv_mem args envp i)"

definition one_value :: "int \<Rightarrow> string list \<Rightarrow> string list \<Rightarrow> dbg_msg \<Rightarrow> dbg_msg option" where
  "one_value c args envp m = map_option (\<lambda>v. m\<lparr>dm_eCmdId := c, dm_value1 := v\<rparr>)
     (dbg_value args envp 2 (dm_value1 m))"

definition four_values :: "int \<Rightarrow> string list \<Rightarrow> string list \<Rightarrow> dbg_msg \<Rightarrow> dbg_msg option" where
  "four_values c args envp m = do {
     v1 \<leftarrow> dbg_value args envp 2 (dm_value1 m);
     v2 \<leftarrow> dbg_value args envp 3 (dm_value2 m);
     v3 \<leftarrow> dbg_value args envp 4 (dm_value3 m);
     v4 \<leftarrow> dbg_value args envp 5 (dm_value4 m);
     Some \<lparr>dm_eCmdId = c, dm_value1 = v1, dm_value2 = v2, dm_value3 = v3, dm_value4 = v4\<rparr>
   }"

text \<open>
  \<open>main\<close> with its argument vector, the environment and the content of the local variable: the
  message it sends, or none when it prints its help. The exit status is always 0.
\<close>

definition dbg_main :: "string list \<Rightarrow> string list \<Rightarrow> dbg_msg \<Rightarrow> dbg_msg option option" where
  "dbg_main args envp m =
     (if length args \<le> 1 then Some None
      else if args ! 1 = ''info'' then map_option Some (one_value 2 args envp m)
      else if args ! 1 = ''debug'' then map_option Some (one_value 1 args envp m)
      else if args ! 1 = ''set'' then map_option Some (four_values 3 args envp m)
      else if args ! 1 = ''get'' then map_option Some (one_value 4 args envp m)
      else if args ! 1 = ''motor'' then map_option Some (four_values 5 args envp m)
      else if args ! 1 = ''sch'' then map_option Some (one_value 6 args envp m)
      else Some None)"

text \<open>\<open>Pega_debug_msgq_send_to_misc\<close>: what the queue then holds.\<close>

definition Pega_debug_msgq_send_to_misc :: "bool \<Rightarrow> dbg_msg \<Rightarrow> dbg_msg list \<Rightarrow> int \<times> dbg_msg list" where
  "Pega_debug_msgq_send_to_misc ok m queue = (if ok then (0, queue @ [m]) else (-1, queue))"

end
