(* ===== verification/Diag_Chain.thy ===== *)
theory Diag_Chain
  imports Diag_Search Dbg_Client Misc_Timed Text_Lemmas
begin

text \<open>
  The clients and the daemon together: what a command line makes the hardware do.
\<close>

subsection \<open>One message to the daemon\<close>

lemma request_run:
  "request fname f s = log_io (Msg (f (m_stDiagMsg s)) (msgq_ok (denv s) (Trace fname # dlog s)))
     (log_io (Trace fname) s\<lparr>m_stDiagMsg := f (m_stDiagMsg s)\<rparr>)"
  by (simp add: request_def Pega_diag_msgq_send_request_def log_io_def Let_def)

text \<open>A command that only sends a message: the names, the handler and the message.\<close>

definition sends :: "string list \<Rightarrow> diag_msg \<Rightarrow> bool" where
  "sends p m \<longleftrightarrow> (\<forall>s. \<exists>t ok fname. diag_main p s = Some (0, t) \<and>
     dlog t = Msg m ok # Trace fname # dlog s \<and> denv t = denv s)"

lemma sends_request:
  assumes "(p, h) \<in> set diag_commands" and "\<And>s. h [last p] s = Some (0, request fname f s)"
  shows "sends p (f zero_msg)"
  using diag_command_run [OF assms(1), of "[]"] assms(2)
  by (simp add: sends_def diag_finish_def request_run log_io_def)

text \<open>The daemon stores the message and, when its event fires, executes it.\<close>

definition serve :: "diag_msg \<Rightarrow> misc \<Rightarrow> misc option" where
  "serve m d = Pega_diag_msgq_Cmd_Execution (snd (Pega_diag_commands_processer m d))"

lemma stored_message:
  "eCmdId (m_stDiagCmd (snd (Pega_diag_commands_processer m d))) = eCmdId m"
  "value1 (m_stDiagCmd (snd (Pega_diag_commands_processer m d))) = value1 m"
  "value2 (m_stDiagCmd (snd (Pega_diag_commands_processer m d))) = value2 m"
  "menv (snd (Pega_diag_commands_processer m d)) = menv d"
  by (simp_all add: Pega_diag_commands_processer_def push_event_def upd_diag_def Let_def)

lemma upd_diag_keeps: "mlog (upd_diag f s) = mlog s" "menv (upd_diag f s) = menv s"
  by (simp_all add: upd_diag_def)

lemma shows_log: "mlog t = mlog s \<Longrightarrow> pin_shows t q = pin_shows s q"
  by (simp add: pin_shows_def)

lemma shows_reply: "pin_shows (PT_DIAG_SET r s) q = pin_shows s q" "hd (mlog (PT_DIAG_SET 0 s)) = Print ''#INFO#0#END#''"
  by (simp_all add: PT_DIAG_SET_def pin_shows_def)

lemma shows_stored: "pin_shows (snd (Pega_diag_commands_processer m d)) q = pin_shows d q"
  by (simp add: Pega_diag_commands_processer_def push_event_def upd_diag_def Let_def pin_shows_def)

subsection \<open>LEDs\<close>

lemma led_commands:
  "sends [''led_r'', ''on''] (zero_msg\<lparr>eCmdId := 7, value1 := 1, value2 := 1\<rparr>)"
  "sends [''led_r'', ''off''] (zero_msg\<lparr>eCmdId := 7, value1 := 1, value2 := 0\<rparr>)"
  "sends [''led_g'', ''on''] (zero_msg\<lparr>eCmdId := 7, value1 := 2, value2 := 1\<rparr>)"
  "sends [''led_g'', ''off''] (zero_msg\<lparr>eCmdId := 7, value1 := 2, value2 := 0\<rparr>)"
  "sends [''led_b'', ''on''] (zero_msg\<lparr>eCmdId := 7, value1 := 3, value2 := 1\<rparr>)"
  "sends [''led_b'', ''off''] (zero_msg\<lparr>eCmdId := 7, value1 := 3, value2 := 0\<rparr>)"
  "sends [''led'', ''on''] (zero_msg\<lparr>eCmdId := 7, value1 := 4\<rparr>)"
  "sends [''led'', ''off''] (zero_msg\<lparr>eCmdId := 7, value1 := 5\<rparr>)"
  by (rule sends_request, simp add: diag_commands_eval, simp add: pegaDiag_LedROn_def
      pegaDiag_LedROff_def pegaDiag_LedGOn_def pegaDiag_LedGOff_def pegaDiag_LedBOn_def
      pegaDiag_LedBOff_def pegaDiag_LedAllOn_def pegaDiag_LedAllOff_def)+

lemma led_served:
  assumes "all_open d" and "eCmdId m = 7"
  shows "\<exists>u. serve m d = Some u \<and> hd (mlog u) = Print ''#INFO#0#END#'' \<and>
    (\<forall>q. pin_shows u q = pin_shows (led_diag (value1 m) (0 < value2 m) (snd (Pega_diag_commands_processer m d))) q)"
proof -
  define e where "e = snd (Pega_diag_commands_processer m d)"
  have "diag_switch e = Some (PT_DIAG_SET 0 (led_diag (value1 m) (0 < value2 m) e))"
    using assms(2) stored_message(1-3) [of m d] by (simp add: diag_switch_def e_def Let_def)
  then show ?thesis
    by (simp add: serve_def Pega_diag_msgq_Cmd_Execution_def shows_log [OF upd_diag_keeps(1)]
        upd_diag_keeps shows_reply flip: e_def)
qed

text \<open>
  C9: \<open>diag led_r on\<close> and its five fellows: the message the client sends makes the daemon write 1 or 0
  to the pin of that colour, leave every other pin as it was, and reply with success.
\<close>

theorem led_command_sets_pin:
  assumes "all_open d" and "(name, pin) \<in> {(''led_r'', 69), (''led_g'', 70), (''led_b'', 71)}"
  shows "\<exists>m u. sends [name, if on then ''on'' else ''off''] m \<and> serve m d = Some u \<and>
    (\<forall>q. pin_shows u q = (if q = pin then Some (if on then ''1'' else ''0'') else pin_shows d q)) \<and>
    hd (mlog u) = Print ''#INFO#0#END#''"
proof -
  define k where "k = (if name = ''led_r'' then 1 else if name = ''led_g'' then 2 else 3 :: int)"
  let ?m = "zero_msg\<lparr>eCmdId := 7, value1 := k, value2 := of_bool on\<rparr>"
  have "sends [name, if on then ''on'' else ''off''] ?m"
    using assms(2) led_commands by (auto simp: k_def)
  moreover from led_served [OF assms(1), of ?m] obtain u where
    "serve ?m d = Some u" "hd (mlog u) = Print ''#INFO#0#END#''"
    "\<forall>q. pin_shows u q = pin_shows (led_diag k on (snd (Pega_diag_commands_processer ?m d))) q"
    by auto
  moreover have "all_open (snd (Pega_diag_commands_processer ?m d))"
    using assms(1) by (simp add: all_open_def stored_message)
  ultimately show ?thesis
    using assms(2) by (auto simp: led_diag_def led_pins k_def shows_stored)
qed

subsection \<open>Light level\<close>

lemma duty_command:
  "([name, ''set''], h) \<in> set diag_commands \<Longrightarrow>
   (\<And>args s. h args s = map_option (\<lambda>v. (0, request fname (\<lambda>m. m\<lparr>eCmdId := c, value1 := v\<rparr>) s))
      (duty_of (tl args) s)) \<Longrightarrow>
   sends [name, ''set'', a] (zero_msg\<lparr>eCmdId := c, value1 := max 1 (min 100 (atoi a))\<rparr>)"
  using diag_command_run [of "[name, ''set'']" h "[a]"]
  by (auto simp: sends_def duty_of_def argv_at_def argv_mem_def diag_finish_def request_run log_io_def Let_def)

lemma duty_commands:
  "sends [''irled'', ''set'', a] (zero_msg\<lparr>eCmdId := 4, value1 := max 1 (min 100 (atoi a))\<rparr>)"
  "sends [''spotled'', ''set'', a] (zero_msg\<lparr>eCmdId := 6, value1 := max 1 (min 100 (atoi a))\<rparr>)"
  by (rule duty_command, simp add: diag_commands_eval, (rule pegaDiag_IrLedPwmValueSet_def pegaDiag_SpotLedPwmValueSet_def)+)+

lemma pwm_config_writes:
  assumes "all_open s" and "0 \<le> v" and "v \<le> 100"
  shows "last_write (mlog (snd (Pega_pwm_config ch 20000 (word_of_int v) s))) (Pwm_duty_cycle ch) =
      Some (show_int (200 * v))"
    and "last_write (mlog (snd (Pega_pwm_config ch 20000 (word_of_int v) s))) (Pwm_period ch) = Some (show_int 20000)"
proof -
  have "uint (word_of_int v :: u32) = v" using assms by (simp add: uint_word_of_int)
  then have "uint (200 * word_of_int v :: u32) = 200 * v"
    using assms(2,3) uint_mult_lem [of "200 :: u32" "word_of_int v"] by simp
  then have "sint (200 * word_of_int v :: u32) = 200 * v"
    using assms(2,3) by (simp add: sint_uint signed_take_bit_int_eq_self)
  then show "last_write (mlog (snd (Pega_pwm_config ch 20000 (word_of_int v) s))) (Pwm_duty_cycle ch) =
      Some (show_int (200 * v))"
    and "last_write (mlog (snd (Pega_pwm_config ch 20000 (word_of_int v) s))) (Pwm_period ch) = Some (show_int 20000)"
    using assms(1) by (simp_all add: Pega_pwm_config_def sys_open_def all_open_def emit_def Let_def)
qed

text \<open>
  C19: \<open>diag irled set\<close> and \<open>diag spotled set\<close>: whatever text is given, the PWM channel of the light
  gets a period of 20000 ns and a duty cycle of the number read from it, cut to 1 to 100 percent.
\<close>

theorem light_level_command:
  assumes "all_open d" and "(name, ch) \<in> {(''irled'', PWM_CH6), (''spotled'', PWM_CH7)}"
  shows "\<exists>m u. sends [name, ''set'', a] m \<and> serve m d = Some u \<and>
    last_write (mlog u) (Pwm_period ch) = Some (show_int 20000) \<and>
    last_write (mlog u) (Pwm_duty_cycle ch) = Some (show_int (200 * max 1 (min 100 (atoi a)))) \<and>
    hd (mlog u) = Print ''#INFO#0#END#''"
proof -
  define v where "v = max 1 (min 100 (atoi a))"
  define cid where "cid = (if name = ''irled'' then 4 else 6 :: int)"
  let ?m = "zero_msg\<lparr>eCmdId := cid, value1 := v\<rparr>"
  define e where "e = snd (Pega_diag_commands_processer ?m d)"
  have "sends [name, ''set'', a] ?m"
    using assms(2) duty_commands [of a] by (auto simp: v_def cid_def)
  moreover have "all_open e" using assms(1) by (simp add: all_open_def stored_message e_def)
  moreover have "diag_switch e = Some (PT_DIAG_SET 0 (snd (Pega_pwm_config ch 20000 (word_of_int v) e)))"
    using assms(2) stored_message(1-3) [of ?m d] by (auto simp: diag_switch_def e_def cid_def Let_def)
  then have "serve ?m d = Some (upd_diag (\<lambda>c. if wCmdCnt c > 0 then c\<lparr>wCmdCnt := wCmdCnt c - 1\<rparr> else c)
      (PT_DIAG_SET 0 (snd (Pega_pwm_config ch 20000 (word_of_int v) e))))"
    by (simp add: serve_def Pega_diag_msgq_Cmd_Execution_def flip: e_def)
  ultimately show ?thesis
    using pwm_config_writes [of e v ch] by (auto simp: upd_diag_keeps PT_DIAG_SET_def v_def)
qed

subsection \<open>Motors\<close>

text \<open>
  The moves: the names, the code in the command for the debug client, and the motor, direction and
  step mode of the daemon.
\<close>

definition motor_moves :: "(string list \<times> int \<times> u8 \<times> u8 \<times> u8) set" where
  "motor_moves =
     {([''motor'', ''rising'', ''forward''], 14, AW_RISING_MOTOR, AW_FORWARD, AW_FULL_STEP),
      ([''motor'', ''rising'', ''reverse''], 13, AW_RISING_MOTOR, AW_REVERSE, AW_FULL_STEP),
      ([''motor'', ''pan'', ''forward''], 12, AW_PAN_MOTOR, AW_FORWARD, AW_HALF_STEP),
      ([''motor'', ''pan'', ''reverse''], 11, AW_PAN_MOTOR, AW_REVERSE, AW_HALF_STEP)}"

definition motor_line :: "int \<Rightarrow> int \<Rightarrow> int \<Rightarrow> string" where
  "motor_line code speed time = ''pega_misc_dbg motor '' @ show_int code @ '' '' @ show_int speed @
     '' '' @ show_int time"

definition runs_motor :: "string list \<Rightarrow> int \<Rightarrow> bool" where
  "runs_motor p code \<longleftrightarrow> (\<exists>h. (p, h) \<in> set diag_commands \<and> (\<forall>args s. h args s = motor_move code (tl args) s))"

lemma runs_motorI: "(p, h) \<in> set diag_commands \<Longrightarrow> (\<And>args. h args = motor_move code (tl args)) \<Longrightarrow> runs_motor p code"
  by (auto simp: runs_motor_def)

lemma motor_commands:
  "runs_motor [''motor'', ''rising'', ''forward''] 14" "runs_motor [''motor'', ''rising'', ''reverse''] 13"
  "runs_motor [''motor'', ''pan'', ''forward''] 12" "runs_motor [''motor'', ''pan'', ''reverse''] 11"
  by (rule runs_motorI, simp add: diag_commands_eval, (rule pegaDiag_rising_motor_forward_def
      pegaDiag_rising_motor_reverse_def pegaDiag_pan_motor_forward_def pegaDiag_pan_motor_reverse_def)+)+

lemma motor_handlers: "(p, code, x) \<in> motor_moves \<Longrightarrow> runs_motor p code"
  using motor_commands by (auto simp: motor_moves_def)

text \<open>The shell splits the command at its blanks; the debug client reads the numbers back.\<close>

lemma motor_line_words:
  "tokens [] (motor_line code speed time) =
     [''pega_misc_dbg'', ''motor'', show_int code, show_int speed, show_int time]"
proof -
  have w: "tokens [] (show_int n @ '' '' @ xs) = show_int n # tokens [] xs" for n xs
    using tokens_word [of "show_int n" "[]" "'' '' @ xs"] show_int_word [of n] by simp
  have e: "tokens [] (show_int n) = [show_int n]" for n
    using tokens_word [of "show_int n" "[]" "[]"] show_int_word [of n] by simp
  show ?thesis by (simp add: motor_line_def w [simplified] e)
qed

definition in_int :: "int \<Rightarrow> bool" where
  "in_int i \<longleftrightarrow> - (2 ^ 31) \<le> i \<and> i < 2 ^ 31"

lemma motor_line_message:
  assumes "in_int code" and "in_int speed" and "in_int time"
  shows "dbg_main (tokens [] (motor_line code speed time)) envp junk =
    Some (Some \<lparr>dm_eCmdId = 5, dm_value1 = code, dm_value2 = speed, dm_value3 = time,
      dm_value4 = dm_value4 junk\<rparr>)"
proof -
  have "strtol10 (show_int i) = i" if "in_int i" for i
    using that by (simp add: strtol10_def atoi_show_int in_int_def)
  then show ?thesis
    using assms by (simp add: motor_line_words dbg_main_def four_values_def dbg_value_def argv_mem_def Let_def)
qed

text \<open>The daemon stores the message and executes it when its event fires.\<close>

definition serve_debug :: "dbg_msg \<Rightarrow> misc \<Rightarrow> misc option" where
  "serve_debug m d = Pega_debug_schedule_command (snd (Pega_debug_commands_processer
     (dm_eCmdId m) (dm_value1 m) (dm_value2 m) (dm_value3 m) d))"

lemma motor_served:
  assumes "dm_eCmdId m = 5"
  shows "\<exists>e. serve_debug m d = awd8833c_debug (dm_value1 m) (dm_value2 m) (dm_value3 m) e \<and>
    menv e = menv d \<and> mlog e = mlog d \<and> steps_valid e = steps_valid d"
  using assms by (simp add: serve_debug_def steps_valid_def Pega_debug_commands_processer_def push_event_def
      Pega_debug_schedule_command_def Let_def) (rule exI, intro conjI, rule refl, simp_all)

lemma motor_line_length:
  assumes "0 \<le> code" and "code < 100" and "1 \<le> speed" and "speed < 10" and "0 \<le> time" and "time < 10000"
  shows "length (motor_line code speed time) < 64"
  using assms length_show [of "nat code" 2] length_show [of "nat speed" 1] length_show [of "nat time" 4]
  by (simp add: motor_line_def show_int_def nat_less_iff)

lemma motor_command_line:
  assumes "(p, code, x) \<in> motor_moves" and "argv_at rest 0 s = Some a0" and "argv_at rest 1 s = Some a1"
    and "speed = (case a0 of None \<Rightarrow> 3 | Some str \<Rightarrow> atoi str)"
    and "time = (case a1 of None \<Rightarrow> 1000 | Some str \<Rightarrow> atoi str)"
    and "length (motor_line code speed time) < 64"
  shows "\<exists>t. diag_main (p @ rest) s = Some (0, t) \<and>
    dlog t = Reply ''#INFO#0#END#'' # Shell (motor_line code speed time) # dlog s"
proof -
  obtain h where h: "(p, h) \<in> set diag_commands" "\<forall>args s. h args s = motor_move code (tl args) s"
    using motor_handlers [OF assms(1)] unfolding runs_motor_def by blast
  define u where "u = s\<lparr>m_stDiagMsg := zero_msg\<rparr>"
  have "argv_at rest 0 u = Some a0" "argv_at rest (Suc 0) u = Some a1"
    using assms(2,3) by (simp_all add: argv_at_def u_def)
  then have "motor_move code rest u = map_option (\<lambda>cmd. (0, DIAG_SET 0 (snd (system_c cmd u))))
      (sprintf_into 64 (motor_line code speed time))"
    by (simp add: motor_move_def motor_line_def Let_def assms(4,5) bind_map_option comp_def
        split: Option.bind_splits)
  then show ?thesis
    using diag_command_run [OF h(1), of rest s] h(2) assms(6)
    by (simp add: sprintf_into_def diag_finish_def system_c_def log_io_def DIAG_SET_def u_def)
qed

lemma motor_debug:
  "(p, code, rising, dir, mode) \<in> motor_moves \<Longrightarrow> awd8833c_debug code speed time e =
     awd8833c_motor_launch_by_time rising dir mode (word_of_int speed) (word_of_int time) e"
  by (auto simp: motor_moves_def awd8833c_debug_def Let_def)

lemma motor_codes:
  assumes "(p, code, rising, dir, mode) \<in> motor_moves"
  shows "0 \<le> code \<and> code < 100" and "dir = 0 \<or> dir = 1" and "mode = 0 \<or> mode = 1"
  using assms by (auto simp: motor_moves_def)


text \<open>
  C22: Without a speed and a time the client looks for the time behind the end of its arguments, in
  the first string of the environment. That is no number, so the motor is told to run for 0 ms: it
  makes no step, and the client still replies with success instead of running for a second.
\<close>

theorem motor_default_time_lost:
  assumes "(p, code, rising, dir, mode) \<in> motor_moves" and "environ (denv s) = e # es" and "atoi e = 0"
  shows "\<exists>t c m u. diag_main p s = Some (0, t) \<and>
    dlog t = Reply ''#INFO#0#END#'' # Shell c # dlog s \<and>
    dbg_main (tokens [] c) envp junk = Some (Some m) \<and> dm_value3 m = 0 \<and>
    serve_debug m d = Some u \<and> sleeps (mlog u) = sleeps (mlog d)"
proof -
  note codes = motor_codes [OF assms(1)]
  define m where "m = \<lparr>dm_eCmdId = 5, dm_value1 = code, dm_value2 = 3, dm_value3 = 0,
    dm_value4 = dm_value4 junk\<rparr>"
  have "length (motor_line code 3 0) < 64" using codes(1) by (intro motor_line_length) auto
  from motor_command_line [OF assms(1) _ _ _ _ this, of "[]" s None "Some e"] obtain t where
    "diag_main p s = Some (0, t)" "dlog t = Reply ''#INFO#0#END#'' # Shell (motor_line code 3 0) # dlog s"
    using assms(2,3) by (auto simp: argv_at_def argv_mem_def)
  moreover have "dbg_main (tokens [] (motor_line code 3 0)) envp junk = Some (Some m)"
    unfolding m_def by (rule motor_line_message) (use codes(1) in \<open>auto simp: in_int_def\<close>)
  moreover obtain e where "serve_debug m d = awd8833c_debug code 3 0 e" "mlog e = mlog d"
    using motor_served [of m d] by (auto simp: m_def)
  moreover have "\<exists>u. awd8833c_motor_launch_by_time rising dir mode 3 0 e = Some u \<and> sleeps (mlog u) = sleeps (mlog e)"
    by (simp add: awd8833c_motor_launch_by_time_def awd8833c_timer_start_def set_enable_sleeps
        awd8833c_set_speed_level_def) (simp add: set_enable_sleeps awd8833c_gpio_init_m_def motor_pins)
  ultimately show ?thesis by (auto simp: m_def motor_debug [OF assms(1)])
qed

subsection \<open>Witnesses\<close>

definition stale_msg :: dbg_msg where
  "stale_msg = \<lparr>dm_eCmdId = 7, dm_value1 = 7, dm_value2 = 7, dm_value3 = 7, dm_value4 = 7\<rparr>"

theorem led_command_sets_pin_witness:
  "\<exists>m u. sends [''led_g'', ''on''] m \<and> serve m drive_board = Some u \<and> pin_shows u 70 = Some ''1''"
  using led_command_sets_pin [OF drive_board_values(1), of "''led_g''" 70 True] by auto

theorem light_level_command_witness:
  "\<exists>m u. sends [''irled'', ''set'', ''250''] m \<and> serve m drive_board = Some u \<and>
    last_write (mlog u) (Pwm_duty_cycle PWM_CH6) = Some (show_int 20000)"
proof -
  have "atoi ''250'' = 250" by code_simp
  then show ?thesis
    using light_level_command [OF drive_board_values(1), of "''irled''" PWM_CH6 "''250''"] by auto
qed


theorem motor_default_time_lost_witness:
  "\<exists>t c m u. diag_main [''motor'', ''rising'', ''forward''] (diag_static diag_board_env) = Some (0, t) \<and>
    dbg_main (tokens [] c) [] stale_msg = Some (Some m) \<and> serve_debug m drive_board = Some u \<and>
    sleeps (mlog u) = []"
proof -
  have "atoi ''PATH=/bin'' = 0" by code_simp
  moreover have "([''motor'', ''rising'', ''forward''], 14, 1, 1, 0) \<in> motor_moves" by (simp add: motor_moves_def)
  ultimately show ?thesis
    using motor_default_time_lost [of "[''motor'', ''rising'', ''forward'']" 14 1 1 0 "diag_static diag_board_env"
        "''PATH=/bin''" "[]" "[]" stale_msg drive_board] drive_board_values(2)
    by (auto simp: diag_static_def diag_board_env_def)
qed

end
