(* ===== verification/Misc_Grows.thy ===== *)
theory Misc_Grows
  imports Misc_Reach
begin

text \<open>
  The log of the daemon only grows: what serving a message of the diagnostic client adds to it is in
  front of what was there.
\<close>

definition grows :: "'a gpio_st_scheme \<Rightarrow> 'a gpio_st_scheme \<Rightarrow> bool" where
  "grows s t \<longleftrightarrow> suffix (mlog s) (mlog t)"

lemma grows_refl [simp]: "grows s s"
  by (simp add: grows_def)

lemma grows_trans [trans]: "grows s t \<Longrightarrow> grows t u \<Longrightarrow> grows s u"
  by (auto simp: grows_def)

lemma grows_emit: "grows s (emit e s)"
  by (auto simp: grows_def emit_def suffix_def)

lemma grows_emits [simp]: "grows s t \<Longrightarrow> grows s (emit e t)"
  by (rule grows_trans [OF _ grows_emit])

lemma grows_log: "mlog t = mlog s \<Longrightarrow> grows s t"
  by (simp add: grows_def)

text \<open>Sequences and loops.\<close>

lemma grows_seq: "(\<And>f s. f \<in> set fs \<Longrightarrow> grows s (f s)) \<Longrightarrow> grows s (seq fs s)"
proof (induction fs arbitrary: s)
  case (Cons f fs)
  have "grows s (f s)" using Cons.prems by simp
  also have "grows (f s) (seq fs (f s))" by (rule Cons.IH) (use Cons.prems in simp)
  finally show ?case by simp
qed simp

lemma grows_seq_opt:
  "(\<And>f s t. f \<in> set fs \<Longrightarrow> f s = Some t \<Longrightarrow> grows s t) \<Longrightarrow> seq_opt fs s = Some t \<Longrightarrow> grows s t"
proof (induction fs arbitrary: s)
  case (Cons f fs)
  then obtain u where u: "f s = Some u" "seq_opt fs u = Some t" by (auto split: Option.bind_splits)
  have "grows s u" by (rule Cons.prems(1) [where f = f]) (simp_all add: u(1))
  also have "grows u t"
    by (rule Cons.IH [OF _ u(2)], erule Cons.prems(1) [OF list.set_intros(2)])
  finally show ?case .
qed simp

subsection \<open>Pins, channels and directories\<close>

lemma grows_open: "sys_open p s = (ok, t) \<Longrightarrow> grows s t"
  by (auto simp: sys_open_def Let_def)

lemma grows_pin [simp]: "grows s (pin_out p v s)"
  by (auto simp: pin_out_def Pega_Gpio_pin_output_set_def split: prod.splits dest: grows_open)

lemma grows_read: "Pega_Gpio_Read p s = (r, t) \<Longrightarrow> grows s t"
  by (auto simp: Pega_Gpio_Read_def split: prod.splits option.splits if_splits dest: grows_open)

lemma grows_usleep [simp]: "grows s (usleep n s)"
  by (simp add: usleep_def)

lemma grows_leds [simp]:
  "grows s (IO_LED_R_CTRL on s)" "grows s (IO_LED_G_CTRL on s)" "grows s (IO_LED_B_CTRL on s)"
  "grows s (IO_IR_CUT1_CTRL on s)" "grows s (IO_IR_CUT2_CTRL on s)" "grows s (IO_AMP_SHUTDOWN on s)"
  by (simp_all add: IO_LED_R_CTRL_def IO_LED_G_CTRL_def IO_LED_B_CTRL_def IO_IR_CUT1_CTRL_def
      IO_IR_CUT2_CTRL_def IO_AMP_SHUTDOWN_def)

lemma grows_led_diag: "grows s (led_diag i on s)"
  unfolding led_diag_def by (auto intro!: grows_seq simp del: seq.simps)

lemma grows_ircut: "grows s (Pega_Gpio_IRCut_Control b s)"
proof -
  have "grows s (Pega_Gpio_IRCut_status_set v s)" for v and s :: "'a gpio_st_scheme"
    by (simp add: Pega_Gpio_IRCut_status_set_def grows_log)
  then show ?thesis
    unfolding Pega_Gpio_IRCut_Control_def by (auto intro!: grows_seq simp del: seq.simps)
qed

lemma grows_amp_reset: "grows s (Pega_Gpio_HW_Amp_Reset s)"
  unfolding Pega_Gpio_HW_Amp_Reset_def by (auto intro!: grows_seq simp del: seq.simps)

lemma grows_pwm_config: "grows s (snd (Pega_pwm_config p f d s))"
  by (auto simp: Pega_pwm_config_def Let_def split: prod.splits dest!: grows_open
      dest: grows_trans [OF grows_emit] intro: grows_trans grows_emits)

lemma grows_pwm_control: "grows s (snd (Pega_pwm_control p b s))"
  by (auto simp: Pega_pwm_control_def split: prod.splits dest!: grows_open)

lemma grows_lamps: "grows s (IO_IRLED_CTRL on s)" "grows s (IO_SPOTLIGHT_CTRL on s)"
  by (simp_all add: IO_IRLED_CTRL_def IO_SPOTLIGHT_CTRL_def grows_pwm_control)

lemma grows_dir: "dir_has p i s = (r, t) \<Longrightarrow> grows s t"
  by (auto simp: dir_has_def)

lemma grows_which:
  assumes "\<And>i (s :: 'a gpio_st_scheme) r t. check i s = (r, t) \<Longrightarrow> grows s t" and "which_if check s = (i, t)"
  shows "grows s t"
  using assms(2) by (auto simp: which_if_def split: prod.splits if_splits dest!: assms(1) intro: grows_trans)

lemma grows_update_wifi: "grows s (Pega_Misc_Update_WiFi_interface s)"
proof -
  obtain i t where 1: "which_if pega_netip_interface_check_sd0 s = (i, t)" by fastforce
  obtain j u where 2: "which_if pega_netip_interface_check_sd1 t = (j, u)" by fastforce
  have "grows s t"
    using 1 by (rule grows_which [rotated]) (auto simp: pega_netip_interface_check_sd0_def dest: grows_dir)
  also have "grows t u"
    using 2 by (rule grows_which [rotated]) (auto simp: pega_netip_interface_check_sd1_def dest: grows_dir)
  finally show ?thesis by (simp add: Pega_Misc_Update_WiFi_interface_def 1 2 grows_def)
qed

subsection \<open>I2C, light sensor and amplifier\<close>

lemma grows_i2c_write: "pega_i2c_Write fd a r v f s = Some (x, t) \<Longrightarrow> grows s t"
  by (auto simp: pega_i2c_Write_def pega_i2cSetAddress_def bus_write_def split: if_splits Option.bind_splits)

lemma grows_i2c_read: "pega_i2c_Read fd a r v f s = Some (x, y, t) \<Longrightarrow> grows s t"
  by (auto simp: pega_i2c_Read_def pega_i2cSetAddress_def bus_write_def Let_def
      split: if_splits Option.bind_splits option.splits)

lemma grows_opt_write: "OPT300X_I2C_WriteToSlave r v s = Some (x, t) \<Longrightarrow> grows s t"
  by (auto simp: OPT300X_I2C_WriteToSlave_def dest: grows_i2c_write)

lemma grows_opt_read: "OPT300X_I2C_ReadFromSlave r v s = Some (x, y, t) \<Longrightarrow> grows s t"
  by (auto simp: OPT300X_I2C_ReadFromSlave_def dest!: grows_i2c_read split: Option.bind_splits if_splits)

lemmas grows_opt = grows_opt_write grows_opt_read

lemma grows_lux: "OPT300x_Read_Lux_Handler s = Some (l, t) \<Longrightarrow> grows s t"
  by (auto simp: OPT300x_Read_Lux_Handler_def OPT300x_Read_Lux_def OPT300x_Continue_Mode_Check_def
      OPT300x_set_mode_def Let_def grows_def dest!: grows_opt split: Option.bind_splits if_splits)
    (meson suffix_order.trans)+

lemma grows_als_id: "OPT300x_Device_ID_Get s = Some (v, t) \<Longrightarrow> grows s t"
  by (auto simp: OPT300x_Device_ID_Get_def grows_def dest!: grows_opt split: Option.bind_splits if_splits)

lemma grows_nv_diag: "Pega_NV_Mode_Diag_Lux_Get s = Some (l, t) \<Longrightarrow> grows s t"
  by (auto simp: Pega_NV_Mode_Diag_Lux_Get_def Pega_NV_Mode_Lux_Update_def Let_def grows_def
      dest!: grows_lux split: Option.bind_splits)

lemma grows_tas_put: "tas_put r v s = Some t \<Longrightarrow> grows s t"
  by (auto simp: tas_put_def tas2563_i2c_write_def dest!: grows_i2c_write)

lemma grows_update_only: "update_only r m v s = Some t \<Longrightarrow> grows s t"
  by (auto simp: update_only_def tas2563_update_bits_def tas2563_i2c_write_def tas2563_i2c_read_def Let_def
      dest!: grows_i2c_write grows_i2c_read intro: grows_trans split: Option.bind_splits if_splits)

lemma grows_volume: "Pega_AMP_Volume_Control v s = Some t \<Longrightarrow> grows s t"
  unfolding Pega_AMP_Volume_Control_def
  by (erule grows_seq_opt [rotated]) (auto simp: page0_def dest!: grows_tas_put grows_update_only)

lemma grows_script: "seq_opt (map amp_step xs) s = Some t \<Longrightarrow> grows s t"
  by (erule grows_seq_opt [rotated]) (auto simp: amp_step_def dest!: grows_tas_put split: amp_cmd.splits)

lemma grows_cfg_line: "cfg_line l r s = Some (x, t) \<Longrightarrow> grows s t"
  by (auto simp: cfg_line_def Let_def dest!: grows_tas_put split: list.splits if_splits)

lemma grows_cfg_loop: "cfg_loop inp buf r s = Some t \<Longrightarrow> grows s t"
proof (induction "length inp" arbitrary: inp buf r s rule: less_induct)
  case less
  obtain l rest eof where l: "take_line 59 inp = (l, rest, eof)" by (cases "take_line 59 inp") auto
  show ?case
    using less.prems less.hyps take_line_more [OF l] by (subst (asm) cfg_loop.simps)
      (auto simp: l Let_def split: if_splits Option.bind_splits dest!: grows_cfg_line intro: grows_trans)
qed

lemma grows_load_cfg: "tas2563_load_audio_config_file s = Some (r, t) \<Longrightarrow> grows s t"
  by (auto simp: tas2563_load_audio_config_file_def dest!: grows_cfg_loop split: option.splits)

lemma grows_amp_init: "Pega_AMP_Initialize b v s = Some t \<Longrightarrow> grows s t"
proof -
  let ?s = "usleep 300000 (Pega_Gpio_HW_Amp_Reset s)"
  assume run: "Pega_AMP_Initialize b v s = Some t"
  have "grows s ?s" by (rule grows_trans [OF grows_amp_reset]) simp
  also have "grows ?s t"
    using run by (auto simp: Pega_AMP_Initialize_def Let_def grows_def
        dest!: grows_volume grows_script grows_load_cfg split: Option.bind_splits if_splits)
  finally show ?thesis .
qed

end
