(* ===== verification/Diag_Types.thy ===== *)
theory Diag_Types
  imports Diag_Replies Diag_Chain Misc_Grows
begin

text \<open>
  What the messages of the client can hold, and what the daemon's switch makes of each of them.
\<close>

subsection \<open>The values of a message\<close>

text \<open>
  The commands that the client has handlers for, with the values they send: a duty cycle in percent, a
  volume in decibels, an LED with its level. \<open>value3\<close> is never used.
\<close>

definition well_msg :: "diag_msg \<Rightarrow> bool" where
  "well_msg m \<longleftrightarrow> eCmdId m \<in> {2, 3, 4, 5, 6, 7, 8, 10, 11, 14, 16} \<and> value3 m = 0 \<and>
     (eCmdId m \<in> {2, 3, 5} \<longrightarrow> value1 m \<in> {0, 1}) \<and>
     (eCmdId m \<in> {4, 6} \<longrightarrow> value1 m \<in> {1..100}) \<and>
     (eCmdId m = 7 \<longrightarrow> value1 m \<in> {1..5} \<and> value2 m \<in> {0, 1}) \<and>
     (eCmdId m = 8 \<longrightarrow> value1 m \<in> {1..8}) \<and>
     (eCmdId m = 10 \<longrightarrow> value1 m = 1 \<or> value1 m = 2 \<and> 17 / 2 \<le> fval1 m \<and> fval1 m \<le> 22) \<and>
     (eCmdId m \<in> {11, 14} \<longrightarrow> value1 m = 1)"

definition typed :: "diag_st \<Rightarrow> bool" where
  "typed s \<longleftrightarrow> (\<forall>m ok. Msg m ok \<in> set (dlog s) \<longrightarrow> well_msg m)"

lemma typed_simps [simp]:
  "typed (log_io e s) \<longleftrightarrow> typed s \<and> (case e of Msg m ok \<Rightarrow> well_msg m | _ \<Rightarrow> True)"
  "typed (s\<lparr>m_stDiagMsg := m\<rparr>) = typed s"
  "typed (s\<lparr>audio_record_time := x\<rparr>) = typed s" "typed (s\<lparr>audio_play_time := x\<rparr>) = typed s"
  "typed (s\<lparr>audio_file_path := x\<rparr>) = typed s" "typed (snd (system_c c s)) = typed s"
  "typed (DIAG_SET r s) = typed s" "typed (DIAG_GET r d s) = typed s"
  "typed (snd (Pega_diag_msgq_send_request m s)) \<longleftrightarrow> typed s \<and> well_msg m"
  "typed (request fname f s) \<longleftrightarrow> typed s \<and> well_msg (f (m_stDiagMsg s))"
  by (auto simp: typed_def log_io_def system_c_def DIAG_SET_def DIAG_GET_def request_def
      Pega_diag_msgq_send_request_def Let_def split: diag_io.splits)

lemma message_kept [simp]:
  "m_stDiagMsg (log_io e s) = m_stDiagMsg s" "m_stDiagMsg (snd (system_c c s)) = m_stDiagMsg s"
  by (simp_all add: log_io_def system_c_def)

lemma typed_calls:
  "system_c c s = (r, t) \<Longrightarrow> typed t = typed s"
  "client_interface_exist i s = (r, t) \<Longrightarrow> typed t = typed s"
  "pegaDiag_StringBuffGet c n s = (r, b, t) \<Longrightarrow> typed t = typed s"
  "pegaDiag_is_ble_fw_ready s = Some (r, t) \<Longrightarrow> typed t = typed s"
  "run_audio f c s = Some (r, t) \<Longrightarrow> typed t = typed s"
  by (auto simp: system_c_def client_interface_exist_def pegaDiag_StringBuffGet_def
      pegaDiag_is_ble_fw_ready_def run_audio_def pegaDiag_AudioFileExist_def Let_def
      split: option.splits Option.bind_splits if_splits)

lemma duty_range: "duty_of args s = Some v \<Longrightarrow> 1 \<le> v \<and> v \<le> 100"
  by (auto simp: duty_of_def Let_def split: Option.bind_splits if_splits)

text \<open>A handler that starts from the cleared message, as \<open>main\<close> calls it.\<close>

definition well_typed :: "handler \<Rightarrow> bool" where
  "well_typed h \<longleftrightarrow> (\<forall>args s r t. h args s = Some (r, t) \<longrightarrow> m_stDiagMsg s = zero_msg \<longrightarrow> typed s \<longrightarrow> typed t)"

lemma well_typed_0 [simp]:
  "well_typed pegaDiag_IspFwVersionGet"
  "well_typed pegaDiag_WifiVersionGet"
  "well_typed pegaDiag_IcrDayModeSet"
  "well_typed pegaDiag_IcrNightModeSet"
  "well_typed pegaDiag_IrLedOn"
  "well_typed pegaDiag_IrLedOff"
  "well_typed pegaDiag_IrLedPwmValueSet"
  "well_typed pegaDiag_SpotLedOn"
  "well_typed pegaDiag_SpotLedOff"
  "well_typed pegaDiag_SpotLedPwmValueSet"
  "well_typed pegaDiag_LedAllOn"
  "well_typed pegaDiag_LedAllOff"
  "well_typed pegaDiag_LedROn"
  "well_typed pegaDiag_LedROff"
  by (auto simp: well_typed_def well_msg_def zero_msg_def pegaDiag_IspFwVersionGet_def pegaDiag_WifiVersionGet_def pegaDiag_IcrDayModeSet_def pegaDiag_IcrNightModeSet_def pegaDiag_IrLedOn_def pegaDiag_IrLedOff_def pegaDiag_IrLedPwmValueSet_def pegaDiag_SpotLedOn_def pegaDiag_SpotLedOff_def pegaDiag_SpotLedPwmValueSet_def pegaDiag_LedAllOn_def pegaDiag_LedAllOff_def pegaDiag_LedROn_def pegaDiag_LedROff_def
      wifi_script_def wifi_connect_mlan0_def wpa_value_def shell_set_def motor_self_test_def motor_move_def Let_def
      dest!: typed_calls duty_range split: option.splits prod.splits Option.bind_splits if_splits list.splits)

lemma well_typed_1 [simp]:
  "well_typed pegaDiag_LedGOn"
  "well_typed pegaDiag_LedGOff"
  "well_typed pegaDiag_LedBOn"
  "well_typed pegaDiag_LedBOff"
  "well_typed pegaDiag_AlsIdGet"
  "well_typed pegaDiag_AlsDayModeSet"
  "well_typed pegaDiag_AlsNightModeSet"
  "well_typed pegaDiag_AlsValueGet"
  "well_typed pegaDiag_AlsCalidata"
  "well_typed pegaDiag_AlsOn"
  "well_typed pegaDiag_AlsOff"
  "well_typed pegaDiag_AlsCalidata_Get"
  "well_typed pegaDiag_AudioVolumeSet"
  "well_typed pegaDiag_ButtonDetection_Get"
  by (auto simp: well_typed_def well_msg_def zero_msg_def pegaDiag_LedGOn_def pegaDiag_LedGOff_def pegaDiag_LedBOn_def pegaDiag_LedBOff_def pegaDiag_AlsIdGet_def pegaDiag_AlsDayModeSet_def pegaDiag_AlsNightModeSet_def pegaDiag_AlsValueGet_def pegaDiag_AlsCalidata_def pegaDiag_AlsOn_def pegaDiag_AlsOff_def pegaDiag_AlsCalidata_Get_def pegaDiag_AudioVolumeSet_def pegaDiag_ButtonDetection_Get_def
      wifi_script_def wifi_connect_mlan0_def wpa_value_def shell_set_def motor_self_test_def motor_move_def Let_def
      dest!: typed_calls duty_range split: option.splits prod.splits Option.bind_splits if_splits list.splits)

lemma well_typed_2 [simp]:
  "well_typed pegaDiag_AudioInit"
  "well_typed pegaDiag_WifiOn"
  "well_typed pegaDiag_WifiOff"
  "well_typed pegaDiag_WifiMfg"
  "well_typed pegaDiag_WifiConnect"
  "well_typed pegaDiag_WifiStatus"
  "well_typed pegaDiag_WifiRssiGet"
  "well_typed pegaDiag_WifiMacGet"
  "well_typed pegaDiag_WifiInterfaceGet"
  "well_typed pegaDiag_WifiSsidGet"
  "well_typed pegaDiag_WifiPassGet"
  "well_typed pegaDiag_WifiSsidSet"
  "well_typed pegaDiag_WifiPassSet"
  "well_typed pegaDiag_WifiIpAddrGet"
  by (auto simp: well_typed_def well_msg_def zero_msg_def pegaDiag_AudioInit_def pegaDiag_WifiOn_def pegaDiag_WifiOff_def pegaDiag_WifiMfg_def pegaDiag_WifiConnect_def pegaDiag_WifiStatus_def pegaDiag_WifiRssiGet_def pegaDiag_WifiMacGet_def pegaDiag_WifiInterfaceGet_def pegaDiag_WifiSsidGet_def pegaDiag_WifiPassGet_def pegaDiag_WifiSsidSet_def pegaDiag_WifiPassSet_def pegaDiag_WifiIpAddrGet_def
      wifi_script_def wifi_connect_mlan0_def wpa_value_def shell_set_def motor_self_test_def motor_move_def Let_def
      dest!: typed_calls duty_range split: option.splits prod.splits Option.bind_splits if_splits list.splits)

lemma well_typed_3 [simp]:
  "well_typed pegaDiag_WifiIpAddrSet"
  "well_typed pegaDiag_WifiIpMaskGet"
  "well_typed pegaDiag_WifiIpMaskSet"
  "well_typed pegaDiag_BleOn"
  "well_typed pegaDiag_BleOff"
  "well_typed pegaDiag_BleScan"
  "well_typed pegaDiag_EthernetOn"
  "well_typed pegaDiag_AudioRecordFile"
  "well_typed pegaDiag_AudioPlayFile"
  "well_typed pegaDiag_PrintConsole"
  "well_typed pegaDiag_PrintTelnet"
  "well_typed pegaDiag_NFCControl"
  "well_typed pegaDiag_RingLedControl"
  "well_typed pegaDiag_AccControl"
  by (auto simp: well_typed_def well_msg_def zero_msg_def pegaDiag_WifiIpAddrSet_def pegaDiag_WifiIpMaskGet_def pegaDiag_WifiIpMaskSet_def pegaDiag_BleOn_def pegaDiag_BleOff_def pegaDiag_BleScan_def pegaDiag_EthernetOn_def pegaDiag_AudioRecordFile_def pegaDiag_AudioPlayFile_def pegaDiag_PrintConsole_def pegaDiag_PrintTelnet_def pegaDiag_NFCControl_def pegaDiag_RingLedControl_def pegaDiag_AccControl_def
      wifi_script_def wifi_connect_mlan0_def wpa_value_def shell_set_def motor_self_test_def motor_move_def Let_def
      dest!: typed_calls duty_range split: option.splits prod.splits Option.bind_splits if_splits list.splits)

lemma well_typed_4 [simp]:
  "well_typed pegaDiag_rising_motor_test"
  "well_typed pegaDiag_rising_motor_forward"
  "well_typed pegaDiag_rising_motor_reverse"
  "well_typed pegaDiag_pan_motor_forward"
  "well_typed pegaDiag_pan_motor_reverse"
  "well_typed pegaDiag_pan_motor_test"
  "well_typed pegaDiag_streaming_on"
  "well_typed pegaDiag_mfgbridge_test"
  by (auto simp: well_typed_def well_msg_def zero_msg_def pegaDiag_rising_motor_test_def pegaDiag_rising_motor_forward_def pegaDiag_rising_motor_reverse_def pegaDiag_pan_motor_forward_def pegaDiag_pan_motor_reverse_def pegaDiag_pan_motor_test_def pegaDiag_streaming_on_def pegaDiag_mfgbridge_test_def
      wifi_script_def wifi_connect_mlan0_def wpa_value_def shell_set_def motor_self_test_def motor_move_def Let_def
      dest!: typed_calls duty_range split: option.splits prod.splits Option.bind_splits if_splits list.splits)

lemma all_well_typed: "(p, h) \<in> set diag_commands \<Longrightarrow> well_typed h"
  by (auto simp: diag_commands_eval)

subsection \<open>The daemon's switch\<close>

text \<open>What the daemon prints for a command that it has executed.\<close>

definition success_reply :: "misc_io \<Rightarrow> bool" where
  "success_reply e \<longleftrightarrow> (case e of Print x \<Rightarrow> take 7 x = ''#INFO#0'' | Print_value v \<Rightarrow> True | _ \<Rightarrow> False)"

text \<open>
  The two messages of the client that the switch does not serve: the console switch has no case, and
  the case of the stored gain of the light sensor is empty.
\<close>

definition unserved :: "diag_msg \<Rightarrow> bool" where
  "unserved m \<longleftrightarrow> eCmdId m = 16 \<or> eCmdId m = 8 \<and> value1 m = 8"

text \<open>The log has grown, and its newest entry is a success reply.\<close>

definition replied :: "'a gpio_st_scheme \<Rightarrow> 'a gpio_st_scheme \<Rightarrow> bool" where
  "replied s t \<longleftrightarrow> (\<exists>e h. mlog t = e # h @ mlog s \<and> success_reply e)"

lemma success_replies:
  "grows s t \<Longrightarrow> replied s (PT_DIAG_SET 0 t)" "grows s t \<Longrightarrow> replied s (PT_DIAG_GET d t)"
  "grows s t \<Longrightarrow> replied s (emit (Print_value v) t)"
  by (auto simp: replied_def PT_DIAG_SET_def PT_DIAG_GET_def emit_def grows_def suffix_def success_reply_def)

lemma als_replies:
  assumes "als_diag c s = Some t" and "c \<in> {1..7}"
  shows "replied s t"
proof -
  have disable: "grows s (Pega_Misc_ALS_Disable_Control b s)" for b
    by (simp add: Pega_Misc_ALS_Disable_Control_def grows_log)
  have "c = 1 \<or> c = 2 \<or> c = 3 \<or> c = 4 \<or> c = 5 \<or> c = 6 \<or> c = 7" using assms(2) by auto
  then show ?thesis
    using assms(1) by (elim disjE) (auto simp: als_diag_def disable intro!: success_replies
        dest!: grows_als_id grows_nv_diag)
qed

lemma audio_replies:
  assumes "audio_diag c v s = Some t" and "c = 1 \<or> c = 2"
  shows "replied s t"
  using assms by (auto simp: audio_diag_def intro!: success_replies dest!: grows_amp_init grows_volume split: if_splits)

lemma button_replies: "replied s (button_diag 1 s)"
  by (auto simp: button_diag_def split: prod.split intro!: success_replies dest!: grows_read)

lemma wifi_replies: "replied s (Pega_Misc_Diag_wifi_interface_Print s)"
proof -
  have "grows s (PT_DIAG_GET d (Pega_Misc_Update_WiFi_interface s))" for d
    by (simp add: PT_DIAG_GET_def grows_update_wifi)
  then show ?thesis
    by (auto simp: Pega_Misc_Diag_wifi_interface_Print_def Let_def intro!: success_replies)
qed

text \<open>The stored command is the message.\<close>

lemma switch_replies:
  assumes "diag_switch s = Some t" and "well_msg m"
    and "eCmdId (m_stDiagCmd s) = eCmdId m" and "value1 (m_stDiagCmd s) = value1 m"
  shows "if unserved m then mlog t = mlog s else replied s t"
proof -
  have "eCmdId m \<in> {2, 3, 4, 5, 6, 7, 8, 10, 11, 14, 16}" using assms(2) by (simp add: well_msg_def)
  then consider (pins) "eCmdId m \<in> {2, 3, 4, 5, 6, 7}" | (als) "eCmdId m = 8" | (audio) "eCmdId m = 10"
    | (button) "eCmdId m = 11" | (wifi) "eCmdId m = 14" | (console) "eCmdId m = 16" by auto
  then show ?thesis
  proof cases
    case pins
    then show ?thesis
      using assms(1,3) by (auto simp: diag_switch_def unserved_def Let_def grows_ircut grows_lamps
          grows_pwm_config grows_led_diag intro!: success_replies(1))
  next
    case als
    then have "value1 m \<in> {1..7} \<or> value1 m = 8" using assms(2) by (auto simp: well_msg_def)
    then show ?thesis
      using assms(1,3,4) als als_replies [of "value1 m" s t]
      by (auto simp: diag_switch_def unserved_def als_diag_def Let_def)
  next
    case audio
    then have "value1 m = 1 \<or> value1 m = 2" using assms(2) by (auto simp: well_msg_def)
    then show ?thesis
      using assms(1,3,4) audio audio_replies [of "value1 m" _ s t] by (auto simp: diag_switch_def unserved_def Let_def)
  next
    case button
    then show ?thesis
      using assms button_replies [of s] by (auto simp: diag_switch_def unserved_def well_msg_def Let_def)
  next
    case wifi
    then show ?thesis
      using assms wifi_replies [of s] by (auto simp: diag_switch_def unserved_def well_msg_def Let_def)
  next
    case console
    then show ?thesis using assms(1,3) by (auto simp: diag_switch_def unserved_def Let_def)
  qed
qed

lemma every_message_typed:
  assumes "diag_main args s = Some (r, t)" and "typed s"
  shows "typed t"
proof (cases rule: diag_cases [where args = args and s = s])
  case (command p h rest)
  then obtain q u where "h (last p # rest) (s\<lparr>m_stDiagMsg := zero_msg\<rparr>) = Some (q, u)"
    "t = (if q \<noteq> 0 then pegaDiag_PrintHelp m_eDiagMainCommand u else u)"
    using diag_command_run assms(1) by (auto simp: diag_finish_def)
  moreover have "well_typed h" using command(1) by (rule all_well_typed)
  ultimately show ?thesis using assms(2) by (simp add: well_typed_def pegaDiag_PrintHelp_def)
next
  case (prints q u es)
  then have "dlog t = es @ dlog s" using assms(1) by simp
  moreover have "Msg m ok \<notin> set es" for m ok using prints(3) by (auto simp: list_all_iff)
  ultimately show ?thesis using assms(2) by (auto simp: typed_def)
qed (use assms in simp)

text \<open>
  C18: Every message the client sends, whatever its arguments are, has one of eleven commands with values
  in the ranges of that command. A daemon that gets through serving it ends with a success reply, unless
  the message is the console switch or the request for the stored gain of the light sensor: these two it
  leaves without any output.
\<close>

theorem client_messages_typed:
  assumes "diag_main args s = Some (r, t)" and "dlog s = []" and "Msg m ok \<in> set (dlog t)"
  shows "well_msg m \<and> (\<forall>d u. serve m d = Some u \<longrightarrow> (let stored = snd (Pega_diag_commands_processer m d) in
    if unserved m then mlog u = mlog stored else replied stored u))"
proof -
  have m: "well_msg m"
    using every_message_typed [OF assms(1)] assms(2,3) by (auto simp: typed_def)
  moreover have "if unserved m then mlog u = mlog (snd (Pega_diag_commands_processer m d))
      else replied (snd (Pega_diag_commands_processer m d)) u"
    if served: "serve m d = Some u" for d u
  proof -
    let ?s = "snd (Pega_diag_commands_processer m d)"
    obtain v where "diag_switch ?s = Some v" "mlog u = mlog v"
      using served unfolding serve_def Pega_diag_msgq_Cmd_Execution_def
      by (cases "diag_switch ?s") (auto simp: upd_diag_keeps)
    with switch_replies [OF this(1) m stored_message(1,2)] show ?thesis by (auto simp: replied_def split: if_splits)
  qed
  ultimately show ?thesis by (simp add: Let_def)
qed

theorem client_messages_typed_witness:
  "\<exists>t m. diag_main [''led_b'', ''on''] (diag_static diag_board_env) = Some (0, t) \<and> Msg m True \<in> set (dlog t) \<and>
    well_msg m \<and> (\<forall>d u. serve m d = Some u \<longrightarrow>
      replied (snd (Pega_diag_commands_processer m d)) u)"
proof -
  let ?m = "zero_msg\<lparr>eCmdId := 7, value1 := 3, value2 := 1\<rparr>"
  have "([''led_b'', ''on''], pegaDiag_LedBOn) \<in> set diag_commands" by (simp add: diag_commands_eval)
  from diag_command_run [OF this, of "[]" "diag_static diag_board_env"]
  obtain t where t: "diag_main [''led_b'', ''on''] (diag_static diag_board_env) = Some (0, t)"
    "Msg ?m True \<in> set (dlog t)"
    by (auto simp: pegaDiag_LedBOn_def diag_finish_def request_def DIAG_SET_def Pega_diag_msgq_send_request_def
        log_io_def diag_static_def diag_board_env_def Let_def)
  from client_messages_typed [OF t(1) _ t(2)] show ?thesis
    using t by (intro exI [of _ t] exI [of _ ?m]) (simp add: diag_static_def unserved_def zero_msg_def Let_def)
qed

subsection \<open>Where the client deviates\<close>

text \<open>\<open>diag irled set\<close> without a value reads a number through the null pointer behind the arguments.\<close>

lemma irled_set_faults: "diag_main [''irled'', ''set''] s = None"
proof -
  have "([''irled'', ''set''], pegaDiag_IrLedPwmValueSet) \<in> set diag_commands"
    by (simp add: diag_commands_eval)
  from diag_command_run [OF this, of "[]" s] show ?thesis
    by (simp add: pegaDiag_IrLedPwmValueSet_def duty_of_def argv_at_def argv_mem_def diag_finish_def Let_def)
qed

text \<open>A line of help of a table, taken as a command.\<close>

lemma help_line_faults: "diag_main [''motor'', ''pan'', ''example:''] s = None"
  using diag.help_faults [of "[''motor'', ''pan'', ''example:'']" "[]"]
  by (simp add: diag_main_search diag_finish_def diag_tables)

text \<open>The volume cannot be set: the name in the table is \<open>volume xx\<close>.\<close>

lemma volume_unreachable:
  "\<exists>t. diag_main [''audio'', ''volume'', x] s = Some (-1, t) \<and> messages t = messages s"
  by (simp add: diag_main_search diag_finish_def diag_tables pegaDiag_PrintHelp_def)

text \<open>\<open>diag als gain\<close> is sent, but its case in the daemon is empty and nobody replies.\<close>

lemma als_gain_without_reply:
  "\<exists>m u. sends [''als'', ''gain''] m \<and> serve m d = Some u \<and>
     mlog u = mlog (snd (Pega_diag_commands_processer m d))"
proof -
  have "sends [''als'', ''gain''] (zero_msg\<lparr>eCmdId := 8, value1 := 8\<rparr>)"
    by (rule sends_request, simp add: diag_commands_eval, simp add: pegaDiag_AlsCalidata_Get_def)
  moreover have "serve (zero_msg\<lparr>eCmdId := 8, value1 := 8\<rparr>) d \<noteq> None \<and>
    mlog (the (serve (zero_msg\<lparr>eCmdId := 8, value1 := 8\<rparr>) d)) =
      mlog (snd (Pega_diag_commands_processer (zero_msg\<lparr>eCmdId := 8, value1 := 8\<rparr>) d))"
    by (simp add: serve_def Pega_diag_msgq_Cmd_Execution_def diag_switch_def stored_message als_diag_def
        upd_diag_keeps Let_def)
  ultimately show ?thesis by (metis option.collapse)
qed

text \<open>A duration that is no number keeps all but its first character.\<close>

lemma play_keeps_the_tail:
  "audio_play_time s = ''10'' \<Longrightarrow> play_duration ''abc'' s = Some ''1bc''"
proof -
  have "atoi ''abc'' = 0" by code_simp
  then show "audio_play_time s = ''10'' \<Longrightarrow> play_duration ''abc'' s = Some ''1bc''"
    by (simp add: play_duration_def sprintf_into_def)
qed

end
