(* ===== verification/Diag_Spare.thy ===== *)
theory Diag_Spare
  imports Diag_Replies Diag_Chain
begin

text \<open>
  The handlers of \<open>pega_diag.c\<close> whose tables are commented out of the main table or of the audio
  table: burn-in, serial numbers, OTA, factory, microphone, and the two spare audio commands. They
  are compiled but no command line runs them (\<open>spare_names_only_print\<close>). What they would do is
  stated below: which replies they give, and what becomes of the burn-in message in the daemon.
\<close>

subsection \<open>Burn-in\<close>

definition burnin_request :: "int \<Rightarrow> diag_st \<Rightarrow> (int \<times> diag_st) option" where
  "burnin_request v s =
     (let s = s\<lparr>m_stDiagMsg := (m_stDiagMsg s)\<lparr>eCmdId := 17, value1 := v\<rparr>\<rparr>
      in Some (0, snd (Pega_diag_msgq_send_request (m_stDiagMsg s) s)))"

definition pegaDiag_BurnInOn :: handler where "pegaDiag_BurnInOn args = burnin_request 1"

definition pegaDiag_BurnInOff :: handler where "pegaDiag_BurnInOff args = burnin_request 0"

definition pegaDiag_BurnInReport :: handler where "pegaDiag_BurnInReport args = burnin_request 2"

definition pegaDiag_BurnInReset :: handler where "pegaDiag_BurnInReset args = burnin_request 3"

definition pegaDiag_BurnInRebootCount :: handler where "pegaDiag_BurnInRebootCount args = burnin_request 4"

subsection \<open>Serial numbers and OTA\<close>

definition sn_get :: "string \<Rightarrow> string \<Rightarrow> diag_st \<Rightarrow> (int \<times> diag_st) option" where
  "sn_get fname key s =
     (case pegaDiag_StringBuffGet (''A=`sku_printenv '' @ key @ ''`;echo -n $A'') 160 (log_io (Trace fname) s)
      of (r, buff, s) \<Rightarrow> Some (r, DIAG_GET 0 buff s))"

definition sn_set :: "string \<Rightarrow> string \<Rightarrow> string \<Rightarrow> string list \<Rightarrow> diag_st \<Rightarrow> (int \<times> diag_st) option" where
  "sn_set fname key err args s = do {
     let s = log_io (Trace fname) s;
     a0 \<leftarrow> argv_at (tl args) 0 s;
     Some (0, case a0 of
         None \<Rightarrow> DIAG_SET (-1) (log_io (Say err) s)
       | Some v \<Rightarrow> DIAG_SET 0 (snd (system_c (snprintf 160 (''sku_setenv '' @ key @ '' '' @ v)) s)))
   }"

definition pegaDiag_SnGet :: handler where
  "pegaDiag_SnGet args = sn_get ''pegaDiag_SnGet'' ''sn''"

definition pegaDiag_SnSet :: handler where
  "pegaDiag_SnSet = sn_set ''pegaDiag_SnSet'' ''sn'' ''[error] SN is empty!''"

definition pegaDiag_FactorySnGet :: handler where
  "pegaDiag_FactorySnGet args = sn_get ''pegaDiag_FactorySnGet'' ''factory_sn''"

definition pegaDiag_FactorySnSet :: handler where
  "pegaDiag_FactorySnSet = sn_set ''pegaDiag_FactorySnSet'' ''factory_sn'' ''[error] Factory SN is empty!''"

text \<open>The command is built, but the call that would run it is commented out.\<close>

definition pegaDiag_OtaTftp :: handler where
  "pegaDiag_OtaTftp args s = do {
     let s = log_io (Trace ''pegaDiag_OtaTftp'') s;
     a0 \<leftarrow> argv_at (tl args) 0 s;
     Some (case a0 of None \<Rightarrow> (-1, DIAG_SET (-1) s) | Some v \<Rightarrow> (0, DIAG_SET 0 s))
   }"

subsection \<open>Factory\<close>

text \<open>
  The message to the media server (its queue is not the daemon's); the fields that are not set are
  those of an uninitialised local variable.
\<close>

record T_MiCommonMsg =
  mi_iType :: int
  mi_command :: int
  mi_ctrl_val :: int
  mi_cmdid :: int
  mi_cali_item :: int
  mi_gain :: int
  mi_shutter :: int
  mi_output_telnet :: int

text \<open>\<open>%s\<close> of a null pointer, as the C library of Linux prints it.\<close>

definition text_of :: "string option \<Rightarrow> string" where
  "text_of a = (case a of None \<Rightarrow> ''(null)'' | Some t \<Rightarrow> t)"

definition number_at :: "string list \<Rightarrow> nat \<Rightarrow> diag_st \<Rightarrow> int option" where
  "number_at argv i s = Option.bind (argv_at argv i s) (map_option atoi)"

definition factory_cali :: "string \<Rightarrow> string \<Rightarrow> diag_io list \<Rightarrow> int \<Rightarrow> string list \<Rightarrow> diag_st \<Rightarrow>
    (int \<times> diag_st \<times> T_MiCommonMsg option) option" where
  "factory_cali fname word es cmdid args s = do {
     a4 \<leftarrow> (if length args = 4 then Some None else argv_at args 4 s);
     if a4 = None
     then do {
       x \<leftarrow> argv_at args 1 s;
       y \<leftarrow> argv_at args 2 s;
       z \<leftarrow> argv_at args 3 s;
       line \<leftarrow> sprintf_into 64 (''sh /etc/pega/diag/tty_path.sh '' @ word @ '' '' @ text_of x @ '' '' @
         text_of y @ '' '' @ text_of z);
       Some (0, log_io (Say ''Get pts'') (snd (system_c line s)), None)
     }
     else do {
       let argv = tl args;
       let s = log_io (Trace fname) s;
       item \<leftarrow> number_at argv 0 s;
       gain \<leftarrow> number_at argv 1 s;
       exposure \<leftarrow> number_at argv 2 s;
       telnet \<leftarrow> number_at argv 3 s;
       if 1024 \<le> gain \<and> gain \<le> 131072 \<and> 1 \<le> exposure \<and> exposure \<le> 1000000
       then (let s = fold log_io es s; r = (if msgq_ok (denv s) (dlog s) then 0 else -1) in
         Some (r, log_io (Say ''Get pts'') (DIAG_SET r s), Some \<lparr>mi_iType = 14, mi_command = 22, mi_ctrl_val = 101,
           mi_cmdid = cmdid, mi_cali_item = item, mi_gain = gain, mi_shutter = exposure, mi_output_telnet = telnet\<rparr>))
       else Some (-1, log_io (Say ''Get pts'') (DIAG_SET (-1)
         ((if 1 \<le> exposure \<and> exposure \<le> 1000000 then id
           else log_io (Say ''exp input out of range, should be 1 ~ 1000000''))
         ((if 1024 \<le> gain \<and> gain \<le> 131072 then id
           else log_io (Say ''gain input out of range, should be 1024 ~ 131072'')) s))), None)
     }
   }"

definition pegaDiag_FactoryCaliRaw :: "string list \<Rightarrow> diag_st \<Rightarrow> (int \<times> diag_st \<times> T_MiCommonMsg option) option" where
  "pegaDiag_FactoryCaliRaw =
     factory_cali ''pegaDiag_FactoryCaliRaw'' ''cali'' [Say ''pegaDiag_FactoryCaliRaw''] 0"

definition pegaDiag_FactoryCaliIsp :: "string list \<Rightarrow> diag_st \<Rightarrow> (int \<times> diag_st \<times> T_MiCommonMsg option) option" where
  "pegaDiag_FactoryCaliIsp = factory_cali ''pegaDiag_FactoryCaliIsp'' ''isp'' [] 1"

text \<open>The item is cut to a byte before it is compared.\<close>

definition cali_manufacture :: "string \<Rightarrow> string \<Rightarrow> string list \<Rightarrow> diag_st \<Rightarrow> (int \<times> diag_st) option" where
  "cali_manufacture fname script args s = do {
     let s = log_io (Trace fname) s;
     n \<leftarrow> number_at (tl args) 0 s;
     let cali_item = (word_of_int n :: u8);
     Some (if length (tl args) = 1 \<and> cali_item \<le> 2
       then (0, snd (system_c (''sh /etc/pega/diag/'' @ script @ '' '' @ show_int (uint cali_item)) s))
       else (-1, DIAG_SET (-1) s))
   }"

definition pegaDiag_FactoryCaliManufactureRead :: handler where
  "pegaDiag_FactoryCaliManufactureRead = cali_manufacture ''pegaDiag_FactoryCaliManufactureRead'' ''cali_read.sh''"

definition pegaDiag_FactoryCaliManufactureWrite :: handler where
  "pegaDiag_FactoryCaliManufactureWrite = cali_manufacture ''pegaDiag_FactoryCaliManufactureWrite'' ''cali_write.sh''"

definition reply_of_system :: "string \<Rightarrow> string \<Rightarrow> diag_st \<Rightarrow> (int \<times> diag_st) option" where
  "reply_of_system fname line s = (case system_c line (log_io (Trace fname) s) of (r, s) \<Rightarrow> Some (r, DIAG_SET r s))"

text \<open>Play and record at once: the seconds are a byte, at most 60, and 10 when they are 0.\<close>

definition pegaDiag_Factory2wayOn :: handler where
  "pegaDiag_Factory2wayOn args s = do {
     let argv = tl args;
     let s = log_io (Trace ''pegaDiag_Factory2wayOn'') s;
     let sec = (if length argv > 1 then min 60 (uint (word_of_int (atoi (argv ! 1)) :: u8)) else 0);
     let (int2WaySec, intRecordSec) = (if sec > 0 then (sec, sec + 5) else (10, 15));
     a0 \<leftarrow> argv_at argv 0 s;
     f \<leftarrow> a0;
     (r, s) \<leftarrow> run_audio f (''prog_audio_all_test_case -I -v 16 -w 16000 -d 1 -c 1 -t '' @ show_int intRecordSec @
       '' -s 16000 -o /tmp -O -D 1 -V 6 -t '' @ show_int int2WaySec @ '' -i '' @ f @ '' &'') s;
     Some (r, DIAG_SET r s)
   }"

definition pegaDiag_Factory2wayOff :: handler where
  "pegaDiag_Factory2wayOff args = reply_of_system ''pegaDiag_Factory2wayOff'' ''sh /etc/pega/diag/audio_stop.sh''"

text \<open>
  The mode is read with \<open>fread\<close> of 50 bytes into an array of 32 without a NUL: \<open>content\<close> is what the
  file holds, and a file that does not open is a null pointer for \<open>fread\<close>.
\<close>

definition pegaDiag_FactoryUBootVersionGet :: "string option \<Rightarrow> handler" where
  "pegaDiag_FactoryUBootVersionGet content args s = do {
     c \<leftarrow> content;
     let bs = take 50 c;
     if length bs > 32 \<or> (length bs = 32 \<and> CHR 0x00 \<notin> set bs) then None
     else do {
       v \<leftarrow> sprintf_into 64 (''uboot=1.004-'' @ takeWhile (\<lambda>c. c \<noteq> CHR 0x00) (bs @ stack_text (denv s)));
       Some (0, DIAG_GET 0 v s)
     }
   }"

text \<open>The pauses of half a second behind each command are left out.\<close>

definition pegaDiag_FactoryRset :: handler where
  "pegaDiag_FactoryRset args s = Some (0, DIAG_SET 0 (fold (\<lambda>c s. snd (system_c c s))
     [''rm -f /config/bcmdhd/*'', ''cp -f /sdk/bcmdhd/* /config/bcmdhd/'', ''quectel-at rftest off'', ''sync''] s))"

definition pegaDiag_FactoryMediaserverOn :: handler where
  "pegaDiag_FactoryMediaserverOn args =
     reply_of_system ''pegaDiag_FactoryMediaserverOn'' ''sh /etc/pega/diag/mediaserver_run.sh''"

definition pegaDiag_FactoryMediaserverOff :: handler where
  "pegaDiag_FactoryMediaserverOff args =
     reply_of_system ''pegaDiag_FactoryMediaserverOff'' ''sh /etc/pega/diag/mediaserver_stop.sh''"

subsection \<open>Audio and microphone\<close>

definition pegaDiag_AudioStop :: handler where
  "pegaDiag_AudioStop args = reply_of_system ''pegaDiag_AudioStop'' ''sh /etc/pega/diag/audio_stop.sh''"

text \<open>
  The path and the time come from two files that nobody writes; \<open>fread\<close> replaces the first bytes of
  the static arrays. A file that does not open is a null pointer for \<open>fread\<close>.
\<close>

definition freads :: "nat \<Rightarrow> string option \<Rightarrow> string \<Rightarrow> string option" where
  "freads n content old = map_option (\<lambda>c. takeWhile (\<lambda>c. c \<noteq> CHR 0x00) (take n c @ drop (length (take n c)) old)) content"

definition pegaDiag_AudioReStart :: "string option \<Rightarrow> string option \<Rightarrow> handler" where
  "pegaDiag_AudioReStart path_file time_file args s = do {
     let (r, s) = system_c ''sh /etc/pega/diag/audio_stop.sh'' (log_io (Trace ''pegaDiag_AudioReStart'') s);
     f \<leftarrow> freads 50 path_file (audio_file_path s);
     let s = s\<lparr>audio_file_path := f\<rparr>;
     if f = [] then Some (-1, DIAG_SET (-1) s)
     else do {
       t \<leftarrow> freads 1 time_file (audio_play_time s);
       let s = log_io (Say (''audio_play_time='' @ t)) (s\<lparr>audio_play_time := t\<rparr>);
       if t = [] then Some (-1, DIAG_SET (-1) s)
       else do {
         (e, s) \<leftarrow> pegaDiag_AudioFileExist f s;
         (r, s) \<leftarrow> (if e = 1
           then map_option (\<lambda>line. system_c line s) (sprintf_into 256
             (''prog_audio_all_test_case -O -D 1 -V 6 -t '' @ t @ '' -i '' @ f @ '' &''))
           else Some (r, s));
         Some (r, DIAG_SET r s)
       }
     }
   }"

definition pegaDiag_MicRecordStart :: handler where
  "pegaDiag_MicRecordStart args s =
     (let argv = tl args; s = log_io (Trace ''pegaDiag_MicRecordStart'') s;
          sec = (if argv = [] then 10 else min 60 (uint (word_of_int (atoi (hd argv)) :: u16)))
      in Some (system_c (''prog_audio_audio -t '' @ show_int sec @ '' -f /config/audio/16k_16bit_mono_ai.json &'') s))"

definition pegaDiag_MicRecordStop :: handler where
  "pegaDiag_MicRecordStop args = reply_of_system ''pegaDiag_MicRecordStop'' ''sh /etc/pega/diag/audio_stop.sh''"

definition pegaDiag_MicVolumeGet :: handler where
  "pegaDiag_MicVolumeGet args s =
     (let v = mic_record_volume s; r = (if v = 0 then -1 else 0)
      in Some (r, DIAG_SET r (log_io (Say (''MicVolume ='' @ show_int v)) (log_io (Trace ''pegaDiag_MicVolumeGet'') s))))"

definition pegaDiag_MicVolumeSet :: handler where
  "pegaDiag_MicVolumeSet args s = do {
     vol \<leftarrow> number_at (tl args) 0 s;
     if vol < -48 \<or> vol > 42 then Some (-1, DIAG_SET (-1) s)
     else Some (0, DIAG_SET 0 (log_io (Say (''pegaDiag_MicVolumeSet (vol='' @ show_int vol @ '')''))
       (s\<lparr>mic_record_volume := vol\<rparr>)))
   }"

subsection \<open>Replies\<close>

lemma spare_simps [simp]:
  "replies (s\<lparr>mic_record_volume := v\<rparr>) = replies s" "messages (s\<lparr>mic_record_volume := v\<rparr>) = messages s"
  by (simp_all add: replies_def messages_def)

lemmas spare_defs = burnin_request_def sn_get_def sn_set_def number_at_def cali_manufacture_def
  reply_of_system_def Let_def

lemma modest_spare_0 [simp]:
  "modest pegaDiag_BurnInOn"
  "modest pegaDiag_BurnInOff"
  "modest pegaDiag_BurnInReport"
  "modest pegaDiag_BurnInReset"
  "modest pegaDiag_BurnInRebootCount"
  "modest pegaDiag_SnGet"
  by (auto simp: modest_def spare_defs pegaDiag_BurnInOn_def pegaDiag_BurnInOff_def pegaDiag_BurnInReport_def pegaDiag_BurnInReset_def pegaDiag_BurnInRebootCount_def pegaDiag_SnGet_def
      dest!: silent_calls split: option.splits prod.splits Option.bind_splits if_splits list.splits)

lemma modest_spare_1 [simp]:
  "modest pegaDiag_SnSet"
  "modest pegaDiag_FactorySnGet"
  "modest pegaDiag_FactorySnSet"
  "modest pegaDiag_OtaTftp"
  "modest pegaDiag_FactoryCaliManufactureRead"
  "modest pegaDiag_FactoryCaliManufactureWrite"
  by (auto simp: modest_def spare_defs pegaDiag_SnSet_def pegaDiag_FactorySnGet_def pegaDiag_FactorySnSet_def pegaDiag_OtaTftp_def pegaDiag_FactoryCaliManufactureRead_def pegaDiag_FactoryCaliManufactureWrite_def
      dest!: silent_calls split: option.splits prod.splits Option.bind_splits if_splits list.splits)

lemma modest_spare_2 [simp]:
  "modest pegaDiag_Factory2wayOn"
  "modest pegaDiag_Factory2wayOff"
  "modest pegaDiag_FactoryRset"
  "modest pegaDiag_FactoryMediaserverOn"
  "modest pegaDiag_FactoryMediaserverOff"
  "modest pegaDiag_AudioStop"
  by (auto simp: modest_def spare_defs pegaDiag_Factory2wayOn_def pegaDiag_Factory2wayOff_def pegaDiag_FactoryRset_def pegaDiag_FactoryMediaserverOn_def pegaDiag_FactoryMediaserverOff_def pegaDiag_AudioStop_def
      dest!: silent_calls split: option.splits prod.splits Option.bind_splits if_splits list.splits)

lemma modest_spare_3 [simp]:
  "modest pegaDiag_MicRecordStart"
  "modest pegaDiag_MicRecordStop"
  "modest pegaDiag_MicVolumeGet"
  "modest pegaDiag_MicVolumeSet"
  by (auto simp: modest_def spare_defs pegaDiag_MicRecordStart_def pegaDiag_MicRecordStop_def pegaDiag_MicVolumeGet_def pegaDiag_MicVolumeSet_def
      dest!: silent_calls split: option.splits prod.splits Option.bind_splits if_splits list.splits)

text \<open>
  An OTA with an address replies success while nothing is run.
\<close>

lemma ota_runs_nothing:
  "argv_at (tl args) 0 s = Some (Some v) \<Longrightarrow>
   \<exists>t. pegaDiag_OtaTftp args s = Some (0, t) \<and>
     dlog t = [Reply ''#INFO#0#END#'', Trace ''pegaDiag_OtaTftp''] @ dlog s"
  by (simp add: pegaDiag_OtaTftp_def DIAG_SET_def log_io_def argv_at_def)

text \<open>The comparison of the item does not see its high bits: 256 is item 0.\<close>

lemma cali_item_wraps:
  assumes "length args = 2" and "atoi (args ! 1) = 256"
  shows "map_option fst (cali_manufacture f sc args s) = Some 0"
proof -
  from assms(1) obtain a b where "args = [a, b]" by (auto simp: length_Suc_conv numeral_2_eq_2)
  with assms(2) show ?thesis
    by (simp add: cali_manufacture_def number_at_def argv_at_def argv_mem_def Let_def)
qed

subsection \<open>The burn-in message\<close>

text \<open>Number 17 has no case in the daemon's switch: the command is taken, running it does nothing, and
  neither side replies.\<close>

lemma burnin_unanswered:
  assumes "burnin_request v s = Some (r, t)"
  shows "eCmdId (m_stDiagMsg t) = 17 \<and> replies t = replies s \<and>
    (\<exists>u. serve (m_stDiagMsg t) d = Some u \<and>
      mlog u = mlog (snd (Pega_diag_commands_processer (m_stDiagMsg t) d)))"
proof -
  have id: "eCmdId (m_stDiagMsg t) = 17" and "replies t = replies s"
    using assms by (auto simp: burnin_request_def Pega_diag_msgq_send_request_def Let_def log_io_def replies_def)
  moreover have "diag_switch e = Some e" if "eCmdId (m_stDiagCmd e) = 17" for e
    using that by (simp add: diag_switch_def Let_def)
  ultimately show ?thesis
    by (simp add: serve_def Pega_diag_msgq_Cmd_Execution_def stored_message(1) upd_diag_keeps(1))
qed

subsection \<open>Names that are not in the tables\<close>

lemma spare_names_only_print:
  assumes "n \<in> {''burnin'', ''sn'', ''mic'', ''ota'', ''factory''}"
  shows "\<exists>r t es. diag_main (n # rest) s = Some (r, t) \<and> dlog t = es @ dlog s \<and> list_all is_text es"
  by (rule diag_prints) (use assms in \<open>auto simp: diag_commands_eval [unfolded diag_commands_def] diag_tables\<close>)

end
