(* ===== verification/Uart_Tool.thy ===== *)
theory Uart_Tool
  imports C_Text "HOL-Library.Sublist" "HOL-Library.Monad_Syntax"
begin

text \<open>
  The serial port tool \<open>pega_uart\<close> (\<open>pega_uart.c\<close>, \<open>main.c\<close>): it sends a text, collects what
  arrives into a buffer of 128 bytes and stops at a pattern or after a number of rounds.
\<close>

subsection \<open>State\<close>

text \<open>
  The log, newest first: the settings of the port, what was sent, read and slept, the text shown.
  The environment answers from it: the descriptor, whether SIGIO came since the last look, what a
  read gives (\<open>None\<close>: -1), whether a write succeeds. \<open>after_buffer\<close> are the bytes behind the
  receive buffer up to the first NUL.
\<close>

datatype uart_io = Set_port int bool | Sent string | Read_port | Pause nat | Rest int | Shown string | Close_port

record uart_env =
  port_fd :: int
  sigio :: "uart_io list \<Rightarrow> bool"
  port_read :: "uart_io list \<Rightarrow> string option"
  port_write_ok :: "uart_io list \<Rightarrow> bool"
  after_buffer :: string

abbreviation UART_BUFFER_MAX_LEN :: nat where "UART_BUFFER_MAX_LEN \<equiv> 128"

record uart_st =
  uenv :: uart_env
  ulog :: "uart_io list"
  m_intUartFilesSream :: int
  m_intLength :: int
  m_intCount :: int
  m_u8ReceiveDataBuffer :: string
  m_intReceiveDataLength :: nat
  m_bDataReceive :: bool

definition uart_log :: "uart_io \<Rightarrow> uart_st \<Rightarrow> uart_st" where
  "uart_log e s = s\<lparr>ulog := e # ulog s\<rparr>"

definition uart_static :: "uart_env \<Rightarrow> uart_st" where
  "uart_static env = \<lparr>uenv = env, ulog = [], m_intUartFilesSream = 0, m_intLength = 0, m_intCount = 0,
     m_u8ReceiveDataBuffer = replicate UART_BUFFER_MAX_LEN (CHR 0x00), m_intReceiveDataLength = 0,
     m_bDataReceive = False\<rparr>"

subsection \<open>Port\<close>

definition Uart_DeviceOpen :: "uart_st \<Rightarrow> bool \<times> uart_st" where
  "Uart_DeviceOpen s = (0 \<le> port_fd (uenv s), s\<lparr>m_intUartFilesSream := port_fd (uenv s)\<rparr>)"

definition Uart_DeviceClose :: "uart_st \<Rightarrow> uart_st" where
  "Uart_DeviceClose = uart_log Close_port"

definition baud_of :: "int \<Rightarrow> int" where
  "baud_of r = (if r \<in> {9600, 19200, 38400, 57600, 230400, 460800, 921600, 1000000, 2000000, 3000000}
     then r else 115200)"

definition Uart_InitialParameter :: "int \<Rightarrow> bool \<Rightarrow> uart_st \<Rightarrow> uart_st" where
  "Uart_InitialParameter rate rtscts = uart_log (Set_port (baud_of rate) rtscts)"

definition UART_SendBuffer :: "string \<Rightarrow> uart_st \<Rightarrow> int \<times> uart_st" where
  "UART_SendBuffer str s =
     (if m_intUartFilesSream s \<noteq> -1
      then (if port_write_ok (uenv s) (ulog s) then 0 else 1, uart_log (Sent str) s)
      else (0, s))"

text \<open>A read gives at most the length asked for.\<close>

definition UART_ReceiveBuffer :: "nat \<Rightarrow> uart_st \<Rightarrow> int \<times> string \<times> uart_st" where
  "UART_ReceiveBuffer len s =
     (if m_intUartFilesSream s \<noteq> -1
      then (case port_read (uenv s) (ulog s) of
          None \<Rightarrow> (-1, [], uart_log Read_port s)
        | Some bs \<Rightarrow> (int (length (take len bs)), take len bs, uart_log Read_port s))
      else (-2, [], s))"

text \<open>The copy of the bytes behind those already received: writing past the buffer is a fault.\<close>

definition UART_ReceiveHandler :: "uart_st \<Rightarrow> uart_st option" where
  "UART_ReceiveHandler s =
     (if m_bDataReceive s
      then (case UART_ReceiveBuffer UART_BUFFER_MAX_LEN (s\<lparr>m_bDataReceive := False\<rparr>) of (n, bs, s) \<Rightarrow>
        let s = s\<lparr>m_intLength := n\<rparr>; k = m_intReceiveDataLength s in
        if n \<le> 0 then Some s
        else if k + length bs > UART_BUFFER_MAX_LEN then None
        else Some (s\<lparr>m_u8ReceiveDataBuffer := take k (m_u8ReceiveDataBuffer s) @ bs @
                     drop (k + length bs) (m_u8ReceiveDataBuffer s),
                   m_intReceiveDataLength := k + length bs\<rparr>))
      else Some s)"

definition signal_handler_IO :: "uart_st \<Rightarrow> uart_st" where
  "signal_handler_IO s = s\<lparr>m_bDataReceive := True, m_intCount := m_intCount s + 1\<rparr>"

text \<open>\<open>strstr\<close>: the first position of a pattern in a string.\<close>

fun strstr :: "string \<Rightarrow> string \<Rightarrow> nat option" where
  "strstr pat [] = (if pat = [] then Some 0 else None)"
| "strstr pat (c # cs) = (if prefix pat (c # cs) then Some 0 else map_option Suc (strstr pat cs))"

definition uart_text :: "uart_st \<Rightarrow> string" where
  "uart_text s = takeWhile (\<lambda>c. c \<noteq> CHR 0x00) (m_u8ReceiveDataBuffer s) @
     (if CHR 0x00 \<in> set (m_u8ReceiveDataBuffer s) then [] else after_buffer (uenv s))"

definition Uart_CheckReceiveDone :: "uart_st \<Rightarrow> bool" where
  "Uart_CheckReceiveDone s = (case strstr ''sa'' (uart_text s) of
     None \<Rightarrow> False | Some p \<Rightarrow> p < m_intReceiveDataLength s)"

text \<open>The rounds of 10 ms. SIGIO, which may come at any time, is seen at the start of a round.\<close>

fun uart_wait :: "nat \<Rightarrow> uart_st \<Rightarrow> uart_st option" where
  "uart_wait 0 s = Some s"
| "uart_wait (Suc n) s =
     (case UART_ReceiveHandler (if sigio (uenv s) (ulog s) then signal_handler_IO s else s) of
        None \<Rightarrow> None
      | Some s \<Rightarrow> if Uart_CheckReceiveDone s then Some s
                  else uart_wait n (uart_log (Pause 10000) s))"

definition Uart_WaitAndSaveDataToBuffer :: "int \<Rightarrow> uart_st \<Rightarrow> uart_st option" where
  "Uart_WaitAndSaveDataToBuffer ms s = map_option
     (\<lambda>s. if m_intLength s > 0 then uart_log (Shown (uart_text s)) s else s)
     (uart_wait (nat (ms div 10)) s)"

subsection \<open>Program\<close>

definition arg_or :: "string list \<Rightarrow> string list \<Rightarrow> nat \<Rightarrow> 'a \<Rightarrow> (string \<Rightarrow> 'a) \<Rightarrow> 'a option" where
  "arg_or args envp i d f = map_option (\<lambda>a. case a of None \<Rightarrow> d | Some str \<Rightarrow> f str) (argv_mem args envp i)"

definition uart_main :: "string list \<Rightarrow> string list \<Rightarrow> uart_st \<Rightarrow> uart_st option" where
  "uart_main args envp s =
     (case Uart_DeviceOpen s of (ok, s) \<Rightarrow>
      if \<not> ok then Some s
      else do {
        rate \<leftarrow> arg_or args envp 3 115200 atoi;
        rtscts \<leftarrow> arg_or args envp 4 0 atoi;
        let s = Uart_InitialParameter rate (rtscts > 0) s;
        txt \<leftarrow> arg_or args envp 1 ''test'' (\<lambda>str. str);
        let s = snd (UART_SendBuffer txt s);
        timeout \<leftarrow> arg_or args envp 2 5 atoi;
        s \<leftarrow> Uart_WaitAndSaveDataToBuffer (s32 (timeout * 1000)) s;
        Some (Uart_DeviceClose (uart_log (Rest (timeout mod 2 ^ 32)) s))
      })"

subsection \<open>What arrives\<close>

lemma strstr_found: "strstr pat str = Some p \<Longrightarrow> \<exists>a b. str = a @ pat @ b \<and> length a = p"
proof (induction str arbitrary: p)
  case (Cons c cs)
  show ?case
  proof (cases "prefix pat (c # cs)")
    case True
    then show ?thesis using Cons.prems by (auto simp: prefix_def)
  next
    case False
    then obtain q where "strstr pat cs = Some q" "p = Suc q" using Cons.prems by auto
    with Cons.IH obtain a b where "cs = a @ pat @ b" "length a = q" by blast
    then show ?thesis using \<open>p = Suc q\<close> by (intro exI [of _ "c # a"] exI [of _ b]) simp
  qed
qed (auto split: if_splits)

lemma strstr_exists: "strstr pat (a @ pat @ b) \<noteq> None"
proof (induction a)
  case Nil
  then show ?case using prefixI [of "pat @ b" pat b] by (cases "pat @ b") auto
qed simp

text \<open>The bytes received so far; the rest of the buffer is still zero.\<close>

definition received :: "uart_st \<Rightarrow> string" where
  "received s = take (m_intReceiveDataLength s) (m_u8ReceiveDataBuffer s)"

definition clean :: "uart_st \<Rightarrow> bool" where
  "clean s \<longleftrightarrow> (\<exists>k. m_u8ReceiveDataBuffer s = received s @ replicate k (CHR 0x00) \<and>
     length (received s) + k = UART_BUFFER_MAX_LEN \<and> length (received s) = m_intReceiveDataLength s) \<and>
     CHR 0x00 \<notin> set (received s)"

lemma clean_done:
  assumes "clean s" and "m_intReceiveDataLength s < UART_BUFFER_MAX_LEN"
  shows "Uart_CheckReceiveDone s \<longleftrightarrow> strstr ''sa'' (received s) \<noteq> None"
proof -
  obtain k where k: "m_u8ReceiveDataBuffer s = received s @ replicate k (CHR 0x00)"
    "length (received s) + k = UART_BUFFER_MAX_LEN" "length (received s) = m_intReceiveDataLength s"
    and zero: "CHR 0x00 \<notin> set (received s)"
    using assms(1) by (auto simp: clean_def)
  then have "0 < k" using assms(2) by simp
  then have shown: "uart_text s = received s"
    unfolding uart_text_def k(1) using zero by (subst takeWhile_append2) (auto simp: takeWhile_replicate)
  have "p < m_intReceiveDataLength s" if "strstr ''sa'' (received s) = Some p" for p
    using strstr_found [OF that] k(3) by auto
  then show ?thesis by (auto simp: Uart_CheckReceiveDone_def shown split: option.splits)
qed

lemma clean_append:
  assumes "clean s" and "m_intReceiveDataLength s + length bs \<le> UART_BUFFER_MAX_LEN"
    and "CHR 0x00 \<notin> set bs"
    and "t = s\<lparr>m_u8ReceiveDataBuffer := take (m_intReceiveDataLength s) (m_u8ReceiveDataBuffer s) @ bs @
      drop (m_intReceiveDataLength s + length bs) (m_u8ReceiveDataBuffer s),
      m_intReceiveDataLength := m_intReceiveDataLength s + length bs\<rparr>"
  shows "clean t" and "received t = received s @ bs"
proof -
  obtain k where k: "m_u8ReceiveDataBuffer s = received s @ replicate k (CHR 0x00)"
    "length (received s) + k = UART_BUFFER_MAX_LEN" "length (received s) = m_intReceiveDataLength s"
    and zero: "CHR 0x00 \<notin> set (received s)"
    using assms(1) by (auto simp: clean_def)
  have b: "m_u8ReceiveDataBuffer t = received s @ bs @ replicate (k - length bs) (CHR 0x00)"
    unfolding assms(4) by (simp add: k(1) k(3) [symmetric])
  have len: "m_intReceiveDataLength t = length (received s) + length bs"
    unfolding assms(4) by (simp add: k(3))
  show r: "received t = received s @ bs"
    unfolding received_def [of t] b len by simp
  have "CHR 0x00 \<notin> set (received s @ bs)" using zero assms(3) by simp
  moreover have "length (received s @ bs) + (k - length bs) = UART_BUFFER_MAX_LEN"
    using k(2,3) assms(2) by simp
  ultimately show "clean t"
    unfolding clean_def r b len by (intro conjI exI [of _ "k - length bs"]) simp_all
qed

text \<open>A port on which the chunks \<open>cs\<close> arrive, one before each round, and nothing after them.\<close>

definition reads_of :: "uart_io list \<Rightarrow> nat" where
  "reads_of h = length (filter (\<lambda>e. e = Read_port) h)"

definition pauses_of :: "uart_io list \<Rightarrow> nat" where
  "pauses_of h = length (filter (\<lambda>e. e = Pause 10000) h)"

definition arrives :: "string list \<Rightarrow> uart_st \<Rightarrow> bool" where
  "arrives cs s \<longleftrightarrow> (\<forall>h. sigio (uenv s) h) \<and> (\<forall>h. reads_of (ulog s) \<le> reads_of h \<longrightarrow>
     port_read (uenv s) h = Some (if reads_of h < reads_of (ulog s) + length cs
       then cs ! (reads_of h - reads_of (ulog s)) else []))"

lemma receive_round:
  assumes "arrives (c # cs) s" and "clean s" and "m_intUartFilesSream s \<noteq> -1"
    and "m_intReceiveDataLength s + length c \<le> UART_BUFFER_MAX_LEN" and "CHR 0x00 \<notin> set c"
  shows "\<exists>t. UART_ReceiveHandler (signal_handler_IO s) = Some t \<and> clean t \<and>
    received t = received s @ c \<and> m_intReceiveDataLength t = m_intReceiveDataLength s + length c \<and>
    m_intUartFilesSream t = m_intUartFilesSream s \<and> uenv t = uenv s \<and> ulog t = Read_port # ulog s"
proof -
  define u where "u = s\<lparr>m_bDataReceive := False, m_intCount := m_intCount s + 1,
    ulog := Read_port # ulog s, m_intLength := int (length c)\<rparr>"
  have c: "port_read (uenv s) (ulog s) = Some c" using assms(1) by (simp add: arrives_def)
  have u: "clean u" "received u = received s" "m_intReceiveDataLength u = m_intReceiveDataLength s"
    using assms(2) by (auto simp: u_def clean_def received_def)
  have "UART_ReceiveHandler (signal_handler_IO s) = (if c = [] then Some u
      else Some (u\<lparr>m_u8ReceiveDataBuffer := take (m_intReceiveDataLength u) (m_u8ReceiveDataBuffer u) @ c @
        drop (m_intReceiveDataLength u + length c) (m_u8ReceiveDataBuffer u),
        m_intReceiveDataLength := m_intReceiveDataLength u + length c\<rparr>))"
    using c assms(3,4) by (simp add: UART_ReceiveHandler_def UART_ReceiveBuffer_def signal_handler_IO_def
        uart_log_def u_def Let_def)
  then show ?thesis
    using u clean_append [OF u(1) _ assms(5) refl] assms(4) by (cases "c = []") (simp_all add: u_def)
qed

lemma arrives_next:
  "arrives (c # cs) s \<Longrightarrow> ulog t = Read_port # ulog s \<Longrightarrow> uenv t = uenv s \<Longrightarrow> arrives cs t"
  unfolding arrives_def by (auto simp: reads_of_def Suc_diff_Suc nth_Cons' Suc_le_eq)

lemma arrives_pause: "arrives cs (uart_log (Pause n) t) = arrives cs t"
  by (simp add: arrives_def uart_log_def reads_of_def)

lemma clean_pause: "clean (uart_log e t) = clean t" "received (uart_log e t) = received t"
  "m_intReceiveDataLength (uart_log e t) = m_intReceiveDataLength t"
  "m_intUartFilesSream (uart_log e t) = m_intUartFilesSream t"
  by (simp_all add: uart_log_def clean_def received_def)

text \<open>
  What \<open>uart_wait\<close> has done after the rounds for the chunks \<open>cs\<close>: \<open>r\<close> and \<open>p\<close> are the bytes received
  and the pauses before them, \<open>r'\<close> and \<open>p'\<close> those after \<open>k\<close> rounds.
\<close>

definition collected :: "string \<Rightarrow> nat \<Rightarrow> string list \<Rightarrow> nat \<Rightarrow> string \<Rightarrow> nat \<Rightarrow> bool" where
  "collected r p cs k r' p' \<longleftrightarrow> k \<le> length cs \<and> r' = r @ concat (take k cs) \<and>
     (\<forall>j. 0 < j \<and> j < k \<longrightarrow> strstr ''sa'' (r @ concat (take j cs)) = None) \<and>
     (if 0 < k \<and> strstr ''sa'' r' \<noteq> None then p' = p + (k - 1) else k = length cs \<and> p' = p + k)"

lemma collected_more:
  assumes "strstr ''sa'' (r @ c) = None" and "collected (r @ c) (Suc p) cs k r' p'"
  shows "collected r p (c # cs) (Suc k) r' p'"
proof -
  from assms(2) have k: "k \<le> length cs" and r': "r' = (r @ c) @ concat (take k cs)"
    and none: "\<And>j. 0 < j \<Longrightarrow> j < k \<Longrightarrow> strstr ''sa'' ((r @ c) @ concat (take j cs)) = None"
    and p: "if 0 < k \<and> strstr ''sa'' r' \<noteq> None then p' = Suc p + (k - 1) else k = length cs \<and> p' = Suc p + k"
    unfolding collected_def by blast+
  have before: "strstr ''sa'' (r @ concat (take j (c # cs))) = None" if "0 < j" "j < Suc k" for j
    using that assms(1) none by (cases "j = 1") (auto simp: take_Cons' simp flip: append_assoc)
  have "k = 0 \<longrightarrow> strstr ''sa'' r' = None" using assms(1) r' by simp
  then have stop: "if 0 < Suc k \<and> strstr ''sa'' r' \<noteq> None then p' = p + (Suc k - 1)
      else Suc k = length (c # cs) \<and> p' = p + Suc k"
    using p by (auto split: if_split_asm)
  have len: "Suc k \<le> length (c # cs)" using k by simp
  have rcv: "r' = r @ concat (take (Suc k) (c # cs))" unfolding r' by simp
  show ?thesis unfolding collected_def
    by (rule conjI [OF len], rule conjI [OF rcv], rule conjI [OF _ stop]) (use before in blast)
qed

lemma uart_wait_collects:
  assumes "arrives cs s" and "clean s" and "m_intUartFilesSream s \<noteq> -1"
    and "m_intReceiveDataLength s + length (concat cs) < UART_BUFFER_MAX_LEN" and "CHR 0x00 \<notin> set (concat cs)"
  shows "\<exists>t k. uart_wait (length cs) s = Some t \<and>
    collected (received s) (pauses_of (ulog s)) cs k (received t) (pauses_of (ulog t))"
  using assms
proof (induction cs arbitrary: s)
  case Nil
  then show ?case by (simp add: collected_def)
next
  case (Cons c cs)
  from receive_round [OF Cons.prems(1-3)] Cons.prems(4,5)
  obtain u where u: "UART_ReceiveHandler (signal_handler_IO s) = Some u" "clean u"
    "received u = received s @ c" "m_intReceiveDataLength u = m_intReceiveDataLength s + length c"
    "m_intUartFilesSream u = m_intUartFilesSream s" "uenv u = uenv s" "ulog u = Read_port # ulog s"
    by auto
  have fin: "Uart_CheckReceiveDone u \<longleftrightarrow> strstr ''sa'' (received s @ c) \<noteq> None"
    using clean_done [OF u(2)] u(3,4) Cons.prems(4) by simp
  have run: "uart_wait (length (c # cs)) s =
      (if Uart_CheckReceiveDone u then Some u else uart_wait (length cs) (uart_log (Pause 10000) u))"
    using Cons.prems(1) u(1) by (simp add: arrives_def)
  have pu: "pauses_of (ulog u) = pauses_of (ulog s)" by (simp add: u(7) pauses_of_def)
  show ?case
  proof (cases "Uart_CheckReceiveDone u")
    case True
    then show ?thesis
      using run fin u(3) pu by (intro exI [of _ u] exI [of _ 1]) (auto simp: collected_def)
  next
    case False
    let ?v = "uart_log (Pause 10000) u"
    have arr: "arrives cs ?v" unfolding arrives_pause by (rule arrives_next [OF Cons.prems(1) u(7,6)])
    have v: "clean ?v" "m_intUartFilesSream ?v \<noteq> -1"
      "m_intReceiveDataLength ?v + length (concat cs) < UART_BUFFER_MAX_LEN" "CHR 0x00 \<notin> set (concat cs)"
      "received ?v = received s @ c" "pauses_of (ulog ?v) = Suc (pauses_of (ulog s))"
      using u(2-5) pu Cons.prems(3-5) by (simp_all add: clean_pause) (simp add: uart_log_def pauses_of_def)
    from Cons.IH [OF arr v(1-4), unfolded v(5,6)] False fin run collected_more show ?thesis by metis
  qed
qed

text \<open>
  C38: The tool collects what arrives, in order, and stops with the first round after which the
  pattern has arrived, or after the last round: the chunks \<open>cs\<close> (one per round, fewer than 128 bytes
  in all) leave the text of the first \<open>k\<close> of them in the buffer, after \<open>k - 1\<close> pauses of 10 ms when
  the pattern was found and \<open>k\<close> otherwise.
\<close>

theorem uart_collects:
  assumes "arrives cs (uart_static env)" and "length (concat cs) < UART_BUFFER_MAX_LEN"
    and "CHR 0x00 \<notin> set (concat cs)" and "port_fd env = fd" and "0 \<le> fd"
  shows "\<exists>t k. Uart_WaitAndSaveDataToBuffer (10 * int (length cs)) (snd (Uart_DeviceOpen (uart_static env))) = Some t \<and>
    k \<le> length cs \<and> received t = concat (take k cs) \<and>
    (\<forall>j. 0 < j \<and> j < k \<longrightarrow> strstr ''sa'' (concat (take j cs)) = None) \<and>
    (if 0 < k \<and> strstr ''sa'' (received t) \<noteq> None then pauses_of (ulog t) = k - 1
     else k = length cs \<and> pauses_of (ulog t) = k)"
proof -
  let ?s = "snd (Uart_DeviceOpen (uart_static env))"
  have empty: "received ?s = []" by (simp add: received_def Uart_DeviceOpen_def uart_static_def)
  have "arrives cs ?s" using assms(1) by (simp add: arrives_def Uart_DeviceOpen_def)
  moreover have "m_u8ReceiveDataBuffer ?s = replicate 128 (CHR 0x00)" "m_intReceiveDataLength ?s = 0"
    by (simp_all only: Uart_DeviceOpen_def uart_static_def) simp_all
  then have "clean ?s" "m_intReceiveDataLength ?s + length (concat cs) < UART_BUFFER_MAX_LEN"
    using empty assms(2) by (simp_all only: clean_def) auto
  moreover have "m_intUartFilesSream ?s \<noteq> -1" "pauses_of (ulog ?s) = 0"
    using assms(4,5) by (simp_all add: Uart_DeviceOpen_def uart_static_def pauses_of_def)
  ultimately obtain t k where t: "uart_wait (length cs) ?s = Some t"
    "collected [] 0 cs k (received t) (pauses_of (ulog t))"
    using uart_wait_collects [of cs ?s, unfolded empty] assms(3) by metis
  define u where "u = (if m_intLength t > 0 then uart_log (Shown (uart_text t)) t else t)"
  have run: "Uart_WaitAndSaveDataToBuffer (10 * int (length cs)) ?s = Some u"
    using t(1) by (simp add: Uart_WaitAndSaveDataToBuffer_def u_def)
  have rcv: "received u = received t" by (simp add: u_def clean_pause)
  have pu: "pauses_of (ulog u) = pauses_of (ulog t)" by (simp add: u_def uart_log_def pauses_of_def)
  have "collected [] 0 cs k (received u) (pauses_of (ulog u))" using t(2) by (simp only: rcv pu)
  from run this [unfolded collected_def append_Nil add_0] show ?thesis by blast
qed

text \<open>More than 128 bytes are written past the buffer.\<close>

lemma uart_overflow_faults:
  assumes "m_bDataReceive s" and "m_intUartFilesSream s \<noteq> -1" and "port_read (uenv s) (ulog s) = Some bs"
    and "bs \<noteq> []" and "length bs \<le> UART_BUFFER_MAX_LEN" and "UART_BUFFER_MAX_LEN < m_intReceiveDataLength s + length bs"
  shows "UART_ReceiveHandler s = None"
  using assms by (auto simp: UART_ReceiveHandler_def UART_ReceiveBuffer_def uart_log_def Let_def)

text \<open>A port that answers in three pieces.\<close>

definition echo_env :: uart_env where
  "echo_env = \<lparr>port_fd = 3, sigio = \<lambda>h. True, port_read = \<lambda>h.
     Some (if reads_of h < 3 then [''te'', ''s'', ''a!''] ! reads_of h else []),
     port_write_ok = \<lambda>h. True, after_buffer = []\<rparr>"

theorem uart_collects_witness:
  "\<exists>t. Uart_WaitAndSaveDataToBuffer 30 (snd (Uart_DeviceOpen (uart_static echo_env))) = Some t \<and>
     received t = ''tesa!'' \<and> pauses_of (ulog t) = 2"
proof -
  have a: "arrives [''te'', ''s'', ''a!''] (uart_static echo_env)"
    by (simp add: arrives_def echo_env_def uart_static_def reads_of_def)
  have fd: "port_fd echo_env = 3" by (simp add: echo_env_def)
  have pre: "length (concat [''te'', ''s'', ''a!'']) < UART_BUFFER_MAX_LEN"
    "CHR 0x00 \<notin> set (concat [''te'', ''s'', ''a!''])" by simp_all
  have len: "length [''te'', ''s'', ''a!''] = 3" "10 * int 3 = 30" by simp_all
  from uart_collects [OF a pre fd, unfolded len] obtain t k where
    t: "Uart_WaitAndSaveDataToBuffer 30 (snd (Uart_DeviceOpen (uart_static echo_env))) = Some t" "k \<le> 3"
    "received t = concat (take k [''te'', ''s'', ''a!''])"
    "if 0 < k \<and> strstr ''sa'' (received t) \<noteq> None then pauses_of (ulog t) = k - 1
     else k = 3 \<and> pauses_of (ulog t) = k"
    by force
  have "k = 0 \<or> k = 1 \<or> k = 2 \<or> k = 3" using t(2) by auto
  then have "k = 3" using t(3,4) by (auto simp: numeral_eq_Suc)
  then show ?thesis using t by (auto simp: numeral_eq_Suc)
qed

end
