(* ===== verification/Nfc_Tool.thy ===== *)
theory Nfc_Tool
  imports C_Text "HOL-Library.Monad_Syntax"
begin

text \<open>
  The register tool of the NFC chip, \<open>pega_nfc/src/main.c\<close>: reads, writes and direct commands on the
  I2C bus, a dump, and the pin of the interrupt.
\<close>

unbundle bit_operations_syntax

subsection \<open>Bus\<close>

text \<open>
  A transfer writes some bytes and may then read some; the whole of it succeeds or fails. The log is
  newest first. The environment answers from it:
  \<open>poll_of\<close> is whether a poll that did not fail saw POLLPRI, \<open>pin_char\<close> the first character read.
\<close>

datatype nfc_io = Bus_write "u8 list" bool | Bus_read u8 "u8 list option" | Pin_file string string
  | Nfc_sleep nat | Nfc_say string | Nfc_value int u8 | Nfc_fail int | Nfc_fifo "u8 list" | Nfc_close
  | Nfc_poll bool | Nfc_irq char

record nfc_env =
  bus_fd :: int
  bus_write_ok :: "nfc_io list \<Rightarrow> u8 list \<Rightarrow> bool"
  bus_read_of :: "nfc_io list \<Rightarrow> u8 \<Rightarrow> nat \<Rightarrow> u8 list option"
  poll_of :: "nfc_io list \<Rightarrow> bool option"
  pin_char :: "nfc_io list \<Rightarrow> char"

record nfc_st =
  nenv :: nfc_env
  nlog :: "nfc_io list"

definition nfc_log :: "nfc_io \<Rightarrow> nfc_st \<Rightarrow> nfc_st" where
  "nfc_log e s = s\<lparr>nlog := e # nlog s\<rparr>"

definition nfc_write :: "u8 list \<Rightarrow> nfc_st \<Rightarrow> int \<times> nfc_st" where
  "nfc_write bs s = (let ok = bus_write_ok (nenv s) (nlog s) bs
     in (if ok then 0 else -1, nfc_log (Bus_write bs ok) s))"

definition nfc_read :: "u8 \<Rightarrow> nat \<Rightarrow> nfc_st \<Rightarrow> int \<times> u8 list \<times> nfc_st" where
  "nfc_read mode n s = (let r = bus_read_of (nenv s) (nlog s) mode n
     in case r of None \<Rightarrow> (-1, [], nfc_log (Bus_read mode None) s)
      | Some bs \<Rightarrow> (0, bs, nfc_log (Bus_read mode (Some bs)) s))"

subsection \<open>Registers\<close>

text \<open>The value of a failed read is what the variable held.\<close>

definition read_nfc_register :: "u8 \<Rightarrow> u8 \<Rightarrow> nfc_st \<Rightarrow> int \<times> u8 \<times> nfc_st" where
  "read_nfc_register reg val s = (case nfc_read (0x40 OR reg) 1 s of
     (r, bs, s) \<Rightarrow> (r, case bs of [] \<Rightarrow> val | b # _ \<Rightarrow> b, s))"

definition write_nfc_register :: "u8 \<Rightarrow> u8 \<Rightarrow> nfc_st \<Rightarrow> int \<times> nfc_st" where
  "write_nfc_register reg data = nfc_write [reg, data]"

definition maskset_nfc_register :: "u8 \<Rightarrow> u8 \<Rightarrow> nfc_st \<Rightarrow> int \<times> nfc_st" where
  "maskset_nfc_register reg flag s = (case read_nfc_register reg 0 s of (r, data, s) \<Rightarrow>
     if r \<noteq> 0 then (-1, s) else nfc_write [reg, data OR flag] s)"

definition NFC_command :: "u8 \<Rightarrow> nfc_st \<Rightarrow> int \<times> nfc_st" where
  "NFC_command command = nfc_write [command]"

text \<open>Both FIFO routines ignore the length they are given and read two bytes.\<close>

definition load_nfc_fifo :: "u8 \<Rightarrow> nfc_st \<Rightarrow> int \<times> u8 list \<times> nfc_st" where
  "load_nfc_fifo len = nfc_read 0x80 2"

definition read_nfc_fifo :: "u8 \<Rightarrow> nfc_st \<Rightarrow> int \<times> u8 list \<times> nfc_st" where
  "read_nfc_fifo len = nfc_read 0x9F 2"

text \<open>The loop of the dump over the \<open>n\<close> registers from \<open>reg\<close> on.\<close>

fun dump_from :: "int \<Rightarrow> nat \<Rightarrow> nfc_st \<Rightarrow> nfc_st" where
  "dump_from reg 0 s = s"
| "dump_from reg (Suc n) s = (case read_nfc_register (word_of_int reg) 0 s of (r, val, s) \<Rightarrow>
     dump_from (reg + 1) n (nfc_log (if r = 0 then Nfc_value reg val else Nfc_fail reg) s))"

definition NFCReg_dump :: "int \<Rightarrow> int \<Rightarrow> nfc_st \<Rightarrow> int \<times> nfc_st" where
  "NFCReg_dump start end s =
     (if start < 0 \<or> end > 0x3F then (-1, nfc_log (Nfc_say ''Invalid Address Range'') s)
      else (0, dump_from start (nat (end - start + 1)) s))"

subsection \<open>Interrupt pin\<close>

text \<open>The results of the calls are not looked at; the writes are those of a kernel with sysfs pins.\<close>

definition nfc_gpio_init :: "nfc_st \<Rightarrow> nfc_st" where
  "nfc_gpio_init s = nfc_log (Pin_file ''/sys/class/gpio/gpio68/edge'' ''rising'')
     (nfc_log (Pin_file ''/sys/class/gpio/gpio68/direction'' ''in'')
     (nfc_log (Pin_file ''/sys/class/gpio/export'' ''68'') s))"

text \<open>The loop ends when \<open>poll\<close> fails; as long as it does not, the program stays in it.\<close>

partial_function (option) polling_irq :: "nfc_st \<Rightarrow> nfc_st option" where
  "polling_irq s = (case poll_of (nenv s) (nlog s) of
     None \<Rightarrow> Some (nfc_log (Nfc_say ''poll failed'') s)
   | Some ev \<Rightarrow> (let s = nfc_log (Nfc_poll ev) s
       in polling_irq (if ev then nfc_log (Nfc_irq (pin_char (nenv s) (nlog s))) s else s)))"

subsection \<open>Program\<close>

definition nfc_init :: "nfc_st \<Rightarrow> nfc_st" where
  "nfc_init s =
     (let s = snd (NFC_command 0xC0 s); s = snd (maskset_nfc_register 0x02 0xC0 s);
          s = snd (maskset_nfc_register 0x03 0x08 s); s = snd (maskset_nfc_register 0x04 0x00 s)
      in snd (write_nfc_register 0x23 0x07 s))"

definition nfc_reqa :: "nfc_st \<Rightarrow> nfc_st" where
  "nfc_reqa s =
     (let s = nfc_log (Nfc_sleep 4000) (snd (NFC_command 0xC2 s));
          s = nfc_log (Nfc_sleep 4000) (snd (NFC_command 0xD5 s));
          s = nfc_log (Nfc_sleep 10000) (snd (NFC_command 0xC8 s))
      in snd (NFC_command 0xC6 s))"

text \<open>
  The commands behind the open bus: the exit status and whether the bus is closed. The numbers are
  \<open>int\<close>s for the dump and bytes otherwise.
\<close>

definition nfc_commands :: "string list \<Rightarrow> nfc_st \<Rightarrow> (int \<times> bool \<times> nfc_st) option" where
  "nfc_commands args s =
     (let argc = length args; c = args ! 1; a = strtol0 (args ! 2); b = strtol0 (args ! 3);
          reg = word_of_int a :: u8; val = word_of_int b :: u8 in
      if argc = 4 \<and> c = ''dump''
      then (case NFCReg_dump (s32 a) (s32 b) s of (r, s) \<Rightarrow> Some (r, False, s))
      else if argc = 2 \<and> c = ''init'' then Some (0, True, nfc_init s)
      else if argc = 2 \<and> c = ''REQA'' then Some (0, True, nfc_reqa s)
      else if argc = 2 \<and> c = ''read_fifo''
      then (case read_nfc_fifo 2 s of (r, bs, s) \<Rightarrow> Some (0, True, nfc_log (Nfc_fifo bs) s))
      else if argc = 3 \<and> c = ''read''
      then (case read_nfc_register reg 0 s of (r, v, s) \<Rightarrow>
        if r = 0 then Some (0, True, nfc_log (Nfc_value (uint reg) v) s) else Some (1, True, s))
      else if argc = 4 \<and> c = ''write''
      then (case write_nfc_register reg val s of (r, s) \<Rightarrow>
        if r = 0
        then (case read_nfc_register reg 0 (nfc_log (Nfc_say ''[Done] Register Write'') s) of
          (r, v, s) \<Rightarrow> Some (0, True, nfc_log (Nfc_value (uint reg) v) s))
        else Some (1, True, s))
      else if argc = 2 \<and> c = ''polling'' then map_option (\<lambda>s. (0, True, s)) (polling_irq s)
      else if argc = 3 \<and> c = ''command'' then Some (0, True, snd (NFC_command reg s))
      else Some (1, True, nfc_log (Nfc_say ''Invalid arguments!'') s))"

definition nfc_main :: "string list \<Rightarrow> nfc_st \<Rightarrow> (int \<times> nfc_st) option" where
  "nfc_main args s =
     (if length args < 2 then Some (1, nfc_log (Nfc_say ''Usage'') s)
      else (let s = nfc_gpio_init s in
        if bus_fd (nenv s) < 0 then Some (1, nfc_log (Nfc_say ''Failed to open I2C bus'') s)
        else map_option (\<lambda>(r, cl, s). (r, if cl then nfc_log Nfc_close s else s)) (nfc_commands args s)))"

subsection \<open>What the tool puts on the bus\<close>

lemma nfc_log_simps [simp]: "nenv (nfc_log e s) = nenv s" "nlog (nfc_log e s) = e # nlog s"
  by (simp_all add: nfc_log_def)

text \<open>The value shown after a read with this answer, and the log of a run of \<open>write\<close> and of \<open>read\<close>.\<close>

definition shown :: "u8 list option \<Rightarrow> u8" where
  "shown x = (case x of Some (b # _) \<Rightarrow> b | _ \<Rightarrow> 0)"

definition write_trace :: "nfc_env \<Rightarrow> u8 \<Rightarrow> u8 \<Rightarrow> nfc_io list \<Rightarrow> int \<times> nfc_io list" where
  "write_trace env r v h =
     (if \<not> bus_write_ok env h [r, v] then (1, Nfc_close # Bus_write [r, v] False # h)
      else (let g = Nfc_say ''[Done] Register Write'' # Bus_write [r, v] True # h;
                x = bus_read_of env g (0x40 + r) 1
            in (0, Nfc_close # Nfc_value (uint r) (shown x) # Bus_read (0x40 + r) x # g)))"

definition read_trace :: "nfc_env \<Rightarrow> u8 \<Rightarrow> nfc_io list \<Rightarrow> int \<times> nfc_io list" where
  "read_trace env r h = (case bus_read_of env h (0x40 + r) 1 of
     None \<Rightarrow> (1, Nfc_close # Bus_read (0x40 + r) None # h)
   | Some bs \<Rightarrow> (0, Nfc_close # Nfc_value (uint r) (shown (Some bs)) # Bus_read (0x40 + r) (Some bs) # h))"

lemma read_mode:
  fixes r :: u8
  assumes "r < 0x40"
  shows "0x40 OR r = 0x40 + r"
proof -
  have all: "\<forall>n \<in> set [0..<64]. 0x40 OR (word_of_nat n :: u8) = 0x40 + word_of_nat n" by code_simp
  have "unat r \<in> set [0..<64]" using assms by (simp add: word_less_nat_alt)
  from bspec [OF all this] show ?thesis by simp
qed

lemma read_register:
  assumes "reg < 0x40"
  shows "read_nfc_register reg v s = (let x = bus_read_of (nenv s) (nlog s) (0x40 + reg) 1
    in (if x = None then -1 else 0, case x of Some (b # _) \<Rightarrow> b | _ \<Rightarrow> v, nfc_log (Bus_read (0x40 + reg) x) s))"
  by (simp add: read_nfc_register_def nfc_read_def read_mode [OF assms] Let_def split: option.split list.split)

lemma state_eq: "s = t \<longleftrightarrow> nenv s = nenv t \<and> nlog s = nlog t" for s t :: nfc_st
  by (cases s; cases t) simp

lemma gpio_env [simp]: "nenv (nfc_gpio_init s) = nenv s"
  by (simp add: nfc_gpio_init_def)

lemma write_run:
  assumes "0 \<le> bus_fd (nenv s)" and "strtol0 reg = int r" and "r < 0x40" and "strtol0 val = int v" and "v < 0x100"
  shows "nfc_main [prog, ''write'', reg, val] s =
    (case write_trace (nenv s) (word_of_nat r) (word_of_nat v) (nlog (nfc_gpio_init s)) of (e, h) \<Rightarrow> Some (e, s\<lparr>nlog := h\<rparr>))"
proof -
  have w: "(word_of_nat r :: u8) < 0x40" using assms(3) by (simp add: word_less_nat_alt unat_of_nat)
  show ?thesis
    using assms(1,2,4) by (simp add: nfc_main_def nfc_commands_def write_nfc_register_def nfc_write_def write_trace_def
        read_register [OF w] shown_def state_eq Let_def)
qed

lemma read_run:
  assumes "0 \<le> bus_fd (nenv s)" and "strtol0 reg = int r" and "r < 0x40"
  shows "nfc_main [prog, ''read'', reg] s =
    (case read_trace (nenv s) (word_of_nat r) (nlog (nfc_gpio_init s)) of (e, h) \<Rightarrow> Some (e, s\<lparr>nlog := h\<rparr>))"
proof -
  have w: "(word_of_nat r :: u8) < 0x40" using assms(3) by (simp add: word_less_nat_alt unat_of_nat)
  show ?thesis
    using assms(1,2) by (simp add: nfc_main_def nfc_commands_def read_trace_def
        read_register [OF w] shown_def state_eq Let_def split: option.split list.split)
qed

subsection \<open>The chip behind the bus\<close>

text \<open>
  What is known of the registers that are plain storage, \<open>rw\<close>, after a log. The direct command 0xC0
  gives them their values after power-on, \<open>d\<close>; a write of two bytes with one of their numbers sets that
  register. After any other direct command or a transfer in another mode, all of which start with a byte
  from 0x40 on, nothing is known. Registers outside \<open>rw\<close> (the identity, interrupts, the state of the
  FIFO) may answer anything at any time.
\<close>

fun chip :: "u8 set \<Rightarrow> (u8 \<Rightarrow> u8) \<Rightarrow> nfc_io list \<Rightarrow> u8 \<Rightarrow> u8 option" where
  "chip rw d [] r = None"
| "chip rw d (e # h) r = (case e of
     Bus_write (a # bs) ok \<Rightarrow>
       if a = 0xC0 \<and> bs = [] \<and> ok \<and> r \<in> rw then Some (d r)
       else if 0x40 \<le> a then None
       else (case bs of [v] \<Rightarrow> if a = r \<and> r \<in> rw then (if ok then Some v else None) else chip rw d h r
         | _ \<Rightarrow> None)
   | _ \<Rightarrow> chip rw d h r)"

definition chip_env :: "u8 set \<Rightarrow> (u8 \<Rightarrow> u8) \<Rightarrow> nfc_env \<Rightarrow> bool" where
  "chip_env rw d env \<longleftrightarrow> (\<forall>r\<in>rw. r < 0x40) \<and> (\<forall>h bs. bus_write_ok env h bs) \<and>
     (\<forall>h r v. chip rw d h r = Some v \<longrightarrow> bus_read_of env h (0x40 + r) 1 = Some [v])"

lemma chip_known: "chip rw d h r = Some v \<Longrightarrow> r \<in> rw"
  by (induction h) (auto split: nfc_io.splits list.splits if_splits)

text \<open>What the operations leave on a chip that answers.\<close>

lemma chip_keeps [simp]: "chip rw d (Nfc_sleep n # h) = chip rw d h" "chip rw d (Nfc_say t # h) = chip rw d h"
  "chip rw d (Nfc_value i v # h) = chip rw d h" "chip rw d (Bus_read m x # h) = chip rw d h"
  "chip rw d (Nfc_close # h) = chip rw d h" "chip rw d (Pin_file p q # h) = chip rw d h"
  by (simp_all add: fun_eq_iff)

lemma chip_write:
  "r \<in> rw \<Longrightarrow> r < 0x40 \<Longrightarrow> chip rw d (Bus_write [r, v] True # h) = (chip rw d h)(r := Some v)"
  by (auto simp: fun_eq_iff not_le [symmetric])

lemma chip_gpio [simp]: "chip rw d (nlog (nfc_gpio_init s)) = chip rw d (nlog s)"
  by (simp add: nfc_gpio_init_def)

lemma read_known:
  assumes "chip_env rw d (nenv s)" and "chip rw d (nlog s) reg = Some x"
  shows "read_nfc_register reg v s = (0, x, nfc_log (Bus_read (0x40 + reg) (Some [x])) s)"
proof -
  have "reg < 0x40" using assms chip_known by (auto simp: chip_env_def)
  then show ?thesis using assms by (simp add: read_register chip_env_def)
qed

lemma write_register:
  "chip_env rw d (nenv s) \<Longrightarrow> nfc_write bs s = (0, nfc_log (Bus_write bs True) s)"
  by (simp add: nfc_write_def chip_env_def)

lemma maskset_register:
  assumes "chip_env rw d (nenv s)" and "chip rw d (nlog s) reg = Some x"
  shows "fst (maskset_nfc_register reg flag s) = 0"
    and "nenv (snd (maskset_nfc_register reg flag s)) = nenv s"
    and "chip rw d (nlog (snd (maskset_nfc_register reg flag s))) = (chip rw d (nlog s))(reg := Some (x OR flag))"
proof -
  have r: "reg \<in> rw" "reg < 0x40" using assms chip_known by (auto simp: chip_env_def)
  have "maskset_nfc_register reg flag s = (0, nfc_log (Bus_write [reg, x OR flag] True)
      (nfc_log (Bus_read (0x40 + reg) (Some [x])) s))"
    using assms by (simp add: maskset_nfc_register_def read_known write_register [of rw d])
  then show "fst (maskset_nfc_register reg flag s) = 0" "nenv (snd (maskset_nfc_register reg flag s)) = nenv s"
    "chip rw d (nlog (snd (maskset_nfc_register reg flag s))) = (chip rw d (nlog s))(reg := Some (x OR flag))"
    by (simp_all only: fst_conv snd_conv nfc_log_simps chip_write [OF r] chip_keeps)
qed

lemma default_command:
  "chip_env rw d (nenv s) \<Longrightarrow> nenv (snd (NFC_command 0xC0 s)) = nenv s \<and>
    chip rw d (nlog (snd (NFC_command 0xC0 s))) = (\<lambda>r. if r \<in> rw then Some (d r) else None)"
  by (simp add: NFC_command_def write_register fun_eq_iff)

text \<open>
  After \<open>init\<close>, whatever was in the registers, the plain ones are those of a chip after power-on but for
  four: ready and transmitter on in register 2, ISO 14443A in register 3, 7 transmit bits in
  register 0x23; the bit rate (register 4) stays what it was after power-on.
\<close>

theorem nfc_init_registers:
  assumes "chip_env rw d (nenv s)" and "0 \<le> bus_fd (nenv s)" and "{0x02, 0x03, 0x04, 0x23} \<subseteq> rw"
  shows "\<exists>t. nfc_main [prog, ''init''] s = Some (0, t) \<and>
    chip rw d (nlog t) = (\<lambda>r. if r \<in> rw then Some ((d(0x02 := d 0x02 OR 0xC0, 0x03 := d 0x03 OR 0x08, 0x23 := 0x07)) r)
      else None)"
proof -
  let ?a = "nfc_gpio_init s"
  let ?b = "snd (NFC_command 0xC0 ?a)"
  let ?c = "snd (maskset_nfc_register 0x02 0xC0 ?b)"
  let ?d = "snd (maskset_nfc_register 0x03 0x08 ?c)"
  let ?e = "snd (maskset_nfc_register 0x04 0x00 ?d)"
  let ?p = "\<lambda>r. if r \<in> rw then Some (d r) else None"
  have a: "chip_env rw d (nenv ?a)" using assms(1) by simp
  have b: "chip_env rw d (nenv ?b)" "chip rw d (nlog ?b) = ?p" using default_command [OF a] a by simp_all
  have "chip rw d (nlog ?b) 0x02 = Some (d 0x02)" using b(2) assms(3) by simp
  from maskset_register [OF b(1) this, of "0xC0"] b
  have c: "chip_env rw d (nenv ?c)" "chip rw d (nlog ?c) = ?p(0x02 := Some (d 0x02 OR 0xC0))" by simp_all
  have "chip rw d (nlog ?c) 0x03 = Some (d 0x03)" using c(2) assms(3) by simp
  from maskset_register [OF c(1) this, of "0x08"] c
  have d: "chip_env rw d (nenv ?d)" "chip rw d (nlog ?d) = ?p(0x02 := Some (d 0x02 OR 0xC0), 0x03 := Some (d 0x03 OR 0x08))"
    by simp_all
  have "chip rw d (nlog ?d) 0x04 = Some (d 0x04)" using d(2) assms(3) by simp
  from maskset_register [OF d(1) this, of "0x00"] d
  have e: "chip_env rw d (nenv ?e)"
    "chip rw d (nlog ?e) = ?p(0x02 := Some (d 0x02 OR 0xC0), 0x03 := Some (d 0x03 OR 0x08), 0x04 := Some (d 0x04))"
    by simp_all
  have "0x23 \<in> rw" "(0x23 :: u8) < 0x40" using assms(3) by simp_all
  from chip_write [OF this, of d "0x07" "nlog ?e"]
  have "chip rw d (nlog (nfc_init ?a)) = (chip rw d (nlog ?e))(0x23 := Some 0x07)"
    using write_register [OF e(1), of "[0x23, 0x07]"] by (simp add: nfc_init_def write_nfc_register_def Let_def)
  then show ?thesis
    using assms(2,3) e(2) by (simp add: nfc_main_def nfc_commands_def Let_def fun_eq_iff)
qed

text \<open>
  C39: \<open>write\<close> and \<open>read\<close> of the NFC tool, for a register below 0x40 and a byte. On every bus, \<open>write\<close>
  sends the two bytes of register and value, and when that succeeds reads the register with the mode byte
  0x40 plus its number and shows what it got, 0 for a failed read; \<open>read\<close> does only that and ends with 1
  when the read fails. So on a chip that acknowledges its writes, for a register that is plain storage,
  the value written is the one \<open>write\<close> shows and the one a \<open>read\<close> afterwards shows, and no other plain
  register changes.
\<close>

theorem nfc_write_then_read:
  assumes "0 \<le> bus_fd (nenv s)" and "strtol0 reg = int r" and "r < 0x40"
    and "strtol0 val = int v" and "v < 0x100"
  shows "nfc_main [prog, ''write'', reg, val] s =
      (case write_trace (nenv s) (word_of_nat r) (word_of_nat v) (nlog (nfc_gpio_init s)) of (e, h) \<Rightarrow> Some (e, s\<lparr>nlog := h\<rparr>)) \<and>
    nfc_main [prog, ''read'', reg] s =
      (case read_trace (nenv s) (word_of_nat r) (nlog (nfc_gpio_init s)) of (e, h) \<Rightarrow> Some (e, s\<lparr>nlog := h\<rparr>)) \<and>
    (chip_env rw d (nenv s) \<and> word_of_nat r \<in> rw \<longrightarrow>
      (\<exists>t u. nfc_main [prog, ''write'', reg, val] s = Some (0, t) \<and>
        chip rw d (nlog t) = (chip rw d (nlog s))(word_of_nat r := Some (word_of_nat v)) \<and>
        nlog t ! 1 = Nfc_value (int r) (word_of_nat v) \<and>
        nfc_main [prog, ''read'', reg] t = Some (0, u) \<and> nlog u ! 1 = Nfc_value (int r) (word_of_nat v) \<and>
        chip rw d (nlog u) = chip rw d (nlog t)))"
proof (intro conjI impI)
  define w x :: u8 where "w = word_of_nat r" and "x = word_of_nat v"
  have w: "w < 0x40" "uint w = int r"
    using assms(3) by (simp_all add: w_def word_less_nat_alt unat_of_nat uint_nat)
  show wr: "nfc_main [prog, ''write'', reg, val] s =
      (case write_trace (nenv s) (word_of_nat r) (word_of_nat v) (nlog (nfc_gpio_init s)) of (e, h) \<Rightarrow> Some (e, s\<lparr>nlog := h\<rparr>))"
    by (rule write_run [OF assms])
  show "nfc_main [prog, ''read'', reg] s =
      (case read_trace (nenv s) (word_of_nat r) (nlog (nfc_gpio_init s)) of (e, h) \<Rightarrow> Some (e, s\<lparr>nlog := h\<rparr>))"
    by (rule read_run [OF assms(1-3)])
  assume "chip_env rw d (nenv s) \<and> word_of_nat r \<in> rw"
  then have env: "chip_env rw d (nenv s)" and in_rw: "w \<in> rw" by (simp_all add: w_def)
  have answer: "bus_read_of (nenv s) h (0x40 + w) 1 = Some [x]" if "chip rw d h w = Some x" for h
    using env that by (simp add: chip_env_def)
  let ?g = "Nfc_say ''[Done] Register Write'' # Bus_write [w, x] True # nlog (nfc_gpio_init s)"
  let ?t = "s\<lparr>nlog := Nfc_close # Nfc_value (int r) x # Bus_read (0x40 + w) (Some [x]) # ?g\<rparr>"
  let ?u = "?t\<lparr>nlog := Nfc_close # Nfc_value (int r) x # Bus_read (0x40 + w) (Some [x]) # nlog (nfc_gpio_init ?t)\<rparr>"
  have g: "chip rw d ?g = (chip rw d (nlog s))(w := Some x)"
    using chip_write [OF in_rw w(1)] by (simp only: chip_keeps chip_gpio)
  then have t: "chip rw d (nlog ?t) = (chip rw d (nlog s))(w := Some x)" by (simp del: chip.simps)
  have ok: "bus_write_ok (nenv s) (nlog (nfc_gpio_init s)) [w, x]" using env by (simp add: chip_env_def)
  have "bus_read_of (nenv s) ?g (0x40 + w) 1 = Some [x]" by (rule answer, unfold g) simp
  with ok wr have "nfc_main [prog, ''write'', reg, val] s = Some (0, ?t)"
    by (simp add: write_trace_def shown_def w(2) Let_def flip: w_def x_def)
  moreover have later: "bus_read_of (nenv s) (nlog (nfc_gpio_init ?t)) (0x40 + w) 1 = Some [x]"
    by (rule answer, unfold chip_gpio t) simp
  have "nfc_main [prog, ''read'', reg] ?t = Some (0, ?u)"
    using read_run [of ?t reg r prog] assms(1-3) later
    by (simp add: read_trace_def shown_def w(2) flip: w_def)
  ultimately show "\<exists>t u. nfc_main [prog, ''write'', reg, val] s = Some (0, t) \<and>
      chip rw d (nlog t) = (chip rw d (nlog s))(word_of_nat r := Some (word_of_nat v)) \<and>
      nlog t ! 1 = Nfc_value (int r) (word_of_nat v) \<and>
      nfc_main [prog, ''read'', reg] t = Some (0, u) \<and> nlog u ! 1 = Nfc_value (int r) (word_of_nat v) \<and>
      chip rw d (nlog u) = chip rw d (nlog t)"
    using t by (intro exI [of _ ?t] exI [of _ ?u]) (simp flip: w_def x_def del: chip.simps)
qed

text \<open>
  The dump reads each register of its range once, in order, shows what the chip answers, and changes
  none of the plain ones; it leaves the bus open.
\<close>

lemma dump_reads:
  assumes "\<And>h m. bus_read_of (nenv s) h m 1 \<noteq> None" and "0 \<le> reg" and "reg + int n \<le> 0x40"
  shows "chip rw d (nlog (dump_from reg n s)) = chip rw d (nlog s) \<and> nenv (dump_from reg n s) = nenv s \<and>
    map (\<lambda>e. case e of Nfc_value i v \<Rightarrow> i | _ \<Rightarrow> -1) (filter (\<lambda>e. \<exists>i v. e = Nfc_value i v) (nlog (dump_from reg n s))) =
      rev (map (\<lambda>i. reg + int i) [0..<n]) @
      map (\<lambda>e. case e of Nfc_value i v \<Rightarrow> i | _ \<Rightarrow> -1) (filter (\<lambda>e. \<exists>i v. e = Nfc_value i v) (nlog s))"
  using assms
proof (induction n arbitrary: reg s)
  case (Suc n)
  have r: "word_of_int reg < (0x40 :: u8)" using Suc.prems(2,3) by (simp add: word_less_def uint_word_of_int)
  obtain bs where bs: "bus_read_of (nenv s) (nlog s) (0x40 + word_of_int reg) 1 = Some bs"
    using Suc.prems(1) by fastforce
  let ?v = "case bs of [] \<Rightarrow> 0 | b # _ \<Rightarrow> b"
  let ?t = "nfc_log (Nfc_value reg ?v) (nfc_log (Bus_read (0x40 + word_of_int reg) (Some bs)) s)"
  have run: "dump_from reg (Suc n) s = dump_from (reg + 1) n ?t"
    using read_register [OF r, of 0 s] bs by (simp add: Let_def)
  have t: "nenv ?t = nenv s" "chip rw d (nlog ?t) = chip rw d (nlog s)" by simp_all
  have idx: "[0..<Suc n] = 0 # map Suc [0..<n]" by (simp add: map_Suc_upt upt_conv_Cons)
  show ?case
    using Suc.IH [of ?t "reg + 1"] Suc.prems t(2) unfolding run idx t(1)
    by (simp add: comp_def algebra_simps)
qed simp

text \<open>
  A chip whose plain registers are zero after power-on; identity, interrupt and FIFO registers read 0x2A.
\<close>

definition plain_registers :: "u8 set" where
  "plain_registers = {r. r < 0x40} - {0x1A, 0x1B, 0x1C, 0x1D, 0x1E, 0x1F, 0x3F}"

definition chip_board :: nfc_env where
  "chip_board = \<lparr>bus_fd = 3, bus_write_ok = \<lambda>h bs. True,
     bus_read_of = \<lambda>h m n. Some (replicate n (case chip plain_registers (\<lambda>r. 0) h (m - 0x40) of Some v \<Rightarrow> v | None \<Rightarrow> 0x2A)),
     poll_of = \<lambda>h. None, pin_char = \<lambda>h. CHR ''0''\<rparr>"

lemma chip_board_env: "chip_env plain_registers (\<lambda>r. 0) chip_board"
  by (simp add: chip_env_def chip_board_def plain_registers_def)

theorem nfc_init_registers_witness:
  "\<exists>t. nfc_main [''nfc'', ''init''] \<lparr>nenv = chip_board, nlog = [Bus_write [0x10, 5] True]\<rparr> = Some (0, t) \<and>
     chip plain_registers (\<lambda>r. 0) (nlog t) 0x02 = Some 0xC0 \<and> chip plain_registers (\<lambda>r. 0) (nlog t) 0x10 = Some 0 \<and>
     chip plain_registers (\<lambda>r. 0) (nlog t) 0x1A = None"
proof -
  have "{0x02, 0x03, 0x04, 0x23} \<subseteq> plain_registers" "0 \<le> bus_fd chip_board"
    by (simp_all add: plain_registers_def chip_board_def)
  moreover have "0x02 \<in> plain_registers" "0x10 \<in> plain_registers" "0x1A \<notin> plain_registers"
    by (simp_all add: plain_registers_def)
  ultimately show ?thesis
    using nfc_init_registers [of plain_registers "\<lambda>r. 0" "\<lparr>nenv = chip_board, nlog = [Bus_write [0x10, 5] True]\<rparr>" "''nfc''"]
    by (fastforce simp: chip_board_env)
qed

theorem nfc_write_then_read_witness:
  "\<exists>t u. nfc_main [''nfc'', ''write'', ''0x12'', ''33''] \<lparr>nenv = chip_board, nlog = []\<rparr> = Some (0, t) \<and>
     nlog t ! 1 = Nfc_value 18 33 \<and>
     nfc_main [''nfc'', ''read'', ''0x12''] t = Some (0, u) \<and> nlog u ! 1 = Nfc_value 18 33"
proof -
  have n: "strtol0 ''0x12'' = int 18" "strtol0 ''33'' = int 33" by code_simp+
  have fd: "0 \<le> bus_fd (nenv \<lparr>nenv = chip_board, nlog = []\<rparr>)" by (simp add: chip_board_def)
  have "(18 :: u8) \<in> plain_registers" by (simp add: plain_registers_def)
  then have "chip_env plain_registers (\<lambda>r. 0) (nenv \<lparr>nenv = chip_board, nlog = []\<rparr>) \<and> word_of_nat 18 \<in> plain_registers"
    by (simp add: chip_board_env)
  with nfc_write_then_read [OF fd n(1) _ n(2), of "''nfc''" plain_registers "\<lambda>r. 0"] show ?thesis by fastforce
qed

end
