(* ===== verification/Tool_I2c.thy ===== *)
theory Tool_I2c
  imports Misc_Amp
begin

text \<open>
  The register tools of the I/O expander and the light sensor, \<open>TCA9538/src\<close> and \<open>OPT300x/src\<close>, and
  the transport \<open>pega_i2c_control.c\<close> that they and the amplifier tool each have a copy of. It looks
  like the one of the daemon, but a read that worked returns 0. A process that ends early, by
  \<open>exit(1)\<close> or a fault, is \<open>None\<close>.
\<close>

subsection \<open>Transport\<close>

text \<open>What a tool shows: the usage, a register it read or wrote for the user, a line of a dump.\<close>

datatype tool_line = Tool_help | Tool_value u16 u16 | Tool_reg u8 u16 | Tool_say string

record tool_st = gpio_st +
  g_i2cFile :: int
  tool_out :: "tool_line list"

definition tool_static :: "misc_env \<Rightarrow> tool_st" where
  "tool_static env = \<lparr>menv = env, mlog = [], bIrcut_enable = 0, g_i2cFile = -1, tool_out = []\<rparr>"

definition show_line :: "tool_line \<Rightarrow> 'a tool_st_scheme \<Rightarrow> 'a tool_st_scheme" where
  "show_line l s = s\<lparr>tool_out := l # tool_out s\<rparr>"

definition pega_i2cOpen :: "string \<Rightarrow> 'a tool_st_scheme \<Rightarrow> 'a tool_st_scheme option" where
  "pega_i2cOpen dev s = (let fd = i2c_open (menv s) (mlog s) dev in
     if fd < 0 then None else Some (s\<lparr>g_i2cFile := fd\<rparr>))"

definition pega_i2cClose :: "'a tool_st_scheme \<Rightarrow> 'a tool_st_scheme" where
  "pega_i2cClose s = s\<lparr>g_i2cFile := -1\<rparr>"

definition pega_i2c_Write_t ::
    "int \<Rightarrow> u32 \<Rightarrow> u16 \<Rightarrow> ISP_I2C_FMT \<Rightarrow> 'a tool_st_scheme \<Rightarrow> 'a tool_st_scheme res" where
  "pega_i2c_Write_t slaveAddr reg v fmt s = do {
     s \<leftarrow> pega_i2cSetAddress (g_i2cFile s) (drop_bit 1 slaveAddr) s;
     let (ok, s) = bus_write (g_i2cFile s) (drop_bit 1 slaveAddr) (i2c_bytes fmt reg v) s;
     Some (if ok then SUCCEED else FAILED, s)
   }"

definition pega_i2c_Read_t :: "int \<Rightarrow> u32 \<Rightarrow> u16 \<Rightarrow> ISP_I2C_FMT \<Rightarrow> 'a tool_st_scheme \<Rightarrow>
    (int \<times> u16 \<times> 'a tool_st_scheme) option" where
  "pega_i2c_Read_t slaveAddr reg v fmt s = do {
     let slave = drop_bit 1 slaveAddr;
     s \<leftarrow> pega_i2cSetAddress (g_i2cFile s) slave s;
     let (ok, s) = bus_write (g_i2cFile s) slave (i2c_reg_bytes fmt reg) s;
     if \<not> ok then Some (-1, v, s)
     else (let n = i2c_read_len fmt; r = i2c_read_ret (menv s) (mlog s) (g_i2cFile s) slave n;
               s = emit (I2c_read slave n) s
           in case r of
             None \<Rightarrow> Some (-1, v, s)
           | Some bs \<Rightarrow> Some (if length (take n bs) = n then 0 else -1, store_bytes (take n bs) v, s))
   }"

subsection \<open>I/O expander\<close>

abbreviation (input) TCA9538_ADDRESS :: int where "TCA9538_ADDRESS \<equiv> 0x70 * 2"
abbreviation (input) TCA9538_REG_INPUT_PORT :: u8 where "TCA9538_REG_INPUT_PORT \<equiv> 0x00"
abbreviation (input) TCA9538_REG_OUTPUT_PORT :: u8 where "TCA9538_REG_OUTPUT_PORT \<equiv> 0x01"
abbreviation (input) TCA9538_REG_POLARITY_INV :: u8 where "TCA9538_REG_POLARITY_INV \<equiv> 0x02"
abbreviation (input) TCA9538_REG_CONFIGURATION :: u8 where "TCA9538_REG_CONFIGURATION \<equiv> 0x03"

definition TCA9538_I2C_WriteToSlave :: "u8 \<Rightarrow> u8 \<Rightarrow> tool_st \<Rightarrow> tool_st res" where
  "TCA9538_I2C_WriteToSlave regAddr regData =
     pega_i2c_Write_t TCA9538_ADDRESS (ucast regAddr) (ucast regData) I2C_FMT_A8D8"

definition TCA9538_I2C_ReadFromSlave :: "u8 \<Rightarrow> tool_st \<Rightarrow> (int \<times> u8 \<times> tool_st) option" where
  "TCA9538_I2C_ReadFromSlave regAddr s = do {
     (ret, v, s) \<leftarrow> pega_i2c_Read_t TCA9538_ADDRESS (ucast regAddr) 0 I2C_FMT_A8D8 s;
     Some (ret, ucast v, s)
   }"

definition TCA9538_Device_Init :: "tool_st \<Rightarrow> tool_st option" where
  "TCA9538_Device_Init s = map_option snd (TCA9538_I2C_WriteToSlave TCA9538_REG_CONFIGURATION 0x3C s)"

text \<open>The loop of the dump, over the registers it visits; those of the switch are read and shown.\<close>

fun TCA9538_dump :: "u8 list \<Rightarrow> tool_st \<Rightarrow> tool_st option" where
  "TCA9538_dump [] s = Some s"
| "TCA9538_dump (r # rs) s =
     (if r \<in> {TCA9538_REG_INPUT_PORT, TCA9538_REG_OUTPUT_PORT, TCA9538_REG_POLARITY_INV,
              TCA9538_REG_CONFIGURATION}
      then do {
        (ret, v, s) \<leftarrow> TCA9538_I2C_ReadFromSlave r s;
        TCA9538_dump rs (show_line (Tool_reg r (ucast v)) s)
      }
      else TCA9538_dump rs s)"

definition TCA9538_Register_Info_Print :: "tool_st \<Rightarrow> tool_st option" where
  "TCA9538_Register_Info_Print = TCA9538_dump (map word_of_nat [0..<Suc (unat TCA9538_REG_INPUT_PORT)])"

definition cmd_err :: "'a tool_st_scheme \<Rightarrow> 'a tool_st_scheme" where
  "cmd_err s = pega_i2cClose (show_line Tool_help s)"

definition TCA9538_main :: "string list \<Rightarrow> tool_st \<Rightarrow> tool_st option" where
  "TCA9538_main args s = do {
     s \<leftarrow> pega_i2cOpen ''/dev/i2c-3'' s;
     if length args \<le> 1 then Some (cmd_err s)
     else if args ! 1 = ''init'' then map_option pega_i2cClose (TCA9538_Device_Init s)
     else if args ! 1 = ''dump'' then map_option pega_i2cClose (TCA9538_Register_Info_Print s)
     else if args ! 1 = ''read'' then
       (if length args < 3 then Some (cmd_err s)
        else do {
          let regAddr = word_of_int (strtol16 (args ! 2));
          (ret, v, s) \<leftarrow> TCA9538_I2C_ReadFromSlave (ucast regAddr) s;
          Some (pega_i2cClose (show_line (Tool_value regAddr (ucast v)) s))
        })
     else if args ! 1 = ''write'' then
       (if length args < 4 then Some (cmd_err s)
        else do {
          let regAddr = word_of_int (strtol16 (args ! 2));
          let regData = word_of_int (strtol16 (args ! 3));
          (ret, s) \<leftarrow> TCA9538_I2C_WriteToSlave (ucast regAddr) regData s;
          Some (pega_i2cClose (show_line (Tool_value regAddr (ucast regData)) s))
        })
     else Some (pega_i2cClose (show_line Tool_help s))
   }"

subsection \<open>Light sensor\<close>

record opt_st = tool_st +
  o_wDeviceID :: u16
  o_wConfReg :: u16
  o_fLux :: rat

definition opt_static :: "misc_env \<Rightarrow> opt_st" where
  "opt_static env = tool_st.extend (tool_static env) \<lparr>o_wDeviceID = 0, o_wConfReg = 0, o_fLux = 0\<rparr>"

abbreviation (input) CONFIGURATION_M_SHUTDOWN :: u16 where "CONFIGURATION_M_SHUTDOWN \<equiv> 0x0000"
abbreviation (input) CONFIGURATION_M_SINGLE :: u16 where "CONFIGURATION_M_SINGLE \<equiv> 0x0200"
abbreviation (input) CONFIGURATION_CRF :: u16 where "CONFIGURATION_CRF \<equiv> 0x0080"

definition OPT300X_I2C_WriteToSlave_t :: "u8 \<Rightarrow> u16 \<Rightarrow> opt_st \<Rightarrow> opt_st res" where
  "OPT300X_I2C_WriteToSlave_t regAddr regData =
     pega_i2c_Write_t OPT300x_ADDRESS (ucast regAddr) regData I2C_FMT_A8D16"

definition OPT300X_I2C_ReadFromSlave_t :: "u8 \<Rightarrow> opt_st \<Rightarrow> (int \<times> u16 \<times> opt_st) option" where
  "OPT300X_I2C_ReadFromSlave_t regAddr s = do {
     (ret, v, s) \<leftarrow> pega_i2c_Read_t OPT300x_ADDRESS (ucast regAddr) 0 I2C_FMT_A8D16 s;
     Some (ret, OPT300X_I2C_Word_Data_Swap v, s)
   }"

definition OPT300x_set_mode_t :: "u16 \<Rightarrow> opt_st \<Rightarrow> opt_st" where
  "OPT300x_set_mode_t wMode s = s\<lparr>o_wConfReg := (o_wConfReg s AND NOT CONFIGURATION_M_MASK) OR wMode\<rparr>"

definition OPT300x_Read_Lux_t :: "opt_st \<Rightarrow> (bool \<times> opt_st) option" where
  "OPT300x_Read_Lux_t s = do {
     (ret, wVal, s) \<leftarrow> OPT300X_I2C_ReadFromSlave_t OPT300x_REG_SYS_RESULT s;
     Some (if ret = SUCCEED then (True, s\<lparr>o_fLux := lux_of wVal\<rparr>) else (False, s))
   }"

definition OPT300x_ShutDown :: "opt_st \<Rightarrow> opt_st option" where
  "OPT300x_ShutDown s = (let s = OPT300x_set_mode_t CONFIGURATION_M_SHUTDOWN s
     in map_option snd (OPT300X_I2C_WriteToSlave_t OPT300x_REG_SYS_CONF (o_wConfReg s) s))"

definition OPT300x_Device_Init_t :: "opt_st \<Rightarrow> opt_st option" where
  "OPT300x_Device_Init_t s = do {
     let s = OPT300x_set_mode_t CONFIGURATION_M_SHUTDOWN
       (s\<lparr>o_wDeviceID := 0, o_wConfReg := CONFIGURATION_RN_AUTO OR CONFIGURATION_CT\<rparr>);
     let s = s\<lparr>o_wConfReg := o_wConfReg s AND NOT CONFIGURATION_ME AND NOT CONFIGURATION_FC_MASK\<rparr>;
     (r, s) \<leftarrow> OPT300X_I2C_WriteToSlave_t OPT300x_REG_SYS_CONF (o_wConfReg s) s;
     (ret, wVal, s) \<leftarrow> OPT300X_I2C_ReadFromSlave_t OPT300x_REG_DEVICE_ID s;
     Some (if ret = SUCCEED then s\<lparr>o_wDeviceID := wVal\<rparr> else s)
   }"

definition OPT300x_Is_Ready_Check :: "opt_st \<Rightarrow> (bool \<times> opt_st) option" where
  "OPT300x_Is_Ready_Check s = do {
     (ret, wVal, s) \<leftarrow> OPT300X_I2C_ReadFromSlave_t OPT300x_REG_SYS_CONF s;
     Some (ret = SUCCEED \<and> wVal AND CONFIGURATION_CRF \<noteq> 0, s)
   }"

definition OPT300x_Enable_Read_Lux :: "opt_st \<Rightarrow> (bool \<times> opt_st) option" where
  "OPT300x_Enable_Read_Lux s = do {
     (ret, wVal, s) \<leftarrow> OPT300X_I2C_ReadFromSlave_t OPT300x_REG_SYS_CONF s;
     if ret = SUCCEED
     then do {
       let s = OPT300x_set_mode_t CONFIGURATION_M_SINGLE (s\<lparr>o_wConfReg := wVal\<rparr>);
       (r, s) \<leftarrow> OPT300X_I2C_WriteToSlave_t OPT300x_REG_SYS_CONF (o_wConfReg s) s;
       Some (r = SUCCEED, s)
     }
     else Some (False, s)
   }"

definition OPT300x_Processing_Handler :: "opt_st \<Rightarrow> opt_st res" where
  "OPT300x_Processing_Handler s =
     (if o_wConfReg s AND CONFIGURATION_M_SINGLE = 0
      then map_option (\<lambda>(b, s). (FAILED, s)) (OPT300x_Enable_Read_Lux s)
      else do {
        (ready, s) \<leftarrow> OPT300x_Is_Ready_Check s;
        if \<not> ready then Some (FAILED, s)
        else do {
          (ok, s) \<leftarrow> OPT300x_Read_Lux_t s;
          if \<not> ok
          then do {
            s \<leftarrow> OPT300x_ShutDown s;
            (b, s) \<leftarrow> OPT300x_Enable_Read_Lux (usleep 100000 s);
            Some (FAILED, s)
          }
          else map_option (Pair SUCCEED) (OPT300x_ShutDown s)
        }
      })"

fun OPT300x_dump :: "u8 list \<Rightarrow> opt_st \<Rightarrow> opt_st option" where
  "OPT300x_dump [] s = Some s"
| "OPT300x_dump (r # rs) s =
     (if r \<in> {OPT300x_REG_SYS_RESULT, OPT300x_REG_SYS_CONF, OPT300x_REG_LOW_LIMIT, OPT300x_REG_HIGH_LIMIT,
              OPT300x_REG_MANUFACTURER_ID, OPT300x_REG_DEVICE_ID}
      then do {
        (ret, v, s) \<leftarrow> OPT300X_I2C_ReadFromSlave_t r s;
        OPT300x_dump rs (show_line (Tool_reg r v) s)
      }
      else OPT300x_dump rs s)"

definition OPT300x_Register_Info_Print_t :: "opt_st \<Rightarrow> opt_st option" where
  "OPT300x_Register_Info_Print_t = OPT300x_dump (map word_of_nat [0..<Suc (unat OPT300x_REG_DEVICE_ID)])"

definition OPT300x_main :: "string list \<Rightarrow> opt_st \<Rightarrow> opt_st option" where
  "OPT300x_main args s = do {
     s \<leftarrow> pega_i2cOpen ''/dev/i2c-3'' s;
     if length args \<le> 1 then Some (cmd_err s)
     else if args ! 1 = ''init'' then map_option pega_i2cClose (OPT300x_Device_Init_t s)
     else if args ! 1 = ''dump'' then map_option pega_i2cClose (OPT300x_Register_Info_Print_t s)
     else if args ! 1 = ''read'' then
       (if length args < 3 then Some (cmd_err s)
        else do {
          let regAddr = word_of_int (strtol16 (args ! 2));
          (ret, wVal, s) \<leftarrow> OPT300X_I2C_ReadFromSlave_t (ucast regAddr) s;
          Some (pega_i2cClose (show_line (Tool_value regAddr wVal) s))
        })
     else if args ! 1 = ''write'' then
       (if length args < 4 then Some (cmd_err s)
        else do {
          let regAddr = word_of_int (strtol16 (args ! 2));
          let regData = word_of_int (strtol16 (args ! 3));
          (ret, s) \<leftarrow> OPT300X_I2C_WriteToSlave_t (ucast regAddr) regData s;
          Some (pega_i2cClose (show_line (Tool_value regAddr regData) s))
        })
     else Some (pega_i2cClose (show_line Tool_help s))
   }"

end
