(* ===== verification/Tool_Amp.thy ===== *)
theory Tool_Amp
  imports Tool_I2c
begin

text \<open>
  The tool of the amplifier, \<open>TAS2563/src/Pega_Amp2563.c\<close>, with the pins of its \<open>Pega_gpio.c\<close>, which
  are handled as in the daemon. The tool has its own copies of the volume code and of the built-in
  script: both are translated from its source, and the names carry the suffix \<open>_t\<close>.
\<close>

subsection \<open>Register access\<close>

record tas_st = tool_st +
  cur_book_t :: u8
  cur_page_t :: u8
  m_ps8audaiConfigFile :: string

definition tas_static :: "misc_env \<Rightarrow> tas_st" where
  "tas_static env = tool_st.extend (tool_static env)
     \<lparr>cur_book_t = 0, cur_page_t = 0, m_ps8audaiConfigFile = replicate 50 (CHR 0x00)\<rparr>"

definition tas2563_i2c_write_t :: "u8 \<Rightarrow> u8 \<Rightarrow> tas_st \<Rightarrow> tas_st res" where
  "tas2563_i2c_write_t regAddr regData =
     pega_i2c_Write_t TAS2563_ADDRESS (ucast regAddr) (ucast regData) I2C_FMT_A8D8"

definition tas_put_t :: "u8 \<Rightarrow> u8 \<Rightarrow> tas_st \<Rightarrow> tas_st option" where
  "tas_put_t regAddr regData s = map_option snd (tas2563_i2c_write_t regAddr regData s)"

fun bulk_write_loop_t :: "u8 \<Rightarrow> u8 list \<Rightarrow> tas_st \<Rightarrow> tas_st res" where
  "bulk_write_loop_t reg [] s = Some (0, s)"
| "bulk_write_loop_t reg (d # ds) s = do {
     (ret, s) \<leftarrow> tas2563_i2c_write_t reg d s;
     if ret \<noteq> 0 then Some (-1, s) else bulk_write_loop_t (reg + 1) ds s
   }"

definition tas2563_bulk_write_reg_t :: "u8 \<Rightarrow> u8 \<Rightarrow> u8 \<Rightarrow> u8 list \<Rightarrow> tas_st \<Rightarrow> tas_st res" where
  "tas2563_bulk_write_reg_t book page regAddr regData s = do {
     (ret, s) \<leftarrow> (if book \<noteq> cur_book_t s then tas2563_i2c_write_t TAS2563_BOOK book (s\<lparr>cur_book_t := book\<rparr>)
                 else Some (0, s));
     if ret \<noteq> 0 then Some (-1, s)
     else do {
       (ret, s) \<leftarrow> (if page \<noteq> cur_page_t s then tas2563_i2c_write_t TAS2563_PAGE page (s\<lparr>cur_page_t := page\<rparr>)
                   else Some (0, s));
       if ret \<noteq> 0 then Some (-1, s) else bulk_write_loop_t regAddr regData s
     }
   }"

definition tas2563_i2c_read_t :: "u8 \<Rightarrow> tas_st \<Rightarrow> (int \<times> u8 \<times> tas_st) option" where
  "tas2563_i2c_read_t regAddr s = do {
     (ret, v, s) \<leftarrow> pega_i2c_Read_t TAS2563_ADDRESS (ucast regAddr) 0 I2C_FMT_A8D8 s;
     Some (ret, ucast v, s)
   }"

definition tas2563_update_bits_t :: "u8 \<Rightarrow> u8 \<Rightarrow> u8 \<Rightarrow> tas_st \<Rightarrow> tas_st res" where
  "tas2563_update_bits_t reg msk v s = do {
     (ret, old, s) \<leftarrow> tas2563_i2c_read_t reg s;
     if ret < 0 then Some (ret, s)
     else (let new = (old AND NOT msk) OR (v AND msk) in
       if old \<noteq> new
       then do { (ret, s) \<leftarrow> tas2563_i2c_write_t reg new s; Some (if ret < 0 then ret else 0, s) }
       else Some (0, s))
   }"

definition page0_t :: "(tas_st \<Rightarrow> tas_st option) list" where
  "page0_t = [tas_put_t TAS2563_PAGE 0, tas_put_t TAS2563_BOOK 0]"

definition update_only_t :: "u8 \<Rightarrow> u8 \<Rightarrow> u8 \<Rightarrow> tas_st \<Rightarrow> tas_st option" where
  "update_only_t reg msk v s = map_option snd (tas2563_update_bits_t reg msk v s)"

definition Pega_AMP_Software_Reset_t :: "tas_st \<Rightarrow> tas_st option" where
  "Pega_AMP_Software_Reset_t s = do {
     s \<leftarrow> seq_opt page0_t s;
     (ret, s) \<leftarrow> tas2563_i2c_write_t TAS2563_SW_RESET 1 s;
     Some (emit (Print (if ret \<noteq> 0 then ''tas2560 reset fail'' else ''tas2560 reset success'')) s)
   }"

definition Pega_AMP_Software_Mute_t :: "u8 \<Rightarrow> tas_st \<Rightarrow> tas_st option" where
  "Pega_AMP_Software_Mute_t bMute =
     seq_opt (page0_t @ [update_only_t TAS2563_PWR_CTL 0x03 (if bMute \<noteq> 0 then 1 else 0)])"

definition volume_code_t :: "rat \<Rightarrow> u8" where
  "volume_code_t fdB =
     (let fdB = (if fdB < 17/2 then 17/2 else fdB); fdB = (if fdB > 22 then 22 else fdB)
      in word_of_int (trunc (f64 (f64 (f64 (fdB - 17/2) / (1/2)) + 1))))"

definition Pega_AMP_Volume_Control_t :: "rat \<Rightarrow> tas_st \<Rightarrow> tas_st option" where
  "Pega_AMP_Volume_Control_t fdB =
     seq_opt (page0_t @ [update_only_t TAS2563_PB_CFG1 0x3E (push_bit 1 (volume_code_t fdB))])"

definition Pega_AMP_Reg_Write_t :: "u8 \<Rightarrow> u8 \<Rightarrow> tas_st \<Rightarrow> tas_st option" where
  "Pega_AMP_Reg_Write_t r v = seq_opt (page0_t @ [tas_put_t r v])"

definition Pega_AMP_Reg_Read_t :: "u8 \<Rightarrow> tas_st \<Rightarrow> (u8 \<times> tas_st) option" where
  "Pega_AMP_Reg_Read_t r s = do {
     s \<leftarrow> seq_opt page0_t s;
     (ret, v, s) \<leftarrow> tas2563_i2c_read_t r s;
     Some (v, s)
   }"

fun tas_dump :: "u8 list \<Rightarrow> tas_st \<Rightarrow> tas_st option" where
  "tas_dump [] s = Some s"
| "tas_dump (r # rs) s = do {
     (ret, v, s) \<leftarrow> tas2563_i2c_read_t r s;
     tas_dump rs (show_line (Tool_reg r (ucast v)) s)
   }"

definition Pega_AMP_Reg_Data_Print_t :: "tas_st \<Rightarrow> tas_st option" where
  "Pega_AMP_Reg_Data_Print_t s = Option.bind (seq_opt page0_t s) (tas_dump (map word_of_nat [0..<0x7F]))"

subsection \<open>The configuration file\<close>

definition cfg_line_t :: "string \<Rightarrow> u8 \<Rightarrow> tas_st \<Rightarrow> (u8 \<times> tas_st) option" where
  "cfg_line_t line reg s = (case tokens [] line of
     [] \<Rightarrow> None
   | tok # toks \<Rightarrow>
      if tok = ''w''
      then (case toks of
          _ # r # v # _ \<Rightarrow>
            (let reg = word_of_int (strtol16 r)
             in map_option (Pair reg) (tas_put_t reg (word_of_int (strtol16 v)) s))
        | _ \<Rightarrow> None)
      else if tok = ''>''
      then (case toks of
          v # _ \<Rightarrow> map_option (Pair (reg + 1)) (tas_put_t (reg + 1) (word_of_int (strtol16 v)) s)
        | _ \<Rightarrow> None)
      else if tok = ''d'' then Some (reg, usleep 10 s)
      else Some (reg, s))"

function cfg_loop_t :: "string \<Rightarrow> string \<Rightarrow> u8 \<Rightarrow> tas_st \<Rightarrow> tas_st option" where
  "cfg_loop_t inp buf reg s =
     (case take_line 59 inp of (l, rest, eof) \<Rightarrow>
      let line = (if inp = [] then buf else l) in
      if line = [] then None
      else if butlast line = ''end'' then Some s
      else do {
        (reg, s) \<leftarrow> cfg_line_t (butlast line) reg s;
        if eof then Some s
        else cfg_loop_t rest
          (takeWhile (\<lambda>c. c = CHR '' '') (butlast line) @ hd (tokens [] (butlast line))) reg s
      })"
  by pat_completeness auto

termination cfg_loop_t
  by (relation "measure (\<lambda>(inp, buf, reg, s). length inp)") (auto dest: take_line_more [OF sym])

declare cfg_loop_t.simps [simp del]

text \<open>
  The name of the file is an array of 50 characters that a copy changes from its front on, without a
  final NUL. A longer text would be written past it, and a name that fills it has no end.
\<close>

definition copy_path :: "string \<Rightarrow> tas_st \<Rightarrow> tas_st option" where
  "copy_path p s = (if length p > 50 then None
     else Some (s\<lparr>m_ps8audaiConfigFile := p @ drop (length p) (m_ps8audaiConfigFile s)\<rparr>))"

definition config_path :: "tas_st \<Rightarrow> string option" where
  "config_path s = (if CHR 0x00 \<in> set (m_ps8audaiConfigFile s)
     then Some (takeWhile (\<lambda>c. c \<noteq> CHR 0x00) (m_ps8audaiConfigFile s)) else None)"

definition Parser_audio_ai_config :: "tas_st \<Rightarrow> tas_st res" where
  "Parser_audio_ai_config s = do {
     path \<leftarrow> config_path s;
     case text_file (menv s) (mlog s) path of
       None \<Rightarrow> Some (-1, s)
     | Some contents \<Rightarrow> map_option (Pair 0) (cfg_loop_t contents [] 0 s)
   }"

subsection \<open>Program\<close>

definition Pega_Gpio_init_t :: "tas_st \<Rightarrow> tas_st" where
  "Pega_Gpio_init_t s = Pega_Gpio_HW_Amp_Reset (snd (Pega_Gpio_pin_state_init IO_O_AUDIO_SHUTDOWN 0 0 s))"

text \<open>The script of the tool's \<open>Pega_AMP_Initialize\<close>, in the notation of the daemon's.\<close>

definition amp_script_t :: "amp_cmd list" where
  "amp_script_t =
     [W 0x00 0x00, W 0x7F 0x00, W 0x00 0x00, W 0x02 0x01, D 10000, W 0x00 0x00, W 0x7F 0x00,
      W 0x00 0x00, W 0x02 0x02, W 0x00 0x00, W 0x7F 0x00, W 0x00 0x00, W 0x01 0x01, W 0x00 0x00,
      W 0x7F 0x00, W 0x00 0xFD, W 0x0D 0x0D, W 0x32 0x49, W 0x3F 0x21, W 0x19 0x80, W 0x0D 0x0D,
      W 0x5F 0xC1, W 0x00 0x00, W 0x0A 0x03, W 0x1A 0xFC, W 0x1B 0xA6, W 0x1C 0xDF, W 0x1D 0xEF,
      W 0x30 0x19, W 0x32 0x80, W 0x38 0x00, W 0x30 0x99, W 0x33 0x34, W 0x34 0x4B, W 0x35 0x84,
      W 0x3C 0x38, W 0x00 0x04, W 0x60 0x04, W 0x61 0x04, W 0x62 0x04, W 0x63 0x04, W 0x14 0x1C,
      W 0x15 0x94, W 0x16 0x7A, W 0x17 0xE1, W 0x18 0x1F, W 0x19 0xA3, W 0x1A 0xD7, W 0x1B 0x0A,
      W 0x1C 0x22, W 0x1D 0xB3, W 0x1E 0x33, W 0x1F 0x33, W 0x20 0x25, W 0x21 0xC2, W 0x22 0x8F,
      W 0x23 0x5C, W 0x24 0x28, W 0x25 0xD1, W 0x26 0xEB, W 0x27 0x85, W 0x28 0x2B, W 0x29 0xE1,
      W 0x2A 0x47, W 0x2B 0xAE, W 0x2C 0x2E, W 0x2D 0xF0, W 0x2E 0xA3, W 0x2F 0xD7, W 0x30 0x32,
      W 0x31 0x00, W 0x32 0x00, W 0x33 0x00, W 0x34 0x35, W 0x35 0x0F, W 0x36 0x5C, W 0x37 0x29,
      W 0x38 0x38, W 0x39 0x1E, W 0x3A 0xB8, W 0x3B 0x52, W 0x3C 0x3B, W 0x3D 0x2E, W 0x3E 0x14,
      W 0x3F 0x7B, W 0x40 0x04, W 0x41 0xCC, W 0x42 0xCC, W 0x43 0xCD, W 0x00 0x03, W 0x5C 0x1E,
      W 0x5D 0x2E, W 0x5E 0x14, W 0x5F 0x7B, W 0x60 0x21, W 0x61 0x3D, W 0x62 0x70, W 0x63 0xA4,
      W 0x64 0x24, W 0x65 0x4C, W 0x66 0xCC, W 0x67 0xCD, W 0x68 0x27, W 0x69 0x5C, W 0x6A 0x28,
      W 0x6B 0xF6, W 0x6C 0x2A, W 0x6D 0x6B, W 0x6E 0x85, W 0x6F 0x1F, W 0x70 0x2D, W 0x71 0x7A,
      W 0x72 0xE1, W 0x73 0x48, W 0x74 0x30, W 0x75 0x8A, W 0x76 0x3D, W 0x77 0x71, W 0x78 0x33,
      W 0x79 0x99, W 0x7A 0x99, W 0x7B 0x9A, W 0x7C 0x36, W 0x7D 0xA8, W 0x7E 0xF5, W 0x7F 0xC3,
      W 0x00 0x04, W 0x08 0x39, W 0x09 0xB8, W 0x0A 0x51, W 0x0B 0xEC, W 0x0C 0x3C, W 0x0D 0xC7,
      W 0x0E 0xAE, W 0x0F 0x14, W 0x10 0x3F, W 0x11 0xD7, W 0x12 0x0A, W 0x13 0x3D, W 0x54 0x17,
      W 0x55 0x99, W 0x56 0x99, W 0x57 0x9A, W 0x6C 0x00, W 0x6D 0x00, W 0x6E 0x00, W 0x6F 0x17,
      W 0x00 0x00, W 0x03 0x20, W 0x04 0xC6, W 0x0A 0x03, W 0x12 0x12, W 0x13 0x76, W 0x14 0x01,
      W 0x15 0x2E, W 0x17 0x0E, W 0x19 0x00, W 0x33 0x34, W 0x34 0x4B, W 0x3B 0x38, W 0x3D 0x08,
      W 0x3E 0x10, W 0x3F 0x00, W 0x40 0xB6, W 0x00 0x01, W 0x08 0x40, W 0x00 0x02, W 0x0C 0x40,
      W 0x0D 0x00, W 0x0E 0x00, W 0x0F 0x00, W 0x10 0x03, W 0x11 0x4A, W 0x12 0x51, W 0x13 0x6C,
      W 0x00 0x04, W 0x74 0x7F, W 0x75 0xFB, W 0x76 0xB6, W 0x77 0x14, W 0x78 0x80, W 0x79 0x04,
      W 0x7A 0x49, W 0x7B 0xED, W 0x7C 0x7F, W 0x7D 0xF7, W 0x7E 0x6C, W 0x7F 0x28, W 0x00 0x02,
      W 0x68 0x7F, W 0x69 0xFB, W 0x6A 0xB6, W 0x6B 0x14, W 0x6C 0x80, W 0x6D 0x04, W 0x6E 0x49,
      W 0x6F 0xED, W 0x70 0x7F, W 0x71 0xF7, W 0x72 0x6C, W 0x73 0x28, W 0x14 0x2D, W 0x15 0x6A,
      W 0x16 0x86, W 0x17 0x6F, W 0x18 0x47, W 0x19 0x5C, W 0x1A 0x28, W 0x1B 0xF6, W 0x1C 0x16,
      W 0x1D 0x66, W 0x1E 0x66, W 0x1F 0x66, W 0x20 0x1A, W 0x21 0x66, W 0x22 0x66, W 0x23 0x66,
      W 0x24 0x08, W 0x25 0x00, W 0x26 0x00, W 0x27 0x00, W 0x28 0x17, W 0x29 0x33, W 0x2A 0x33,
      W 0x2B 0x33, W 0x2C 0x15, W 0x2D 0x99, W 0x2E 0x99, W 0x2F 0x9A, W 0x00 0x05, W 0x24 0x7F,
      W 0x25 0xFE, W 0x26 0xFD, W 0x27 0x47, W 0x2C 0xFE, W 0x2D 0xFE, W 0x2E 0xA4, W 0x2F 0xB5,
      W 0x40 0x00, W 0x41 0x00, W 0x42 0x03, W 0x43 0x20, W 0x44 0x02, W 0x45 0x46, W 0x46 0xB4,
      W 0x47 0xE4, W 0x1C 0x01, W 0x1D 0xC9, W 0x1E 0x24, W 0x1F 0x92, W 0x20 0x00, W 0x21 0x12,
      W 0x22 0x49, W 0x23 0x25, W 0x00 0x02, W 0x5C 0x00, W 0x5D 0x01, W 0x5E 0x09, W 0x5F 0x45,
      W 0x64 0x00, W 0x65 0x00, W 0x66 0x12, W 0x67 0xC0, W 0x40 0x04, W 0x41 0xCC, W 0x42 0xCC,
      W 0x43 0xCD, W 0x4C 0x00, W 0x4D 0x00, W 0x4E 0x00, W 0x4F 0x00, W 0x00 0x03, W 0x24 0x39,
      W 0x25 0x80, W 0x26 0x00, W 0x27 0x00, W 0x18 0x72, W 0x18 0x14, W 0x1A 0x82, W 0x1B 0xC0,
      W 0x1C 0x00, W 0x1D 0x00, W 0x1E 0x00, W 0x1F 0x64, W 0x20 0x40, W 0x21 0xBD, W 0x22 0xB7,
      W 0x23 0xC0, W 0x28 0x2D, W 0x29 0x6A, W 0x2A 0x86, W 0x2B 0x6F, W 0x00 0x00, W 0x04 0xC6,
      W 0x0A 0x03, W 0x31 0x40, W 0x00 0x00, W 0x7F 0x00, W 0x00 0x00, W 0x02 0x00]"

definition amp_step_t :: "amp_cmd \<Rightarrow> tas_st \<Rightarrow> tas_st option" where
  "amp_step_t c s = (case c of W r v \<Rightarrow> tas_put_t r v s | D n \<Rightarrow> Some (usleep n s))"

definition Pega_AMP_Initialize_t :: "rat \<Rightarrow> tas_st \<Rightarrow> tas_st option" where
  "Pega_AMP_Initialize_t fdB s = do {
     s \<leftarrow> seq_opt (map amp_step_t amp_script_t) (usleep 300000 (Pega_Gpio_init_t s));
     if fdB > 0 then Pega_AMP_Volume_Control_t fdB s else Some s
   }"

definition load_and_volume :: "tas_st \<Rightarrow> tas_st option" where
  "load_and_volume s = do {
     (r, s) \<leftarrow> Parser_audio_ai_config s;
     Pega_AMP_Volume_Control_t (23 / 2) s
   }"

definition default_config :: string where "default_config = ''/settings/tas2563.cfg''"

definition TAS2563_command :: "string list \<Rightarrow> tas_st \<Rightarrow> tas_st option" where
  "TAS2563_command args s =
     (let argc = length args; c = args ! 1 in
      if c = ''init'' then Pega_AMP_Initialize_t (if argc > 2 then f32 (atof (args ! 2)) else 0) s
      else if c = ''hw'' then Some (Pega_Gpio_HW_Amp_Reset s)
      else if c = ''mute'' then
        (if argc < 3 then Some (show_line Tool_help s)
         else Pega_AMP_Software_Mute_t (if (word_of_int (strtol16 (args ! 2)) :: u8) > 0 then 1 else 0) s)
      else if c = ''cfg'' then do {
        s \<leftarrow> copy_path default_config s;
        s \<leftarrow> (if argc > 2 then copy_path (args ! 2) s else Some s);
        load_and_volume (Pega_Gpio_init_t s)
      }
      else if c = ''vol''
        then Pega_AMP_Volume_Control_t (if argc > 2 then f32 (atof (args ! 2)) else 17 / 2) s
      else if c = ''dump'' then Pega_AMP_Reg_Data_Print_t s
      else if c = ''reset'' then do {
        s \<leftarrow> copy_path default_config s;
        load_and_volume (Pega_Gpio_HW_Amp_Reset s)
      }
      else if c = ''read'' then
        (if argc < 3 then Some (show_line Tool_help s)
         else do {
           let regAddr = word_of_int (strtol16 (args ! 2));
           (v, s) \<leftarrow> Pega_AMP_Reg_Read_t (ucast regAddr) s;
           Some (show_line (Tool_value regAddr (ucast v)) s)
         })
      else if c = ''write'' then
        (if argc < 4 then Some (show_line Tool_help s)
         else do {
           let regAddr = word_of_int (strtol16 (args ! 2));
           let regData = word_of_int (strtol16 (args ! 3));
           s \<leftarrow> Pega_AMP_Reg_Write_t (ucast regAddr) (ucast regData) s;
           Some (show_line (Tool_value regAddr regData) s)
         })
      else Some (show_line Tool_help s))"

definition TAS2563_main :: "string list \<Rightarrow> tas_st \<Rightarrow> tas_st option" where
  "TAS2563_main args s = do {
     s \<leftarrow> pega_i2cOpen ''/dev/i2c-0'' s;
     if length args \<le> 1 then Some (cmd_err s) else map_option pega_i2cClose (TAS2563_command args s)
   }"

end
