(* ===== verification/Same_Log.thy ===== *)
theory Same_Log
  imports Misc_Amp
begin

text \<open>
  Two programs that have copies of the same code: a relation between their states that only asks for
  the same environment and the same log, the operations that keep it, and the locale
  \<open>same_log\<close>, which gives this for the pins and the sleeps that both use.
\<close>

subsection \<open>Steps in parallel\<close>

definition in_step :: "('s \<Rightarrow> 't \<Rightarrow> bool) \<Rightarrow> ('s \<Rightarrow> 's option) \<Rightarrow> ('t \<Rightarrow> 't option) \<Rightarrow> bool" where
  "in_step R f g \<longleftrightarrow> (\<forall>s t. R s t \<longrightarrow> rel_option R (f s) (g t))"

definition in_parallel :: "('s \<Rightarrow> 't \<Rightarrow> bool) \<Rightarrow> ('s \<Rightarrow> 's) \<Rightarrow> ('t \<Rightarrow> 't) \<Rightarrow> bool" where
  "in_parallel R f g \<longleftrightarrow> (\<forall>s t. R s t \<longrightarrow> R (f s) (g t))"

lemma in_stepI: "(\<And>s t. R s t \<Longrightarrow> rel_option R (f s) (g t)) \<Longrightarrow> in_step R f g"
  by (simp add: in_step_def)

lemma in_stepD: "in_step R f g \<Longrightarrow> R s t \<Longrightarrow> rel_option R (f s) (g t)"
  by (simp add: in_step_def)

lemma in_parallelI: "(\<And>s t. R s t \<Longrightarrow> R (f s) (g t)) \<Longrightarrow> in_parallel R f g"
  by (simp add: in_parallel_def)

lemma in_parallelD: "in_parallel R f g \<Longrightarrow> R s t \<Longrightarrow> R (f s) (g t)"
  by (simp add: in_parallel_def)

lemma in_parallel_id: "in_parallel R (\<lambda>s. s) (\<lambda>t. t)"
  by (simp add: in_parallel_def)

lemma in_parallel_seq: "list_all2 (in_parallel R) fs gs \<Longrightarrow> in_parallel R (seq fs) (seq gs)"
  by (induction rule: list_all2_induct) (simp_all add: in_parallel_def)

lemma in_parallel_power: "in_parallel R f g \<Longrightarrow> in_parallel R (f ^^ n) (g ^^ n)"
  by (induction n) (simp_all add: in_parallel_def)

lemma in_parallel_fold: "(\<And>x. in_parallel R (f x) (g x)) \<Longrightarrow> in_parallel R (fold f xs) (fold g xs)"
  by (induction xs) (simp_all add: in_parallel_def)

lemma in_step_Some: "in_parallel R f g \<Longrightarrow> in_step R (\<lambda>s. Some (f s)) (\<lambda>t. Some (g t))"
  by (simp add: in_step_def in_parallel_def)

lemma in_step_bind:
  assumes "rel_option R x y" and "in_step R f g"
  shows "rel_option R (Option.bind x f) (Option.bind y g)"
  using assms(1) by (cases rule: option.rel_cases) (simp_all add: in_stepD [OF assms(2)])

lemma in_step_seq: "list_all2 (in_step R) fs gs \<Longrightarrow> in_step R (seq_opt fs) (seq_opt gs)"
proof (induction rule: list_all2_induct)
  case (Cons f fs g gs)
  then show ?case by (auto intro!: in_stepI in_step_bind dest: in_stepD)
qed (simp add: in_step_def)

text \<open>A result with a value: the values agree as well.\<close>

lemma rel_value:
  assumes "rel_option (rel_prod (=) R) x y"
  shows "rel_option R (map_option snd x) (map_option snd y)"
  using assms by (cases rule: option.rel_cases) auto

subsection \<open>Pins and sleeps\<close>

locale same_log =
  fixes R :: "'a gpio_st_scheme \<Rightarrow> 'b gpio_st_scheme \<Rightarrow> bool"
  assumes look: "R s t \<Longrightarrow> menv s = menv t \<and> mlog s = mlog t"
    and logs: "R s t \<Longrightarrow> R (emit e s) (emit e t)"
begin

lemma emits: "in_parallel R (emit e) (emit e)"
  by (rule in_parallelI) (rule logs)

lemma sleeps: "in_parallel R (usleep n) (usleep n)"
  unfolding usleep_def by (rule emits)

lemma emits_seq: "R s t \<Longrightarrow> R (seq (map emit es) s) (seq (map emit es) t)"
  by (rule in_parallelD [OF in_parallel_seq]) (simp_all add: list_all2_conv_all_nth emits)

lemma opens:
  assumes "R s t"
  shows "rel_prod (=) R (sys_open p s) (sys_open p t)"
  using look [OF assms] logs [OF assms] by (simp add: sys_open_def Let_def)

lemma pin_set:
  assumes "R s t"
  shows "rel_prod (=) R (Pega_Gpio_pin_output_set pin high s) (Pega_Gpio_pin_output_set pin high t)"
  using opens [OF assms, of "Gpio_value pin"] unfolding Pega_Gpio_pin_output_set_def
  by (cases "sys_open (Gpio_value pin) s"; cases "sys_open (Gpio_value pin) t") (auto simp: logs)

lemma pins: "in_parallel R (pin_out pin high) (pin_out pin high)"
proof (rule in_parallelI)
  fix s t assume "R s t"
  from pin_set [OF this, of pin high] show "R (pin_out pin high s) (pin_out pin high t)"
    unfolding pin_out_def rel_prod_sel by simp
qed

lemma pin_init: "in_parallel R (gpio_init_pin x) (gpio_init_pin x)"
proof (rule in_parallelI)
  fix s t assume R: "R s t"
  obtain pin inp high where x: "x = (pin, inp, high)" by (cases x)
  obtain ok s1 where s1: "sys_open Gpio_export s = (ok, s1)" by force
  then obtain t1 where t1: "sys_open Gpio_export t = (ok, t1)" "R s1 t1"
    using opens [OF R, of Gpio_export] by (cases "sys_open Gpio_export t") auto
  let ?w = "[emit (Write_file Gpio_export (show_int pin)), emit (Close Gpio_export)]"
  have w: "R (seq ?w s1) (seq ?w t1)" using t1(2) by (simp add: logs)
  obtain ok2 s2 where s2: "sys_open (Gpio_direction pin) (seq ?w s1) = (ok2, s2)" by force
  then obtain t2 where t2: "sys_open (Gpio_direction pin) (seq ?w t1) = (ok2, t2)" "R s2 t2"
    using opens [OF w, of "Gpio_direction pin"] by (cases "sys_open (Gpio_direction pin) (seq ?w t1)") auto
  have "R (snd (Pega_Gpio_pin_output_set pin high s3)) (snd (Pega_Gpio_pin_output_set pin high t3))"
    if "R s3 t3" for s3 t3 using in_parallelD [OF pins that] by (simp add: pin_out_def)
  then show "R (gpio_init_pin x s) (gpio_init_pin x t)"
    using t1(2) t2(2) s1 s2 t1(1) t2(1)
    by (simp add: x gpio_init_pin_def Pega_Gpio_pin_state_init_def Let_def logs)
qed

end

end
