(* ===== verification/Tool_Props.thy ===== *)
theory Tool_Props
  imports Tool_Amp Same_Log Misc_Sound Misc_Als_Props
begin

text \<open>What the register tools do to their chips, and what the amplifier tool shares with the daemon.\<close>

unbundle bit_operations_syntax

subsection \<open>Amplifier\<close>

text \<open>A state of the tool and one of the daemon on the same bus.\<close>

definition alike :: "tas_st \<Rightarrow> 'a amp_st_scheme \<Rightarrow> bool" where
  "alike s t \<longleftrightarrow> menv s = menv t \<and> mlog s = mlog t \<and> g_i2cFile s = m_Amp_i2cFile t \<and> 0 < m_Amp_i2cFile t"

interpretation amp_tool: same_log alike
  by unfold_locales (simp_all add: alike_def emit_def)

lemma alike_write:
  assumes "alike s t"
  shows "rel_option (rel_prod (=) alike) (tas2563_i2c_write_t r v s) (tas2563_i2c_write r v t)"
  using assms amp_tool.logs [OF assms]
  by (simp add: tas2563_i2c_write_t_def tas2563_i2c_write_def pega_i2c_Write_t_def pega_i2c_Write_def
      pega_i2cSetAddress_def bus_write_def alike_def)

lemma alike_read:
  assumes "alike s t"
  shows "rel_option (\<lambda>(i, v, s) (j, w, t). (i < 0 \<longleftrightarrow> j < 0) \<and> (i < 0 \<longrightarrow> i = j) \<and> v = w \<and> alike s t)
    (tas2563_i2c_read_t r s) (tas2563_i2c_read r t)"
  using assms
  by (simp add: tas2563_i2c_read_t_def tas2563_i2c_read_def pega_i2c_Read_t_def pega_i2c_Read_def
      pega_i2cSetAddress_def bus_write_def alike_def emit_def Let_def split: option.split)

lemma alike_update:
  assumes "alike s t"
  shows "rel_option (rel_prod (=) alike) (tas2563_update_bits_t r m v s) (tas2563_update_bits r m v t)"
  using alike_read [OF assms, of r]
proof (cases rule: option.rel_cases)
  case None
  then show ?thesis by (simp add: tas2563_update_bits_t_def tas2563_update_bits_def)
next
  case (Some x y)
  obtain i a s' where x: "x = (i, a, s')" by (cases x) auto
  obtain j b t' where y: "y = (j, b, t')" by (cases y) auto
  have *: "(i < 0 \<longleftrightarrow> j < 0)" "i < 0 \<Longrightarrow> i = j" "a = b" "alike s' t'" using Some(3) by (simp_all add: x y)
  have "rel_option (rel_prod (=) alike) (tas2563_i2c_write_t r ((b AND NOT m) OR (v AND m)) s')
      (tas2563_i2c_write r ((b AND NOT m) OR (v AND m)) t')"
    using *(4) by (rule alike_write)
  then show ?thesis
    using Some(1,2) *
    by (auto simp: x y tas2563_update_bits_t_def tas2563_update_bits_def Let_def elim!: option.rel_cases)
qed

lemma put_in_step: "in_step alike (tas_put_t r v) (tas_put r v)"
  unfolding tas_put_t_def tas_put_def by (rule in_stepI) (rule rel_value [OF alike_write])

lemma update_in_step: "in_step alike (update_only_t r m v) (update_only r m v)"
  unfolding update_only_t_def update_only_def by (rule in_stepI) (rule rel_value [OF alike_update])

text \<open>The operations of the tool that are the daemon's.\<close>

lemma page0_in_step: "list_all2 (in_step alike) page0_t page0"
  by (simp add: page0_t_def page0_def put_in_step)

lemma page0_op_in_step: "in_step alike f g \<Longrightarrow> in_step alike (seq_opt (page0_t @ [f])) (seq_opt (page0 @ [g]))"
  by (intro in_step_seq list_all2_appendI page0_in_step) simp

lemma same_volume: "volume_code_t d = volume_code d"
  by (simp add: volume_code_t_def volume_code_def)

lemma same_script: "amp_script_t = amp_script"
  by (simp only: amp_script_t_def amp_script_def)

lemma volume_in_step: "in_step alike (Pega_AMP_Volume_Control_t d) (Pega_AMP_Volume_Control d)"
  unfolding Pega_AMP_Volume_Control_t_def Pega_AMP_Volume_Control_def same_volume
  by (rule page0_op_in_step, rule update_in_step)

lemma mute_in_step: "in_step alike (Pega_AMP_Software_Mute_t b) (Pega_AMP_Software_Mute b)"
  unfolding Pega_AMP_Software_Mute_t_def Pega_AMP_Software_Mute_def
  by (rule page0_op_in_step, rule update_in_step)

lemma reg_write_in_step: "in_step alike (Pega_AMP_Reg_Write_t r v) (Pega_AMP_Reg_Write r v)"
  unfolding Pega_AMP_Reg_Write_t_def Pega_AMP_Reg_Write_def
  by (rule page0_op_in_step, rule put_in_step)

lemma amp_in_step: "in_step alike (amp_step_t c) (amp_step c)"
  using put_in_step in_step_Some [OF amp_tool.sleeps]
  by (cases c) (simp_all add: amp_step_t_def [abs_def] amp_step_def [abs_def])

lemma script_in_step: "in_step alike (seq_opt (map amp_step_t amp_script_t)) (seq_opt (map amp_step amp_script))"
  unfolding same_script by (rule in_step_seq) (simp add: list_all2_conv_all_nth amp_in_step)

text \<open>The tool sets its one pin up first, the daemon has done so when it started.\<close>

lemma start_in_step:
  assumes "alike s t"
  shows "rel_option alike (Pega_AMP_Initialize_t d s)
    (Pega_AMP_Initialize False d (gpio_init_pin (IO_O_AUDIO_SHUTDOWN, 0, 0) t))"
proof -
  have reset: "in_parallel alike Pega_Gpio_HW_Amp_Reset Pega_Gpio_HW_Amp_Reset"
    unfolding Pega_Gpio_HW_Amp_Reset_def IO_AMP_SHUTDOWN_def
    by (rule in_parallel_seq) (simp add: amp_tool.pins amp_tool.sleeps)
  have "alike (usleep 300000 (Pega_Gpio_init_t s))
      (usleep 300000 (Pega_Gpio_HW_Amp_Reset (gpio_init_pin (IO_O_AUDIO_SHUTDOWN, 0, 0) t)))"
    using in_parallelD [OF amp_tool.sleeps [of 300000] in_parallelD [OF reset
        in_parallelD [OF amp_tool.pin_init [of "(IO_O_AUDIO_SHUTDOWN, 0, 0)"] assms]]]
    by (simp add: Pega_Gpio_init_t_def gpio_init_pin_def)
  from in_stepD [OF script_in_step this] show ?thesis
    unfolding Pega_AMP_Initialize_t_def Pega_AMP_Initialize_def
    by (cases rule: option.rel_cases) (simp_all add: Let_def in_stepD [OF volume_in_step])
qed

lemma alike_line:
  assumes "alike s t"
  shows "rel_option (rel_prod (=) alike) (cfg_line_t l r s) (cfg_line l r t)"
proof -
  have put: "rel_option (rel_prod (=) alike) (map_option (Pair q) (tas_put_t a v s)) (map_option (Pair q) (tas_put a v t))"
    for q :: u8 and a v
    using in_stepD [OF put_in_step assms, of a v] by (cases rule: option.rel_cases) auto
  have "alike (usleep 10 s) (usleep 10 t)" by (rule in_parallelD [OF amp_tool.sleeps assms])
  then show ?thesis
    using assms put unfolding cfg_line_t_def cfg_line_def Let_def
    by (auto split: list.split simp del: option.rel_map)
qed

lemma alike_config:
  assumes "alike s t"
  shows "rel_option alike (cfg_loop_t inp buf r s) (cfg_loop inp buf r t)"
  using assms
proof (induction "length inp" arbitrary: inp buf r s t rule: less_induct)
  case less
  obtain l rest eof where tl: "take_line 59 inp = (l, rest, eof)" by (cases "take_line 59 inp") auto
  define ln where "ln = (if inp = [] then buf else l)"
  define b where "b = takeWhile (\<lambda>c. c = CHR '' '') (butlast ln) @ hd (tokens [] (butlast ln))"
  have run_t: "cfg_loop_t inp buf r s = (if ln = [] then None else if butlast ln = ''end'' then Some s
      else Option.bind (cfg_line_t (butlast ln) r s) (\<lambda>(r, s). if eof then Some s else cfg_loop_t rest b r s))"
    by (subst cfg_loop_t.simps) (simp only: tl Let_def ln_def b_def prod.case)
  have run: "cfg_loop inp buf r t = (if ln = [] then None else if butlast ln = ''end'' then Some t
      else Option.bind (cfg_line (butlast ln) r t) (\<lambda>(r, s). if eof then Some s else cfg_loop rest b r s))"
    by (subst cfg_loop.simps) (simp only: tl Let_def ln_def b_def prod.case)
  have IH: "rel_option alike (cfg_loop_t rest b q s') (cfg_loop rest b q t')" if "\<not> eof" "alike s' t'" for q s' and t' :: "'a amp_st_scheme"
    using less.hyps [OF take_line_more [OF tl that(1)] that(2)] .
  from alike_line [OF less.prems, of "butlast ln" r] show ?case
    unfolding run_t run by (cases rule: option.rel_cases) (use less.prems IH in auto)
qed

text \<open>
  C35: The amplifier tool does to the bus and the pins what the daemon does. From the same log, with the
  same open descriptor of the bus and with the default configuration file as the tool's, the volume, the
  mute switch, a register write and the configuration file leave the same log, although a read that worked
  has another result code. The tool's built-in script is byte by byte the daemon's, and a start with it
  leaves the log that it leaves in a daemon which has just set up the shutdown pin.
\<close>

theorem amp_tool_like_daemon:
  assumes "menv s = menv t" and "mlog s = mlog t" and "g_i2cFile s = m_Amp_i2cFile t"
    and "0 < m_Amp_i2cFile t" and "config_path s = Some default_config"
  shows "map_option mlog (Pega_AMP_Volume_Control_t d s) = map_option mlog (Pega_AMP_Volume_Control d t) \<and>
    map_option mlog (Pega_AMP_Software_Mute_t b s) = map_option mlog (Pega_AMP_Software_Mute b t) \<and>
    map_option mlog (Pega_AMP_Reg_Write_t r v s) = map_option mlog (Pega_AMP_Reg_Write r v t) \<and>
    amp_script_t = amp_script \<and>
    map_option mlog (Pega_AMP_Initialize_t d s) =
      map_option mlog (Pega_AMP_Initialize False d (gpio_init_pin (IO_O_AUDIO_SHUTDOWN, 0, 0) t)) \<and>
    map_option mlog (map_option snd (Parser_audio_ai_config s)) =
      map_option mlog (map_option snd (tas2563_load_audio_config_file t))"
proof -
  have R: "alike s t" using assms(1-4) by (simp add: alike_def)
  have log: "map_option mlog x = map_option mlog y" if "rel_option alike x y" for x and y :: "'a amp_st_scheme option"
    using that by (cases rule: option.rel_cases) (simp_all add: alike_def)
  have "map_option snd (Parser_audio_ai_config s) = (case text_file (menv s) (mlog s) default_config of
      None \<Rightarrow> Some s | Some c \<Rightarrow> cfg_loop_t c [] 0 s)"
    "map_option snd (tas2563_load_audio_config_file t) = (case text_file (menv s) (mlog s) default_config of
      None \<Rightarrow> Some t | Some c \<Rightarrow> cfg_loop c [] 0 t)"
    using assms(1,2,5) by (simp_all add: Parser_audio_ai_config_def tas2563_load_audio_config_file_def
        default_config_def option.map_comp option.map_ident comp_def split: option.split)
  moreover have "rel_option alike (case text_file (menv s) (mlog s) default_config of
      None \<Rightarrow> Some s | Some c \<Rightarrow> cfg_loop_t c [] 0 s) (case text_file (menv s) (mlog s) default_config of
      None \<Rightarrow> Some t | Some c \<Rightarrow> cfg_loop c [] 0 t)"
    using R alike_config [OF R] by (simp split: option.split)
  ultimately show ?thesis
    using in_stepD [OF volume_in_step R] in_stepD [OF mute_in_step R] in_stepD [OF reg_write_in_step R]
      start_in_step [OF R] same_script by (intro conjI) (simp_all only: log)
qed

text \<open>A path shorter than the default keeps the end of the default.\<close>

lemma short_path_keeps_the_tail:
  assumes "copy_path default_config s = Some t" and "copy_path p t = Some u"
    and "m_ps8audaiConfigFile s = replicate 50 (CHR 0x00)"
    and "length p \<le> length default_config" and "CHR 0x00 \<notin> set p"
  shows "config_path u = Some (p @ drop (length p) default_config)"
proof -
  have "m_ps8audaiConfigFile t = default_config @ replicate 29 (CHR 0x00)"
    using assms(1,3) by (auto simp: copy_path_def default_config_def)
  then have u: "m_ps8audaiConfigFile u = (p @ drop (length p) default_config) @ replicate 29 (CHR 0x00)"
    using assms(2,4) by (auto simp: copy_path_def split: if_splits)
  have "CHR 0x00 \<notin> set default_config" by (simp add: default_config_def)
  then have "CHR 0x00 \<notin> set (p @ drop (length p) default_config)"
    using assms(5) by (auto dest: in_set_dropD)
  then show ?thesis unfolding config_path_def u by (subst takeWhile_append2) auto
qed

definition tas_board :: tas_st where
  "tas_board = (tas_static amp_env)\<lparr>g_i2cFile := 4,
     m_ps8audaiConfigFile := default_config @ replicate 29 (CHR 0x00)\<rparr>"

theorem amp_tool_like_daemon_witness:
  "map_option mlog (Pega_AMP_Volume_Control_t 12 tas_board) = map_option mlog (Pega_AMP_Volume_Control 12 amp_board) \<and>
   map_option mlog (Pega_AMP_Software_Mute_t 1 tas_board) = map_option mlog (Pega_AMP_Software_Mute 1 amp_board)"
proof -
  have "menv tas_board = menv amp_board" "mlog tas_board = mlog amp_board"
    "g_i2cFile tas_board = m_Amp_i2cFile amp_board" "0 < m_Amp_i2cFile amp_board"
    by (simp_all add: tas_board_def tas_static_def tool_static_def tool_st.defs amp_board_def misc_static_def nv_initial_def)
  moreover have "config_path tas_board = Some default_config"
    by (simp add: tas_board_def config_path_def default_config_def)
  ultimately show ?thesis using amp_tool_like_daemon [of tas_board amp_board] by blast
qed

subsection \<open>Light sensor\<close>

lemma tool_frame: "g_i2cFile (emit e s) = g_i2cFile s" "tool_out (emit e s) = tool_out s"
  for s :: "'a tool_st_scheme"
  by (simp_all add: emit_def)

text \<open>Whatever the bus answers, a read never returns the code the tool asks for.\<close>

lemma light_read_code:
  assumes "OPT300X_I2C_ReadFromSlave_t r s = Some (ret, v, t)"
  shows "ret \<noteq> SUCCEED \<and> o_fLux t = o_fLux s \<and> o_wDeviceID t = o_wDeviceID s"
  using assms by (auto simp: OPT300X_I2C_ReadFromSlave_t_def pega_i2c_Read_t_def pega_i2cSetAddress_def
      bus_write_def emit_def Let_def split: if_split_asm option.split_asm)

lemma light_write_frame:
  assumes "OPT300X_I2C_WriteToSlave_t r v s = Some (ret, t)"
  shows "o_fLux t = o_fLux s \<and> o_wDeviceID t = o_wDeviceID s"
  using assms by (auto simp: OPT300X_I2C_WriteToSlave_t_def pega_i2c_Write_t_def pega_i2cSetAddress_def
      bus_write_def emit_def split: if_split_asm)

text \<open>What a read and a write put on the bus, and that they return once the slave can be selected.\<close>

definition register_read :: "u8 \<Rightarrow> misc_io list set" where
  "register_read r = {[I2c_write 0x44 [r]], [I2c_read 0x44 2, I2c_write 0x44 [r]]}"

lemma light_read_log:
  assumes "OPT300X_I2C_ReadFromSlave_t r s = Some (ret, v, t)"
  shows "\<exists>es\<in>register_read r. mlog t = es @ mlog s" and "menv t = menv s" and "g_i2cFile t = g_i2cFile s"
  using assms by (auto simp: OPT300X_I2C_ReadFromSlave_t_def pega_i2c_Read_t_def pega_i2cSetAddress_def register_read_def
      bus_write_def emit_def i2c_reg_bytes_def i2c_read_len_def reg_byte Let_def split: if_split_asm option.split_asm)

lemma light_write_log:
  assumes "OPT300X_I2C_WriteToSlave_t r v s = Some (ret, t)"
  shows "mlog t = I2c_write 0x44 [r, byte_of 8 v, byte_of 0 v] # mlog s" and "menv t = menv s" and "g_i2cFile t = g_i2cFile s"
  using assms by (auto simp: OPT300X_I2C_WriteToSlave_t_def pega_i2c_Write_t_def pega_i2cSetAddress_def
      bus_write_def emit_def i2c_bytes_def reg_byte split: if_split_asm)

lemma light_returns:
  assumes "\<forall>h. i2c_slave_ok (menv s) h (g_i2cFile s) 0x44"
  shows "OPT300X_I2C_ReadFromSlave_t r s \<noteq> None" and "OPT300X_I2C_WriteToSlave_t r v s \<noteq> None"
  using assms by (simp_all add: OPT300X_I2C_ReadFromSlave_t_def pega_i2c_Read_t_def OPT300X_I2C_WriteToSlave_t_def
      pega_i2c_Write_t_def pega_i2cSetAddress_def bus_write_def Let_def split: option.split)

text \<open>The two operations with the code of the read known.\<close>

lemma light_handler_run:
  "OPT300x_Processing_Handler s = map_option (\<lambda>(ret, v, t). (FAILED, t)) (OPT300X_I2C_ReadFromSlave_t OPT300x_REG_SYS_CONF s)"
proof (cases "OPT300X_I2C_ReadFromSlave_t OPT300x_REG_SYS_CONF s")
  case (Some x)
  obtain ret v t where x: "x = (ret, v, t)" by (cases x)
  with Some light_read_code show ?thesis
    by (simp add: OPT300x_Processing_Handler_def OPT300x_Enable_Read_Lux_def OPT300x_Is_Ready_Check_def)
qed (simp add: OPT300x_Processing_Handler_def OPT300x_Enable_Read_Lux_def OPT300x_Is_Ready_Check_def)

lemma light_init_run:
  "OPT300x_Device_Init_t s = Option.bind
     (OPT300X_I2C_WriteToSlave_t OPT300x_REG_SYS_CONF 0xC800 (s\<lparr>o_wDeviceID := 0, o_wConfReg := 0xC800\<rparr>))
     (\<lambda>(r, s). map_option (\<lambda>(ret, v, t). t) (OPT300X_I2C_ReadFromSlave_t OPT300x_REG_DEVICE_ID s))"
proof -
  have "OPT300x_set_mode_t 0 (s\<lparr>o_wDeviceID := 0, o_wConfReg := 0xC800\<rparr>) = s\<lparr>o_wDeviceID := 0, o_wConfReg := 0xC800\<rparr>"
    by (simp add: OPT300x_set_mode_t_def)
  moreover have "Option.bind (OPT300X_I2C_ReadFromSlave_t r u)
      (\<lambda>(ret, v, t). Some (if ret = SUCCEED then t\<lparr>o_wDeviceID := v\<rparr> else t)) =
    map_option (\<lambda>(ret, v, t). t) (OPT300X_I2C_ReadFromSlave_t r u)" for r u
    using light_read_code [of r u] by (cases "OPT300X_I2C_ReadFromSlave_t r u") auto
  ultimately show ?thesis
    by (simp add: OPT300x_Device_Init_t_def Let_def)
qed

text \<open>
  C36: On every bus, working or not, the light sensor tool neither measures nor recognises its device: a
  read that worked returns 0, and its callers wait for \<open>SUCCEED\<close>, which is 1. When the processing handler
  returns, it reports a failure, the light level is as it was and all it has done is a read of the
  configuration register. When the initialisation returns, the device id is 0; it has written 0xC800 to
  the configuration register and tried to read the device id. Both return whenever the slave address can
  be selected; otherwise the tool ends the process.
\<close>

theorem light_tool_never_measures:
  "(\<forall>r t. OPT300x_Processing_Handler s = Some (r, t) \<longrightarrow> r = FAILED \<and> o_fLux t = o_fLux s \<and>
      (\<exists>es\<in>register_read OPT300x_REG_SYS_CONF. mlog t = es @ mlog s)) \<and>
   (\<forall>t. OPT300x_Device_Init_t s = Some t \<longrightarrow> o_wDeviceID t = 0 \<and> o_fLux t = o_fLux s \<and>
      (\<exists>es\<in>register_read OPT300x_REG_DEVICE_ID. mlog t = es @ I2c_write 0x44 [OPT300x_REG_SYS_CONF, 0xC8, 0x00] # mlog s)) \<and>
   ((\<forall>h. i2c_slave_ok (menv s) h (g_i2cFile s) 0x44) \<longrightarrow>
      OPT300x_Processing_Handler s \<noteq> None \<and> OPT300x_Device_Init_t s \<noteq> None)"
proof (intro conjI allI impI)
  fix r t assume run: "OPT300x_Processing_Handler s = Some (r, t)"
  then obtain q v where rd: "OPT300X_I2C_ReadFromSlave_t OPT300x_REG_SYS_CONF s = Some (q, v, t)"
    by (auto simp: light_handler_run)
  show "r = FAILED" using run rd by (simp add: light_handler_run)
  show "o_fLux t = o_fLux s" using light_read_code [OF rd] by simp
  show "\<exists>es\<in>register_read OPT300x_REG_SYS_CONF. mlog t = es @ mlog s" by (rule light_read_log [OF rd])
next
  let ?w = "s\<lparr>o_wDeviceID := 0, o_wConfReg := 0xC800\<rparr>"
  fix t assume "OPT300x_Device_Init_t s = Some t"
  then obtain q u p v where wr: "OPT300X_I2C_WriteToSlave_t OPT300x_REG_SYS_CONF 0xC800 ?w = Some (q, u)"
    and rd: "OPT300X_I2C_ReadFromSlave_t OPT300x_REG_DEVICE_ID u = Some (p, v, t)"
    by (auto simp: light_init_run split: Option.bind_splits)
  show "o_wDeviceID t = 0" "o_fLux t = o_fLux s" using light_read_code [OF rd] light_write_frame [OF wr] by simp_all
  have "byte_of 8 (0xC800 :: u16) = 0xC8" "byte_of 0 (0xC800 :: u16) = 0" by (simp_all add: byte_of_def)
  then show "\<exists>es\<in>register_read OPT300x_REG_DEVICE_ID. mlog t = es @ I2c_write 0x44 [OPT300x_REG_SYS_CONF, 0xC8, 0x00] # mlog s"
    using light_read_log(1) [OF rd] light_write_log(1) [OF wr] by simp
next
  let ?w = "s\<lparr>o_wDeviceID := 0, o_wConfReg := 0xC800\<rparr>"
  assume ok: "\<forall>h. i2c_slave_ok (menv s) h (g_i2cFile s) 0x44"
  show "OPT300x_Processing_Handler s \<noteq> None" using light_returns(1) [OF ok] by (simp add: light_handler_run)
  have "\<forall>h. i2c_slave_ok (menv ?w) h (g_i2cFile ?w) 0x44" using ok by simp
  then obtain q u where wr: "OPT300X_I2C_WriteToSlave_t OPT300x_REG_SYS_CONF 0xC800 ?w = Some (q, u)"
    using light_returns(2) by fastforce
  then have "OPT300X_I2C_ReadFromSlave_t OPT300x_REG_DEVICE_ID u \<noteq> None"
    using light_returns(1) [of u] light_write_log(2,3) [OF wr] ok by simp
  then show "OPT300x_Device_Init_t s \<noteq> None" by (simp add: light_init_run wr)
qed

theorem light_tool_never_measures_witness:
  "\<exists>s t u. pega_i2cOpen ''/dev/i2c-3'' (opt_static (als_env\<lparr>i2c_open := \<lambda>h dev. 3\<rparr>)) = Some s \<and>
    OPT300x_Processing_Handler s = Some (FAILED, t) \<and> o_fLux t = o_fLux s \<and>
    OPT300x_Device_Init_t s = Some u \<and> o_wDeviceID u = 0"
proof -
  define s where "s = (opt_static (als_env\<lparr>i2c_open := \<lambda>h dev. 3\<rparr>))\<lparr>g_i2cFile := 3\<rparr>"
  have s: "pega_i2cOpen ''/dev/i2c-3'' (opt_static (als_env\<lparr>i2c_open := \<lambda>h dev. 3\<rparr>)) = Some s"
    by (simp add: s_def pega_i2cOpen_def opt_static_def tool_static_def tool_st.defs Let_def)
  have "\<forall>h. i2c_slave_ok (menv s) h (g_i2cFile s) 0x44"
    using als_env_device by (simp add: als_device_def s_def opt_static_def tool_static_def tool_st.defs)
  with light_tool_never_measures [of s] s show ?thesis by fastforce
qed

subsection \<open>I/O expander\<close>

text \<open>
  The expander: a two byte write stores a register, a read delivers the register that the last write
  selected; \<open>d\<close> are the values after power-on.
\<close>

fun tca_pointer :: "misc_io list \<Rightarrow> u8" where
  "tca_pointer [] = 0"
| "tca_pointer (I2c_write a (r # bs) # h) = (if a = 0x70 then r else tca_pointer h)"
| "tca_pointer (_ # h) = tca_pointer h"

fun tca_register :: "(u8 \<Rightarrow> u8) \<Rightarrow> misc_io list \<Rightarrow> u8 \<Rightarrow> u8" where
  "tca_register d [] = d"
| "tca_register d (I2c_write a [q, x] # h) = (if a = 0x70 then (tca_register d h)(q := x) else tca_register d h)"
| "tca_register d (_ # h) = tca_register d h"

definition tca_device :: "(u8 \<Rightarrow> u8) \<Rightarrow> misc_env \<Rightarrow> bool" where
  "tca_device d env \<longleftrightarrow> (\<forall>h fd. 0 \<le> i2c_open env h ''/dev/i2c-3'' \<and> i2c_slave_ok env h fd 0x70 \<and>
     (\<forall>bs. i2c_write_ret env h fd 0x70 bs = int (length bs)) \<and>
     i2c_read_ret env h fd 0x70 1 = Some [tca_register d h (tca_pointer h)])"

lemma expander_read:
  assumes "tca_device d (menv s)"
  shows "TCA9538_I2C_ReadFromSlave r s = Some (0, tca_register d (mlog s) r,
    emit (I2c_read 0x70 1) (emit (I2c_write 0x70 [r]) s))"
proof -
  have "i2c_slave_ok (menv s) h fd 0x70" "i2c_write_ret (menv s) h fd 0x70 bs = int (length bs)"
    "i2c_read_ret (menv s) h fd 0x70 1 = Some [tca_register d h (tca_pointer h)]" for h fd bs
    using assms by (simp_all add: tca_device_def)
  then show ?thesis
    by (simp add: TCA9538_I2C_ReadFromSlave_def pega_i2c_Read_t_def pega_i2cSetAddress_def
        bus_write_def i2c_reg_bytes_def i2c_read_len_def byte_back Let_def)
qed

lemma expander_write:
  assumes "tca_device d (menv s)"
  shows "TCA9538_I2C_WriteToSlave r v s = Some (1, emit (I2c_write 0x70 [r, v]) s)"
proof -
  have "i2c_slave_ok (menv s) h fd 0x70" "i2c_write_ret (menv s) h fd 0x70 bs = int (length bs)" for h fd bs
    using assms by (simp_all add: tca_device_def)
  then show ?thesis
    by (simp add: TCA9538_I2C_WriteToSlave_def pega_i2c_Write_t_def pega_i2cSetAddress_def
        bus_write_def i2c_bytes_def byte_back)
qed

lemma expander_open:
  assumes "tca_device d (menv s)"
  shows "\<exists>fd. pega_i2cOpen ''/dev/i2c-3'' s = Some (s\<lparr>g_i2cFile := fd\<rparr>)"
  using assms by (auto simp: pega_i2cOpen_def tca_device_def Let_def not_less [symmetric])

text \<open>
  \<open>write\<close> then \<open>read\<close> of the expander tool: for every register and value the line it prints
  after the read is the one it printed after the write, the register holds the value, and the others
  are as they were.
\<close>

theorem expander_write_then_read:
  assumes "tca_device d (menv s)" and "strtol16 reg = int r" and "r < 0x100"
    and "strtol16 val = int v" and "v < 0x100"
  shows "\<exists>t u. TCA9538_main [prog, ''write'', reg, val] s = Some t \<and>
    TCA9538_main [prog, ''read'', reg] t = Some u \<and>
    tool_out u = Tool_value (word_of_nat r) (word_of_nat v) # Tool_value (word_of_nat r) (word_of_nat v) # tool_out s \<and>
    tca_register d (mlog u) = (tca_register d (mlog s))(word_of_nat r := word_of_nat v)"
proof -
  define w x :: u8 where "w = word_of_nat r" and "x = word_of_nat v"
  have c: "ucast (word_of_nat r :: u16) = w" "ucast x = (word_of_nat v :: u16)"
  proof -
    show "ucast (word_of_nat r :: u16) = w" unfolding w_def by (rule bit_eqI) (auto simp: bit_simps)
    have "unat x = v" using assms(5) by (simp add: x_def unat_of_nat)
    then show "ucast x = (word_of_nat v :: u16)" by (metis of_nat_unat)
  qed
  obtain fd where fd: "pega_i2cOpen ''/dev/i2c-3'' s = Some (s\<lparr>g_i2cFile := fd\<rparr>)"
    using expander_open [OF assms(1)] by blast
  let ?line = "Tool_value (word_of_nat r) (word_of_nat v)"
  let ?t = "pega_i2cClose (show_line ?line (emit (I2c_write 0x70 [w, x]) (s\<lparr>g_i2cFile := fd\<rparr>)))"
  have "TCA9538_I2C_WriteToSlave w x (s\<lparr>g_i2cFile := fd\<rparr>) =
      Some (1, emit (I2c_write 0x70 [w, x]) (s\<lparr>g_i2cFile := fd\<rparr>))"
    using assms(1) by (intro expander_write) simp
  then have wr: "TCA9538_main [prog, ''write'', reg, val] s = Some ?t"
    using assms(2,4) fd c by (simp add: TCA9538_main_def x_def)
  have t: "tca_device d (menv ?t)" "tca_register d (mlog ?t) = (tca_register d (mlog s))(w := x)"
    "tool_out ?t = ?line # tool_out s"
    using assms(1) by (simp_all add: pega_i2cClose_def show_line_def emit_def)
  obtain fd' where fd': "pega_i2cOpen ''/dev/i2c-3'' ?t = Some (?t\<lparr>g_i2cFile := fd'\<rparr>)"
    using expander_open [OF t(1)] by blast
  let ?r = "emit (I2c_read 0x70 1) (emit (I2c_write 0x70 [w]) (?t\<lparr>g_i2cFile := fd'\<rparr>))"
  have rd: "TCA9538_I2C_ReadFromSlave w (?t\<lparr>g_i2cFile := fd'\<rparr>) = Some (0, x, ?r)"
    using expander_read [of d "?t\<lparr>g_i2cFile := fd'\<rparr>" w] t by simp
  let ?u = "pega_i2cClose (show_line ?line ?r)"
  have "TCA9538_main [prog, ''read'', reg] ?t = Some ?u"
    using assms(2) fd' c rd by (simp add: TCA9538_main_def)
  moreover have "tool_out ?u = ?line # ?line # tool_out s" "tca_register d (mlog ?u) = (tca_register d (mlog s))(w := x)"
    using t(2,3) by (simp_all add: pega_i2cClose_def show_line_def emit_def)
  ultimately show ?thesis using wr unfolding w_def x_def by blast
qed

text \<open>The dump stops after the first register: its loop runs to the lowest register number.\<close>

lemma expander_dump_shows_one:
  assumes "tca_device d (menv s)"
  shows "\<exists>t. TCA9538_main [prog, ''dump''] s = Some t \<and>
    tool_out t = Tool_reg 0 (ucast (tca_register d (mlog s) 0)) # tool_out s"
proof -
  obtain fd where fd: "pega_i2cOpen ''/dev/i2c-3'' s = Some (s\<lparr>g_i2cFile := fd\<rparr>)"
    using expander_open [OF assms] by blast
  have "tca_device d (menv (s\<lparr>g_i2cFile := fd\<rparr>))" using assms by simp
  from expander_read [OF this, of 0] show ?thesis
    using fd by (simp add: TCA9538_main_def TCA9538_Register_Info_Print_def pega_i2cClose_def show_line_def emit_def)
qed

definition tca_env :: misc_env where
  "tca_env = quiet_env\<lparr>i2c_open := \<lambda>h dev. 3, i2c_write_ret := \<lambda>h fd a bs. int (length bs),
     i2c_read_ret := \<lambda>h fd a n. Some [tca_register (\<lambda>r. 0xFF) h (tca_pointer h)]\<rparr>"

theorem expander_write_then_read_witness:
  "\<exists>t u. TCA9538_main [''tca'', ''write'', ''3'', ''0x3c''] (tool_static tca_env) = Some t \<and>
    TCA9538_main [''tca'', ''read'', ''3''] t = Some u \<and>
    tool_out u = [Tool_value 3 0x3C, Tool_value 3 0x3C]"
proof -
  have "tca_device (\<lambda>r. 0xFF) (menv (tool_static tca_env))" "tool_out (tool_static tca_env) = []"
    by (simp_all add: tca_device_def tca_env_def quiet_env_def tool_static_def)
  moreover have "strtol16 ''3'' = int 3" "strtol16 ''0x3c'' = int 0x3C" by code_simp+
  ultimately show ?thesis
    using expander_write_then_read [of "\<lambda>r. 0xFF" "tool_static tca_env" "''3''" 3 "''0x3c''" 60 "''tca''"] by auto
qed

end
