(* ===== verification/Tool_Motor.thy ===== *)
theory Tool_Motor
  imports Same_Log Misc_Timed
begin

text \<open>
  The motor test program, \<open>pega_motor/src\<close>. Its pins are handled as in the daemon; functions that
  the daemon or the kernel driver also has carry the suffix \<open>_t\<close>. The functions of the file that
  only the commented calls use (delays in milliseconds, directions by shell commands) are left out.
\<close>

subsection \<open>State and pins\<close>

record mtool_st = gpio_st +
  g_full_step_state_t :: u8
  g_half_step_state_t :: u8
  g_full_step_delay_t :: u32
  g_half_step_delay_t :: u32

definition mtool_static :: "misc_env \<Rightarrow> mtool_st" where
  "mtool_static env = \<lparr>menv = env, mlog = [], bIrcut_enable = 0, g_full_step_state_t = 0, g_half_step_state_t = 0,
     g_full_step_delay_t = 5000, g_half_step_delay_t = 2500\<rparr>"

abbreviation (input) AIN1 :: int where "AIN1 \<equiv> PIN_MOTO_PWM0"
abbreviation (input) AIN2 :: int where "AIN2 \<equiv> PIN_MOTO_PWM1"
abbreviation (input) BIN1 :: int where "BIN1 \<equiv> PIN_MOTO_PWM2"
abbreviation (input) BIN2 :: int where "BIN2 \<equiv> PIN_MOTO_PWM3"

definition Pega_Gpio_init_motor :: "mtool_st \<Rightarrow> mtool_st" where
  "Pega_Gpio_init_motor = fold gpio_init_pin
     [(IO_I_MOTOR_nFAULT_PAN, 1, -1), (IO_I_MOTOR_nFAULT_RISING, 1, -1),
      (PIN_RISING_nSLEEP, 0, 0), (PIN_PAN_nSLEEP, 0, 0),
      (PIN_MOTO_PWM0, 0, 0), (PIN_MOTO_PWM1, 0, 0), (PIN_MOTO_PWM2, 0, 0), (PIN_MOTO_PWM3, 0, 0)]"

definition awd8833c_set_enable_t :: "bool \<Rightarrow> u8 \<Rightarrow> mtool_st \<Rightarrow> mtool_st" where
  "awd8833c_set_enable_t en_select bIsRisingMotor =
     pin_out (if bIsRisingMotor > 0 then PIN_RISING_nSLEEP else PIN_PAN_nSLEEP) (of_bool en_select)"

definition awd8833c_stop_t :: "mtool_st \<Rightarrow> mtool_st" where
  "awd8833c_stop_t = seq [pin_out AIN1 0, pin_out AIN2 0, pin_out BIN1 0, pin_out BIN2 0]"

subsection \<open>Steps\<close>

definition set_full_t :: "u8 \<Rightarrow> mtool_st \<Rightarrow> mtool_st" where
  "set_full_t st s = s\<lparr>g_full_step_state_t := st\<rparr>"

definition set_half_t :: "u8 \<Rightarrow> mtool_st \<Rightarrow> mtool_st" where
  "set_half_t st s = s\<lparr>g_half_step_state_t := st\<rparr>"

definition awd8833c_full_step_forward_t :: "mtool_st \<Rightarrow> mtool_st" where
  "awd8833c_full_step_forward_t s0 =
     (let st = g_full_step_state_t s0;
          s = (if st = 0 then seq [pin_out AIN1 1, pin_out AIN2 0, set_full_t 1]
               else if st = 1 then seq [pin_out BIN2 1, pin_out BIN1 0, set_full_t 2]
               else if st = 2 then seq [pin_out AIN2 1, pin_out AIN1 0, set_full_t 3]
               else if st = 3 then seq [pin_out BIN1 1, pin_out BIN2 0, set_full_t 0]
               else (\<lambda>s. s)) s0
      in usleep (unat (g_full_step_delay_t s)) s)"

definition awd8833c_full_step_reverse_t :: "mtool_st \<Rightarrow> mtool_st" where
  "awd8833c_full_step_reverse_t s0 =
     (let st = g_full_step_state_t s0;
          s = (if st = 0 then seq [pin_out BIN1 0, pin_out BIN2 1, set_full_t 1]
               else if st = 1 then seq [pin_out AIN2 0, pin_out AIN1 1, set_full_t 2]
               else if st = 2 then seq [pin_out BIN2 0, pin_out BIN1 1, set_full_t 3]
               else if st = 3 then seq [pin_out AIN1 0, pin_out AIN2 1, set_full_t 0]
               else (\<lambda>s. s)) s0
      in usleep (unat (g_full_step_delay_t s)) s)"

definition awd8833c_half_step_forward_t :: "mtool_st \<Rightarrow> mtool_st" where
  "awd8833c_half_step_forward_t s0 =
     (let st = g_half_step_state_t s0;
          s = (if st = 0 then seq [pin_out AIN1 1, set_half_t 1]
               else if st = 1 then seq [pin_out AIN2 0, set_half_t 2]
               else if st = 2 then seq [pin_out BIN2 1, set_half_t 3]
               else if st = 3 then seq [pin_out BIN1 0, set_half_t 4]
               else if st = 4 then seq [pin_out AIN2 1, set_half_t 5]
               else if st = 5 then seq [pin_out AIN1 0, set_half_t 6]
               else if st = 6 then seq [pin_out BIN1 1, set_half_t 7]
               else if st = 7 then seq [pin_out BIN2 0, set_half_t 0]
               else (\<lambda>s. s)) s0
      in usleep (unat (g_half_step_delay_t s)) s)"

definition awd8833c_half_step_reverse_t :: "mtool_st \<Rightarrow> mtool_st" where
  "awd8833c_half_step_reverse_t s0 =
     (let st = g_half_step_state_t s0;
          s = (if st = 0 then seq [pin_out BIN2 1, set_half_t 1]
               else if st = 1 then seq [pin_out BIN1 0, set_half_t 2]
               else if st = 2 then seq [pin_out AIN1 1, set_half_t 3]
               else if st = 3 then seq [pin_out AIN2 0, set_half_t 4]
               else if st = 4 then seq [pin_out BIN1 1, set_half_t 5]
               else if st = 5 then seq [pin_out BIN2 0, set_half_t 6]
               else if st = 6 then seq [pin_out AIN2 1, set_half_t 7]
               else if st = 7 then seq [pin_out AIN1 0, set_half_t 0]
               else (\<lambda>s. s)) s0
      in usleep (unat (g_half_step_delay_t s)) s)"

definition awd8833c_step_function_test :: "u8 \<Rightarrow> u8 \<Rightarrow> u32 \<Rightarrow> mtool_st \<Rightarrow> mtool_st" where
  "awd8833c_step_function_test direction mode_select cycle_count =
     (if direction = AW_FORWARD then
        (if mode_select = AW_FULL_STEP then awd8833c_full_step_forward_t ^^ unat cycle_count
         else if mode_select = AW_HALF_STEP then awd8833c_half_step_forward_t ^^ unat cycle_count
         else (\<lambda>s. s))
      else if direction = AW_REVERSE then
        (if mode_select = AW_FULL_STEP then awd8833c_full_step_reverse_t ^^ unat cycle_count
         else if mode_select = AW_HALF_STEP then awd8833c_half_step_reverse_t ^^ unat cycle_count
         else (\<lambda>s. s))
      else (\<lambda>s. s))"

subsection \<open>Speed and test\<close>

text \<open>The levels are 0, 1 and 2 here, 1 to 4 in the daemon.\<close>

definition awd8833c_set_speed_level_t :: "u8 \<Rightarrow> mtool_st \<Rightarrow> mtool_st" where
  "awd8833c_set_speed_level_t speed_level s =
     (if speed_level = 0 then s\<lparr>g_full_step_delay_t := 20000, g_half_step_delay_t := 10000\<rparr>
      else if speed_level = 1 then s\<lparr>g_full_step_delay_t := 10000, g_half_step_delay_t := 5000\<rparr>
      else if speed_level = 2 then s\<lparr>g_full_step_delay_t := 5000, g_half_step_delay_t := 2500\<rparr>
      else s)"

definition awd8833c_set_rotate_speed_t :: "u32 \<Rightarrow> u8 \<Rightarrow> mtool_st \<Rightarrow> mtool_st option" where
  "awd8833c_set_rotate_speed_t angle_s step_angle s =
     (if step_angle = 0 then None
      else (let n_step = angle_s * 10 div ucast step_angle in
        if n_step = 0 then None
        else (let n_us = 1000000 div n_step in
          Some (s\<lparr>g_full_step_delay_t := n_us, g_half_step_delay_t := n_us div 2\<rparr>))))"

definition rotate_degrees_t :: "u8 \<Rightarrow> rat \<Rightarrow> u8 \<Rightarrow> rat \<Rightarrow> mtool_st \<Rightarrow> mtool_st" where
  "rotate_degrees_t mode_select unit direction degree s =
     (if degree < 0 then s
      else awd8833c_step_function_test direction mode_select
        (word_of_int (trunc (f32 (f32 (degree / unit) + 1/2)))) s)"

definition awd8833c_rising_rotate_degrees_t :: "u8 \<Rightarrow> rat \<Rightarrow> mtool_st \<Rightarrow> mtool_st" where
  "awd8833c_rising_rotate_degrees_t = rotate_degrees_t AW_FULL_STEP 15"

definition awd8833c_pan_rotate_degrees_t :: "u8 \<Rightarrow> rat \<Rightarrow> mtool_st \<Rightarrow> mtool_st" where
  "awd8833c_pan_rotate_degrees_t = rotate_degrees_t AW_HALF_STEP (15 / 4)"

definition awd8833c_rising_rotate_steps :: "u8 \<Rightarrow> u32 \<Rightarrow> mtool_st \<Rightarrow> mtool_st" where
  "awd8833c_rising_rotate_steps direction = awd8833c_step_function_test direction AW_FULL_STEP"

definition awd8833c_pan_rotate_steps :: "u8 \<Rightarrow> u32 \<Rightarrow> mtool_st \<Rightarrow> mtool_st" where
  "awd8833c_pan_rotate_steps direction = awd8833c_step_function_test direction AW_HALF_STEP"

definition awd8833c_test_t :: "u8 \<Rightarrow> mtool_st \<Rightarrow> mtool_st option" where
  "awd8833c_test_t bIsRisingMotor s =
     map_option (seq [awd8833c_step_function_test AW_REVERSE AW_HALF_STEP 800,
                      awd8833c_set_enable_t False bIsRisingMotor])
       (awd8833c_set_rotate_speed_t 360 9 (seq
          [Pega_Gpio_init_motor, awd8833c_set_enable_t True bIsRisingMotor, awd8833c_set_speed_level_t 2,
           awd8833c_step_function_test AW_FORWARD AW_FULL_STEP 400] s))"

definition motor_main :: "string list \<Rightarrow> mtool_st \<Rightarrow> mtool_st option" where
  "motor_main args = awd8833c_test_t (if length args > 1 \<and> atoi (args ! 1) > 0 then 1 else 0)"

subsection \<open>The tool and the daemon\<close>

text \<open>States with the same log, positions and delays.\<close>

definition same_motor :: "mtool_st \<Rightarrow> 'a motor_st_scheme \<Rightarrow> bool" where
  "same_motor s t \<longleftrightarrow> menv s = menv t \<and> mlog s = mlog t \<and>
     g_full_step_state_t s = g_full_step_state_m t \<and> g_half_step_state_t s = g_half_step_state_m t \<and>
     g_full_step_delay_t s = g_full_step_delay_m t \<and> g_half_step_delay_t s = g_half_step_delay_m t"

interpretation motor_tool: same_log same_motor
  by unfold_locales (simp_all add: same_motor_def emit_def)

lemma same_full: "in_parallel same_motor (set_full_t st) (set_full_m st)"
  and same_half: "in_parallel same_motor (set_half_t st) (set_half_m st)"
  by (simp_all add: in_parallel_def same_motor_def set_full_t_def set_half_t_def set_full_m_def set_half_m_def)

lemma same_wait:
  assumes "same_motor s t"
  shows "same_motor (usleep (unat (g_full_step_delay_t s)) s) (awd8833c_delay_us_m (g_full_step_delay_m t) t)"
    and "same_motor (usleep (unat (g_half_step_delay_t s)) s) (awd8833c_delay_us_m (g_half_step_delay_m t) t)"
  using assms in_parallelD [OF motor_tool.sleeps assms] by (simp_all add: awd8833c_delay_us_m_def same_motor_def)

lemma same_states:
  assumes "same_motor s t"
  shows "g_full_step_state_t s = g_full_step_state_m t" and "g_half_step_state_t s = g_half_step_state_m t"
  using assms by (simp_all add: same_motor_def)

lemmas same_pins = motor_tool.pins [THEN in_parallelD] same_full [THEN in_parallelD] same_half [THEN in_parallelD]

lemma same_step:
  "in_parallel same_motor awd8833c_full_step_forward_t awd8833c_full_step_forward_m"
  "in_parallel same_motor awd8833c_full_step_reverse_t awd8833c_full_step_reverse_m"
  "in_parallel same_motor awd8833c_half_step_forward_t awd8833c_half_step_forward_m"
  "in_parallel same_motor awd8833c_half_step_reverse_t awd8833c_half_step_reverse_m"
  unfolding awd8833c_full_step_forward_t_def awd8833c_full_step_forward_m_def
    awd8833c_full_step_reverse_t_def awd8833c_full_step_reverse_m_def
    awd8833c_half_step_forward_t_def awd8833c_half_step_forward_m_def
    awd8833c_half_step_reverse_t_def awd8833c_half_step_reverse_m_def motor_pins Let_def
  by (rule in_parallelI, rule same_wait, simp add: same_states same_pins)+

lemma same_run:
  assumes "same_motor s t"
  shows "same_motor (awd8833c_step_function_test d m n s) (awd8833c_step_function_action d m n t)"
  using assms by (simp add: awd8833c_step_function_test_def awd8833c_step_function_action_def step_of_def
      same_step [THEN in_parallel_power, THEN in_parallelD])

lemma same_enable:
  assumes "same_motor s t"
  shows "same_motor (awd8833c_set_enable_t en m s) (awd8833c_set_enable_m en m t)"
  using assms by (simp add: awd8833c_set_enable_t_def awd8833c_set_enable_m_def motor_pins same_pins)

text \<open>The daemon with the log and the static variables of the tool.\<close>

definition as_daemon :: "mtool_st \<Rightarrow> misc" where
  "as_daemon s = (misc_static (menv s))\<lparr>mlog := mlog s, g_full_step_state_m := g_full_step_state_t s,
     g_half_step_state_m := g_half_step_state_t s, g_full_step_delay_m := g_full_step_delay_t s,
     g_half_step_delay_m := g_half_step_delay_t s\<rparr>"

lemma as_daemon_same: "same_motor s (as_daemon s)"
  by (simp add: same_motor_def as_daemon_def misc_static_def nv_initial_def)

lemma as_daemon_frame:
  "mlog (as_daemon s) = mlog s" "menv (as_daemon s) = menv s" "all_open (as_daemon s) = all_open s"
  "g_full_step_state_m (as_daemon s) = g_full_step_state_t s" "g_half_step_state_m (as_daemon s) = g_half_step_state_t s"
  "step_delay AW_FULL_STEP (as_daemon s) = g_full_step_delay_t s" "step_delay AW_HALF_STEP (as_daemon s) = g_half_step_delay_t s"
  by (simp_all add: as_daemon_def misc_static_def nv_initial_def all_open_def step_delay_def)

text \<open>A run of the test function is a run of the step function of the daemon.\<close>

lemma test_as_daemon:
  assumes "step_of d m = Some (f :: misc \<Rightarrow> misc)"
  shows "same_motor (awd8833c_step_function_test d m n s) ((f ^^ unat n) (as_daemon s))"
  using same_run [OF as_daemon_same, of d m n s] assms by (simp add: awd8833c_step_function_action_def)

lemma full_steps_half:
  "g_half_step_state_m ((awd8833c_full_step_forward_m ^^ k) s) = g_half_step_state_m s" for s :: misc
proof (induction k)
  case (Suc k)
  then show ?case by (simp add: awd8833c_full_step_forward_m_def step_defs_m Let_def)
qed simp

subsection \<open>The start\<close>

lemma pins_frame [simp]:
  fixes s :: mtool_st
  shows "g_full_step_delay_t (pin_out p v s) = g_full_step_delay_t s" "g_half_step_delay_t (pin_out p v s) = g_half_step_delay_t s"
    "g_full_step_state_t (pin_out p v s) = g_full_step_state_t s" "g_half_step_state_t (pin_out p v s) = g_half_step_state_t s"
  by (simp_all add: pin_out_def Pega_Gpio_pin_output_set_def sys_open_def Let_def) (simp_all add: emit_def)

lemma init_pin_frame:
  fixes s :: mtool_st
  assumes "all_open s"
  shows "moves (mlog (gpio_init_pin x s)) = moves (mlog s)" and "all_open (gpio_init_pin x s)"
    and "g_full_step_state_t (gpio_init_pin x s) = g_full_step_state_t s"
    and "g_half_step_state_t (gpio_init_pin x s) = g_half_step_state_t s"
    and "pin_shows (gpio_init_pin x s) q = (if q = fst x \<and> fst (snd x) = 0
      then Some (if snd (snd x) \<noteq> 0 then ''1'' else ''0'') else pin_shows s q)"
proof -
  obtain p d v where x: "x = (p, d, v)" by (cases x)
  note run = x gpio_init_pin_def Pega_Gpio_pin_state_init_def Pega_Gpio_pin_output_set_def sys_open_def Let_def
    all_open_def pin_shows_def emit_def
  show "moves (mlog (gpio_init_pin x s)) = moves (mlog s)" using assms by (simp add: run)
  show "all_open (gpio_init_pin x s)" using assms by (simp add: run)
  show "g_full_step_state_t (gpio_init_pin x s) = g_full_step_state_t s" using assms by (simp add: run)
  show "g_half_step_state_t (gpio_init_pin x s) = g_half_step_state_t s" using assms by (simp add: run)
  show "pin_shows (gpio_init_pin x s) q = (if q = fst x \<and> fst (snd x) = 0
      then Some (if snd (snd x) \<noteq> 0 then ''1'' else ''0'') else pin_shows s q)"
    using assms by (simp add: run)
qed

lemma init_frame:
  assumes "all_open s"
  shows "moves (mlog (Pega_Gpio_init_motor s)) = moves (mlog s)" and "all_open (Pega_Gpio_init_motor s)"
    and "g_full_step_state_t (Pega_Gpio_init_motor s) = g_full_step_state_t s"
    and "g_half_step_state_t (Pega_Gpio_init_motor s) = g_half_step_state_t s"
    and "q \<in> {17, 44, 59, 58, 55, 54} \<Longrightarrow> pin_shows (Pega_Gpio_init_motor s) q = Some ''0''"
  using assms by (auto simp: Pega_Gpio_init_motor_def init_pin_frame)

lemma high_shows: "high (mlog s) q \<longleftrightarrow> pin_shows s q = Some ''1''"
  by (simp add: high_def pin_shows_def)

text \<open>From coils without current the first step moves nothing; the second one brings them in step.\<close>

lemma first_steps:
  fixes s :: misc
  assumes "all_open s" and "g_full_step_state_m s = 0" and "\<And>q. q \<in> {59, 58, 55, 54} \<Longrightarrow> \<not> high (mlog s) q"
  defines "f \<equiv> awd8833c_full_step_forward_m"
  shows "coils (mlog (f s)) = 8" and "coil_sync 1 0 (f (f s))" and "coils (mlog (f (f s))) = 2"
  using assms(1-3) unfolding f_def
  by (simp_all add: coil_sync_def coils_def step_defs_m Let_def high_out)

lemma way_there:
  assumes "all_open s" and "g_full_step_state_t s = 0" and "\<And>q. q \<in> {59, 58, 55, 54} \<Longrightarrow> \<not> high (mlog s) q"
  defines "t \<equiv> awd8833c_step_function_test AW_FORWARD AW_FULL_STEP 400 s"
    and "pause \<equiv> unat (g_full_step_delay_t s)" and "r \<equiv> high (mlog s) 17" and "p \<equiv> high (mlog s) 44"
  shows "moves (mlog t) = sweep pause r p 0 2 399 @ \<lparr>mv_pause = pause, mv_coils = 8, mv_rising = r, mv_pan = p\<rparr> #
      moves (mlog s)"
    and "all_open t" and "high (mlog t) 17 = r" and "high (mlog t) 44 = p"
    and "g_half_step_state_t t = g_half_step_state_t s" and "coils (mlog t) = 6"
    and "q = 17 \<or> q = 44 \<Longrightarrow> pin_shows t q = pin_shows s q"
proof -
  let ?f = "awd8833c_full_step_forward_m" and ?D = "as_daemon s"
  have step: "step_of 1 0 = Some ?f" by (simp add: step_of_def)
  have D: "all_open ?D" "g_full_step_state_m ?D = 0" "\<And>q. q \<in> {59, 58, 55, 54} \<Longrightarrow> \<not> high (mlog ?D) q"
    using assms(1-3) by (auto simp only: as_daemon_frame)
  have one: "coils (mlog (?f ?D)) = 8" "coil_sync 1 0 (?f (?f ?D))" "coils (mlog (?f (?f ?D))) = 2"
    by (rule first_steps [OF D(1,2)], rule D(3), assumption)+
  have run: "(?f ^^ 400) ?D = (?f ^^ 398) (?f (?f ?D))"
    using funpow_add [of 398 2 "?f :: misc \<Rightarrow> misc"] by (simp add: numeral_2_eq_2)
  have same: "same_motor t ((?f ^^ 400) ?D)" unfolding t_def using test_as_daemon [OF step, of 400 s] by simp
  have fr: "step_delay 0 (?f (?f ?D)) = g_full_step_delay_t s" "high (mlog (?f (?f ?D))) 17 = r"
    "high (mlog (?f (?f ?D))) 44 = p"
    using steps_frame [OF step D(1), of 2] by (simp_all add: numeral_2_eq_2 as_daemon_frame r_def p_def)
  have two: "moves (mlog (?f (?f ?D))) = [\<lparr>mv_pause = pause, mv_coils = 2, mv_rising = r, mv_pan = p\<rparr>,
      \<lparr>mv_pause = pause, mv_coils = 8, mv_rising = r, mv_pan = p\<rparr>] @ moves (mlog s)"
    using step_move [OF step D(1)] step_move(4) [OF step, of "?f ?D"] step_sleeps(2) [OF step, of 0 ?D] one
    by (simp add: as_daemon_frame pause_def r_def p_def)
  have "moves (mlog ((?f ^^ 400) ?D)) = sweep pause r p 2 2 398 @ moves (mlog (?f (?f ?D)))"
    unfolding run using synced_moves [OF step one(2), of 398] by (simp add: fr one(3) coil_stride_def pause_def)
  moreover have "sweep pause r p 2 2 398 @ [\<lparr>mv_pause = pause, mv_coils = 2, mv_rising = r, mv_pan = p\<rparr>] =
      sweep pause r p 0 2 399"
  proof -
    have e: "[0..<399] = [0..<398] @ [398]" using upt_Suc [of 0 398] by simp
    have "(2 + int (398 - j) * 2) mod 8 = int (399 - j) * 2 mod 8" if "j \<in> set [0..<398]" for j
      using that by (simp add: of_nat_diff algebra_simps)
    then show ?thesis unfolding sweep_def e by (simp del: upt_rec_numeral)
  qed
  ultimately show "moves (mlog t) = sweep pause r p 0 2 399 @ \<lparr>mv_pause = pause, mv_coils = 8, mv_rising = r,
      mv_pan = p\<rparr> # moves (mlog s)"
    using same two by (simp add: same_motor_def)
  show "all_open t" "high (mlog t) 17 = r" "high (mlog t) 44 = p"
    using same steps_frame [OF step D(1), of 400] by (simp_all add: same_motor_def all_open_def as_daemon_frame r_def p_def)
  show "g_half_step_state_t t = g_half_step_state_t s"
    using same by (simp add: same_motor_def full_steps_half as_daemon_frame)
  have "coils (mlog ((?f ^^ 398) (?f (?f ?D)))) = (2 + int 398 * coil_stride 1 0) mod 8"
    using cyclic_stepper.pos_run [OF step_cyclic [OF step] one(2), of 398] one(3) by simp
  then show "coils (mlog t) = 6" using same by (simp add: same_motor_def run coil_stride_def)
  show "pin_shows t q = pin_shows s q" if "q = 17 \<or> q = 44"
    using same steps_shows [OF step D(1) that, of 400] by (simp add: same_motor_def pin_shows_def as_daemon_frame)
qed

text \<open>The way back, from coils in step.\<close>

lemma way_back:
  assumes "all_open s" and "g_half_step_state_t s = 0" and "coils (mlog s) = 6"
  defines "t \<equiv> awd8833c_step_function_test AW_REVERSE AW_HALF_STEP 800 s"
  shows "moves (mlog t) = sweep (unat (g_half_step_delay_t s)) (high (mlog s) 17) (high (mlog s) 44) 6 (-1) 800 @ moves (mlog s)"
    and "all_open t" and "q = 17 \<or> q = 44 \<Longrightarrow> pin_shows t q = pin_shows s q"
proof -
  let ?f = "awd8833c_half_step_reverse_m" and ?D = "as_daemon s"
  have step: "step_of 0 1 = Some ?f" by (simp add: step_of_def)
  have D: "all_open ?D" "coil_sync 0 1 ?D" using assms(1-3) by (simp_all add: coil_sync_def as_daemon_frame)
  have same: "same_motor t ((?f ^^ 800) ?D)" unfolding t_def using test_as_daemon [OF step, of 800 s] by simp
  then show "moves (mlog t) = sweep (unat (g_half_step_delay_t s)) (high (mlog s) 17) (high (mlog s) 44) 6 (-1) 800 @ moves (mlog s)"
    using synced_moves [OF step D(2), of 800] assms(3) by (simp add: same_motor_def as_daemon_frame coil_stride_def)
  show "all_open t" using same steps_frame [OF step D(1), of 800] by (simp add: same_motor_def all_open_def)
  show "pin_shows t q = pin_shows s q" if "q = 17 \<or> q = 44"
    using same steps_shows [OF step D(1) that, of 800] by (simp add: same_motor_def pin_shows_def as_daemon_frame)
qed

text \<open>
  C37: The motor test, with pin files that open: it wakes the motor it was started for, the rising motor
  when the first argument is positive and the pan motor otherwise, and never the other one. A first full
  step sets one coil, 399 more turn the coils forward by two positions each, with 5 ms after each; then
  800 half steps of 1.25 ms turn them back by one position each, from where the way there ended. These
  are all pauses of the test, and at the end both motors are asleep.
\<close>

theorem motor_test_run:
  assumes "rising = (length args > 1 \<and> atoi (args ! 1) > 0)" and "\<And>h p. open_ok env h p"
  shows "\<exists>t. motor_main args (mtool_static env) = Some t \<and>
    moves (mlog t) = sweep 1250 rising (\<not> rising) 6 (-1) 800 @ sweep 5000 rising (\<not> rising) 0 2 399 @
      [\<lparr>mv_pause = 5000, mv_coils = 8, mv_rising = rising, mv_pan = \<not> rising\<rparr>] \<and>
    pin_shows t PIN_RISING_nSLEEP = Some ''0'' \<and> pin_shows t PIN_PAN_nSLEEP = Some ''0''"
proof -
  let ?m = "if rising then 1 else 0 :: u8" and ?s = "mtool_static env"
  have s: "all_open ?s" "moves (mlog ?s) = []" "g_full_step_state_t ?s = 0" "g_half_step_state_t ?s = 0"
    using assms(2) by (simp_all add: mtool_static_def all_open_def)
  define i where "i = Pega_Gpio_init_motor ?s"
  note i = init_frame [OF s(1), folded i_def]
  define a where "a = awd8833c_set_speed_level_t 2 (awd8833c_set_enable_t True ?m i)"
  have a: "all_open a" "moves (mlog a) = []" "g_full_step_state_t a = 0" "g_half_step_state_t a = 0"
    "g_full_step_delay_t a = 5000"
    using i s by (simp_all add: a_def awd8833c_set_speed_level_t_def awd8833c_set_enable_t_def all_open_def)
      (simp_all add: pin_out_def Pega_Gpio_pin_output_set_def sys_open_def Let_def)
  have level: "pin_shows a q = (if q = (if rising then 17 else 44) then Some ''1'' else Some ''0'')"
    if "q \<in> {17, 44, 59, 58, 55, 54}" for q
    using i(2) i(5) [OF that] by (simp add: a_def awd8833c_set_speed_level_t_def awd8833c_set_enable_t_def pin_shows_def)
      (simp flip: pin_shows_def)
  have low: "\<not> high (mlog a) q" if "q \<in> {59, 58, 55, 54}" for q
    using level [of q] that by (auto simp: high_shows)
  have awake: "high (mlog a) 17 = rising" "high (mlog a) 44 = (\<not> rising)" by (simp_all add: high_shows level)
  define b where "b = awd8833c_step_function_test AW_FORWARD AW_FULL_STEP 400 a"
  note b = way_there [OF a(1,3) low, folded b_def]
  define c where "c = b\<lparr>g_full_step_delay_t := 2500, g_half_step_delay_t := 1250\<rparr>"
  have c: "all_open c" "g_half_step_state_t c = 0" "mlog c = mlog b" "g_half_step_delay_t c = 1250"
    "coils (mlog c) = 6"
    using b(2,5,6) a(4) by (simp_all add: c_def all_open_def)
  define e where "e = awd8833c_step_function_test AW_REVERSE AW_HALF_STEP 800 c"
  note e = way_back [OF c(1,2,5), folded e_def]
  have "awd8833c_set_rotate_speed_t 360 9 b = Some c"
    by (simp add: awd8833c_set_rotate_speed_t_def c_def Let_def)
  then have run: "motor_main args ?s = Some (awd8833c_set_enable_t False ?m e)"
    using assms(1) by (simp add: motor_main_def awd8833c_test_t_def a_def i_def b_def e_def)
  have "moves (mlog e) = sweep 1250 rising (\<not> rising) 6 (-1) 800 @ sweep 5000 rising (\<not> rising) 0 2 399 @
      [\<lparr>mv_pause = 5000, mv_coils = 8, mv_rising = rising, mv_pan = \<not> rising\<rparr>]"
    using e(1) b(1,3,4) by (simp add: c awake a)
  moreover have "pin_shows e q = pin_shows b q" if "q = 17 \<or> q = 44" for q
    using e(3) [OF that] by (simp add: c pin_shows_def)
  moreover have "pin_shows b q = pin_shows a q" if "q = 17 \<or> q = 44" for q
    using b(7) that by simp
  ultimately show ?thesis
    using run e(2) by (auto simp: awd8833c_set_enable_t_def shows_pin_out level)
qed

theorem motor_test_run_witness:
  "\<exists>t. motor_main [''pega_motor'', ''1''] (mtool_static quiet_env) = Some t \<and>
    moves (mlog t) = sweep 1250 True False 6 (-1) 800 @ sweep 5000 True False 0 2 399 @
      [\<lparr>mv_pause = 5000, mv_coils = 8, mv_rising = True, mv_pan = False\<rparr>] \<and>
    pin_shows t PIN_RISING_nSLEEP = Some ''0'' \<and> pin_shows t PIN_PAN_nSLEEP = Some ''0''"
proof -
  have "atoi ''1'' = 1" by code_simp
  then have "True = (length [''pega_motor'', ''1''] > 1 \<and> atoi ([''pega_motor'', ''1''] ! 1) > 0)" by simp
  from motor_test_run [OF this, of quiet_env] show ?thesis by (simp add: quiet_env_def)
qed

end
