(* ===== verification/Ble_Tool.thy ===== *)
theory Ble_Tool
  imports Misc_Sound Text_Lemmas Diag_Base
begin

text \<open>
  The Bluetooth advertising tool \<open>pega_ble\<close> (\<open>pega_ble/src\<close>): it waits for a network address and for
  the firmware and has the controller advertise the address as the name of the camera. A fault
  (a read through a null pointer, a write past an array) and a loop that never ends are \<open>None\<close>.
\<close>

subsection \<open>State\<close>

text \<open>
  The log, newest first, holds the shell commands, the pipes, the calls of \<open>getifaddrs\<close> and the
  pauses in seconds. The environment answers from it; an entry of \<open>getifaddrs\<close> has a name, whether
  its address is set and IPv4, whether \<open>getnameinfo\<close> accepts it, and its text by \<open>inet_ntoa\<close>.
\<close>

datatype ble_io = Ble_shell string | Ble_pipe string | Ble_ifaddrs | Ble_sleep nat

record ble_if =
  if_name :: string
  if_inet :: bool
  if_numeric :: bool
  if_text :: string

record ble_env =
  ble_environ :: "string list"
  ble_shell_ret :: "ble_io list \<Rightarrow> string \<Rightarrow> int"
  ble_pipe_out :: "ble_io list \<Rightarrow> string \<Rightarrow> string option"
  ble_ifaddrs_of :: "ble_io list \<Rightarrow> ble_if list option"

record bletool_st =
  benv :: ble_env
  blog :: "ble_io list"
  m_thread_id :: nat
  m_pWifi_Address :: "string option"

definition ble_static :: "ble_env \<Rightarrow> bletool_st" where
  "ble_static env = \<lparr>benv = env, blog = [], m_thread_id = 0, m_pWifi_Address = None\<rparr>"

definition ble_log :: "ble_io \<Rightarrow> bletool_st \<Rightarrow> bletool_st" where
  "ble_log e s = s\<lparr>blog := e # blog s\<rparr>"

subsection \<open>Controller\<close>

definition pega_ble_is_loading_fw :: "bletool_st \<Rightarrow> int" where
  "pega_ble_is_loading_fw s = of_bool (m_thread_id s = 0)"

text \<open>\<open>BLE_QUICK_FW_LOADING\<close> is 1, so the old loader is not killed.\<close>

definition pega_ble_load_fw_Start :: "bletool_st \<Rightarrow> bletool_st" where
  "pega_ble_load_fw_Start s = s"

text \<open>The count that \<open>grep\<close> prints, read from the first line; \<open>pclose\<close> of a null pointer is a fault.\<close>

definition hci_count :: "string \<Rightarrow> bletool_st \<Rightarrow> (int \<times> bletool_st) option" where
  "hci_count word s = (let cmd = ''hciconfig | grep -c '' @ word; t = ble_log (Ble_pipe cmd) s
     in case ble_pipe_out (benv s) (blog s) cmd of
       None \<Rightarrow> None
     | Some [] \<Rightarrow> Some (0, t)
     | Some text \<Rightarrow> Some (atoi (take 511 (takeWhile (\<lambda>c. c \<noteq> CHR 0x0A) text)), ble_log (Ble_sleep 1) t))"

definition pega_ble_is_loading_fw_ready :: "bletool_st \<Rightarrow> (int \<times> bletool_st) option" where
  "pega_ble_is_loading_fw_ready = hci_count ''UART''"

definition pega_ble_is_ble_running :: "bletool_st \<Rightarrow> (int \<times> bletool_st) option" where
  "pega_ble_is_ble_running = hci_count ''RUNNING''"

definition pega_ble_advertisement_enable :: "bletool_st \<Rightarrow> bletool_st" where
  "pega_ble_advertisement_enable s = fold (\<lambda>c. ble_log (Ble_shell c))
     [''hciconfig hci0 up'', ''hciconfig hci0 noscan'', ''hciconfig hci0 leadv 3''] s"

definition pega_ble_advertisement_data_default :: "bletool_st \<Rightarrow> bletool_st" where
  "pega_ble_advertisement_data_default = ble_log (Ble_shell
     ''hcitool -i hci0 cmd 0x08 0x0008 17 02 01 06 0e 09 4e 55 52 41 5b 30 2e 30 2e 30 2e 30 5d 04 ff f1 0e fe 00 00 00 00 00 00 00 00 00 00 00 00 00 00 00'')"

text \<open>Switch the controller on, and once more when it does not run yet.\<close>

definition enable_until_running :: "bletool_st \<Rightarrow> bletool_st option" where
  "enable_until_running s = do {
     (r, s) \<leftarrow> pega_ble_is_ble_running (pega_ble_advertisement_enable s);
     Some (if r = 0 then ble_log (Ble_sleep 1) (pega_ble_advertisement_enable s) else s)
   }"

subsection \<open>Advertising data\<close>

text \<open>
  \<open>hex2\<close> is \<open>%02x\<close> of a byte; a plain \<open>char\<close> is unsigned on the ARM this runs on. \<open>snprintf\<close>
  cuts the command to 119 characters.
\<close>

definition hex_char :: "char \<Rightarrow> string" where
  "hex_char c = hex2 (of_char c)"

definition words_of :: "string list \<Rightarrow> string" where
  "words_of ws = concat (map (\<lambda>w. w @ '' '') ws)"

definition adv_head :: string where
  "adv_head = ''hcitool -i hci0 cmd 0x08 0x0008 1f 02 01 06 16 09 4e 55 52 41 5b ''"

definition adv_tail :: string where
  "adv_tail = ''04 ff f1 0e fe 00 00 00 00 00 00 00 00 00 00 00 00 00 00 00''"

text \<open>
  The loop over the address, from its last character: digits go to \<open>bleadv[j--]\<close>, a dot moves
  \<open>j\<close> to the end of the field before.
\<close>

definition field_end :: "int \<Rightarrow> int" where
  "field_end j = (if j = 9 \<or> j = 10 then 8 else if j = 6 \<or> j = 7 then 5 else if j = 3 \<or> j = 4 then 2 else j)"

fun adv_place :: "string \<Rightarrow> int \<Rightarrow> string \<Rightarrow> string option" where
  "adv_place [] j b = Some b"
| "adv_place (c # cs) j b =
     (if c = CHR ''.'' then adv_place cs (field_end j) b
      else if j < 0 then None else adv_place cs (j - 1) (b[nat j := c]))"

definition pega_ble_advertisement_data_update :: "string \<Rightarrow> bletool_st \<Rightarrow> (int \<times> bletool_st) option" where
  "pega_ble_advertisement_data_update pStrIP s =
     (if length pStrIP < 7 \<or> length pStrIP > 15 then Some (-1, pega_ble_advertisement_data_default s)
      else do {
        s \<leftarrow> enable_until_running s;
        b \<leftarrow> adv_place (rev pStrIP) 11 (replicate 12 (CHR 0x30));
        let h = map hex_char b;
        let cBuffer = snprintf 120 (adv_head @ words_of (take 3 h @ [''2e''] @ take 3 (drop 3 h) @ [''2e''] @
              take 3 (drop 6 h) @ [''2e''] @ drop 9 h @ [''5d'']) @ adv_tail);
        Some (0, ble_log (Ble_shell cBuffer) s)
      })"

definition pega_ble_advertisement_data_send :: "string \<Rightarrow> bletool_st \<Rightarrow> (int \<times> bletool_st) option" where
  "pega_ble_advertisement_data_send pString s = do {
     s \<leftarrow> enable_until_running s;
     let len = length pString;
     if len > 16 then None
     else (let b = (pString @ replicate (16 - len) (CHR 0x20))[(if len > 15 then 15 else len) := CHR 0x5d]
           in Some (0, ble_log (Ble_shell (snprintf 120 (adv_head @ words_of (map hex_char b) @ adv_tail))) s))
   }"

subsection \<open>Network and firmware\<close>

definition pega_ble_check_network_is_ready :: "bletool_st \<Rightarrow> int \<times> bletool_st" where
  "pega_ble_check_network_is_ready s = (let t = ble_log Ble_ifaddrs s
     in case ble_ifaddrs_of (benv s) (blog s) of
       None \<Rightarrow> (-1, t)
     | Some ifs \<Rightarrow> (case find (\<lambda>i. if_inet i \<and> if_numeric i \<and> (if_name i = ''usb0'' \<or> if_name i = ''mlan0'')) ifs of
         None \<Rightarrow> (0, t)
       | Some i \<Rightarrow> (1, t\<lparr>m_pWifi_Address := Some (if_text i)\<rparr>)))"

partial_function (option) wait_network :: "bletool_st \<Rightarrow> bletool_st option" where
  "wait_network s = (case pega_ble_check_network_is_ready (ble_log (Ble_sleep 2) s) of (r, t) \<Rightarrow>
     if r > 0 then Some t else wait_network t)"

definition advertise_address :: "bletool_st \<Rightarrow> (int \<times> bletool_st) option" where
  "advertise_address s = (case m_pWifi_Address s of None \<Rightarrow> None
     | Some a \<Rightarrow> pega_ble_advertisement_data_update a s)"

definition pega_ble_advertisement_broadcast :: "bletool_st \<Rightarrow> (int \<times> bletool_st) option" where
  "pega_ble_advertisement_broadcast s = Option.bind (wait_network s) advertise_address"

text \<open>The code between the label \<open>re_load\<close> and the inner loop, behind the counter.\<close>

definition re_load :: "bletool_st \<Rightarrow> bletool_st" where
  "re_load s = ble_log (Ble_sleep 5) (pega_ble_load_fw_Start s)"

text \<open>
  One round of the inner loop with the counters \<open>fw_reloadCnt\<close> and \<open>timeoutCnt\<close>, which would
  overflow an \<open>int\<close> after more than 300 years.
\<close>

partial_function (option) fw_round :: "int \<Rightarrow> int \<Rightarrow> bletool_st \<Rightarrow> (int \<times> bletool_st) option" where
  "fw_round fw timeout s =
     (if pega_ble_is_loading_fw s = 0 then fw_round fw timeout s
      else case pega_ble_is_loading_fw_ready s of None \<Rightarrow> None
      | Some (r, s) \<Rightarrow>
          if r > 0 then advertise_address (ble_log (Ble_sleep 1) s)
          else if timeout > 15 then fw_round (fw + 1) (timeout + 1) (re_load s)
          else if fw \<ge> 3 then Some (0, s)
          else fw_round fw (timeout + 1) (ble_log (Ble_sleep 2) s))"

definition pega_ble_load_fw :: "bletool_st \<Rightarrow> (int \<times> bletool_st) option" where
  "pega_ble_load_fw s = Option.bind (wait_network s) (\<lambda>s. fw_round 1 0 (re_load s))"

subsection \<open>Program\<close>

definition ble_main :: "string list \<Rightarrow> bletool_st \<Rightarrow> (int \<times> bletool_st) option" where
  "ble_main args s = (let arg = argv_mem args (ble_environ (benv s)) in
     case arg 1 of
       None \<Rightarrow> None
     | Some None \<Rightarrow> pega_ble_advertisement_broadcast s
     | Some (Some c) \<Rightarrow>
         let with_arg = (\<lambda>f. case arg 2 of Some (Some a) \<Rightarrow> f a s | _ \<Rightarrow> None) in
         if c = ''ip'' then with_arg pega_ble_advertisement_data_update
         else if c = ''fw'' then pega_ble_load_fw s
         else if c = ''check'' then pega_ble_is_loading_fw_ready s
         else if c = ''run'' then pega_ble_is_ble_running s
         else if c = ''get'' then Some (pega_ble_check_network_is_ready s)
         else if c = ''str'' then with_arg pega_ble_advertisement_data_send
         else Some (0, s))"

end
