(* ===== verification/Ble_Props.thy ===== *)
theory Ble_Props
  imports Ble_Tool
begin

text \<open>
  Properties of the Bluetooth tool: what the controller is told to advertise for every address and
  for every text, and when the wait for the firmware ends.
\<close>

subsection \<open>The command as bytes\<close>

text \<open>The bytes that \<open>hcitool\<close> reads from the words behind the opcode.\<close>

definition hci_bytes :: "string \<Rightarrow> u8 list" where
  "hci_bytes line = map (\<lambda>w. word_of_int (strtol16 w)) (drop 6 (tokens [] line))"

lemma tokens_words:
  "\<forall>w\<in>set ws. w \<noteq> [] \<and> CHR '' '' \<notin> set w \<Longrightarrow> tokens [] (words_of ws @ xs) = ws @ tokens [] xs"
proof (induction ws)
  case (Cons w ws)
  have "tokens [] (words_of (w # ws) @ xs) = tokens [] (w @ CHR '' '' # words_of ws @ xs)"
    by (simp add: words_of_def)
  also have "\<dots> = tokens ([] @ w) (CHR '' '' # words_of ws @ xs)"
    using Cons.prems by (intro tokens_word) simp
  also have "\<dots> = w # tokens [] (words_of ws @ xs)" using Cons.prems by (simp only: append_Nil) (rule tokens_cut, simp)
  finally show ?case using Cons by simp
qed (simp add: words_of_def)

lemma hex_char_word: "hex_char c \<noteq> [] \<and> CHR '' '' \<notin> set (hex_char c)" "length (hex_char c) = 2"
    "word_of_int (strtol16 (hex_char c)) = (of_char c :: u8)"
proof -
  obtain a b where "hex2 (of_char c) = [a, b]" "a \<notin> {CHR 0x0A, CHR '' '', CHR ''-'', CHR ''+'', CHR ''x'', CHR ''X''}"
    "b \<notin> {CHR 0x0A, CHR '' '', CHR ''-'', CHR ''+'', CHR ''x'', CHR ''X''}"
    "word_of_int (strtol16 [a, b]) = (of_char c :: u8)" by (rule hex2_digits)
  then show "hex_char c \<noteq> [] \<and> CHR '' '' \<notin> set (hex_char c)" "length (hex_char c) = 2"
    "word_of_int (strtol16 (hex_char c)) = (of_char c :: u8)" by (auto simp: hex_char_def)
qed

lemma words_length: "\<forall>w\<in>set ws. length w = k \<Longrightarrow> length (words_of ws) = Suc k * length ws"
  by (induction ws) (auto simp: words_of_def)

text \<open>
  Sixteen characters fill the command so far that of the manufacturer data behind them only the
  first two bytes are left.
\<close>

lemma adv_bytes:
  assumes "length b = 16"
  shows "hci_bytes (snprintf 120 (adv_head @ words_of (map hex_char b) @ adv_tail)) =
    [0x1F, 2, 1, 6, 0x16, 9] @ map of_char (''NURA['' @ b) @ [4, 0xFF]"
proof -
  define H where "H = [''hcitool'', ''-i'', ''hci0'', ''cmd'', ''0x08'', ''0x0008'', ''1f'', ''02'', ''01'', ''06'',
    ''16'', ''09'', ''4e'', ''55'', ''52'', ''41'', ''5b'']"
  have head: "adv_head = words_of H" by (simp add: adv_head_def H_def words_of_def)
  have len: "length (words_of (map hex_char b)) = 48" "length adv_head = 65"
    using assms by (simp_all add: words_length [of _ 2] hex_char_word(2) adv_head_def)
  then have "snprintf 120 (adv_head @ words_of (map hex_char b) @ adv_tail) =
      adv_head @ words_of (map hex_char b) @ take 6 adv_tail" by (simp add: snprintf_def)
  also have "\<dots> = words_of (H @ map hex_char b @ [''04'', ''ff'']) @ []"
    by (simp add: head words_of_def adv_tail_def)
  finally have "tokens [] (snprintf 120 (adv_head @ words_of (map hex_char b) @ adv_tail)) =
      H @ map hex_char b @ [''04'', ''ff'']"
    by (simp only:, subst tokens_words) (auto simp: hex_char_word H_def)
  moreover have "map (\<lambda>w. word_of_int (strtol16 w) :: u8) (drop 6 H) =
      [0x1F, 2, 1, 6, 0x16, 9] @ map of_char ''NURA[''"
    "map (\<lambda>w. word_of_int (strtol16 w) :: u8) [''04'', ''ff''] = [4, 0xFF]"
    unfolding H_def by code_simp+
  moreover have "length H = 17" by (simp add: H_def)
  ultimately show ?thesis by (simp add: hci_bytes_def hex_char_word(3) comp_def)
qed

subsection \<open>The address\<close>

definition pad3 :: "string \<Rightarrow> string" where
  "pad3 E = replicate (3 - length E) (CHR ''0'') @ E"

definition dotted :: "nat \<Rightarrow> nat \<Rightarrow> nat \<Rightarrow> nat \<Rightarrow> string" where
  "dotted a b c d = show_dec a @ ''.'' @ show_dec b @ ''.'' @ show_dec c @ ''.'' @ show_dec d"

definition octet :: "string \<Rightarrow> bool" where
  "octet E \<longleftrightarrow> E \<noteq> [] \<and> length E \<le> 3 \<and> CHR ''.'' \<notin> set E"

lemma octet_cases:
  assumes "octet E"
  obtains x where "E = [x]" "x \<noteq> CHR ''.''" | x y where "E = [x, y]" "x \<noteq> CHR ''.''" "y \<noteq> CHR ''.''"
    | x y z where "E = [x, y, z]" "x \<noteq> CHR ''.''" "y \<noteq> CHR ''.''" "z \<noteq> CHR ''.''"
  using assms by (cases E rule: list.exhaust [case_product list.exhaust]; cases "tl E"; cases "tl (tl E)";
      cases "tl (tl (tl E))") (auto simp: octet_def)

lemma octet_show: "n < 256 \<Longrightarrow> octet (show_dec n)"
proof -
  assume n: "n < 256"
  have "CHR ''.'' \<notin> set (show_dec n)"
  proof
    assume "CHR ''.'' \<in> set (show_dec n)"
    then obtain k where "digit_of (CHR ''.'') = Some k" using decimal_show [of n] by (auto simp: decimal_def)
    then show False by (simp add: digit_of_def)
  qed
  then show ?thesis using decimal_show [of n] length_show [of n 3] n by (simp add: octet_def)
qed

lemma place_field:
  assumes "octet E"
  shows "adv_place (rev E @ CHR ''.'' # xs) 11 (p0 # p1 # p2 # p3 # p4 # p5 # p6 # p7 # p8 # ''000'') =
      adv_place xs 8 (p0 # p1 # p2 # p3 # p4 # p5 # p6 # p7 # p8 # pad3 E)"
    "adv_place (rev E @ CHR ''.'' # xs) 8 (p0 # p1 # p2 # p3 # p4 # p5 # ''000'' @ Q) =
      adv_place xs 5 (p0 # p1 # p2 # p3 # p4 # p5 # pad3 E @ Q)"
    "adv_place (rev E @ CHR ''.'' # xs) 5 (p0 # p1 # p2 # ''000'' @ Q) = adv_place xs 2 (p0 # p1 # p2 # pad3 E @ Q)"
    "adv_place (rev E) 2 (''000'' @ Q) = Some (pad3 E @ Q)"
  by (cases rule: octet_cases [OF assms]; simp add: field_end_def pad3_def eval_nat_numeral)+

lemma place_address:
  assumes "octet A" "octet B" "octet C" "octet E"
  shows "adv_place (rev (A @ ''.'' @ B @ ''.'' @ C @ ''.'' @ E)) 11 (replicate 12 (CHR 0x30)) =
    Some (pad3 A @ pad3 B @ pad3 C @ pad3 E)"
proof -
  have z: "replicate 12 (CHR 0x30) = ''000000000'' @ ''000''" by (simp add: numeral_eq_Suc)
  have "adv_place (rev (A @ ''.'' @ B @ ''.'' @ C @ ''.'' @ E)) 11 (''000000000'' @ ''000'') =
      adv_place (rev (A @ ''.'' @ B @ ''.'' @ C)) 8 (''000000000'' @ pad3 E)"
    using place_field(1) [OF assms(4)] by simp
  also have "\<dots> = adv_place (rev (A @ ''.'' @ B)) 5 (''000000'' @ pad3 C @ pad3 E)"
    using place_field(2) [OF assms(3)] by simp
  also have "\<dots> = adv_place (rev A) 2 (''000'' @ pad3 B @ pad3 C @ pad3 E)"
    using place_field(3) [OF assms(2)] by simp
  finally show ?thesis using place_field(4) [OF assms(1)] by (simp only: z)
qed

lemma pad3_length: "octet E \<Longrightarrow> length (pad3 E) = 3"
  by (simp add: octet_def pad3_def)

lemma update_address:
  assumes "octet A" "octet B" "octet C" "octet E" and "enable_until_running s = Some t"
  shows "\<exists>line. pega_ble_advertisement_data_update (A @ ''.'' @ B @ ''.'' @ C @ ''.'' @ E) s =
      Some (0, ble_log (Ble_shell line) t) \<and>
    hci_bytes line = [0x1F, 2, 1, 6, 0x16, 9] @
      map of_char (''NURA['' @ pad3 A @ ''.'' @ pad3 B @ ''.'' @ pad3 C @ ''.'' @ pad3 E @ '']'') @ [4, 0xFF]"
proof -
  let ?b = "pad3 A @ ''.'' @ pad3 B @ ''.'' @ pad3 C @ ''.'' @ pad3 E @ '']''"
  have len: "length (pad3 A) = 3" "length (pad3 B) = 3" "length (pad3 C) = 3" "length (pad3 E) = 3"
    using assms(1-4) by (simp_all add: pad3_length)
  have sep: "''2e'' = hex_char (CHR ''.'')" "''5d'' = hex_char (CHR '']'')"
    by (simp_all add: hex_char_def hex2_def hex_digit_def)
  have "7 \<le> length (A @ ''.'' @ B @ ''.'' @ C @ ''.'' @ E) \<and> length (A @ ''.'' @ B @ ''.'' @ C @ ''.'' @ E) \<le> 15"
    using assms(1-4) by (auto simp: octet_def Suc_le_eq length_greater_0_conv [symmetric] simp del: length_greater_0_conv)
  then have "pega_ble_advertisement_data_update (A @ ''.'' @ B @ ''.'' @ C @ ''.'' @ E) s =
      Some (0, ble_log (Ble_shell (snprintf 120 (adv_head @ words_of (map hex_char ?b) @ adv_tail))) t)"
    using assms(5) place_address [OF assms(1-4)] len
    by (simp add: pega_ble_advertisement_data_update_def Let_def sep)
  moreover have "length ?b = 16" by (simp add: len)
  ultimately show ?thesis using adv_bytes [of ?b] by blast
qed

definition hci_up :: "ble_env \<Rightarrow> bool" where
  "hci_up env \<longleftrightarrow> (\<forall>h. ble_pipe_out env h ''hciconfig | grep -c RUNNING'' \<noteq> None)"

lemma ble_log_simps [simp]: "benv (ble_log e s) = benv s" "blog (ble_log e s) = e # blog s"
    "m_thread_id (ble_log e s) = m_thread_id s" "m_pWifi_Address (ble_log e s) = m_pWifi_Address s"
  by (simp_all add: ble_log_def)

lemma enable_frame: "benv (pega_ble_advertisement_enable s) = benv s"
  by (simp add: pega_ble_advertisement_enable_def)

lemma enable_returns:
  assumes "hci_up (benv s)"
  obtains t where "enable_until_running s = Some t"
proof -
  have "pega_ble_is_ble_running (pega_ble_advertisement_enable s) \<noteq> None"
    using assms by (auto simp: pega_ble_is_ble_running_def hci_count_def hci_up_def enable_frame Let_def
        split: option.split list.split)
  then show thesis using that by (auto simp: enable_until_running_def)
qed

text \<open>
  C33: For every IPv4 address, with octets of one, two or three digits, the tool has the controller
  advertise the name \<open>NURA[aaa.bbb.ccc.ddd]\<close> with each octet on three digits. Of the manufacturer
  data behind it, which the length byte of 31 covers, only two of five bytes are sent: the
  command is cut at 119 characters.
\<close>

theorem ble_address_advertised:
  assumes "a < 256" "b < 256" "c < 256" "d < 256" and "hci_up (benv s)"
  shows "\<exists>t line. pega_ble_advertisement_data_update (dotted a b c d) s = Some (0, t) \<and>
    hd (blog t) = Ble_shell line \<and>
    hci_bytes line = [0x1F, 2, 1, 6, 0x16, 9] @ map of_char (''NURA['' @ pad3 (show_dec a) @ ''.'' @
      pad3 (show_dec b) @ ''.'' @ pad3 (show_dec c) @ ''.'' @ pad3 (show_dec d) @ '']'') @ [4, 0xFF]"
proof -
  obtain t where "enable_until_running s = Some t" by (rule enable_returns [OF assms(5)])
  from update_address [OF octet_show [OF assms(1)] octet_show [OF assms(2)] octet_show [OF assms(3)]
      octet_show [OF assms(4)] this]
  show ?thesis unfolding dotted_def by force
qed

subsection \<open>A text\<close>

text \<open>
  A text of up to 15 characters is advertised in brackets, blanks follow it; of one of 16 the last
  character is lost to the bracket, and a longer one runs over the array.
\<close>

lemma ble_text_advertised:
  assumes "hci_up (benv s)"
  shows "length w \<le> 15 \<Longrightarrow> \<exists>t line. pega_ble_advertisement_data_send w s = Some (0, t) \<and>
      hd (blog t) = Ble_shell line \<and> hci_bytes line = [0x1F, 2, 1, 6, 0x16, 9] @
        map of_char (''NURA['' @ w @ '']'' @ replicate (15 - length w) (CHR '' '')) @ [4, 0xFF]"
    and "length w = 16 \<Longrightarrow> \<exists>t line. pega_ble_advertisement_data_send w s = Some (0, t) \<and>
      hd (blog t) = Ble_shell line \<and> hci_bytes line = [0x1F, 2, 1, 6, 0x16, 9] @
        map of_char (''NURA['' @ butlast w @ '']'') @ [4, 0xFF]"
    and "length w > 16 \<Longrightarrow> pega_ble_advertisement_data_send w s = None"
proof -
  obtain t where t: "enable_until_running s = Some t" by (rule enable_returns [OF assms])
  show "pega_ble_advertisement_data_send w s = None" if "length w > 16"
    using that by (simp add: pega_ble_advertisement_data_send_def t)
  {
    assume "length w \<le> 15"
    then have "16 - length w = Suc (15 - length w)" by simp
    then have "(w @ replicate (16 - length w) (CHR '' ''))[length w := CHR '']''] =
        w @ '']'' @ replicate (15 - length w) (CHR '' '')"
      by (simp add: list_update_append)
    then show "\<exists>t line. pega_ble_advertisement_data_send w s = Some (0, t) \<and>
      hd (blog t) = Ble_shell line \<and> hci_bytes line = [0x1F, 2, 1, 6, 0x16, 9] @
        map of_char (''NURA['' @ w @ '']'' @ replicate (15 - length w) (CHR '' '')) @ [4, 0xFF]"
      using \<open>length w \<le> 15\<close> adv_bytes [of "w @ '']'' @ replicate (15 - length w) (CHR '' '')"]
      by (simp add: pega_ble_advertisement_data_send_def t)
  }
  {
    assume l: "length w = 16"
    then have "w[15 := CHR '']''] = butlast w @ '']''"
      by (cases w rule: rev_cases) (simp_all add: list_update_append)
    then show "\<exists>t line. pega_ble_advertisement_data_send w s = Some (0, t) \<and>
      hd (blog t) = Ble_shell line \<and> hci_bytes line = [0x1F, 2, 1, 6, 0x16, 9] @
        map of_char (''NURA['' @ butlast w @ '']'') @ [4, 0xFF]"
      using l adv_bytes [of "butlast w @ '']''"] by (simp add: pega_ble_advertisement_data_send_def t)
  }
qed

subsection \<open>The wait for the firmware\<close>

abbreviation (input) uart_cmd :: string where "uart_cmd \<equiv> ''hciconfig | grep -c UART''"

definition uart_polls :: "ble_io list \<Rightarrow> nat" where
  "uart_polls h = length (filter (\<lambda>e. e = Ble_pipe uart_cmd) h)"

definition wifi_up :: "ble_env \<Rightarrow> string \<Rightarrow> bool" where
  "wifi_up env ip \<longleftrightarrow> (\<forall>h. ble_ifaddrs_of env h = Some
     [\<lparr>if_name = ''mlan0'', if_inet = True, if_numeric = True, if_text = ip\<rparr>])"

definition ready_at :: "(nat \<Rightarrow> bool) \<Rightarrow> ble_env \<Rightarrow> bool" where
  "ready_at P env \<longleftrightarrow> (\<forall>h. ble_pipe_out env h uart_cmd = Some (if P (uart_polls h) then ''1'' else ''0''))"

lemma uart_poll:
  assumes "ready_at P (benv s)"
  obtains t where "pega_ble_is_loading_fw_ready s = Some (if P (uart_polls (blog s)) then 1 else 0, t)"
    "benv t = benv s" "m_thread_id t = m_thread_id s" "m_pWifi_Address t = m_pWifi_Address s"
    "uart_polls (blog t) = Suc (uart_polls (blog s))"
proof
  let ?t = "ble_log (Ble_sleep 1) (ble_log (Ble_pipe uart_cmd) s)"
  have "atoi ''1'' = 1" "atoi ''0'' = 0" by code_simp+
  then show "pega_ble_is_loading_fw_ready s = Some (if P (uart_polls (blog s)) then 1 else 0, ?t)"
    using assms by (simp add: pega_ble_is_loading_fw_ready_def hci_count_def ready_at_def)
qed (simp_all add: uart_polls_def)

lemma waits_network:
  assumes "wifi_up (benv s) ip"
  obtains t where "wait_network s = Some t" "benv t = benv s" "m_thread_id t = m_thread_id s"
    "m_pWifi_Address t = Some ip" "uart_polls (blog t) = uart_polls (blog s)"
proof
  let ?t = "(ble_log Ble_ifaddrs (ble_log (Ble_sleep 2) s))\<lparr>m_pWifi_Address := Some ip\<rparr>"
  show "wait_network s = Some ?t"
    using assms by (subst wait_network.simps)
      (simp add: pega_ble_check_network_is_ready_def wifi_up_def)
qed (simp_all add: uart_polls_def)

lemma reload_simps [simp]: "benv (re_load s) = benv s" "m_thread_id (re_load s) = m_thread_id s"
    "m_pWifi_Address (re_load s) = m_pWifi_Address s" "uart_polls (blog (re_load s)) = uart_polls (blog s)"
  by (simp_all add: re_load_def pega_ble_load_fw_Start_def uart_polls_def)

text \<open>Once the time-out count is above 15 every round reloads, and the limit of three is not reached.\<close>

lemma fw_round_stays:
  assumes "fw_round fw n s = Some r"
  shows "\<not> (ready_at (\<lambda>_. False) (benv s) \<and> m_thread_id s = 0 \<and> (fw = 1 \<or> n > 15))"
proof (rule fw_round.raw_induct [OF _ assms], rule notI)
  fix rec :: "int \<Rightarrow> int \<Rightarrow> bletool_st \<Rightarrow> (int \<times> bletool_st) option" and fw n s r
  assume IH: "\<And>fw n s r. rec fw n s = Some r \<Longrightarrow>
      \<not> (ready_at (\<lambda>_. False) (benv s) \<and> m_thread_id s = 0 \<and> (fw = 1 \<or> n > 15))"
    and run: "(if pega_ble_is_loading_fw s = 0 then rec fw n s
      else case pega_ble_is_loading_fw_ready s of None \<Rightarrow> None
      | Some (r, s) \<Rightarrow>
          if r > 0 then advertise_address (ble_log (Ble_sleep 1) s)
          else if n > 15 then rec (fw + 1) (n + 1) (re_load s)
          else if fw \<ge> 3 then Some (0, s)
          else rec fw (n + 1) (ble_log (Ble_sleep 2) s)) = Some r"
    and st: "ready_at (\<lambda>_. False) (benv s) \<and> m_thread_id s = 0 \<and> (fw = 1 \<or> n > 15)"
  obtain t where "pega_ble_is_loading_fw_ready s = Some (0, t)" "benv t = benv s" "m_thread_id t = m_thread_id s"
    using uart_poll [of "\<lambda>_. False" s] st by (metis (full_types))
  then show False using run st IH [of "fw + 1" "n + 1" "re_load t" r] IH [of fw "n + 1" "ble_log (Ble_sleep 2) t" r]
    by (auto simp: pega_ble_is_loading_fw_def split: if_splits)
qed

lemma fw_round_ends:
  assumes "P n" and "uart_polls (blog s) \<le> n" and "ready_at P (benv s)" and "m_thread_id s = 0"
    and "fw = 1 \<or> k > 15" and "m_pWifi_Address s = Some ip"
    and "\<And>t. benv t = benv s \<Longrightarrow> \<exists>u. pega_ble_advertisement_data_update ip t = Some (0, u)"
  shows "\<exists>u. fw_round fw k s = Some (0, u)"
  using assms(2-)
proof (induction "n - uart_polls (blog s)" arbitrary: fw k s rule: less_induct)
  case less
  obtain t where t: "pega_ble_is_loading_fw_ready s = Some (if P (uart_polls (blog s)) then 1 else 0, t)"
    "benv t = benv s" "m_thread_id t = m_thread_id s" "m_pWifi_Address t = m_pWifi_Address s"
    "uart_polls (blog t) = Suc (uart_polls (blog s))" by (rule uart_poll [OF less.prems(2)])
  show ?case
  proof (cases "P (uart_polls (blog s))")
    case True
    then show ?thesis using t less.prems(3,5,6) by (subst fw_round.simps)
      (simp add: pega_ble_is_loading_fw_def advertise_address_def)
  next
    case False
    then have "uart_polls (blog s) < n" using assms(1) less.prems(1) by (metis le_neq_implies_less)
    then have "\<exists>u. fw_round (fw + 1) (k + 1) (re_load t) = Some (0, u)" if "k > 15"
      using less.hyps [of "re_load t"] less.prems that t by auto
    moreover have "\<exists>u. fw_round fw (k + 1) (ble_log (Ble_sleep 2) t) = Some (0, u)"
      using less.hyps [of "ble_log (Ble_sleep 2) t"] less.prems t \<open>uart_polls (blog s) < n\<close>
      by (auto simp: uart_polls_def)
    ultimately show ?thesis using False t less.prems(3,4) by (subst fw_round.simps)
      (auto simp: pega_ble_is_loading_fw_def)
  qed
qed

text \<open>
  C34: With the network up, the firmware wait returns if and only if some poll sees the firmware
  ready: the limit of three loads is never reached, because the time-out count is not reset and its
  test comes first. \<open>P n\<close> is whether the poll after \<open>n\<close> others sees it.
\<close>

theorem firmware_wait_returns:
  assumes "ready_at P env" and "wifi_up env (dotted a b c d)" and "hci_up env"
    and "a < 256" "b < 256" "c < 256" "d < 256"
  shows "(\<exists>r t. pega_ble_load_fw (ble_static env) = Some (r, t)) \<longleftrightarrow> (\<exists>n. P n)"
proof -
  have "wifi_up (benv (ble_static env)) (dotted a b c d)" using assms(2) by (simp add: ble_static_def)
  then obtain t where t: "wait_network (ble_static env) = Some t" "benv t = env" "m_thread_id t = 0"
    "m_pWifi_Address t = Some (dotted a b c d)" "uart_polls (blog t) = 0"
    by (rule waits_network) (simp add: ble_static_def uart_polls_def)
  have run: "pega_ble_load_fw (ble_static env) = fw_round 1 0 (re_load t)" by (simp add: pega_ble_load_fw_def t)
  show ?thesis
  proof
    assume "\<exists>n. P n"
    then obtain n where "P n" by blast
    moreover have "\<exists>v. pega_ble_advertisement_data_update (dotted a b c d) u = Some (0, v)" if "benv u = env" for u
      using ble_address_advertised [OF assms(4-7)] assms(3) that by blast
    ultimately show "\<exists>r t. pega_ble_load_fw (ble_static env) = Some (r, t)"
      using fw_round_ends [of P n "re_load t" 1 0 "dotted a b c d"] assms(1) t run by simp blast
  next
    assume "\<exists>r t. pega_ble_load_fw (ble_static env) = Some (r, t)"
    then show "\<exists>n. P n"
    proof (rule contrapos_pp)
      assume "\<nexists>n. P n"
      then have "P = (\<lambda>_. False)" by blast
      then have "ready_at (\<lambda>_. False) env" using assms(1) by simp
      then show "\<nexists>r t. pega_ble_load_fw (ble_static env) = Some (r, t)"
        using fw_round_stays [of 1 0 "re_load t"] t by (auto simp: run)
    qed
  qed
qed

subsection \<open>Witnesses\<close>

text \<open>A board whose firmware is ready at the 41st poll, long after three loads.\<close>

definition ble_board :: ble_env where
  "ble_board = \<lparr>ble_environ = [], ble_shell_ret = \<lambda>h c. 0,
     ble_pipe_out = \<lambda>h c. Some (if c = uart_cmd then (if uart_polls h = 40 then ''1'' else ''0'') else ''1''),
     ble_ifaddrs_of = \<lambda>h. Some [\<lparr>if_name = ''mlan0'', if_inet = True, if_numeric = True,
       if_text = dotted 192 168 1 20\<rparr>]\<rparr>"

lemma ble_board_facts: "ready_at (\<lambda>n. n = 40) ble_board" "wifi_up ble_board (dotted 192 168 1 20)" "hci_up ble_board"
  by (simp_all add: ready_at_def wifi_up_def hci_up_def ble_board_def)

theorem ble_address_advertised_witness:
  "\<exists>t line. pega_ble_advertisement_data_update (dotted 192 168 1 20) (ble_static ble_board) = Some (0, t) \<and>
     hd (blog t) = Ble_shell line \<and>
     hci_bytes line = [0x1F, 2, 1, 6, 0x16, 9] @ map of_char ''NURA[192.168.001.020]'' @ [4, 0xFF]"
proof -
  have "hci_up (benv (ble_static ble_board))" by (simp add: ble_static_def ble_board_facts)
  moreover have "pad3 (show_dec 192) = ''192''" "pad3 (show_dec 168) = ''168''" "pad3 (show_dec 1) = ''001''"
    "pad3 (show_dec 20) = ''020''" by code_simp+
  ultimately show ?thesis using ble_address_advertised [of 192 168 1 20 "ble_static ble_board"] by simp
qed

theorem firmware_wait_returns_witness:
  "\<exists>r t. pega_ble_load_fw (ble_static ble_board) = Some (r, t)"
  using firmware_wait_returns [OF ble_board_facts] by simp

end
