(* ===== verification/Gpio_Tool.thy ===== *)
theory Gpio_Tool
  imports Dbg_Client Misc_Gpio
begin

text \<open>
  The tool \<open>pega_gpio\<close> (\<open>pega_gpio/src\<close>): pins, PWM channels and the converter \<open>/dev/sar\<close> from the
  command line. Its \<open>pega_gpio.c\<close> and \<open>pega_pwm.c\<close> are those of the daemon but for the tables
  of the start. A fault is \<open>None\<close>.
\<close>

subsection \<open>Converter\<close>

text \<open>
  The log of the converter, newest first: its opening, the two requests of the driver, its closing
  and the lines printed. The environment gives the descriptor, whether the initialisation works
  and the value of a channel.
\<close>

datatype sar_io = Sar_open int | Sar_init bool | Sar_get int int "int option" | Sar_close int | Sar_line int int

record sar_env =
  sar_fd :: "sar_io list \<Rightarrow> int"
  sar_init_ok :: "sar_io list \<Rightarrow> int \<Rightarrow> bool"
  sar_value :: "sar_io list \<Rightarrow> int \<Rightarrow> int \<Rightarrow> int option"

record gtool_st = gpio_st +
  senv :: sar_env
  slog :: "sar_io list"
  mSar_fd :: int

definition gtool_static :: "misc_env \<Rightarrow> sar_env \<Rightarrow> gtool_st" where
  "gtool_static env sar = \<lparr>menv = env, mlog = [], bIrcut_enable = -1, senv = sar, slog = [], mSar_fd = 0\<rparr>"

definition sar_log :: "sar_io \<Rightarrow> gtool_st \<Rightarrow> gtool_st" where
  "sar_log e s = s\<lparr>slog := e # slog s\<rparr>"

definition Pega_SarADC_init :: "gtool_st \<Rightarrow> int \<times> gtool_st" where
  "Pega_SarADC_init s =
     (let fd = sar_fd (senv s) (slog s); s = sar_log (Sar_open fd) (s\<lparr>mSar_fd := fd\<rparr>) in
      if fd < 0 then (-1, s)
      else (let ok = sar_init_ok (senv s) (slog s) fd in (if ok then 0 else -1, sar_log (Sar_init ok) s)))"

definition Pega_SarADC_uninit :: "gtool_st \<Rightarrow> int \<times> gtool_st" where
  "Pega_SarADC_uninit s = (0, if mSar_fd s > 0 then sar_log (Sar_close (mSar_fd s)) s else s)"

text \<open>The channel is compared as a signed number; the result code comes first, then the value.\<close>

definition Pega_SarADC_Value_Get :: "int \<Rightarrow> gtool_st \<Rightarrow> int \<times> int \<times> gtool_st" where
  "Pega_SarADC_Value_Get eChannel s =
     (if eChannel \<ge> 4 then (FAILED, 0, s)
      else if mSar_fd s \<noteq> 0
      then (let v = sar_value (senv s) (slog s) (mSar_fd s) eChannel;
                s = sar_log (Sar_get (mSar_fd s) eChannel v) s
            in case v of None \<Rightarrow> (FAILED, 0, s) | Some n \<Rightarrow> (SUCCEED, n, s))
      else (SUCCEED, 0, s))"

definition Pega_SarADC_Value_Print :: "int \<Rightarrow> gtool_st \<Rightarrow> gtool_st" where
  "Pega_SarADC_Value_Print eChannel s =
     (case Pega_SarADC_Value_Get eChannel s of (r, v, s) \<Rightarrow> sar_log (Sar_line eChannel v) s)"

subsection \<open>Pins and PWM channels\<close>

definition gpio_tool_table :: "(int \<times> int \<times> int) list" where
  "gpio_tool_table =
     [(IO_I_SYNC_BUTTON, 1, -1), (7, 1, -1), (IO_I_ACC_INT, 1, -1),
      (IO_I_MOTOR_nFAULT_PAN, 1, -1), (IO_I_MOTOR_nFAULT_RISING, 1, -1), (IO_I_NFC_IRQ, 1, -1),
      (14, 0, 0), (IO_O_IW610F_RST_WL, 0, 0), (IO_O_IW610F_RST_BLE, 0, 0),
      (15, 0, 0), (IO_O_IW610G_RST_WL, 0, 0), (19, 0, 0),
      (IO_O_AUDIO_SHUTDOWN, 0, 0), (PIN_RISING_nSLEEP, 0, 0), (PIN_PAN_nSLEEP, 0, 0),
      (PIN_MOTO_PWM0, 0, 0), (PIN_MOTO_PWM1, 0, 0), (PIN_MOTO_PWM2, 0, 0), (PIN_MOTO_PWM3, 0, 0),
      (IO_O_IR_CUT_IN1, 0, 0), (IO_O_IR_CUT_IN2, 0, 0), (62, 0, 0), (IO_O_CAM_1V8_EN, 0, 0),
      (IO_O_LED_R, 0, 0), (IO_O_LED_G, 0, 0), (IO_O_LED_B, 0, 0)]"

definition Pega_Gpio_init_tool :: "gtool_st \<Rightarrow> gtool_st" where
  "Pega_Gpio_init_tool = fold gpio_init_pin gpio_tool_table"

definition Pega_pwm_init_tool :: "gtool_st \<Rightarrow> gtool_st option" where
  "Pega_pwm_init_tool s = Option.bind (pwm_start PWM_CH6 2000 50 0 s) (pwm_start PWM_CH7 2000 50 0)"

subsection \<open>Program\<close>

text \<open>
  \<open>main\<close> with its argument vector and the environment behind it: it compares \<open>argv[2]\<close> without a
  test for the null pointer and reads \<open>argv[3]\<close>, \<open>argv[4]\<close> and \<open>argv[5]\<close> whatever \<open>argc\<close> is.
\<close>

definition pwm_command :: "string list \<Rightarrow> string list \<Rightarrow> string \<Rightarrow> gtool_st \<Rightarrow> gtool_st option" where
  "pwm_command args envp c s =
     (if c = ''init'' then Pega_pwm_init_tool s
      else if c = ''set'' then do {
        wPWM \<leftarrow> dbg_value args envp 3 6;
        bEnable \<leftarrow> dbg_value args envp 4 0;
        Some (snd (Pega_pwm_control (word_of_int wPWM) bEnable s))
      }
      else if c = ''config'' then do {
        wPWM \<leftarrow> dbg_value args envp 3 6;
        period \<leftarrow> dbg_value args envp 4 2000;
        duty_cycle \<leftarrow> dbg_value args envp 5 50;
        Some (snd (Pega_pwm_config (word_of_int wPWM) (word_of_int period) (word_of_int duty_cycle) s))
      }
      else Some s)"

definition adc_command :: "string list \<Rightarrow> string list \<Rightarrow> string \<Rightarrow> gtool_st \<Rightarrow> gtool_st option" where
  "adc_command args envp c s =
     (if c = ''init'' then Some (snd (Pega_SarADC_init s))
      else if c = ''get'' then map_option (\<lambda>a. case a of None \<Rightarrow> s
        | Some n \<Rightarrow> Pega_SarADC_Value_Print (strtol10 n) s) (argv_mem args envp 3)
      else Some s)"

definition gpio_main :: "string list \<Rightarrow> string list \<Rightarrow> gtool_st \<Rightarrow> gtool_st option" where
  "gpio_main args envp s =
     (if length args \<le> 1 then Some (emit (Print ''Pega_gpio help info [options]'') s)
      else if args ! 1 \<notin> {''gpio'', ''adc'', ''pwm''} then Some s
      else case argv_mem args envp 2 of
        Some (Some c) \<Rightarrow>
          (if args ! 1 = ''gpio''
           then Some (if c = ''init'' then Pega_Gpio_init_tool s
                      else if c = ''info'' then emit (Print ''Pega_Gpio_Data_Info_Print'') s else s)
           else if args ! 1 = ''adc'' then adc_command args envp c s else pwm_command args envp c s)
      | _ \<Rightarrow> None)"

subsection \<open>What it shows\<close>

text \<open>
  Each run of the tool is a new process whose descriptor of the converter is 0: whatever the
  converter, the channel and an earlier \<open>adc init\<close>, \<open>adc get\<close> asks nobody and prints the value 0.
\<close>

theorem adc_get_never_reads:
  shows "\<exists>t. gpio_main [prog, ''adc'', ''get'', ch] envp (gtool_static env sar) = Some t \<and>
    slog t = [Sar_line (strtol10 ch) 0] \<and> mlog t = []"
  by (simp add: gpio_main_def adc_command_def argv_mem_def Pega_SarADC_Value_Print_def
      Pega_SarADC_Value_Get_def gtool_static_def sar_log_def)

text \<open>
  \<open>pwm config\<close> without numbers does not use its defaults of 2000 and 50: it takes the first strings
  of the environment, which are no numbers, and programs a period and a duty cycle of 0.
\<close>

lemma pwm_config_default_lost:
  assumes "atoi e = 0" and "atoi f = 0"
    and "\<And>h p. open_ok (menv s) h p"
  shows "\<exists>t. gpio_main [prog, ''pwm'', ''config''] (e # f # es) s = Some t \<and>
    last_write (mlog t) (Pwm_period PWM_CH6) = Some ''0'' \<and> last_write (mlog t) (Pwm_duty_cycle PWM_CH6) = Some ''0''"
proof -
  have "show_int 0 = ''0''" by code_simp
  then show ?thesis using assms
    by (simp add: gpio_main_def pwm_command_def argv_mem_def dbg_value_def strtol10_def Pega_pwm_config_def
      sys_open_def emit_def Let_def)
qed

text \<open>With its three numbers \<open>pwm config\<close> programs them.\<close>

lemma pwm_config_numbers:
  assumes "\<And>h p. open_ok (menv s) h p"
  shows "\<exists>t. gpio_main [prog, ''pwm'', ''config'', a, b, c] es s = Some t \<and>
    last_write (mlog t) (Pwm_period (word_of_int (strtol10 a))) =
      Some (show_int (sint (word_of_int (strtol10 b) :: u32))) \<and>
    last_write (mlog t) (Pwm_duty_cycle (word_of_int (strtol10 a))) =
      Some (show_int (sint (word_of_int (strtol10 b) div 100 * word_of_int (strtol10 c) :: u32)))"
  using assms by (simp add: gpio_main_def pwm_command_def argv_mem_def dbg_value_def Pega_pwm_config_def
      sys_open_def emit_def Let_def)

text \<open>The pin 62, an input of the daemon, is driven low by \<open>gpio init\<close>.\<close>

lemma idac_directions: "(62, 0, 0) \<in> set gpio_tool_table \<and> (62, 1, -1) \<in> set gpio_init_table"
  by (simp add: gpio_tool_table_def gpio_init_table_def)

end
