(* ===== verification/Ip_Tool.thy ===== *)
theory Ip_Tool
  imports Diag_Base
begin

text \<open>
  The network tool \<open>pega_ip\<close> (\<open>pega_ip/src/main.c\<close>): the interfaces of the system, their addresses
  and their IPv6 scopes. The kernel is the environment; what is printed goes to the log, newest first.
  \<open>get_local_ipv6\<close> is not called. A fault is \<open>None\<close>.
\<close>

subsection \<open>Kernel\<close>

datatype ip_io = Ip_dir bool | Ip_socket bool | Ip_socket_close | Ip_inet6_file bool
  | Ip_mac "u8 list" | Ip_mtu int | Ip_line string string | Ip_inet6 string nat u32 string
  | Ip_interface string | Ip_found string | Ip_end

text \<open>A line of \<open>/proc/net/if_inet6\<close> that \<open>fscanf\<close> takes: interface, address as text, prefix and scope.\<close>

record inet6_line =
  l6_name :: string
  l6_text :: string
  l6_prefix :: u32
  l6_scope :: u32

record ip_env =
  ip_net :: "ip_io list \<Rightarrow> string list option"
  ip_socket_ok :: "ip_io list \<Rightarrow> bool"
  ip_hwaddr :: "ip_io list \<Rightarrow> string \<Rightarrow> u8 list option"
  ip_mtu_of :: "ip_io list \<Rightarrow> string \<Rightarrow> int option"
  ip_addr :: "ip_io list \<Rightarrow> string \<Rightarrow> string option"
  ip_broadcast :: "ip_io list \<Rightarrow> string \<Rightarrow> string option"
  ip_netmask :: "ip_io list \<Rightarrow> string \<Rightarrow> string option"
  ip_inet6_lines :: "ip_io list \<Rightarrow> inet6_line list option"

record ip_st =
  ienv :: ip_env
  ilog :: "ip_io list"

definition ip_log :: "ip_io \<Rightarrow> ip_st \<Rightarrow> ip_st" where
  "ip_log e s = s\<lparr>ilog := e # ilog s\<rparr>"

text \<open>What is printed when a request of the socket gives an answer.\<close>

definition answered :: "('a \<Rightarrow> ip_io) \<Rightarrow> 'a option \<Rightarrow> ip_st \<Rightarrow> ip_st" where
  "answered f r s = (case r of None \<Rightarrow> s | Some a \<Rightarrow> ip_log (f a) s)"

subsection \<open>IPv6\<close>

definition scope_name :: "u32 \<Rightarrow> string" where
  "scope_name scope = (if scope = 0 then ''Global'' else if scope = 0x20 then ''Link''
     else if scope = 0x40 then ''Site'' else if scope = 0x80 then ''Compat''
     else if scope = 0x10 then ''Host'' else ''Unknown'')"

text \<open>The loop over the lines; \<open>ip\<close> is what the buffer of the caller holds, if it gave one.\<close>

fun inet6_loop :: "string \<Rightarrow> int \<Rightarrow> inet6_line list \<Rightarrow> int \<times> string \<Rightarrow> ip_st \<Rightarrow> int \<times> string \<times> ip_st" where
  "inet6_loop ifname bDebug [] (rtn, ip) s = (rtn, ip, s)"
| "inet6_loop ifname bDebug (l # ls) (rtn, ip) s =
     (if l6_name l \<noteq> ifname then inet6_loop ifname bDebug ls (rtn, ip) s
      else inet6_loop ifname bDebug ls (0, l6_text l)
        (if bDebug > 0 then ip_log (Ip_inet6 (l6_text l) (length (l6_text l)) (l6_prefix l) (scope_name (l6_scope l))) s
         else s))"

definition parse_inet6 :: "string \<Rightarrow> string \<Rightarrow> int \<Rightarrow> ip_st \<Rightarrow> int \<times> string \<times> ip_st" where
  "parse_inet6 ifname ip bDebug s =
     (case ip_inet6_lines (ienv s) (ilog s) of
        None \<Rightarrow> (-1, ip, ip_log (Ip_inet6_file False) s)
      | Some ls \<Rightarrow> (case inet6_loop ifname bDebug ls (-1, ip) (ip_log (Ip_inet6_file True) s) of (rtn, ip, s) \<Rightarrow>
          (rtn, ip, if rtn < 0 \<and> bDebug > 0 then ip_log (Ip_line ''IPv6 address'' ''NULL'') s else s)))"

subsection \<open>IPv4\<close>

text \<open>\<open>IFNAMSIZ\<close> is 16.\<close>

definition parse_inet4 :: "string \<Rightarrow> string \<Rightarrow> int \<Rightarrow> ip_st \<Rightarrow> int \<times> string \<times> ip_st" where
  "parse_inet4 ifname ip bDebug s =
     (if length ifname \<ge> 16 then (-1, ip, s)
      else let ok = ip_socket_ok (ienv s) (ilog s); s = ip_log (Ip_socket ok) s in
      if \<not> ok then (-1, ip, s)
      else let mac = ip_hwaddr (ienv s) (ilog s) ifname;
               s = (if bDebug > 0 then answered Ip_mac mac s else s) in
      case ip_addr (ienv s) (ilog s) ifname of
        None \<Rightarrow> (-1, ip, ip_log Ip_socket_close s)
      | Some address \<Rightarrow> (0, address,
          ip_log Ip_socket_close (if bDebug > 0 then ip_log (Ip_line ''IPv4 address'' address) s else s)))"

definition parse_ioctl :: "string \<Rightarrow> ip_st \<Rightarrow> int \<times> ip_st" where
  "parse_ioctl ifname s =
     (if length ifname \<ge> 16 then (-1, s)
      else let ok = ip_socket_ok (ienv s) (ilog s); s = ip_log (Ip_socket ok) s in
      if \<not> ok then (-1, s)
      else let s = answered Ip_mac (ip_hwaddr (ienv s) (ilog s) ifname) s;
               s = answered Ip_mtu (ip_mtu_of (ienv s) (ilog s) ifname) s in
      case ip_addr (ienv s) (ilog s) ifname of
        None \<Rightarrow> (-1, ip_log Ip_socket_close s)
      | Some address \<Rightarrow>
          (let s = ip_log (Ip_line ''Ip address'' address) s;
               s = answered (Ip_line ''Broadcast'') (ip_broadcast (ienv s) (ilog s) ifname) s;
               s = answered (Ip_line ''Netmask'') (ip_netmask (ienv s) (ilog s) ifname) s
           in (0, ip_log Ip_socket_close s)))"

subsection \<open>Interfaces\<close>

definition read_net :: "ip_st \<Rightarrow> string list option \<times> ip_st" where
  "read_net s = (let d = ip_net (ienv s) (ilog s) in (d, ip_log (Ip_dir (d \<noteq> None)) s))"

definition show_interface :: "string \<Rightarrow> ip_st \<Rightarrow> ip_st" where
  "show_interface d s =
     (if d = ''.'' \<or> d = ''..'' then s
      else (case parse_inet6 d [] 1 (snd (parse_ioctl d (ip_log (Ip_interface d) s))) of (r, ip, s) \<Rightarrow> ip_log Ip_end s))"

definition local_ip_show :: "ip_st \<Rightarrow> int \<times> ip_st" where
  "local_ip_show s = (case read_net s of (None, s) \<Rightarrow> (-1, s) | (Some ds, s) \<Rightarrow> (0, fold show_interface ds s))"

definition is_interface_exist :: "string \<Rightarrow> int \<Rightarrow> ip_st \<Rightarrow> int \<times> ip_st" where
  "is_interface_exist ifname bDebug s = (case read_net s of
     (None, s) \<Rightarrow> (-1, s)
   | (Some ds, s) \<Rightarrow>
       if ifname \<in> set (filter (\<lambda>d. d \<noteq> ''.'' \<and> d \<noteq> ''..'') ds)
       then (0, if bDebug > 0 then ip_log (Ip_found ifname) s else s) else (-1, s))"

subsection \<open>Program\<close>

text \<open>The first argument is compared without a test for the null pointer.\<close>

definition ip_main :: "string list \<Rightarrow> ip_st \<Rightarrow> ip_st option" where
  "ip_main args s =
     (if length args < 2 then None
      else if args ! 1 = ''show'' then Some (snd (local_ip_show s))
      else if length args < 3 then Some s
      else if args ! 1 = ''ifname'' then Some (snd (is_interface_exist (args ! 2) 1 s))
      else if args ! 1 = ''ipv4'' then Some (snd (snd (parse_inet4 (args ! 2) [] 1 s)))
      else if args ! 1 = ''ipv6'' then Some (snd (snd (parse_inet6 (args ! 2) [] 1 s)))
      else Some s)"

subsection \<open>What it prints\<close>

lemma ip_log_simps [simp]: "ienv (ip_log e s) = ienv s" "ilog (ip_log e s) = e # ilog s"
  by (simp_all add: ip_log_def)

text \<open>The lines printed for the lines of an interface, in their order.\<close>

definition inet6_shown :: "string \<Rightarrow> inet6_line list \<Rightarrow> ip_io list" where
  "inet6_shown ifname ls = map (\<lambda>l. Ip_inet6 (l6_text l) (length (l6_text l)) (l6_prefix l) (scope_name (l6_scope l)))
     (filter (\<lambda>l. l6_name l = ifname) ls)"

lemma inet6_loop_shows:
  "\<exists>a t. inet6_loop ifname 1 ls (rtn, ip) s = (if inet6_shown ifname ls = [] then rtn else 0, a, t) \<and>
    ilog t = rev (inet6_shown ifname ls) @ ilog s"
proof (induction ls arbitrary: rtn ip s)
  case (Cons l ls)
  show ?case
  proof (cases "l6_name l = ifname")
    case True
    let ?e = "Ip_inet6 (l6_text l) (length (l6_text l)) (l6_prefix l) (scope_name (l6_scope l))"
    have "inet6_shown ifname (l # ls) = ?e # inet6_shown ifname ls" using True by (simp add: inet6_shown_def)
    then show ?thesis using Cons.IH [of 0 "l6_text l" "ip_log ?e s"] True by auto
  next
    case False
    then show ?thesis using Cons.IH [of rtn ip s] by (simp add: inet6_shown_def)
  qed
qed (simp add: inet6_shown_def)

text \<open>
  \<open>pega_ip ipv6\<close> prints every address that the kernel lists for the interface, in its order and
  with its prefix and scope, and a line that there is none exactly when it lists none.
\<close>

theorem ipv6_prints_all:
  assumes "ip_inet6_lines (ienv s) (ilog s) = Some ls"
  shows "\<exists>t. ip_main [prog, ''ipv6'', ifname] s = Some t \<and>
    rev (ilog t) = rev (ilog s) @ Ip_inet6_file True #
      (if \<forall>l\<in>set ls. l6_name l \<noteq> ifname then [Ip_line ''IPv6 address'' ''NULL''] else inet6_shown ifname ls)"
proof -
  obtain a t where "inet6_loop ifname 1 ls (-1, []) (ip_log (Ip_inet6_file True) s) =
      (if inet6_shown ifname ls = [] then -1 else 0, a, t)"
    "ilog t = rev (inet6_shown ifname ls) @ Ip_inet6_file True # ilog s"
    using inet6_loop_shows [of ifname ls "-1" "[]" "ip_log (Ip_inet6_file True) s"] by auto
  moreover have "(\<forall>l\<in>set ls. l6_name l \<noteq> ifname) \<longleftrightarrow> inet6_shown ifname ls = []"
    by (auto simp: inet6_shown_def filter_empty_conv)
  ultimately show ?thesis using assms(1) by (simp add: ip_main_def parse_inet6_def)
qed

text \<open>The look-up gives what the copy of it in the client \<open>pega_diag\<close> gives for the same lines.\<close>

lemma inet6_same_as_client:
  "(case inet6_loop ifname bDebug ls (rtn, ip) s of (r, a, t) \<Rightarrow> (r, a)) =
    inet6_scan ifname (map (\<lambda>l. (l6_name l, l6_text l)) ls) (rtn, ip)"
  by (induction ls arbitrary: rtn ip s) auto

end
