(* ===== verification/Small_Tools.thy ===== *)
theory Small_Tools
  imports C_Text Uart_Tool
begin

text \<open>
  Three small programs: \<open>pega_test\<close> (serial port, environment, the network directory of the two SDIO
  slots), \<open>pega_rled\<close> (brightness of the LED ring) and \<open>pega_accread\<close> (registers of the
  accelerometer). What they print goes to a list, newest first; a fault is \<open>None\<close>.
\<close>

subsection \<open>pega_test\<close>

datatype test_line = Test_found string | Test_not_found string | Test_no_dir string
  | Test_variable string "string option"

text \<open>
  The serial port test is that of \<open>pega_uart\<close> with the arguments one further; \<open>argv[i]\<close> is the one of
  the program, before the shift. The rate without an argument is 0, which becomes 115200.
\<close>

definition uart_test :: "string list \<Rightarrow> string list \<Rightarrow> uart_st \<Rightarrow> uart_st option" where
  "uart_test args envp s =
     (case Uart_DeviceOpen s of (ok, s) \<Rightarrow>
      if \<not> ok then Some s
      else do {
        rate \<leftarrow> arg_or args envp 3 0 atoi;
        rtscts \<leftarrow> arg_or args envp 4 0 atoi;
        let s = Uart_InitialParameter rate (rtscts > 0) s;
        txt \<leftarrow> arg_or args envp 2 ''test'' (\<lambda>str. str);
        let s = snd (UART_SendBuffer txt s);
        s \<leftarrow> Uart_WaitAndSaveDataToBuffer 3000 s;
        Some (Uart_DeviceClose s)
      })"

text \<open>\<open>getenv\<close>: the text behind the name and the equals sign.\<close>

definition getenv :: "string list \<Rightarrow> string \<Rightarrow> string option" where
  "getenv envp name = map_option (drop (Suc (length name)))
     (find (\<lambda>e. take (Suc (length name)) e = name @ ''='') envp)"

definition env_test :: "string list \<Rightarrow> string list \<Rightarrow> test_line list \<Rightarrow> test_line list" where
  "env_test args envp out = (case argv_mem args envp 2 of
     Some (Some var) \<Rightarrow> Test_variable var (getenv envp var) # out | _ \<Rightarrow> out)"

definition SDMMC_NET :: "bool \<Rightarrow> string" where
  "SDMMC_NET sd1 = (if sd1
     then ''/sys/devices/platform/soc/1f282600.ifs_sdmmc1/mmc_host/mmc1/mmc1:0001/mmc1:0001:1/net''
     else ''/sys/devices/platform/soc/1f008400.ifs_sdmmc0/mmc_host/mmc0/mmc0:0001/mmc0:0001:1/net'')"

definition interface_check_sd :: "(string \<Rightarrow> string list option) \<Rightarrow> bool \<Rightarrow> string \<Rightarrow> int \<Rightarrow>
    test_line list \<Rightarrow> int \<times> test_line list" where
  "interface_check_sd dirs sd1 ifname bDebug out =
     (case dirs (SDMMC_NET sd1) of
        None \<Rightarrow> (-1, Test_no_dir (SDMMC_NET sd1) # out)
      | Some ds \<Rightarrow>
          if ifname \<in> set (filter (\<lambda>d. d \<noteq> ''.'' \<and> d \<noteq> ''..'') ds)
          then (0, if bDebug > 0 then Test_found ifname # out else out)
          else (-1, if bDebug > 0 then Test_not_found ifname # out else out))"

definition sd_test :: "(string \<Rightarrow> string list option) \<Rightarrow> bool \<Rightarrow> string list \<Rightarrow> string list \<Rightarrow>
    test_line list \<Rightarrow> test_line list" where
  "sd_test dirs sd1 args envp out = snd (interface_check_sd dirs sd1
     (case argv_mem args envp 2 of Some (Some n) \<Rightarrow> n | _ \<Rightarrow> ''mlan0'') 1 out)"

definition test_main :: "(string \<Rightarrow> string list option) \<Rightarrow> string list \<Rightarrow> string list \<Rightarrow> uart_st \<Rightarrow>
    (uart_st \<times> test_line list) option" where
  "test_main dirs args envp s =
     (if length args < 2 then None
      else if args ! 1 = ''uart'' then map_option (\<lambda>s. (s, [])) (uart_test args envp s)
      else if args ! 1 = ''env'' then Some (s, env_test args envp [])
      else if args ! 1 = ''sd0'' then Some (s, sd_test dirs False args envp [])
      else if args ! 1 = ''sd1'' then Some (s, sd_test dirs True args envp [])
      else Some (s, []))"

subsection \<open>pega_rled\<close>

text \<open>The text written to the attribute; the number is unsigned but printed with \<open>%d\<close>.\<close>

definition Pega_rLed_brightness_set :: "bool \<Rightarrow> u32 \<Rightarrow> int \<times> string option" where
  "Pega_rLed_brightness_set open_works brightness =
     (if open_works then (0, Some (show_int (sint brightness))) else (-1, None))"

definition rled_main :: "bool \<Rightarrow> string list \<Rightarrow> string option option" where
  "rled_main open_works args =
     (if length args < 2 then None
      else if args ! 1 = ''brightness'' \<and> length args > 2
      then Some (snd (Pega_rLed_brightness_set open_works (word_of_int (atoi (args ! 2)))))
      else Some None)"

subsection \<open>pega_accread\<close>

text \<open>
  A combined transfer writes the register number and reads a byte; \<open>get\<close> is what the device at an
  address gives. The loop over the registers from 0x0D to 0x3F shows each value, or that it failed.
\<close>

definition read_i2c_register :: "(u8 \<Rightarrow> u8 \<Rightarrow> u8 option) \<Rightarrow> u8 \<Rightarrow> u8 \<Rightarrow> u8 \<Rightarrow> int \<times> u8" where
  "read_i2c_register get device_addr reg val =
     (case get device_addr reg of None \<Rightarrow> (-1, val) | Some v \<Rightarrow> (0, v))"

fun acc_dump :: "(u8 \<Rightarrow> u8 \<Rightarrow> u8 option) \<Rightarrow> u8 list \<Rightarrow> (u8 \<times> u8 option) list" where
  "acc_dump get [] = []"
| "acc_dump get (reg # regs) =
     (case read_i2c_register get 0x19 reg 0 of (r, val) \<Rightarrow>
        (reg, if r = 0 then Some val else None) # acc_dump get regs)"

definition accread_main :: "int \<Rightarrow> (u8 \<Rightarrow> u8 \<Rightarrow> u8 option) \<Rightarrow> int \<times> (u8 \<times> u8 option) list" where
  "accread_main i2c_fd get =
     (if i2c_fd < 0 then (1, []) else (0, acc_dump get (map word_of_nat [0x0D..<0x40])))"

subsection \<open>What they do\<close>

text \<open>
  The dump reads every register of the accelerometer between the two, although it announces the LED
  driver, whose address is 0x68.
\<close>

lemma acc_dump_map: "acc_dump get regs = map (\<lambda>r. (r, get 0x19 r)) regs"
  by (induction regs) (auto simp: read_i2c_register_def split: option.split)

lemma accread_shows: "fd \<ge> 0 \<Longrightarrow> accread_main fd get = (0, map (\<lambda>r. (word_of_nat r, get 0x19 (word_of_nat r))) [0x0D..<0x40])"
  by (simp add: accread_main_def acc_dump_map)

text \<open>
  \<open>pega_rled\<close> writes the number it is given when it is an \<open>int\<close>, negative ones included.
\<close>

lemma rled_writes:
  assumes "- (2 ^ 31) \<le> atoi a" and "atoi a < 2 ^ 31"
  shows "rled_main True [prog, ''brightness'', a] = Some (Some (show_int (atoi a)))"
proof -
  have "sint (word_of_int (atoi a) :: u32) = atoi a" using assms by (simp add: sint_sbintrunc' signed_take_bit_int_eq_self)
  then show ?thesis by (simp add: rled_main_def Pega_rLed_brightness_set_def)
qed

end
