(* ===== verification/Misc_Keys.thy ===== *)
theory Misc_Keys
  imports Misc_Run
begin

text \<open>
  The button of the daemon, \<open>pega_gpio_key.c\<close>: the record of its presses and the thread that reads
  \<open>/dev/input/event0\<close>. No code of the daemon starts the thread, and the two events that a release
  would push are commented out; the model says which of the two branches a release enters. \<open>long\<close>
  has 32 bits and \<open>long long\<close> 64.
\<close>

subsection \<open>State\<close>

record stKeyDetType =
  bKeyPressed :: u8
  bKeyPressedCnt :: u32
  Pressed_Time :: int
  Pressed_Time_us :: u32
  Release_Time :: int
  Release_Time_us :: u32

record key_st =
  m_stKey :: stKeyDetType
  Press_firstT :: int
  Press_finalT :: int

definition no_key :: stKeyDetType where
  "no_key = \<lparr>bKeyPressed = 0, bKeyPressedCnt = 0, Pressed_Time = 0, Pressed_Time_us = 0,
     Release_Time = 0, Release_Time_us = 0\<rparr>"

definition key_static :: key_st where
  "key_static = \<lparr>m_stKey = no_key, Press_firstT = 0, Press_finalT = 0\<rparr>"

text \<open>An \<open>input_event\<close>: type, value and time. \<open>EV_KEY\<close> is 1.\<close>

record input_event =
  ev_type :: nat
  ev_value :: int
  tv_sec :: int
  tv_usec :: int

datatype key_branch = Key_none | Key_qrcode_scan | Key_factory_reset

subsection \<open>Events\<close>

definition Pega_Gpio_Key_timespec_diff :: "key_st \<Rightarrow> u32" where
  "Pega_Gpio_Key_timespec_diff s =
     (let dwPressT = s64 (Pressed_Time (m_stKey s) * 1000 * 1000 + uint (Pressed_Time_us (m_stKey s)));
          dwReleaseT = s64 (Release_Time (m_stKey s) * 1000 * 1000 + uint (Release_Time_us (m_stKey s)))
      in word_of_int (s64 (dwReleaseT - dwPressT) sdiv 1000))"

definition event_us :: "input_event \<Rightarrow> int" where
  "event_us ev = s32 (tv_sec ev * 1000 * 1000 + tv_usec ev)"

definition Pega_Gpio_Key_Reset_processing :: "input_event \<Rightarrow> key_st \<Rightarrow> key_branch \<times> key_st" where
  "Pega_Gpio_Key_Reset_processing ev s =
     (if ev_value ev = 1
      then let k = m_stKey s; k = k\<lparr>bKeyPressed := 1, bKeyPressedCnt := bKeyPressedCnt k + 1,
                 Pressed_Time := tv_sec ev, Pressed_Time_us := word_of_int (tv_usec ev)\<rparr>
           in (Key_none, s\<lparr>m_stKey := k,
                Press_firstT := if bKeyPressedCnt k = 1 then event_us ev else Press_firstT s\<rparr>)
      else let k = (m_stKey s)\<lparr>bKeyPressed := 0, Release_Time := tv_sec ev,
                 Release_Time_us := word_of_int (tv_usec ev)\<rparr>;
               dPresstime = word_of_int (s32 (event_us ev - Press_firstT s) sdiv 1000) :: u32;
               s = s\<lparr>m_stKey := k, Press_firstT := 0, Press_finalT := 0\<rparr>;
               dwtime = Pega_Gpio_Key_timespec_diff s
           in (if dwtime < 3000 then (if bKeyPressedCnt k > 5 then Key_qrcode_scan else Key_none)
               else if dPresstime \<ge> 5000 then Key_factory_reset else Key_none, s))"

text \<open>
  The loop of the thread over what its reads give: an event, or an error that is EINTR or not; it ends
  with another error. Events that are no keys are skipped.
\<close>

fun Pega_Gpio_Key_Detection_Handler :: "(input_event + bool) list \<Rightarrow> key_st \<Rightarrow> key_branch list \<times> key_st" where
  "Pega_Gpio_Key_Detection_Handler [] s = ([], s)"
| "Pega_Gpio_Key_Detection_Handler (Inr eintr # rs) s =
     (if eintr then Pega_Gpio_Key_Detection_Handler rs s else ([], s))"
| "Pega_Gpio_Key_Detection_Handler (Inl ev # rs) s =
     (if ev_type ev = 1
      then (case Pega_Gpio_Key_Reset_processing ev s of (b, s) \<Rightarrow>
        case Pega_Gpio_Key_Detection_Handler rs s of (bs, s) \<Rightarrow> (b # bs, s))
      else Pega_Gpio_Key_Detection_Handler rs s)"

definition Pega_Gpio_Key_Button_Status_Get :: "key_st \<Rightarrow> int" where
  "Pega_Gpio_Key_Button_Status_Get s = uint (bKeyPressed (m_stKey s))"

definition Pega_Gpio_Key_Button_Count_Get :: "key_st \<Rightarrow> u32" where
  "Pega_Gpio_Key_Button_Count_Get s = bKeyPressedCnt (m_stKey s)"

definition Pega_Gpio_key_Detection_Clear :: "key_st \<Rightarrow> key_st" where
  "Pega_Gpio_key_Detection_Clear s = s\<lparr>m_stKey := no_key\<rparr>"

subsection \<open>What a press is taken for\<close>

text \<open>A press at \<open>p\<close> microseconds and a release at \<open>q\<close>.\<close>

definition key_at :: "int \<Rightarrow> int \<Rightarrow> input_event" where
  "key_at v t = \<lparr>ev_type = 1, ev_value = v, tv_sec = t div 1000000, tv_usec = t mod 1000000\<rparr>"

definition press :: "int \<times> int \<Rightarrow> key_st \<Rightarrow> key_branch \<times> key_st" where
  "press x s = Pega_Gpio_Key_Reset_processing (key_at 0 (snd x)) (snd (Pega_Gpio_Key_Reset_processing (key_at 1 (fst x)) s))"

lemma event_us_key: "event_us (key_at v t) = s32 t"
  by (simp add: event_us_def key_at_def mult.commute [of "t div 1000000"] mult_div_mod_eq flip: mult.assoc)

lemma usec_word: "uint (word_of_int (t mod 1000000) :: u32) = t mod 1000000"
proof -
  have "0 \<le> t mod 1000000" "t mod 1000000 < 1000000" by simp_all
  then show ?thesis by (intro word_of_int_inverse [OF refl]) simp_all
qed

lemma whole_us: "t div 1000000 * 1000 * 1000 + t mod 1000000 = (t :: int)"
  using div_mult_mod_eq [of t 1000000] by simp

text \<open>The verdict on the press number \<open>n + 1\<close>.\<close>

lemma press_verdict:
  assumes "0 \<le> p" "p \<le> q" "q < 2 ^ 62" and "bKeyPressedCnt (m_stKey s) = n"
  shows "fst (press (p, q) s) =
      (if (word_of_int ((q - p) div 1000) :: u32) < 3000
       then (if n + 1 > 5 then Key_qrcode_scan else Key_none)
       else if (word_of_int (s32 (s32 q - (if n + 1 = 1 then s32 p else Press_firstT s)) sdiv 1000) :: u32) \<ge> 5000
       then Key_factory_reset else Key_none)"
    and "bKeyPressedCnt (m_stKey (snd (press (p, q) s))) = n + 1" and "Press_firstT (snd (press (p, q) s)) = 0"
proof -
  have "s64 p = p" "s64 q = q" "s64 (q - p) = q - p" using assms(1-3) by (simp_all add: s64_id)
  moreover have "(q - p) sdiv 1000 = (q - p) div 1000" using assms(2) by (simp add: sdiv_nonneg)
  ultimately show "fst (press (p, q) s) =
      (if (word_of_int ((q - p) div 1000) :: u32) < 3000
       then (if n + 1 > 5 then Key_qrcode_scan else Key_none)
       else if (word_of_int (s32 (s32 q - (if n + 1 = 1 then s32 p else Press_firstT s)) sdiv 1000) :: u32) \<ge> 5000
       then Key_factory_reset else Key_none)"
    using assms(4) by (simp add: press_def Pega_Gpio_Key_Reset_processing_def Pega_Gpio_Key_timespec_diff_def
        event_us_key Let_def) (simp add: key_at_def usec_word whole_us)
  show "bKeyPressedCnt (m_stKey (snd (press (p, q) s))) = n + 1" "Press_firstT (snd (press (p, q) s)) = 0"
    using assms(4) by (simp_all add: press_def Pega_Gpio_Key_Reset_processing_def Let_def key_at_def)
qed

lemma ms_word:
  assumes "0 \<le> d" and "d < 2 ^ 32"
  shows "uint (word_of_int (d div 1000) :: u32) = d div 1000"
proof -
  have "0 \<le> d div 1000" "d div 1000 < 2 ^ 32" using assms zdiv_mono1 [of d "2 ^ 32 - 1" 1000] by simp_all
  then show ?thesis by (intro word_of_int_inverse [OF refl]) simp_all
qed

lemma s32_diff: "s32 (s32 a - s32 b) = s32 (a - b)"
proof -
  have "s32 a - s32 b + 2 ^ 31 = ((a + 2 ^ 31) mod 2 ^ 32 - (b + 2 ^ 31) mod 2 ^ 32) + 2 ^ 31" by (simp add: s32_def)
  also have "\<dots> mod 2 ^ 32 = ((a + 2 ^ 31) - (b + 2 ^ 31) + 2 ^ 31) mod 2 ^ 32"
    by (rule mod_add_cong [OF mod_diff_eq refl])
  finally show ?thesis by (simp add: s32_def)
qed

text \<open>
  The first press since the start is taken for a factory reset when it lasts five seconds (and less than
  36 minutes), as the comment says, and is no click of six.
\<close>

lemma first_press:
  assumes "0 \<le> p" "p \<le> q" "q < 2 ^ 62" "q - p < 2 ^ 31" and "bKeyPressedCnt (m_stKey s) = 0"
  shows "fst (press (p, q) s) = (if q - p \<ge> 5000000 then Key_factory_reset else Key_none)"
proof -
  let ?d = "q - p"
  have "s32 (s32 q - s32 p) = ?d" using assms(2,4) by (simp add: s32_diff s32_id)
  moreover have "?d sdiv 1000 = ?d div 1000" using assms(2) by (simp add: sdiv_nonneg)
  moreover have w: "uint (word_of_int (?d div 1000) :: u32) = ?d div 1000" using assms(2,4) by (intro ms_word) simp_all
  have "(word_of_int (?d div 1000) :: u32) < 3000 \<longleftrightarrow> ?d div 1000 < 3000"
    "(5000 :: u32) \<le> word_of_int (?d div 1000) \<longleftrightarrow> 5000 \<le> ?d div 1000"
    unfolding word_less_def word_le_def w by simp_all
  moreover have "d div 1000 < 3000 \<longleftrightarrow> d < 3000000" "5000 \<le> d div 1000 \<longleftrightarrow> 5000000 \<le> d" for d :: int
    using mult_div_mod_eq [of 1000 d] pos_mod_sign [of 1000 d] pos_mod_bound [of 1000 d] by linarith+
  ultimately show ?thesis using press_verdict(1) [OF assms(1-3,5)] by auto
qed

text \<open>
  On every later press \<open>Press_firstT\<close> is 0, so the time compared with five seconds is not how long the
  button was held but the low 32 bits of the clock: unless these are about zero or below five seconds a press of three
  seconds is taken for a factory reset.
\<close>

lemma later_press:
  assumes "0 \<le> p" "p \<le> q" "q < 2 ^ 62" "3000000 \<le> q - p" "q - p < 2 ^ 32"
    and "bKeyPressedCnt (m_stKey s) = n" "n \<noteq> 0" "Press_firstT s = 0" and "s32 q \<le> -1000 \<or> 5000000 \<le> s32 q"
  shows "fst (press (p, q) s) = Key_factory_reset"
proof -
  let ?d = "q - p"
  have w: "uint (word_of_int (?d div 1000) :: u32) = ?d div 1000" using assms(2,5) by (intro ms_word) simp_all
  have "3000 \<le> ?d div 1000" using zdiv_mono1 [OF assms(4), of 1000] by simp
  then have "\<not> (word_of_int (?d div 1000) :: u32) < 3000" unfolding word_less_def w by simp
  moreover have "n + 1 \<noteq> 1" using assms(7) by simp
  moreover have "(5000 :: u32) \<le> word_of_int (s32 q sdiv 1000)"
  proof (cases "0 \<le> s32 q")
    case True
    then have "uint (word_of_int (s32 q div 1000) :: u32) = s32 q div 1000"
      using s32_range [of q] by (intro ms_word) simp_all
    moreover have "5000 \<le> s32 q div 1000" using True assms(9) by simp
    ultimately show ?thesis using True by (simp add: word_le_def sdiv_nonneg)
  next
    case False
    define m where "m = (- s32 q) div 1000"
    have "s32 q sdiv 1000 = - m" using False by (simp add: signed_divide_int_def m_def sgn_if)
    moreover have "1 \<le> m" "m \<le> 2147484" using False assms(9) s32_range [of q] unfolding m_def by simp_all
    then have "uint (word_of_int (- m) :: u32) = 2 ^ 32 - m"
      using uint_word_of_int [where 'a = 32, of "- m"] by (simp add: zmod_zminus1_eq_if)
    ultimately show ?thesis using \<open>m \<le> 2147484\<close> by (simp add: word_le_def)
  qed
  ultimately show ?thesis using press_verdict(1) [OF assms(1-3,6)] assms(8)
    by (simp add: s32_id [OF s32_range [THEN conjunct1] s32_range [THEN conjunct2]])
qed

text \<open>
  The count of the presses is never reset: the sixth press below three seconds is taken for the six
  clicks, however long after the others.
\<close>

lemma sixth_click:
  assumes "0 \<le> p" "p \<le> q" "q < 2 ^ 62" "q - p < 3000000" and "bKeyPressedCnt (m_stKey s) = 5"
  shows "fst (press (p, q) s) = Key_qrcode_scan"
proof -
  have "uint (word_of_int ((q - p) div 1000) :: u32) = (q - p) div 1000" using assms(2,4) by (intro ms_word) simp_all
  moreover have "(q - p) div 1000 < 3000" using assms(4) by simp
  ultimately have "(word_of_int ((q - p) div 1000) :: u32) < 3000" by (simp add: word_less_def)
  then show ?thesis using press_verdict(1) [OF assms(1-3,5)] by simp
qed

end
