(* ===== verification/Spec2Isabelle.thy ===== *)
theory Spec2Isabelle
  imports Ktd_Props Motor_Props Lis_Props Lis_Limits Lis_Fifo
    Misc_Props Misc_Light Misc_Als_Props Misc_Sound Misc_Drive Misc_Timed Misc_Net
    Diag_Types Diag_Spare Uart_Tool Nfc_Tool Tool_Props Tool_Motor Ble_Props Gpio_Tool Ip_Tool Small_Tools Misc_Keys
begin

text \<open>
  Verification of the first-party device code of this camera firmware: the LED ring driver, the
  motor driver, the accelerometer driver, the diagnostic daemon \<open>pega_misc\<close>, the two command
  line clients that talk to it and the stand-alone tools. Each part is a
  group of theories whose names share a prefix; \<open>Prelude\<close> is common to all.

  Common conventions (\<open>Prelude\<close>). A C function that changes state is a HOL function on an
  explicit state; the I/O it does is a log in that state, newest entry first. The kernel, the
  bus and the hardware are parameters: records of functions from the log so far to an answer, so
  a register may change between two reads and any access may fail. Machine words keep their
  width; signed arithmetic wraps by \<open>s16\<close>, \<open>s32\<close> and \<open>s64\<close>. A fault (division by
  zero, a null or wild pointer, a mutex that nobody will release) is the result \<open>None\<close>; an
  error code is an int; \<open>chk\<close> is the idiom \<open>if (err < 0) return err\<close>. The locales
  \<open>bit_field\<close> and \<open>counted_work\<close> state the laws of register fields and of work items that
  reschedule themselves.

  LED ring, \<open>led/MKD2061/led_src/leds-ktd2061.c\<close>. \<open>Ktd_Device\<close> has the chip state, register
  access and the colour and mode primitives, \<open>Ktd_Chase\<close> the chases, races and flows and their
  work function, \<open>Ktd_Sysfs\<close> the breathing sequences, every attribute and the chip part of the
  probe. \<open>Ktd_Lemmas\<close> says what each operation logs, keeps and how long it sleeps,
  \<open>Ktd_Work\<close> interprets \<open>counted_work\<close> for both work items, \<open>Ktd_Invariant\<close> shows that the
  control fields stay inside their register in every reachable state, and \<open>Ktd_Props\<close> has the
  properties: the control byte decodes, the work items run exactly as often and as long as
  asked, attributes read back, and the deviations of the code.

  Motor, \<open>motor/src\<close>. \<open>Awd_Driver\<close> models \<open>pega_motor_awd8833.c\<close> and \<open>pega_gpio.c\<close>,
  \<open>Motor_Sysfs\<close> the platform driver \<open>motor.c\<close>. \<open>Awd_Steps\<close> is the abstract specification:
  the electrical position of the two coils; the four step functions are interpretations of the
  locale \<open>cyclic_stepper\<close>. \<open>Motor_Lemmas\<close> has the time and pin lemmas, the locale
  \<open>locked_attr\<close> of the attributes and the reachable states, \<open>Motor_Props\<close> the properties.

  Accelerometer, \<open>accelerator/src\<close>. \<open>Lis_Regs\<close> models the state and the inline functions of
  \<open>st_lis2dw12.h\<close>, \<open>Lis_Core\<close> the tables, full scale, rates, raw access and self-test of
  \<open>st_lis2dw12_core.c\<close>, \<open>Lis_Events\<close> the events of \<open>st_lis2dw12_events.c\<close>, and
  \<open>Lis_Buffer\<close> the FIFO of \<open>st_lis2dw12_buffer.c\<close> with the probe, suspend and resume.
  \<open>Lis_Lemmas\<close> has the invariant and one preservation lemma per operation, \<open>Lis_Reach\<close> the
  reachable states and the probe that establishes the invariant, \<open>Lis_Props\<close> the properties
  of rates and events, \<open>Lis_Limits\<close> those of scales, thresholds and durations, and
  \<open>Lis_Fifo\<close> those of the FIFO, the handlers and the self-test.

  Diagnostic daemon, \<open>pegatron-diag/pega_misc/src\<close>. The C files keep their state in static
  variables; here each file's variables extend the record of the files it calls, so the operations
  of one file work on every later state. \<open>C_Text\<close> has the C string functions and \<open>Ieee\<close> the
  rounding of \<open>float\<close> and \<open>double\<close>, \<open>Misc_Gpio\<close> the log of system calls, the pins and the PWM
  channels (\<open>pega_gpio.c\<close>, \<open>pega_pwm.c\<close>), \<open>Misc_Led\<close> the status LED (\<open>pega_led_flash.c\<close>),
  \<open>Misc_Als\<close> the I2C transport and the light sensor, \<open>Misc_Nv\<close> the day and night decision
  (\<open>pega_nv_mode.c\<close>), \<open>Misc_Amp\<close> the amplifier, \<open>Misc_Motor\<close> the motors with their timer,
  \<open>Misc_Main\<close> the Wi-Fi start and the main loop, and \<open>Misc_Run\<close> the two mailboxes, the
  dispatch of events, the start-up and the step relation of the threads. \<open>Misc_Schedule\<close> is the
  event queue of \<open>pega_schedule.c\<close>; \<open>Misc_Queue\<close> specifies it as the list of pending events and
  states its laws as the locale \<open>delayed_queue\<close>, which \<open>Misc_Refine\<close> and \<open>Misc_Props\<close>
  interpret on the twelve slots of the code. \<open>Misc_Frame\<close> says which variables an operation can
  touch, \<open>Misc_Grows\<close> that the log only grows while a diagnostic command is served, \<open>Misc_Reach\<close> has
  the invariant of the reachable states and \<open>Misc_Start\<close> a run of the start-up. The properties are in
  \<open>Misc_Props\<close> (queue and commands), \<open>Misc_Light\<close> (LED, day and night), \<open>Misc_Als_Props\<close> (light sensor),
  \<open>Misc_Sound\<close> (amplifier), \<open>Misc_Drive\<close> (step counts of the motors), \<open>Misc_Coils\<close> and \<open>Misc_Timed\<close> (the
  coils and sleep pins during every pause of a motor, read off the log, and the runs that a timer ends)
  and \<open>Misc_Net\<close> (Wi-Fi, serial port, PWM).

  Command line clients, \<open>pegatron-diag/pega_diag/src\<close> and \<open>pegatron-diag/pega_misc_dbg/src\<close>.
  \<open>Diag_Base\<close> has the state of \<open>pega_diag\<close>, its calls and its view of \<open>argv\<close> (the strings of the
  environment follow the null pointer that ends it, as Linux lays them out), \<open>Diag_Handlers\<close> and
  \<open>Diag_Shell\<close> every handler the main table reaches, \<open>Diag_Table\<close> the tables, the search and
  \<open>main\<close>, \<open>Dbg_Client\<close> the debug client. \<open>Diag_Search\<close> proves the search against a flat list of
  commands, in the locale \<open>command_table\<close> interpreted on the main table; \<open>Diag_Replies\<close> and
  \<open>Diag_Types\<close> say what a run can reply and send; \<open>Diag_Chain\<close> joins client, debug client and
  daemon: from the words of a command line to the pins, the PWM channels and the steps of the
  motors (\<open>Text_Lemmas\<close>: a printed number reads back). \<open>Diag_Types\<close> also follows every message the
  client can send through the switch of the daemon: two of them are not served there. \<open>Diag_Spare\<close> has the handlers of
  the tables that are commented out (burnin, sn, mic, ota, factory): none of them can run.

  Stand-alone tools. \<open>Uart_Tool\<close> is \<open>pega_uart\<close>: the rounds of 10 ms in which it collects what
  arrives, the fault of a full buffer, its \<open>main\<close>. \<open>Nfc_Tool\<close> is \<open>pega_nfc\<close>: every command of
  its \<open>main\<close> on the bus. What it sends is stated for every bus; only for the registers that are plain
  storage, a parameter, is anything assumed of the chip, whose registers are seen through the log. \<open>Tool_I2c\<close> has the
  tools of the I/O expander and of the light sensor (\<open>TCA9538/src\<close>, \<open>OPT300x/src\<close>) and the transport
  they share, \<open>Tool_Amp\<close> the tool of the amplifier (\<open>TAS2563/src\<close>), \<open>Tool_Motor\<close> the motor test
  \<open>pega_motor/src\<close>. The last two repeat code of the daemon, and are translated from their own sources, the
  start-up script of the amplifier included: \<open>Same_Log\<close> states in the locale
  \<open>same_log\<close> when two states of different records do the same I/O, and its interpretations show that
  the tools act on the bus and the pins as the daemon does. \<open>Tool_Props\<close> has their properties.
  \<open>Ble_Tool\<close> is \<open>pega_ble\<close>, which advertises the network address over Bluetooth; \<open>Ble_Props\<close> reads its
  commands back as the bytes the controller gets and says when its wait for the firmware ends.
  \<open>Gpio_Tool\<close> is \<open>pega_gpio\<close> (pins, PWM channels, converter), \<open>Ip_Tool\<close> is \<open>pega_ip\<close> (interfaces and
  addresses), \<open>Small_Tools\<close> has \<open>pega_test\<close>, \<open>pega_rled\<close> and \<open>pega_accread\<close>. \<open>Misc_Keys\<close> is the
  button of the daemon (\<open>pega_gpio_key.c\<close>), whose thread nobody starts.

  Bounds and termination. Every loop of the code is a structural recursion, a fold over the
  C bounds or a function with a measure, so no fuel is used; the two endless loops of
  \<open>awd8833c_second_function_action\<close>, the one of \<open>polling_irq\<close> and the waits of \<open>pega_ble\<close> are
  \<open>partial_function\<close>s whose value \<open>None\<close> is not returning. The loop of the daemon that a timer ends is \<open>while_option\<close>; that it returns is
  proved from what is documented of sleeps and timers and some bound on the lateness (\<open>timer_env\<close>): a
  clock that never goes back and that every sleep advances by at least the time asked for, and a timer
  that expires no earlier than its interval and is seen to have expired at most that bound later. Its endless main loop and threads are
  steps of one round each.

  Not modelled. The Wi-Fi driver and the ST NFC library are vendored third-party code. The remaining
  tools (\<open>pega_int\<close>, \<open>pega_pollacc\<close>, \<open>pega_spi_read\<close>, \<open>pega_spi_loopback\<close>, \<open>pega_nxp\<close>, \<open>audbclk\<close>) only
  print the events of a device or run a fixed sequence of calls, and the interrupt thread, the converter
  and the I/O expander of the daemon are never started or called. Kernel registration
  (module entry, i2c and platform tables, channel tables) is data the kernel interprets. Work
  items and interrupts run as whole steps: preemption inside an operation is not modelled. The
  shell scripts the client runs are outside the source; the model says which command lines it runs.
  The message queues between clients and daemon carry a message as it is: their \<open>int\<close> message type
  is right only where a \<open>long\<close> has 32 bits.
\<close>

end
